(* ===== verification/AquaPrelude.thy ===== *)
theory AquaPrelude
  imports Main "HOL-Library.Word"
begin

unbundle bit_operations_syntax

text \<open>
  Shared vocabulary of the development: the machine integer types of the firmware, byte buffers
  with the two accesses C code makes to them (a read of a range, a write of a range), and the
  generic lemmas on them. \<open>write_at\<close> and \<open>range_at\<close> are only ever used inside the buffer's bounds,
  which the length lemmas below keep as a side condition.
\<close>

type_synonym u8 = "8 word"
type_synonym u16 = "16 word"
type_synonym u32 = "32 word"
type_synonym u64 = "64 word"
type_synonym bytes = "u8 list"

named_theorems buffer_simps \<open>reads after writes of byte buffers\<close>

text \<open>\<open>size_t\<close> on the 32-bit ESP32 targets: the largest value of the type.\<close>

definition SIZE_MAX :: nat where
  "SIZE_MAX = 4294967295"

definition UINT32_MAX :: nat where
  "UINT32_MAX = 4294967295"

text \<open>\<open>memcpy(buf + off, xs, length xs)\<close> and the range \<open>[off, off + n)\<close> of a buffer.\<close>

definition write_at :: "'a list \<Rightarrow> nat \<Rightarrow> 'a list \<Rightarrow> 'a list" where
  "write_at buf off xs = take off buf @ xs @ drop (off + length xs) buf"

definition range_at :: "'a list \<Rightarrow> nat \<Rightarrow> nat \<Rightarrow> 'a list" where
  "range_at buf off n = take n (drop off buf)"

lemma length_write_at [simp]:
  "off + length xs \<le> length buf \<Longrightarrow> length (write_at buf off xs) = length buf"
  by (simp add: write_at_def)

lemma length_range_at [simp]:
  "off + n \<le> length buf \<Longrightarrow> length (range_at buf off n) = n"
  by (simp add: range_at_def)

lemma range_at_write_at_same [buffer_simps]:
  "off + length xs \<le> length buf \<Longrightarrow> n = length xs \<Longrightarrow> range_at (write_at buf off xs) off n = xs"
  by (simp add: range_at_def write_at_def)

lemma range_at_write_at_before [buffer_simps]:
  assumes "o1 + n \<le> off" and "off + length xs \<le> length buf"
  shows "range_at (write_at buf off xs) o1 n = range_at buf o1 n"
  using assms by (simp add: range_at_def write_at_def take_drop min_def)

lemma range_at_write_at_after [buffer_simps]:
  assumes "off + length xs \<le> o1" and "off + length xs \<le> length buf"
  shows "range_at (write_at buf off xs) o1 n = range_at buf o1 n"
  using assms by (simp add: range_at_def write_at_def)

lemma nth_write_at [buffer_simps]:
  assumes "off + length xs \<le> length buf" and "i < length buf"
  shows "write_at buf off xs ! i =
    (if i < off then buf ! i else if i < off + length xs then xs ! (i - off) else buf ! i)"
  using assms by (auto simp: write_at_def nth_append)

lemma range_at_full [simp]: "range_at buf 0 (length buf) = buf"
  by (simp add: range_at_def)

lemma range_at_0_ge: "length buf \<le> n \<Longrightarrow> range_at buf 0 n = buf"
  by (simp add: range_at_def)

lemma range_at_range_at:
  "o1 + n1 \<le> n \<Longrightarrow> range_at (range_at buf off n) o1 n1 = range_at buf (off + o1) n1"
  unfolding range_at_def by (simp add: drop_take min_absorb1 add.commute)

lemma range_at_nth: "i < n \<Longrightarrow> off + n \<le> length buf \<Longrightarrow> range_at buf off n ! i = buf ! (off + i)"
  by (simp add: range_at_def)

lemma unat_Suc_less:
  fixes x y :: "'a::len word"
  assumes "x < y"
  shows "unat (x + 1) = Suc (unat x)"
proof -
  have "Suc (unat x) < 2 ^ LENGTH('a)"
    by (rule le_less_trans [of _ "unat y"]) (use assms in \<open>simp_all add: word_less_nat_alt Suc_le_eq\<close>)
  then show ?thesis by (simp add: unat_word_ariths)
qed

end
