(* ===== verification/ByteCodec.thy ===== *)
theory ByteCodec
  imports AquaPrelude
begin

text \<open>
  The record codec of \<open>aquaOneCore/src/Config\<close>: little-endian access to 16 and 32 bit fields of
  the record buffer (\<open>StorageService::readUint16\<close> to \<open>writeUint32\<close>; the pointer argument
  \<open>data\<close> is the buffer and an offset) and the bitwise CRC-32 of \<open>Crc32.cpp\<close>.
\<close>

section \<open>Little-endian fields\<close>

definition readUint16 :: "bytes \<Rightarrow> nat \<Rightarrow> u16" where
  "readUint16 buf off = ucast (buf ! off) OR push_bit 8 (ucast (buf ! (off + 1)))"

definition readUint32 :: "bytes \<Rightarrow> nat \<Rightarrow> u32" where
  "readUint32 buf off =
     ucast (buf ! off) OR push_bit 8 (ucast (buf ! (off + 1))) OR
     push_bit 16 (ucast (buf ! (off + 2))) OR push_bit 24 (ucast (buf ! (off + 3)))"

definition writeUint16 :: "bytes \<Rightarrow> nat \<Rightarrow> u16 \<Rightarrow> bytes" where
  "writeUint16 buf off v = write_at buf off [ucast v, ucast (drop_bit 8 v)]"

definition writeUint32 :: "bytes \<Rightarrow> nat \<Rightarrow> u32 \<Rightarrow> bytes" where
  "writeUint32 buf off v =
     write_at buf off
       [ucast v, ucast (drop_bit 8 v), ucast (drop_bit 16 v), ucast (drop_bit 24 v)]"

lemma uint16_bytes:
  "(ucast (ucast v :: u8) :: u16) OR push_bit 8 (ucast (ucast (drop_bit 8 v) :: u8)) = v"
  for v :: u16
  by (rule bit_word_eqI) (auto simp: bit_simps)

lemma uint32_bytes:
  "(ucast (ucast v :: u8) :: u32) OR push_bit 8 (ucast (ucast (drop_bit 8 v) :: u8)) OR
   push_bit 16 (ucast (ucast (drop_bit 16 v) :: u8)) OR
   push_bit 24 (ucast (ucast (drop_bit 24 v) :: u8)) = v"
  for v :: u32
proof (rule bit_word_eqI)
  fix n
  assume n: "n < LENGTH(32)"
  consider "n < 8" | "8 \<le> n \<and> n < 16" | "16 \<le> n \<and> n < 24" | "24 \<le> n" by linarith
  then show "bit ((ucast (ucast v :: u8) :: u32) OR push_bit 8 (ucast (ucast (drop_bit 8 v) :: u8)) OR
      push_bit 16 (ucast (ucast (drop_bit 16 v) :: u8)) OR
      push_bit 24 (ucast (ucast (drop_bit 24 v) :: u8))) n = bit v n"
    by cases (use n in \<open>auto simp: bit_simps\<close>)
qed

lemma length_writeUint16 [simp]:
  "off + 2 \<le> length buf \<Longrightarrow> length (writeUint16 buf off v) = length buf"
  by (simp add: writeUint16_def)

lemma length_writeUint32 [simp]:
  "off + 4 \<le> length buf \<Longrightarrow> length (writeUint32 buf off v) = length buf"
  by (simp add: writeUint32_def)

lemma readUint16_writeUint16 [buffer_simps]:
  "off + 2 \<le> length buf \<Longrightarrow> readUint16 (writeUint16 buf off v) off = v"
  by (simp add: readUint16_def writeUint16_def nth_write_at uint16_bytes)

lemma readUint32_writeUint32 [buffer_simps]:
  "off + 4 \<le> length buf \<Longrightarrow> readUint32 (writeUint32 buf off v) off = v"
  by (simp add: readUint32_def writeUint32_def nth_write_at uint32_bytes)

text \<open>A field is read through a range_at, so a write outside it leaves it alone.\<close>

lemma range_at_eq_nth:
  assumes "range_at b1 off n = range_at b2 off n" "off + n \<le> length b1" "off + n \<le> length b2" "i < n"
  shows "b1 ! (off + i) = b2 ! (off + i)"
  using range_at_nth [OF assms(4,2)] range_at_nth [OF assms(4,3)] assms(1) by simp

lemma readUint16_cong:
  "range_at b1 off 2 = range_at b2 off 2 \<Longrightarrow> off + 2 \<le> length b1 \<Longrightarrow> off + 2 \<le> length b2 \<Longrightarrow>
   readUint16 b1 off = readUint16 b2 off"
  using range_at_eq_nth [of b1 off 2 b2 0] range_at_eq_nth [of b1 off 2 b2 1]
  by (simp add: readUint16_def)

lemma readUint32_cong:
  assumes "range_at b1 off 4 = range_at b2 off 4" "off + 4 \<le> length b1" "off + 4 \<le> length b2"
  shows "readUint32 b1 off = readUint32 b2 off"
  using range_at_eq_nth [OF assms, of 0] range_at_eq_nth [OF assms, of 1]
    range_at_eq_nth [OF assms, of 2] range_at_eq_nth [OF assms, of 3]
  by (simp add: readUint32_def)

text \<open>Writes to one place and reads of another.\<close>

lemma readUint16_write_other [buffer_simps]:
  assumes "o1 + 2 \<le> off \<or> off + length xs \<le> o1" "off + length xs \<le> length buf" "o1 + 2 \<le> length buf"
  shows "readUint16 (write_at buf off xs) o1 = readUint16 buf o1"
  by (rule readUint16_cong) (use assms in \<open>auto simp: buffer_simps\<close>)

lemma readUint32_write_other [buffer_simps]:
  assumes "o1 + 4 \<le> off \<or> off + length xs \<le> o1" "off + length xs \<le> length buf" "o1 + 4 \<le> length buf"
  shows "readUint32 (write_at buf off xs) o1 = readUint32 buf o1"
  by (rule readUint32_cong) (use assms in \<open>auto simp: buffer_simps\<close>)

lemma writeUint_frames [buffer_simps]:
  assumes "o1 + n \<le> off \<or> off + 4 \<le> o1" "off + 4 \<le> length buf"
  shows "range_at (writeUint32 buf off v) o1 n = range_at buf o1 n"
  using assms by (auto simp: writeUint32_def buffer_simps)

lemma readUint32_writeUint32_other [buffer_simps]:
  assumes "o1 + 4 \<le> off \<or> off + 4 \<le> o1" "off + 4 \<le> length buf" "o1 + 4 \<le> length buf"
  shows "readUint32 (writeUint32 buf off v) o1 = readUint32 buf o1"
  unfolding writeUint32_def by (rule readUint32_write_other) (use assms in auto)

lemma readUint16_writeUint32_other [buffer_simps]:
  assumes "o1 + 2 \<le> off \<or> off + 4 \<le> o1" "off + 4 \<le> length buf" "o1 + 2 \<le> length buf"
  shows "readUint16 (writeUint32 buf off v) o1 = readUint16 buf o1"
  unfolding writeUint32_def by (rule readUint16_write_other) (use assms in auto)

lemma readUint16_writeUint16_other [buffer_simps]:
  assumes "o1 + 2 \<le> off \<or> off + 2 \<le> o1" "off + 2 \<le> length buf" "o1 + 2 \<le> length buf"
  shows "readUint16 (writeUint16 buf off v) o1 = readUint16 buf o1"
  unfolding writeUint16_def by (rule readUint16_write_other) (use assms in auto)

lemma readUint32_writeUint16_other [buffer_simps]:
  assumes "o1 + 4 \<le> off \<or> off + 2 \<le> o1" "off + 2 \<le> length buf" "o1 + 4 \<le> length buf"
  shows "readUint32 (writeUint16 buf off v) o1 = readUint32 buf o1"
  unfolding writeUint16_def by (rule readUint32_write_other) (use assms in auto)

section \<open>CRC-32\<close>

text \<open>One round of the inner loop, the eight rounds of one byte, and the outer loop.\<close>

definition crc32_bit :: "u32 \<Rightarrow> u32" where
  "crc32_bit crc = (let mask = 0 - (crc AND 1) in drop_bit 1 crc XOR (0xEDB88320 AND mask))"

definition crc32_byte :: "u32 \<Rightarrow> u8 \<Rightarrow> u32" where
  "crc32_byte crc b = (crc32_bit ^^ 8) (crc XOR ucast b)"

fun crc32_loop :: "u32 \<Rightarrow> bytes \<Rightarrow> u32" where
  "crc32_loop crc [] = crc"
| "crc32_loop crc (b # bs) = crc32_loop (crc32_byte crc b) bs"

text \<open>\<open>crc32(data, length)\<close>; \<open>None\<close> is the null pointer.\<close>

definition crc32 :: "bytes option \<Rightarrow> nat \<Rightarrow> u32" where
  "crc32 data n =
     (case data of
        None \<Rightarrow> if n \<noteq> 0 then 0 else 0xFFFFFFFF XOR 0xFFFFFFFF
      | Some bs \<Rightarrow> crc32_loop 0xFFFFFFFF (take n bs) XOR 0xFFFFFFFF)"

section \<open>Linearity and error detection of the CRC\<close>

text \<open>
  A round is linear over XOR and invertible, so the register after a message determines the
  register before it, and four message bytes enter it as one 32 bit word.
\<close>

lemma crc32_bit_alt: "crc32_bit x = drop_bit 1 x XOR (if odd x then 0xEDB88320 else 0)"
proof (cases "odd x")
  case True
  then have "x AND 1 = 1" by (simp add: and_one_eq odd_iff_mod_2_eq_one)
  with True show ?thesis by (simp add: crc32_bit_def)
next
  case False
  then have "x AND 1 = 0" by (simp add: and_one_eq even_iff_mod_2_eq_zero)
  with False show ?thesis by (simp add: crc32_bit_def)
qed

lemma crc32_bit_xor: "crc32_bit (a XOR b) = crc32_bit a XOR crc32_bit b"
  by (simp add: crc32_bit_alt even_xor_iff ac_simps)

lemma crc32_bit_0 [simp]: "crc32_bit 0 = 0"
  by (simp add: crc32_bit_alt)

lemma crc32_bit_eq_0: "crc32_bit x = 0 \<Longrightarrow> x = 0"
proof -
  assume z: "crc32_bit x = 0"
  have "bit (drop_bit 1 x) 31 = False"
    using bit_imp_le_length [of x 32] by (auto simp: bit_simps)
  then have "bit (crc32_bit x) 31 = odd x"
    by (simp add: crc32_bit_alt bit_xor_iff)
  with z have e: "even x" by simp
  with z have "drop_bit 1 x = 0" by (simp add: crc32_bit_alt)
  then have "x div 2 = 0" by (simp add: drop_bit_Suc)
  with e show "x = 0"
    by (subst bit_eq_rec) simp
qed

lemma crc32_pow_xor: "(crc32_bit ^^ n) (a XOR b) = (crc32_bit ^^ n) a XOR (crc32_bit ^^ n) b"
  by (induction n) (simp_all add: crc32_bit_xor)

lemma crc32_pow_eq_0: "(crc32_bit ^^ n) x = 0 \<Longrightarrow> x = 0"
  by (induction n) (auto dest: crc32_bit_eq_0)

lemma xor_eq_0: "a XOR b = 0 \<Longrightarrow> a = b" for a b :: "'a::len word"
  by (rule bit_word_eqI) (metis bit_0_eq bit_xor_iff bot_apply bot_bool_def)

lemma xor_cancel_right: "a XOR c = b XOR c \<longleftrightarrow> a = b" for a b c :: "'a::len word"
  by (metis xor.assoc xor.right_neutral xor_self_eq)

lemma crc32_pow_inj: "(crc32_bit ^^ n) a = (crc32_bit ^^ n) b \<Longrightarrow> a = b"
proof -
  assume "(crc32_bit ^^ n) a = (crc32_bit ^^ n) b"
  then have "(crc32_bit ^^ n) (a XOR b) = 0" by (simp add: crc32_pow_xor)
  then show "a = b" using crc32_pow_eq_0 xor_eq_0 by blast
qed

text \<open>A word whose low \<open>n\<close> bits are clear is only shifted by \<open>n\<close> rounds.\<close>

lemma crc32_pow_shift:
  "(\<And>i. i < n \<Longrightarrow> \<not> bit x i) \<Longrightarrow> (crc32_bit ^^ n) x = drop_bit n x"
proof (induction n arbitrary: x)
  case 0 then show ?case by simp
next
  case (Suc n)
  have "even x" using Suc.prems [of 0] by (simp add: bit_0)
  then have 1: "crc32_bit x = drop_bit 1 x" by (simp add: crc32_bit_alt)
  have "(crc32_bit ^^ Suc n) x = (crc32_bit ^^ n) (drop_bit 1 x)"
    by (simp add: funpow_swap1 1)
  also have "\<dots> = drop_bit n (drop_bit 1 x)"
    by (rule Suc.IH) (use Suc.prems in \<open>auto simp: bit_simps\<close>)
  finally show ?case by (simp add: drop_bit_drop_bit)
qed

lemma crc32_loop_append: "crc32_loop c (xs @ ys) = crc32_loop (crc32_loop c xs) ys"
  by (induction xs arbitrary: c) simp_all

lemma crc32_byte_inj_state: "crc32_byte a x = crc32_byte b x \<Longrightarrow> a = b"
  unfolding crc32_byte_def by (drule crc32_pow_inj) (simp add: xor_cancel_right)

lemma crc32_loop_inj_state: "crc32_loop a xs = crc32_loop b xs \<Longrightarrow> a = b"
  by (induction xs arbitrary: a b) (auto dest: crc32_byte_inj_state)

lemma crc32_pow_ucast:
  fixes b :: u8
  assumes "k \<le> 3"
  shows "(crc32_bit ^^ (8 * k)) (push_bit (8 * k) (ucast b)) = ucast b"
proof -
  have "(crc32_bit ^^ (8 * k)) (push_bit (8 * k) (ucast b)) =
      drop_bit (8 * k) (push_bit (8 * k) (ucast b :: u32))"
    by (rule crc32_pow_shift) (auto simp: bit_simps)
  also have "\<dots> = ucast b"
    by (rule bit_word_eqI) (use assms in \<open>auto simp: bit_simps dest: bit_imp_le_length\<close>)
  finally show ?thesis .
qed

definition pack4 :: "u8 \<Rightarrow> u8 \<Rightarrow> u8 \<Rightarrow> u8 \<Rightarrow> u32" where
  "pack4 b0 b1 b2 b3 = ucast b0 XOR push_bit 8 (ucast b1) XOR push_bit 16 (ucast b2) XOR
     push_bit 24 (ucast b3)"

lemma crc32_loop_block:
  "crc32_loop s [b0, b1, b2, b3] = (crc32_bit ^^ 32) (s XOR pack4 b0 b1 b2 b3)"
proof -
  let ?p = "\<lambda>n. crc32_bit ^^ (n::nat)"
  have c: "?p 8 (?p n x) = ?p (8 + n) x" for n x by (simp only: funpow_add comp_apply)
  have u: "?p 8 (push_bit 8 (ucast b1)) = ucast b1" "?p 16 (push_bit 16 (ucast b2)) = ucast b2"
    "?p 24 (push_bit 24 (ucast b3)) = ucast b3"
    using crc32_pow_ucast [of 1 b1] crc32_pow_ucast [of 2 b2] crc32_pow_ucast [of 3 b3] by simp_all
  have 1: "?p 8 x XOR ucast b1 = ?p 8 (x XOR push_bit 8 (ucast b1))" for x
    by (simp only: crc32_pow_xor u)
  have 2: "?p 16 x XOR ucast b2 = ?p 16 (x XOR push_bit 16 (ucast b2))" for x
    by (simp only: crc32_pow_xor u)
  have 3: "?p 24 x XOR ucast b3 = ?p 24 (x XOR push_bit 24 (ucast b3))" for x
    by (simp only: crc32_pow_xor u)
  have n: "(8::nat) + 8 = 16" "(8::nat) + 16 = 24" "(8::nat) + 24 = 32" by simp_all
  have "crc32_loop s [b0, b1, b2, b3] =
      ?p 32 ((((s XOR ucast b0) XOR push_bit 8 (ucast b1)) XOR push_bit 16 (ucast b2)) XOR
        push_bit 24 (ucast b3))"
    by (simp only: crc32_loop.simps crc32_byte_def 1 2 3 c n)
  then show ?thesis by (simp only: pack4_def xor.assoc)
qed

lemma pack4_inj: "pack4 a0 a1 a2 a3 = pack4 b0 b1 b2 b3 \<Longrightarrow> [a0, a1, a2, a3] = [b0, b1, b2, b3]"
proof -
  assume eq: "pack4 a0 a1 a2 a3 = pack4 b0 b1 b2 b3"
  have bits: "bit (pack4 c0 c1 c2 c3) n = bit c0 n" "bit (pack4 c0 c1 c2 c3) (8 + n) = bit c1 n"
    "bit (pack4 c0 c1 c2 c3) (16 + n) = bit c2 n" "bit (pack4 c0 c1 c2 c3) (24 + n) = bit c3 n"
    if "n < 8" for n c0 c1 c2 c3
    using that by (auto simp: pack4_def bit_simps dest: bit_imp_le_length)
  have "bit a0 n = bit b0 n" "bit a1 n = bit b1 n" "bit a2 n = bit b2 n" "bit a3 n = bit b3 n"
    if "n < 8" for n
    using bits [OF that] eq by metis+
  then have "a0 = b0" "a1 = b1" "a2 = b2" "a3 = b3"
    by (auto intro!: bit_word_eqI)
  then show ?thesis by simp
qed

lemma crc32_loop_inj_block4:
  assumes "length xs = 4" "length ys = 4" "crc32_loop s xs = crc32_loop s ys"
  shows "xs = ys"
proof -
  obtain a0 a1 a2 a3 where xs: "xs = [a0, a1, a2, a3]"
    using assms(1) by (auto simp: numeral_eq_Suc length_Suc_conv)
  obtain b0 b1 b2 b3 where ys: "ys = [b0, b1, b2, b3]"
    using assms(2) by (auto simp: numeral_eq_Suc length_Suc_conv)
  have "(crc32_bit ^^ 32) (s XOR pack4 a0 a1 a2 a3) = (crc32_bit ^^ 32) (s XOR pack4 b0 b1 b2 b3)"
    using assms(3) unfolding xs ys crc32_loop_block .
  then have "s XOR pack4 a0 a1 a2 a3 = s XOR pack4 b0 b1 b2 b3" by (rule crc32_pow_inj)
  then have "pack4 a0 a1 a2 a3 = pack4 b0 b1 b2 b3" by (simp add: xor.commute [of s] xor_cancel_right)
  then show ?thesis unfolding xs ys by (rule pack4_inj)
qed

lemma crc32_loop_inj_block:
  assumes "length xs = length ys" "length xs \<le> 4" "crc32_loop s xs = crc32_loop s ys"
  shows "xs = ys"
proof -
  let ?z = "replicate (4 - length xs) (0 :: u8)"
  have "crc32_loop s (xs @ ?z) = crc32_loop s (ys @ ?z)"
    using assms(3) by (simp add: crc32_loop_append)
  then have "xs @ ?z = ys @ ?z"
    by (rule crc32_loop_inj_block4 [rotated 2]) (use assms in simp_all)
  then show ?thesis by simp
qed

lemma readUint32_pack4:
  "readUint32 buf off = pack4 (buf ! off) (buf ! (off + 1)) (buf ! (off + 2)) (buf ! (off + 3))"
  by (rule bit_word_eqI)
    (auto simp: readUint32_def pack4_def bit_simps dest: bit_imp_le_length)

definition crc32_residue :: u32 where
  "crc32_residue = (crc32_bit ^^ 32) 0xFFFFFFFF XOR 0xFFFFFFFF"

lemma crc32_residue:
  assumes "off + 4 \<le> length bs" "crc32 (Some bs) off = readUint32 bs off"
  shows "crc32 (Some bs) (off + 4) = crc32_residue"
proof -
  let ?w = "[bs ! off, bs ! (off + 1), bs ! (off + 2), bs ! (off + 3)]"
  have "take 4 (drop off bs) = ?w"
    using assms(1) by (intro nth_equalityI) (auto simp: nth_Cons' less_Suc_eq numeral_eq_Suc)
  then have "take (off + 4) bs = take off bs @ ?w" by (simp add: take_add)
  then have "crc32 (Some bs) (off + 4) =
      (crc32_bit ^^ 32) (crc32_loop 0xFFFFFFFF (take off bs) XOR readUint32 bs off) XOR 0xFFFFFFFF"
    by (simp add: crc32_def crc32_loop_append crc32_loop_block readUint32_pack4
      del: crc32_loop.simps)
  also have "crc32_loop 0xFFFFFFFF (take off bs) XOR readUint32 bs off = 0xFFFFFFFF"
    by (simp add: assms(2) [symmetric] crc32_def xor.assoc [symmetric])
  finally show ?thesis by (simp add: crc32_residue_def)
qed

lemma crc32_loop_burst:
  assumes "length xs = length ys" "length xs \<le> 4" "xs \<noteq> ys"
  shows "crc32_loop s (p @ xs @ q) \<noteq> crc32_loop s (p @ ys @ q)"
proof
  assume "crc32_loop s (p @ xs @ q) = crc32_loop s (p @ ys @ q)"
  then have "crc32_loop (crc32_loop s p) xs = crc32_loop (crc32_loop s p) ys"
    by (auto simp: crc32_loop_append dest: crc32_loop_inj_state)
  with assms crc32_loop_inj_block show False by blast
qed

lemma crc32_burst_prefix:
  assumes "length xs = length ys" "length xs \<le> 4"
    and "take n (p @ xs @ q) \<noteq> take n (p @ ys @ q)"
  shows "crc32 (Some (p @ xs @ q)) n \<noteq> crc32 (Some (p @ ys @ q)) n"
proof -
  let ?k = "n - length p"
  have ne2: "take ?k xs \<noteq> take ?k ys" using assms(1,3) by auto
  then have "?k \<noteq> 0" by (cases "?k = 0") auto
  with ne2 have ne: "length p \<le> n" "take ?k xs \<noteq> take ?k ys" by simp_all
  let ?q = "take (?k - length xs) q"
  have t: "take n (p @ xs @ q) = p @ take ?k xs @ ?q" "take n (p @ ys @ q) = p @ take ?k ys @ ?q"
    using ne(1) assms(1) by simp_all
  have "crc32_loop 0xFFFFFFFF (p @ take ?k xs @ ?q) \<noteq> crc32_loop 0xFFFFFFFF (p @ take ?k ys @ ?q)"
    by (rule crc32_loop_burst) (use assms(1,2) ne(2) in simp_all)
  then show ?thesis by (simp only: crc32_def option.case t xor_cancel_right not_False_eq_True)
qed

lemma crc32_byte_rounds:
  "crc32_byte c b = crc32_bit (crc32_bit (crc32_bit (crc32_bit (crc32_bit (crc32_bit (crc32_bit
     (crc32_bit (c XOR ucast b))))))))"
  by (simp add: crc32_byte_def eval_nat_numeral)

text \<open>The standard check value of the polynomial: the CRC of the ASCII digits \<open>123456789\<close>.\<close>

lemma crc32_check_value:
  "crc32 (Some [0x31, 0x32, 0x33, 0x34, 0x35, 0x36, 0x37, 0x38, 0x39]) 9 = 0xCBF43926"
  by (simp add: crc32_def crc32_byte_rounds crc32_bit_alt)

lemma crc32_take: "crc32 (Some (take n bs)) n = crc32 (Some bs) n"
  by (simp add: crc32_def)

lemma crc32_range: "crc32 (Some (drop off buf)) n = crc32 (Some (range_at buf off n)) n"
  by (simp add: crc32_def range_at_def)

end
