(* ===== verification/StorageBackend.thy ===== *)
theory StorageBackend
  imports AquaPrelude
begin

text \<open>
  The blob store below the configuration storage: the abstract class \<open>StorageBackend\<close>
  (\<open>StorageBackend.h\<close>) as a record of operations on a backend state \<open>'b\<close>, the contracts a client
  relies on as locales, and the adapter \<open>PreferencesStorageBackend\<close>. The Arduino \<open>Preferences\<close>
  library (ESP-IDF NVS) is not in the repository: it is a parameter, the record
  \<open>preferences_ops\<close>, and its documented behaviour is the locale \<open>preferences_library\<close>.
\<close>

section \<open>The interface\<close>

text \<open>A \<open>const char*\<close>: \<open>None\<close> is the null pointer, the list holds the characters before the NUL.\<close>

type_synonym cstr = "string option"

text \<open>
  \<open>readBlob(key, output, maximumLength)\<close> gives the count it returns and the bytes it stored at the
  start of \<open>output\<close>; \<open>writeBlob\<close> gives the count it returns.
\<close>

record 'b backend_ops =
  beBegin :: "'b \<Rightarrow> cstr \<Rightarrow> bool \<times> 'b"
  beEnd :: "'b \<Rightarrow> 'b"
  beBlobLength :: "'b \<Rightarrow> cstr \<Rightarrow> nat \<times> 'b"
  beReadBlob :: "'b \<Rightarrow> cstr \<Rightarrow> nat \<Rightarrow> nat \<times> bytes \<times> 'b"
  beWriteBlob :: "'b \<Rightarrow> cstr \<Rightarrow> bytes \<Rightarrow> nat \<times> 'b"

section \<open>Contracts\<close>

text \<open>
  What any backend keeps, also one that fails or returns garbage: reads change no stored blob and
  stay inside the output buffer, a write touches the blob of its own key only (whatever it leaves
  there), and opening the namespace changes nothing stored.
\<close>

locale blob_frame =
  fixes ops :: "'b backend_ops"
    and blobs :: "'b \<Rightarrow> cstr \<Rightarrow> bytes"
  assumes begin_frame: "blobs (snd (beBegin ops b ns)) = blobs b"
    and length_frame: "blobs (snd (beBlobLength ops b k)) = blobs b"
    and read_frame: "blobs (snd (snd (beReadBlob ops b k n))) = blobs b"
    and read_bounded: "length (fst (snd (beReadBlob ops b k n))) \<le> n"
    and write_frame: "k' \<noteq> k \<Longrightarrow> blobs (snd (beWriteBlob ops b k xs)) k' = blobs b k'"

text \<open>
  A backend whose reads are right, whatever its writes do: what is read is what is stored. This is
  what is left of a flash store when the power fails during a write.
\<close>

locale blob_reads = blob_frame +
  assumes length_stored: "fst (beBlobLength ops b k) = length (blobs b k)"
    and read_stored: "length (blobs b k) \<le> n \<Longrightarrow>
      fst (beReadBlob ops b k n) = length (blobs b k) \<and> fst (snd (beReadBlob ops b k n)) = blobs b k"

text \<open>A working backend: in addition, a nonempty write under a non-null key is stored whole.\<close>

locale blob_store = blob_reads +
  assumes write_stored: "xs \<noteq> [] \<Longrightarrow> k \<noteq> None \<Longrightarrow>
      fst (beWriteBlob ops b k xs) = length xs \<and> blobs (snd (beWriteBlob ops b k xs)) k = xs"

section \<open>The Preferences adapter\<close>

text \<open>The calls the adapter makes on its \<open>PreferencesType\<close> member.\<close>

record 'p preferences_ops =
  prefBegin :: "'p \<Rightarrow> cstr \<Rightarrow> bool \<Rightarrow> bool \<times> 'p"
  prefEnd :: "'p \<Rightarrow> 'p"
  prefGetBytesLength :: "'p \<Rightarrow> cstr \<Rightarrow> nat \<times> 'p"
  prefGetBytes :: "'p \<Rightarrow> cstr \<Rightarrow> nat \<Rightarrow> nat \<times> bytes \<times> 'p"
  prefPutBytes :: "'p \<Rightarrow> cstr \<Rightarrow> bytes \<Rightarrow> nat \<times> 'p"

definition preferencesStorageBackend :: "'p preferences_ops \<Rightarrow> 'p backend_ops" where
  "preferencesStorageBackend prefs =
     \<lparr>beBegin = (\<lambda>p ns. prefBegin prefs p ns False),
      beEnd = prefEnd prefs,
      beBlobLength = prefGetBytesLength prefs,
      beReadBlob = prefGetBytes prefs,
      beWriteBlob = prefPutBytes prefs\<rparr>"

text \<open>
  The documented behaviour of \<open>Preferences\<close>: \<open>getBytesLength\<close> is the stored size (0 for no
  entry), \<open>getBytes\<close> copies the entry when it fits, and entries of other keys are left alone by
  \<open>putBytes\<close>. A \<open>putBytes\<close> may fail: it may answer any count and leave anything under its own key
  (a full or worn flash memory, a short write, a power failure).
\<close>

locale preferences_reads =
  fixes prefs :: "'p preferences_ops"
    and entries :: "'p \<Rightarrow> cstr \<Rightarrow> bytes"
  assumes pref_begin: "entries (snd (prefBegin prefs p ns ro)) = entries p"
    and pref_length: "fst (prefGetBytesLength prefs p k) = length (entries p k)"
    and pref_length_frame: "entries (snd (prefGetBytesLength prefs p k)) = entries p"
    and pref_get: "length (entries p k) \<le> n \<Longrightarrow>
      fst (prefGetBytes prefs p k n) = length (entries p k) \<and>
      fst (snd (prefGetBytes prefs p k n)) = entries p k"
    and pref_get_bounded: "length (fst (snd (prefGetBytes prefs p k n))) \<le> n"
    and pref_get_frame: "entries (snd (snd (prefGetBytes prefs p k n))) = entries p"
    and pref_put_frame: "k' \<noteq> k \<Longrightarrow> entries (snd (prefPutBytes prefs p k xs)) k' = entries p k'"

text \<open>A library whose writes work: \<open>putBytes\<close> stores a nonempty value under a non-null key and returns its size.\<close>

locale preferences_library = preferences_reads +
  assumes pref_put: "xs \<noteq> [] \<Longrightarrow> k \<noteq> None \<Longrightarrow>
      fst (prefPutBytes prefs p k xs) = length xs \<and> entries (snd (prefPutBytes prefs p k xs)) k = xs"

sublocale preferences_reads \<subseteq> prefReads: blob_reads "preferencesStorageBackend prefs" entries
  by unfold_locales
    (simp_all add: preferencesStorageBackend_def pref_begin pref_length pref_length_frame pref_get
      pref_get_bounded pref_get_frame pref_put_frame)

sublocale preferences_library \<subseteq> prefStore: blob_store "preferencesStorageBackend prefs" entries
  by unfold_locales (simp add: preferencesStorageBackend_def pref_put)

context preferences_reads
begin

lemma reads_adapter: "blob_reads (preferencesStorageBackend prefs) entries"
  by unfold_locales

end

context preferences_library
begin

lemma adapter_reads: "blob_reads (preferencesStorageBackend prefs) entries"
  by (rule reads_adapter)

lemma adapter_store: "blob_store (preferencesStorageBackend prefs) entries"
  by unfold_locales

lemma library_reads: "preferences_reads prefs entries"
  by unfold_locales

end

text \<open>
  Three instances for concrete runs, with the entries themselves as the state. The first obeys the
  laws of a working library, which shows that they can hold together; the second loses the last byte of every
  write, the third has no room for a write: these two only read right.
\<close>

definition kvPreferences :: "(cstr \<Rightarrow> bytes) preferences_ops" where
  "kvPreferences =
     \<lparr>prefBegin = (\<lambda>p ns ro. (True, p)),
      prefEnd = (\<lambda>p. p),
      prefGetBytesLength = (\<lambda>p k. (length (p k), p)),
      prefGetBytes = (\<lambda>p k n. if length (p k) \<le> n then (length (p k), p k, p) else (0, [], p)),
      prefPutBytes = (\<lambda>p k xs. if xs = [] \<or> k = None then (0, p) else (length xs, p(k := xs)))\<rparr>"

definition tornPreferences :: "(cstr \<Rightarrow> bytes) preferences_ops" where
  "tornPreferences =
     kvPreferences\<lparr>prefPutBytes := (\<lambda>p k xs. (length xs, p(k := butlast xs)))\<rparr>"

definition fullPreferences :: "(cstr \<Rightarrow> bytes) preferences_ops" where
  "fullPreferences = kvPreferences\<lparr>prefPutBytes := (\<lambda>p k xs. (0, p))\<rparr>"

interpretation kvPrefs: preferences_library kvPreferences "\<lambda>p. p"
  by unfold_locales (auto simp: kvPreferences_def)

interpretation tornPrefs: preferences_reads tornPreferences "\<lambda>p. p"
  by unfold_locales (auto simp: tornPreferences_def kvPreferences_def)

interpretation fullPrefs: preferences_reads fullPreferences "\<lambda>p. p"
  by unfold_locales (auto simp: fullPreferences_def kvPreferences_def)

end
