(* ===== verification/StorageService.thy ===== *)
theory StorageService
  imports ByteCodec StorageBackend
begin

text \<open>
  The dual-slot configuration store \<open>aquaOneCore/src/Config/StorageService.cpp\<close>: a record with a
  24 byte header (magic, format, schema, length, generation, two CRCs) is kept in one of two
  slots; the newest valid one wins and a save goes to the other slot. The state of the class is
  the record \<open>storage_service\<close>, the methods are functions on it that also thread the state of the
  backend. The payload pointer of a caller is an address with the bytes found there.
\<close>

section \<open>Record layout (\<open>StorageRecord.h\<close>)\<close>

definition MAGIC :: u32 where "MAGIC = 0x4C534346"
definition FORMAT_VERSION :: u16 where "FORMAT_VERSION = 1"
definition MAGIC_OFFSET :: nat where [simp]: "MAGIC_OFFSET = 0"
definition FORMAT_VERSION_OFFSET :: nat where [simp]: "FORMAT_VERSION_OFFSET = 4"
definition SCHEMA_VERSION_OFFSET :: nat where [simp]: "SCHEMA_VERSION_OFFSET = 6"
definition PAYLOAD_LENGTH_OFFSET :: nat where [simp]: "PAYLOAD_LENGTH_OFFSET = 8"
definition GENERATION_OFFSET :: nat where [simp]: "GENERATION_OFFSET = 12"
definition PAYLOAD_CRC_OFFSET :: nat where [simp]: "PAYLOAD_CRC_OFFSET = 16"
definition HEADER_CRC_OFFSET :: nat where [simp]: "HEADER_CRC_OFFSET = 20"
definition HEADER_CRC_INPUT_SIZE :: nat where [simp]: "HEADER_CRC_INPUT_SIZE = 20"
definition HEADER_SIZE :: nat where [simp]: "HEADER_SIZE = 24"

section \<open>Types and state\<close>

type_synonym payload_validator = "bytes \<Rightarrow> nat \<Rightarrow> bool"

text \<open>A caller's \<open>const void*\<close>: its address and the bytes from there on; \<open>None\<close> is null.\<close>

type_synonym cptr = "(nat \<times> bytes) option"

datatype StorageSlot = SlotNone | SlotA | SlotB

datatype StorageOperationResult =
    NotAttempted | Success | Failure | NoChange | InvalidArgument | ValidationFailure
  | BackendFailure | VerifyFailure

datatype StorageRawLoadResult =
    RawSuccess | RawEmpty | RawNoValidRecord | RawInvalidArgument | RawInsufficientCapacity

record StorageRawRecord =
  raw_result :: StorageRawLoadResult
  raw_schemaVersion :: u16
  raw_payloadSize :: nat
  raw_generation :: u32
  raw_slot :: StorageSlot

record StorageStatus =
  st_backendReady :: bool
  st_hasValidPayload :: bool
  st_activeSlot :: StorageSlot
  st_activeGeneration :: u32
  st_lastLoadResult :: StorageOperationResult
  st_lastSaveResult :: StorageOperationResult

record SlotInfo =
  si_valid :: bool
  si_generation :: u32

record RawSlotInfo =
  rsi_present :: bool
  rsi_valid :: bool
  rsi_schemaVersion :: u16
  rsi_payloadSize :: nat
  rsi_generation :: u32

definition SLOT_A :: u8 where "SLOT_A = 0"
definition SLOT_B :: u8 where "SLOT_B = 1"
definition NO_SLOT :: u8 where "NO_SLOT = 0xFF"

record 'b storage_service =
  ss_backend :: 'b
  ss_namespace :: cstr
  ss_slotAKey :: cstr
  ss_slotBKey :: cstr
  ss_bufferAddress :: nat
  ss_buffer :: "bytes option"
  ss_capacity :: nat
  ss_payloadSize :: nat
  ss_recordSize :: nat
  ss_schemaVersion :: u16
  ss_validator :: "payload_validator option"
  ss_opened :: bool
  ss_hasValidPayload :: bool
  ss_activeSlot :: u8
  ss_activeGeneration :: u32
  ss_lastLoadResult :: StorageOperationResult
  ss_lastSaveResult :: StorageOperationResult
  ss_rawBaseValid :: bool
  ss_rawBaseSlot :: u8
  ss_rawBaseGeneration :: u32
  ss_rawBaseForSave :: bool

definition emptySlotInfo :: SlotInfo where
  "emptySlotInfo = \<lparr>si_valid = False, si_generation = 0\<rparr>"

definition emptyRawSlotInfo :: RawSlotInfo where
  "emptyRawSlotInfo = \<lparr>rsi_present = False, rsi_valid = False, rsi_schemaVersion = 0,
     rsi_payloadSize = 0, rsi_generation = 0\<rparr>"

definition emptyRawRecord :: StorageRawRecord where
  "emptyRawRecord = \<lparr>raw_result = RawInvalidArgument, raw_schemaVersion = 0, raw_payloadSize = 0,
     raw_generation = 0, raw_slot = SlotNone\<rparr>"

text \<open>The constructor: a workspace is a buffer address and its bytes, or null.\<close>

definition StorageService_new ::
  "'b \<Rightarrow> cstr \<Rightarrow> cstr \<Rightarrow> cstr \<Rightarrow> nat \<Rightarrow> bytes option \<Rightarrow> nat \<Rightarrow> 'b storage_service" where
  "StorageService_new b ns keyA keyB address buffer capacity =
     \<lparr>ss_backend = b, ss_namespace = ns, ss_slotAKey = keyA, ss_slotBKey = keyB,
      ss_bufferAddress = address, ss_buffer = buffer, ss_capacity = capacity,
      ss_payloadSize = 0, ss_recordSize = 0, ss_schemaVersion = 0, ss_validator = None,
      ss_opened = False, ss_hasValidPayload = False, ss_activeSlot = NO_SLOT,
      ss_activeGeneration = 0, ss_lastLoadResult = NotAttempted, ss_lastSaveResult = NotAttempted,
      ss_rawBaseValid = False, ss_rawBaseSlot = NO_SLOT, ss_rawBaseGeneration = 0,
      ss_rawBaseForSave = False\<rparr>"

text \<open>The bytes of the workspace; only used where the pointer is known to be non-null.\<close>

definition rbuf :: "'b storage_service \<Rightarrow> bytes" where
  "rbuf s = (case ss_buffer s of None \<Rightarrow> [] | Some buf \<Rightarrow> buf)"

text \<open>
  A call through \<open>validator_\<close>. The pointer is null only before the first successful
  \<open>configure\<close>, and both callers require \<open>opened_\<close>, which implies it (\<open>storage_wf\<close> below).
\<close>

definition runValidator :: "'b storage_service \<Rightarrow> bytes \<Rightarrow> bool" where
  "runValidator s payload =
     (case ss_validator s of None \<Rightarrow> False | Some v \<Rightarrow> v payload (ss_payloadSize s))"

section \<open>Slots\<close>

definition slotKey :: "'b storage_service \<Rightarrow> u8 \<Rightarrow> cstr" where
  "slotKey s slot = (if slot = SLOT_A then ss_slotAKey s else ss_slotBKey s)"

definition isGenerationNewer :: "u32 \<Rightarrow> u32 \<Rightarrow> bool" where
  "isGenerationNewer candidate reference =
     (let difference = candidate - reference in difference \<noteq> 0 \<and> difference < 0x80000000)"

text \<open>The header fields, the two CRCs and the validator's verdict on the payload.\<close>

definition magicAndFormatOk :: "bytes \<Rightarrow> bool" where
  "magicAndFormatOk buf \<longleftrightarrow>
     readUint32 buf MAGIC_OFFSET = MAGIC \<and> readUint16 buf FORMAT_VERSION_OFFSET = FORMAT_VERSION"

definition headerCrcOk :: "bytes \<Rightarrow> bool" where
  "headerCrcOk buf \<longleftrightarrow>
     crc32 (Some buf) HEADER_CRC_INPUT_SIZE = readUint32 buf HEADER_CRC_OFFSET"

definition payloadCrcOk :: "bytes \<Rightarrow> nat \<Rightarrow> bool" where
  "payloadCrcOk buf n \<longleftrightarrow>
     crc32 (Some (drop HEADER_SIZE buf)) n = readUint32 buf PAYLOAD_CRC_OFFSET"

definition slotRecordOk :: "'b storage_service \<Rightarrow> bytes \<Rightarrow> bool" where
  "slotRecordOk s buf \<longleftrightarrow>
     magicAndFormatOk buf \<and>
     readUint16 buf SCHEMA_VERSION_OFFSET = ss_schemaVersion s \<and>
     unat (readUint32 buf PAYLOAD_LENGTH_OFFSET) = ss_payloadSize s \<and>
     headerCrcOk buf \<and>
     payloadCrcOk buf (ss_payloadSize s) \<and>
     runValidator s (range_at buf HEADER_SIZE (ss_payloadSize s))"

text \<open>
  \<open>readSlot(slot, info, payload)\<close>: success, \<open>info\<close>, and the bytes copied to \<open>payload\<close> when the
  caller passed one.
\<close>

definition readSlot ::
  "'b backend_ops \<Rightarrow> 'b storage_service \<Rightarrow> u8 \<Rightarrow> bool \<Rightarrow>
     bool \<times> SlotInfo \<times> bytes option \<times> 'b storage_service" where
  "readSlot ops s slot wantPayload =
     (if \<not> ss_opened s \<or> ss_buffer s = None \<or> (slot \<noteq> SLOT_A \<and> slot \<noteq> SLOT_B)
      then (False, emptySlotInfo, None, s)
      else
        let key = slotKey s slot;
            (storedLength, b1) = beBlobLength ops (ss_backend s) key;
            s1 = s\<lparr>ss_backend := b1\<rparr>
        in if storedLength \<noteq> ss_recordSize s then (False, emptySlotInfo, None, s1)
        else
          let (got, content, b2) = beReadBlob ops b1 key (ss_recordSize s);
              buf = write_at (rbuf s) 0 content;
              s2 = s\<lparr>ss_backend := b2, ss_buffer := Some buf\<rparr>
          in if got \<noteq> ss_recordSize s then (False, emptySlotInfo, None, s2)
          else if \<not> slotRecordOk s buf then (False, emptySlotInfo, None, s2)
          else (True, \<lparr>si_valid = True, si_generation = readUint32 buf GENERATION_OFFSET\<rparr>,
                if wantPayload then Some (range_at buf HEADER_SIZE (ss_payloadSize s)) else None,
                s2))"

definition selectLatest ::
  "'b backend_ops \<Rightarrow> 'b storage_service \<Rightarrow> bool \<times> u8 \<times> SlotInfo \<times> 'b storage_service" where
  "selectLatest ops s =
     (let (slotAValid, slotAInfo, _, s1) = readSlot ops s SLOT_A False;
          (slotBValid, slotBInfo, _, s2) = readSlot ops s1 SLOT_B False
      in if \<not> slotAValid \<and> \<not> slotBValid then (False, NO_SLOT, emptySlotInfo, s2)
      else if slotBValid \<and>
          (\<not> slotAValid \<or> isGenerationNewer (si_generation slotBInfo) (si_generation slotAInfo))
        then (True, SLOT_B, slotBInfo, s2)
      else (True, SLOT_A, slotAInfo, s2))"

definition refreshStatus :: "'b backend_ops \<Rightarrow> 'b storage_service \<Rightarrow> 'b storage_service" where
  "refreshStatus ops s =
     (let (found, slot, info, s1) = selectLatest ops s
      in if \<not> found
         then s1\<lparr>ss_hasValidPayload := False, ss_activeSlot := NO_SLOT, ss_activeGeneration := 0\<rparr>
         else s1\<lparr>ss_activeSlot := slot, ss_hasValidPayload := True,
                 ss_activeGeneration := si_generation info\<rparr>)"

section \<open>Opening and loading\<close>

definition nullOrEmpty :: "cstr \<Rightarrow> bool" where
  "nullOrEmpty c \<longleftrightarrow> c = None \<or> c = Some []"

definition configure ::
  "'b storage_service \<Rightarrow> nat \<Rightarrow> u16 \<Rightarrow> payload_validator option \<Rightarrow> bool \<times> 'b storage_service" where
  "configure s payloadSize schemaVersion validator =
     (if payloadSize = 0 \<or> payloadSize > UINT32_MAX \<or> payloadSize > SIZE_MAX - HEADER_SIZE \<or>
         validator = None \<or> nullOrEmpty (ss_namespace s) \<or> nullOrEmpty (ss_slotAKey s) \<or>
         nullOrEmpty (ss_slotBKey s)
      then (False, s)
      else
        let requestedRecordSize = HEADER_SIZE + payloadSize
        in if ss_buffer s = None \<or> ss_capacity s < requestedRecordSize then (False, s)
        else (True, s\<lparr>ss_payloadSize := payloadSize, ss_recordSize := requestedRecordSize,
                      ss_schemaVersion := schemaVersion, ss_validator := validator\<rparr>))"

definition storage_begin ::
  "'b backend_ops \<Rightarrow> 'b storage_service \<Rightarrow> nat \<Rightarrow> u16 \<Rightarrow> payload_validator option \<Rightarrow>
     bool \<times> 'b storage_service" where
  "storage_begin ops s payloadSize schemaVersion validator =
     (let (configured, s1) = configure s payloadSize schemaVersion validator;
          clear = (\<lambda>t. t\<lparr>ss_hasValidPayload := False, ss_activeSlot := NO_SLOT,
                         ss_activeGeneration := 0\<rparr>)
      in if \<not> configured then (False, clear s1)
      else if \<not> ss_opened s1 then
        (let (ready, b) = beBegin ops (ss_backend s1) (ss_namespace s1);
             s2 = s1\<lparr>ss_backend := b\<rparr>
         in if \<not> ready then (False, clear s2)
            else (True, refreshStatus ops (s2\<lparr>ss_opened := True\<rparr>)))
      else (True, refreshStatus ops s1))"

text \<open>
  \<open>load(payload)\<close>: the flag says whether the pointer is non-null; the bytes are what the caller's
  memory receives.
\<close>

definition storage_load ::
  "'b backend_ops \<Rightarrow> 'b storage_service \<Rightarrow> bool \<Rightarrow> bool \<times> bytes option \<times> 'b storage_service" where
  "storage_load ops s payloadGiven =
     (if \<not> ss_opened s \<or> \<not> payloadGiven then (False, None, s\<lparr>ss_lastLoadResult := Failure\<rparr>)
      else
        let (found, selectedSlot, _, s1) = selectLatest ops s
        in if \<not> found then
          (False, None, s1\<lparr>ss_hasValidPayload := False, ss_activeSlot := NO_SLOT,
                           ss_activeGeneration := 0, ss_lastLoadResult := Failure\<rparr>)
        else
          let (ok, verifiedInfo, payload, s2) = readSlot ops s1 selectedSlot True
          in if \<not> ok then (False, None, (refreshStatus ops s2)\<lparr>ss_lastLoadResult := Failure\<rparr>)
          else (True, payload,
                s2\<lparr>ss_hasValidPayload := True, ss_activeSlot := selectedSlot,
                   ss_activeGeneration := si_generation verifiedInfo,
                   ss_lastLoadResult := Success\<rparr>))"

section \<open>Raw access: the newest intact record of any schema\<close>

definition readRawSlot ::
  "'b backend_ops \<Rightarrow> 'b storage_service \<Rightarrow> u8 \<Rightarrow> bool \<times> RawSlotInfo \<times> 'b storage_service" where
  "readRawSlot ops s slot =
     (if \<not> ss_opened s \<or> ss_buffer s = None \<or> (slot \<noteq> SLOT_A \<and> slot \<noteq> SLOT_B)
      then (False, emptyRawSlotInfo, s)
      else
        let key = slotKey s slot;
            (storedSize, b1) = beBlobLength ops (ss_backend s) key;
            s1 = s\<lparr>ss_backend := b1\<rparr>;
            present = emptyRawSlotInfo\<lparr>rsi_present := True\<rparr>
        in if storedSize = 0 then (False, emptyRawSlotInfo, s1)
        else if storedSize < HEADER_SIZE \<or> storedSize > ss_capacity s then (False, present, s1)
        else
          let (got, content, b2) = beReadBlob ops b1 key storedSize;
              buf = write_at (rbuf s) 0 content;
              s2 = s\<lparr>ss_backend := b2, ss_buffer := Some buf\<rparr>;
              encodedPayloadSize = unat (readUint32 buf PAYLOAD_LENGTH_OFFSET)
          in if got \<noteq> storedSize then (False, present, s2)
          else if \<not> magicAndFormatOk buf then (False, present, s2)
          else if \<not> headerCrcOk buf then (False, present, s2)
          else if encodedPayloadSize > SIZE_MAX - HEADER_SIZE \<or>
              HEADER_SIZE + encodedPayloadSize \<noteq> storedSize then (False, present, s2)
          else if \<not> payloadCrcOk buf encodedPayloadSize then (False, present, s2)
          else (True,
                \<lparr>rsi_present = True, rsi_valid = True,
                 rsi_schemaVersion = readUint16 buf SCHEMA_VERSION_OFFSET,
                 rsi_payloadSize = encodedPayloadSize,
                 rsi_generation = readUint32 buf GENERATION_OFFSET\<rparr>,
                s2))"

text \<open>
  \<open>loadLatestRaw(payload, capacity)\<close>: the record it returns and the bytes copied to the
  caller's buffer on success. The slot and generation found become the base of the next raw save.
\<close>

definition loadLatestRaw ::
  "'b backend_ops \<Rightarrow> 'b storage_service \<Rightarrow> bool \<Rightarrow> nat \<Rightarrow>
     StorageRawRecord \<times> bytes option \<times> 'b storage_service" where
  "loadLatestRaw ops s payloadGiven payloadCapacity =
     (let s0 = s\<lparr>ss_rawBaseValid := False, ss_rawBaseSlot := NO_SLOT, ss_rawBaseGeneration := 0\<rparr>
      in if \<not> ss_opened s0 \<or> \<not> payloadGiven
         then (emptyRawRecord\<lparr>raw_result := RawInvalidArgument\<rparr>, None, s0)
      else
        let (slotAValid, slotAInfo, s1) = readRawSlot ops s0 SLOT_A;
            (slotBValid, slotBInfo, s2) = readRawSlot ops s1 SLOT_B
        in if \<not> slotAValid \<and> \<not> slotBValid then
          (emptyRawRecord\<lparr>raw_result :=
             if \<not> rsi_present slotAInfo \<and> \<not> rsi_present slotBInfo then RawEmpty
             else RawNoValidRecord\<rparr>, None, s2)
        else
          let useB = slotBValid \<and>
                (\<not> slotAValid \<or> isGenerationNewer (rsi_generation slotBInfo) (rsi_generation slotAInfo));
              selectedSlot = (if useB then SLOT_B else SLOT_A);
              selectedInfo = (if useB then slotBInfo else slotAInfo)
          in if payloadCapacity < rsi_payloadSize selectedInfo
             then (emptyRawRecord\<lparr>raw_result := RawInsufficientCapacity\<rparr>, None, s2)
          else
            let (ok, verifiedInfo, s3) = readRawSlot ops s2 selectedSlot
            in if \<not> ok then (emptyRawRecord\<lparr>raw_result := RawNoValidRecord\<rparr>, None, s3)
            else
              (\<lparr>raw_result = RawSuccess, raw_schemaVersion = rsi_schemaVersion verifiedInfo,
                raw_payloadSize = rsi_payloadSize verifiedInfo,
                raw_generation = rsi_generation verifiedInfo,
                raw_slot = (if selectedSlot = SLOT_A then SlotA else SlotB)\<rparr>,
               Some (range_at (rbuf s3) HEADER_SIZE (rsi_payloadSize verifiedInfo)),
               s3\<lparr>ss_rawBaseValid := True, ss_rawBaseSlot := selectedSlot,
                  ss_rawBaseGeneration := rsi_generation verifiedInfo\<rparr>))"

section \<open>Saving\<close>

definition payloadOverlapsWorkspace :: "'b storage_service \<Rightarrow> nat \<Rightarrow> bool" where
  "payloadOverlapsWorkspace s payloadAddress =
     (if payloadAddress \<ge> ss_bufferAddress s
      then payloadAddress - ss_bufferAddress s < ss_recordSize s
      else ss_bufferAddress s - payloadAddress < ss_payloadSize s)"

text \<open>The base a save starts from: whether there is one, its slot and its generation.\<close>

definition currentCoversRawBase :: "'b storage_service \<Rightarrow> u8 \<Rightarrow> SlotInfo \<Rightarrow> bool" where
  "currentCoversRawBase s currentSlot currentInfo \<longleftrightarrow>
     \<not> ss_rawBaseForSave s \<or>
     (currentSlot = ss_rawBaseSlot s \<and> si_generation currentInfo = ss_rawBaseGeneration s) \<or>
     isGenerationNewer (si_generation currentInfo) (ss_rawBaseGeneration s)"

definition saveTarget :: "'b storage_service \<Rightarrow> bool \<Rightarrow> u8 \<Rightarrow> SlotInfo \<Rightarrow> u8 \<times> u32" where
  "saveTarget s currentExists currentSlot currentInfo =
     (let useCurrentBase = currentExists \<and> currentCoversRawBase s currentSlot currentInfo;
          baseExists = useCurrentBase \<or> (ss_rawBaseForSave s \<and> ss_rawBaseValid s);
          baseSlot = (if useCurrentBase then currentSlot else ss_rawBaseSlot s);
          baseGeneration = (if useCurrentBase then si_generation currentInfo
                            else ss_rawBaseGeneration s)
      in (if \<not> baseExists \<or> baseSlot = SLOT_B then SLOT_A else SLOT_B,
          if baseExists then baseGeneration + 1 else 1))"

text \<open>The record assembled in the workspace.\<close>

definition buildRecord :: "'b storage_service \<Rightarrow> bytes \<Rightarrow> u32 \<Rightarrow> bytes" where
  "buildRecord s payload nextGeneration =
     (let n = ss_payloadSize s;
          b0 = write_at (rbuf s) 0 (replicate (ss_recordSize s) 0);
          b1 = writeUint32 b0 MAGIC_OFFSET MAGIC;
          b2 = writeUint16 b1 FORMAT_VERSION_OFFSET FORMAT_VERSION;
          b3 = writeUint16 b2 SCHEMA_VERSION_OFFSET (ss_schemaVersion s);
          b4 = writeUint32 b3 PAYLOAD_LENGTH_OFFSET (of_nat n);
          b5 = writeUint32 b4 GENERATION_OFFSET nextGeneration;
          b6 = write_at b5 HEADER_SIZE (take n payload);
          b7 = writeUint32 b6 PAYLOAD_CRC_OFFSET (crc32 (Some (drop HEADER_SIZE b6)) n);
          b8 = writeUint32 b7 HEADER_CRC_OFFSET (crc32 (Some b7) HEADER_CRC_INPUT_SIZE)
      in b8)"

text \<open>The payload found in the workspace equals the one to save (\<open>memcmp\<close>).\<close>

definition bufferHoldsPayload :: "'b storage_service \<Rightarrow> bytes \<Rightarrow> bool" where
  "bufferHoldsPayload s payload \<longleftrightarrow>
     range_at (rbuf s) HEADER_SIZE (ss_payloadSize s) = take (ss_payloadSize s) payload"

definition markCurrent :: "'b storage_service \<Rightarrow> u8 \<Rightarrow> u32 \<Rightarrow> StorageOperationResult \<Rightarrow> 'b storage_service" where
  "markCurrent s slot gen result =
     s\<lparr>ss_hasValidPayload := True, ss_activeSlot := slot, ss_activeGeneration := gen,
       ss_rawBaseValid := True, ss_rawBaseSlot := slot, ss_rawBaseGeneration := gen,
       ss_lastSaveResult := result\<rparr>"

text \<open>Assemble, write, read back and compare: the second half of \<open>save\<close>.\<close>

definition writeAndVerify ::
  "'b backend_ops \<Rightarrow> 'b storage_service \<Rightarrow> bytes \<Rightarrow> u8 \<Rightarrow> u32 \<Rightarrow> bool \<times> 'b storage_service" where
  "writeAndVerify ops s payload targetSlot nextGeneration =
     (let buf = buildRecord s payload nextGeneration;
          (written, b) = beWriteBlob ops (ss_backend s) (slotKey s targetSlot)
             (take (ss_recordSize s) buf);
          s1 = s\<lparr>ss_backend := b, ss_buffer := Some buf\<rparr>
      in if written \<noteq> ss_recordSize s
         then (False, (refreshStatus ops s1)\<lparr>ss_lastSaveResult := BackendFailure\<rparr>)
      else
        let (ok, verifiedInfo, _, s2) = readSlot ops s1 targetSlot False
        in if \<not> ok \<or> si_generation verifiedInfo \<noteq> nextGeneration \<or> \<not> bufferHoldsPayload s2 payload
           then (False, (refreshStatus ops s2)\<lparr>ss_lastSaveResult := VerifyFailure\<rparr>)
        else (True, markCurrent s2 targetSlot nextGeneration Success))"

definition storage_save ::
  "'b backend_ops \<Rightarrow> 'b storage_service \<Rightarrow> cptr \<Rightarrow> bool \<times> 'b storage_service" where
  "storage_save ops s payloadPtr =
     (case payloadPtr of
        None \<Rightarrow> (False, s\<lparr>ss_lastSaveResult := InvalidArgument\<rparr>)
      | Some (address, payload) \<Rightarrow>
         if \<not> ss_opened s \<or> payloadOverlapsWorkspace s address
         then (False, s\<lparr>ss_lastSaveResult := InvalidArgument\<rparr>)
         else if \<not> runValidator s (take (ss_payloadSize s) payload)
         then (False, s\<lparr>ss_lastSaveResult := ValidationFailure\<rparr>)
         else
           let (currentExists, currentSlot, currentInfo, s1) = selectLatest ops s;
               (comparable, comparedInfo, _, s2) =
                 (if currentExists \<and> currentCoversRawBase s1 currentSlot currentInfo
                  then readSlot ops s1 currentSlot False
                  else (False, emptySlotInfo, None, s1))
           in if comparable \<and> si_generation comparedInfo = si_generation currentInfo \<and>
                 bufferHoldsPayload s2 payload
              then (True, markCurrent s2 currentSlot (si_generation currentInfo) NoChange)
           else
             let (targetSlot, nextGeneration) =
                   saveTarget s2 currentExists currentSlot currentInfo
             in writeAndVerify ops s2 payload targetSlot nextGeneration)"

definition saveCurrentRaw ::
  "'b backend_ops \<Rightarrow> 'b storage_service \<Rightarrow> u16 \<Rightarrow> cptr \<Rightarrow> nat \<Rightarrow> bool \<times> 'b storage_service" where
  "saveCurrentRaw ops s schemaVersion payloadPtr payloadSize =
     (if schemaVersion \<noteq> ss_schemaVersion s \<or> payloadSize \<noteq> ss_payloadSize s
      then (False, s\<lparr>ss_lastSaveResult := InvalidArgument\<rparr>)
      else
        let (saved, s1) = storage_save ops (s\<lparr>ss_rawBaseForSave := ss_rawBaseValid s\<rparr>) payloadPtr
        in (saved, s1\<lparr>ss_rawBaseForSave := False\<rparr>))"

section \<open>Status\<close>

definition storage_status :: "'b storage_service \<Rightarrow> StorageStatus" where
  "storage_status s =
     \<lparr>st_backendReady = ss_opened s, st_hasValidPayload = ss_hasValidPayload s,
      st_activeSlot = (if ss_activeSlot s = SLOT_A then SlotA
                       else if ss_activeSlot s = SLOT_B then SlotB else SlotNone),
      st_activeGeneration = ss_activeGeneration s, st_lastLoadResult = ss_lastLoadResult s,
      st_lastSaveResult = ss_lastSaveResult s\<rparr>"

text \<open>The destructor closes an opened backend.\<close>

definition storage_destroy :: "'b backend_ops \<Rightarrow> 'b storage_service \<Rightarrow> 'b" where
  "storage_destroy ops s = (if ss_opened s then beEnd ops (ss_backend s) else ss_backend s)"

section \<open>Well-formed services and assembled records\<close>

text \<open>
  The class invariant: the workspace has its declared capacity, and once the service is open a
  configuration with a nonempty payload fits it and the pointers used later are not null.
\<close>

definition storage_wf :: "'b storage_service \<Rightarrow> bool" where
  "storage_wf s \<longleftrightarrow>
     (\<forall>buf. ss_buffer s = Some buf \<longrightarrow> length buf = ss_capacity s) \<and>
     (ss_opened s \<longrightarrow>
        ss_buffer s \<noteq> None \<and> ss_recordSize s = HEADER_SIZE + ss_payloadSize s \<and>
        ss_recordSize s \<le> ss_capacity s \<and> 0 < ss_payloadSize s \<and>
        ss_recordSize s \<le> SIZE_MAX \<and> ss_validator s \<noteq> None \<and>
        \<not> nullOrEmpty (ss_slotAKey s) \<and> \<not> nullOrEmpty (ss_slotBKey s))"

lemma storage_wf_new: "storage_wf (StorageService_new b ns kA kB a buf cap)"
  if "\<And>bs. buf = Some bs \<Longrightarrow> length bs = cap"
  using that by (simp add: storage_wf_def StorageService_new_def)

lemma wf_opened:
  assumes "storage_wf s" "ss_opened s"
  obtains buf where "ss_buffer s = Some buf" "rbuf s = buf" "length buf = ss_capacity s"
    "ss_recordSize s = 24 + ss_payloadSize s" "ss_recordSize s \<le> length buf"
    "0 < ss_payloadSize s" "ss_payloadSize s < 2 ^ 32"
  using assms by (auto simp: storage_wf_def rbuf_def SIZE_MAX_def)

lemma slotRecordOk_cong:
  assumes "range_at b1 0 (24 + ss_payloadSize s) = range_at b2 0 (24 + ss_payloadSize s)"
    and "24 + ss_payloadSize s \<le> length b1" "24 + ss_payloadSize s \<le> length b2"
  shows "slotRecordOk s b1 = slotRecordOk s b2"
    and "readUint32 b1 12 = readUint32 b2 12"
    and "range_at b1 24 (ss_payloadSize s) = range_at b2 24 (ss_payloadSize s)"
proof -
  have sub: "range_at b1 off n = range_at b2 off n" if "off + n \<le> 24 + ss_payloadSize s" for off n
    using range_at_range_at [OF that, of b1 0] range_at_range_at [OF that, of b2 0] assms(1) by simp
  have 4: "readUint32 b1 off = readUint32 b2 off" if "off + 4 \<le> 24" for off
    using sub [of off 4] that assms(2,3) by (intro readUint32_cong) auto
  have 2: "readUint16 b1 off = readUint16 b2 off" if "off + 2 \<le> 24" for off
    using sub [of off 2] that assms(2,3) by (intro readUint16_cong) auto
  have c: "crc32 (Some (drop off b1)) n = crc32 (Some (drop off b2)) n"
    if "off + n \<le> 24 + ss_payloadSize s" for off n
    using sub [OF that] by (simp add: crc32_range)
  have c0: "crc32 (Some b1) 20 = crc32 (Some b2) 20" using c [of 0 20] by simp
  show "range_at b1 24 (ss_payloadSize s) = range_at b2 24 (ss_payloadSize s)"
    using sub by simp
  then show "slotRecordOk s b1 = slotRecordOk s b2"
    using c0 c [of 24 "ss_payloadSize s"]
    by (simp add: slotRecordOk_def magicAndFormatOk_def headerCrcOk_def payloadCrcOk_def 4 2)
  show "readUint32 b1 12 = readUint32 b2 12" using 4 by simp
qed

lemma buildRecord_ok:
  assumes wf: "storage_wf s" "ss_opened s"
    and payload: "ss_payloadSize s \<le> length payload" "runValidator s (take (ss_payloadSize s) payload)"
  shows "slotRecordOk s (buildRecord s payload gen)"
    and "readUint32 (buildRecord s payload gen) 12 = gen"
    and "range_at (buildRecord s payload gen) 24 (ss_payloadSize s) = take (ss_payloadSize s) payload"
    and "length (buildRecord s payload gen) = ss_capacity s"
proof -
  obtain buf where b: "rbuf s = buf" "length buf = ss_capacity s"
      "ss_recordSize s = 24 + ss_payloadSize s" "ss_recordSize s \<le> length buf"
      "ss_payloadSize s < 2 ^ 32"
    using wf_opened [OF wf] by metis
  let ?n = "ss_payloadSize s"
  define b5 where "b5 = writeUint32 (writeUint32 (writeUint16 (writeUint16 (writeUint32
      (write_at buf 0 (replicate (24 + ?n) 0)) 0 MAGIC) 4 FORMAT_VERSION) 6 (ss_schemaVersion s))
      8 (of_nat ?n)) 12 gen"
  define b6 where "b6 = write_at b5 24 (take ?n payload)"
  define b7 where "b7 = writeUint32 b6 16 (crc32 (Some (drop 24 b6)) ?n)"
  define b8 where "b8 = writeUint32 b7 20 (crc32 (Some b7) 20)"
  have built: "buildRecord s payload gen = b8"
    unfolding buildRecord_def Let_def b8_def b7_def b6_def b5_def by (simp add: b(1,3))
  have len: "24 + ?n \<le> length buf" using b by simp
  have l5: "length b5 = length buf" unfolding b5_def using len by simp
  have l6: "length b6 = length buf" unfolding b6_def using len l5 payload by simp
  have l7: "length b7 = length buf" unfolding b7_def using len l6 by simp
  have l8: "length b8 = length buf" unfolding b8_def using len l7 by simp
  have unat_n: "unat (of_nat ?n :: u32) = ?n" using b(5) by (simp add: unat_of_nat)
  have h5: "readUint32 b5 0 = MAGIC" "readUint16 b5 4 = FORMAT_VERSION"
      "readUint16 b5 6 = ss_schemaVersion s" "readUint32 b5 8 = of_nat ?n" "readUint32 b5 12 = gen"
    unfolding b5_def using len by (simp_all add: buffer_simps)
  have up: "readUint32 b8 off = readUint32 b5 off" if "off + 4 \<le> 16" for off
    unfolding b8_def b7_def b6_def using that len l5 l6 l7 payload
    by (simp add: buffer_simps b7_def b6_def)
  have up2: "readUint16 b8 off = readUint16 b5 off" if "off + 2 \<le> 16" for off
    unfolding b8_def b7_def b6_def using that len l5 l6 l7 payload
    by (simp add: buffer_simps b7_def b6_def)
  have pay: "range_at b8 24 ?n = take ?n payload" "range_at b6 24 ?n = take ?n payload"
    unfolding b8_def b7_def b6_def using len l5 l6 l7 payload
    by (simp_all add: buffer_simps b7_def b6_def)
  have "crc32 (Some b8) 20 = crc32 (Some b7) 20"
    using crc32_range [of 0 b8 20] crc32_range [of 0 b7 20] len l7
    by (simp add: b8_def buffer_simps)
  moreover have "readUint32 b8 20 = crc32 (Some b7) 20"
    unfolding b8_def using len l7 by (simp add: buffer_simps)
  moreover have "readUint32 b8 16 = crc32 (Some (drop 24 b6)) ?n"
    unfolding b8_def b7_def using len l6 l7 by (simp add: buffer_simps b7_def)
  ultimately show "slotRecordOk s (buildRecord s payload gen)"
    using payload unat_n pay
    by (simp add: built slotRecordOk_def magicAndFormatOk_def headerCrcOk_def payloadCrcOk_def
        up up2 h5 crc32_range)
  show "readUint32 (buildRecord s payload gen) 12 = gen" by (simp add: built up h5)
  show "range_at (buildRecord s payload gen) 24 ?n = take ?n payload" by (simp add: built pay)
  show "length (buildRecord s payload gen) = ss_capacity s" using l8 b by (simp add: built)
qed

section \<open>What reading does to the service\<close>

text \<open>
  Reads move the backend's state and the workspace, and nothing else: no stored blob, no field of
  the configuration, no status.
\<close>

definition read_effect :: "('b \<Rightarrow> cstr \<Rightarrow> bytes) \<Rightarrow> 'b storage_service \<Rightarrow> 'b storage_service \<Rightarrow> bool" where
  "read_effect blobs s t \<longleftrightarrow>
     (\<exists>b buf. t = s\<lparr>ss_backend := b, ss_buffer := buf\<rparr> \<and> blobs b = blobs (ss_backend s)) \<and>
     (storage_wf s \<longrightarrow> storage_wf t)"

lemma read_effect_refl [simp]: "read_effect blobs s s"
  unfolding read_effect_def
  by (intro conjI exI [of _ "ss_backend s"] exI [of _ "ss_buffer s"]) simp_all

lemma read_effect_trans: "read_effect blobs s t \<Longrightarrow> read_effect blobs t u \<Longrightarrow> read_effect blobs s u"
  unfolding read_effect_def by fastforce

lemma read_effect_fields:
  assumes "read_effect blobs s t"
  shows "ss_opened t = ss_opened s" "ss_slotAKey t = ss_slotAKey s" "ss_slotBKey t = ss_slotBKey s"
    "ss_payloadSize t = ss_payloadSize s" "ss_recordSize t = ss_recordSize s"
    "ss_schemaVersion t = ss_schemaVersion s" "ss_validator t = ss_validator s"
    "ss_capacity t = ss_capacity s" "ss_rawBaseValid t = ss_rawBaseValid s"
    "ss_rawBaseSlot t = ss_rawBaseSlot s" "ss_rawBaseGeneration t = ss_rawBaseGeneration s"
    "ss_rawBaseForSave t = ss_rawBaseForSave s" "slotKey t slot = slotKey s slot"
    "slotRecordOk t rec = slotRecordOk s rec" "runValidator t pl = runValidator s pl"
    "blobs (ss_backend t) = blobs (ss_backend s)" "storage_wf s \<Longrightarrow> storage_wf t"
  using assms
  by (auto simp: read_effect_def slotKey_def slotRecordOk_def runValidator_def split: option.split)

lemma read_effect_backend:
  "blobs b = blobs (ss_backend s) \<Longrightarrow> read_effect blobs s (s\<lparr>ss_backend := b\<rparr>)"
  unfolding read_effect_def
  by (intro conjI exI [of _ b] exI [of _ "ss_buffer s"]) (auto simp: storage_wf_def)

lemma read_effect_buffer:
  assumes "blobs b = blobs (ss_backend s)" and "ss_buffer s \<noteq> None"
    and "storage_wf s \<Longrightarrow> length xs \<le> ss_capacity s"
  shows "read_effect blobs s (s\<lparr>ss_backend := b, ss_buffer := Some (write_at (rbuf s) 0 xs)\<rparr>)"
  unfolding read_effect_def
  by (intro conjI exI [of _ b] exI [of _ "Some (write_at (rbuf s) 0 xs)"])
    (use assms in \<open>auto simp: storage_wf_def rbuf_def\<close>)

lemma wf_recordSize_le: "storage_wf s \<Longrightarrow> ss_opened s \<Longrightarrow> ss_recordSize s \<le> ss_capacity s"
  by (simp add: storage_wf_def)

context blob_frame
begin

lemma length_frame': "beBlobLength ops b k = (n, b') \<Longrightarrow> blobs b' = blobs b"
  using length_frame [of b k] by simp

lemma read_frame': "beReadBlob ops b k n = (m, xs, b') \<Longrightarrow> blobs b' = blobs b \<and> length xs \<le> n"
  using read_frame [of b k n] read_bounded [of b k n] by simp

lemma readSlot_effect: "readSlot ops s slot w = (ok, info, out, t) \<Longrightarrow> read_effect blobs s t"
  by (auto simp: readSlot_def Let_def split: if_splits prod.splits
      intro!: read_effect_backend read_effect_buffer
      dest!: length_frame' read_frame' wf_recordSize_le)

lemma readRawSlot_effect: "readRawSlot ops s slot = (ok, info, t) \<Longrightarrow> read_effect blobs s t"
  by (auto simp: readRawSlot_def Let_def split: if_splits prod.splits
      intro!: read_effect_backend read_effect_buffer
      dest!: length_frame' read_frame')

lemma selectLatest_effect: "selectLatest ops s = (found, slot, info, t) \<Longrightarrow> read_effect blobs s t"
  by (auto simp: selectLatest_def split: if_splits prod.splits
      dest!: readSlot_effect intro: read_effect_trans)

end

text \<open>The status fields are no part of the configuration.\<close>

lemma slotKey_status [simp]:
  shows "slotKey (s\<lparr>ss_hasValidPayload := v0\<rparr>) k = slotKey s k"
    "slotKey (s\<lparr>ss_activeSlot := v1\<rparr>) k = slotKey s k"
    "slotKey (s\<lparr>ss_activeGeneration := v2\<rparr>) k = slotKey s k"
    "slotKey (s\<lparr>ss_lastLoadResult := v3\<rparr>) k = slotKey s k"
    "slotKey (s\<lparr>ss_lastSaveResult := v4\<rparr>) k = slotKey s k"
    "slotKey (s\<lparr>ss_rawBaseValid := v5\<rparr>) k = slotKey s k"
    "slotKey (s\<lparr>ss_rawBaseSlot := v6\<rparr>) k = slotKey s k"
    "slotKey (s\<lparr>ss_rawBaseGeneration := v7\<rparr>) k = slotKey s k"
    "slotKey (s\<lparr>ss_rawBaseForSave := v8\<rparr>) k = slotKey s k"
  by (simp_all add: slotKey_def)

lemma runValidator_status [simp]:
  shows "runValidator (s\<lparr>ss_hasValidPayload := v0\<rparr>) pl = runValidator s pl"
    "runValidator (s\<lparr>ss_activeSlot := v1\<rparr>) pl = runValidator s pl"
    "runValidator (s\<lparr>ss_activeGeneration := v2\<rparr>) pl = runValidator s pl"
    "runValidator (s\<lparr>ss_lastLoadResult := v3\<rparr>) pl = runValidator s pl"
    "runValidator (s\<lparr>ss_lastSaveResult := v4\<rparr>) pl = runValidator s pl"
    "runValidator (s\<lparr>ss_rawBaseValid := v5\<rparr>) pl = runValidator s pl"
    "runValidator (s\<lparr>ss_rawBaseSlot := v6\<rparr>) pl = runValidator s pl"
    "runValidator (s\<lparr>ss_rawBaseGeneration := v7\<rparr>) pl = runValidator s pl"
    "runValidator (s\<lparr>ss_rawBaseForSave := v8\<rparr>) pl = runValidator s pl"
  by (simp_all add: runValidator_def split: option.split)

lemma slotRecordOk_status [simp]:
  shows "slotRecordOk (s\<lparr>ss_hasValidPayload := v0\<rparr>) rec = slotRecordOk s rec"
    "slotRecordOk (s\<lparr>ss_activeSlot := v1\<rparr>) rec = slotRecordOk s rec"
    "slotRecordOk (s\<lparr>ss_activeGeneration := v2\<rparr>) rec = slotRecordOk s rec"
    "slotRecordOk (s\<lparr>ss_lastLoadResult := v3\<rparr>) rec = slotRecordOk s rec"
    "slotRecordOk (s\<lparr>ss_lastSaveResult := v4\<rparr>) rec = slotRecordOk s rec"
    "slotRecordOk (s\<lparr>ss_rawBaseValid := v5\<rparr>) rec = slotRecordOk s rec"
    "slotRecordOk (s\<lparr>ss_rawBaseSlot := v6\<rparr>) rec = slotRecordOk s rec"
    "slotRecordOk (s\<lparr>ss_rawBaseGeneration := v7\<rparr>) rec = slotRecordOk s rec"
    "slotRecordOk (s\<lparr>ss_rawBaseForSave := v8\<rparr>) rec = slotRecordOk s rec"
  by (simp_all add: slotRecordOk_def)

lemma storage_wf_status [simp]:
  shows "storage_wf (s\<lparr>ss_hasValidPayload := v0\<rparr>) = storage_wf s"
    "storage_wf (s\<lparr>ss_activeSlot := v1\<rparr>) = storage_wf s"
    "storage_wf (s\<lparr>ss_activeGeneration := v2\<rparr>) = storage_wf s"
    "storage_wf (s\<lparr>ss_lastLoadResult := v3\<rparr>) = storage_wf s"
    "storage_wf (s\<lparr>ss_lastSaveResult := v4\<rparr>) = storage_wf s"
    "storage_wf (s\<lparr>ss_rawBaseValid := v5\<rparr>) = storage_wf s"
    "storage_wf (s\<lparr>ss_rawBaseSlot := v6\<rparr>) = storage_wf s"
    "storage_wf (s\<lparr>ss_rawBaseGeneration := v7\<rparr>) = storage_wf s"
    "storage_wf (s\<lparr>ss_rawBaseForSave := v8\<rparr>) = storage_wf s"
  by (simp_all add: storage_wf_def)

end
