(* ===== verification/StorageContract.thy ===== *)
theory StorageContract
  imports StorageService
begin

text \<open>
  What the configuration store promises: an abstract store that holds at most one configuration,
  the newest valid slot, with the lemmas that the methods of \<open>StorageService\<close> implement it, over a
  backend that works (\<open>blob_store\<close>), and over one whose writes may do anything to their own slot
  (\<open>blob_reads\<close>).
\<close>

section \<open>The abstract store\<close>

definition validBlob :: "'b storage_service \<Rightarrow> bytes \<Rightarrow> bool" where
  "validBlob s blob \<longleftrightarrow> length blob = ss_recordSize s \<and> slotRecordOk s blob"

definition slotView :: "('b \<Rightarrow> cstr \<Rightarrow> bytes) \<Rightarrow> 'b storage_service \<Rightarrow> u8 \<Rightarrow> (u32 \<times> bytes) option" where
  "slotView blobs s slot =
     (let blob = blobs (ss_backend s) (slotKey s slot)
      in if validBlob s blob
         then Some (readUint32 blob 12, range_at blob 24 (ss_payloadSize s)) else None)"

fun newestOf :: "(u32 \<times> bytes) option \<Rightarrow> (u32 \<times> bytes) option \<Rightarrow> (u8 \<times> u32 \<times> bytes) option" where
  "newestOf None None = None"
| "newestOf (Some a) None = Some (SLOT_A, a)"
| "newestOf None (Some b) = Some (SLOT_B, b)"
| "newestOf (Some a) (Some b) =
     (if isGenerationNewer (fst b) (fst a) then Some (SLOT_B, b) else Some (SLOT_A, a))"

definition storedConfig :: "('b \<Rightarrow> cstr \<Rightarrow> bytes) \<Rightarrow> 'b storage_service \<Rightarrow> (u8 \<times> u32 \<times> bytes) option" where
  "storedConfig blobs s = newestOf (slotView blobs s SLOT_A) (slotView blobs s SLOT_B)"

lemma slots_distinct [simp]: "SLOT_A \<noteq> SLOT_B" "SLOT_B \<noteq> SLOT_A" "NO_SLOT \<noteq> SLOT_A" "NO_SLOT \<noteq> SLOT_B"
  by (simp_all add: SLOT_A_def SLOT_B_def NO_SLOT_def)

lemma newestOf_cases:
  assumes "newestOf a b = Some (slot, v)"
  shows "slot = SLOT_A \<and> a = Some v \<or> slot = SLOT_B \<and> b = Some v"
  using assms by (cases a; cases b) (auto split: if_splits)

lemma newestOf_None [simp]: "newestOf a b = None \<longleftrightarrow> a = None \<and> b = None"
  by (cases a; cases b) auto

lemma slotView_effect:
  assumes "read_effect blobs s t"
  shows "slotView blobs t slot = slotView blobs s slot"
  using read_effect_fields [OF assms] by (simp add: slotView_def validBlob_def Let_def)

lemma storedConfig_effect:
  "read_effect blobs s t \<Longrightarrow> storedConfig blobs t = storedConfig blobs s"
  by (simp add: storedConfig_def slotView_effect)

lemma isGenerationNewer_irrefl [simp]: "\<not> isGenerationNewer g g"
  by (simp add: isGenerationNewer_def)

lemma isGenerationNewer_Suc [simp]: "isGenerationNewer (g + 1) g" "isGenerationNewer (1 + g) g"
  by (simp_all add: isGenerationNewer_def)

lemma isGenerationNewer_asym: 
  assumes "isGenerationNewer a b" shows "\<not> isGenerationNewer b a"
proof
  assume r: "isGenerationNewer b a"
  have "unat (a - b) + unat (b - a) < 2 ^ 32"
    using assms r by (auto simp: isGenerationNewer_def Let_def word_less_nat_alt)
  then have "unat ((a - b) + (b - a)) = unat (a - b) + unat (b - a)"
    by (subst unat_add_lem [symmetric]) simp
  with assms show False by (auto simp: isGenerationNewer_def Let_def unat_eq_0)
qed

lemma slotView_status [simp]:
  shows "slotView blobs (s\<lparr>ss_hasValidPayload := v0\<rparr>) k = slotView blobs s k"
    "slotView blobs (s\<lparr>ss_activeSlot := v1\<rparr>) k = slotView blobs s k"
    "slotView blobs (s\<lparr>ss_activeGeneration := v2\<rparr>) k = slotView blobs s k"
    "slotView blobs (s\<lparr>ss_lastLoadResult := v3\<rparr>) k = slotView blobs s k"
    "slotView blobs (s\<lparr>ss_lastSaveResult := v4\<rparr>) k = slotView blobs s k"
    "slotView blobs (s\<lparr>ss_rawBaseValid := v5\<rparr>) k = slotView blobs s k"
    "slotView blobs (s\<lparr>ss_rawBaseSlot := v6\<rparr>) k = slotView blobs s k"
    "slotView blobs (s\<lparr>ss_rawBaseGeneration := v7\<rparr>) k = slotView blobs s k"
    "slotView blobs (s\<lparr>ss_rawBaseForSave := v8\<rparr>) k = slotView blobs s k"
  by (simp_all add: slotView_def validBlob_def Let_def)

lemma storedConfig_status [simp]:
  shows "storedConfig blobs (s\<lparr>ss_hasValidPayload := v0\<rparr>) = storedConfig blobs s"
    "storedConfig blobs (s\<lparr>ss_activeSlot := v1\<rparr>) = storedConfig blobs s"
    "storedConfig blobs (s\<lparr>ss_activeGeneration := v2\<rparr>) = storedConfig blobs s"
    "storedConfig blobs (s\<lparr>ss_lastLoadResult := v3\<rparr>) = storedConfig blobs s"
    "storedConfig blobs (s\<lparr>ss_lastSaveResult := v4\<rparr>) = storedConfig blobs s"
    "storedConfig blobs (s\<lparr>ss_rawBaseValid := v5\<rparr>) = storedConfig blobs s"
    "storedConfig blobs (s\<lparr>ss_rawBaseSlot := v6\<rparr>) = storedConfig blobs s"
    "storedConfig blobs (s\<lparr>ss_rawBaseGeneration := v7\<rparr>) = storedConfig blobs s"
    "storedConfig blobs (s\<lparr>ss_rawBaseForSave := v8\<rparr>) = storedConfig blobs s"
  by (simp_all add: storedConfig_def)

context blob_reads
begin

lemma readSlot_view:
  assumes wf: "storage_wf s" "ss_opened s" "slot = SLOT_A \<or> slot = SLOT_B"
    and r: "readSlot ops s slot w = (ok, info, out, t)"
  shows "case slotView blobs s slot of
       None \<Rightarrow> \<not> ok \<and> info = emptySlotInfo \<and> out = None
     | Some (g, p) \<Rightarrow> ok \<and> info = \<lparr>si_valid = True, si_generation = g\<rparr> \<and>
         out = (if w then Some p else None) \<and> range_at (rbuf t) 24 (ss_payloadSize s) = p"
proof -
  obtain buf where b: "ss_buffer s = Some buf" "rbuf s = buf" "length buf = ss_capacity s"
      "ss_recordSize s = 24 + ss_payloadSize s" "ss_recordSize s \<le> length buf"
    using wf_opened [OF wf(1,2)] by metis
  let ?key = "slotKey s slot"
  let ?blob = "blobs (ss_backend s) ?key"
  obtain n b1 where l: "beBlobLength ops (ss_backend s) ?key = (n, b1)" by fastforce
  then have n: "n = length ?blob" "blobs b1 = blobs (ss_backend s)"
    using length_stored [of "ss_backend s" ?key] length_frame' [OF l] by simp_all
  show ?thesis
  proof (cases "length ?blob = ss_recordSize s")
    case False
    then show ?thesis
      using r wf b l n by (auto simp: readSlot_def slotView_def validBlob_def Let_def)
  next
    case True
    obtain m xs b2 where rd: "beReadBlob ops b1 ?key (ss_recordSize s) = (m, xs, b2)"
      by (metis prod_cases3)
    have m: "m = ss_recordSize s" "xs = ?blob"
      using read_stored [of b1 ?key "ss_recordSize s"] rd n True by auto
    let ?buf = "write_at buf 0 ?blob"
    have pre: "range_at ?buf 0 (24 + ss_payloadSize s) = range_at ?blob 0 (24 + ss_payloadSize s)"
      using True b by (simp add: buffer_simps range_at_0_ge)
    note c = slotRecordOk_cong [OF pre]
    have c1: "slotRecordOk s ?buf = slotRecordOk s ?blob" "readUint32 ?buf 12 = readUint32 ?blob 12"
        "range_at ?buf 24 (ss_payloadSize s) = range_at ?blob 24 (ss_payloadSize s)"
      using c b True by simp_all
    show ?thesis
      using r wf b l n rd m True c1
      by (auto simp: readSlot_def slotView_def validBlob_def Let_def rbuf_def split: if_splits)
  qed
qed

lemma selectLatest_view:
  assumes wf: "storage_wf s" "ss_opened s" and r: "selectLatest ops s = (found, slot, info, t)"
  shows "case storedConfig blobs s of
       None \<Rightarrow> \<not> found \<and> slot = NO_SLOT \<and> info = emptySlotInfo
     | Some (sl, g, p) \<Rightarrow> found \<and> slot = sl \<and> info = \<lparr>si_valid = True, si_generation = g\<rparr>"
proof -
  obtain okA iA oA s1 where a: "readSlot ops s SLOT_A False = (okA, iA, oA, s1)"
    by (metis prod_cases4)
  obtain okB iB oB s2 where b: "readSlot ops s1 SLOT_B False = (okB, iB, oB, s2)"
    by (metis prod_cases4)
  note e = readSlot_effect [OF a]
  have wf1: "storage_wf s1" "ss_opened s1" using read_effect_fields [OF e] wf by simp_all
  show ?thesis
    using readSlot_view [OF wf _ a] readSlot_view [OF wf1 _ b] slotView_effect [OF e, of SLOT_B] r a b
    by (cases "slotView blobs s SLOT_A"; cases "slotView blobs s SLOT_B")
      (auto simp: selectLatest_def storedConfig_def split: if_splits)
qed

lemma selectLatest_Some:
  assumes "storage_wf s" "ss_opened s" "storedConfig blobs s = Some (sl, g, p)"
  obtains t where "selectLatest ops s = (True, sl, \<lparr>si_valid = True, si_generation = g\<rparr>, t)"
    "read_effect blobs s t"
proof -
  obtain found slot info t where r: "selectLatest ops s = (found, slot, info, t)"
    by (metis prod_cases4)
  show ?thesis using that [of t] r selectLatest_view [OF assms(1,2) r] selectLatest_effect [OF r] assms(3)
    by simp
qed

lemma selectLatest_None:
  assumes "storage_wf s" "ss_opened s" "storedConfig blobs s = None"
  obtains t where "selectLatest ops s = (False, NO_SLOT, emptySlotInfo, t)" "read_effect blobs s t"
proof -
  obtain found slot info t where r: "selectLatest ops s = (found, slot, info, t)"
    by (metis prod_cases4)
  show ?thesis using that [of t] r selectLatest_view [OF assms(1,2) r] selectLatest_effect [OF r] assms(3)
    by simp
qed

lemma readSlot_Some:
  assumes "storage_wf s" "ss_opened s" "slot = SLOT_A \<or> slot = SLOT_B"
    "slotView blobs s slot = Some (g, p)"
  obtains t where "readSlot ops s slot w = (True, \<lparr>si_valid = True, si_generation = g\<rparr>,
      if w then Some p else None, t)"
    "read_effect blobs s t" "range_at (rbuf t) 24 (ss_payloadSize s) = p"
proof -
  obtain ok info out t where r: "readSlot ops s slot w = (ok, info, out, t)"
    by (metis prod_cases4)
  show ?thesis using that [of t] r readSlot_view [OF assms(1-3) r] readSlot_effect [OF r] assms(4)
    by simp
qed

lemma load_refines:
  assumes wf: "storage_wf s" "ss_opened s" and r: "storage_load ops s True = (ok, out, t)"
  shows "ok \<longleftrightarrow> storedConfig blobs s \<noteq> None"
    and "out = map_option (\<lambda>(sl, g, p). p) (storedConfig blobs s)"
    and "storedConfig blobs t = storedConfig blobs s"
    and "storage_wf t"
    and "ss_hasValidPayload t = ok"
    and "ss_lastLoadResult t = (if ok then Success else Failure)"
proof -
  have "ok = (storedConfig blobs s \<noteq> None) \<and>
      out = map_option (\<lambda>(sl, g, p). p) (storedConfig blobs s) \<and>
      storedConfig blobs t = storedConfig blobs s \<and> storage_wf t \<and>
      ss_hasValidPayload t = ok \<and> ss_lastLoadResult t = (if ok then Success else Failure)"
  proof (cases "storedConfig blobs s")
    case None
    then obtain u where u: "selectLatest ops s = (False, NO_SLOT, emptySlotInfo, u)"
        "read_effect blobs s u"
      using selectLatest_None [OF wf] by metis
    have "storage_wf u" using read_effect_fields [OF u(2)] wf by simp
    with storedConfig_effect [OF u(2)] None r u(1) wf show ?thesis
      by (auto simp: storage_load_def)
  next
    case (Some v)
    obtain sl g p where v: "v = (sl, g, p)" by (cases v)
    have st: "storedConfig blobs s = Some (sl, g, p)" using Some v by simp
    obtain u where u: "selectLatest ops s = (True, sl, \<lparr>si_valid = True, si_generation = g\<rparr>, u)"
        "read_effect blobs s u"
      using selectLatest_Some [OF wf st] by metis
    have sv: "sl = SLOT_A \<or> sl = SLOT_B" "slotView blobs s sl = Some (g, p)"
      using newestOf_cases st unfolding storedConfig_def by fastforce+
    have wfu: "storage_wf u" "ss_opened u" "slotView blobs u sl = Some (g, p)"
      using read_effect_fields [OF u(2)] wf slotView_effect [OF u(2)] sv by simp_all
    obtain x where x: "readSlot ops u sl True = (True, \<lparr>si_valid = True, si_generation = g\<rparr>, Some p, x)"
        "read_effect blobs u x"
      using readSlot_Some [OF wfu(1,2) sv(1) wfu(3), of True] by auto
    have wfx: "storage_wf x" using read_effect_fields [OF x(2)] wfu by simp
    have "storedConfig blobs x = Some (sl, g, p)"
      using storedConfig_effect [OF u(2)] storedConfig_effect [OF x(2)] st by simp
    with st r u(1) x(1) wf wfx show ?thesis
      by (auto simp: storage_load_def)
  qed
  then show "ok \<longleftrightarrow> storedConfig blobs s \<noteq> None"
    and "out = map_option (\<lambda>(sl, g, p). p) (storedConfig blobs s)"
    and "storedConfig blobs t = storedConfig blobs s"
    and "storage_wf t"
    and "ss_hasValidPayload t = ok"
    and "ss_lastLoadResult t = (if ok then Success else Failure)"
    by blast+
qed

end

section \<open>Writing\<close>

definition same_config :: "'b storage_service \<Rightarrow> 'b storage_service \<Rightarrow> bool" where
  "same_config s t \<longleftrightarrow>
     ss_opened t = ss_opened s \<and> ss_slotAKey t = ss_slotAKey s \<and> ss_slotBKey t = ss_slotBKey s \<and>
     ss_payloadSize t = ss_payloadSize s \<and> ss_recordSize t = ss_recordSize s \<and>
     ss_schemaVersion t = ss_schemaVersion s \<and> ss_validator t = ss_validator s \<and>
     ss_capacity t = ss_capacity s \<and> ss_bufferAddress t = ss_bufferAddress s \<and>
     ss_namespace t = ss_namespace s"

lemma same_config_refl [simp]: "same_config s s"
  by (simp add: same_config_def)

lemma same_config_trans: "same_config s t \<Longrightarrow> same_config t u \<Longrightarrow> same_config s u"
  by (simp add: same_config_def)

lemma read_effect_same_config: "read_effect blobs s t \<Longrightarrow> same_config s t"
  by (auto simp: read_effect_def same_config_def)

lemma same_config_status [simp]:
  shows "same_config s (t\<lparr>ss_hasValidPayload := v0\<rparr>) = same_config s t"
    "same_config s (t\<lparr>ss_activeSlot := v1\<rparr>) = same_config s t"
    "same_config s (t\<lparr>ss_activeGeneration := v2\<rparr>) = same_config s t"
    "same_config s (t\<lparr>ss_lastSaveResult := v3\<rparr>) = same_config s t"
    "same_config s (t\<lparr>ss_backend := v4\<rparr>) = same_config s t"
    "same_config s (t\<lparr>ss_buffer := v5\<rparr>) = same_config s t"
  by (simp_all add: same_config_def)

lemma slotKey_same: "same_config s t \<Longrightarrow> slotKey t k = slotKey s k"
  by (simp add: same_config_def slotKey_def)

lemma validBlob_same: "same_config s t \<Longrightarrow> validBlob t blob = validBlob s blob"
  by (simp add: same_config_def validBlob_def slotRecordOk_def runValidator_def split: option.split)

lemma slotView_same:
  assumes "same_config s t"
    and "blobs (ss_backend t) (slotKey s k) = blobs (ss_backend s) (slotKey s k)"
  shows "slotView blobs t k = slotView blobs s k"
  using assms
  by (simp add: slotView_def slotKey_same validBlob_same Let_def) (simp add: same_config_def)

lemma markCurrent_simps [simp]:
  "same_config s (markCurrent t sl g r) = same_config s t"
  "storage_wf (markCurrent t sl g r) = storage_wf t"
  "storedConfig blobs (markCurrent t sl g r) = storedConfig blobs t"
  "slotView blobs (markCurrent t sl g r) k = slotView blobs t k"
  "ss_backend (markCurrent t sl g r) = ss_backend t"
  "ss_lastSaveResult (markCurrent t sl g r) = r"
  by (simp_all add: markCurrent_def same_config_def)

text \<open>What a save may leave behind, success or not.\<close>

definition write_effect ::
  "('b \<Rightarrow> cstr \<Rightarrow> bytes) \<Rightarrow> u8 \<Rightarrow> 'b storage_service \<Rightarrow> 'b storage_service \<Rightarrow> bool" where
  "write_effect blobs target s t \<longleftrightarrow>
     same_config s t \<and> storage_wf t \<and>
     (\<forall>k. k \<noteq> slotKey s target \<longrightarrow> blobs (ss_backend t) k = blobs (ss_backend s) k)"

lemma write_effect_read:
  assumes "write_effect blobs target s t" "read_effect blobs t u"
  shows "write_effect blobs target s u"
  using assms same_config_trans [OF _ read_effect_same_config [OF assms(2)], of s]
    read_effect_fields(16,17) [OF assms(2)]
  by (simp add: write_effect_def)

lemma read_effect_write:
  assumes "read_effect blobs s t" "write_effect blobs target t u"
  shows "write_effect blobs target s u"
  using assms(2) same_config_trans [OF read_effect_same_config [OF assms(1)], of u]
    read_effect_fields(13,16) [OF assms(1)]
  by (simp add: write_effect_def)

lemma write_effect_status [simp]:
  "write_effect blobs target s (t\<lparr>ss_lastSaveResult := r\<rparr>) = write_effect blobs target s t"
  "write_effect blobs target s (t\<lparr>ss_hasValidPayload := v0\<rparr>) = write_effect blobs target s t"
  "write_effect blobs target s (t\<lparr>ss_activeSlot := v1\<rparr>) = write_effect blobs target s t"
  "write_effect blobs target s (t\<lparr>ss_activeGeneration := v2\<rparr>) = write_effect blobs target s t"
  "write_effect blobs target s (markCurrent t sl g r) = write_effect blobs target s t"
  by (simp_all add: write_effect_def)

context blob_frame
begin

lemma refreshStatus_effect: "\<exists>u. read_effect blobs s u \<and> 
   (\<exists>a b c. refreshStatus ops s = u\<lparr>ss_hasValidPayload := a, ss_activeSlot := b, ss_activeGeneration := c\<rparr>)"
proof -
  obtain f sl i u where r: "selectLatest ops s = (f, sl, i, u)" by (metis prod_cases4)
  have "\<exists>a b c. refreshStatus ops s = u\<lparr>ss_hasValidPayload := a, ss_activeSlot := b, ss_activeGeneration := c\<rparr>"
  proof (cases f)
    case True
    with r show ?thesis
      by (intro exI [of _ True] exI [of _ sl] exI [of _ "si_generation i"])
        (simp add: refreshStatus_def)
  next
    case False
    with r show ?thesis
      by (intro exI [of _ False] exI [of _ NO_SLOT] exI [of _ 0]) (simp add: refreshStatus_def)
  qed
  then show ?thesis using selectLatest_effect [OF r] by blast
qed

lemma refreshStatus_write_effect:
  "write_effect blobs target s t \<Longrightarrow> write_effect blobs target s (refreshStatus ops t)"
  using refreshStatus_effect [of t] write_effect_read by fastforce

lemma write_frame': "beWriteBlob ops b k xs = (n, b') \<Longrightarrow> k' \<noteq> k \<Longrightarrow> blobs b' k' = blobs b k'"
  using write_frame [of k' k b xs] by simp

lemma writeAndVerify_effect:
  assumes wf: "storage_wf s" "ss_opened s" and len: "ss_payloadSize s \<le> length pl"
    and ok: "runValidator s (take (ss_payloadSize s) pl)"
    and r: "writeAndVerify ops s pl target gen = (res, t)"
  shows "write_effect blobs target s t"
proof -
  let ?buf = "buildRecord s pl gen"
  obtain n b where w: "beWriteBlob ops (ss_backend s) (slotKey s target) (take (ss_recordSize s) ?buf) = (n, b)"
    by fastforce
  let ?s1 = "s\<lparr>ss_backend := b, ss_buffer := Some ?buf\<rparr>"
  have e1: "write_effect blobs target s ?s1"
    using wf write_frame' [OF w] buildRecord_ok(4) [OF wf len ok]
    by (auto simp: write_effect_def storage_wf_def)
  obtain o2 i2 out2 s2 where rd: "readSlot ops ?s1 target False = (o2, i2, out2, s2)"
    by (metis prod_cases4)
  have e2: "write_effect blobs target s s2"
    using e1 readSlot_effect [OF rd] by (rule write_effect_read)
  show ?thesis
    using r w rd refreshStatus_write_effect [OF e1] refreshStatus_write_effect [OF e2] e2
    by (auto simp: writeAndVerify_def Let_def split: if_splits)
qed

end

context blob_store
begin

lemma writeAndVerify_store:
  assumes wf: "storage_wf s" "ss_opened s" and len: "ss_payloadSize s \<le> length pl"
    and ok: "runValidator s (take (ss_payloadSize s) pl)"
    and target: "target = SLOT_A \<or> target = SLOT_B"
    and r: "writeAndVerify ops s pl target gen = (res, t)"
  shows "res" and "slotView blobs t target = Some (gen, take (ss_payloadSize s) pl)"
    and "ss_lastSaveResult t = Success"
    and "ss_rawBaseValid t \<and> ss_rawBaseSlot t = target \<and> ss_rawBaseGeneration t = gen"
    and "ss_activeGeneration t = gen"
proof -
  let ?buf = "buildRecord s pl gen"
  let ?n = "ss_payloadSize s"
  note built = buildRecord_ok [OF wf len ok, of gen]
  obtain rs: "ss_recordSize s = 24 + ?n" "ss_recordSize s \<le> ss_capacity s"
    using wf by (auto simp: storage_wf_def)
  have key: "slotKey s target \<noteq> None"
    using wf by (auto simp: storage_wf_def slotKey_def nullOrEmpty_def)
  have ne: "take (ss_recordSize s) ?buf \<noteq> []" using rs built(4) by auto
  obtain n b where w: "beWriteBlob ops (ss_backend s) (slotKey s target) (take (ss_recordSize s) ?buf) = (n, b)"
    by fastforce
  then have n: "n = ss_recordSize s" "blobs b (slotKey s target) = take (ss_recordSize s) ?buf"
    using write_stored [OF ne key, of "ss_backend s"] rs built(4) by simp_all
  let ?s1 = "s\<lparr>ss_backend := b, ss_buffer := Some ?buf\<rparr>"
  have sc: "same_config s ?s1" by simp
  have wf1: "storage_wf ?s1" "ss_opened ?s1"
    using wf built(4) by (auto simp: storage_wf_def)
  have pre: "range_at (take (ss_recordSize s) ?buf) 0 (24 + ?n) = range_at ?buf 0 (24 + ?n)"
    using rs by (simp add: range_at_def)
  note c = slotRecordOk_cong [OF pre]
  have "validBlob s (take (ss_recordSize s) ?buf)"
    using c(1) built rs by (simp add: validBlob_def)
  then have view: "slotView blobs ?s1 target = Some (gen, take ?n pl)"
    using c(2,3) built rs n slotKey_same [OF sc] validBlob_same [OF sc]
    by (simp add: slotView_def)
  obtain u where u: "readSlot ops ?s1 target False = (True, \<lparr>si_valid = True, si_generation = gen\<rparr>, None, u)"
      "read_effect blobs ?s1 u" "range_at (rbuf u) 24 ?n = take ?n pl"
    using readSlot_Some [OF wf1 target view, of False] by auto
  have hold: "bufferHoldsPayload u pl"
    using u(3) read_effect_fields(4) [OF u(2)] by (simp add: bufferHoldsPayload_def)
  have "res \<and> t = markCurrent u target gen Success"
    using r w n u(1) hold by (simp add: writeAndVerify_def)
  then show "res" and "slotView blobs t target = Some (gen, take ?n pl)"
    and "ss_lastSaveResult t = Success"
    and "ss_rawBaseValid t \<and> ss_rawBaseSlot t = target \<and> ss_rawBaseGeneration t = gen"
    and "ss_activeGeneration t = gen"
    using view slotView_effect [OF u(2)] by (simp_all add: markCurrent_def)
qed

end

section \<open>Saving\<close>

text \<open>A call of \<open>save\<close> that passes the argument checks and the validator.\<close>

definition saveAccepted :: "'b storage_service \<Rightarrow> nat \<Rightarrow> bytes \<Rightarrow> bool" where
  "saveAccepted s address pl \<longleftrightarrow>
     storage_wf s \<and> ss_opened s \<and> \<not> payloadOverlapsWorkspace s address \<and>
     ss_payloadSize s \<le> length pl \<and> runValidator s (take (ss_payloadSize s) pl)"

text \<open>Where the next record goes, from the configuration stored now.\<close>

definition saveTargetOf :: "('b \<Rightarrow> cstr \<Rightarrow> bytes) \<Rightarrow> 'b storage_service \<Rightarrow> u8 \<times> u32" where
  "saveTargetOf blobs s =
     (case storedConfig blobs s of
        None \<Rightarrow> saveTarget s False NO_SLOT emptySlotInfo
      | Some (sl, g, p) \<Rightarrow> saveTarget s True sl \<lparr>si_valid = True, si_generation = g\<rparr>)"

definition otherSlot :: "u8 \<Rightarrow> u8" where
  "otherSlot slot = (if slot = SLOT_B then SLOT_A else SLOT_B)"

lemma otherSlot_simps [simp]:
  "otherSlot SLOT_A = SLOT_B" "otherSlot SLOT_B = SLOT_A"
  by (simp_all add: otherSlot_def)

lemma saveTarget_cases:
  "saveTarget s ex sl i =
     (if ex \<and> currentCoversRawBase s sl i then (otherSlot sl, si_generation i + 1)
      else if ss_rawBaseForSave s \<and> ss_rawBaseValid s
        then (otherSlot (ss_rawBaseSlot s), ss_rawBaseGeneration s + 1)
      else (SLOT_A, 1))"
  by (auto simp: saveTarget_def Let_def otherSlot_def)

lemma saveTarget_slot: "saveTarget s ex sl i = (target, gen) \<Longrightarrow> target = SLOT_A \<or> target = SLOT_B"
  by (auto simp: saveTarget_cases otherSlot_def split: if_splits)

lemma read_effect_saveTarget:
  assumes "read_effect blobs s t"
  shows "saveTarget t ex sl i = saveTarget s ex sl i"
    "currentCoversRawBase t sl i = currentCoversRawBase s sl i"
  unfolding saveTarget_def currentCoversRawBase_def
  by (simp_all only: read_effect_fields(9-12) [OF assms])

context blob_reads
begin

lemma save_cases:
  assumes acc: "saveAccepted s address pl" and r: "storage_save ops s (Some (address, pl)) = (ok, t)"
  obtains (unchanged) u sl g where "read_effect blobs s u"
      "storedConfig blobs s = Some (sl, g, take (ss_payloadSize s) pl)" "ok"
      "t = markCurrent u sl g NoChange"
      "currentCoversRawBase s sl \<lparr>si_valid = True, si_generation = g\<rparr>"
  | (written) u target gen where "read_effect blobs s u" "saveTargetOf blobs s = (target, gen)"
      "writeAndVerify ops u pl target gen = (ok, t)" "target = SLOT_A \<or> target = SLOT_B"
proof (cases "storedConfig blobs s")
  case None
  have wf: "storage_wf s" "ss_opened s" using acc by (simp_all add: saveAccepted_def)
  obtain u where u: "selectLatest ops s = (False, NO_SLOT, emptySlotInfo, u)" "read_effect blobs s u"
    using selectLatest_None [OF wf None] by metis
  obtain target gen where tg: "saveTarget u False NO_SLOT emptySlotInfo = (target, gen)"
    by fastforce
  have "writeAndVerify ops u pl target gen = (ok, t)"
    using r acc u(1) tg by (simp add: storage_save_def saveAccepted_def)
  then show ?thesis
    using written [OF u(2) _ _ saveTarget_slot [OF tg]] tg read_effect_saveTarget [OF u(2)] None
    by (simp add: saveTargetOf_def)
next
  case (Some v)
  obtain sl g p where v: "v = (sl, g, p)" by (cases v)
  let ?i = "\<lparr>si_valid = True, si_generation = g\<rparr>"
  have wf: "storage_wf s" "ss_opened s" using acc by (simp_all add: saveAccepted_def)
  have st: "storedConfig blobs s = Some (sl, g, p)" using Some v by simp
  obtain u where u: "selectLatest ops s = (True, sl, ?i, u)" "read_effect blobs s u"
    using selectLatest_Some [OF wf st] by metis
  have sv: "sl = SLOT_A \<or> sl = SLOT_B" "slotView blobs s sl = Some (g, p)"
    using newestOf_cases st unfolding storedConfig_def by fastforce+
  have wfu: "storage_wf u" "ss_opened u" "slotView blobs u sl = Some (g, p)"
    using read_effect_fields [OF u(2)] wf slotView_effect [OF u(2)] sv by simp_all
  obtain x where x: "readSlot ops u sl False = (True, ?i, None, x)" "read_effect blobs u x"
      "range_at (rbuf x) 24 (ss_payloadSize u) = p"
    using readSlot_Some [OF wfu(1,2) sv(1) wfu(3), of False] by auto
  have ex: "read_effect blobs s x" using u(2) x(2) by (rule read_effect_trans)
  have hold: "bufferHoldsPayload x pl \<longleftrightarrow> p = take (ss_payloadSize s) pl"
    using x(3) read_effect_fields(4) [OF ex] read_effect_fields(4) [OF u(2)]
    by (simp add: bufferHoldsPayload_def)
  let ?y = "if currentCoversRawBase s sl ?i then x else u"
  have ey: "read_effect blobs s ?y" using ex u(2) by simp
  obtain target gen where tg: "saveTarget s True sl ?i = (target, gen)" by fastforce
  have step: "storage_save ops s (Some (address, pl)) =
      (if currentCoversRawBase s sl ?i \<and> p = take (ss_payloadSize s) pl
       then (True, markCurrent x sl g NoChange) else writeAndVerify ops ?y pl target gen)"
    using acc u(1) x(1) hold tg read_effect_saveTarget [OF u(2)] read_effect_saveTarget [OF ex]
    by (simp add: storage_save_def saveAccepted_def)
  show ?thesis
  proof (cases "currentCoversRawBase s sl ?i \<and> p = take (ss_payloadSize s) pl")
    case True
    then show ?thesis using unchanged [OF ex, of sl g] step r st by simp
  next
    case False
    then have "writeAndVerify ops ?y pl target gen = (ok, t)"
      using step [unfolded if_not_P [OF False]] r by simp
    then show ?thesis
      using written [OF ey _ _ saveTarget_slot [OF tg]] tg st by (simp add: saveTargetOf_def)
  qed
qed

lemma save_effect:
  assumes acc: "saveAccepted s address pl" and r: "storage_save ops s (Some (address, pl)) = (ok, t)"
  shows "write_effect blobs (fst (saveTargetOf blobs s)) s t"
  using acc r
proof (cases rule: save_cases)
  case (unchanged u sl g)
  have "write_effect blobs (fst (saveTargetOf blobs s)) s s"
    using acc by (simp add: write_effect_def saveAccepted_def)
  then have "write_effect blobs (fst (saveTargetOf blobs s)) s u"
    using unchanged(1) by (rule write_effect_read)
  then show ?thesis using unchanged(4) by simp
next
  case (written u target gen)
  note f = read_effect_fields [OF written(1)]
  have "write_effect blobs target u t"
    using writeAndVerify_effect [OF _ _ _ _ written(3)] acc f by (simp add: saveAccepted_def)
  with written(1) have "write_effect blobs target s t" by (rule read_effect_write)
  then show ?thesis using written(2) by simp
qed

text \<open>
  The safety of the two slots: outside a raw save, the slot that holds the configuration is not
  the one a save writes, so whatever the write did, the configuration is still there.
\<close>

lemma save_keeps_current:
  assumes acc: "saveAccepted s address pl" and r: "storage_save ops s (Some (address, pl)) = (ok, t)"
    and keys: "ss_slotAKey s \<noteq> ss_slotBKey s" and plain: "\<not> ss_rawBaseForSave s"
    and st: "storedConfig blobs s = Some (sl, g, p)"
  shows "slotView blobs t sl = Some (g, p)"
proof -
  have sl: "sl = SLOT_A \<or> sl = SLOT_B" "slotView blobs s sl = Some (g, p)"
    using newestOf_cases st unfolding storedConfig_def by fastforce+
  have "fst (saveTargetOf blobs s) \<noteq> sl" "fst (saveTargetOf blobs s) = SLOT_A \<or> fst (saveTargetOf blobs s) = SLOT_B"
    using sl(1) st plain by (auto simp: saveTargetOf_def saveTarget_cases currentCoversRawBase_def)
  then have "slotKey s sl \<noteq> slotKey s (fst (saveTargetOf blobs s))"
    using sl(1) keys by (auto simp: slotKey_def)
  then have "same_config s t" "blobs (ss_backend t) (slotKey s sl) = blobs (ss_backend s) (slotKey s sl)"
    using save_effect [OF acc r] by (auto simp: write_effect_def)
  then show ?thesis using sl(2) slotView_same by metis
qed

end

definition rawBaseOk :: "('b \<Rightarrow> cstr \<Rightarrow> bytes) \<Rightarrow> 'b storage_service \<Rightarrow> bool" where
  "rawBaseOk blobs s \<longleftrightarrow>
     (ss_rawBaseForSave s \<longrightarrow>
        ss_rawBaseValid s \<and> (ss_rawBaseSlot s = SLOT_A \<or> ss_rawBaseSlot s = SLOT_B) \<and>
        (\<forall>g p. slotView blobs s (ss_rawBaseSlot s) = Some (g, p) \<longrightarrow> g = ss_rawBaseGeneration s))"

text \<open>
  The slot a save does not write holds nothing valid, or a record of the generation before.
\<close>

lemma saveTargetOf_other:
  assumes base: "rawBaseOk blobs s" and tg: "saveTargetOf blobs s = (target, gen)"
  shows "(target = SLOT_A \<or> target = SLOT_B) \<and>
    (\<forall>g p. slotView blobs s (otherSlot target) = Some (g, p) \<longrightarrow> gen = g + 1)"
proof -
  have raw: ?thesis if "ss_rawBaseForSave s"
      "(target, gen) = (otherSlot (ss_rawBaseSlot s), ss_rawBaseGeneration s + 1)"
    using base that by (auto simp: rawBaseOk_def)
  show ?thesis
  proof (cases "storedConfig blobs s")
    case None
    then have "slotView blobs s k = None" if "k = SLOT_A \<or> k = SLOT_B" for k
      using that by (auto simp: storedConfig_def)
    then show ?thesis
      using tg None raw by (auto simp: saveTargetOf_def saveTarget_cases split: if_splits)
  next
    case (Some v)
    obtain sl g p where v: "v = (sl, g, p)" by (cases v)
    let ?i = "\<lparr>si_valid = True, si_generation = g\<rparr>"
    have sl: "sl = SLOT_A \<or> sl = SLOT_B" "slotView blobs s sl = Some (g, p)"
      using newestOf_cases Some v unfolding storedConfig_def by fastforce+
    show ?thesis
    proof (cases "currentCoversRawBase s sl ?i")
      case True
      then have "target = otherSlot sl" "gen = g + 1"
        using tg Some v by (simp_all add: saveTargetOf_def saveTarget_cases)
      with sl show ?thesis by auto
    next
      case False
      then have "ss_rawBaseForSave s" by (simp add: currentCoversRawBase_def)
      with False base have "(target, gen) = (otherSlot (ss_rawBaseSlot s), ss_rawBaseGeneration s + 1)"
        using tg Some v by (simp add: saveTargetOf_def saveTarget_cases rawBaseOk_def)
      with \<open>ss_rawBaseForSave s\<close> show ?thesis by (rule raw)
    qed
  qed
qed

lemma storedConfig_target:
  assumes "target = SLOT_A \<or> target = SLOT_B" and "slotView blobs t target = Some (gen, p)"
    and "\<And>g q. slotView blobs t (otherSlot target) = Some (g, q) \<Longrightarrow> gen = g + 1"
  shows "storedConfig blobs t = Some (target, gen, p)"
proof -
  have "\<not> isGenerationNewer g (g + 1)" for g
    using isGenerationNewer_asym isGenerationNewer_Suc by blast
  then show ?thesis
    using assms
    by (cases "slotView blobs t SLOT_A"; cases "slotView blobs t SLOT_B") (auto simp: storedConfig_def)
qed

text \<open>Whatever the writes do, a save that reports success has stored its payload.\<close>

context blob_reads
begin

lemma writeAndVerify_verified:
  assumes wf: "storage_wf s" "ss_opened s" and len: "ss_payloadSize s \<le> length pl"
    and ok: "runValidator s (take (ss_payloadSize s) pl)"
    and target: "target = SLOT_A \<or> target = SLOT_B"
    and r: "writeAndVerify ops s pl target gen = (True, t)"
  shows "slotView blobs t target = Some (gen, take (ss_payloadSize s) pl)"
proof -
  let ?buf = "buildRecord s pl gen"
  obtain n b where w: "beWriteBlob ops (ss_backend s) (slotKey s target) (take (ss_recordSize s) ?buf) = (n, b)"
    by fastforce
  let ?s1 = "s\<lparr>ss_backend := b, ss_buffer := Some ?buf\<rparr>"
  have wf1: "storage_wf ?s1" "ss_opened ?s1"
    using wf buildRecord_ok(4) [OF wf len ok] by (auto simp: storage_wf_def)
  obtain ok2 i2 out2 u where rd: "readSlot ops ?s1 target False = (ok2, i2, out2, u)" by (metis prod_cases4)
  note e = readSlot_effect [OF rd]
  have c: "ok2" "si_generation i2 = gen" "bufferHoldsPayload u pl" "t = markCurrent u target gen Success"
    using r w rd by (auto simp: writeAndVerify_def Let_def split: if_splits)
  have "slotView blobs ?s1 target = Some (gen, take (ss_payloadSize s) pl)"
    using readSlot_view [OF wf1 target rd] c read_effect_fields(4) [OF e]
    by (cases "slotView blobs ?s1 target") (auto simp: bufferHoldsPayload_def)
  then show ?thesis using slotView_effect [OF e] c(4) by simp
qed

lemma save_verified:
  assumes acc: "saveAccepted s address pl" and r: "storage_save ops s (Some (address, pl)) = (True, t)"
    and keys: "ss_slotAKey s \<noteq> ss_slotBKey s" and base: "rawBaseOk blobs s"
  shows "map_option (snd \<circ> snd) (storedConfig blobs t) = Some (take (ss_payloadSize s) pl)"
  using acc r
proof (cases rule: save_cases)
  case (unchanged u sl g)
  then show ?thesis using storedConfig_effect [OF unchanged(1)] by simp
next
  case (written u target gen)
  note f = read_effect_fields [OF written(1)]
  let ?other = "otherSlot target"
  have accu: "storage_wf u" "ss_opened u" "ss_payloadSize u \<le> length pl"
      "runValidator u (take (ss_payloadSize u) pl)"
    using acc f by (simp_all add: saveAccepted_def)
  note w = writeAndVerify_verified [OF accu written(4,3)]
  have e: "write_effect blobs target s t"
    using save_effect [OF acc r] written(2) by simp
  then have sc: "same_config s t" by (simp add: write_effect_def)
  have "slotKey s ?other \<noteq> slotKey s target" using keys written(4) by (auto simp: slotKey_def)
  then have "blobs (ss_backend t) (slotKey s ?other) = blobs (ss_backend s) (slotKey s ?other)"
    using e by (simp add: write_effect_def)
  then have other: "slotView blobs t ?other = slotView blobs s ?other"
    by (rule slotView_same [OF sc])
  have "storedConfig blobs t = Some (target, gen, take (ss_payloadSize s) pl)"
    using storedConfig_target [OF written(4), of blobs t gen] w other f(4)
      saveTargetOf_other [OF base written(2)]
    by simp
  then show ?thesis by simp
qed

end

context blob_store
begin

lemma save_refines:
  assumes acc: "saveAccepted s address pl" and r: "storage_save ops s (Some (address, pl)) = (ok, t)"
    and keys: "ss_slotAKey s \<noteq> ss_slotBKey s" and base: "rawBaseOk blobs s"
  shows "ok \<and> storage_wf t \<and> same_config s t \<and>
    map_option (snd \<circ> snd) (storedConfig blobs t) = Some (take (ss_payloadSize s) pl) \<and>
    (ss_lastSaveResult t = Success \<or> ss_lastSaveResult t = NoChange)"
proof -
  have "ok \<and> (ss_lastSaveResult t = Success \<or> ss_lastSaveResult t = NoChange)"
    using acc r
  proof (cases rule: save_cases)
    case (written u target gen)
    have "storage_wf u" "ss_opened u" "ss_payloadSize u \<le> length pl" "runValidator u (take (ss_payloadSize u) pl)"
      using acc read_effect_fields [OF written(1)] by (simp_all add: saveAccepted_def)
    from writeAndVerify_store [OF this written(4,3)] show ?thesis by simp
  qed simp
  moreover have "storage_wf t \<and> same_config s t" using save_effect [OF acc r] by (simp add: write_effect_def)
  ultimately show ?thesis using save_verified [OF acc _ keys base, of t] r by simp
qed

end

section \<open>Raw records\<close>

definition validRawBlob :: "'b storage_service \<Rightarrow> bytes \<Rightarrow> bool" where
  "validRawBlob s blob \<longleftrightarrow>
     24 \<le> length blob \<and> length blob \<le> ss_capacity s \<and> length blob \<le> SIZE_MAX \<and>
     magicAndFormatOk blob \<and> headerCrcOk blob \<and>
     24 + unat (readUint32 blob 8) = length blob \<and> payloadCrcOk blob (unat (readUint32 blob 8))"

text \<open>Schema, generation and payload of an intact record, whatever its schema.\<close>

definition rawView :: "('b \<Rightarrow> cstr \<Rightarrow> bytes) \<Rightarrow> 'b storage_service \<Rightarrow> u8 \<Rightarrow> (u16 \<times> u32 \<times> bytes) option" where
  "rawView blobs s slot =
     (let blob = blobs (ss_backend s) (slotKey s slot)
      in if validRawBlob s blob
         then Some (readUint16 blob 6, readUint32 blob 12, drop 24 blob) else None)"

fun newestRaw ::
  "(u16 \<times> u32 \<times> bytes) option \<Rightarrow> (u16 \<times> u32 \<times> bytes) option \<Rightarrow> (u8 \<times> u16 \<times> u32 \<times> bytes) option" where
  "newestRaw None None = None"
| "newestRaw (Some a) None = Some (SLOT_A, a)"
| "newestRaw None (Some b) = Some (SLOT_B, b)"
| "newestRaw (Some (sa, ga, pa)) (Some (sb, gb, pb)) =
     (if isGenerationNewer gb ga then Some (SLOT_B, sb, gb, pb) else Some (SLOT_A, sa, ga, pa))"

definition rawStored :: "('b \<Rightarrow> cstr \<Rightarrow> bytes) \<Rightarrow> 'b storage_service \<Rightarrow> (u8 \<times> u16 \<times> u32 \<times> bytes) option" where
  "rawStored blobs s = newestRaw (rawView blobs s SLOT_A) (rawView blobs s SLOT_B)"

lemma newestRaw_cases:
  assumes "newestRaw a b = Some (slot, v)"
  shows "slot = SLOT_A \<and> a = Some v \<or> slot = SLOT_B \<and> b = Some v"
  using assms by (cases "(a, b)" rule: newestRaw.cases) (auto split: if_splits)

lemma newestRaw_None [simp]: "newestRaw a b = None \<longleftrightarrow> a = None \<and> b = None"
  by (cases "(a, b)" rule: newestRaw.cases) auto

lemma validBlob_raw:
  assumes "storage_wf s" "ss_opened s" "validBlob s blob"
  shows "validRawBlob s blob"
  using assms
  by (auto simp: storage_wf_def validBlob_def validRawBlob_def slotRecordOk_def)

text \<open>A record of the service's own schema and size is also found by the raw reader.\<close>

lemma slotView_raw:
  assumes "storage_wf s" "ss_opened s" "slotView blobs s slot = Some (g, p)"
  shows "rawView blobs s slot = Some (ss_schemaVersion s, g, p)"
  using assms validBlob_raw [OF assms(1,2)]
  by (auto simp: slotView_def rawView_def validBlob_def slotRecordOk_def storage_wf_def
      range_at_def Let_def split: if_splits)

lemma rawView_effect:
  assumes "read_effect blobs s t"
  shows "rawView blobs t slot = rawView blobs s slot"
  using read_effect_fields [OF assms] by (simp add: rawView_def validRawBlob_def Let_def)

lemma rawStored_effect: "read_effect blobs s t \<Longrightarrow> rawStored blobs t = rawStored blobs s"
  by (simp add: rawStored_def rawView_effect)

lemma validRawBlob_cong:
  assumes "range_at b1 0 n = range_at b2 0 n" "n \<le> length b1" "length b2 = n" "24 \<le> n"
  shows "magicAndFormatOk b1 = magicAndFormatOk b2" "headerCrcOk b1 = headerCrcOk b2"
    "readUint32 b1 8 = readUint32 b2 8" "readUint32 b1 12 = readUint32 b2 12"
    "readUint16 b1 6 = readUint16 b2 6"
    "24 + m = n \<Longrightarrow> payloadCrcOk b1 m = payloadCrcOk b2 m"
    "24 + m = n \<Longrightarrow> range_at b1 24 m = drop 24 b2"
proof -
  have sub: "range_at b1 off k = range_at b2 off k" if "off + k \<le> n" for off k
    using range_at_range_at [OF that, of b1 0] range_at_range_at [OF that, of b2 0] assms(1) by simp
  have 4: "readUint32 b1 off = readUint32 b2 off" if "off + 4 \<le> 24" for off
    using sub [of off 4] that assms by (intro readUint32_cong) auto
  have 2: "readUint16 b1 off = readUint16 b2 off" if "off + 2 \<le> 24" for off
    using sub [of off 2] that assms by (intro readUint16_cong) auto
  have c: "crc32 (Some (drop off b1)) k = crc32 (Some (drop off b2)) k" if "off + k \<le> n" for off k
    using sub [OF that] by (simp add: crc32_range)
  show "magicAndFormatOk b1 = magicAndFormatOk b2" "readUint32 b1 8 = readUint32 b2 8"
    "readUint32 b1 12 = readUint32 b2 12" "readUint16 b1 6 = readUint16 b2 6"
    by (simp_all add: magicAndFormatOk_def 4 2)
  show "headerCrcOk b1 = headerCrcOk b2"
    using c [of 0 20] assms(4) by (simp add: headerCrcOk_def 4)
  show "24 + m = n \<Longrightarrow> payloadCrcOk b1 m = payloadCrcOk b2 m"
    using c [of 24 m] by (simp add: payloadCrcOk_def 4)
  show "24 + m = n \<Longrightarrow> range_at b1 24 m = drop 24 b2"
    using sub [of 24 m] assms by (auto simp: range_at_def)
qed

context blob_reads
begin

lemma readRawSlot_view:
  assumes wf: "storage_wf s" "ss_opened s" "slot = SLOT_A \<or> slot = SLOT_B"
    and r: "readRawSlot ops s slot = (ok, info, t)"
  shows "case rawView blobs s slot of
       None \<Rightarrow> \<not> ok \<and> rsi_present info = (blobs (ss_backend s) (slotKey s slot) \<noteq> [])
     | Some (v, g, p) \<Rightarrow> ok \<and> info = \<lparr>rsi_present = True, rsi_valid = True, rsi_schemaVersion = v,
           rsi_payloadSize = length p, rsi_generation = g\<rparr> \<and>
         range_at (rbuf t) 24 (length p) = p"
proof -
  obtain buf where b: "ss_buffer s = Some buf" "rbuf s = buf" "length buf = ss_capacity s"
    using wf_opened [OF wf(1,2)] by metis
  let ?key = "slotKey s slot"
  let ?blob = "blobs (ss_backend s) ?key"
  obtain n b1 where l: "beBlobLength ops (ss_backend s) ?key = (n, b1)" by fastforce
  then have n: "n = length ?blob" "blobs b1 = blobs (ss_backend s)"
    using length_stored [of "ss_backend s" ?key] length_frame' [OF l] by simp_all
  show ?thesis
  proof (cases "24 \<le> length ?blob \<and> length ?blob \<le> ss_capacity s")
    case False
    then have "rawView blobs s slot = None" by (auto simp: rawView_def validRawBlob_def)
    with False show ?thesis
      using r wf b l n
      by (auto simp: readRawSlot_def emptyRawSlotInfo_def Let_def split: if_splits)
  next
    case True
    obtain m xs b2 where rd: "beReadBlob ops b1 ?key n = (m, xs, b2)"
      by (metis prod_cases3)
    have m: "m = n" "xs = ?blob"
      using read_stored [of b1 ?key n] rd n by auto
    let ?buf = "write_at buf 0 ?blob"
    have pre: "range_at ?buf 0 (length ?blob) = range_at ?blob 0 (length ?blob)"
      using True b by (simp add: buffer_simps range_at_0_ge)
    note c = validRawBlob_cong [OF pre]
    have lb: "length ?blob \<le> length ?buf" using True b by simp
    let ?e = "unat (readUint32 ?blob 8)"
    have ok: "ok \<longleftrightarrow> validRawBlob s ?blob"
      using r wf b l n rd m True c(1-6) lb
      by (auto simp: readRawSlot_def validRawBlob_def SIZE_MAX_def Let_def split: if_splits)
    have t: "rbuf t = ?buf" if ok
      using r wf b l n rd m True that
      by (auto simp: readRawSlot_def rbuf_def Let_def split: if_splits)
    have pres: "rsi_present info"
      using r wf b l n rd m True
      by (auto simp: readRawSlot_def emptyRawSlotInfo_def Let_def split: if_splits)
    have info: "info = \<lparr>rsi_present = True, rsi_valid = True, rsi_schemaVersion = readUint16 ?blob 6,
        rsi_payloadSize = ?e, rsi_generation = readUint32 ?blob 12\<rparr>" if ok
      using r wf b l n rd m True that c(3-5) lb
      by (auto simp: readRawSlot_def Let_def split: if_splits)
    show ?thesis
    proof (cases "validRawBlob s ?blob")
      case False
      with ok pres True show ?thesis by (auto simp: rawView_def)
    next
      case v: True
      then have e: "24 + ?e = length ?blob" by (simp add: validRawBlob_def)
      have "rawView blobs s slot = Some (readUint16 ?blob 6, readUint32 ?blob 12, drop 24 ?blob)"
        using v by (simp add: rawView_def Let_def)
      moreover have "range_at (rbuf t) 24 ?e = drop 24 ?blob" "length (drop 24 ?blob) = ?e"
        using v ok t c(7) [OF lb refl _ e] True e by simp_all
      ultimately show ?thesis using v ok info by simp
    qed
  qed
qed

text \<open>\<open>loadLatestRaw\<close> finds the newest intact record and makes it the base of the next raw save.\<close>

lemma loadLatestRaw_view:
  assumes wf: "storage_wf s" "ss_opened s"
    and r: "loadLatestRaw ops s True cap = (rec, out, t)"
  shows "storage_wf t \<and> same_config s t \<and> rawStored blobs t = rawStored blobs s \<and>
    (case rawStored blobs s of
       None \<Rightarrow> out = None \<and> \<not> ss_rawBaseValid t \<and>
         raw_result rec = (if blobs (ss_backend s) (ss_slotAKey s) = [] \<and>
           blobs (ss_backend s) (ss_slotBKey s) = [] then RawEmpty else RawNoValidRecord)
     | Some (sl, v, g, p) \<Rightarrow>
         if cap < length p then out = None \<and> raw_result rec = RawInsufficientCapacity
         else out = Some p \<and>
           rec = \<lparr>raw_result = RawSuccess, raw_schemaVersion = v, raw_payloadSize = length p,
             raw_generation = g, raw_slot = (if sl = SLOT_A then SlotA else SlotB)\<rparr> \<and>
           ss_rawBaseValid t \<and> ss_rawBaseSlot t = sl \<and> ss_rawBaseGeneration t = g)"
proof -
  let ?s0 = "s\<lparr>ss_rawBaseValid := False, ss_rawBaseSlot := NO_SLOT, ss_rawBaseGeneration := 0\<rparr>"
  have wf0: "storage_wf ?s0" "ss_opened ?s0" using wf by simp_all
  have v0: "rawView blobs ?s0 k = rawView blobs s k" for k
    by (simp add: rawView_def validRawBlob_def)
  obtain okA iA s1 where a: "readRawSlot ops ?s0 SLOT_A = (okA, iA, s1)" by (metis prod_cases3)
  obtain okB iB s2 where b: "readRawSlot ops s1 SLOT_B = (okB, iB, s2)" by (metis prod_cases3)
  note ea = readRawSlot_effect [OF a] and eb = readRawSlot_effect [OF b]
  have wf1: "storage_wf s1" "ss_opened s1" using read_effect_fields [OF ea] wf by simp_all
  have wf2: "storage_wf s2" "ss_opened s2" using read_effect_fields [OF eb] wf1 by simp_all
  note e2 = read_effect_trans [OF ea eb]
  have rv: "rawView blobs s1 k = rawView blobs s k" "rawView blobs s2 k = rawView blobs s k" for k
    using rawView_effect [OF ea] rawView_effect [OF e2] v0 by simp_all
  have keyB: "blobs (ss_backend s1) (slotKey s1 SLOT_B) = blobs (ss_backend s) (ss_slotBKey s)"
    using read_effect_fields(3,16) [OF ea] by (simp add: slotKey_def)
  note va = readRawSlot_view [OF wf0 _ a, simplified] and vb = readRawSlot_view [OF wf1 _ b, simplified]
  have raw2: "rawStored blobs s2 = rawStored blobs s" by (simp add: rawStored_def rv)
  have sc2: "same_config s s2" using read_effect_same_config [OF e2] by (simp add: same_config_def)
  have valid2: "ss_rawBaseValid s2 = False" using read_effect_fields(9) [OF e2] by simp
  show ?thesis
  proof (cases "rawStored blobs s")
    case None
    then have "rawView blobs s SLOT_A = None" "rawView blobs s SLOT_B = None"
      by (simp_all add: rawStored_def)
    then have n: "\<not> okA" "\<not> okB" "rsi_present iA = (blobs (ss_backend s) (ss_slotAKey s) \<noteq> [])"
        "rsi_present iB = (blobs (ss_backend s) (ss_slotBKey s) \<noteq> [])"
      using va vb by (simp_all add: v0 rv keyB) (simp_all add: slotKey_def)
    then have "t = s2" "out = None" "raw_result rec = (if blobs (ss_backend s) (ss_slotAKey s) = [] \<and>
           blobs (ss_backend s) (ss_slotBKey s) = [] then RawEmpty else RawNoValidRecord)"
      using r wf a b by (simp_all add: loadLatestRaw_def Let_def split: if_splits)
        (auto split: if_splits)
    then show ?thesis using None raw2 sc2 valid2 wf2 by simp
  next
    case (Some w)
    obtain sl v g p where w: "w = (sl, v, g, p)" by (cases w)
    have st: "rawStored blobs s = Some (sl, v, g, p)" using Some w by simp
    have sl: "sl = SLOT_A \<or> sl = SLOT_B" "rawView blobs s2 sl = Some (v, g, p)"
      using newestRaw_cases st unfolding rawStored_def rv by fastforce+
    define useB where "useB = (okB \<and> (\<not> okA \<or> isGenerationNewer (rsi_generation iB) (rsi_generation iA)))"
    have sel: "(okA \<or> okB) \<and> (if useB then SLOT_B else SLOT_A) = sl \<and>
        rsi_payloadSize (if useB then iB else iA) = length p"
      using va vb st unfolding v0 rv rawStored_def useB_def
      by (cases "rawView blobs s SLOT_A"; cases "rawView blobs s SLOT_B") (auto split: if_splits)
    obtain ok3 i3 s3 where c: "readRawSlot ops s2 sl = (ok3, i3, s3)" by (metis prod_cases3)
    note ec = readRawSlot_effect [OF c]
    have v3: "ok3 \<and> i3 = \<lparr>rsi_present = True, rsi_valid = True, rsi_schemaVersion = v,
        rsi_payloadSize = length p, rsi_generation = g\<rparr> \<and> range_at (rbuf s3) 24 (length p) = p"
      using readRawSlot_view [OF wf2 sl(1) c] sl(2) by simp
    have f: "storage_wf s3" "same_config s s3" "rawStored blobs s3 = rawStored blobs s"
      using read_effect_fields(17) [OF ec] wf2 same_config_trans [OF sc2 read_effect_same_config [OF ec]]
        rawStored_effect [OF ec] raw2 by simp_all
    have step: "loadLatestRaw ops s True cap =
        (if cap < length p then (emptyRawRecord\<lparr>raw_result := RawInsufficientCapacity\<rparr>, None, s2)
         else (\<lparr>raw_result = RawSuccess, raw_schemaVersion = v, raw_payloadSize = length p,
             raw_generation = g, raw_slot = (if sl = SLOT_A then SlotA else SlotB)\<rparr>, Some p,
             s3\<lparr>ss_rawBaseValid := True, ss_rawBaseSlot := sl, ss_rawBaseGeneration := g\<rparr>))"
      using wf a b c sel v3 useB_def by (auto simp: loadLatestRaw_def Let_def)
    have "rawStored blobs (s3\<lparr>ss_rawBaseValid := True, ss_rawBaseSlot := sl, ss_rawBaseGeneration := g\<rparr>)
        = rawStored blobs s3" by (simp add: rawStored_def rawView_def validRawBlob_def)
    then show ?thesis
      using r step st f wf2 raw2 sc2 by (auto simp: same_config_def split: if_splits)
  qed
qed

end

text \<open>No plain save turns on the raw base.\<close>

lemma readSlot_rawBase: "ss_rawBaseForSave (snd (snd (snd (readSlot ops s slot w)))) = ss_rawBaseForSave s"
  by (simp add: readSlot_def Let_def split_beta)

lemma selectLatest_rawBase: "ss_rawBaseForSave (snd (snd (snd (selectLatest ops s)))) = ss_rawBaseForSave s"
  by (simp add: selectLatest_def Let_def split_beta readSlot_rawBase)

lemma refreshStatus_rawBase: "ss_rawBaseForSave (refreshStatus ops s) = ss_rawBaseForSave s"
  by (simp add: refreshStatus_def Let_def split_beta selectLatest_rawBase)

lemmas rawBase_frame = readSlot_rawBase selectLatest_rawBase refreshStatus_rawBase

lemma writeAndVerify_rawBase: "ss_rawBaseForSave (snd (writeAndVerify ops s pl slot g)) = ss_rawBaseForSave s"
  by (simp add: writeAndVerify_def markCurrent_def Let_def split_beta rawBase_frame)

lemma save_rawBase: "ss_rawBaseForSave (snd (storage_save ops s p)) = ss_rawBaseForSave s"
  by (simp add: storage_save_def markCurrent_def Let_def split_beta rawBase_frame writeAndVerify_rawBase
      split: option.split)

end
