(* ===== verification/StorageRaw.thy ===== *)
theory StorageRaw imports StorageContract begin

text \<open>
  Raw saves: the write half of a schema migration. The record loaded by \<open>loadLatestRaw\<close> is the
  base of the next save, which therefore goes to the other slot and keeps it.
\<close>

section \<open>The base of a raw save\<close>

text \<open>The raw base is the newest intact record; so it is after \<open>loadLatestRaw\<close> and every save.\<close>

definition rawSynced :: "('b \<Rightarrow> cstr \<Rightarrow> bytes) \<Rightarrow> 'b storage_service \<Rightarrow> bool" where
  "rawSynced blobs s \<longleftrightarrow>
     (case rawStored blobs s of
        None \<Rightarrow> \<not> ss_rawBaseValid s
      | Some (sl, v, g, p) \<Rightarrow> ss_rawBaseValid s \<and> ss_rawBaseSlot s = sl \<and> ss_rawBaseGeneration s = g)"

definition forRawSave :: "'b storage_service \<Rightarrow> 'b storage_service" where
  "forRawSave s = s\<lparr>ss_rawBaseForSave := ss_rawBaseValid s\<rparr>"

lemma forRawSave_simps [simp]:
  "storage_wf (forRawSave s) = storage_wf s" "ss_opened (forRawSave s) = ss_opened s"
  "slotView blobs (forRawSave s) k = slotView blobs s k"
  "rawView blobs (forRawSave s) k = rawView blobs s k"
  "rawStored blobs (forRawSave s) = rawStored blobs s"
  "storedConfig blobs (forRawSave s) = storedConfig blobs s"
  "slotKey (forRawSave s) k = slotKey s k"
  "ss_slotAKey (forRawSave s) = ss_slotAKey s" "ss_slotBKey (forRawSave s) = ss_slotBKey s"
  "ss_payloadSize (forRawSave s) = ss_payloadSize s"
  "ss_schemaVersion (forRawSave s) = ss_schemaVersion s"
  "ss_backend (forRawSave s) = ss_backend s"
  "ss_rawBaseValid (forRawSave s) = ss_rawBaseValid s"
  "ss_rawBaseSlot (forRawSave s) = ss_rawBaseSlot s"
  "ss_rawBaseGeneration (forRawSave s) = ss_rawBaseGeneration s"
  "ss_rawBaseForSave (forRawSave s) = ss_rawBaseValid s"
  "saveAccepted (forRawSave s) a pl = saveAccepted s a pl"
  by (simp_all add: forRawSave_def rawView_def validRawBlob_def rawStored_def saveAccepted_def
      payloadOverlapsWorkspace_def)

text \<open>The newest configuration of the own schema is the newest record, or is older than it.\<close>

lemma storedConfig_raw:
  assumes wf: "storage_wf s" "ss_opened s" and st: "storedConfig blobs s = Some (cl, cg, cp)"
  obtains sl v g p where "rawStored blobs s = Some (sl, v, g, p)"
    "cl = sl \<and> v = ss_schemaVersion s \<and> cg = g \<and> cp = p \<or> cl = otherSlot sl \<and> \<not> isGenerationNewer cg g"
    "sl = SLOT_A \<or> sl = SLOT_B"
proof -
  have cl: "cl = SLOT_A \<or> cl = SLOT_B" "slotView blobs s cl = Some (cg, cp)"
    using newestOf_cases st unfolding storedConfig_def by fastforce+
  note raw = slotView_raw [OF wf cl(2)]
  show ?thesis
  proof (cases "rawStored blobs s")
    case None
    with raw cl(1) show ?thesis by (auto simp: rawStored_def)
  next
    case (Some w)
    obtain sl v g p where w: "w = (sl, v, g, p)" by (cases w)
    have sl: "sl = SLOT_A \<and> rawView blobs s SLOT_A = Some (v, g, p) \<or>
        sl = SLOT_B \<and> rawView blobs s SLOT_B = Some (v, g, p)"
      using newestRaw_cases Some w unfolding rawStored_def by fastforce
    have "cl = sl \<and> v = ss_schemaVersion s \<and> cg = g \<and> cp = p \<or>
        cl = otherSlot sl \<and> \<not> isGenerationNewer cg g"
      using sl cl(1) raw Some w isGenerationNewer_asym [of g cg]
      by (auto simp: rawStored_def split: if_splits)
    with that Some w sl show ?thesis by blast
  qed
qed

lemma forRawSave_target:
  assumes wf: "storage_wf s" "ss_opened s" and sync: "rawSynced blobs s"
  shows "saveTargetOf blobs (forRawSave s) =
    (case rawStored blobs s of None \<Rightarrow> (SLOT_A, 1) | Some (sl, v, g, p) \<Rightarrow> (otherSlot sl, g + 1))"
proof (cases "storedConfig blobs s")
  case None
  show ?thesis
  proof (cases "rawStored blobs s")
    case n: None
    then have "\<not> ss_rawBaseValid s" using sync by (simp add: rawSynced_def)
    then show ?thesis using None n by (simp add: saveTargetOf_def saveTarget_cases)
  next
    case (Some w)
    obtain sl v g p where w: "w = (sl, v, g, p)" by (cases w)
    then have "ss_rawBaseValid s" "ss_rawBaseSlot s = sl" "ss_rawBaseGeneration s = g"
      using sync Some by (simp_all add: rawSynced_def)
    then show ?thesis using None Some w by (simp add: saveTargetOf_def saveTarget_cases)
  qed
next
  case (Some c)
  obtain cl cg cp where c: "c = (cl, cg, cp)" by (cases c)
  obtain sl v g p where raw: "rawStored blobs s = Some (sl, v, g, p)"
      "cl = sl \<and> v = ss_schemaVersion s \<and> cg = g \<and> cp = p \<or> cl = otherSlot sl \<and> \<not> isGenerationNewer cg g"
      "sl = SLOT_A \<or> sl = SLOT_B"
    using Some c by (blast elim: storedConfig_raw [OF wf])
  have base: "ss_rawBaseValid s" "ss_rawBaseSlot s = sl" "ss_rawBaseGeneration s = g"
    using sync raw(1) by (simp_all add: rawSynced_def)
  let ?i = "\<lparr>si_valid = True, si_generation = cg\<rparr>"
  have covers: "currentCoversRawBase (forRawSave s) cl ?i \<longleftrightarrow> (cl = sl \<and> cg = g) \<or> isGenerationNewer cg g"
    unfolding currentCoversRawBase_def forRawSave_simps SlotInfo.simps by (simp only: base simp_thms)
  have "saveTarget (forRawSave s) True cl ?i = (otherSlot sl, g + 1)"
  proof (cases "cl = sl \<and> cg = g")
    case True
    then show ?thesis using covers by (simp add: saveTarget_cases)
  next
    case False
    then have "\<not> currentCoversRawBase (forRawSave s) cl ?i" using raw(2,3) covers by auto
    then show ?thesis using base by (simp add: saveTarget_cases)
  qed
  then show ?thesis using Some c raw(1) by (simp add: saveTargetOf_def)
qed

lemma rawSynced_base:
  assumes wf: "storage_wf s" "ss_opened s" and sync: "rawSynced blobs s"
  shows "rawBaseOk blobs (forRawSave s)"
proof (cases "rawStored blobs s")
  case None
  with sync show ?thesis by (simp add: rawSynced_def rawBaseOk_def)
next
  case (Some w)
  obtain sl v g p where w: "w = (sl, v, g, p)" by (cases w)
  have sl: "(sl = SLOT_A \<or> sl = SLOT_B) \<and> rawView blobs s sl = Some (v, g, p)"
    using newestRaw_cases Some w unfolding rawStored_def by fastforce
  then show ?thesis
    using sync Some w slotView_raw [OF wf, of blobs sl] by (auto simp: rawSynced_def rawBaseOk_def)
qed

lemma rawView_same:
  assumes "same_config s t" "storage_wf s" "storage_wf t" "ss_opened s"
    and "blobs (ss_backend t) (slotKey s k) = blobs (ss_backend s) (slotKey s k)"
  shows "rawView blobs t k = rawView blobs s k"
  using assms by (simp add: rawView_def slotKey_same validRawBlob_def Let_def) (simp add: same_config_def)

section \<open>The two promises of a raw save\<close>

lemma saveCurrentRaw_accepted:
  assumes "saveAccepted s address pl"
  shows "saveCurrentRaw ops s (ss_schemaVersion s) (Some (address, pl)) (ss_payloadSize s) =
    (fst (storage_save ops (forRawSave s) (Some (address, pl))),
     (snd (storage_save ops (forRawSave s) (Some (address, pl))))\<lparr>ss_rawBaseForSave := False\<rparr>)"
  by (simp add: saveCurrentRaw_def forRawSave_def split_beta)

lemma same_config_forRawSave [simp]:
  "same_config (forRawSave s) t = same_config s t"
  "same_config s (t\<lparr>ss_rawBaseForSave := v8\<rparr>) = same_config s t"
  by (simp_all add: forRawSave_def same_config_def)

lemma write_effect_forRawSave:
  "write_effect blobs target (forRawSave s) t \<Longrightarrow>
     write_effect blobs target s (t\<lparr>ss_rawBaseForSave := v8\<rparr>)"
  by (simp add: write_effect_def)

context blob_reads
begin

lemma saveCurrentRaw_keeps_source:
  assumes acc: "saveAccepted s address pl" and sync: "rawSynced blobs s"
    and keys: "ss_slotAKey s \<noteq> ss_slotBKey s"
    and r: "saveCurrentRaw ops s (ss_schemaVersion s) (Some (address, pl)) (ss_payloadSize s) = (ok, t)"
    and src: "rawStored blobs s = Some (sl, v, g, p)"
  shows "rawView blobs t sl = Some (v, g, p)"
proof -
  have wf: "storage_wf s" "ss_opened s" using acc by (simp_all add: saveAccepted_def)
  obtain ok' u where u: "storage_save ops (forRawSave s) (Some (address, pl)) = (ok', u)" by fastforce
  have t: "t = u\<lparr>ss_rawBaseForSave := False\<rparr>"
    using r u saveCurrentRaw_accepted [OF acc, of ops] by simp
  have sl: "sl = SLOT_A \<or> sl = SLOT_B" "rawView blobs s sl = Some (v, g, p)"
    using newestRaw_cases src unfolding rawStored_def by fastforce+
  have tg: "saveTargetOf blobs (forRawSave s) = (otherSlot sl, g + 1)"
    using forRawSave_target [OF wf sync] src by simp
  have "write_effect blobs (otherSlot sl) s t"
    using write_effect_forRawSave save_effect [OF _ u] acc tg t by simp
  moreover have "slotKey s sl \<noteq> slotKey s (otherSlot sl)"
    using sl(1) keys by (auto simp: slotKey_def)
  ultimately show ?thesis
    using rawView_same [of s t blobs sl] wf sl(2) by (simp add: write_effect_def)
qed

end

lemma rawStored_status [simp]:
  "rawStored blobs (s\<lparr>ss_rawBaseForSave := v8\<rparr>) = rawStored blobs s"
  "rawStored blobs (markCurrent s sl g r) = rawStored blobs s"
  "ss_rawBaseValid (markCurrent s sl g r)" "ss_rawBaseSlot (markCurrent s sl g r) = sl"
  "ss_rawBaseGeneration (markCurrent s sl g r) = g" "ss_activeGeneration (markCurrent s sl g r) = g"
  by (simp_all add: rawStored_def rawView_def validRawBlob_def markCurrent_def)

lemma rawSynced_status [simp]:
  "rawSynced blobs (s\<lparr>ss_rawBaseForSave := v8\<rparr>) = rawSynced blobs s"
  by (simp add: rawSynced_def split: option.split)

lemma rawStored_target:
  assumes "target = SLOT_A \<or> target = SLOT_B" and "rawView blobs t target = Some (v, gen, p)"
    and "\<And>v g q. rawView blobs t (otherSlot target) = Some (v, g, q) \<Longrightarrow> gen = g + 1"
  shows "rawStored blobs t = Some (target, v, gen, p)"
proof -
  have "\<not> isGenerationNewer g (g + 1)" for g
    using isGenerationNewer_asym isGenerationNewer_Suc by blast
  then show ?thesis
    using assms
    by (cases "rawView blobs t SLOT_A"; cases "rawView blobs t SLOT_B") (auto simp: rawStored_def)
qed

context blob_store
begin

lemma saveCurrentRaw_refines:
  assumes acc: "saveAccepted s address pl" and sync: "rawSynced blobs s"
    and keys: "ss_slotAKey s \<noteq> ss_slotBKey s"
    and r: "saveCurrentRaw ops s (ss_schemaVersion s) (Some (address, pl)) (ss_payloadSize s) = (ok, t)"
  shows "ok \<and> storage_wf t \<and> same_config s t \<and> rawSynced blobs t \<and>
    map_option snd (rawStored blobs t) =
      Some (ss_schemaVersion s, ss_activeGeneration t, take (ss_payloadSize s) pl)"
proof -
  have wf: "storage_wf s" "ss_opened s" using acc by (simp_all add: saveAccepted_def)
  let ?n = "ss_payloadSize s"
  let ?pl = "take ?n pl"
  have acc': "saveAccepted (forRawSave s) address pl" using acc by simp
  obtain ok' u where u: "storage_save ops (forRawSave s) (Some (address, pl)) = (ok', u)" by fastforce
  have t: "t = u\<lparr>ss_rawBaseForSave := False\<rparr>" "ok = ok'"
    using r u saveCurrentRaw_accepted [OF acc, of ops] by simp_all
  have keys': "ss_slotAKey (forRawSave s) \<noteq> ss_slotBKey (forRawSave s)" using keys by simp
  have saved: "ok" "storage_wf u" "same_config s u"
    using save_refines [OF acc' u keys' rawSynced_base [OF wf sync]] t by simp_all
  have wfu: "storage_wf u" "ss_opened u" using saved wf by (simp_all add: same_config_def)
  have "\<exists>sl g. rawStored blobs u = Some (sl, ss_schemaVersion s, g, ?pl) \<and> ss_activeGeneration u = g \<and>
      ss_rawBaseValid u \<and> ss_rawBaseSlot u = sl \<and> ss_rawBaseGeneration u = g"
    using acc' u
  proof (cases rule: save_cases)
    case (unchanged x sl g)
    have st: "storedConfig blobs s = Some (sl, g, ?pl)" using unchanged(2) by simp
    obtain sl' v g' p where raw: "rawStored blobs s = Some (sl', v, g', p)"
        "sl = sl' \<and> v = ss_schemaVersion s \<and> g = g' \<and> ?pl = p \<or> sl = otherSlot sl' \<and> \<not> isGenerationNewer g g'"
        "sl' = SLOT_A \<or> sl' = SLOT_B"
      using st by (blast elim: storedConfig_raw [OF wf])
    have "sl \<noteq> otherSlot sl'"
    proof
      assume o: "sl = otherSlot sl'"
      have "ss_rawBaseValid s" "ss_rawBaseSlot s = sl'" "ss_rawBaseGeneration s = g'"
        using sync raw(1) by (simp_all add: rawSynced_def)
      then show False using unchanged(5) o raw(2,3) by (auto simp: currentCoversRawBase_def)
    qed
    then have "rawStored blobs s = Some (sl, ss_schemaVersion s, g, ?pl)" using raw by simp
    then show ?thesis
      using unchanged(4) rawStored_effect [OF unchanged(1)] by simp
  next
    case (written x target gen)
    note f = read_effect_fields [OF written(1)]
    have accu: "storage_wf x" "ss_opened x" "ss_payloadSize x \<le> length pl"
        "runValidator x (take (ss_payloadSize x) pl)"
      using acc' f by (simp_all add: saveAccepted_def)
    note w = writeAndVerify_store [OF accu written(4,3)]
    have view: "rawView blobs u target = Some (ss_schemaVersion s, gen, ?pl)"
      using slotView_raw [OF wfu w(2)] f(4) saved(3) by (simp add: same_config_def)
    have tg: "(target, gen) = (case rawStored blobs s of None \<Rightarrow> (SLOT_A, 1)
        | Some (sl, v, g, p) \<Rightarrow> (otherSlot sl, g + 1))"
      using forRawSave_target [OF wf sync] written(2) by simp
    have "write_effect blobs target s u"
      using write_effect_forRawSave [of blobs target s u "ss_rawBaseForSave u"]
        save_effect [OF acc' u] written(2) by simp
    moreover have "slotKey s (otherSlot target) \<noteq> slotKey s target"
      using written(4) keys by (auto simp: slotKey_def)
    ultimately have other: "rawView blobs u (otherSlot target) = rawView blobs s (otherSlot target)"
      using rawView_same [of s u blobs "otherSlot target"] wf wfu by (simp add: write_effect_def)
    have "gen = g + 1" if "rawView blobs u (otherSlot target) = Some (v, g, q)" for v g q
    proof (cases "rawStored blobs s")
      case None
      then have "rawView blobs s SLOT_A = None" "rawView blobs s SLOT_B = None"
        by (simp_all add: rawStored_def)
      then show ?thesis using that other by (simp add: otherSlot_def split: if_splits)
    next
      case (Some z)
      obtain sl v' g' p' where z: "z = (sl, v', g', p')" by (cases z)
      have "(sl = SLOT_A \<or> sl = SLOT_B) \<and> rawView blobs s sl = Some (v', g', p')"
        using newestRaw_cases Some z unfolding rawStored_def by fastforce
      moreover have "target = otherSlot sl" "gen = g' + 1" using tg Some z by simp_all
      ultimately show ?thesis using that other by auto
    qed
    then have "rawStored blobs u = Some (target, ss_schemaVersion s, gen, ?pl)"
      using rawStored_target [OF written(4) view] by blast
    then show ?thesis using w(4,5) by simp
  qed
  then show ?thesis using t saved by (auto simp: rawSynced_def)
qed

end

end
