(* ===== verification/ConfigLifecycle.thy ===== *)
theory ConfigLifecycle
  imports StorageRaw
begin

text \<open>
  The configuration lifecycle \<open>aquaOneCore/src/Config/ConfigLifecycle.cpp\<close>: load, migrate, validate,
  apply and persist a configuration at startup, and the same for an update. The callbacks of the
  application (\<open>ConfigAdapter\<close>) and of the storage (\<open>ConfigStorage\<close>) are functions on a world
  \<open>'w\<close>, the state behind their \<open>context\<close> pointers; a null function pointer is \<open>None\<close>. A callback
  that fills a buffer returns the bytes it wrote at its start and the size it reported.
\<close>

section \<open>Types (\<open>ConfigLifecycle.h\<close>)\<close>

datatype ConfigSource = SourceNone | Stored | Defaults | SourceMigrated

datatype ConfigOperationResult =
    OpNotAttempted | OpSuccess | OpNoChange | DefaultsApplied | Migrated | RestartRequired
  | RecoveryRequired | OpInvalidArgument | LoadFailed | UnsupportedVersion | MigrationFailed
  | ValidationFailed | ApplyFailed | PersistFailed

datatype ConfigLoadResult = LoadSuccess | LoadEmpty | LoadCorrupt | LoadFailure

datatype ConfigPersistenceResult =
    PersistNotAttempted | PersistSuccess | PersistNoChange | PersistInvalidArgument
  | PersistValidationFailure | PersistBackendFailure | PersistVerifyFailure

datatype ConfigApplyMode = Live | ModeRestartRequired

record ConfigLoadInfo =
  cli_schemaVersion :: u16
  cli_payloadSize :: nat

record ConfigBuffer =
  cb_data :: nat
  cb_capacity :: nat

record ConfigWorkspace =
  ws_raw :: ConfigBuffer
  ws_candidateA :: ConfigBuffer
  ws_candidateB :: ConfigBuffer

record 'w ConfigStorage =
  cs_load :: "('w \<Rightarrow> nat \<Rightarrow> ConfigLoadInfo \<Rightarrow> ConfigLoadResult \<times> bytes \<times> ConfigLoadInfo \<times> 'w) option"
  cs_persist :: "('w \<Rightarrow> u16 \<Rightarrow> nat \<times> bytes \<Rightarrow> nat \<Rightarrow> ConfigPersistenceResult \<times> 'w) option"

type_synonym 'w fill_result = "bool \<times> bytes \<times> nat \<times> 'w"
type_synonym 'w candidate_check = "'w \<Rightarrow> bytes \<Rightarrow> nat \<Rightarrow> bool \<times> 'w"

record 'w ConfigAdapter =
  ad_currentSchemaVersion :: u16
  ad_maximumMigrationSteps :: u16
  ad_buildDefaults :: "('w \<Rightarrow> nat \<Rightarrow> 'w fill_result) option"
  ad_decode :: "('w \<Rightarrow> u16 \<Rightarrow> bytes \<Rightarrow> nat \<Rightarrow> nat \<Rightarrow> 'w fill_result) option"
  ad_migrateStep :: "('w \<Rightarrow> u16 \<Rightarrow> bytes \<Rightarrow> nat \<Rightarrow> nat \<Rightarrow> 'w fill_result) option"
  ad_validateCurrent :: "'w candidate_check option"
  ad_validateSemantic :: "'w candidate_check option"
  ad_validateHardware :: "'w candidate_check option"
  ad_encodeCurrent :: "('w \<Rightarrow> bytes \<Rightarrow> nat \<Rightarrow> nat \<Rightarrow> 'w fill_result) option"
  ad_apply :: "'w candidate_check option"
  ad_commitActive :: "('w \<Rightarrow> bytes \<Rightarrow> nat \<Rightarrow> 'w) option"
  ad_classify :: "('w \<Rightarrow> bytes \<Rightarrow> nat \<Rightarrow> ConfigApplyMode \<times> 'w) option"

record ConfigLifecycleStatus =
  cst_source :: ConfigSource
  cst_hasStoredSchema :: bool
  cst_storedSchemaVersion :: u16
  cst_hasActiveConfig :: bool
  cst_activeSchemaVersion :: u16
  cst_desiredActiveAligned :: bool
  cst_restartRequired :: bool
  cst_recoveryRequired :: bool
  cst_degraded :: bool
  cst_lastResult :: ConfigOperationResult
  cst_lastPersistenceResult :: ConfigPersistenceResult

definition emptyStatus :: ConfigLifecycleStatus where
  "emptyStatus =
     \<lparr>cst_source = SourceNone, cst_hasStoredSchema = False, cst_storedSchemaVersion = 0,
      cst_hasActiveConfig = False, cst_activeSchemaVersion = 0, cst_desiredActiveAligned = False,
      cst_restartRequired = False, cst_recoveryRequired = False, cst_degraded = False,
      cst_lastResult = OpNotAttempted, cst_lastPersistenceResult = PersistNotAttempted\<rparr>"

text \<open>The three work buffers, and the bytes each holds now.\<close>

datatype buffer_id = RawBuffer | CandidateA | CandidateB

record 'w lifecycle =
  lc_storage :: "'w ConfigStorage"
  lc_adapter :: "'w ConfigAdapter"
  lc_workspace :: ConfigWorkspace
  lc_allowDefaultsForCorruptStorage :: bool
  lc_status :: ConfigLifecycleStatus
  lc_mem :: "buffer_id \<Rightarrow> bytes"
  lc_world :: 'w

definition ConfigLifecycle_new ::
  "'w ConfigStorage \<Rightarrow> 'w ConfigAdapter \<Rightarrow> ConfigWorkspace \<Rightarrow> bool \<Rightarrow> (buffer_id \<Rightarrow> bytes) \<Rightarrow> 'w \<Rightarrow> 'w lifecycle"
  where
  "ConfigLifecycle_new storage adapter workspace allowDefaults mem w =
     \<lparr>lc_storage = storage, lc_adapter = adapter, lc_workspace = workspace,
      lc_allowDefaultsForCorruptStorage = allowDefaults, lc_status = emptyStatus, lc_mem = mem,
      lc_world = w\<rparr>"

fun bufferOf :: "ConfigWorkspace \<Rightarrow> buffer_id \<Rightarrow> ConfigBuffer" where
  "bufferOf ws RawBuffer = ws_raw ws"
| "bufferOf ws CandidateA = ws_candidateA ws"
| "bufferOf ws CandidateB = ws_candidateB ws"

abbreviation capacityOf :: "'w lifecycle \<Rightarrow> buffer_id \<Rightarrow> nat" where
  "capacityOf s b \<equiv> cb_capacity (bufferOf (lc_workspace s) b)"

text \<open>A callback has run: the world moved on and \<open>content\<close> is at the start of a buffer.\<close>

definition fillBuffer :: "'w lifecycle \<Rightarrow> buffer_id \<Rightarrow> bytes \<Rightarrow> 'w \<Rightarrow> 'w lifecycle" where
  "fillBuffer s b content w =
     s\<lparr>lc_mem := (lc_mem s)(b := write_at (lc_mem s b) 0 content), lc_world := w\<rparr>"

section \<open>Plan and status\<close>

definition rangesOverlap :: "ConfigBuffer \<Rightarrow> ConfigBuffer \<Rightarrow> bool" where
  "rangesOverlap left right =
     (if cb_data left \<ge> cb_data right then cb_data left - cb_data right < cb_capacity right
      else cb_data right - cb_data left < cb_capacity left)"

definition persistenceSucceeded :: "ConfigPersistenceResult \<Rightarrow> bool" where
  "persistenceSucceeded r \<longleftrightarrow> r = PersistSuccess \<or> r = PersistNoChange"

definition validPlan :: "'w lifecycle \<Rightarrow> bool" where
  "validPlan s =
     (let st = lc_storage s; ad = lc_adapter s; ws = lc_workspace s
      in if cs_load st = None \<or> cs_persist st = None \<or> ad_buildDefaults ad = None \<or>
            ad_decode ad = None \<or> ad_validateCurrent ad = None \<or> ad_validateSemantic ad = None \<or>
            ad_encodeCurrent ad = None \<or> ad_apply ad = None \<or> ad_commitActive ad = None
         then False
      else if (\<exists>b\<in>set [ws_raw ws, ws_candidateA ws, ws_candidateB ws].
              cb_data b = 0 \<or> cb_capacity b = 0)
         then False
      else \<not> rangesOverlap (ws_raw ws) (ws_candidateA ws) \<and>
           \<not> rangesOverlap (ws_raw ws) (ws_candidateB ws) \<and>
           \<not> rangesOverlap (ws_candidateA ws) (ws_candidateB ws))"

definition validBufferResult :: "nat \<Rightarrow> ConfigBuffer \<Rightarrow> bool" where
  "validBufferResult n buffer \<longleftrightarrow> n > 0 \<and> n \<le> cb_capacity buffer"

definition lifecycle_status :: "'w lifecycle \<Rightarrow> ConfigLifecycleStatus" where
  "lifecycle_status s = lc_status s"

definition setStatus ::
  "(ConfigLifecycleStatus \<Rightarrow> ConfigLifecycleStatus) \<Rightarrow> 'w lifecycle \<Rightarrow> 'w lifecycle" where
  "setStatus f s = s\<lparr>lc_status := f (lc_status s)\<rparr>"

definition config_fail ::
  "'w lifecycle \<Rightarrow> ConfigOperationResult \<Rightarrow> bool \<Rightarrow> ConfigOperationResult \<times> 'w lifecycle" where
  "config_fail s result recoveryRequired =
     (result, setStatus (\<lambda>st.
        let st1 = st\<lparr>cst_lastResult := result\<rparr>
        in if recoveryRequired then st1\<lparr>cst_recoveryRequired := True, cst_degraded := True\<rparr> else st1) s)"

definition mapStoragePersistenceResult :: "StorageOperationResult \<Rightarrow> ConfigPersistenceResult" where
  "mapStoragePersistenceResult r =
     (case r of
        Success \<Rightarrow> PersistSuccess
      | NoChange \<Rightarrow> PersistNoChange
      | InvalidArgument \<Rightarrow> PersistInvalidArgument
      | ValidationFailure \<Rightarrow> PersistValidationFailure
      | BackendFailure \<Rightarrow> PersistBackendFailure
      | VerifyFailure \<Rightarrow> PersistVerifyFailure
      | _ \<Rightarrow> PersistBackendFailure)"

section \<open>Candidates\<close>

text \<open>
  The migration loop of \<open>decodeToCandidate\<close>: one step per schema version, from the buffer \<open>cur\<close>
  (where the candidate is) to \<open>nxt\<close>. It returns success, the candidate's buffer and size, and
  whether a step was made.
\<close>

function migrateLoop ::
  "'w lifecycle \<Rightarrow> u16 \<Rightarrow> u16 \<Rightarrow> buffer_id \<Rightarrow> buffer_id \<Rightarrow> nat \<Rightarrow> bool \<Rightarrow>
     (bool \<times> buffer_id \<times> nat \<times> bool) \<times> 'w lifecycle" where
  "migrateLoop s version steps cur nxt candidateSize migrated =
     (if \<not> version < ad_currentSchemaVersion (lc_adapter s)
      then ((version = ad_currentSchemaVersion (lc_adapter s), cur, candidateSize, migrated), s)
      else
        case ad_migrateStep (lc_adapter s) of
          None \<Rightarrow> ((False, cur, candidateSize, migrated), s)
        | Some step \<Rightarrow>
           if steps \<ge> ad_maximumMigrationSteps (lc_adapter s)
           then ((False, cur, candidateSize, migrated), s)
           else
             let (ok, content, nextSize, w) =
                   step (lc_world s) version (lc_mem s cur) candidateSize (capacityOf s nxt);
                 s1 = fillBuffer s nxt content w
             in if \<not> ok \<or> \<not> validBufferResult nextSize (bufferOf (lc_workspace s) nxt)
                then ((False, cur, candidateSize, migrated), s1)
             else migrateLoop s1 (version + 1) (steps + 1) nxt cur nextSize True)"
  by pat_completeness auto

termination
proof (relation "measure (\<lambda>(s, version, _). unat (ad_currentSchemaVersion (lc_adapter s)) - unat version)",
    goal_cases)
  case 1 show ?case by simp
next
  case (2 s version steps cur nxt candidateSize migrated step x ok y content z nextSize w s1)
  have lt: "version < ad_currentSchemaVersion (lc_adapter s)" using 2(1) by simp
  then have "unat (version + 1) = Suc (unat version)"
    by (rule unat_Suc_less)
  then show ?case
    using lt 2(8) by (simp add: fillBuffer_def word_less_nat_alt)
qed

declare migrateLoop.simps [simp del]

definition decodeToCandidate ::
  "'w lifecycle \<Rightarrow> u16 \<Rightarrow> bytes \<Rightarrow> nat \<Rightarrow> (bool \<times> buffer_id \<times> nat \<times> bool) \<times> 'w lifecycle" where
  "decodeToCandidate s schemaVersion raw rawSize =
     (let (ok, content, candidateSize, w) =
            the (ad_decode (lc_adapter s)) (lc_world s) schemaVersion raw rawSize
              (capacityOf s CandidateA);
          s1 = fillBuffer s CandidateA content w
      in if \<not> ok \<or> \<not> validBufferResult candidateSize (ws_candidateA (lc_workspace s))
         then ((False, CandidateA, candidateSize, False), s1)
      else migrateLoop s1 schemaVersion 0 CandidateA CandidateB candidateSize False)"

text \<open>One of the adapter's checks on the candidate in a buffer.\<close>

definition runCheck ::
  "'w candidate_check \<Rightarrow> 'w lifecycle \<Rightarrow> buffer_id \<Rightarrow> nat \<Rightarrow> bool \<times> 'w lifecycle" where
  "runCheck check s candidate candidateSize =
     (let (ok, w) = check (lc_world s) (lc_mem s candidate) candidateSize
      in (ok, s\<lparr>lc_world := w\<rparr>))"

definition validateCandidate :: "'w lifecycle \<Rightarrow> buffer_id \<Rightarrow> nat \<Rightarrow> bool \<times> 'w lifecycle" where
  "validateCandidate s candidate candidateSize =
     (let (ok1, s1) = runCheck (the (ad_validateCurrent (lc_adapter s))) s candidate candidateSize
      in if \<not> ok1 then (False, s1)
      else
        let (ok2, s2) = runCheck (the (ad_validateSemantic (lc_adapter s))) s1 candidate candidateSize
        in if \<not> ok2 then (False, s2)
        else
          case ad_validateHardware (lc_adapter s) of
            None \<Rightarrow> (True, s2)
          | Some check \<Rightarrow> runCheck check s2 candidate candidateSize)"

definition encodeCandidate :: "'w lifecycle \<Rightarrow> buffer_id \<Rightarrow> nat \<Rightarrow> (bool \<times> nat) \<times> 'w lifecycle" where
  "encodeCandidate s candidate candidateSize =
     (let (ok, content, rawSize, w) =
            the (ad_encodeCurrent (lc_adapter s)) (lc_world s) (lc_mem s candidate) candidateSize
              (capacityOf s RawBuffer)
      in ((ok \<and> validBufferResult rawSize (ws_raw (lc_workspace s)), rawSize),
          fillBuffer s RawBuffer content w))"

definition persistCandidate ::
  "'w lifecycle \<Rightarrow> buffer_id \<Rightarrow> nat \<Rightarrow> ConfigPersistenceResult \<times> 'w lifecycle" where
  "persistCandidate s candidate candidateSize =
     (let ((ok, rawSize), s1) = encodeCandidate s candidate candidateSize
      in if \<not> ok then (PersistInvalidArgument, s1)
      else
        let (r, w) = the (cs_persist (lc_storage s1)) (lc_world s1)
              (ad_currentSchemaVersion (lc_adapter s1))
              (cb_data (ws_raw (lc_workspace s1)), lc_mem s1 RawBuffer) rawSize
        in (r, s1\<lparr>lc_world := w\<rparr>))"

definition commitCandidate :: "'w lifecycle \<Rightarrow> buffer_id \<Rightarrow> nat \<Rightarrow> 'w lifecycle" where
  "commitCandidate s candidate candidateSize =
     s\<lparr>lc_world := the (ad_commitActive (lc_adapter s)) (lc_world s) (lc_mem s candidate) candidateSize\<rparr>"

definition applyAndCommit ::
  "'w lifecycle \<Rightarrow> buffer_id \<Rightarrow> nat \<Rightarrow> ConfigSource \<Rightarrow> ConfigOperationResult \<times> 'w lifecycle" where
  "applyAndCommit s candidate candidateSize source =
     (let (applied, s1) = runCheck (the (ad_apply (lc_adapter s))) s candidate candidateSize
      in if \<not> applied then config_fail s1 ApplyFailed True
      else (OpSuccess,
        setStatus (\<lambda>st. st\<lparr>cst_source := source, cst_hasActiveConfig := True,
          cst_activeSchemaVersion := ad_currentSchemaVersion (lc_adapter s1)\<rparr>)
          (commitCandidate s1 candidate candidateSize)))"

section \<open>Startup and update\<close>

definition useDefaults :: "'w lifecycle \<Rightarrow> bool \<Rightarrow> ConfigOperationResult \<times> 'w lifecycle" where
  "useDefaults s persistAfterApply =
     (let (ok, content, candidateSize, w) =
            the (ad_buildDefaults (lc_adapter s)) (lc_world s) (capacityOf s CandidateA);
          s1 = fillBuffer s CandidateA content w
      in if \<not> ok \<or> \<not> validBufferResult candidateSize (ws_candidateA (lc_workspace s))
         then config_fail s1 OpInvalidArgument True
      else
        let (valid, s2) = validateCandidate s1 CandidateA candidateSize
        in if \<not> valid then config_fail s2 ValidationFailed True
        else
          let (applied, s3) = applyAndCommit s2 CandidateA candidateSize Defaults
          in if applied = ApplyFailed then (ApplyFailed, s3)
          else if \<not> persistAfterApply then
            (RecoveryRequired,
             setStatus (\<lambda>st. st\<lparr>cst_desiredActiveAligned := False, cst_recoveryRequired := True,
               cst_degraded := True, cst_lastResult := RecoveryRequired\<rparr>) s3)
          else
            let (persisted, s4) = persistCandidate s3 CandidateA candidateSize;
                s5 = setStatus (\<lambda>st. st\<lparr>cst_lastPersistenceResult := persisted\<rparr>) s4
            in if \<not> persistenceSucceeded persisted then
              (PersistFailed,
               setStatus (\<lambda>st. st\<lparr>cst_desiredActiveAligned := False, cst_degraded := True,
                 cst_lastResult := PersistFailed\<rparr>) s5)
            else
              (DefaultsApplied,
               setStatus (\<lambda>st. st\<lparr>cst_hasStoredSchema := True,
                 cst_storedSchemaVersion := ad_currentSchemaVersion (lc_adapter s5),
                 cst_desiredActiveAligned := True, cst_lastResult := DefaultsApplied\<rparr>) s5))"

text \<open>\<open>startup\<close> from the point where a stored configuration has been decoded.\<close>

definition startDecoded ::
  "'w lifecycle \<Rightarrow> buffer_id \<Rightarrow> nat \<Rightarrow> bool \<Rightarrow> ConfigOperationResult \<times> 'w lifecycle" where
  "startDecoded s candidate candidateSize migrated =
     (let (valid, s1) = validateCandidate s candidate candidateSize
      in if \<not> valid then config_fail s1 ValidationFailed True
      else
        let (applied, s2) = applyAndCommit s1 candidate candidateSize
              (if migrated then SourceMigrated else Stored)
        in if applied = ApplyFailed then (ApplyFailed, s2)
        else if \<not> migrated then
          (OpSuccess,
           setStatus (\<lambda>st. st\<lparr>cst_desiredActiveAligned := True, cst_lastResult := OpSuccess\<rparr>) s2)
        else
          let (persisted, s3) = persistCandidate s2 candidate candidateSize;
              s4 = setStatus (\<lambda>st. st\<lparr>cst_lastPersistenceResult := persisted\<rparr>) s3
          in if \<not> persistenceSucceeded persisted then
            (PersistFailed,
             setStatus (\<lambda>st. st\<lparr>cst_desiredActiveAligned := False, cst_degraded := True,
               cst_lastResult := PersistFailed\<rparr>) s4)
          else
            (Migrated,
             setStatus (\<lambda>st. st\<lparr>
               cst_storedSchemaVersion := ad_currentSchemaVersion (lc_adapter s4),
               cst_desiredActiveAligned := True, cst_lastResult := Migrated\<rparr>) s4))"

text \<open>\<open>startup\<close> from the point where a raw record has been loaded.\<close>

definition startLoaded ::
  "'w lifecycle \<Rightarrow> ConfigLoadInfo \<Rightarrow> ConfigOperationResult \<times> 'w lifecycle" where
  "startLoaded s info =
     (if cli_payloadSize info = 0 \<or> cli_payloadSize info > cb_capacity (ws_raw (lc_workspace s))
      then config_fail s LoadFailed True
      else
        let s1 = setStatus (\<lambda>st. st\<lparr>cst_hasStoredSchema := True,
                   cst_storedSchemaVersion := cli_schemaVersion info\<rparr>) s;
            current = ad_currentSchemaVersion (lc_adapter s1)
        in if cli_schemaVersion info > current then config_fail s1 UnsupportedVersion True
        else
          let ((decoded, candidate, candidateSize, migrated), s2) =
                decodeToCandidate s1 (cli_schemaVersion info) (lc_mem s1 RawBuffer) (cli_payloadSize info)
          in if \<not> decoded then
            config_fail s2
              (if cli_schemaVersion info < current then MigrationFailed else ValidationFailed) True
          else startDecoded s2 candidate candidateSize migrated)"

definition config_startup :: "'w lifecycle \<Rightarrow> ConfigOperationResult \<times> 'w lifecycle" where
  "config_startup s0 =
     (let s = setStatus (\<lambda>_. emptyStatus) s0
      in if \<not> validPlan s then config_fail s OpInvalidArgument False
      else
        let (loadResult, content, info, w) =
              the (cs_load (lc_storage s)) (lc_world s) (cb_capacity (ws_raw (lc_workspace s)))
                \<lparr>cli_schemaVersion = 0, cli_payloadSize = 0\<rparr>;
            s1 = fillBuffer s RawBuffer content w
        in case loadResult of
             LoadEmpty \<Rightarrow> useDefaults s1 True
           | LoadCorrupt \<Rightarrow>
               if lc_allowDefaultsForCorruptStorage s1 then useDefaults s1 False
               else config_fail s1 RecoveryRequired True
           | LoadFailure \<Rightarrow> config_fail s1 LoadFailed True
           | LoadSuccess \<Rightarrow> startLoaded s1 info)"

text \<open>\<open>update\<close> from the point where the candidate is valid.\<close>

definition updateValidated ::
  "'w lifecycle \<Rightarrow> nat \<Rightarrow> ConfigOperationResult \<times> 'w lifecycle" where
  "updateValidated s candidateSize =
     (let (persisted, s1) = persistCandidate s CandidateA candidateSize;
          s2 = setStatus (\<lambda>st. st\<lparr>cst_lastPersistenceResult := persisted\<rparr>) s1
      in if \<not> persistenceSucceeded persisted then
        (PersistFailed,
         setStatus (\<lambda>st. st\<lparr>cst_degraded := True, cst_lastResult := PersistFailed\<rparr>) s2)
      else
        let (mode, w) =
              (case ad_classify (lc_adapter s2) of
                 None \<Rightarrow> (Live, lc_world s2)
               | Some classify \<Rightarrow> classify (lc_world s2) (lc_mem s2 CandidateA) candidateSize);
            s3 = setStatus (\<lambda>st. st\<lparr>cst_hasStoredSchema := True,
                   cst_storedSchemaVersion := ad_currentSchemaVersion (lc_adapter s2)\<rparr>)
                 (s2\<lparr>lc_world := w\<rparr>)
        in if mode = ModeRestartRequired then
          (RestartRequired,
           setStatus (\<lambda>st. st\<lparr>cst_desiredActiveAligned := False, cst_restartRequired := True,
             cst_recoveryRequired := False, cst_degraded := False,
             cst_lastResult := RestartRequired\<rparr>) s3)
        else
          let (applied, s4) = runCheck (the (ad_apply (lc_adapter s3))) s3 CandidateA candidateSize
          in if \<not> applied then
            (ApplyFailed,
             setStatus (\<lambda>st. st\<lparr>cst_desiredActiveAligned := False, cst_restartRequired := False,
               cst_recoveryRequired := True, cst_degraded := True,
               cst_lastResult := ApplyFailed\<rparr>) s4)
          else
            let result = (if persisted = PersistNoChange then OpNoChange else OpSuccess)
            in (result,
              setStatus (\<lambda>st. st\<lparr>cst_source := Stored, cst_hasActiveConfig := True,
                cst_activeSchemaVersion := ad_currentSchemaVersion (lc_adapter s4),
                cst_desiredActiveAligned := True, cst_restartRequired := False,
                cst_recoveryRequired := False, cst_degraded := False, cst_lastResult := result\<rparr>)
                (commitCandidate s4 CandidateA candidateSize)))"

definition config_update ::
  "'w lifecycle \<Rightarrow> bytes option \<Rightarrow> nat \<Rightarrow> ConfigOperationResult \<times> 'w lifecycle" where
  "config_update s rawProposal proposalSize =
     (case rawProposal of
        None \<Rightarrow> config_fail s OpInvalidArgument False
      | Some proposal \<Rightarrow>
         if \<not> validPlan s \<or> \<not> cst_hasActiveConfig (lc_status s) \<or> proposalSize = 0
         then config_fail s OpInvalidArgument False
         else
           let s1 = setStatus (\<lambda>st. st\<lparr>cst_lastPersistenceResult := PersistNotAttempted\<rparr>) s;
               (ok, content, candidateSize, w) =
                 the (ad_decode (lc_adapter s1)) (lc_world s1)
                   (ad_currentSchemaVersion (lc_adapter s1)) proposal proposalSize
                   (capacityOf s1 CandidateA);
               s2 = fillBuffer s1 CandidateA content w;
               (valid, s3) =
                 (if \<not> ok \<or> \<not> validBufferResult candidateSize (ws_candidateA (lc_workspace s))
                  then (False, s2) else validateCandidate s2 CandidateA candidateSize)
           in if \<not> valid
              then (ValidationFailed, setStatus (\<lambda>st. st\<lparr>cst_lastResult := ValidationFailed\<rparr>) s3)
           else updateValidated s3 candidateSize)"

section \<open>The storage service as configuration storage\<close>

text \<open>
  \<open>storageServiceConfigStorage\<close>: the \<open>context\<close> is a \<open>StorageService\<close>; the world is what the
  pointer refers to (\<open>None\<close> for null) beside the application's own state.
\<close>

definition loadFromStorageService ::
  "'b backend_ops \<Rightarrow> 'b storage_service option \<times> 'a \<Rightarrow> nat \<Rightarrow> ConfigLoadInfo \<Rightarrow>
     ConfigLoadResult \<times> bytes \<times> ConfigLoadInfo \<times> ('b storage_service option \<times> 'a)" where
  "loadFromStorageService ops w rawCapacity info =
     (case fst w of
        None \<Rightarrow> (LoadFailure, [], info, w)
      | Some storage \<Rightarrow>
         let (record, content, storage1) = loadLatestRaw ops storage True rawCapacity;
             written = (case content of None \<Rightarrow> [] | Some bs \<Rightarrow> bs);
             w1 = (Some storage1, snd w)
         in if raw_result record = RawSuccess then
              (LoadSuccess, written,
               \<lparr>cli_schemaVersion = raw_schemaVersion record,
                cli_payloadSize = raw_payloadSize record\<rparr>, w1)
         else if raw_result record = RawEmpty then (LoadEmpty, written, info, w1)
         else if raw_result record = RawNoValidRecord then (LoadCorrupt, written, info, w1)
         else (LoadFailure, written, info, w1))"

definition persistToStorageService ::
  "'b backend_ops \<Rightarrow> 'b storage_service option \<times> 'a \<Rightarrow> u16 \<Rightarrow> nat \<times> bytes \<Rightarrow> nat \<Rightarrow>
     ConfigPersistenceResult \<times> ('b storage_service option \<times> 'a)" where
  "persistToStorageService ops w schemaVersion rawPayload payloadSize =
     (case fst w of
        None \<Rightarrow> (PersistInvalidArgument, w)
      | Some storage \<Rightarrow>
         let (_, storage1) = saveCurrentRaw ops storage schemaVersion (Some rawPayload) payloadSize
         in (mapStoragePersistenceResult (st_lastSaveResult (storage_status storage1)),
             (Some storage1, snd w)))"

definition storageServiceConfigStorage ::
  "'b backend_ops \<Rightarrow> ('b storage_service option \<times> 'a) ConfigStorage" where
  "storageServiceConfigStorage ops =
     \<lparr>cs_load = Some (loadFromStorageService ops), cs_persist = Some (persistToStorageService ops)\<rparr>"

end
