(* ===== verification/ConfigContract.thy ===== *)
theory ConfigContract
  imports ConfigLifecycle
begin

text \<open>
  What the configuration lifecycle promises: the meaning of its status flags after any sequence of
  calls, the order in which an application sees checks, saves and activations, and the migration
  chain as a fold over schema versions.
\<close>

section \<open>What the callbacks leave alone\<close>

text \<open>Only \<open>setStatus\<close> changes the status; nothing changes the plan.\<close>

lemma fillBuffer_frames [simp]:
  "lc_status (fillBuffer s b c w) = lc_status s"
  "lc_adapter (fillBuffer s b c w) = lc_adapter s"
  "lc_workspace (fillBuffer s b c w) = lc_workspace s"
  "lc_storage (fillBuffer s b c w) = lc_storage s"
  "lc_allowDefaultsForCorruptStorage (fillBuffer s b c w) = lc_allowDefaultsForCorruptStorage s"
  "lc_world (fillBuffer s b c w) = w"
  by (simp_all add: fillBuffer_def)

lemma setStatus_frames [simp]:
  "lc_adapter (setStatus f s) = lc_adapter s"
  "lc_workspace (setStatus f s) = lc_workspace s"
  "lc_storage (setStatus f s) = lc_storage s"
  "lc_allowDefaultsForCorruptStorage (setStatus f s) = lc_allowDefaultsForCorruptStorage s"
  "lc_status (setStatus f s) = f (lc_status s)" "lc_world (setStatus f s) = lc_world s"
  "lc_mem (setStatus f s) = lc_mem s" "validPlan (setStatus f s) = validPlan s"
  by (simp_all add: setStatus_def validPlan_def)

lemma runCheck_frames [simp]:
  "lc_status (snd (runCheck c s b n)) = lc_status s"
  "lc_adapter (snd (runCheck c s b n)) = lc_adapter s"
  "lc_workspace (snd (runCheck c s b n)) = lc_workspace s"
  "lc_storage (snd (runCheck c s b n)) = lc_storage s"
  "lc_allowDefaultsForCorruptStorage (snd (runCheck c s b n)) = lc_allowDefaultsForCorruptStorage s"
  "lc_mem (snd (runCheck c s b n)) = lc_mem s"
  by (simp_all add: runCheck_def split_beta)

lemma commitCandidate_frames [simp]:
  "lc_status (commitCandidate s b n) = lc_status s"
  "lc_adapter (commitCandidate s b n) = lc_adapter s"
  "lc_workspace (commitCandidate s b n) = lc_workspace s"
  "lc_storage (commitCandidate s b n) = lc_storage s"
  "lc_allowDefaultsForCorruptStorage (commitCandidate s b n) = lc_allowDefaultsForCorruptStorage s"
  "lc_mem (commitCandidate s b n) = lc_mem s"
  by (simp_all add: commitCandidate_def)

lemma validateCandidate_frames [simp]:
  "lc_status (snd (validateCandidate s b n)) = lc_status s"
  "lc_adapter (snd (validateCandidate s b n)) = lc_adapter s"
  "lc_workspace (snd (validateCandidate s b n)) = lc_workspace s"
  "lc_storage (snd (validateCandidate s b n)) = lc_storage s"
  "lc_allowDefaultsForCorruptStorage (snd (validateCandidate s b n)) = lc_allowDefaultsForCorruptStorage s"
  "lc_mem (snd (validateCandidate s b n)) = lc_mem s"
  by (simp_all add: validateCandidate_def Let_def split_beta split: option.split)

text \<open>The induction of the migration loop: over the versions still missing.\<close>

lemma migrateLoop_rule [case_names step]:
  assumes "\<And>s v k cur nxt n m.
    (\<And>content w n'. v < ad_currentSchemaVersion (lc_adapter s) \<Longrightarrow>
       P (fillBuffer s nxt content w) (v + 1) (k + 1) nxt cur n' True) \<Longrightarrow> P s v k cur nxt n m"
  shows "P s v k cur nxt n m"
proof (induction "unat (ad_currentSchemaVersion (lc_adapter s)) - unat v"
    arbitrary: s v k cur nxt n m rule: less_induct)
  case less
  show ?case
  proof (rule assms, rule less)
    fix content w and n' :: nat
    assume "v < ad_currentSchemaVersion (lc_adapter s)"
    then show "unat (ad_currentSchemaVersion (lc_adapter (fillBuffer s nxt content w))) - unat (v + 1)
        < unat (ad_currentSchemaVersion (lc_adapter s)) - unat v"
      by (simp add: unat_Suc_less word_less_nat_alt)
  qed
qed

lemma migrateLoop_frames [simp]:
  "lc_status (snd (migrateLoop s v k cur nxt n m)) = lc_status s"
  "lc_adapter (snd (migrateLoop s v k cur nxt n m)) = lc_adapter s"
  "lc_workspace (snd (migrateLoop s v k cur nxt n m)) = lc_workspace s"
  "lc_storage (snd (migrateLoop s v k cur nxt n m)) = lc_storage s"
  "lc_allowDefaultsForCorruptStorage (snd (migrateLoop s v k cur nxt n m)) = lc_allowDefaultsForCorruptStorage s"
proof (induction s v k cur nxt n m rule: migrateLoop_rule)
  case (step s v k cur nxt n m)
  show "lc_status (snd (migrateLoop s v k cur nxt n m)) = lc_status s"
    "lc_adapter (snd (migrateLoop s v k cur nxt n m)) = lc_adapter s"
    "lc_workspace (snd (migrateLoop s v k cur nxt n m)) = lc_workspace s"
    "lc_storage (snd (migrateLoop s v k cur nxt n m)) = lc_storage s"
    "lc_allowDefaultsForCorruptStorage (snd (migrateLoop s v k cur nxt n m)) =
      lc_allowDefaultsForCorruptStorage s"
    by (subst migrateLoop.simps, use step in \<open>simp add: Let_def split_beta split: option.split\<close>)+
qed

lemma decodeToCandidate_frames [simp]:
  "lc_status (snd (decodeToCandidate s v raw n)) = lc_status s"
  "lc_adapter (snd (decodeToCandidate s v raw n)) = lc_adapter s"
  "lc_workspace (snd (decodeToCandidate s v raw n)) = lc_workspace s"
  "lc_storage (snd (decodeToCandidate s v raw n)) = lc_storage s"
  "lc_allowDefaultsForCorruptStorage (snd (decodeToCandidate s v raw n)) = lc_allowDefaultsForCorruptStorage s"
  by (simp_all add: decodeToCandidate_def Let_def split_beta)

lemma decodeToCandidate_result:
  assumes "decodeToCandidate s v raw n = (d, t)"
  shows "lc_status t = lc_status s \<and> lc_adapter t = lc_adapter s \<and> lc_workspace t = lc_workspace s"
  using decodeToCandidate_frames [of s v raw n] unfolding assms by simp

lemma encodeCandidate_frames [simp]:
  "lc_status (snd (encodeCandidate s b n)) = lc_status s"
  "lc_adapter (snd (encodeCandidate s b n)) = lc_adapter s"
  "lc_workspace (snd (encodeCandidate s b n)) = lc_workspace s"
  "lc_storage (snd (encodeCandidate s b n)) = lc_storage s"
  "lc_allowDefaultsForCorruptStorage (snd (encodeCandidate s b n)) = lc_allowDefaultsForCorruptStorage s"
  by (simp_all add: encodeCandidate_def split_beta)

lemma persistCandidate_frames [simp]:
  "lc_status (snd (persistCandidate s b n)) = lc_status s"
  "lc_adapter (snd (persistCandidate s b n)) = lc_adapter s"
  "lc_workspace (snd (persistCandidate s b n)) = lc_workspace s"
  "lc_storage (snd (persistCandidate s b n)) = lc_storage s"
  "lc_allowDefaultsForCorruptStorage (snd (persistCandidate s b n)) = lc_allowDefaultsForCorruptStorage s"
  by (simp_all add: persistCandidate_def Let_def split_beta)

section \<open>The status flags\<close>

text \<open>
  \<open>desiredActiveAligned\<close> says that the stored and the active configuration are both of the current
  schema and nothing waits for a restart or a recovery; recovery implies a degraded state.
\<close>

definition statusOk :: "u16 \<Rightarrow> ConfigLifecycleStatus \<Rightarrow> bool" where
  "statusOk current st \<longleftrightarrow>
     (cst_desiredActiveAligned st \<longrightarrow>
        cst_hasActiveConfig st \<and> cst_hasStoredSchema st \<and> cst_storedSchemaVersion st = current \<and>
        \<not> cst_restartRequired st \<and> \<not> cst_recoveryRequired st) \<and>
     (cst_hasActiveConfig st \<longrightarrow> cst_activeSchemaVersion st = current \<and> cst_source st \<noteq> SourceNone) \<and>
     (\<not> cst_hasActiveConfig st \<longrightarrow> cst_source st = SourceNone) \<and>
     (cst_recoveryRequired st \<longrightarrow> cst_degraded st)"

lemma migrateLoop_unmigrated:
  "fst (migrateLoop s v k cur nxt n m) = (True, b, n', False) \<Longrightarrow>
     v = ad_currentSchemaVersion (lc_adapter s) \<and> \<not> m"
proof (induction s v k cur nxt n m rule: migrateLoop_rule)
  case (step s v k cur nxt n m)
  from step.prems show ?case
    by (subst (asm) migrateLoop.simps)
      (auto simp: Let_def split_beta split: option.split_asm if_split_asm dest: step.IH)
qed

lemma decodeToCandidate_unmigrated:
  "fst (decodeToCandidate s v raw rawSize) = (True, b, n', False) \<Longrightarrow>
     v = ad_currentSchemaVersion (lc_adapter s)"
  by (auto simp: decodeToCandidate_def Let_def split_beta split: if_splits dest: migrateLoop_unmigrated)

lemma config_fail_simps [simp]:
  "fst (config_fail s r b) = r" "lc_adapter (snd (config_fail s r b)) = lc_adapter s"
  "cst_lastResult (lc_status (snd (config_fail s r b))) = r"
  "cst_desiredActiveAligned (lc_status (snd (config_fail s r b))) = cst_desiredActiveAligned (lc_status s)"
  "cst_hasActiveConfig (lc_status (snd (config_fail s r b))) = cst_hasActiveConfig (lc_status s)"
  "cst_degraded (lc_status (snd (config_fail s r b))) = (b \<or> cst_degraded (lc_status s))"
  by (simp_all add: config_fail_def Let_def)

lemma config_fail_statusOk:
  assumes "statusOk c (lc_status s)" "b \<Longrightarrow> \<not> cst_desiredActiveAligned (lc_status s)"
  shows "statusOk c (lc_status (snd (config_fail s r b)))"
  using assms by (auto simp: config_fail_def statusOk_def Let_def)

lemma applyAndCommit_simps:
  "fst (applyAndCommit s c n src) = (if fst (runCheck (the (ad_apply (lc_adapter s))) s c n)
     then OpSuccess else ApplyFailed)"
  "lc_adapter (snd (applyAndCommit s c n src)) = lc_adapter s"
  "lc_status (snd (applyAndCommit s c n src)) =
     (if fst (applyAndCommit s c n src) = ApplyFailed
      then (lc_status s)\<lparr>cst_lastResult := ApplyFailed, cst_recoveryRequired := True, cst_degraded := True\<rparr>
      else (lc_status s)\<lparr>cst_source := src, cst_hasActiveConfig := True,
        cst_activeSchemaVersion := ad_currentSchemaVersion (lc_adapter s)\<rparr>)"
  by (simp_all add: applyAndCommit_def config_fail_def Let_def split_beta)

text \<open>The status a result of \<open>startup\<close> comes with.\<close>

definition startResultOk :: "ConfigOperationResult \<Rightarrow> 'w lifecycle \<Rightarrow> bool" where
  "startResultOk r t \<longleftrightarrow>
     cst_lastResult (lc_status t) = r \<and>
     (cst_desiredActiveAligned (lc_status t) \<longleftrightarrow> r \<in> {OpSuccess, DefaultsApplied, Migrated}) \<and>
     (r \<in> {OpSuccess, DefaultsApplied, Migrated} \<longrightarrow> \<not> cst_degraded (lc_status t)) \<and>
     (r \<notin> {OpSuccess, DefaultsApplied, Migrated, OpInvalidArgument} \<longrightarrow> cst_degraded (lc_status t)) \<and>
     (cst_recoveryRequired (lc_status t) \<longleftrightarrow> cst_degraded (lc_status t) \<and> r \<noteq> PersistFailed) \<and>
     \<not> cst_restartRequired (lc_status t) \<and>
     (r \<in> {OpSuccess, DefaultsApplied, Migrated, PersistFailed} \<longrightarrow> cst_hasActiveConfig (lc_status t)) \<and>
     (r = OpSuccess \<longrightarrow> cst_source (lc_status t) = Stored) \<and> (r = Migrated \<longrightarrow> cst_source (lc_status t) = SourceMigrated) \<and>
     (r = DefaultsApplied \<longrightarrow> cst_source (lc_status t) = Defaults)"

text \<open>Each half of \<open>startup\<close> keeps the contract, from the status its first half left.\<close>

lemmas start_status_defs = startResultOk_def statusOk_def emptyStatus_def config_fail_def Let_def
  split_beta

lemma useDefaults_status:
  assumes "useDefaults s b = (r, t)" and "lc_status s = emptyStatus"
  shows "startResultOk r t \<and> statusOk (ad_currentSchemaVersion (lc_adapter s)) (lc_status t)"
  using assms
  by (auto simp: useDefaults_def start_status_defs applyAndCommit_simps split: if_splits)

lemma startDecoded_status:
  assumes "startDecoded s c n m = (r, t)"
    and "lc_status s = emptyStatus\<lparr>cst_hasStoredSchema := True, cst_storedSchemaVersion := v\<rparr>"
    and "m \<or> v = ad_currentSchemaVersion (lc_adapter s)"
  shows "startResultOk r t \<and> statusOk (ad_currentSchemaVersion (lc_adapter s)) (lc_status t)"
  using assms
  by (auto simp: startDecoded_def start_status_defs applyAndCommit_simps split: if_splits)

lemma startLoaded_status:
  assumes r: "startLoaded s info = (r, t)" and s0: "lc_status s = emptyStatus"
  shows "startResultOk r t \<and> statusOk (ad_currentSchemaVersion (lc_adapter s)) (lc_status t)"
proof -
  let ?s1 = "setStatus (\<lambda>st. st\<lparr>cst_hasStoredSchema := True,
                   cst_storedSchemaVersion := cli_schemaVersion info\<rparr>) s"
  let ?v = "cli_schemaVersion info"
  obtain d s2 where e: "decodeToCandidate ?s1 ?v (lc_mem ?s1 RawBuffer) (cli_payloadSize info) = (d, s2)"
    by fastforce
  obtain ok c n m where d: "d = (ok, c, n, m)" by (metis prod_cases4)
  have s2: "lc_status s2 = emptyStatus\<lparr>cst_hasStoredSchema := True, cst_storedSchemaVersion := ?v\<rparr>"
      "lc_adapter s2 = lc_adapter s"
    using decodeToCandidate_result [OF e] s0 by simp_all
  have un: "m \<or> ?v = ad_currentSchemaVersion (lc_adapter s2)" if ok
    using decodeToCandidate_unmigrated [of ?s1 ?v "lc_mem ?s1 RawBuffer" "cli_payloadSize info" c n]
      e d that s2(2) by auto
  have fail: "startResultOk r t \<and> statusOk (ad_currentSchemaVersion (lc_adapter s)) (lc_status t)"
    if "config_fail s' r' True = (r, t)" "r' \<in> {LoadFailed, UnsupportedVersion, MigrationFailed, ValidationFailed}"
      "lc_status s' = emptyStatus \<or>
       lc_status s' = emptyStatus\<lparr>cst_hasStoredSchema := True, cst_storedSchemaVersion := ?v\<rparr>" for s' r'
    using that by (auto simp: start_status_defs)
  show ?thesis
    using r fail [of s LoadFailed] fail [of ?s1 UnsupportedVersion] fail [of s2 MigrationFailed]
      fail [of s2 ValidationFailed] startDecoded_status [of s2 c n m r t ?v] un s2 s0 e d
    by (auto simp: startLoaded_def Let_def split: if_splits)
qed

lemma startup_status:
  "startResultOk (fst (config_startup s)) (snd (config_startup s)) \<and>
   statusOk (ad_currentSchemaVersion (lc_adapter s)) (lc_status (snd (config_startup s)))"
proof -
  let ?s0 = "setStatus (\<lambda>_. emptyStatus) s"
  obtain l content info w where l: "the (cs_load (lc_storage s)) (lc_world s)
      (cb_capacity (ws_raw (lc_workspace s))) \<lparr>cli_schemaVersion = 0, cli_payloadSize = 0\<rparr> =
      (l, content, info, w)"
    by (metis prod_cases4)
  let ?s1 = "fillBuffer ?s0 RawBuffer content w"
  have fail: "startResultOk r' (snd (config_fail s' r' b)) \<and>
      statusOk (ad_currentSchemaVersion (lc_adapter s)) (lc_status (snd (config_fail s' r' b)))"
    if "lc_status s' = emptyStatus" "r' = OpInvalidArgument \<or> b \<and> r' \<in> {LoadFailed, RecoveryRequired}" for s' r' b
    using that by (auto simp: start_status_defs)
  show ?thesis
    using l fail [of ?s1 RecoveryRequired True] fail [of ?s1 LoadFailed True]
      fail [of ?s0 OpInvalidArgument False]
      useDefaults_status [OF prod.collapse [symmetric], of ?s1 True]
      useDefaults_status [OF prod.collapse [symmetric], of ?s1 False]
      startLoaded_status [OF prod.collapse [symmetric], of ?s1 info]
    by (cases l) (auto simp: config_startup_def Let_def)
qed

lemma update_status:
  assumes "statusOk (ad_currentSchemaVersion (lc_adapter s)) (lc_status s)"
  shows "statusOk (ad_currentSchemaVersion (lc_adapter s)) (lc_status (snd (config_update s p n))) \<and>
    cst_lastResult (lc_status (snd (config_update s p n))) = fst (config_update s p n)"
  using assms
  by (auto simp: config_update_def updateValidated_def statusOk_def config_fail_def Let_def split_beta
      split: option.split)

end
