(* ===== verification/ConfigTrace.thy ===== *)
theory ConfigTrace
  imports ConfigContract
begin

text \<open>
  What an application observes of the lifecycle, as a trace: the adapter's checks, \<open>apply\<close> and
  \<open>commitActive\<close>, and the storage's \<open>persist\<close>, are wrapped so that each call leaves an event. The
  trace shows in which order a candidate is checked, saved and activated, for any callbacks.
\<close>

datatype config_event =
    CheckedCurrent bytes nat bool | CheckedSemantic bytes nat bool | CheckedHardware bytes nat bool
  | Persisted ConfigPersistenceResult | Applied bytes nat bool | Committed bytes nat

type_synonym 'w traced = "'w \<times> config_event list"

definition tracedCheck ::
  "(bytes \<Rightarrow> nat \<Rightarrow> bool \<Rightarrow> config_event) \<Rightarrow> 'w candidate_check \<Rightarrow> 'w traced candidate_check" where
  "tracedCheck event check w candidate n =
     (let (ok, w1) = check (fst w) candidate n in (ok, (w1, snd w @ [event candidate n ok])))"

definition keepTrace :: "'w fill_result \<Rightarrow> config_event list \<Rightarrow> 'w traced fill_result" where
  "keepTrace r log = (let (ok, content, n, w) = r in (ok, content, n, (w, log)))"

definition tracedAdapter :: "'w ConfigAdapter \<Rightarrow> 'w traced ConfigAdapter" where
  "tracedAdapter ad =
     \<lparr>ad_currentSchemaVersion = ad_currentSchemaVersion ad,
      ad_maximumMigrationSteps = ad_maximumMigrationSteps ad,
      ad_buildDefaults = map_option (\<lambda>f w cap. keepTrace (f (fst w) cap) (snd w)) (ad_buildDefaults ad),
      ad_decode = map_option (\<lambda>f w v raw n cap. keepTrace (f (fst w) v raw n cap) (snd w)) (ad_decode ad),
      ad_migrateStep =
        map_option (\<lambda>f w v input n cap. keepTrace (f (fst w) v input n cap) (snd w)) (ad_migrateStep ad),
      ad_validateCurrent = map_option (tracedCheck CheckedCurrent) (ad_validateCurrent ad),
      ad_validateSemantic = map_option (tracedCheck CheckedSemantic) (ad_validateSemantic ad),
      ad_validateHardware = map_option (tracedCheck CheckedHardware) (ad_validateHardware ad),
      ad_encodeCurrent =
        map_option (\<lambda>f w c n cap. keepTrace (f (fst w) c n cap) (snd w)) (ad_encodeCurrent ad),
      ad_apply = map_option (tracedCheck Applied) (ad_apply ad),
      ad_commitActive = map_option (\<lambda>f w c n. (f (fst w) c n, snd w @ [Committed c n])) (ad_commitActive ad),
      ad_classify =
        map_option (\<lambda>f w c n. let (mode, w1) = f (fst w) c n in (mode, (w1, snd w))) (ad_classify ad)\<rparr>"

definition tracedStorage :: "'w ConfigStorage \<Rightarrow> 'w traced ConfigStorage" where
  "tracedStorage st =
     \<lparr>cs_load = map_option (\<lambda>f w cap info.
        let (r, content, i, w1) = f (fst w) cap info in (r, content, i, (w1, snd w))) (cs_load st),
      cs_persist = map_option (\<lambda>f w v raw n.
        let (r, w1) = f (fst w) v raw n in (r, (w1, snd w @ [Persisted r]))) (cs_persist st)\<rparr>"

section \<open>Orderly traces\<close>

definition approved :: "bool \<Rightarrow> config_event list \<Rightarrow> bytes \<Rightarrow> nat \<Rightarrow> bool" where
  "approved hardware log c n \<longleftrightarrow>
     CheckedCurrent c n True \<in> set log \<and> CheckedSemantic c n True \<in> set log \<and>
     (hardware \<longrightarrow> CheckedHardware c n True \<in> set log)"

text \<open>An event after a past: what is applied was approved, what is committed was just applied.\<close>

fun eventOk :: "bool \<Rightarrow> config_event list \<Rightarrow> config_event \<Rightarrow> bool" where
  "eventOk hardware past (Applied c n ok) = approved hardware past c n"
| "eventOk hardware past (Committed c n) = (past \<noteq> [] \<and> last past = Applied c n True)"
| "eventOk hardware past _ = True"

fun orderly :: "bool \<Rightarrow> config_event list \<Rightarrow> config_event list \<Rightarrow> bool" where
  "orderly hardware past [] = True"
| "orderly hardware past (e # es) = (eventOk hardware past e \<and> orderly hardware (past @ [e]) es)"

lemma orderly_append:
  "orderly hw past (xs @ ys) = (orderly hw past xs \<and> orderly hw (past @ xs) ys)"
  by (induction xs arbitrary: past) auto

definition logOf :: "'w traced lifecycle \<Rightarrow> config_event list" where
  "logOf s = snd (lc_world s)"

definition safeStep :: "bool \<Rightarrow> 'w traced lifecycle \<Rightarrow> 'w traced lifecycle \<Rightarrow> bool" where
  "safeStep hw s t \<longleftrightarrow> (\<exists>es. logOf t = logOf s @ es \<and> orderly hw (logOf s) es)"

lemma safeStep_quiet: "logOf t = logOf s \<Longrightarrow> safeStep hw s t"
  by (simp add: safeStep_def)

lemma safeStep_trans [trans]: "safeStep hw s t \<Longrightarrow> safeStep hw t u \<Longrightarrow> safeStep hw s u"
  unfolding safeStep_def by (metis append.assoc orderly_append)

lemma safeStep_orderly: "orderly hw [] (logOf s) \<Longrightarrow> safeStep hw s t \<Longrightarrow> orderly hw [] (logOf t)"
  by (auto simp: safeStep_def orderly_append)

lemma approved_step: "approved hw (logOf s) c n \<Longrightarrow> safeStep hw s t \<Longrightarrow> approved hw (logOf t) c n"
  by (auto simp: safeStep_def approved_def)

text \<open>A lifecycle whose callbacks are traced, with the hardware check present or not.\<close>

definition tracedPlan :: "bool \<Rightarrow> 'w traced lifecycle \<Rightarrow> bool" where
  "tracedPlan hw s \<longleftrightarrow> (\<exists>ad st. lc_adapter s = tracedAdapter ad \<and> lc_storage s = tracedStorage st \<and>
     hw = (ad_validateHardware ad \<noteq> None))"

lemma tracedPlan_cong:
  "lc_adapter t = lc_adapter s \<Longrightarrow> lc_storage t = lc_storage s \<Longrightarrow> tracedPlan hw t = tracedPlan hw s"
  by (simp add: tracedPlan_def)

lemma logOf_simps [simp]:
  "logOf (setStatus f s) = logOf s" "logOf (fillBuffer s b c w) = snd w"
  "logOf (s\<lparr>lc_world := w\<rparr>) = snd w" "logOf (snd (config_fail s r q)) = logOf s"
  by (simp_all add: logOf_def config_fail_def)

lemma runCheck_traced:
  "runCheck (tracedCheck ev chk) s b n = (ok, t) \<Longrightarrow> logOf t = logOf s @ [ev (lc_mem s b) n ok]"
  by (auto simp: runCheck_def tracedCheck_def logOf_def split_beta Let_def)

section \<open>The operations leave orderly traces\<close>

text \<open>What a traced lifecycle with a valid plan calls.\<close>

lemma tracedPlan_callbacks:
  assumes "tracedPlan hw s" "validPlan s"
  obtains current semantic hardware app where
    "ad_validateCurrent (lc_adapter s) = Some (tracedCheck CheckedCurrent current)"
    "ad_validateSemantic (lc_adapter s) = Some (tracedCheck CheckedSemantic semantic)"
    "ad_validateHardware (lc_adapter s) = map_option (tracedCheck CheckedHardware) hardware"
    "hw = (hardware \<noteq> None)"
    "ad_apply (lc_adapter s) = Some (tracedCheck Applied app)"
  using assms
  by (auto simp: tracedPlan_def validPlan_def tracedAdapter_def Let_def split: if_splits)

lemma tracedPlan_quiet:
  assumes "tracedPlan hw s" "validPlan s"
  shows "snd (snd (snd (snd (the (ad_buildDefaults (lc_adapter s)) w cap)))) = snd w"
    "snd (snd (snd (snd (the (ad_decode (lc_adapter s)) w v raw n cap)))) = snd w"
    "snd (snd (snd (snd (the (ad_encodeCurrent (lc_adapter s)) w raw n cap)))) = snd w"
    "ad_migrateStep (lc_adapter s) = Some f \<Longrightarrow> snd (snd (snd (snd (f w v raw n cap)))) = snd w"
    "ad_classify (lc_adapter s) = Some g \<Longrightarrow> snd (snd (g w raw n)) = snd w"
    "snd (snd (snd (snd (the (cs_load (lc_storage s)) w cap info)))) = snd w"
    "snd (the (ad_commitActive (lc_adapter s)) w raw n) = snd w @ [Committed raw n]"
    "snd (snd (the (cs_persist (lc_storage s)) w v praw n)) =
      snd w @ [Persisted (fst (the (cs_persist (lc_storage s)) w v praw n))]"
  using assms
  by (auto simp: tracedPlan_def validPlan_def tracedAdapter_def tracedStorage_def keepTrace_def Let_def
      split_beta split: if_splits)

lemma validateCandidate_traced:
  assumes plan: "tracedPlan hw s" "validPlan s" and r: "validateCandidate s b n = (ok, t)"
  shows "safeStep hw s t" and "ok \<Longrightarrow> approved hw (logOf t) (lc_mem s b) n"
proof -
  obtain current semantic hardware where f:
      "ad_validateCurrent (lc_adapter s) = Some (tracedCheck CheckedCurrent current)"
      "ad_validateSemantic (lc_adapter s) = Some (tracedCheck CheckedSemantic semantic)"
      "ad_validateHardware (lc_adapter s) = map_option (tracedCheck CheckedHardware) hardware"
      "hw = (hardware \<noteq> None)"
    using tracedPlan_callbacks [OF plan] by metis
  let ?c = "lc_mem s b"
  obtain ok1 s1 where 1: "runCheck (tracedCheck CheckedCurrent current) s b n = (ok1, s1)" by fastforce
  obtain ok2 s2 where 2: "runCheck (tracedCheck CheckedSemantic semantic) s1 b n = (ok2, s2)" by fastforce
  have m1: "lc_mem s1 = lc_mem s" using runCheck_frames(6) [of _ s b n] 1 by (metis snd_conv)
  have m2: "lc_mem s2 = lc_mem s" using runCheck_frames(6) [of _ s1 b n] 2 m1 by (metis snd_conv)
  note l1 = runCheck_traced [OF 1] and l2 = runCheck_traced [OF 2, unfolded m1]
  have "(\<exists>es. logOf t = logOf s @ es \<and> orderly hw (logOf s) es) \<and> (ok \<longrightarrow> approved hw (logOf t) ?c n)"
  proof (cases "ok1 \<and> ok2 \<and> hw")
    case True
    then obtain h where h: "hardware = Some h" using f(4) by auto
    have "runCheck (tracedCheck CheckedHardware h) s2 b n = (ok, t)"
      using r f 1 2 True h by (simp add: validateCandidate_def)
    note l3 = runCheck_traced [OF this, unfolded m2]
    show ?thesis using l1 l2 l3 True by (simp add: approved_def)
  next
    case False
    then show ?thesis
      using r f 1 2 l1 l2 by (auto simp: validateCandidate_def approved_def split: if_splits)
  qed
  then show "safeStep hw s t" and "ok \<Longrightarrow> approved hw (logOf t) ?c n" by (auto simp: safeStep_def)
qed

lemma migrateLoop_traced:
  "tracedPlan hw s \<Longrightarrow> validPlan s \<Longrightarrow> logOf (snd (migrateLoop s v k cur nxt n m)) = logOf s"
proof (induction s v k cur nxt n m rule: migrateLoop_rule)
  case (step s v k cur nxt n m)
  have keep: "tracedPlan hw (fillBuffer s nxt c w) = tracedPlan hw s"
    "validPlan (fillBuffer s nxt c w) = validPlan s" for c w
    by (simp_all add: tracedPlan_def validPlan_def)
  show ?case
    using step.prems step.IH [unfolded keep, OF _ step.prems] tracedPlan_quiet(4) [OF step.prems]
    by (subst migrateLoop.simps) (auto simp: Let_def split_beta logOf_def split: option.split)
qed

lemma decodeToCandidate_traced:
  assumes "tracedPlan hw s" "validPlan s"
  shows "logOf (snd (decodeToCandidate s v raw n)) = logOf s"
proof -
  have keep: "tracedPlan hw (fillBuffer s b c w) = tracedPlan hw s"
    "validPlan (fillBuffer s b c w) = validPlan s" for b c w
    by (simp_all add: tracedPlan_def validPlan_def)
  show ?thesis
    using tracedPlan_quiet(2) [OF assms] migrateLoop_traced [unfolded keep, OF assms] assms
    by (simp add: decodeToCandidate_def Let_def split_beta migrateLoop_traced [where hw = hw] keep)
      (simp add: logOf_def)
qed

lemma applyAndCommit_traced:
  assumes plan: "tracedPlan hw s" "validPlan s" and ok: "approved hw (logOf s) (lc_mem s b) n"
  shows "safeStep hw s (snd (applyAndCommit s b n src))"
proof -
  obtain app where a: "ad_apply (lc_adapter s) = Some (tracedCheck Applied app)"
    using tracedPlan_callbacks [OF plan] by metis
  obtain applied s1 where 1: "runCheck (tracedCheck Applied app) s b n = (applied, s1)" by fastforce
  have f: "lc_mem s1 = lc_mem s" "lc_adapter s1 = lc_adapter s"
    using runCheck_frames(2,6) [of _ s b n] 1 by (metis snd_conv)+
  note l1 = runCheck_traced [OF 1]
  have "logOf (snd (applyAndCommit s b n src)) =
      logOf s @ Applied (lc_mem s b) n applied # (if applied then [Committed (lc_mem s b) n] else [])"
    using a 1 l1 f tracedPlan_quiet(7) [OF plan]
    by (simp add: applyAndCommit_def commitCandidate_def Let_def) (simp add: logOf_def)
  then show ?thesis using ok by (auto simp: safeStep_def)
qed

lemma persistCandidate_traced:
  assumes "tracedPlan hw s" "validPlan s"
  shows "logOf (snd (persistCandidate s b n)) = logOf s \<or>
    logOf (snd (persistCandidate s b n)) = logOf s @ [Persisted (fst (persistCandidate s b n))]"
  using tracedPlan_quiet(3,8) [OF assms]
  by (simp add: persistCandidate_def encodeCandidate_def Let_def split_beta) (simp add: logOf_def)

definition readyPlan :: "bool \<Rightarrow> 'w traced lifecycle \<Rightarrow> bool" where
  "readyPlan hw s \<longleftrightarrow> tracedPlan hw s \<and> validPlan s"

lemma readyPlan_cong:
  "lc_adapter t = lc_adapter s \<Longrightarrow> lc_storage t = lc_storage s \<Longrightarrow> lc_workspace t = lc_workspace s \<Longrightarrow>
     readyPlan hw t = readyPlan hw s"
  by (simp add: readyPlan_def tracedPlan_def validPlan_def)

lemma applyAndCommit_frames [simp]:
  "lc_adapter (snd (applyAndCommit s b n src)) = lc_adapter s"
  "lc_workspace (snd (applyAndCommit s b n src)) = lc_workspace s"
  "lc_storage (snd (applyAndCommit s b n src)) = lc_storage s"
  "lc_mem (snd (applyAndCommit s b n src)) = lc_mem s"
  by (simp_all add: applyAndCommit_def config_fail_def Let_def split_beta)

lemma readyPlan_frames [simp]:
  "readyPlan hw (setStatus f s) = readyPlan hw s" "readyPlan hw (fillBuffer s b c w) = readyPlan hw s"
  "readyPlan hw (s\<lparr>lc_world := w\<rparr>) = readyPlan hw s"
  "readyPlan hw (snd (runCheck chk s b n)) = readyPlan hw s"
  "readyPlan hw (snd (validateCandidate s b n)) = readyPlan hw s"
  "readyPlan hw (snd (decodeToCandidate s v raw n)) = readyPlan hw s"
  "readyPlan hw (snd (persistCandidate s b n)) = readyPlan hw s"
  "readyPlan hw (snd (applyAndCommit s b n src)) = readyPlan hw s"
  by (rule readyPlan_cong; simp)+

lemma safeStep_setStatus [simp]:
  "safeStep hw s (setStatus f t) = safeStep hw s t" "safeStep hw (setStatus f s) t = safeStep hw s t"
  "safeStep hw s (snd (config_fail t r q)) = safeStep hw s t"
  by (simp_all add: safeStep_def)

lemma safeStep_refl [simp]: "safeStep hw s s" by (simp add: safeStep_quiet)

lemma persistCandidate_safe:
  "readyPlan hw s \<Longrightarrow> safeStep hw s (snd (persistCandidate s b n))"
  using persistCandidate_traced [of hw s b n] by (auto simp: readyPlan_def safeStep_def)

lemma validateCandidate_safe:
  assumes "readyPlan hw s"
  shows "safeStep hw s (snd (validateCandidate s b n))"
    "fst (validateCandidate s b n) \<Longrightarrow> approved hw (logOf (snd (validateCandidate s b n))) (lc_mem s b) n"
  using validateCandidate_traced [of hw s b n, OF _ _ prod.collapse [symmetric]] assms
  by (simp_all add: readyPlan_def)

lemma validated_apply_safe:
  assumes "readyPlan hw s" "fst (validateCandidate s b n)"
  shows "safeStep hw s (snd (applyAndCommit (snd (validateCandidate s b n)) b n src))"
proof -
  let ?v = "snd (validateCandidate s b n)"
  have "readyPlan hw ?v" using assms(1) by simp
  then have "safeStep hw ?v (snd (applyAndCommit ?v b n src))"
    using applyAndCommit_traced [of hw ?v b n src] validateCandidate_safe(2) [OF assms]
    by (simp add: readyPlan_def)
  with validateCandidate_safe(1) [OF assms(1), of b n] show ?thesis by (rule safeStep_trans)
qed

lemma validated_apply_persist_safe:
  assumes "readyPlan hw s" "fst (validateCandidate s b n)"
  shows "safeStep hw s (snd (persistCandidate (snd (applyAndCommit (snd (validateCandidate s b n)) b n src)) b n))"
  by (rule safeStep_trans [OF validated_apply_safe [OF assms] persistCandidate_safe]) (simp add: assms(1))

lemma startDecoded_safe:
  assumes "readyPlan hw s" shows "safeStep hw s (snd (startDecoded s b n m))"
  using validateCandidate_safe(1) [OF assms] validated_apply_safe [OF assms]
    validated_apply_persist_safe [OF assms]
  by (simp add: startDecoded_def Let_def split_beta)

lemma useDefaults_safe:
  assumes r: "readyPlan hw s" shows "safeStep hw s (snd (useDefaults s q))"
proof -
  obtain ok c n w where d: "the (ad_buildDefaults (lc_adapter s)) (lc_world s) (capacityOf s CandidateA) =
      (ok, c, n, w)" by (metis prod_cases4)
  let ?s1 = "fillBuffer s CandidateA c w"
  have "snd w = snd (lc_world s)"
    using tracedPlan_quiet(1) [of hw s "lc_world s" "capacityOf s CandidateA"] r d
    by (simp add: readyPlan_def)
  then have 1: "safeStep hw s ?s1" by (simp add: safeStep_quiet logOf_def)
  have ready: "readyPlan hw ?s1" using r by simp
  have "safeStep hw ?s1 (snd (useDefaults s q))"
    using d validateCandidate_safe(1) [OF ready] validated_apply_safe [OF ready]
      validated_apply_persist_safe [OF ready]
    by (simp add: useDefaults_def Let_def split_beta)
  with 1 show ?thesis by (rule safeStep_trans)
qed

lemma startLoaded_safe:
  assumes r: "readyPlan hw s" shows "safeStep hw s (snd (startLoaded s info))"
proof -
  let ?s1 = "setStatus (\<lambda>st. st\<lparr>cst_hasStoredSchema := True,
                   cst_storedSchemaVersion := cli_schemaVersion info\<rparr>) s"
  let ?d = "decodeToCandidate ?s1 (cli_schemaVersion info) (lc_mem ?s1 RawBuffer) (cli_payloadSize info)"
  have d: "safeStep hw s (snd ?d)"
    using decodeToCandidate_traced [of hw ?s1] r
    by (intro safeStep_quiet) (simp add: readyPlan_def tracedPlan_def)
  have "safeStep hw s (snd (startDecoded (snd ?d) b n m))" for b n m
    by (rule safeStep_trans [OF d startDecoded_safe]) (simp add: r)
  with d show ?thesis by (simp add: startLoaded_def Let_def split_beta)
qed

lemma startup_safe:
  assumes "tracedPlan hw s" shows "safeStep hw s (snd (config_startup s))"
proof (cases "validPlan s")
  case False
  then show ?thesis by (simp add: config_startup_def)
next
  case True
  let ?s0 = "setStatus (\<lambda>_. emptyStatus) s"
  have r: "readyPlan hw ?s0" using True assms by (simp add: readyPlan_def tracedPlan_def)
  obtain l content info w where l: "the (cs_load (lc_storage s)) (lc_world s)
      (cb_capacity (ws_raw (lc_workspace s))) \<lparr>cli_schemaVersion = 0, cli_payloadSize = 0\<rparr> =
      (l, content, info, w)"
    by (metis prod_cases4)
  let ?s1 = "fillBuffer ?s0 RawBuffer content w"
  have "snd w = snd (lc_world s)"
    using tracedPlan_quiet(6) [of hw s "lc_world s" "cb_capacity (ws_raw (lc_workspace s))"
        "\<lparr>cli_schemaVersion = 0, cli_payloadSize = 0\<rparr>"] assms True l by simp
  then have 1: "safeStep hw s ?s1" by (simp add: safeStep_quiet logOf_def)
  have ready: "readyPlan hw ?s1" using r by simp
  show ?thesis
    using l True 1 safeStep_trans [OF 1 useDefaults_safe [OF ready]]
      safeStep_trans [OF 1 startLoaded_safe [OF ready]]
    by (cases l) (simp_all add: config_startup_def Let_def)
qed

lemma apply_log:
  assumes "readyPlan hw s"
  shows "logOf (snd (runCheck (the (ad_apply (lc_adapter s))) s b n)) = logOf s @
    [Applied (lc_mem s b) n (fst (runCheck (the (ad_apply (lc_adapter s))) s b n))]"
proof -
  obtain app where "ad_apply (lc_adapter s) = Some (tracedCheck Applied app)"
    using tracedPlan_callbacks assms unfolding readyPlan_def by metis
  then show ?thesis using runCheck_traced [OF prod.collapse [symmetric], of Applied app s b n] by simp
qed

lemma commit_log:
  "readyPlan hw s \<Longrightarrow> logOf (commitCandidate s b n) = logOf s @ [Committed (lc_mem s b) n]"
  using tracedPlan_quiet(7) [of hw s] by (simp add: commitCandidate_def readyPlan_def logOf_def)

lemma persistCandidate_keeps_candidate:
  "b \<noteq> RawBuffer \<Longrightarrow> lc_mem (snd (persistCandidate s c n)) b = lc_mem s b"
  by (simp add: persistCandidate_def encodeCandidate_def fillBuffer_def Let_def split_beta)

text \<open>The end of an update: a candidate in a buffer is applied and, if that worked, committed.\<close>

lemma apply_commit_safe:
  assumes r: "readyPlan hw s" and ok: "approved hw (logOf s) (lc_mem s b) n"
  shows "safeStep hw s (snd (runCheck (the (ad_apply (lc_adapter s))) s b n))"
    "fst (runCheck (the (ad_apply (lc_adapter s))) s b n) \<Longrightarrow>
     safeStep hw s (commitCandidate (snd (runCheck (the (ad_apply (lc_adapter s))) s b n)) b n)"
  using apply_log [OF r] commit_log [of hw "snd (runCheck (the (ad_apply (lc_adapter s))) s b n)" b n]
    r ok
  by (auto simp: safeStep_def)

lemma updateValidated_safe:
  assumes r: "readyPlan hw s" and ok: "approved hw (logOf s) (lc_mem s CandidateA) n"
  shows "safeStep hw s (snd (updateValidated s n))"
proof -
  define s2 where "s2 = setStatus (\<lambda>st. st\<lparr>cst_lastPersistenceResult :=
    fst (persistCandidate s CandidateA n)\<rparr>) (snd (persistCandidate s CandidateA n))"
  have 2: "safeStep hw s s2" using persistCandidate_safe [OF r] by (simp add: s2_def)
  have r2: "readyPlan hw s2" using r by (simp add: s2_def)
  have m2: "lc_mem s2 CandidateA = lc_mem s CandidateA"
    by (simp add: s2_def persistCandidate_keeps_candidate)
  define mw where "mw = (case ad_classify (lc_adapter s2) of None \<Rightarrow> (Live, lc_world s2)
    | Some classify \<Rightarrow> classify (lc_world s2) (lc_mem s2 CandidateA) n)"
  have "snd (snd mw) = snd (lc_world s2)"
    using tracedPlan_quiet(5) [of hw s2] r2
    by (auto simp: mw_def readyPlan_def split: option.split)
  define s3 where "s3 = setStatus (\<lambda>st. st\<lparr>cst_hasStoredSchema := True,
    cst_storedSchemaVersion := ad_currentSchemaVersion (lc_adapter s2)\<rparr>) (s2\<lparr>lc_world := snd mw\<rparr>)"
  have "safeStep hw s2 s3"
    using \<open>snd (snd mw) = _\<close> by (intro safeStep_quiet) (simp add: s3_def, simp add: logOf_def)
  with 2 have 3: "safeStep hw s s3" by (rule safeStep_trans)
  have r3: "readyPlan hw s3" using r2 by (simp add: s3_def)
  have ok3: "approved hw (logOf s3) (lc_mem s3 CandidateA) n"
    using approved_step [OF ok 3] m2 by (simp add: s3_def)
  note done4 = safeStep_trans [OF 3 apply_commit_safe(1) [OF r3 ok3]]
    safeStep_trans [OF 3 apply_commit_safe(2) [OF r3 ok3]]
  have step: "snd (updateValidated s n) =
    (let persisted = fst (persistCandidate s CandidateA n);
         a = runCheck (the (ad_apply (lc_adapter s3))) s3 CandidateA n
     in if \<not> persistenceSucceeded persisted
        then setStatus (\<lambda>st. st\<lparr>cst_degraded := True, cst_lastResult := PersistFailed\<rparr>) s2
        else if fst mw = ModeRestartRequired then
           setStatus (\<lambda>st. st\<lparr>cst_desiredActiveAligned := False, cst_restartRequired := True,
             cst_recoveryRequired := False, cst_degraded := False,
             cst_lastResult := RestartRequired\<rparr>) s3
        else if \<not> fst a then
             setStatus (\<lambda>st. st\<lparr>cst_desiredActiveAligned := False, cst_restartRequired := False,
               cst_recoveryRequired := True, cst_degraded := True,
               cst_lastResult := ApplyFailed\<rparr>) (snd a)
        else
              setStatus (\<lambda>st. st\<lparr>cst_source := Stored, cst_hasActiveConfig := True,
                cst_activeSchemaVersion := ad_currentSchemaVersion (lc_adapter (snd a)),
                cst_desiredActiveAligned := True, cst_restartRequired := False,
                cst_recoveryRequired := False, cst_degraded := False,
                cst_lastResult := (if persisted = PersistNoChange then OpNoChange else OpSuccess)\<rparr>)
                (commitCandidate (snd a) CandidateA n))"
    unfolding updateValidated_def Let_def split_beta s3_def mw_def s2_def by simp
  show ?thesis unfolding step Let_def using 2 3 done4 by simp
qed

lemma update_safe:
  assumes t: "tracedPlan hw s" shows "safeStep hw s (snd (config_update s p n))"
proof (cases "p \<noteq> None \<and> validPlan s \<and> cst_hasActiveConfig (lc_status s) \<and> n \<noteq> 0")
  case False
  then show ?thesis by (auto simp: config_update_def split: option.split)
next
  case True
  then obtain proposal where p: "p = Some proposal" by auto
  let ?s1 = "setStatus (\<lambda>st. st\<lparr>cst_lastPersistenceResult := PersistNotAttempted\<rparr>) s"
  obtain ok c m w where d: "the (ad_decode (lc_adapter s)) (lc_world s)
      (ad_currentSchemaVersion (lc_adapter s)) proposal n (capacityOf s CandidateA) = (ok, c, m, w)"
    by (metis prod_cases4)
  let ?s2 = "fillBuffer ?s1 CandidateA c w"
  have "snd w = snd (lc_world s)"
    using tracedPlan_quiet(2) [of hw s "lc_world s" "ad_currentSchemaVersion (lc_adapter s)" proposal n
        "capacityOf s CandidateA"] t True d by simp
  then have 2: "safeStep hw s ?s2" by (simp add: safeStep_quiet logOf_def)
  have r: "readyPlan hw s" using t True by (simp add: readyPlan_def)
  then have r2: "readyPlan hw ?s2" by simp
  let ?v = "validateCandidate ?s2 CandidateA m"
  have 3: "safeStep hw s (snd ?v)" by (rule safeStep_trans [OF 2 validateCandidate_safe(1) [OF r2]])
  have 4: "safeStep hw s (snd (updateValidated (snd ?v) m))" if "fst ?v"
    using safeStep_trans [OF 3 updateValidated_safe] validateCandidate_safe(2) [OF r2 that] r2 by simp
  show ?thesis using True p d 2 3 4 by (simp add: config_update_def Let_def split_beta)
qed

section \<open>What a start does, as its status reports it\<close>

fun commits :: "config_event \<Rightarrow> bool" where
  "commits (Committed c n) = True"
| "commits _ = False"

fun applyFails :: "config_event \<Rightarrow> bool" where
  "applyFails (Applied c n ok) = (\<not> ok)"
| "applyFails _ = False"

text \<open>From one state to a later one: was a candidate committed, did an \<open>apply\<close> fail.\<close>

definition traceReports :: "'w traced lifecycle \<Rightarrow> 'w traced lifecycle \<Rightarrow> bool \<Rightarrow> bool \<Rightarrow> bool" where
  "traceReports s t committed failed \<longleftrightarrow>
     (\<exists>es. logOf t = logOf s @ es \<and> list_ex commits es = committed \<and> list_ex applyFails es = failed)"

lemma traceReports_quiet: "logOf t = logOf s \<Longrightarrow> traceReports s t False False"
  by (simp add: traceReports_def)

lemma traceReports_trans:
  "traceReports s t c f \<Longrightarrow> traceReports t u c' f' \<Longrightarrow> traceReports s u (c \<or> c') (f \<or> f')"
  unfolding traceReports_def by (metis append.assoc list_ex_append)

lemma traceReports_status [simp]:
  "traceReports s (setStatus g t) c f = traceReports s t c f" "traceReports (setStatus g s) t c f = traceReports s t c f"
  "traceReports s (snd (config_fail t r q)) c f = traceReports s t c f"
  by (simp_all add: traceReports_def)

lemma check_reports:
  assumes "commits (ev (lc_mem s b) n ok) = c" "applyFails (ev (lc_mem s b) n ok) = f" "runCheck (tracedCheck ev chk) s b n = (ok, t)"
  shows "traceReports s t c f"
  using runCheck_traced [OF assms(3)] assms(1,2) by (simp add: traceReports_def)

lemma validate_reports:
  assumes "readyPlan hw s"
  shows "traceReports s (snd (validateCandidate s b n)) False False"
proof -
  obtain current semantic hardware where f:
      "ad_validateCurrent (lc_adapter s) = Some (tracedCheck CheckedCurrent current)"
      "ad_validateSemantic (lc_adapter s) = Some (tracedCheck CheckedSemantic semantic)"
      "ad_validateHardware (lc_adapter s) = map_option (tracedCheck CheckedHardware) hardware"
    using tracedPlan_callbacks assms unfolding readyPlan_def by metis
  have q: "traceReports u (snd (runCheck (tracedCheck ev chk) u b n)) False False"
    if "ev \<in> {CheckedCurrent, CheckedSemantic, CheckedHardware}" for ev chk and u :: "'a traced lifecycle"
    using that by (auto intro: check_reports [OF _ _ prod.collapse [symmetric]])
  note 1 = q [of CheckedCurrent s current, simplified]
  note 2 = traceReports_trans [OF 1 q [of CheckedSemantic _ semantic, simplified], simplified]
  note 3 = traceReports_trans [OF 2 q [of CheckedHardware], simplified]
  show ?thesis using f 1 2 3 by (simp add: validateCandidate_def Let_def split_beta split: option.split)
qed

lemma apply_reports:
  assumes "readyPlan hw s"
  shows "traceReports s (snd (applyAndCommit s b n src)) (fst (applyAndCommit s b n src) \<noteq> ApplyFailed)
    (fst (applyAndCommit s b n src) = ApplyFailed)"
proof -
  let ?r = "runCheck (the (ad_apply (lc_adapter s))) s b n"
  have "traceReports s (snd ?r) False (\<not> fst ?r)" using apply_log [OF assms] by (simp add: traceReports_def)
  moreover have "traceReports (snd ?r) (commitCandidate (snd ?r) b n) True False"
    using commit_log [of hw "snd ?r"] assms by (simp add: traceReports_def)
  note traceReports_trans [OF _ this]
  ultimately show ?thesis by (cases "fst ?r") (fastforce simp: applyAndCommit_def Let_def split_beta)+
qed

lemma persist_reports:
  "readyPlan hw s \<Longrightarrow> traceReports s (snd (persistCandidate s b n)) False False"
  using persistCandidate_traced [of hw s b n] by (auto simp: readyPlan_def traceReports_def)

text \<open>Check, apply, commit and save of a candidate, as \<open>startDecoded\<close> and \<open>useDefaults\<close> chain them.\<close>

lemma activate_reports:
  fixes b n
  assumes "readyPlan hw s"
  defines "v \<equiv> snd (validateCandidate s b n)"
  shows "traceReports s v False False"
    "fst (applyAndCommit v b n src) = ApplyFailed \<Longrightarrow> traceReports s (snd (applyAndCommit v b n src)) False True"
    "fst (applyAndCommit v b n src) \<noteq> ApplyFailed \<Longrightarrow> traceReports s (snd (applyAndCommit v b n src)) True False"
    "fst (applyAndCommit v b n src) \<noteq> ApplyFailed \<Longrightarrow>
     traceReports s (snd (persistCandidate (snd (applyAndCommit v b n src)) b n)) True False"
proof -
  have r: "readyPlan hw v" "readyPlan hw (snd (applyAndCommit v b n src))" using assms(1) by (simp_all add: v_def)
  show 1: "traceReports s v False False" unfolding v_def by (rule validate_reports [OF assms(1)])
  note 2 = traceReports_trans [OF 1 apply_reports [OF r(1)]]
  show "fst (applyAndCommit v b n src) = ApplyFailed \<Longrightarrow> traceReports s (snd (applyAndCommit v b n src)) False True"
    using 2 [of b n src] by simp
  show 3: "fst (applyAndCommit v b n src) \<noteq> ApplyFailed \<Longrightarrow> traceReports s (snd (applyAndCommit v b n src)) True False"
    using 2 [of b n src] by simp
  show "fst (applyAndCommit v b n src) \<noteq> ApplyFailed \<Longrightarrow>
     traceReports s (snd (persistCandidate (snd (applyAndCommit v b n src)) b n)) True False"
    using traceReports_trans [OF 3 persist_reports [OF r(2)]] by simp
qed

definition startReports :: "'w traced lifecycle \<Rightarrow> ConfigOperationResult \<times> 'w traced lifecycle \<Rightarrow> bool" where
  "startReports s rt \<longleftrightarrow> traceReports s (snd rt) (cst_hasActiveConfig (lc_status (snd rt))) (fst rt = ApplyFailed)"

lemma startReports_fail [simp]:
  "startReports s (config_fail t r q) \<longleftrightarrow> traceReports s t (cst_hasActiveConfig (lc_status t)) (r = ApplyFailed)"
  by (simp add: startReports_def)

lemma startDecoded_reports:
  assumes "readyPlan hw s" and "\<not> cst_hasActiveConfig (lc_status s)"
  shows "startReports s (startDecoded s b n m)"
proof -
  note a = activate_reports [OF assms(1), where b = b and n = n]
  show ?thesis
    using a(1) a(2-4) [where src = Stored] a(2-4) [where src = SourceMigrated] assms(2)
    by (cases m) (simp_all add: startDecoded_def startReports_def Let_def split_beta applyAndCommit_simps(3))
qed

lemma useDefaults_reports:
  assumes r: "readyPlan hw s" and "\<not> cst_hasActiveConfig (lc_status s)"
  shows "startReports s (useDefaults s q)"
proof -
  obtain ok c n w where d: "the (ad_buildDefaults (lc_adapter s)) (lc_world s) (capacityOf s CandidateA) =
      (ok, c, n, w)" by (metis prod_cases4)
  let ?s1 = "fillBuffer s CandidateA c w"
  have "snd w = snd (lc_world s)"
    using tracedPlan_quiet(1) [of hw s "lc_world s" "capacityOf s CandidateA"] r d
    by (simp add: readyPlan_def)
  then have 1: "traceReports s ?s1 False False" by (intro traceReports_quiet) (simp add: logOf_def)
  have "readyPlan hw ?s1" using r by simp
  note a = activate_reports [OF this, where b = CandidateA and n = n]
  note a' = traceReports_trans [OF 1 a(1), simplified] a(2-4) [where src = Defaults, THEN traceReports_trans [OF 1], simplified]
  show ?thesis using a' 1 d assms(2)
    by (simp add: useDefaults_def startReports_def Let_def split_beta applyAndCommit_simps(3))
qed

lemma startReports_from:
  "traceReports s u False False \<Longrightarrow> startReports u rt \<Longrightarrow> startReports s rt"
  using traceReports_trans [of s u False False] by (fastforce simp: startReports_def)

lemma startLoaded_reports:
  assumes r: "readyPlan hw s" and none: "\<not> cst_hasActiveConfig (lc_status s)"
  shows "startReports s (startLoaded s info)"
proof -
  let ?s1 = "setStatus (\<lambda>st. st\<lparr>cst_hasStoredSchema := True,
                   cst_storedSchemaVersion := cli_schemaVersion info\<rparr>) s"
  let ?d = "decodeToCandidate ?s1 (cli_schemaVersion info) (lc_mem ?s1 RawBuffer) (cli_payloadSize info)"
  have d: "traceReports s (snd ?d) False False"
    using decodeToCandidate_traced [of hw ?s1] r
    by (intro traceReports_quiet) (simp add: readyPlan_def tracedPlan_def)
  have "startReports s (startDecoded (snd ?d) b n m)" for b n m
    using startReports_from [OF d startDecoded_reports [of hw]] r none by simp
  moreover have "traceReports s s False False" by (rule traceReports_quiet) simp
  ultimately show ?thesis using d none by (simp add: startLoaded_def Let_def split_beta)
qed

lemma startup_reports:
  assumes "tracedPlan hw s" and "validPlan s"
  shows "startReports s (config_startup s)"
proof -
  let ?s0 = "setStatus (\<lambda>_. emptyStatus) s"
  have r: "readyPlan hw ?s0" using assms by (simp add: readyPlan_def tracedPlan_def)
  obtain l content info w where l: "the (cs_load (lc_storage s)) (lc_world s)
      (cb_capacity (ws_raw (lc_workspace s))) \<lparr>cli_schemaVersion = 0, cli_payloadSize = 0\<rparr> =
      (l, content, info, w)"
    by (metis prod_cases4)
  let ?s1 = "fillBuffer ?s0 RawBuffer content w"
  have "snd w = snd (lc_world s)"
    using tracedPlan_quiet(6) [of hw s "lc_world s" "cb_capacity (ws_raw (lc_workspace s))"
        "\<lparr>cli_schemaVersion = 0, cli_payloadSize = 0\<rparr>"] assms l by simp
  then have 1: "traceReports s ?s1 False False" by (intro traceReports_quiet) (simp add: logOf_def)
  have ready: "readyPlan hw ?s1" and none: "\<not> cst_hasActiveConfig (lc_status ?s1)"
    using r by (simp_all add: emptyStatus_def)
  note starts = startReports_from [OF 1 useDefaults_reports [OF ready none]] startReports_from [OF 1 startLoaded_reports [OF ready none]]
  show ?thesis
    using l assms(2) starts 1 none by (cases l) (simp_all add: config_startup_def Let_def)
qed

end
