(* ===== verification/StorageProperties.thy ===== *)
theory StorageProperties
  imports StorageRaw
begin

text \<open>
  The properties of the configuration store: opening it after a restart, the round trip of a
  configuration through flash memory, what a torn write can do, which corruptions are always
  noticed, and the two promises of the raw save used by schema migrations.
\<close>

section \<open>Opening the store\<close>

text \<open>
  The service a restarted program makes over the same backend, with a workspace of the same size:
  the constructor followed by \<open>begin\<close>.
\<close>

definition reopened ::
  "'b backend_ops \<Rightarrow> 'b \<Rightarrow> 'b storage_service \<Rightarrow> bytes \<Rightarrow> bool \<times> 'b storage_service" where
  "reopened ops b s buffer =
     storage_begin ops
       (StorageService_new b (ss_namespace s) (ss_slotAKey s) (ss_slotBKey s) (ss_bufferAddress s)
          (Some buffer) (ss_capacity s))
       (ss_payloadSize s) (ss_schemaVersion s) (ss_validator s)"

context blob_frame
begin

lemma refreshStatus_keeps:
  "blobs (ss_backend (refreshStatus ops s)) = blobs (ss_backend s)"
  "same_config s (refreshStatus ops s)"
  "storage_wf s \<Longrightarrow> storage_wf (refreshStatus ops s)"
  "ss_rawBaseForSave (refreshStatus ops s) = ss_rawBaseForSave s"
proof -
  obtain u a b c where u: "read_effect blobs s u"
      "refreshStatus ops s = u\<lparr>ss_hasValidPayload := a, ss_activeSlot := b, ss_activeGeneration := c\<rparr>"
    using refreshStatus_effect [of s] by blast
  note f = read_effect_fields [OF u(1)]
  show "blobs (ss_backend (refreshStatus ops s)) = blobs (ss_backend s)"
    "storage_wf s \<Longrightarrow> storage_wf (refreshStatus ops s)"
    "ss_rawBaseForSave (refreshStatus ops s) = ss_rawBaseForSave s"
    using u(2) f by simp_all
  show "same_config s (refreshStatus ops s)"
    using u(2) read_effect_same_config [OF u(1)] by (simp add: same_config_def)
qed

lemma storage_begin_opens:
  assumes wf: "storage_wf s" and r: "storage_begin ops s n schema validator = (ok, t)"
  shows "storage_wf t \<and> blobs (ss_backend t) = blobs (ss_backend s) \<and>
    ss_rawBaseForSave t = ss_rawBaseForSave s \<and>
    (ok \<longrightarrow> ss_opened t \<and> ss_payloadSize t = n \<and> ss_recordSize t = 24 + n \<and>
       ss_schemaVersion t = schema \<and> ss_validator t = validator \<and>
       ss_slotAKey t = ss_slotAKey s \<and> ss_slotBKey t = ss_slotBKey s \<and>
       ss_capacity t = ss_capacity s \<and> ss_bufferAddress t = ss_bufferAddress s \<and>
       ss_namespace t = ss_namespace s)"
proof -
  obtain conf s1 where c: "configure s n schema validator = (conf, s1)" by fastforce
  have s1: "storage_wf s1" "ss_backend s1 = ss_backend s" "ss_rawBaseForSave s1 = ss_rawBaseForSave s"
    using c wf by (auto simp: configure_def Let_def storage_wf_def SIZE_MAX_def split: if_splits)
  have conf: "s1 = s\<lparr>ss_payloadSize := n, ss_recordSize := 24 + n, ss_schemaVersion := schema,
        ss_validator := validator\<rparr> \<and> ss_buffer s \<noteq> None \<and> 24 + n \<le> ss_capacity s \<and> 0 < n \<and>
        24 + n \<le> SIZE_MAX \<and> validator \<noteq> None \<and> \<not> nullOrEmpty (ss_slotAKey s) \<and>
        \<not> nullOrEmpty (ss_slotBKey s)" if conf
    using c that by (auto simp: configure_def Let_def SIZE_MAX_def split: if_splits)
  obtain ready b where b: "beBegin ops (ss_backend s1) (ss_namespace s1) = (ready, b)" by fastforce
  then have fb: "blobs b = blobs (ss_backend s)" using begin_frame s1(2) by (metis snd_conv)
  show ?thesis
  proof (cases conf)
    case False
    then show ?thesis using r c s1 by (auto simp: storage_begin_def)
  next
    case conf': True
    note cf = conf [OF conf']
    show ?thesis
    proof (cases "ss_opened s1")
      case True
      then have "t = refreshStatus ops s1" "ok" using r c conf' by (simp_all add: storage_begin_def)
      then show ?thesis
        using refreshStatus_keeps [of s1] s1 cf True by (simp add: same_config_def)
    next
      case False
      show ?thesis
      proof (cases ready)
        case nr: False
        then show ?thesis
          using r c conf' False b fb s1 cf by (auto simp: storage_begin_def storage_wf_def)
      next
        case rd: True
        let ?s2 = "s1\<lparr>ss_backend := b, ss_opened := True\<rparr>"
        have t: "t = refreshStatus ops ?s2" "ok"
          using r c conf' False b rd by (simp_all add: storage_begin_def)
        have "storage_wf ?s2" using cf wf by (auto simp: storage_wf_def)
        then show ?thesis
          using refreshStatus_keeps [of ?s2] t fb s1 cf by (simp add: same_config_def)
      qed
    qed
  qed
qed

lemma reopened_same:
  assumes wf: "storage_wf s" "ss_opened s" and len: "length buffer = ss_capacity s"
    and r: "reopened ops b s buffer = (True, t)"
  shows "storage_wf t \<and> same_config s t \<and> blobs (ss_backend t) = blobs b \<and> \<not> ss_rawBaseForSave t"
proof -
  let ?new = "StorageService_new b (ss_namespace s) (ss_slotAKey s) (ss_slotBKey s)
    (ss_bufferAddress s) (Some buffer) (ss_capacity s)"
  have "storage_wf ?new" using len by (auto intro: storage_wf_new)
  note o = storage_begin_opens [OF this r [unfolded reopened_def]]
  have "ss_recordSize s = 24 + ss_payloadSize s" using wf by (simp add: storage_wf_def)
  then show ?thesis
    using o wf by (simp add: same_config_def) (simp add: StorageService_new_def)
qed

end

section \<open>A small service for concrete runs\<close>

definition demoValidator :: payload_validator where
  "demoValidator payload n \<longleftrightarrow> n = 2 \<and> payload \<noteq> [] \<and> hd payload < 10"

abbreviation kvBackend :: "(cstr \<Rightarrow> bytes) backend_ops" where
  "kvBackend \<equiv> preferencesStorageBackend kvPreferences"

definition demoService :: "(cstr \<Rightarrow> bytes) storage_service" where
  "demoService = snd (storage_begin kvBackend
     (StorageService_new (\<lambda>_. []) (Some ''n'') (Some ''a'') (Some ''b'') 0 (Some (replicate 32 0)) 32)
     2 1 (Some demoValidator))"

lemmas demo_simps =
  storage_begin_def configure_def StorageService_new_def nullOrEmpty_def preferencesStorageBackend_def
  kvPreferences_def refreshStatus_def selectLatest_def readSlot_def slotKey_def UINT32_MAX_def
  SIZE_MAX_def SLOT_A_def SLOT_B_def NO_SLOT_def

lemma demoService_eval:
  "demoService = \<lparr>ss_backend = (\<lambda>_. []), ss_namespace = Some ''n'', ss_slotAKey = Some ''a'',
     ss_slotBKey = Some ''b'', ss_bufferAddress = 0, ss_buffer = Some (replicate 32 0),
     ss_capacity = 32, ss_payloadSize = 2, ss_recordSize = 26, ss_schemaVersion = 1,
     ss_validator = Some demoValidator, ss_opened = True, ss_hasValidPayload = False,
     ss_activeSlot = NO_SLOT, ss_activeGeneration = 0, ss_lastLoadResult = NotAttempted,
     ss_lastSaveResult = NotAttempted, ss_rawBaseValid = False, ss_rawBaseSlot = NO_SLOT,
     ss_rawBaseGeneration = 0, ss_rawBaseForSave = False\<rparr>"
  by (simp add: demoService_def demo_simps Let_def)

lemma demoService_wf: "storage_wf demoService" "ss_opened demoService"
  by (simp_all add: demoService_eval storage_wf_def nullOrEmpty_def SIZE_MAX_def)

lemma demoService_accepts:
  "x < 10 \<Longrightarrow> saveAccepted demoService 1000 [x, y]"
  using demoService_wf
  by (simp add: saveAccepted_def demoService_eval payloadOverlapsWorkspace_def runValidator_def
      demoValidator_def)

lemma storedConfig_same:
  assumes "same_config s t" "blobs (ss_backend t) = blobs (ss_backend s)"
  shows "storedConfig blobs t = storedConfig blobs s"
  using slotView_same [OF assms(1), of blobs] assms(2) by (simp add: storedConfig_def)

context blob_reads
begin

text \<open>After a restart the service loads what the old one would have loaded.\<close>

lemma load_after_restart:
  assumes wf: "storage_wf s" "ss_opened s" and t: "same_config s t"
    and len: "length buffer = ss_capacity s"
    and o: "reopened ops (ss_backend t) s buffer = (True, u)"
    and l: "storage_load ops u True = (ok, out, v)"
  shows "ok = (storedConfig blobs t \<noteq> None)"
    "out = map_option (snd \<circ> snd) (storedConfig blobs t)"
proof -
  note u = reopened_same [OF wf len o]
  have "same_config t u" using t u by (simp add: same_config_def)
  then have "storedConfig blobs u = storedConfig blobs t"
    by (rule storedConfig_same) (use u in simp)
  moreover have "ss_opened u" using u wf by (simp add: same_config_def)
  ultimately show "ok = (storedConfig blobs t \<noteq> None)"
    "out = map_option (snd \<circ> snd) (storedConfig blobs t)"
    using load_refines [OF _ _ l] u by (cases "storedConfig blobs t"; auto)+
qed

lemma torn_save_restart:
  assumes acc: "saveAccepted s address pl"
    and keys: "ss_slotAKey s \<noteq> ss_slotBKey s" and plain: "\<not> ss_rawBaseForSave s"
    and st: "storedConfig blobs s = Some (sl, g, p)"
    and r: "storage_save ops s (Some (address, pl)) = (ok, t)"
    and len: "length buffer = ss_capacity s"
    and o: "reopened ops (ss_backend t) s buffer = (True, u)"
    and l: "storage_load ops u True = (ok', out, v)"
  shows "ok' \<and> (out = Some p \<or> (\<exists>g' q. slotView blobs t (otherSlot sl) = Some (g', q) \<and> out = Some q))"
proof -
  have wf: "storage_wf s" "ss_opened s" using acc by (simp_all add: saveAccepted_def)
  have sc: "same_config s t" using save_effect [OF acc r] by (simp add: write_effect_def)
  have kept: "slotView blobs t sl = Some (g, p)"
    by (rule save_keeps_current [OF acc r keys plain st])
  have sl: "sl = SLOT_A \<or> sl = SLOT_B"
    using newestOf_cases st unfolding storedConfig_def by fastforce
  note ld = load_after_restart [OF wf sc len o l]
  show ?thesis
    using ld kept sl
    by (cases "slotView blobs t (otherSlot sl)") (auto simp: storedConfig_def)
qed

end

section \<open>Properties\<close>

text \<open>
  C4: A configuration accepted by \<open>save\<close> comes back from \<open>load\<close> after a restart of the program: over
  the \<open>Preferences\<close> adapter and a library that behaves as documented, a save whose arguments and
  payload pass the checks succeeds, and a new service opened on the same flash memory with the
  same configuration and any workspace content loads exactly the saved payload.
\<close>

theorem save_restart_load:
  assumes "preferences_library prefs entries"
    and "saveAccepted s address pl" and "ss_slotAKey s \<noteq> ss_slotBKey s" and "rawBaseOk entries s"
    and "storage_save (preferencesStorageBackend prefs) s (Some (address, pl)) = (ok, t)"
    and "length buffer = ss_capacity s"
    and "reopened (preferencesStorageBackend prefs) (ss_backend t) s buffer = (True, u)"
    and "storage_load (preferencesStorageBackend prefs) u True = (ok', out, v)"
  shows "ok \<and> ok' \<and> out = Some (take (ss_payloadSize s) pl)"
proof -
  have wf: "storage_wf s" "ss_opened s" using assms(2) by (simp_all add: saveAccepted_def)
  note saved = blob_store.save_refines [OF preferences_library.adapter_store [OF assms(1)] assms(2,5,3,4)]
  have sc: "same_config s t" using saved by simp
  show ?thesis
    using saved blob_reads.load_after_restart [OF preferences_library.adapter_reads [OF assms(1)] wf sc assms(6,7,8)]
    by auto
qed

lemma reopened_demo:
  assumes "length buffer = 32"
  shows "fst (reopened kvBackend b demoService buffer) = True"
  using assms
  by (simp add: reopened_def demoService_eval storage_begin_def configure_def StorageService_new_def
      nullOrEmpty_def UINT32_MAX_def SIZE_MAX_def preferencesStorageBackend_def kvPreferences_def)

lemma save_restart_load_witness:
  "(let t = snd (storage_save kvBackend demoService (Some (1000, [7, 1])));
        u = snd (reopened kvBackend (ss_backend t) demoService (replicate 32 0xFF))
    in fst (snd (storage_load kvBackend u True))) = Some [7, 1]"
proof -
  define t where "t = snd (storage_save kvBackend demoService (Some (1000, [7, 1])))"
  define u where "u = snd (reopened kvBackend (ss_backend t) demoService (replicate 32 0xFF))"
  define l where "l = storage_load kvBackend u True"
  have "fst (snd l) = Some (take (ss_payloadSize demoService) [7, 1])"
    using save_restart_load [OF kvPrefs.preferences_library_axioms demoService_accepts [of 7 1], of
        "fst (storage_save kvBackend demoService (Some (1000, [7, 1])))" t "replicate 32 0xFF" u
        "fst l" "fst (snd l)" "snd (snd l)"]
      reopened_demo [of "replicate 32 0xFF" "ss_backend t"]
    by (simp add: t_def u_def l_def rawBaseOk_def demoService_eval prod_eq_iff)
  then show ?thesis by (simp add: t_def u_def l_def Let_def demoService_eval)
qed

text \<open>
  C7: A save never loses the configuration that was there, whatever its write did. Over a backend
  whose reads are right but whose writes may leave anything in the slot they address (power
  failure, wear), after a save and a restart a load still succeeds, and yields the old payload or
  one that was found complete in the other slot: right length, both CRCs, accepted by the validator.
\<close>

theorem torn_save_keeps_configuration:
  assumes "blob_reads ops blobs"
    and "saveAccepted s address pl" and "ss_slotAKey s \<noteq> ss_slotBKey s" and "\<not> ss_rawBaseForSave s"
    and "storedConfig blobs s = Some (sl, g, p)"
    and "storage_save ops s (Some (address, pl)) = (ok, t)"
    and "length buffer = ss_capacity s"
    and "reopened ops (ss_backend t) s buffer = (True, u)"
    and "storage_load ops u True = (ok', out, v)"
  shows "ok' \<and> (out = Some p \<or> (\<exists>g' q. slotView blobs t (otherSlot sl) = Some (g', q) \<and> out = Some q))"
  using blob_reads.torn_save_restart [OF assms] .

definition demoSaved :: "(cstr \<Rightarrow> bytes) storage_service" where
  "demoSaved = snd (saveCurrentRaw kvBackend demoService 1 (Some (1000, [7, 1])) 2)"

lemma demoService_synced: "rawSynced (\<lambda>p. p) demoService"
  by (simp add: demoService_eval rawSynced_def rawStored_def rawView_def validRawBlob_def)

lemma demoSaved_facts:
  "storage_wf demoSaved \<and> same_config demoService demoSaved \<and> \<not> ss_rawBaseForSave demoSaved \<and>
   rawSynced (\<lambda>p. p) demoSaved \<and>
   (ss_lastSaveResult demoSaved = Success \<or> ss_lastSaveResult demoSaved = NoChange) \<and>
   (\<exists>sl g. rawStored (\<lambda>p. p) demoSaved = Some (sl, 1, g, [7, 1])) \<and>
   (\<exists>sl g. storedConfig (\<lambda>p. p) demoSaved = Some (sl, g, [7, 1]))"
proof -
  let ?s = "forRawSave demoService"
  note st = kvPrefs.adapter_store
  obtain ok t where r: "storage_save kvBackend ?s (Some (1000, [7, 1])) = (ok, t)" by fastforce
  have sizes: "ss_schemaVersion demoService = 1" "ss_payloadSize demoService = 2"
      "ss_slotAKey demoService \<noteq> ss_slotBKey demoService"
    by (simp_all add: demoService_eval)
  have acc: "saveAccepted demoService 1000 [7, 1]" by (rule demoService_accepts) simp
  have d: "demoSaved = t\<lparr>ss_rawBaseForSave := False\<rparr>"
    using saveCurrentRaw_accepted [OF acc, of kvBackend] r sizes by (simp add: demoSaved_def)
  obtain ok' where "saveCurrentRaw kvBackend demoService (ss_schemaVersion demoService)
      (Some (1000, [7, 1])) (ss_payloadSize demoService) = (ok', demoSaved)"
    using sizes by (metis demoSaved_def prod.collapse)
  note raw = blob_store.saveCurrentRaw_refines [OF st acc demoService_synced sizes(3) this]
  have "rawBaseOk (\<lambda>p. p) ?s" by (rule rawSynced_base [OF demoService_wf demoService_synced])
  then have saved: "map_option (snd \<circ> snd) (storedConfig (\<lambda>p. p) t) = Some [7, 1] \<and>
      (ss_lastSaveResult t = Success \<or> ss_lastSaveResult t = NoChange)"
    using blob_store.save_refines [OF st _ r] acc sizes by simp
  then have "\<exists>sl g. storedConfig (\<lambda>p. p) demoSaved = Some (sl, g, [7, 1])"
    unfolding d by auto
  moreover have "\<exists>sl g. rawStored (\<lambda>p. p) demoSaved = Some (sl, 1, g, [7, 1])"
    using raw sizes by auto
  moreover have "\<not> ss_rawBaseForSave demoSaved" unfolding d by simp
  moreover have "ss_lastSaveResult demoSaved = Success \<or> ss_lastSaveResult demoSaved = NoChange"
    unfolding d using saved by simp
  ultimately show ?thesis using raw by simp
qed

lemma demoSaved_accepts:
  assumes "x < 10" shows "saveAccepted demoSaved 1000 [x, y]"
proof -
  have "same_config demoService demoSaved" "storage_wf demoSaved" using demoSaved_facts by simp_all
  then show ?thesis
    using demoService_accepts [OF assms, of y]
    by (auto simp: saveAccepted_def same_config_def runValidator_def demoService_eval
        payloadOverlapsWorkspace_def)
qed

lemma torn_save_keeps_configuration_witness:
  "(let ops = preferencesStorageBackend tornPreferences;
        t = snd (storage_save ops demoSaved (Some (1000, [8, 1])));
        l = storage_load ops (snd (reopened ops (ss_backend t) demoSaved (replicate 32 0xFF))) True
    in fst l \<and> (fst (snd l) = Some [7, 1] \<or>
        (\<exists>sl g q. slotView (\<lambda>p. p) t sl = Some (g, q) \<and> fst (snd l) = Some q)))"
proof -
  let ?ops = "preferencesStorageBackend tornPreferences"
  obtain sl g where st: "storedConfig (\<lambda>p. p) demoSaved = Some (sl, g, [7, 1])"
    using demoSaved_facts by auto
  define t where "t = snd (storage_save ?ops demoSaved (Some (1000, [8, 1])))"
  define o2 where "o2 = reopened ?ops (ss_backend t) demoSaved (replicate 32 0xFF)"
  define l where "l = storage_load ?ops (snd o2) True"
  have f: "ss_slotAKey demoSaved \<noteq> ss_slotBKey demoSaved" "ss_capacity demoSaved = 32"
      "\<not> ss_rawBaseForSave demoSaved"
    using demoSaved_facts by (simp_all add: same_config_def demoService_eval)
  have "fst o2"
    using demoSaved_facts
    by (simp add: o2_def reopened_def storage_begin_def configure_def StorageService_new_def
        nullOrEmpty_def UINT32_MAX_def SIZE_MAX_def preferencesStorageBackend_def same_config_def
        kvPreferences_def tornPreferences_def demoService_eval)
  then have "fst l \<and> (fst (snd l) = Some [7, 1] \<or>
      (\<exists>g' q. slotView (\<lambda>p. p) t (otherSlot sl) = Some (g', q) \<and> fst (snd l) = Some q))"
    using torn_save_keeps_configuration [OF tornPrefs.reads_adapter demoSaved_accepts [of 8 1]
        f(1,3) st, of "fst (storage_save ?ops demoSaved (Some (1000, [8, 1])))" t "replicate 32 0xFF"
        "snd o2" "fst l" "fst (snd l)" "snd (snd l)"] f(2)
    by (simp add: t_def o2_def l_def prod_eq_iff)
  then show ?thesis unfolding t_def o2_def l_def Let_def by blast
qed

text \<open>
  C13: Every corruption of a stored record that is confined to four consecutive bytes is noticed,
  wherever it is: in the header, in the CRC fields themselves, in the payload or across their
  borders. A record that \<open>readSlot\<close> accepts is no longer accepted once such a run of bytes differs.
\<close>

theorem corrupted_record_rejected:
  assumes valid: "validBlob s (p @ xs @ q)" and payload: "ss_recordSize s = 24 + ss_payloadSize s"
    and burst: "length xs = length ys" "length xs \<le> 4" "xs \<noteq> ys"
  shows "\<not> validBlob s (p @ ys @ q)"
proof
  assume valid': "validBlob s (p @ ys @ q)"
  let ?a = "p @ xs @ q" and ?b = "p @ ys @ q"
  let ?n = "ss_payloadSize s"
  have len: "length ?a = 24 + ?n" "length ?b = 24 + ?n"
    using valid valid' payload by (simp_all add: validBlob_def)
  have crcs: "headerCrcOk ?a" "headerCrcOk ?b" "payloadCrcOk ?a ?n" "payloadCrcOk ?b ?n"
    using valid valid' by (simp_all add: validBlob_def slotRecordOk_def)
  have "crc32 (Some ?a) 24 = crc32 (Some ?b) 24"
    using crc32_residue [of 20 ?a] crc32_residue [of 20 ?b] crcs(1,2) len by (simp add: headerCrcOk_def)
  then have head: "take 24 ?a = take 24 ?b"
    using crc32_burst_prefix [OF burst(1,2)] by blast
  have "readUint32 ?a 16 = readUint32 ?b 16"
  proof (rule readUint32_cong)
    have r: "range_at z 16 4 = range_at (take 24 z) 16 4" for z :: bytes
      by (simp add: range_at_def drop_take)
    show "range_at ?a 16 4 = range_at ?b 16 4"
      unfolding r [of ?a] r [of ?b] by (simp only: head)
  qed (simp_all only: len)
  then have "crc32 (Some (drop 24 ?a)) ?n = crc32 (Some (drop 24 ?b)) ?n"
    using crcs(3,4) by (simp add: payloadCrcOk_def)
  moreover have d: "drop 24 (p @ zs @ q) =
      drop 24 p @ drop (24 - length p) zs @ drop (24 - length p - length xs) q"
    if "length zs = length xs" for zs using that by simp
  ultimately have "take ?n (drop 24 ?a) = take ?n (drop 24 ?b)"
    using crc32_burst_prefix [of "drop (24 - length p) xs" "drop (24 - length p) ys" ?n "drop 24 p"
        "drop (24 - length p - length xs) q"] burst(1,2)
    unfolding d [OF refl] d [OF burst(1) [symmetric]] by fastforce
  then have "drop 24 ?a = drop 24 ?b" using len by simp
  with head have "?a = ?b" by (metis append_take_drop_id)
  then show False using burst(1,3) by simp
qed

lemma corrupted_record_rejected_witness:
  "(let record = take 26 (buildRecord demoService [7, 1] 1)
    in validBlob demoService record \<and> \<not> validBlob demoService (record[24 := 8]))"
proof -
  let ?r = "buildRecord demoService [7, 1] 1"
  have acc: "saveAccepted demoService 1000 [7, 1]" by (rule demoService_accepts) simp
  have sizes: "ss_payloadSize demoService = 2" "ss_recordSize demoService = 26" "ss_capacity demoService = 32"
    by (simp_all add: demoService_eval)
  note b = buildRecord_ok [OF demoService_wf, of "[7, 1]" 1]
  have ok: "slotRecordOk demoService ?r" "length ?r = 32" "range_at ?r 24 2 = [7, 1]"
    using b acc sizes by (simp_all add: saveAccepted_def)
  have "slotRecordOk demoService (take 26 ?r)"
    using slotRecordOk_cong(1) [of "take 26 ?r" demoService ?r] ok sizes by (simp add: range_at_def)
  then have valid: "validBlob demoService (take 26 ?r)" using ok sizes by (simp add: validBlob_def)
  have split: "take 26 ?r = take 24 ?r @ [7] @ [1]"
    using take_add [of 24 2 ?r] ok(3) by (simp add: range_at_def)
  have "(take 26 ?r)[24 := 8] = take 24 ?r @ [8] @ [1]"
    unfolding split using ok(2) by (simp add: list_update_append)
  then show ?thesis
    using corrupted_record_rejected [of demoService "take 24 ?r" "[7]" "[1]" "[8]"] valid split sizes
    by (simp add: Let_def)
qed

text \<open>
  C14: A raw save, the write of a schema migration, never overwrites the record it came from. When
  the raw base is the newest intact record (as \<open>loadLatestRaw\<close> leaves it), then after
  \<open>saveCurrentRaw\<close>, over a backend whose writes may do anything to their slot, that record is
  still there, with its schema version, generation and payload.
\<close>

theorem raw_save_keeps_source:
  assumes "blob_reads ops blobs"
    and "saveAccepted s address pl" and "rawSynced blobs s" and "ss_slotAKey s \<noteq> ss_slotBKey s"
    and "saveCurrentRaw ops s (ss_schemaVersion s) (Some (address, pl)) (ss_payloadSize s) = (ok, t)"
    and "rawStored blobs s = Some (sl, v, g, p)"
  shows "rawView blobs t sl = Some (v, g, p)"
  using blob_reads.saveCurrentRaw_keeps_source [OF assms] .

lemma raw_save_keeps_source_witness:
  "(let t = snd (saveCurrentRaw (preferencesStorageBackend tornPreferences) demoSaved 1
              (Some (1000, [8, 1])) 2)
    in \<exists>sl g. rawView (\<lambda>p. p) t sl = Some (1, g, [7, 1]))"
proof -
  let ?ops = "preferencesStorageBackend tornPreferences"
  have f: "ss_slotAKey demoSaved \<noteq> ss_slotBKey demoSaved" "ss_payloadSize demoSaved = 2"
      "ss_schemaVersion demoSaved = 1"
    using demoSaved_facts by (simp_all add: same_config_def demoService_eval)
  obtain sl g where src: "rawStored (\<lambda>p. p) demoSaved = Some (sl, 1, g, [7, 1])"
    using demoSaved_facts by auto
  have sync: "rawSynced (\<lambda>p. p) demoSaved" using demoSaved_facts by simp
  have acc: "saveAccepted demoSaved 1000 [8, 1]" by (rule demoSaved_accepts) simp
  show ?thesis
    using raw_save_keeps_source [OF tornPrefs.reads_adapter acc sync f(1) _ src] f(2,3)
    by (metis prod.collapse)
qed

text \<open>
  After an accepted raw save the newest intact record of the store, which the next
  \<open>loadLatestRaw\<close> returns, is the saved payload under the current schema version, and the service
  is again in the state in which raw saves are safe.
\<close>

theorem raw_save_load:
  assumes "preferences_library prefs entries"
    and "saveAccepted s address pl" and "rawSynced entries s" and "ss_slotAKey s \<noteq> ss_slotBKey s"
    and "saveCurrentRaw (preferencesStorageBackend prefs) s (ss_schemaVersion s) (Some (address, pl))
      (ss_payloadSize s) = (ok, t)"
    and "loadLatestRaw (preferencesStorageBackend prefs) t True cap = (rec, out, u)"
    and "ss_payloadSize s \<le> cap"
  shows "ok \<and> rawSynced entries t \<and> out = Some (take (ss_payloadSize s) pl) \<and>
    raw_result rec = RawSuccess \<and> raw_schemaVersion rec = ss_schemaVersion s"
proof -
  note saved = blob_store.saveCurrentRaw_refines
    [OF preferences_library.adapter_store [OF assms(1)] assms(2-5)]
  have wf: "storage_wf t" using saved by simp
  have "ss_opened t"
    using saved assms(2) by (simp add: same_config_def saveAccepted_def)
  note ld = blob_reads.loadLatestRaw_view
    [OF preferences_library.adapter_reads [OF assms(1)] wf this assms(6)]
  show ?thesis using saved ld assms(7) by (auto split: if_splits)
qed

lemma raw_save_load_witness:
  "fst (snd (loadLatestRaw kvBackend demoSaved True 2)) = Some [7, 1]"
proof -
  have f: "ss_slotAKey demoService \<noteq> ss_slotBKey demoService" "ss_payloadSize demoService = 2"
      "ss_schemaVersion demoService = 1"
    by (simp_all add: demoService_eval)
  have acc: "saveAccepted demoService 1000 [7, 1]" by (rule demoService_accepts) simp
  obtain ok where r: "saveCurrentRaw kvBackend demoService (ss_schemaVersion demoService)
      (Some (1000, [7, 1])) (ss_payloadSize demoService) = (ok, demoSaved)"
    using f by (metis demoSaved_def prod.collapse)
  obtain rec out u where l: "loadLatestRaw kvBackend demoSaved True 2 = (rec, out, u)"
    by (metis prod_cases3)
  show ?thesis
    using raw_save_load [OF kvPrefs.preferences_library_axioms acc demoService_synced f(1) r l] f l
    by simp
qed

end
