(* ===== verification/ConfigProperties.thy ===== *)
theory ConfigProperties
  imports ConfigTrace StorageProperties
begin

text \<open>
  The properties of the configuration lifecycle: the status contract of every call sequence, the
  order of checks and activations, the migration chain, and persistence through the storage service.
\<close>

section \<open>Call sequences\<close>

datatype config_call = CallStartup | CallUpdate "bytes option" nat

fun runCall :: "'w lifecycle \<Rightarrow> config_call \<Rightarrow> 'w lifecycle" where
  "runCall s CallStartup = snd (config_startup s)"
| "runCall s (CallUpdate proposal n) = snd (config_update s proposal n)"

definition runCalls :: "'w lifecycle \<Rightarrow> config_call list \<Rightarrow> 'w lifecycle" where
  "runCalls = foldl runCall"

lemma useDefaults_frames [simp]:
  "lc_adapter (snd (useDefaults s q)) = lc_adapter s" "lc_storage (snd (useDefaults s q)) = lc_storage s"
  by (simp_all add: useDefaults_def config_fail_def Let_def split_beta)

lemma startDecoded_frames [simp]:
  "lc_adapter (snd (startDecoded s b n m)) = lc_adapter s"
  "lc_storage (snd (startDecoded s b n m)) = lc_storage s"
  by (simp_all add: startDecoded_def config_fail_def Let_def split_beta)

lemma startLoaded_frames [simp]:
  "lc_adapter (snd (startLoaded s info)) = lc_adapter s"
  "lc_storage (snd (startLoaded s info)) = lc_storage s"
  by (simp_all add: startLoaded_def config_fail_def Let_def split_beta)

lemma startup_frames [simp]:
  "lc_adapter (snd (config_startup s)) = lc_adapter s"
  "lc_storage (snd (config_startup s)) = lc_storage s"
  by (simp_all add: config_startup_def config_fail_def Let_def split_beta split: ConfigLoadResult.split)

lemma updateValidated_frames [simp]:
  "lc_adapter (snd (updateValidated s n)) = lc_adapter s"
  "lc_storage (snd (updateValidated s n)) = lc_storage s"
  by (simp_all add: updateValidated_def Let_def split_beta)

lemma update_frames [simp]:
  "lc_adapter (snd (config_update s p n)) = lc_adapter s"
  "lc_storage (snd (config_update s p n)) = lc_storage s"
  by (simp_all add: config_update_def config_fail_def Let_def split_beta split: option.split)

lemma runCalls_frames [simp]:
  "lc_adapter (runCalls s calls) = lc_adapter s \<and> lc_storage (runCalls s calls) = lc_storage s"
proof (induction calls arbitrary: s)
  case (Cons c calls)
  then show ?case by (cases c) (simp_all add: runCalls_def)
qed (simp add: runCalls_def)

lemma ConfigLifecycle_new_simps [simp]:
  "lc_adapter (ConfigLifecycle_new storage adapter workspace allowDefaults mem w) = adapter"
  "lc_storage (ConfigLifecycle_new storage adapter workspace allowDefaults mem w) = storage"
  by (simp_all add: ConfigLifecycle_new_def)

section \<open>The migration chain\<close>

text \<open>A pure migration step: version and payload to the next payload.\<close>

fun migrateChain :: "(u16 \<Rightarrow> bytes \<Rightarrow> bytes) \<Rightarrow> u16 \<Rightarrow> nat \<Rightarrow> bytes \<Rightarrow> bytes" where
  "migrateChain m v 0 p = p"
| "migrateChain m v (Suc k) p = migrateChain m (v + 1) k (m v p)"

definition pureStep :: "(u16 \<Rightarrow> bytes \<Rightarrow> bytes) \<Rightarrow> 'w \<Rightarrow> u16 \<Rightarrow> bytes \<Rightarrow> nat \<Rightarrow> nat \<Rightarrow> 'w fill_result" where
  "pureStep m w v input n cap =
     (let q = m v (take n input)
      in if length q \<le> cap then (True, q, length q, w) else (False, [], 0, w))"

text \<open>Every payload of the chain is nonempty and fits both candidate buffers.\<close>

definition chainFits :: "(u16 \<Rightarrow> bytes \<Rightarrow> bytes) \<Rightarrow> u16 \<Rightarrow> nat \<Rightarrow> bytes \<Rightarrow> nat \<Rightarrow> bool" where
  "chainFits m v k p cap \<longleftrightarrow>
     (\<forall>i \<le> k. 0 < length (migrateChain m v i p) \<and> length (migrateChain m v i p) \<le> cap)"

lemma chainFits_Suc:
  "chainFits m v (Suc k) p cap \<longleftrightarrow> 0 < length p \<and> length p \<le> cap \<and> chainFits m (v + 1) k (m v p) cap"
proof -
  have "(\<forall>i \<le> Suc k. P i) \<longleftrightarrow> P 0 \<and> (\<forall>i \<le> k. P (Suc i))" for P
    by (metis Suc_le_mono le0 not0_implies_Suc)
  then show ?thesis by (simp add: chainFits_def)
qed

lemma migrateLoop_pure:
  assumes "ad_migrateStep (lc_adapter s) = Some (pureStep m)"
    and "unat (ad_currentSchemaVersion (lc_adapter s)) = unat v + k"
    and "unat steps + k \<le> unat (ad_maximumMigrationSteps (lc_adapter s))"
    and "cap \<le> capacityOf s cur" "cap \<le> capacityOf s nxt" "cur \<noteq> nxt"
    and "chainFits m v k (take n (lc_mem s cur)) cap" "n \<le> length (lc_mem s cur)"
  shows "\<exists>b n' t. migrateLoop s v steps cur nxt n g = ((True, b, n', g \<or> k \<noteq> 0), t) \<and>
      take n' (lc_mem t b) = migrateChain m v k (take n (lc_mem s cur)) \<and> n' \<le> length (lc_mem t b)"
  using assms
proof (induction k arbitrary: s v steps cur nxt n g)
  case 0
  then have "v = ad_currentSchemaVersion (lc_adapter s)" by (simp add: word_unat_eq_iff)
  with 0 show ?case by (subst migrateLoop.simps) simp
next
  case (Suc k)
  let ?c = "ad_currentSchemaVersion (lc_adapter s)"
  let ?p = "take n (lc_mem s cur)"
  let ?q = "m v ?p"
  have lt: "v < ?c" using Suc.prems(2) by (simp add: word_less_nat_alt)
  have st: "steps < ad_maximumMigrationSteps (lc_adapter s)"
    using Suc.prems(3) by (simp add: word_less_nat_alt)
  have st': "(ad_maximumMigrationSteps (lc_adapter s) \<le> steps) = False" using st leD by blast
  have fits: "chainFits m (v + 1) k ?q cap" using Suc.prems(7) by (simp add: chainFits_Suc)
  then have q: "0 < length ?q" "length ?q \<le> cap" by (auto simp: chainFits_def dest: spec [of _ 0])
  let ?s1 = "fillBuffer s nxt ?q (lc_world s)"
  have mem: "take (length ?q) (lc_mem ?s1 nxt) = ?q" "length ?q \<le> length (lc_mem ?s1 nxt)"
    by (simp_all add: fillBuffer_def write_at_def)
  have step: "migrateLoop s v steps cur nxt n g = migrateLoop ?s1 (v + 1) (steps + 1) nxt cur (length ?q) True"
    using lt Suc.prems(1,4,5) q
    by (subst migrateLoop.simps) (simp add: st' pureStep_def validBufferResult_def Let_def linorder_not_le)
  have "\<exists>b n' t. migrateLoop ?s1 (v + 1) (steps + 1) nxt cur (length ?q) True = ((True, b, n', True \<or> k \<noteq> 0), t) \<and>
      take n' (lc_mem t b) = migrateChain m (v + 1) k (take (length ?q) (lc_mem ?s1 nxt)) \<and>
      n' \<le> length (lc_mem t b)"
    using Suc.prems lt st fits mem
    by (intro Suc.IH) (simp_all add: unat_Suc_less)
  then show ?case unfolding step mem by simp
qed

section \<open>Properties\<close>

text \<open>
  After any sequence of startups and updates, with any callbacks, the status flags mean what
  they say: \<open>desiredActiveAligned\<close> only if a configuration is active and stored under the current
  schema and no restart or recovery is pending; an active configuration has the current schema and
  a source; \<open>recoveryRequired\<close> implies \<open>degraded\<close>.
\<close>

theorem config_status_invariant:
  "statusOk (ad_currentSchemaVersion adapter)
     (lc_status (runCalls (ConfigLifecycle_new storage adapter workspace allowDefaults mem w) calls))"
proof (induction calls rule: rev_induct)
  case Nil
  show ?case by (simp add: runCalls_def ConfigLifecycle_new_def statusOk_def emptyStatus_def)
next
  case (snoc call calls)
  let ?s = "runCalls (ConfigLifecycle_new storage adapter workspace allowDefaults mem w) calls"
  have "statusOk (ad_currentSchemaVersion adapter) (lc_status (runCall ?s call))"
    using snoc.IH startup_status [of ?s] update_status [of ?s] by (cases call) simp_all
  then show ?case by (simp add: runCalls_def)
qed

lemma startLoaded_result: "fst (startLoaded s info) \<noteq> OpInvalidArgument"
  by (simp add: startLoaded_def startDecoded_def Let_def split_beta)

lemma invalid_argument_degraded:
  assumes "validPlan s" and "fst (config_startup s) = OpInvalidArgument"
  shows "cst_degraded (lc_status (snd (config_startup s)))"
  using assms startLoaded_result
  by (auto simp: config_startup_def useDefaults_def applyAndCommit_simps Let_def split_beta
      split: ConfigLoadResult.splits if_splits)

text \<open>
  C27: The status after \<open>startup\<close> is what the start did to the application. After any sequence of earlier calls,
  with any callbacks, let the trace show the calls of a start. Then a configuration is active exactly if the start
  committed one, and the result is \<open>ApplyFailed\<close> exactly if an \<open>apply\<close> failed; the status is degraded exactly
  after a valid plan without a success (stored, migrated or default configuration active and saved), and recovery is
  required exactly then, unless only the save failed; desired and active configuration are aligned exactly after a
  success, with the source the result names.
\<close>

theorem startup_contract:
  "let s = runCalls (ConfigLifecycle_new (tracedStorage storage) (tracedAdapter adapter) workspace allowDefaults mem (w, [])) calls;
       (r, t) = config_startup s; st = lc_status t; events = drop (length (logOf s)) (logOf t)
   in startResultOk r t \<and>
      (cst_hasActiveConfig st \<longleftrightarrow> list_ex commits events) \<and>
      (r = ApplyFailed \<longleftrightarrow> list_ex applyFails events) \<and>
      (cst_degraded st \<longleftrightarrow> validPlan s \<and> r \<notin> {OpSuccess, DefaultsApplied, Migrated})"
proof -
  define s where "s = runCalls (ConfigLifecycle_new (tracedStorage storage) (tracedAdapter adapter) workspace allowDefaults mem (w, [])) calls"
  obtain r t where rt: "config_startup s = (r, t)" by fastforce
  have plan: "tracedPlan (ad_validateHardware adapter \<noteq> None) s" by (auto simp: tracedPlan_def s_def)
  have ok: "startResultOk r t" using startup_status [of s] rt by simp
  have "startReports s (r, t) \<and> (cst_degraded (lc_status t) \<longleftrightarrow> validPlan s \<and> r \<notin> {OpSuccess, DefaultsApplied, Migrated})"
  proof (cases "validPlan s")
    case True
    then have "startReports s (r, t)" using startup_reports [OF plan] rt by simp
    moreover have "r = OpInvalidArgument \<Longrightarrow> cst_degraded (lc_status t)"
      using invalid_argument_degraded [OF True] rt by simp
    then have "cst_degraded (lc_status t) \<longleftrightarrow> r \<notin> {OpSuccess, DefaultsApplied, Migrated}"
      using ok unfolding startResultOk_def by (cases "r = OpInvalidArgument") blast+
    ultimately show ?thesis using True by blast
  next
    case False
    then have "r = OpInvalidArgument" "logOf t = logOf s" "lc_status t = emptyStatus\<lparr>cst_lastResult := OpInvalidArgument\<rparr>"
      using rt by (auto simp: config_startup_def config_fail_def Let_def)
    then show ?thesis using False by (simp add: startReports_def traceReports_def emptyStatus_def)
  qed
  moreover from this obtain es where "logOf t = logOf s @ es" "list_ex commits es = cst_hasActiveConfig (lc_status t)"
    "list_ex applyFails es = (r = ApplyFailed)" by (auto simp: startReports_def traceReports_def)
  ultimately show ?thesis using ok unfolding s_def [symmetric] rt Let_def prod.case by simp
qed

text \<open>
  C19: No candidate reaches the application unchecked. In the trace of any sequence of startups and
  updates, with any callbacks, every \<open>apply\<close> comes after a successful schema check, semantic check
  and (if the adapter has one) hardware check of the same bytes, and every \<open>commitActive\<close> directly
  after a successful \<open>apply\<close> of the same bytes.
\<close>

theorem config_trace_orderly:
  "orderly (ad_validateHardware adapter \<noteq> None) []
     (logOf (runCalls (ConfigLifecycle_new (tracedStorage storage) (tracedAdapter adapter) workspace
        allowDefaults mem (w, [])) calls))"
proof (induction calls rule: rev_induct)
  case Nil
  show ?case by (simp add: runCalls_def ConfigLifecycle_new_def logOf_def)
next
  case (snoc call calls)
  let ?hw = "ad_validateHardware adapter \<noteq> None"
  let ?s = "runCalls (ConfigLifecycle_new (tracedStorage storage) (tracedAdapter adapter) workspace
        allowDefaults mem (w, [])) calls"
  have "tracedPlan ?hw ?s" by (auto simp: tracedPlan_def)
  then have "safeStep ?hw ?s (runCall ?s call)"
    by (cases call) (simp_all add: startup_safe update_safe)
  then show ?case using safeStep_orderly [OF snoc.IH] by (simp add: runCalls_def)
qed

text \<open>
  C26: The migration loop is the fold of the adapter's step over the missing schema versions. For a
  step that computes \<open>m version payload\<close>, if the payloads fit the candidate buffers and the number of
  missing versions is within \<open>maximumMigrationSteps\<close>, then \<open>decodeToCandidate\<close> succeeds, and the
  buffer it names holds the decoded payload migrated through every version in turn; it reports a
  migration exactly if there was a version to migrate.
\<close>

theorem migration_chain:
  assumes "ad_migrateStep (lc_adapter s) = Some (pureStep m)"
    and "the (ad_decode (lc_adapter s)) (lc_world s) v raw rawSize (capacityOf s CandidateA) =
      (True, p, length p, w)"
    and "unat (ad_currentSchemaVersion (lc_adapter s)) = unat v + k"
    and "k \<le> unat (ad_maximumMigrationSteps (lc_adapter s))"
    and "chainFits m v k p (min (capacityOf s CandidateA) (capacityOf s CandidateB))"
    and "decodeToCandidate s v raw rawSize = ((ok, b, n, migrated), t)"
  shows "ok \<and> take n (lc_mem t b) = migrateChain m v k p \<and> (migrated \<longleftrightarrow> k \<noteq> 0)"
proof -
  let ?s1 = "fillBuffer s CandidateA p w"
  let ?cap = "min (capacityOf s CandidateA) (capacityOf s CandidateB)"
  have mem: "take (length p) (lc_mem ?s1 CandidateA) = p" "length p \<le> length (lc_mem ?s1 CandidateA)"
    by (simp_all add: fillBuffer_def write_at_def)
  have p: "0 < length p" "length p \<le> ?cap"
    using assms(5) by (auto simp: chainFits_def dest: spec [of _ 0])
  then have step: "decodeToCandidate s v raw rawSize = migrateLoop ?s1 v 0 CandidateA CandidateB (length p) False"
    using assms(2) by (simp add: decodeToCandidate_def validBufferResult_def)
  have "\<exists>b n' t. migrateLoop ?s1 v 0 CandidateA CandidateB (length p) False = ((True, b, n', False \<or> k \<noteq> 0), t) \<and>
      take n' (lc_mem t b) = migrateChain m v k (take (length p) (lc_mem ?s1 CandidateA)) \<and> n' \<le> length (lc_mem t b)"
    using assms(1,3-5) mem by (intro migrateLoop_pure [where cap = ?cap]) simp_all
  then show ?thesis using assms(6) unfolding step mem by auto
qed

definition demoMigrate :: "u16 \<Rightarrow> bytes \<Rightarrow> bytes" where
  "demoMigrate v p = p @ [ucast v]"

definition demoAdapter :: "unit ConfigAdapter" where
  "demoAdapter =
     \<lparr>ad_currentSchemaVersion = 3, ad_maximumMigrationSteps = 2,
      ad_buildDefaults = Some (\<lambda>w cap. (True, [0], 1, w)),
      ad_decode = Some (\<lambda>w v raw n cap. (True, take n raw, length (take n raw), w)),
      ad_migrateStep = Some (pureStep demoMigrate),
      ad_validateCurrent = Some (\<lambda>w c n. (True, w)), ad_validateSemantic = Some (\<lambda>w c n. (True, w)),
      ad_validateHardware = None, ad_encodeCurrent = Some (\<lambda>w c n cap. (True, take n c, n, w)),
      ad_apply = Some (\<lambda>w c n. (True, w)), ad_commitActive = Some (\<lambda>w c n. w), ad_classify = None\<rparr>"

definition demoLifecycle :: "unit lifecycle" where
  "demoLifecycle = ConfigLifecycle_new \<lparr>cs_load = None, cs_persist = None\<rparr> demoAdapter
     \<lparr>ws_raw = \<lparr>cb_data = 100, cb_capacity = 8\<rparr>, ws_candidateA = \<lparr>cb_data = 200, cb_capacity = 8\<rparr>,
      ws_candidateB = \<lparr>cb_data = 300, cb_capacity = 8\<rparr>\<rparr> False (\<lambda>_. replicate 8 0) ()"

lemma migration_chain_witness:
  "(let ((ok, b, n, migrated), t) = decodeToCandidate demoLifecycle 1 [42] 1
    in ok \<and> take n (lc_mem t b) = [42, 1, 2] \<and> migrated)"
proof -
  obtain ok b n migrated t where r: "decodeToCandidate demoLifecycle 1 [42] 1 = ((ok, b, n, migrated), t)"
    by (metis prod.collapse)
  let ?k = "Suc (Suc 0)"
  have fits: "chainFits demoMigrate 1 ?k [42] 8"
    by (simp add: chainFits_Suc demoMigrate_def) (simp add: chainFits_def)
  have "ok \<and> take n (lc_mem t b) = migrateChain demoMigrate 1 ?k [42] \<and> (migrated \<longleftrightarrow> ?k \<noteq> 0)"
    by (rule migration_chain [OF _ _ _ _ _ r, of _ _ "()"])
      (use fits in \<open>simp_all add: demoLifecycle_def demoAdapter_def ConfigLifecycle_new_def\<close>)
  then show ?thesis unfolding r by (simp add: demoMigrate_def)
qed

text \<open>A save that reports success was accepted and is stored.\<close>

lemma saveCurrentRaw_success:
  assumes wf: "storage_wf s" and n: "n \<le> length pl"
    and r: "saveCurrentRaw ops s schema (Some (address, pl)) n = (ok, t)"
    and ok: "persistenceSucceeded (mapStoragePersistenceResult (ss_lastSaveResult t))"
  shows "schema = ss_schemaVersion s \<and> n = ss_payloadSize s \<and> saveAccepted s address pl"
proof -
  let ?s = "s\<lparr>ss_rawBaseForSave := ss_rawBaseValid s\<rparr>"
  have bad: "\<not> persistenceSucceeded (mapStoragePersistenceResult InvalidArgument)"
    "\<not> persistenceSucceeded (mapStoragePersistenceResult ValidationFailure)"
    by (simp_all add: persistenceSucceeded_def mapStoragePersistenceResult_def)
  have 1: "schema = ss_schemaVersion s \<and> n = ss_payloadSize s"
    using r ok bad by (auto simp: saveCurrentRaw_def split: if_splits)
  obtain ok' u where u: "storage_save ops ?s (Some (address, pl)) = (ok', u)" by fastforce
  have t: "ss_lastSaveResult t = ss_lastSaveResult u"
    using r u 1 by (auto simp: saveCurrentRaw_def)
  have "ss_opened ?s \<and> \<not> payloadOverlapsWorkspace ?s address \<and> runValidator ?s (take (ss_payloadSize ?s) pl)"
  proof (rule ccontr)
    assume "\<not> ?thesis"
    then have "ss_lastSaveResult u = InvalidArgument \<or> ss_lastSaveResult u = ValidationFailure"
      using u by (auto simp: storage_save_def split: if_splits)
    then show False using ok bad t by auto
  qed
  then show ?thesis using 1 wf n by (auto simp: saveAccepted_def payloadOverlapsWorkspace_def split: if_splits)
qed

lemma rawStored_same:
  assumes "same_config s t" "storage_wf s" "storage_wf t" "ss_opened s" "blobs (ss_backend t) = blobs (ss_backend s)"
  shows "rawStored blobs t = rawStored blobs s"
  using rawView_same [OF assms(1-4), of blobs] assms(5) by (simp add: rawStored_def)

text \<open>
  C21: What the lifecycle persists through the storage service it loads again after a restart. When
  \<open>persist\<close> reports \<open>Success\<close> or \<open>NoChange\<close>, then a service opened on the same flash memory makes
  \<open>load\<close> return \<open>Success\<close> with exactly the persisted bytes, their size and their schema version.
\<close>

theorem persist_restart_load:
  assumes "preferences_library prefs entries"
    and "storage_wf s" "rawSynced entries s" "ss_slotAKey s \<noteq> ss_slotBKey s" "n \<le> length pl"
    and "persistToStorageService (preferencesStorageBackend prefs) (Some s, a) schema (address, pl) n = (r, Some t, a')"
    and "persistenceSucceeded r"
    and "length buffer = ss_capacity s"
    and "reopened (preferencesStorageBackend prefs) (ss_backend t) s buffer = (True, u)"
    and "loadFromStorageService (preferencesStorageBackend prefs) (Some u, a') cap info = (l, content, info', w)"
    and "n \<le> cap"
  shows "l = LoadSuccess \<and> content = take n pl \<and> cli_payloadSize info' = n \<and> cli_schemaVersion info' = schema"
proof -
  let ?ops = "preferencesStorageBackend prefs"
  obtain ok where r: "saveCurrentRaw ?ops s schema (Some (address, pl)) n = (ok, t)"
      "r = mapStoragePersistenceResult (ss_lastSaveResult t)"
    using assms(6) by (auto simp: persistToStorageService_def storage_status_def split_beta prod_eq_iff)
  have acc: "schema = ss_schemaVersion s" "n = ss_payloadSize s" "saveAccepted s address pl"
    using saveCurrentRaw_success [OF assms(2,5) r(1)] assms(7) r(2) by simp_all
  have op: "ss_opened s" using acc(3) by (simp add: saveAccepted_def)
  note saved = blob_store.saveCurrentRaw_refines [OF preferences_library.adapter_store [OF assms(1)]
      acc(3) assms(3,4) r(1) [unfolded acc(1,2)]]
  note fr = blob_reads.axioms(1) [OF preferences_library.adapter_reads [OF assms(1)]]
  note u = blob_frame.reopened_same [OF fr assms(2) op assms(8,9)]
  have tu: "same_config t u" using saved u by (simp add: same_config_def)
  have op': "ss_opened t" "ss_opened u" using saved u op by (simp_all add: same_config_def)
  have st: "rawStored entries u = rawStored entries t"
    using rawStored_same [OF tu _ _ op'(1)] saved u by simp
  obtain sl where sl: "rawStored entries u = Some (sl, schema, ss_activeGeneration t, take n pl)"
    using saved st acc by auto
  obtain rec out v where ld: "loadLatestRaw ?ops u True cap = (rec, out, v)" by (metis prod_cases3)
  have "out = Some (take n pl) \<and> raw_result rec = RawSuccess \<and> raw_schemaVersion rec = schema \<and>
      raw_payloadSize rec = n"
    using blob_reads.loadLatestRaw_view [OF preferences_library.adapter_reads [OF assms(1)] _ op'(2) ld]
      u sl assms(5,11) by simp
  then show ?thesis using assms(10) ld by (auto simp: loadFromStorageService_def Let_def)
qed

lemma persist_restart_load_witness:
  "fst (loadFromStorageService kvBackend
      (Some (snd (reopened kvBackend (ss_backend demoSaved) demoService (replicate 32 0xFF))), ())
      2 \<lparr>cli_schemaVersion = 0, cli_payloadSize = 0\<rparr>) = LoadSuccess"
proof -
  have f: "ss_slotAKey demoService \<noteq> ss_slotBKey demoService" "ss_capacity demoService = 32"
    by (simp_all add: demoService_eval)
  have sizes: "ss_schemaVersion demoService = 1" "ss_payloadSize demoService = 2"
    by (simp_all add: demoService_eval)
  have acc: "saveAccepted demoService 1000 [7, 1]" by (rule demoService_accepts) simp
  define r where "r = mapStoragePersistenceResult (ss_lastSaveResult demoSaved)"
  have p: "persistToStorageService kvBackend (Some demoService, ()) 1 (1000, [7, 1]) 2 =
      (r, Some demoSaved, ())"
    by (simp add: persistToStorageService_def demoSaved_def r_def storage_status_def split_beta)
  have r: "persistenceSucceeded r"
    using demoSaved_facts by (auto simp: r_def persistenceSucceeded_def mapStoragePersistenceResult_def)
  show ?thesis
    using persist_restart_load [OF kvPrefs.preferences_library_axioms demoService_wf(1)
        demoService_synced f(1) _ p r, of "replicate 32 0xFF"
        "snd (reopened kvBackend (ss_backend demoSaved) demoService (replicate 32 0xFF))" 2]
      reopened_demo [of "replicate 32 0xFF" "ss_backend demoSaved"] f(2)
    by (simp add: prod_eq_iff)
qed
end
