(* ===== verification/Calendar.thy ===== *)
theory Calendar
  imports AquaPrelude "HOL-Library.Signed_Division"
begin

text \<open>
  Calendar arithmetic of \<open>aquaOneCore/src/Time\<close>: leap years, month lengths, the day number of a
  date and back (\<open>ResilientTimeService.cpp\<close>, \<open>RtcWallClock.cpp\<close>), the day of the week and the
  last Sunday of a month (\<open>EuropeWarsawTimeService.cpp\<close>), adding a second
  (\<open>RtcService.cpp\<close>). Unsigned C++ arithmetic is on words of its width; \<open>int\<close> is unbounded here,
  which is exact because the values stay far below \<open>2 ^ 31\<close>. The reference is \<open>dayNumber\<close>, the
  proleptic Gregorian day count over the integers.
\<close>

section \<open>Small integers as words\<close>

lemma word_of_int_div_small:
  assumes "0 \<le> a" "a < 2 ^ LENGTH('a)" "0 \<le> b" "b < 2 ^ LENGTH('a)"
  shows "(of_int a :: 'a::len word) div of_int b = of_int (a div b)"
  using assms by (simp add: word_div_def of_int_eq_iff uint_word_of_int_eq take_bit_int_eq_self)

lemma word_of_int_mod_small:
  assumes "0 \<le> a" "a < 2 ^ LENGTH('a)" "0 \<le> b" "b < 2 ^ LENGTH('a)"
  shows "(of_int a :: 'a::len word) mod of_int b = of_int (a mod b)"
  using assms by (simp add: word_mod_def uint_word_of_int_eq take_bit_int_eq_self)

lemma word_of_int_less_small:
  assumes "0 \<le> a" "a < 2 ^ LENGTH('a)" "0 \<le> b" "b < 2 ^ LENGTH('a)"
  shows "(of_int a :: 'a::len word) < of_int b \<longleftrightarrow> a < b"
  using assms by (simp add: word_less_def uint_word_of_int_eq take_bit_int_eq_self)

lemma word_of_int_le_small:
  assumes "0 \<le> a" "a < 2 ^ LENGTH('a)" "0 \<le> b" "b < 2 ^ LENGTH('a)"
  shows "(of_int a :: 'a::len word) \<le> of_int b \<longleftrightarrow> a \<le> b"
  using assms by (simp add: word_le_def uint_word_of_int_eq take_bit_int_eq_self)

lemma uint_of_int_small:
  assumes "0 \<le> a" "a < 2 ^ LENGTH('a)"
  shows "uint (of_int a :: 'a::len word) = a"
  using assms by (simp add: uint_word_of_int_eq take_bit_int_eq_self)

lemma sint_of_int_small:
  assumes "0 \<le> a" "a < 2 ^ (LENGTH('a) - 1)"
  shows "sint (of_int a :: 'a::len word) = a"
  using assms by (simp add: sint_sbintrunc' signed_take_bit_int_eq_self)

section \<open>Dates\<close>

record UtcDateTime =
  ut_year :: u16
  ut_month :: u8
  ut_day :: u8
  ut_hour :: u8
  ut_minute :: u8
  ut_second :: u8

record LocalTime =
  lt_valid :: bool
  lt_year :: u16
  lt_month :: u8
  lt_day :: u8
  lt_hour :: u8
  lt_minute :: u8
  lt_second :: u8
  lt_minuteOfDay :: u16

definition emptyLocalTime :: LocalTime where
  "emptyLocalTime = \<lparr>lt_valid = False, lt_year = 0, lt_month = 0, lt_day = 0, lt_hour = 0,
     lt_minute = 0, lt_second = 0, lt_minuteOfDay = 0\<rparr>"

definition isRtcLeapYear :: "u16 \<Rightarrow> bool" where
  "isRtcLeapYear year \<longleftrightarrow> (year mod 4 = 0 \<and> year mod 100 \<noteq> 0) \<or> year mod 400 = 0"

definition DAYS :: "u8 list" where
  "DAYS = [31, 28, 31, 30, 31, 30, 31, 31, 30, 31, 30, 31]"

definition rtcDaysInMonth :: "u16 \<Rightarrow> u8 \<Rightarrow> u8" where
  "rtcDaysInMonth year month =
     (if month < 1 \<or> month > 12 then 0
      else if month = 2 \<and> isRtcLeapYear year then 29
      else DAYS ! (unat (month - 1)))"

text \<open>\<open>RtcService::isValidUtc\<close>\<close>

definition isValidUtc :: "u16 \<Rightarrow> u8 \<Rightarrow> u8 \<Rightarrow> u8 \<Rightarrow> u8 \<Rightarrow> u8 \<Rightarrow> bool" where
  "isValidUtc year month day hour minute second =
     (if year < 2000 \<or> year > 2199 \<or> month < 1 \<or> month > 12 \<or> hour > 23 \<or> minute > 59 \<or> second > 59
      then False
      else let maximumDay = rtcDaysInMonth year month in day \<ge> 1 \<and> day \<le> maximumDay)"

definition addOneSecond :: "LocalTime \<Rightarrow> LocalTime" where
  "addOneSecond t =
     (if lt_second t + 1 \<le> 59 then t\<lparr>lt_second := lt_second t + 1\<rparr>
      else
        let t1 = t\<lparr>lt_second := 0\<rparr>
        in if lt_minute t1 + 1 \<le> 59 then t1\<lparr>lt_minute := lt_minute t1 + 1\<rparr>
        else
          let t2 = t1\<lparr>lt_minute := 0\<rparr>
          in if lt_hour t2 + 1 \<le> 23 then t2\<lparr>lt_hour := lt_hour t2 + 1\<rparr>
          else
            let t3 = t2\<lparr>lt_hour := 0\<rparr>
            in if lt_day t3 + 1 \<le> rtcDaysInMonth (lt_year t3) (lt_month t3)
               then t3\<lparr>lt_day := lt_day t3 + 1\<rparr>
            else
              let t4 = t3\<lparr>lt_day := 1\<rparr>
              in if lt_month t4 + 1 \<le> 12 then t4\<lparr>lt_month := lt_month t4 + 1\<rparr>
              else t4\<lparr>lt_month := 1, lt_year := lt_year t4 + 1\<rparr>)"

section \<open>Day numbers\<close>

definition daysFromCivil :: "int \<Rightarrow> u32 \<Rightarrow> u32 \<Rightarrow> int" where
  "daysFromCivil y0 m d =
     (let y = y0 - (if m \<le> 2 then 1 else 0);
          era = (if y \<ge> 0 then y else y - 399) sdiv 400;
          yoe = (of_int (y - era * 400) :: u32);
          doy = (153 * (if m > 2 then m - 3 else m + 9) + 2) div 5 + d - 1;
          doe = yoe * 365 + yoe div 4 - yoe div 100 + doy
      in era * 146097 + sint doe - 719468)"

record CivilDate =
  cd_year :: int
  cd_month :: u32
  cd_day :: u32

definition civilFromDays :: "int \<Rightarrow> CivilDate" where
  "civilFromDays z0 =
     (let z = z0 + 719468;
          era = (if z \<ge> 0 then z else z - 146096) sdiv 146097;
          doe = (of_int (z - era * 146097) :: u32);
          yoe = (doe - doe div 1460 + doe div 36524 - doe div 146096) div 365;
          y = sint yoe + era * 400;
          doy = doe - (365 * yoe + yoe div 4 - yoe div 100);
          mp = (5 * doy + 2) div 153;
          d = doy - (153 * mp + 2) div 5 + 1;
          m = (if mp < 10 then mp + 3 else mp - 9)
      in \<lparr>cd_year = y + (if m \<le> 2 then 1 else 0), cd_month = m, cd_day = d\<rparr>)"

text \<open>The reference: days since 1970-01-01 in the Gregorian calendar.\<close>

definition dayNumber :: "int \<Rightarrow> int \<Rightarrow> int \<Rightarrow> int" where
  "dayNumber y0 m d =
     (let y = (if m \<le> 2 then y0 - 1 else y0); mp = (if m > 2 then m - 3 else m + 9)
      in 365 * y + y div 4 - y div 100 + y div 400 + (153 * mp + 2) div 5 + d - 719469)"

lemma year_split:
  fixes y :: int
  shows "y div 4 = 100 * (y div 400) + (y mod 400) div 4"
    "y div 100 = 4 * (y div 400) + (y mod 400) div 100"
    "365 * y = 146000 * (y div 400) + 365 * (y mod 400)"
proof -
  have a: "y = y mod 400 + 100 * (y div 400) * 4" and b: "y = y mod 400 + 4 * (y div 400) * 100"
    by simp_all
  show "y div 4 = 100 * (y div 400) + (y mod 400) div 4"
    by (subst a) (simp only: div_mult_self1 [of 4] zero_neq_numeral not_False_eq_True simp_thms)
  show "y div 100 = 4 * (y div 400) + (y mod 400) div 100"
    by (subst b) (simp only: div_mult_self1 [of 100] zero_neq_numeral not_False_eq_True simp_thms)
  show "365 * y = 146000 * (y div 400) + 365 * (y mod 400)"
    using mult_div_mod_eq [of 400 y] by linarith
qed

lemma daysFromCivil_dayNumber:
  assumes y: "0 \<le> y" "y < 100000" and m: "1 \<le> m" "m \<le> 12" and d: "1 \<le> d" "d \<le> 31"
  shows "daysFromCivil y (of_int m) (of_int d) = dayNumber y m d"
proof -
  let ?m = "of_int m :: u32"
  have m2: "(?m \<le> 2) = (m \<le> 2)" "(?m > 2) = (m > 2)"
    using word_of_int_le_small [of m 2, where 'a = 32] word_of_int_less_small [of 2 m, where 'a = 32] m
    by simp_all
  define y' where "y' = (if m \<le> 2 then y - 1 else y)"
  have y': "-1 \<le> y'" "y' < 100000" using y by (auto simp: y'_def)
  have era: "(if y' \<ge> 0 then y' else y' - 399) sdiv 400 = y' div 400"
    using y' by (auto simp: signed_divide_int_def sgn_if)
  define yoe where "yoe = y' mod 400"
  have yoe: "0 \<le> yoe" "yoe < 400" by (simp_all add: yoe_def)
  have yoe_eq: "y' - y' div 400 * 400 = yoe" by (simp add: yoe_def minus_div_mult_eq_mod)
  define mp where "mp = (if m > 2 then m - 3 else m + 9)"
  have mp: "0 \<le> mp" "mp \<le> 11" using m by (auto simp: mp_def)
  have mp_eq: "(if m > 2 then ?m - 3 else ?m + 9) = of_int mp" by (auto simp: mp_def)
  define doy where "doy = (153 * mp + 2) div 5 + d - 1"
  have doy: "0 \<le> doy" "doy < 400" using mp d by (auto simp: doy_def)
  have "((153 * of_int mp + 2) :: u32) div 5 = of_int ((153 * mp + 2) div 5)"
    using word_of_int_div_small [of "153 * mp + 2" 5, where 'a = 32] mp by simp
  then have doy_eq: "((153 * of_int mp + 2) :: u32) div 5 + of_int d - 1 = of_int doy"
    by (simp add: doy_def)
  have q: "(of_int yoe :: u32) div 4 = of_int (yoe div 4)" "(of_int yoe :: u32) div 100 = of_int (yoe div 100)"
    using word_of_int_div_small [of yoe 4, where 'a = 32] word_of_int_div_small [of yoe 100, where 'a = 32]
      yoe by simp_all
  define doe where "doe = yoe * 365 + yoe div 4 - yoe div 100 + doy"
  have doe: "0 \<le> doe" "doe < 200000" using yoe doy by (auto simp: doe_def)
  have "((of_int yoe :: u32) * 365 + of_int yoe div 4 - of_int yoe div 100 + of_int doy) = of_int doe"
    unfolding q by (simp add: doe_def)
  moreover have "sint (of_int doe :: u32) = doe" using doe by (intro sint_of_int_small) simp_all
  ultimately have "daysFromCivil y ?m (of_int d) = y' div 400 * 146097 + doe - 719468"
    unfolding daysFromCivil_def Let_def m2 mp_eq doy_eq
    using era yoe_eq by (simp add: y'_def [symmetric] if_distrib [of "\<lambda>k. y - k"] cong: if_cong)
  also have "\<dots> = dayNumber y m d"
    unfolding dayNumber_def Let_def y'_def [symmetric] mp_def [symmetric]
    using year_split [of y'] by (simp add: doe_def doy_def yoe_def)
  finally show ?thesis .
qed

section \<open>From day numbers back to dates\<close>

lemma yoe_from_doe:
  fixes c q r doy :: int
  assumes c: "0 \<le> c" "c \<le> 3" and q: "0 \<le> q" "q \<le> 24" and r: "0 \<le> r" "r \<le> 3"
    and doy: "0 \<le> doy" "doy \<le> 365" "doy = 365 \<Longrightarrow> r = 3 \<and> (q \<noteq> 24 \<or> c = 3)"
    and doe: "doe = 36524 * c + 1461 * q + 365 * r + doy"
  shows "0 \<le> doe \<and> doe < 146097 \<and>
    (doe - doe div 1460 + doe div 36524 - doe div 146096) div 365 = 100 * c + 4 * q + r"
proof -
  let ?last = "c = 3 \<and> q = 24 \<and> r = 3 \<and> doy = 365"
  have bound: "1461 * q + 365 * r + doy \<le> 36524 - (if ?last then 0 else 1)"
    using q r doy by (cases "q = 24"; cases "r = 3"; cases "doy = 365") auto
  have d0: "0 \<le> doe" "doe < 146097" using c q r doy bound by (auto simp: doe split: if_splits)
  have d1: "doe div 146096 = (if ?last then 1 else 0)"
  proof (cases ?last)
    case True
    then show ?thesis by (simp add: doe)
  next
    case False
    have "doe < 146096" using c bound False by (auto simp: doe split: if_splits)
    then show ?thesis using d0 False by auto
  qed
  have d2: "doe div 36524 = c + (if ?last then 1 else 0)"
  proof (cases ?last)
    case True
    then show ?thesis by (simp add: doe)
  next
    case False
    then have "0 \<le> 1461 * q + 365 * r + doy" "1461 * q + 365 * r + doy < 36524"
      using bound q r doy by auto
    then have "(36524 * c + (1461 * q + 365 * r + doy)) div 36524 = c" by simp
    then show ?thesis using False by (simp add: doe add.assoc)
  qed
  define e where "e = (if 24 * c + q + 365 * r + doy \<ge> 1460 then 1 else (0::int))"
  have "doe = 1460 * (25 * c + q + e) + (24 * c + q + 365 * r + doy - 1460 * e)"
    by (simp add: doe algebra_simps)
  moreover have "0 \<le> 24 * c + q + 365 * r + doy - 1460 * e" "24 * c + q + 365 * r + doy - 1460 * e < 1460"
    using c q r doy by (auto simp: e_def)
  ultimately have d3: "doe div 1460 = 25 * c + q + e" by simp
  have "doe - doe div 1460 + doe div 36524 - doe div 146096 = 365 * (100 * c + 4 * q + r) + (doy - e)"
    unfolding d1 d2 d3 by (simp add: doe algebra_simps)
  moreover have "0 \<le> doy - e" using c q r doy by (auto simp: e_def)
  moreover have "doy - e < 365"
  proof (cases "doy = 365")
    case True
    then have "r = 3" using doy(3) by simp
    then show ?thesis using True c q by (simp add: e_def)
  qed (use doy(2) in \<open>simp add: e_def\<close>)
  ultimately show ?thesis using d0 by simp
qed

lemma month_from_doy:
  fixes mp d :: int
  assumes "0 \<le> mp" "mp \<le> 11" "1 \<le> d" "d \<le> 31" "mp \<in> {1, 3, 6, 8, 11} \<Longrightarrow> d \<le> 30"
    and doy: "doy = (153 * mp + 2) div 5 + d - 1"
  shows "(5 * doy + 2) div 153 = mp" "doy - (153 * mp + 2) div 5 + 1 = d" "0 \<le> doy" "doy < 400"
    "(mp = 11 \<Longrightarrow> d \<le> 29) \<Longrightarrow> doy \<le> 365"
proof -
  have "mp \<in> {0, 1, 2, 3, 4, 5, 6, 7, 8, 9, 10, 11}" using assms(1,2) by (simp, presburger)
  note mp = this
  show "(5 * doy + 2) div 153 = mp" using mp assms(3-5) by (elim insertE emptyE) (simp_all add: doy)
  show "(mp = 11 \<Longrightarrow> d \<le> 29) \<Longrightarrow> doy \<le> 365"
    using mp assms(3,4) by (elim insertE emptyE) (simp_all add: doy)
  show "doy - (153 * mp + 2) div 5 + 1 = d" "0 \<le> doy" "doy < 400"
    using mp assms(3,4) by (elim insertE emptyE; simp add: doy)+
qed

definition leapYear :: "int \<Rightarrow> bool" where
  "leapYear y \<longleftrightarrow> y mod 4 = 0 \<and> y mod 100 \<noteq> 0 \<or> y mod 400 = 0"

definition monthLength :: "int \<Rightarrow> int \<Rightarrow> int" where
  "monthLength y m = (if m = 2 then (if leapYear y then 29 else 28)
     else if m \<in> {4, 6, 9, 11} then 30 else 31)"

lemma leap_after:
  fixes y c q r :: int
  assumes "(y - 1) mod 400 = 100 * c + 4 * q + r" "0 \<le> c" "c \<le> 3" "0 \<le> q" "q \<le> 24" "0 \<le> r" "r \<le> 3"
    and "leapYear y"
  shows "r = 3 \<and> (q \<noteq> 24 \<or> c = 3)"
proof -
  define k where "k = (y - 1) div 400"
  have "400 * k + (y - 1) mod 400 = y - 1" unfolding k_def by (rule mult_div_mod_eq)
  then have y: "y = 400 * k + 100 * c + 4 * q + r + 1" using assms(1) by linarith
  have "y = r + 1 + (100 * k + 25 * c + q) * 4" using y by simp
  then have 4: "y mod 4 = (r + 1) mod 4" by (simp only: mod_mult_self1)
  have r: "r = 3"
  proof -
    have "y mod 4 = 0"
    proof (cases "y mod 400 = 0")
      case True
      then have "400 dvd y" by (simp add: dvd_eq_mod_eq_0)
      then have "4 dvd y" by (rule dvd_trans [rotated]) simp
      then show ?thesis by simp
    qed (use assms(8) in \<open>simp add: leapYear_def\<close>)
    then have "(r + 1) mod 4 = 0" using 4 by simp
    moreover have "r \<in> {0, 1, 2, 3}" using assms(6,7) by auto
    ultimately show ?thesis by auto
  qed
  moreover have False if "q = 24" "c \<noteq> 3"
  proof -
    have "y = 400 * k + 100 * c + 100" using y r that by simp
    moreover have "c \<in> {0, 1, 2}" using assms(2,3) that by auto
    moreover have "y = (4 * k + c + 1) * 100" using calculation(1) by simp
    then have "y mod 100 = 0" by simp
    moreover have "y = 100 * (c + 1) + k * 400" using \<open>y = 400 * k + 100 * c + 100\<close> by simp
    then have "y mod 400 = 100 * (c + 1) mod 400" by (simp only: mod_mult_self1)
    ultimately have "y mod 100 = 0" "y mod 400 \<noteq> 0" by auto
    then show False using assms(8) unfolding leapYear_def by simp
  qed
  ultimately show ?thesis by blast
qed

lemma yoe_split:
  fixes n :: int
  assumes "0 \<le> n" "n < 400"
  obtains c q r where "n = 100 * c + 4 * q + r" "0 \<le> c" "c \<le> 3" "0 \<le> q" "q \<le> 24" "0 \<le> r" "r \<le> 3"
    "n div 4 = 25 * c + q" "n div 100 = c"
proof -
  define c q r where "c = n div 100" and "q = n mod 100 div 4" and "r = n mod 100 mod 4"
  have m100: "100 * c + n mod 100 = n" unfolding c_def by (rule mult_div_mod_eq)
  have m4: "4 * q + r = n mod 100" unfolding q_def r_def by (rule mult_div_mod_eq)
  have n: "n = 100 * c + 4 * q + r" using m100 m4 by linarith
  have r: "0 \<le> r" "r \<le> 3" using pos_mod_bound [of 4 "n mod 100"] by (simp_all add: r_def)
  have m: "0 \<le> n mod 100" "n mod 100 < 100" by simp_all
  have b: "0 \<le> c" "c \<le> 3"
    using zdiv_mono1 [of 0 n 100] zdiv_mono1 [of n 399 100] assms by (simp_all add: c_def)
  have b': "0 \<le> q" "q \<le> 24"
    using zdiv_mono1 [of 0 "n mod 100" 4] zdiv_mono1 [of "n mod 100" 99 4] m by (simp_all add: q_def)
  have n4: "n = r + (25 * c + q) * 4" using n by simp
  have "n div 4 = (25 * c + q) + r div 4" using div_mult_self1 [of 4 r "25 * c + q"] n4 by simp
  moreover have "r div 4 = 0" using r by simp
  ultimately have "n div 4 = 25 * c + q" by simp
  with that [OF n b b' r] show ?thesis unfolding c_def by blast
qed

text \<open>\<open>civilFromDays\<close> undoes the day count, for every date of the years 1 to 99999.\<close>

lemma civilFromDays_dayNumber:
  assumes y: "1 \<le> y" "y < 100000" and m: "1 \<le> m" "m \<le> 12" and d: "1 \<le> d" "d \<le> monthLength y m"
  shows "civilFromDays (dayNumber y m d) = \<lparr>cd_year = y, cd_month = of_int m, cd_day = of_int d\<rparr>"
proof -
  define y' where "y' = (if m \<le> 2 then y - 1 else y)"
  define mp where "mp = (if m > 2 then m - 3 else m + 9)"
  define doy where "doy = (153 * mp + 2) div 5 + d - 1"
  define yoe where "yoe = y' mod 400"
  define era where "era = y' div 400"
  have mp: "0 \<le> mp" "mp \<le> 11" using m by (auto simp: mp_def)
  have d31: "d \<le> 31" "mp \<in> {1, 3, 6, 8, 11} \<Longrightarrow> d \<le> 30" "mp = 11 \<Longrightarrow> d \<le> 29"
    using d m by (auto simp: mp_def monthLength_def split: if_splits)
  note month = month_from_doy [OF mp d(1) d31(1,2) doy_def]
  have d365: "doy \<le> 365" using month(5) d31(3) by blast
  have yb: "0 \<le> yoe" "yoe < 400" by (simp_all add: yoe_def)
  obtain c q r where yoe: "yoe = 100 * c + 4 * q + r" "0 \<le> c" "c \<le> 3" "0 \<le> q" "q \<le> 24" "0 \<le> r" "r \<le> 3"
      "yoe div 4 = 25 * c + q" "yoe div 100 = c"
    using yoe_split [OF yb] by blast
  have leap: "doy = 365 \<Longrightarrow> r = 3 \<and> (q \<noteq> 24 \<or> c = 3)"
  proof -
    assume l: "doy = 365"
    have "mp = 11"
    proof (rule ccontr)
      assume "mp \<noteq> 11"
      then have "(153 * mp + 2) div 5 \<le> (153 * 10 + 2) div 5" using mp by (intro zdiv_mono1) auto
      then show False using l d31 by (simp add: doy_def)
    qed
    moreover from this have "d = 29" using l by (simp add: doy_def)
    ultimately have "mp = 11" "d = 29" .
    then have "m = 2" "leapYear y" using d(2) m by (auto simp: mp_def monthLength_def split: if_splits)
    moreover from this have "(y - 1) mod 400 = 100 * c + 4 * q + r"
      using yoe(1) by (simp add: yoe_def y'_def)
    ultimately show ?thesis using leap_after yoe(2-7) by blast
  qed
  define doe where "doe = 36524 * c + 1461 * q + 365 * r + doy"
  note doe = yoe_from_doe [OF yoe(2-7) month(3) d365 leap doe_def, folded yoe(1)]
  have z: "dayNumber y m d + 719468 = doe + era * 146097"
    unfolding dayNumber_def Let_def y'_def [symmetric] mp_def [symmetric]
      year_split [of y', folded era_def yoe_def] era_def [symmetric] yoe(8,9) doe_def doy_def
    unfolding yoe(1) by simp
  have "0 \<le> era" using y by (simp add: era_def y'_def pos_imp_zdiv_nonneg_iff)
  then have z0: "0 \<le> dayNumber y m d + 719468" using z doe by simp
  then have era: "(if dayNumber y m d + 719468 \<ge> 0 then dayNumber y m d + 719468
      else dayNumber y m d + 719468 - 146096) sdiv 146097 = era"
    using doe by (simp add: z signed_divide_int_def sgn_if) 
  have sm: "doe div 1460 \<le> doe" "0 \<le> doe div 1460" "0 \<le> doe div 36524" "doe div 36524 < 10"
      "0 \<le> doe div 146096" "doe div 146096 \<le> 1"
    using doe by auto
  have w: "(of_int doe :: u32) div 1460 = of_int (doe div 1460)" "(of_int doe :: u32) div 36524 = of_int (doe div 36524)"
     "(of_int doe :: u32) div 146096 = of_int (doe div 146096)"
    using word_of_int_div_small [of doe 1460, where 'a = 32] word_of_int_div_small [of doe 36524, where 'a = 32]
      word_of_int_div_small [of doe 146096, where 'a = 32] doe by simp_all
  let ?t = "doe - doe div 1460 + doe div 36524 - doe div 146096"
  have t: "0 \<le> ?t" "?t < 200000" using sm doe by auto
  have "(of_int doe - of_int doe div 1460 + of_int doe div 36524 - of_int doe div 146096 :: u32) = of_int ?t"
    unfolding w by simp
  moreover have "(of_int ?t :: u32) div 365 = of_int (?t div 365)"
    using word_of_int_div_small [of ?t 365, where 'a = 32] t by simp
  ultimately have yw: "(of_int doe - of_int doe div 1460 + of_int doe div 36524 - of_int doe div 146096 :: u32) div 365 = of_int yoe"
    using doe unfolding w by simp
  have q': "(of_int yoe :: u32) div 4 = of_int (yoe div 4)" "(of_int yoe :: u32) div 100 = of_int (yoe div 100)"
    using word_of_int_div_small [of yoe 4, where 'a = 32] word_of_int_div_small [of yoe 100, where 'a = 32]
      yb by simp_all
  have e: "doy = doe - (365 * yoe + yoe div 4 - yoe div 100)"
    using yoe by (simp add: doe_def)
  have doyw: "(of_int doe :: u32) - (365 * of_int yoe + of_int yoe div 4 - of_int yoe div 100) = of_int doy"
    unfolding q' e by (simp only: of_int_add of_int_diff of_int_mult of_int_numeral)
  have mpw: "(5 * of_int doy + 2 :: u32) div 153 = of_int mp"
    using word_of_int_div_small [of "5 * doy + 2" 153, where 'a = 32] month by simp
  have dw: "(of_int doy :: u32) - (153 * of_int mp + 2) div 5 + 1 = of_int d"
  proof -
    have "(153 * of_int mp + 2 :: u32) div 5 = of_int ((153 * mp + 2) div 5)"
      using word_of_int_div_small [of "153 * mp + 2" 5, where 'a = 32] mp by simp
    then show ?thesis using month(2) by (metis of_int_1 of_int_add of_int_diff)
  qed
  have m10: "((of_int mp :: u32) < 10) = (mp < 10)"
    using word_of_int_less_small [of mp 10, where 'a = 32] mp by simp
  have mw: "(if (of_int mp :: u32) < 10 then of_int mp + 3 else of_int mp - 9 :: u32) = of_int m"
    unfolding m10 using m by (auto simp: mp_def)
  have m2: "((of_int m :: u32) \<le> 2) = (m \<le> 2)"
    using word_of_int_le_small [of m 2, where 'a = 32] m by simp
  have sy: "sint (of_int yoe :: u32) = yoe" using yb by (intro sint_of_int_small) simp_all
  have "yoe + era * 400 + (if m \<le> 2 then 1 else 0) = y"
    using mult_div_mod_eq [of 400 y'] by (auto simp: yoe_def era_def y'_def)
  moreover have z': "dayNumber y m d + 719468 - era * 146097 = doe" using z by simp
  ultimately show ?thesis
    unfolding civilFromDays_def Let_def era z' yw doyw mpw dw mw m2 sy by simp
qed

lemma leapYear_word: "isRtcLeapYear year = leapYear (uint year)"
proof -
  have e: "(year mod 4 = 0) = (uint year mod 4 = 0)" "(year mod 100 = 0) = (uint year mod 100 = 0)"
    "(year mod 400 = 0) = (uint year mod 400 = 0)"
    by (simp_all add: word_uint_eq_iff uint_mod)
  then show ?thesis by (simp add: isRtcLeapYear_def leapYear_def)
qed

lemma u8_cases_12:
  assumes "1 \<le> uint (m :: u8)" "uint m \<le> 12"
  shows "m \<in> {1, 2, 3, 4, 5, 6, 7, 8, 9, 10, 11, 12}"
proof -
  have "uint m \<in> {1, 2, 3, 4, 5, 6, 7, 8, 9, 10, 11, 12}" using assms by (simp, presburger)
  then show ?thesis by (auto simp: word_uint_eq_iff)
qed

lemma rtcDaysInMonth_word:
  assumes "1 \<le> uint month" "uint month \<le> 12"
  shows "uint (rtcDaysInMonth year month) = monthLength (uint year) (uint month)"
  using u8_cases_12 [OF assms]
  by (elim insertE emptyE) (simp_all add: rtcDaysInMonth_def monthLength_def leapYear_word DAYS_def)

text \<open>The day after a date has the next number.\<close>

lemma div_pred:
  fixes y n :: int
  assumes "0 < n"
  shows "y div n = (y - 1) div n + (if y mod n = 0 then 1 else 0)"
proof (cases "y mod n = 0")
  case True
  then obtain k where k: "y = n * k" by auto
  have "(y - 1) div n = k - 1" by (rule int_div_pos_eq [of _ _ _ "n - 1"]) (use assms k in \<open>auto simp: algebra_simps\<close>)
  then show ?thesis using k True assms by simp
next
  case False
  have "0 < y mod n" "y mod n < n" using False assms pos_mod_bound [of n y] pos_mod_sign [of n y] by linarith+
  then have "(y - 1) div n = y div n"
    using mult_div_mod_eq [of n y] by (intro int_div_pos_eq [of _ _ _ "y mod n - 1"]) auto
  then show ?thesis using False by simp
qed

lemma year_length:
  "365 * y + y div 4 - y div 100 + y div 400 =
     365 * (y - 1) + (y - 1) div 4 - (y - 1) div 100 + (y - 1) div 400 + (if leapYear y then 366 else 365)"
proof -
  have "y mod 100 = 0" if "y mod 400 = 0"
    using that unfolding mod_eq_0_iff_dvd by (rule dvd_trans [rotated]) simp
  moreover have "y mod 4 = 0" if "y mod 100 = 0"
    using that unfolding mod_eq_0_iff_dvd by (rule dvd_trans [rotated]) simp
  ultimately have leap: "(if leapYear y then 366 else 365 :: int) = 365 + (if y mod 4 = 0 then 1 else 0) -
      (if y mod 100 = 0 then 1 else 0) + (if y mod 400 = 0 then 1 else 0)"
    by (auto simp: leapYear_def)
  have sum: "A = a + i \<Longrightarrow> B = b + j \<Longrightarrow> C = c + k \<Longrightarrow> L = 365 + i - j + k \<Longrightarrow>
      365 * y + A - B + C = 365 * (y - 1) + a - b + c + L" for A B C L a b c i j k :: int
    by simp
  show ?thesis by (rule sum [OF div_pred div_pred div_pred leap]) simp_all
qed

lemma dayNumber_next_day: "dayNumber y m (d + 1) = dayNumber y m d + 1"
  by (simp add: dayNumber_def Let_def)

lemma dayNumber_next_month:
  assumes "1 \<le> m" "m \<le> 11"
  shows "dayNumber y (m + 1) 1 = dayNumber y m (monthLength y m) + 1"
proof -
  have m: "m \<in> {1, 2, 3, 4, 5, 6, 7, 8, 9, 10, 11}" using assms by (simp, presburger)
  show ?thesis
  proof (cases "m = 2")
    case True
    have mar: "dayNumber y 3 1 = (365 * y + y div 4 - y div 100 + y div 400) - 719468"
      by (simp add: dayNumber_def)
    have feb: "dayNumber y 2 d =
        (365 * (y - 1) + (y - 1) div 4 - (y - 1) div 100 + (y - 1) div 400) + d - 719132" for d
      by (simp add: dayNumber_def Let_def)
    show ?thesis unfolding True monthLength_def feb using mar by (simp add: year_length [of y])
  next
    case False
    then show ?thesis
      using m by (elim insertE emptyE) (simp_all add: dayNumber_def monthLength_def Let_def)
  qed
qed

lemma dayNumber_next_year: "dayNumber (y + 1) 1 1 = dayNumber y 12 31 + 1"
  by (simp add: dayNumber_def)
section \<open>Points in time\<close>

lemma uint_Suc_less:
  fixes x y :: "'a::len word"
  assumes "x < y"
  shows "uint (x + 1) = uint x + 1"
  using unat_Suc_less [OF assms] by (metis of_nat_Suc add.commute of_nat_unat uint_nat)

text \<open>A reading whose date exists and whose time of day exists.\<close>

definition validDate :: "LocalTime \<Rightarrow> bool" where
  "validDate t \<longleftrightarrow> 1 \<le> uint (lt_month t) \<and> uint (lt_month t) \<le> 12 \<and> 1 \<le> uint (lt_day t) \<and>
     uint (lt_day t) \<le> monthLength (uint (lt_year t)) (uint (lt_month t))"

definition validClock :: "LocalTime \<Rightarrow> bool" where
  "validClock t \<longleftrightarrow> validDate t \<and> uint (lt_hour t) \<le> 23 \<and> uint (lt_minute t) \<le> 59 \<and> uint (lt_second t) \<le> 59"

definition dayOf :: "LocalTime \<Rightarrow> int" where
  "dayOf t = dayNumber (uint (lt_year t)) (uint (lt_month t)) (uint (lt_day t))"

definition secondOfDay :: "LocalTime \<Rightarrow> int" where
  "secondOfDay t = uint (lt_hour t) * 3600 + uint (lt_minute t) * 60 + uint (lt_second t)"

definition epochSeconds :: "LocalTime \<Rightarrow> int" where
  "epochSeconds t = dayOf t * 86400 + secondOfDay t"

lemma monthLength_bounds: "28 \<le> monthLength y m \<and> monthLength y m \<le> 31"
  by (simp add: monthLength_def)

lemma isValidUtc_iff:
  "isValidUtc (lt_year t) (lt_month t) (lt_day t) (lt_hour t) (lt_minute t) (lt_second t) \<longleftrightarrow>
     2000 \<le> uint (lt_year t) \<and> uint (lt_year t) \<le> 2199 \<and> validClock t"
  using rtcDaysInMonth_word [of "lt_month t" "lt_year t"]
  by (auto simp: isValidUtc_def validClock_def validDate_def word_less_def word_le_def Let_def)

text \<open>The date after a date, as \<open>addOneSecond\<close> and the time zone conversion compute it.\<close>

definition nextDay :: "LocalTime \<Rightarrow> LocalTime" where
  "nextDay t =
     (if lt_day t + 1 \<le> rtcDaysInMonth (lt_year t) (lt_month t) then t\<lparr>lt_day := lt_day t + 1\<rparr>
      else if lt_month t + 1 \<le> 12 then t\<lparr>lt_day := 1, lt_month := lt_month t + 1\<rparr>
      else t\<lparr>lt_day := 1, lt_month := 1, lt_year := lt_year t + 1\<rparr>)"

lemma uint_Suc_small: "uint (x :: u8) < 255 \<Longrightarrow> uint (x + 1) = uint x + 1"
  by (rule uint_Suc_less [of _ 255]) (simp add: word_less_def)

lemma nextDay_correct:
  assumes "validDate t" "uint (lt_year t) < 65535"
  shows "validDate (nextDay t) \<and> dayOf (nextDay t) = dayOf t + 1"
proof -
  let ?y = "uint (lt_year t)" and ?m = "uint (lt_month t)" and ?d = "uint (lt_day t)"
  have m: "1 \<le> ?m" "?m \<le> 12" and d: "1 \<le> ?d" "?d \<le> monthLength ?y ?m"
    using assms(1) by (auto simp: validDate_def)
  have d1: "uint (lt_day t + 1) = ?d + 1" and m1: "uint (lt_month t + 1) = ?m + 1"
    using d m monthLength_bounds [of ?y ?m] by (auto intro: uint_Suc_small)
  have y1: "uint (lt_year t + 1) = ?y + 1"
    using assms(2) by (intro uint_Suc_less [of _ 65535]) (simp add: word_less_def)
  have c1: "(lt_day t + 1 \<le> rtcDaysInMonth (lt_year t) (lt_month t)) = (?d + 1 \<le> monthLength ?y ?m)"
    by (simp add: word_le_def d1 rtcDaysInMonth_word [OF m])
  have c2: "(lt_month t + 1 \<le> 12) = (?m + 1 \<le> 12)" by (simp add: word_le_def m1)
  consider (day) "?d + 1 \<le> monthLength ?y ?m"
    | (month) "?d = monthLength ?y ?m" "?m \<le> 11" | (year) "?d = monthLength ?y ?m" "?m = 12"
    using d m by linarith
  then show ?thesis
  proof cases
    case day
    then show ?thesis
      using m d by (simp add: nextDay_def c1 validDate_def dayOf_def d1 dayNumber_next_day)
  next
    case month
    then show ?thesis
      using m monthLength_bounds [of ?y "?m + 1"] dayNumber_next_month [OF m(1) month(2), of ?y]
      by (simp add: nextDay_def c1 c2 validDate_def dayOf_def m1)
  next
    case year
    then show ?thesis
      using dayNumber_next_year [of ?y]
      by (simp add: nextDay_def c1 c2 validDate_def dayOf_def y1 monthLength_def)
  qed
qed

lemma nextDay_fields [simp]:
  "lt_hour (nextDay t) = lt_hour t" "lt_minute (nextDay t) = lt_minute t"
  "lt_second (nextDay t) = lt_second t" "lt_valid (nextDay t) = lt_valid t"
  "lt_minuteOfDay (nextDay t) = lt_minuteOfDay t"
  by (simp_all add: nextDay_def)

lemma dayOf_time [simp]:
  "dayOf (t\<lparr>lt_hour := h\<rparr>) = dayOf t" "dayOf (t\<lparr>lt_minute := m\<rparr>) = dayOf t"
  "dayOf (t\<lparr>lt_second := s\<rparr>) = dayOf t" "dayOf (t\<lparr>lt_minuteOfDay := k\<rparr>) = dayOf t"
  "dayOf (t\<lparr>lt_valid := v\<rparr>) = dayOf t"
  "validDate (t\<lparr>lt_hour := h\<rparr>) = validDate t" "validDate (t\<lparr>lt_minute := m\<rparr>) = validDate t"
  "validDate (t\<lparr>lt_second := s\<rparr>) = validDate t" "validDate (t\<lparr>lt_minuteOfDay := k\<rparr>) = validDate t"
  "validDate (t\<lparr>lt_valid := v\<rparr>) = validDate t"
  by (simp_all add: dayOf_def validDate_def)

lemma addOneSecond_step:
  assumes "validClock t" "uint (lt_year t) < 65535"
  shows "validClock (addOneSecond t) \<and> epochSeconds (addOneSecond t) = epochSeconds t + 1"
proof -
  have b: "validDate t" "uint (lt_hour t) \<le> 23" "uint (lt_minute t) \<le> 59" "uint (lt_second t) \<le> 59"
    using assms(1) by (simp_all add: validClock_def)
  have u: "uint (lt_second t + 1) = uint (lt_second t) + 1" "uint (lt_minute t + 1) = uint (lt_minute t) + 1"
    "uint (lt_hour t + 1) = uint (lt_hour t) + 1"
    using b by (auto intro: uint_Suc_small)
  have step: "addOneSecond t =
    (if uint (lt_second t) < 59 then t\<lparr>lt_second := lt_second t + 1\<rparr>
     else if uint (lt_minute t) < 59 then t\<lparr>lt_second := 0, lt_minute := lt_minute t + 1\<rparr>
     else if uint (lt_hour t) < 23 then t\<lparr>lt_second := 0, lt_minute := 0, lt_hour := lt_hour t + 1\<rparr>
     else (nextDay t)\<lparr>lt_second := 0, lt_minute := 0, lt_hour := 0\<rparr>)"
    using u by (auto simp: addOneSecond_def nextDay_def word_le_def Let_def)
  note n = nextDay_correct [OF b(1) assms(2)]
  show ?thesis
    using b n u unfolding step
    by (auto simp: validClock_def epochSeconds_def secondOfDay_def)
qed

text \<open>The days of the years the chip can hold.\<close>

lemma dayNumber_bounds:
  assumes "2000 \<le> y" "y \<le> 2199" "1 \<le> m" "m \<le> 12" "1 \<le> d" "d \<le> 31"
  shows "0 \<le> dayNumber y m d \<and> dayNumber y m d < 100000"
proof -
  define y' where "y' = (if m \<le> 2 then y - 1 else y)"
  define mp where "mp = (if m > 2 then m - 3 else m + 9)"
  have b: "1999 \<le> y'" "y' \<le> 2199" "0 \<le> mp" "mp \<le> 11" using assms by (auto simp: y'_def mp_def)
  have q4: "499 \<le> y' div 4" "y' div 4 \<le> 549"
    using zdiv_mono1 [OF b(1), of 4] zdiv_mono1 [OF b(2), of 4] by simp_all
  have q100: "19 \<le> y' div 100" "y' div 100 \<le> 21"
    using zdiv_mono1 [OF b(1), of 100] zdiv_mono1 [OF b(2), of 100] by simp_all
  have q400: "4 \<le> y' div 400" "y' div 400 \<le> 5"
    using zdiv_mono1 [OF b(1), of 400] zdiv_mono1 [OF b(2), of 400] by simp_all
  have m5: "2 \<le> 153 * mp + 2" "153 * mp + 2 \<le> 1685" using b by simp_all
  have q5: "0 \<le> (153 * mp + 2) div 5" "(153 * mp + 2) div 5 \<le> 337"
    using zdiv_mono1 [OF m5(1), of 5] zdiv_mono1 [OF m5(2), of 5] by simp_all
  have "dayNumber y m d = 365 * y' + y' div 4 - y' div 100 + y' div 400 + (153 * mp + 2) div 5 + d - 719469"
    by (simp add: dayNumber_def Let_def y'_def mp_def)
  then show ?thesis using q4 q100 q400 q5 b(1,2) assms(5,6) by linarith
qed

end
