(* ===== verification/RtcService.thy ===== *)
theory RtcService
  imports Calendar
begin

text \<open>
  The battery-backed clock \<open>aquaOneCore/src/Time/RtcService.cpp\<close>: BCD registers of the chip, their
  decoding with every validity check, and the write-and-verify sequence of \<open>setUtc\<close>. The I2C bus is
  the abstract class \<open>RtcBus\<close>, a record of operations on a bus state \<open>'b\<close>.
\<close>

unbundle bit_operations_syntax

section \<open>Bus and registers\<close>

text \<open>
  \<open>readRegisters(device, start, buffer, length)\<close> gives the flag it returns and the bytes it stored at
  the start of \<open>buffer\<close>.
\<close>

record 'b rtc_bus =
  rbBegin :: "'b \<Rightarrow> int \<Rightarrow> int \<Rightarrow> bool \<times> 'b"
  rbReadRegisters :: "'b \<Rightarrow> u8 \<Rightarrow> u8 \<Rightarrow> nat \<Rightarrow> bool \<times> bytes \<times> 'b"
  rbWriteRegisters :: "'b \<Rightarrow> u8 \<Rightarrow> u8 \<Rightarrow> bytes \<Rightarrow> bool \<times> 'b"

record RtcConfig =
  rc_sdaPin :: int
  rc_sclPin :: int
  rc_i2cAddress :: u8

record 'b rtc_service =
  rtc_bus :: 'b
  rtc_config :: RtcConfig
  rtc_initialized :: bool
  rtc_valid :: bool

definition RTC_STATUS_REGISTER :: u8 where "RTC_STATUS_REGISTER = 0x0F"
definition RTC_OSF_MASK :: u8 where "RTC_OSF_MASK = 0x80"

definition RtcService_new :: "'b \<Rightarrow> RtcConfig \<Rightarrow> 'b rtc_service" where
  "RtcService_new b config =
     \<lparr>rtc_bus = b, rtc_config = config, rtc_initialized = False, rtc_valid = False\<rparr>"

text \<open>A read into a zeroed buffer of the given length.\<close>

definition rtcReadRegisters ::
  "'b rtc_bus \<Rightarrow> 'b rtc_service \<Rightarrow> u8 \<Rightarrow> nat \<Rightarrow> bool \<times> bytes \<times> 'b rtc_service" where
  "rtcReadRegisters ops s start n =
     (let (ok, content, b) = rbReadRegisters ops (rtc_bus s) (rc_i2cAddress (rtc_config s)) start n
      in (ok, write_at (replicate n 0) 0 content, s\<lparr>rtc_bus := b\<rparr>))"

definition rtcWriteRegisters ::
  "'b rtc_bus \<Rightarrow> 'b rtc_service \<Rightarrow> u8 \<Rightarrow> bytes \<Rightarrow> bool \<times> 'b rtc_service" where
  "rtcWriteRegisters ops s start xs =
     (let (ok, b) = rbWriteRegisters ops (rtc_bus s) (rc_i2cAddress (rtc_config s)) start xs
      in (ok, s\<lparr>rtc_bus := b\<rparr>))"

definition decodeBcd :: "u8 \<Rightarrow> u8 \<Rightarrow> u8 option" where
  "decodeBcd value maximum =
     (let lowDigit = value AND 0x0F; highDigit = drop_bit 4 value
      in if lowDigit > 9 \<or> highDigit > 9 then None
      else let decoded = highDigit * 10 + lowDigit in if decoded \<le> maximum then Some decoded else None)"

definition decToBcd :: "u8 \<Rightarrow> u8" where
  "decToBcd value = push_bit 4 (value div 10) OR (value mod 10)"

text \<open>The hour register, in 12 or 24 hour mode.\<close>

definition decodeHour :: "u8 \<Rightarrow> u8 option" where
  "decodeHour hourRegister =
     (if hourRegister AND 0x80 \<noteq> 0 then None
      else if hourRegister AND 0x40 \<noteq> 0 then
        (case decodeBcd (hourRegister AND 0x1F) 12 of
           None \<Rightarrow> None
         | Some hour12 \<Rightarrow>
            if hour12 < 1 then None
            else Some (if hourRegister AND 0x20 \<noteq> 0 then hour12 mod 12 + 12 else hour12 mod 12))
      else decodeBcd (hourRegister AND 0x3F) 23)"

text \<open>
  \<open>decodeDateTimeRegisters(data, result)\<close>: the result on success; \<open>None\<close> for \<open>data\<close> is null, and on
  failure the caller's \<open>result\<close> is the empty reading.
\<close>

definition decodeDateTimeRegisters :: "bytes option \<Rightarrow> LocalTime option" where
  "decodeDateTimeRegisters dataPtr =
     (case dataPtr of
        None \<Rightarrow> None
      | Some d \<Rightarrow>
         if d ! 0 AND 0x80 \<noteq> 0 \<or> decodeBcd (d ! 0) 59 = None then None
         else if d ! 1 AND 0x80 \<noteq> 0 \<or> decodeBcd (d ! 1) 59 = None then None
         else if decodeHour (d ! 2) = None then None
         else if d ! 4 AND 0xC0 \<noteq> 0 \<or> decodeBcd (d ! 4) 31 = None then None
         else if d ! 5 AND 0x60 \<noteq> 0 \<or> decodeBcd (d ! 5 AND 0x1F) 12 = None then None
         else if decodeBcd (d ! 6) 99 = None then None
         else
           let second = the (decodeBcd (d ! 0) 59); minute = the (decodeBcd (d ! 1) 59);
               hour = the (decodeHour (d ! 2)); day = the (decodeBcd (d ! 4) 31);
               month = the (decodeBcd (d ! 5 AND 0x1F) 12); yearPart = the (decodeBcd (d ! 6) 99);
               year = 2000 + (if d ! 5 AND 0x80 \<noteq> 0 then 100 else 0) + (ucast yearPart :: u16)
           in if \<not> isValidUtc year month day hour minute second then None
           else Some \<lparr>lt_valid = True, lt_year = year, lt_month = month, lt_day = day,
                      lt_hour = hour, lt_minute = minute, lt_second = second,
                      lt_minuteOfDay = ucast hour * 60 + ucast minute\<rparr>)"

definition sameDateTime :: "LocalTime \<Rightarrow> u16 \<Rightarrow> u8 \<Rightarrow> u8 \<Rightarrow> u8 \<Rightarrow> u8 \<Rightarrow> u8 \<Rightarrow> bool" where
  "sameDateTime v year month day hour minute second \<longleftrightarrow>
     lt_year v = year \<and> lt_month v = month \<and> lt_day v = day \<and> lt_hour v = hour \<and>
     lt_minute v = minute \<and> lt_second v = second"

definition matchesWrittenTime :: "LocalTime \<Rightarrow> u16 \<Rightarrow> u8 \<Rightarrow> u8 \<Rightarrow> u8 \<Rightarrow> u8 \<Rightarrow> u8 \<Rightarrow> bool" where
  "matchesWrittenTime v year month day hour minute second =
     (if sameDateTime v year month day hour minute second then True
      else
        let oneSecondLater = addOneSecond (emptyLocalTime\<lparr>lt_year := year, lt_month := month,
              lt_day := day, lt_hour := hour, lt_minute := minute, lt_second := second\<rparr>)
        in sameDateTime v (lt_year oneSecondLater) (lt_month oneSecondLater) (lt_day oneSecondLater)
             (lt_hour oneSecondLater) (lt_minute oneSecondLater) (lt_second oneSecondLater))"

section \<open>Operations\<close>

definition rtc_begin :: "'b rtc_bus \<Rightarrow> 'b rtc_service \<Rightarrow> bool \<times> 'b rtc_service" where
  "rtc_begin ops s =
     (let (started, b) = rbBegin ops (rtc_bus s) (rc_sdaPin (rtc_config s)) (rc_sclPin (rtc_config s));
          s1 = s\<lparr>rtc_bus := b, rtc_initialized := started, rtc_valid := False\<rparr>
      in if \<not> started then (False, s1)
      else
        let (ok, status, s2) = rtcReadRegisters ops s1 RTC_STATUS_REGISTER 1
        in if \<not> ok then (False, s2)
        else (True, s2\<lparr>rtc_valid := (status ! 0 AND RTC_OSF_MASK = 0)\<rparr>))"

definition rtc_read :: "'b rtc_bus \<Rightarrow> 'b rtc_service \<Rightarrow> LocalTime \<times> 'b rtc_service" where
  "rtc_read ops s =
     (if \<not> rtc_initialized s then (emptyLocalTime, s\<lparr>rtc_valid := False\<rparr>)
      else
        let (ok1, status, s1) = rtcReadRegisters ops s RTC_STATUS_REGISTER 1
        in if \<not> ok1 then (emptyLocalTime, s1\<lparr>rtc_valid := False\<rparr>)
        else if status ! 0 AND RTC_OSF_MASK \<noteq> 0 then (emptyLocalTime, s1\<lparr>rtc_valid := False\<rparr>)
        else
          let (ok2, dateTime, s2) = rtcReadRegisters ops s1 0 7
          in if \<not> ok2 then (emptyLocalTime, s2\<lparr>rtc_valid := False\<rparr>)
          else
            case decodeDateTimeRegisters (Some dateTime) of
              None \<Rightarrow> (emptyLocalTime, s2\<lparr>rtc_valid := False\<rparr>)
            | Some result \<Rightarrow> (result, s2\<lparr>rtc_valid := True\<rparr>))"

definition rtc_isValid :: "'b rtc_service \<Rightarrow> bool" where
  "rtc_isValid s \<longleftrightarrow> rtc_initialized s \<and> rtc_valid s"

definition rtc_isInitialized :: "'b rtc_service \<Rightarrow> bool" where
  "rtc_isInitialized s \<longleftrightarrow> rtc_initialized s"

text \<open>The seven date and time registers \<open>setUtc\<close> writes.\<close>

definition encodeDateTimeRegisters :: "u16 \<Rightarrow> u8 \<Rightarrow> u8 \<Rightarrow> u8 \<Rightarrow> u8 \<Rightarrow> u8 \<Rightarrow> bytes" where
  "encodeDateTimeRegisters year month day hour minute second =
     [decToBcd second, decToBcd minute, decToBcd hour, decToBcd 1, decToBcd day,
      (if year \<ge> 2100 then decToBcd month OR 0x80 else decToBcd month),
      decToBcd (ucast (year mod 100))]"

definition rtc_setUtc ::
  "'b rtc_bus \<Rightarrow> 'b rtc_service \<Rightarrow> u16 \<Rightarrow> u8 \<Rightarrow> u8 \<Rightarrow> u8 \<Rightarrow> u8 \<Rightarrow> u8 \<Rightarrow> bool \<times> 'b rtc_service" where
  "rtc_setUtc ops s year month day hour minute second =
     (if \<not> rtc_initialized s then (False, s)
      else if \<not> isValidUtc year month day hour minute second then (False, s)
      else
        let (ok1, s1) = rtcWriteRegisters ops s 0
              (encodeDateTimeRegisters year month day hour minute second)
        in if \<not> ok1 then (False, s1\<lparr>rtc_valid := False\<rparr>)
        else
          let (ok2, status, s2) = rtcReadRegisters ops s1 RTC_STATUS_REGISTER 1
          in if \<not> ok2 then (False, s2\<lparr>rtc_valid := False\<rparr>)
          else
            let (ok3, s3) = rtcWriteRegisters ops s2 RTC_STATUS_REGISTER [status ! 0 AND NOT RTC_OSF_MASK]
            in if \<not> ok3 then (False, s3\<lparr>rtc_valid := False\<rparr>)
            else
              let (ok4, verifiedStatus, s4) = rtcReadRegisters ops s3 RTC_STATUS_REGISTER 1
              in if \<not> ok4 \<or> verifiedStatus ! 0 AND RTC_OSF_MASK \<noteq> 0
                 then (False, s4\<lparr>rtc_valid := False\<rparr>)
              else
                let (ok5, verifiedData, s5) = rtcReadRegisters ops s4 0 7
                in if \<not> ok5 then (False, s5\<lparr>rtc_valid := False\<rparr>)
                else
                  case decodeDateTimeRegisters (Some verifiedData) of
                    None \<Rightarrow> (False, s5\<lparr>rtc_valid := False\<rparr>)
                  | Some verifiedTime \<Rightarrow>
                     if \<not> matchesWrittenTime verifiedTime year month day hour minute second
                     then (False, s5\<lparr>rtc_valid := False\<rparr>)
                     else (True, s5\<lparr>rtc_valid := True\<rparr>))"

section \<open>Registers hold what was encoded\<close>

lemma u8_less_16: "x < 16 \<Longrightarrow> take_bit 4 x = x" for x :: u8
  using less_mask_eq [of x 4] by (simp add: take_bit_eq_mask)

lemma nibbles:
  fixes h l :: u8
  assumes "h < 16" "l < 16"
  shows "drop_bit 4 (push_bit 4 h OR l) = h" "(push_bit 4 h OR l) AND 0x0F = l"
proof -
  have hl: "take_bit 4 h = h" "take_bit 4 l = l" using assms by (simp_all add: u8_less_16)
  have m: "(0x0F :: u8) = mask 4" by (simp add: mask_eq_exp_minus_1)
  have "drop_bit 4 (push_bit 4 (take_bit 4 h) OR take_bit 4 l) = take_bit 4 h"
    by (rule bit_word_eqI) (auto simp: bit_simps)
  then show "drop_bit 4 (push_bit 4 h OR l) = h" unfolding hl .
  have "take_bit 4 (push_bit 4 h OR take_bit 4 l) = take_bit 4 l"
    by (rule bit_word_eqI) (auto simp: bit_simps)
  then show "(push_bit 4 h OR l) AND 0x0F = l" unfolding hl m take_bit_eq_mask [symmetric] by (simp only: hl)
qed

lemma nibble_mask:
  fixes h l :: u8
  assumes "l < 16"
  shows "m AND 0x0F = 0 \<Longrightarrow> (push_bit 4 h OR l) AND m = push_bit 4 h AND m"
    and "m AND 0x0F = 0x0F \<Longrightarrow> (push_bit 4 h OR l) AND m = (push_bit 4 h AND m) OR l"
proof -
  have l: "l AND 0x0F = l"
    using u8_less_16 [OF assms] by (simp add: take_bit_eq_mask mask_eq_exp_minus_1)
  have "l AND m = (l AND 0x0F) AND m" by (simp only: l)
  also have "\<dots> = l AND (m AND 0x0F)" by (simp only: and.assoc and.commute [of 15 m])
  finally have lm: "l AND m = l AND (m AND 0x0F)" .
  then show "m AND 0x0F = 0 \<Longrightarrow> (push_bit 4 h OR l) AND m = push_bit 4 h AND m"
    and "m AND 0x0F = 0x0F \<Longrightarrow> (push_bit 4 h OR l) AND m = (push_bit 4 h AND m) OR l"
    using l lm by (simp_all add: bit.conj_disj_distrib2)
qed

lemma bcd_digits:
  fixes v :: u8
  assumes "uint v \<le> 99"
  shows "v div 10 < 16" "v mod 10 < 16" "v div 10 \<le> 9" "v mod 10 \<le> 9" "v div 10 * 10 + v mod 10 = v"
proof -
  have d: "uint (v div 10) = uint v div 10" "uint (v mod 10) = uint v mod 10"
    by (simp_all add: uint_div uint_mod)
  have "uint v div 10 \<le> 9" using assms zdiv_mono1 [of "uint v" 99 10] by simp
  then show "v div 10 < 16" "v mod 10 < 16" "v div 10 \<le> 9" "v mod 10 \<le> 9"
    using d pos_mod_bound [of 10 "uint v"] by (simp_all add: word_less_def word_le_def)
  show "v div 10 * 10 + v mod 10 = v" by (rule div_mult_mod_eq)
qed

lemma decodeBcd_decToBcd:
  assumes "uint v \<le> 99"
  shows "decodeBcd (decToBcd v) maximum = (if v \<le> maximum then Some v else None)"
  using bcd_digits(3-4) [OF assms, THEN leD] bcd_digits(5) [OF assms]
  unfolding decodeBcd_def decToBcd_def nibbles [OF bcd_digits(1,2) [OF assms]] Let_def
  by simp

lemma tens_cases:
  fixes v :: u8
  assumes "uint v \<le> 59"
  shows "v div 10 \<in> {0, 1, 2, 3, 4, 5}"
    and "uint v \<le> 39 \<Longrightarrow> v div 10 \<in> {0, 1, 2, 3}" and "uint v \<le> 19 \<Longrightarrow> v div 10 \<in> {0, 1}"
proof -
  have d: "uint (v div 10) = uint v div 10" by (simp add: uint_div)
  have "uint v div 10 \<in> {0, 1, 2, 3, 4, 5}" using assms uint_ge_0 [of v] by (simp, presburger)
  then show "v div 10 \<in> {0, 1, 2, 3, 4, 5}" by (simp add: word_uint_eq_iff d)
  show "v div 10 \<in> {0, 1, 2, 3}" if "uint v \<le> 39"
  proof -
    have "uint v div 10 \<in> {0, 1, 2, 3}" using that uint_ge_0 [of v] by (simp, presburger)
    then show ?thesis by (simp add: word_uint_eq_iff d)
  qed
  show "v div 10 \<in> {0, 1}" if "uint v \<le> 19"
  proof -
    have "uint v div 10 \<in> {0, 1}" using that uint_ge_0 [of v] by (simp, presburger)
    then show ?thesis by (simp add: word_uint_eq_iff d)
  qed
qed

lemma decToBcd_masks:
  assumes "uint v \<le> 59"
  shows "decToBcd v AND 0x80 = 0"
    and "uint v \<le> 39 \<Longrightarrow> decToBcd v AND 0xC0 = 0" and "uint v \<le> 39 \<Longrightarrow> decToBcd v AND 0x40 = 0"
    and "uint v \<le> 39 \<Longrightarrow> decToBcd v AND 0x3F = decToBcd v"
    and "uint v \<le> 19 \<Longrightarrow> decToBcd v AND 0x60 = 0"
    and "uint v \<le> 19 \<Longrightarrow> decToBcd v AND 0x1F = decToBcd v"
proof -
  have l: "v mod 10 < 16" using assms by (intro bcd_digits) simp
  note t = tens_cases [OF assms]
  have e: "m AND 0x0F = 0 \<Longrightarrow> decToBcd v AND m = push_bit 4 (v div 10) AND m"
    "m AND 0x0F = 0x0F \<Longrightarrow> decToBcd v AND m = (push_bit 4 (v div 10) AND m) OR v mod 10" for m
    by (simp_all only: decToBcd_def nibble_mask [OF l])
  show "decToBcd v AND 0x80 = 0" using t(1) by (elim insertE emptyE) (simp_all add: e)
  show "uint v \<le> 39 \<Longrightarrow> decToBcd v AND 0xC0 = 0" "uint v \<le> 39 \<Longrightarrow> decToBcd v AND 0x40 = 0"
    by (drule t(2), elim insertE emptyE; simp add: e)+
  show "uint v \<le> 39 \<Longrightarrow> decToBcd v AND 0x3F = decToBcd v"
    by (drule t(2), elim insertE emptyE; simp add: e; simp add: decToBcd_def)
  show "uint v \<le> 19 \<Longrightarrow> decToBcd v AND 0x60 = 0"
    by (drule t(3), elim insertE emptyE; simp add: e)
  show "uint v \<le> 19 \<Longrightarrow> decToBcd v AND 0x1F = decToBcd v"
    by (drule t(3), elim insertE emptyE; simp add: e; simp add: decToBcd_def)
qed

lemma uint_ucast_mod:
  "uint (ucast (x :: 'a::len word) :: 'b::len word) = uint x mod 2 ^ LENGTH('b)"
  by transfer (simp add: take_bit_eq_mod)

text \<open>What \<open>setUtc\<close> writes decodes to the time it was given.\<close>

lemma decode_encode:
  assumes "isValidUtc year month day hour minute second"
  shows "decodeDateTimeRegisters (Some (encodeDateTimeRegisters year month day hour minute second)) =
    Some \<lparr>lt_valid = True, lt_year = year, lt_month = month, lt_day = day, lt_hour = hour,
      lt_minute = minute, lt_second = second, lt_minuteOfDay = ucast hour * 60 + ucast minute\<rparr>"
proof -
  let ?t = "\<lparr>lt_valid = True, lt_year = year, lt_month = month, lt_day = day, lt_hour = hour,
      lt_minute = minute, lt_second = second, lt_minuteOfDay = 0\<rparr>"
  have y: "2000 \<le> uint year" "uint year \<le> 2199" and v: "validClock ?t"
    using assms isValidUtc_iff [of ?t] by simp_all
  have b: "uint second \<le> 59" "uint minute \<le> 59" "uint hour \<le> 23" "uint day \<le> 31" "uint month \<le> 12"
    using v monthLength_bounds [of "uint year" "uint month"] by (auto simp: validClock_def validDate_def)
  have le: "second \<le> 59" "minute \<le> 59" "hour \<le> 23" "day \<le> 31" "month \<le> 12"
    using b by (simp_all add: word_le_def)
  define c :: int where "c = (if 2100 \<le> uint year then 1 else 0)"
  have c: "(2100 \<le> year) = (c = 1)" by (simp add: c_def word_le_def)
  have m: "uint (year mod 100) = uint year mod 100" by (simp add: uint_mod)
  have part: "uint (ucast (year mod 100) :: u8) = uint year mod 100"
    by (simp add: uint_ucast_mod m)
  have p99: "(ucast (year mod 100) :: u8) \<le> 99" using part by (simp add: word_le_def)
  have mon: "(if 2100 \<le> year then decToBcd month OR 0x80 else decToBcd month) AND 0x60 = 0"
      "(if 2100 \<le> year then decToBcd month OR 0x80 else decToBcd month) AND 0x1F = decToBcd month"
      "((if 2100 \<le> year then decToBcd month OR 0x80 else decToBcd month) AND 0x80 = 0) = (c = 0)"
    using decToBcd_masks(1,5,6) [of month] b c
    by (auto simp: bit.conj_disj_distrib2 c_def)
  have year: "2000 + (if c = 0 then 0 else 100) + (ucast (ucast (year mod 100) :: u8) :: u16) = year"
  proof -
    have "uint year mod 100 = uint year - 2000 - 100 * c"
      using y by (intro int_mod_pos_eq [of _ _ "20 + c"]) (auto simp: c_def)
    then have u: "uint (ucast (ucast (year mod 100) :: u8) :: u16) = uint year - 2000 - 100 * c"
      using part by (simp add: uint_ucast_mod [where 'b = 16])
    have "(ucast (ucast (year mod 100) :: u8) :: u16) = of_int (uint year - 2000 - 100 * c)"
      unfolding u [symmetric] by simp
    then show ?thesis by (simp add: c_def)
  qed
  show ?thesis
    using decToBcd_masks(1) [of second] decToBcd_masks(1) [of minute] decToBcd_masks [of hour]
      decToBcd_masks [of day] b le mon p99 part year assms
    by (cases "c = 0") (simp_all add: decodeDateTimeRegisters_def encodeDateTimeRegisters_def
        decodeHour_def decodeBcd_decToBcd Let_def)
qed

text \<open>Whatever is decoded is a valid time.\<close>

lemma decode_valid:
  "decodeDateTimeRegisters d = Some t \<Longrightarrow> lt_valid t \<and> lt_minuteOfDay t = ucast (lt_hour t) * 60 + ucast (lt_minute t) \<and>
     isValidUtc (lt_year t) (lt_month t) (lt_day t) (lt_hour t) (lt_minute t) (lt_second t)"
  by (auto simp: decodeDateTimeRegisters_def Let_def split: option.split_asm if_split_asm)

section \<open>A chip that keeps its registers\<close>

text \<open>
  The contract of a DS3231 on the bus: a register file. A read gives the registers and changes
  nothing, a write stores its bytes; the clock does not tick between two accesses.
\<close>

locale register_file =
  fixes ops :: "'b rtc_bus" and regs :: "'b \<Rightarrow> u8 \<Rightarrow> u8"
  assumes start_ok: "fst (rbBegin ops b sda scl)"
    and start_regs: "regs (snd (rbBegin ops b sda scl)) = regs b"
    and read_regs: "rbReadRegisters ops b dev r n = (True, map (\<lambda>i. regs b (r + of_nat i)) [0..<n], b)"
    and write_ok: "fst (rbWriteRegisters ops b dev r xs)"
    and write_regs: "length xs \<le> 16 \<Longrightarrow>
      regs (snd (rbWriteRegisters ops b dev r xs)) k =
        (if unat (k - r) < length xs then xs ! unat (k - r) else regs b k)"
begin

lemma service_read:
  "rtcReadRegisters ops s r n = (True, map (\<lambda>i. regs (rtc_bus s) (r + of_nat i)) [0..<n], s)"
  by (simp add: rtcReadRegisters_def read_regs write_at_def)

lemma set_then_read:
  assumes init: "rtc_initialized s" and valid: "isValidUtc year month day hour minute second"
  shows "\<exists>t. rtc_setUtc ops s year month day hour minute second = (True, t) \<and> rtc_initialized t \<and>
    fst (rtc_read ops t) = \<lparr>lt_valid = True, lt_year = year, lt_month = month, lt_day = day,
      lt_hour = hour, lt_minute = minute, lt_second = second,
      lt_minuteOfDay = ucast hour * 60 + ucast minute\<rparr>"
proof -
  let ?enc = "encodeDateTimeRegisters year month day hour minute second"
  obtain s1 where s1: "rtcWriteRegisters ops s 0 ?enc = (True, s1)"
    using write_ok by (simp add: rtcWriteRegisters_def split_beta)
  have len: "length ?enc = 7" by (simp add: encodeDateTimeRegisters_def)
  define status where "status = regs (rtc_bus s1) 0x0F AND NOT RTC_OSF_MASK"
  obtain s2 where s2: "rtcWriteRegisters ops s1 RTC_STATUS_REGISTER [status] = (True, s2)"
    using write_ok by (simp add: rtcWriteRegisters_def split_beta)
  have b1: "regs (rtc_bus s1) k = (if unat k < 7 then ?enc ! unat k else regs (rtc_bus s) k)" for k
    using s1 write_regs [of ?enc "rtc_bus s" "rc_i2cAddress (rtc_config s)" 0 k] len
    by (auto simp: rtcWriteRegisters_def split_beta)
  have b2: "regs (rtc_bus s2) k = (if k = 0x0F then status else regs (rtc_bus s1) k)" for k
    using s2 write_regs [of "[status]" "rtc_bus s1" "rc_i2cAddress (rtc_config s1)" RTC_STATUS_REGISTER k]
    by (auto simp: rtcWriteRegisters_def split_beta RTC_STATUS_REGISTER_def unat_eq_0)
  have st: "status AND RTC_OSF_MASK = 0"
    by (simp add: status_def and.assoc)
  have data: "map (\<lambda>i. regs (rtc_bus s2) (0 + of_nat i)) [0..<7] = ?enc"
  proof (rule nth_equalityI)
    fix i
    assume "i < length (map (\<lambda>i. regs (rtc_bus s2) (0 + of_nat i)) [0..<7])"
    then have i: "i < 7" by simp
    then have "unat (of_nat i :: u8) = i" by (simp add: unat_of_nat)
    moreover from this i have "(of_nat i :: u8) \<noteq> 0x0F" by (auto simp: word_unat_eq_iff)
    ultimately show "map (\<lambda>i. regs (rtc_bus s2) (0 + of_nat i)) [0..<7] ! i = ?enc ! i"
      using i by (simp add: b2 b1)
  qed (simp add: len)
  have i2: "rtc_initialized s2"
    using s1 s2 init by (auto simp: rtcWriteRegisters_def split_beta)
  have m: "matchesWrittenTime \<lparr>lt_valid = True, lt_year = year, lt_month = month, lt_day = day,
      lt_hour = hour, lt_minute = minute, lt_second = second,
      lt_minuteOfDay = ucast hour * 60 + ucast minute\<rparr> year month day hour minute second"
    by (simp add: matchesWrittenTime_def sameDateTime_def)
  have stat: "rtcReadRegisters ops s2 RTC_STATUS_REGISTER 1 = (True, [status], s2)"
    "rtcReadRegisters ops s1 RTC_STATUS_REGISTER 1 = (True, [regs (rtc_bus s1) 0x0F], s1)"
    "rtcReadRegisters ops s2 0 7 = (True, ?enc, s2)"
    using data by (simp_all add: service_read RTC_STATUS_REGISTER_def b2)
  have "rtc_setUtc ops s year month day hour minute second = (True, s2\<lparr>rtc_valid := True\<rparr>)"
    using init valid s1 s2 stat st m by (simp add: rtc_setUtc_def decode_encode [OF valid] status_def)
  moreover have "fst (rtc_read ops (s2\<lparr>rtc_valid := True\<rparr>)) = \<lparr>lt_valid = True, lt_year = year, lt_month = month, lt_day = day,
      lt_hour = hour, lt_minute = minute, lt_second = second,
      lt_minuteOfDay = ucast hour * 60 + ucast minute\<rparr>"
  proof -
    let ?t = "s2\<lparr>rtc_valid := True\<rparr>"
    have "rtcReadRegisters ops ?t RTC_STATUS_REGISTER 1 = (True, [status], ?t)"
      "rtcReadRegisters ops ?t 0 7 = (True, ?enc, ?t)"
      using data by (simp_all add: service_read RTC_STATUS_REGISTER_def b2)
    then show ?thesis using i2 st by (simp add: rtc_read_def decode_encode [OF valid])
  qed
  ultimately show ?thesis using i2 by auto
qed

end

text \<open>The contract can be met: a bus whose state is the register file itself.\<close>

definition memoryBus :: "(u8 \<Rightarrow> u8) rtc_bus" where
  "memoryBus =
     \<lparr>rbBegin = (\<lambda>b sda scl. (True, b)),
      rbReadRegisters = (\<lambda>b dev r n. (True, map (\<lambda>i. b (r + of_nat i)) [0..<n], b)),
      rbWriteRegisters = (\<lambda>b dev r xs.
        (True, \<lambda>k. if unat (k - r) < length xs then xs ! unat (k - r) else b k))\<rparr>"

interpretation chip: register_file memoryBus "\<lambda>b. b"
  by unfold_locales (simp_all add: memoryBus_def)

section \<open>What a successful write means on any bus\<close>

lemma setUtc_verified:
  assumes "rtc_setUtc ops s year month day hour minute second = (True, t)"
  shows "rtc_isValid t \<and> (\<exists>d v. decodeDateTimeRegisters d = Some v \<and>
    matchesWrittenTime v year month day hour minute second)"
proof -
  have "rtc_initialized (snd (snd (rtcReadRegisters ops u r n))) = rtc_initialized u"
    "rtc_initialized (snd (rtcWriteRegisters ops u r xs)) = rtc_initialized u" for u r n xs
    by (simp_all add: rtcReadRegisters_def rtcWriteRegisters_def split_beta)
  then show ?thesis
    using assms
    by (auto simp: rtc_setUtc_def rtc_isValid_def Let_def split_beta split: if_split_asm option.split_asm)
qed

end
