(* ===== verification/WarsawTime.thy ===== *)
theory WarsawTime
  imports RtcService
begin

text \<open>
  Central European time, \<open>aquaOneCore/src/Time/EuropeWarsawTimeService.cpp\<close>: the day of the week by
  Zeller's congruence, the last Sunday of a month, the daylight saving rule, and the conversion of a
  UTC reading of the clock chip to local time.
\<close>

definition isLeapYear :: "u16 \<Rightarrow> bool" where
  "isLeapYear year \<longleftrightarrow> (year mod 4 = 0 \<and> year mod 100 \<noteq> 0) \<or> (year mod 400 = 0)"

definition daysInMonth :: "u16 \<Rightarrow> u8 \<Rightarrow> u8" where
  "daysInMonth year month =
     (if month < 1 \<or> month > 12 then 0
      else if month = 2 \<and> isLeapYear year then 29
      else DAYS ! (unat (month - 1)))"

text \<open>\<open>k\<close>, \<open>j\<close> and \<open>h\<close> are 16 bit, the sums in between are \<open>unsigned\<close>.\<close>

definition dayOfWeek :: "u16 \<Rightarrow> u8 \<Rightarrow> u8 \<Rightarrow> u8" where
  "dayOfWeek year0 month0 day =
     (let month = (if month0 < 3 then month0 + 12 else month0);
          year = (if month0 < 3 then year0 - 1 else year0);
          k = year mod 100;
          j = year div 100;
          h = ((ucast day + (13 * (ucast month + 1)) div 5 + ucast k + ucast (k div 4) + ucast (j div 4) +
                5 * ucast j) mod 7 :: u32)
      in ucast ((h + 6) mod 7))"

definition lastSunday :: "u16 \<Rightarrow> u8 \<Rightarrow> u8" where
  "lastSunday year month =
     (let lastDay = daysInMonth year month; dow = dayOfWeek year month lastDay in lastDay - dow)"

definition isDstEuropeWarsaw :: "LocalTime \<Rightarrow> bool" where
  "isDstEuropeWarsaw utc =
     (if lt_month utc < 3 then False
      else if lt_month utc > 10 then False
      else if lt_month utc > 3 \<and> lt_month utc < 10 then True
      else if lt_month utc = 3 then
        (let transitionDay = lastSunday (lt_year utc) 3
         in if lt_day utc > transitionDay then True
            else if lt_day utc < transitionDay then False
            else lt_hour utc \<ge> 1)
      else
        (let transitionDay = lastSunday (lt_year utc) 10
         in if lt_day utc < transitionDay then True
            else if lt_day utc > transitionDay then False
            else lt_hour utc < 1))"

text \<open>One round of the loop of \<open>addMinutes\<close>: the next day.\<close>

definition advanceDay :: "LocalTime \<Rightarrow> LocalTime" where
  "advanceDay t =
     (let t1 = t\<lparr>lt_day := lt_day t + 1\<rparr>; maximumDay = daysInMonth (lt_year t1) (lt_month t1)
      in if lt_day t1 > maximumDay then
           (let t2 = t1\<lparr>lt_day := 1, lt_month := lt_month t1 + 1\<rparr>
            in if lt_month t2 > 12 then t2\<lparr>lt_month := 1, lt_year := lt_year t2 + 1\<rparr> else t2)
         else t1)"

function advanceDays :: "LocalTime \<Rightarrow> u16 \<Rightarrow> LocalTime \<times> u16" where
  "advanceDays t totalMinutes =
     (if totalMinutes \<ge> 1440 then advanceDays (advanceDay t) (totalMinutes - 1440)
      else (t, totalMinutes))"
  by pat_completeness auto

termination
proof (relation "measure (\<lambda>(t, n). unat n)", goal_cases)
  case (2 t n)
  then show ?case by (simp add: unat_sub_if' word_le_nat_alt)
qed simp

declare advanceDays.simps [simp del]

definition addMinutes :: "LocalTime \<Rightarrow> u16 \<Rightarrow> LocalTime" where
  "addMinutes t minutesToAdd =
     (let (t1, totalMinutes) = advanceDays t (ucast (lt_hour t) * 60 + ucast (lt_minute t) + minutesToAdd);
          hour = ucast (totalMinutes div 60);
          minute = ucast (totalMinutes mod 60)
      in t1\<lparr>lt_hour := hour, lt_minute := minute, lt_minuteOfDay := ucast hour * 60 + ucast minute\<rparr>)"

definition convertUtcToWarsaw :: "LocalTime \<Rightarrow> LocalTime" where
  "convertUtcToWarsaw utc =
     (if \<not> lt_valid utc then emptyLocalTime
      else
        let dst = isDstEuropeWarsaw utc; offsetMinutes = (if dst then 120 else 60)
        in (addMinutes utc offsetMinutes)\<lparr>lt_valid := True\<rparr>)"

section \<open>The service\<close>

record 'b warsaw_service =
  wts_rtc :: "'b rtc_service"
  wts_current :: LocalTime

definition EuropeWarsawTimeService_new :: "'b rtc_service \<Rightarrow> 'b warsaw_service" where
  "EuropeWarsawTimeService_new rtc = \<lparr>wts_rtc = rtc, wts_current = emptyLocalTime\<rparr>"

definition warsaw_begin :: "'b rtc_bus \<Rightarrow> 'b warsaw_service \<Rightarrow> bool \<times> 'b warsaw_service" where
  "warsaw_begin ops s =
     (let (started, rtc1) = rtc_begin ops (wts_rtc s)
      in if \<not> started then (False, s\<lparr>wts_rtc := rtc1, wts_current := emptyLocalTime\<rparr>)
      else
        let (utc, rtc2) = rtc_read ops rtc1
        in if \<not> lt_valid utc then (False, s\<lparr>wts_rtc := rtc2, wts_current := emptyLocalTime\<rparr>)
        else
          let current = convertUtcToWarsaw utc
          in (lt_valid current, s\<lparr>wts_rtc := rtc2, wts_current := current\<rparr>))"

definition warsaw_now :: "'b rtc_bus \<Rightarrow> 'b warsaw_service \<Rightarrow> LocalTime \<times> 'b warsaw_service" where
  "warsaw_now ops s =
     (let (utc, rtc1) = rtc_read ops (wts_rtc s);
          current = (if \<not> lt_valid utc then emptyLocalTime else convertUtcToWarsaw utc)
      in (current, s\<lparr>wts_rtc := rtc1, wts_current := current\<rparr>))"

definition warsaw_isValid :: "'b warsaw_service \<Rightarrow> bool" where
  "warsaw_isValid s = lt_valid (wts_current s)"

definition warsaw_rtcInitialized :: "'b warsaw_service \<Rightarrow> bool" where
  "warsaw_rtcInitialized s = rtc_isInitialized (wts_rtc s)"

section \<open>Correctness of the parts\<close>

lemma isLeapYear_rtc: "isLeapYear year = isRtcLeapYear year"
  by (simp add: isLeapYear_def isRtcLeapYear_def)

lemma daysInMonth_rtc: "daysInMonth year month = rtcDaysInMonth year month"
  by (simp add: daysInMonth_def rtcDaysInMonth_def isLeapYear_rtc)

lemma advanceDay_next:
  assumes "validDate t"
  shows "advanceDay t = nextDay t"
proof -
  have m: "1 \<le> uint (lt_month t)" "uint (lt_month t) \<le> 12" using assms by (auto simp: validDate_def)
  then have "uint (lt_month t + 1) = uint (lt_month t) + 1" by (intro uint_Suc_small) simp
  then show ?thesis
    by (auto simp: advanceDay_def nextDay_def daysInMonth_rtc Let_def linorder_not_less [symmetric])
qed

text \<open>Zeller's congruence is the day count modulo 7: 1970-01-01 was a Thursday.\<close>

lemma century_split:
  fixes y :: int
  shows "y div 4 = 25 * (y div 100) + (y mod 100) div 4" "y div 400 = (y div 100) div 4"
    "365 * y = 36500 * (y div 100) + 365 * (y mod 100)"
proof -
  have a: "y = y mod 100 + 25 * (y div 100) * 4" by simp
  show "y div 4 = 25 * (y div 100) + (y mod 100) div 4"
    by (subst a) (simp only: div_mult_self1 [of 4] zero_neq_numeral not_False_eq_True simp_thms)
  show "y div 400 = (y div 100) div 4" by (simp add: zdiv_zmult2_eq [symmetric])
  show "365 * y = 36500 * (y div 100) + 365 * (y mod 100)"
    using mult_div_mod_eq [of 100 y] by linarith
qed

text \<open>The month term: Zeller's month counts from 3 to 14, the day count's from 0 to 11.\<close>

lemma zeller_month:
  fixes mp :: int
  assumes "0 \<le> mp" "mp \<le> 11"
  shows "((13 * (mp + 4)) div 5 - (153 * mp + 2) div 5) mod 7 = 3"
proof -
  have "mp \<in> {0, 1, 2, 3, 4, 5, 6, 7, 8, 9, 10, 11}" using assms by (simp, presburger)
  then show ?thesis by (elim insertE emptyE) simp_all
qed

lemma zeller_dayNumber:
  fixes y m d :: int
  defines "y' \<equiv> (if m \<le> 2 then y - 1 else y)" and "m' \<equiv> (if m \<le> 2 then m + 12 else m)"
  assumes m: "1 \<le> m" "m \<le> 12"
  shows "((d + (13 * (m' + 1)) div 5 + y' mod 100 + (y' mod 100) div 4 + (y' div 100) div 4 +
      5 * (y' div 100)) mod 7 + 6) mod 7 = (dayNumber y m d + 4) mod 7"
proof -
  define mp where "mp = (if m > 2 then m - 3 else m + 9)"
  have mp: "0 \<le> mp" "mp \<le> 11" "m' = mp + 3" using m by (auto simp: mp_def m'_def)
  define z where "z = (13 * (mp + 4)) div 5 - (153 * mp + 2) div 5"
  have "z mod 7 = 3" unfolding z_def by (rule zeller_month [OF mp(1,2)])
  then obtain k where k: "z = 7 * k + 3" by (metis mult_div_mod_eq)
  let ?c = "y' div 100" and ?r = "y' mod 100"
  have "dayNumber y m d = 365 * y' + y' div 4 - y' div 100 + y' div 400 + (153 * mp + 2) div 5 + d - 719469"
    by (simp add: dayNumber_def Let_def y'_def mp_def)
  then have dn: "dayNumber y m d = 36524 * ?c + 365 * ?r + ?r div 4 + ?c div 4 + (153 * mp + 2) div 5 + d - 719469"
    unfolding century_split [of y'] by simp
  let ?h = "d + (13 * (m' + 1)) div 5 + ?r + ?r div 4 + ?c div 4 + 5 * ?c"
  have "?h + 6 = dayNumber y m d + 4 + 7 * (k + 102782 - 5217 * ?c - 52 * ?r)"
  proof -
    have m4: "13 * (m' + 1) = 13 * (mp + 4)" by (simp add: mp(3))
    have sum: "A = 7 * k + 3 + B \<Longrightarrow> d + A + r + q + e + 5 * c + 6 =
        36524 * c + 365 * r + q + e + B + d - 719469 + 4 + 7 * (k + 102782 - 5217 * c - 52 * r)"
      for A B q e c r :: int by simp
    show ?thesis unfolding dn by (rule sum) (simp only: m4 k [unfolded z_def diff_eq_eq])
  qed
  then have "(?h mod 7 + 6) mod 7 = (dayNumber y m d + 4 + 7 * (k + 102782 - 5217 * ?c - 52 * ?r)) mod 7"
    by (simp only: mod_add_left_eq)
  also have "\<dots> = (dayNumber y m d + 4) mod 7" by (rule mod_mult_self2)
  finally show ?thesis .
qed

lemma dayOfWeek_dayNumber:
  assumes y: "1 \<le> uint year" and m: "1 \<le> uint month" "uint month \<le> 12" and d: "uint day \<le> 31"
  shows "uint (dayOfWeek year month day) = (dayNumber (uint year) (uint month) (uint day) + 4) mod 7"
proof -
  define y' where "y' = (if uint month \<le> 2 then uint year - 1 else uint year)"
  define m' where "m' = (if uint month \<le> 2 then uint month + 12 else uint month)"
  have yb: "0 \<le> y'" "y' < 65536" and mb: "3 \<le> m'" "m' \<le> 14"
    using y m uint_lt2p [of year] by (auto simp: y'_def m'_def)
  have le: "(month < 3) = (uint month \<le> 2)" by (auto simp: word_less_def)
  have year: "(if month < 3 then year - 1 else year) = of_int y'"
    by (simp add: le y'_def)
  have month: "(if month < 3 then month + 12 else month) = of_int m'"
    by (simp add: le m'_def)
  define c where "c = y' div 100"
  define r where "r = y' mod 100"
  have cr: "0 \<le> c" "c \<le> 655" "0 \<le> r" "r < 100"
    using yb by (auto simp: c_def r_def)
  have k: "of_int y' mod (100 :: u16) = of_int r" and j: "of_int y' div (100 :: u16) = of_int c"
    using word_of_int_mod_small [of y' 100, where 'a = 16] word_of_int_div_small [of y' 100, where 'a = 16] yb
    by (simp_all add: c_def r_def)
  have q: "of_int r div (4 :: u16) = of_int (r div 4)" "of_int c div (4 :: u16) = of_int (c div 4)"
    using word_of_int_div_small [of r 4, where 'a = 16] word_of_int_div_small [of c 4, where 'a = 16] cr
    by simp_all
  have rc: "0 \<le> r div 4" "r div 4 \<le> 25" "0 \<le> c div 4" "c div 4 \<le> 164"
    using cr by (simp_all add: zdiv_mono1 [of r 99 4, simplified] zdiv_mono1 [of c 655 4, simplified] pos_imp_zdiv_nonneg_iff)
  have uc: "(ucast (of_int a :: u16) :: u32) = of_int a" if "0 \<le> a" "a < 65536" for a
    using uint_of_int_small [of a, where 'a = 16] that by (simp add: ucast_eq)
  have uc8: "(ucast (of_int a :: u8) :: u32) = of_int a" if "0 \<le> a" "a < 256" for a
    using uint_of_int_small [of a, where 'a = 8] that by (simp add: ucast_eq)
  define dd where "dd = uint day"
  have day: "(ucast day :: u32) = of_int dd" unfolding dd_def by (rule ucast_eq)
  have ddb: "0 \<le> dd" "dd \<le> 31" using d by (simp_all add: dd_def)
  define w where "w = (13 * (m' + 1)) div 5"
  have wb: "0 \<le> w" "w \<le> 39" using mb by (auto simp: w_def)
  have month5: "(13 * (of_int m' + 1) :: u32) div 5 = of_int w"
    using word_of_int_div_small [of "13 * (m' + 1)" 5, where 'a = 32] mb by (simp add: w_def)
  define s where "s = dd + w + r + r div 4 + c div 4 + 5 * c"
  have sb: "0 \<le> s" "s < 65536" using ddb wb cr rc by (simp_all add: s_def)
  have sum: "ucast day + (13 * (ucast (of_int m' :: u8) + 1)) div 5 + ucast (of_int r :: u16) +
      ucast (of_int (r div 4) :: u16) + ucast (of_int (c div 4) :: u16) + 5 * ucast (of_int c :: u16) = (of_int s :: u32)"
    using mb cr rc by (simp add: uc uc8 day month5 [simplified] s_def)
  have mod7: "of_int s mod (7 :: u32) = of_int (s mod 7)"
    using word_of_int_mod_small [of s 7, where 'a = 32] sb by simp
  have plus: "(of_int (s mod 7) + 6 :: u32) mod 7 = of_int ((s mod 7 + 6) mod 7)"
    using word_of_int_mod_small [of "s mod 7 + 6" 7, where 'a = 32] by simp
  have "dayOfWeek year month day = ucast (of_int ((s mod 7 + 6) mod 7) :: u32)"
    unfolding dayOfWeek_def Let_def year month k j q sum mod7 plus ..
  then have "uint (dayOfWeek year month day) = (s mod 7 + 6) mod 7"
    using uint_of_int_small [of "(s mod 7 + 6) mod 7", where 'a = 32]
      uint_of_int_small [of "(s mod 7 + 6) mod 7", where 'a = 8]
    by (simp add: ucast_eq)
  also have "\<dots> = (dayNumber (uint year) (uint month) (uint day) + 4) mod 7"
    using zeller_dayNumber [OF m, of "uint day" "uint year"]
    by (simp only: s_def dd_def w_def c_def r_def y'_def [symmetric] m'_def [symmetric])
  finally show ?thesis .
qed

lemma dayNumber_day: "dayNumber y m d = dayNumber y m 0 + d"
  by (simp add: dayNumber_def Let_def)

lemma dayNumber_month_less:
  assumes "1 \<le> m" "m < m'" "m' \<le> 12"
  shows "dayNumber y m (monthLength y m) < dayNumber y m' 1"
proof -
  have "\<forall>k. m + int k < 12 \<longrightarrow> dayNumber y m (monthLength y m) < dayNumber y (m + 1 + int k) 1"
  proof (rule allI)
    fix k
    show "m + int k < 12 \<longrightarrow> dayNumber y m (monthLength y m) < dayNumber y (m + 1 + int k) 1"
    proof (induction k)
      case 0
      then show ?case using assms(1) dayNumber_next_month [of m y] by simp
    next
      case (Suc k)
      show ?case
        using Suc assms(1) dayNumber_next_month [of "m + 1 + int k" y] monthLength_bounds [of y "m + 1 + int k"]
          dayNumber_day [of y "m + 1 + int k" 1] dayNumber_day [of y "m + 1 + int k" "monthLength y (m + 1 + int k)"]
        by (auto simp: algebra_simps)
    qed
  qed
  from spec [OF this, of "nat (m' - m - 1)"] show ?thesis using assms by simp
qed

lemma dayNumber_less:
  assumes "1 \<le> m" "m < m'" "m' \<le> 12" "d \<le> monthLength y m" "1 \<le> d'"
  shows "dayNumber y m d < dayNumber y m' d'"
  using dayNumber_month_less [OF assms(1-3), of y] assms(4,5)
    dayNumber_day [of y m d] dayNumber_day [of y m "monthLength y m"]
    dayNumber_day [of y m' d'] dayNumber_day [of y m' 1] by simp

definition lastSundayOf :: "int \<Rightarrow> int \<Rightarrow> int" where
  "lastSundayOf y m = monthLength y m - (dayNumber y m (monthLength y m) + 4) mod 7"

definition summerTimeStart :: "int \<Rightarrow> int" where
  "summerTimeStart y = dayNumber y 3 (lastSundayOf y 3) * 86400 + 3600"

definition summerTimeEnd :: "int \<Rightarrow> int" where
  "summerTimeEnd y = dayNumber y 10 (lastSundayOf y 10) * 86400 + 3600"

lemma lastSunday_int:
  assumes y: "1 \<le> uint year" and m: "1 \<le> uint month" "uint month \<le> 12"
  shows "uint (lastSunday year month) = lastSundayOf (uint year) (uint month)"
proof -
  let ?n = "monthLength (uint year) (uint month)"
  have len: "uint (daysInMonth year month) = ?n"
    using rtcDaysInMonth_word [OF m] by (simp add: daysInMonth_rtc)
  have b: "28 \<le> ?n" "?n \<le> 31" using monthLength_bounds [of "uint year" "uint month"] by simp_all
  have w: "uint (dayOfWeek year month (daysInMonth year month)) = (dayNumber (uint year) (uint month) ?n + 4) mod 7"
    using dayOfWeek_dayNumber [OF y m, of "daysInMonth year month"] b by (simp add: len)
  define k where "k = (dayNumber (uint year) (uint month) ?n + 4) mod 7"
  have k: "0 \<le> k" "k < 7" by (simp_all add: k_def)
  show ?thesis
    using b k by (simp add: lastSunday_def lastSundayOf_def Let_def uint_sub_if' len w flip: k_def)
qed

lemma lastSundayOf_bounds: "monthLength y m - 6 \<le> lastSundayOf y m" "lastSundayOf y m \<le> monthLength y m"
proof -
  have "0 \<le> (dayNumber y m (monthLength y m) + 4) mod 7" "(dayNumber y m (monthLength y m) + 4) mod 7 < 7" by simp_all
  then show "monthLength y m - 6 \<le> lastSundayOf y m" "lastSundayOf y m \<le> monthLength y m"
    unfolding lastSundayOf_def by linarith+
qed

lemma lastSundayOf_sunday: "(dayNumber y m (lastSundayOf y m) + 4) mod 7 = 0"
proof -
  let ?n = "monthLength y m"
  have e: "dayNumber y m (lastSundayOf y m) + 4 = dayNumber y m ?n + 4 - (dayNumber y m ?n + 4) mod 7"
    using dayNumber_day [of y m "lastSundayOf y m"] dayNumber_day [of y m ?n] by (simp add: lastSundayOf_def)
  show ?thesis unfolding e by (simp add: minus_mod_eq_mult_div)
qed

lemma isDst_interval:
  assumes v: "validClock utc" and y: "1 \<le> uint (lt_year utc)"
  shows "isDstEuropeWarsaw utc \<longleftrightarrow>
    summerTimeStart (uint (lt_year utc)) \<le> epochSeconds utc \<and> epochSeconds utc < summerTimeEnd (uint (lt_year utc))"
proof -
  define Y where "Y = uint (lt_year utc)"
  define M where "M = uint (lt_month utc)"
  define D where "D = uint (lt_day utc)"
  define H where "H = uint (lt_hour utc)"
  define S where "S = secondOfDay utc"
  have b: "1 \<le> M" "M \<le> 12" "1 \<le> D" "D \<le> monthLength Y M" "0 \<le> H"
    using v by (simp_all add: validClock_def validDate_def Y_def M_def D_def H_def)
  have S: "0 \<le> S" "S < 86400" "3600 * H \<le> S" "S < 3600 * H + 3600"
    using v by (simp_all add: S_def H_def validClock_def secondOfDay_def)
  define A where "A = lastSundayOf Y 3"
  define B where "B = lastSundayOf Y 10"
  have AB: "1 \<le> A" "A \<le> monthLength Y 3" "1 \<le> B" "B \<le> monthLength Y 10"
    using lastSundayOf_bounds [of Y 3] lastSundayOf_bounds [of Y 10] monthLength_bounds [of Y 3]
      monthLength_bounds [of Y 10] by (simp_all add: A_def B_def)
  have ep: "epochSeconds utc = dayNumber Y M D * 86400 + S"
    by (simp add: epochSeconds_def dayOf_def Y_def M_def D_def S_def)
  have st: "summerTimeStart Y = dayNumber Y 3 A * 86400 + 3600" "summerTimeEnd Y = dayNumber Y 10 B * 86400 + 3600"
    by (simp_all add: summerTimeStart_def summerTimeEnd_def A_def B_def)
  have ls: "uint (lastSunday (lt_year utc) 3) = A" "uint (lastSunday (lt_year utc) 10) = B"
    using lastSunday_int [OF y, of 3] lastSunday_int [OF y, of 10] by (simp_all add: A_def B_def Y_def)
  have m3: "(lt_month utc = 3) = (M = 3)" unfolding M_def by (simp add: word_uint_eq_iff)
  have code: "isDstEuropeWarsaw utc \<longleftrightarrow>
    (if M < 3 then False else if M > 10 then False else if M > 3 \<and> M < 10 then True
     else if M = 3 then (if D > A then True else if D < A then False else H \<ge> 1)
     else (if D < B then True else if D > B then False else H < 1))"
    by (simp add: isDstEuropeWarsaw_def word_less_def word_le_def ls Let_def m3
        flip: M_def D_def H_def)
  have o: "dayNumber Y 3 A < dayNumber Y 10 B" by (rule dayNumber_less) (use AB in simp_all)
  have d: "dayNumber Y 3 A = dayNumber Y 3 0 + A" "dayNumber Y 10 B = dayNumber Y 10 0 + B"
    "dayNumber Y M D = dayNumber Y M 0 + D" by (rule dayNumber_day)+
  consider "M < 3" | "M = 3" | "M > 3" "M < 10" | "M = 10" | "M > 10" by linarith
  then show ?thesis
  proof cases
    case 1
    then have "dayNumber Y M D < dayNumber Y 3 A" by (intro dayNumber_less) (use b AB in simp_all)
    then show ?thesis using 1 S unfolding code Y_def [symmetric] st ep by simp
  next
    case 2
    have "dayNumber Y M D < dayNumber Y 10 B" by (rule dayNumber_less) (use 2 b AB in simp_all)
    then show ?thesis using 2 S d unfolding code Y_def [symmetric] st ep by auto
  next
    case 3
    have "dayNumber Y M D < dayNumber Y 10 B" "dayNumber Y 3 A < dayNumber Y M D"
      by (rule dayNumber_less, use 3 b AB in simp_all)+
    then show ?thesis using 3 S unfolding code Y_def [symmetric] st ep by simp
  next
    case 4
    have "dayNumber Y 3 A < dayNumber Y M D" by (rule dayNumber_less) (use 4 b AB in simp_all)
    then show ?thesis using 4 S d unfolding code Y_def [symmetric] st ep by auto
  next
    case 5
    have "dayNumber Y 10 B < dayNumber Y M D" by (rule dayNumber_less) (use 5 b AB in simp_all)
    then show ?thesis using 5 S unfolding code Y_def [symmetric] st ep by simp
  qed
qed

text \<open>Adding an offset of at most a day.\<close>

lemma addMinutes_correct:
  assumes v: "validClock t" and y: "uint (lt_year t) < 65535" and n: "uint n \<le> 1440"
  shows "validClock (addMinutes t n)" "epochSeconds (addMinutes t n) = epochSeconds t + uint n * 60"
    "uint (lt_minuteOfDay (addMinutes t n)) = uint (lt_hour (addMinutes t n)) * 60 + uint (lt_minute (addMinutes t n))"
proof -
  have b: "validDate t" "uint (lt_hour t) \<le> 23" "uint (lt_minute t) \<le> 59" "uint (lt_second t) \<le> 59"
    using v by (simp_all add: validClock_def)
  define T where "T = uint (lt_hour t) * 60 + uint (lt_minute t) + uint n"
  have T: "0 \<le> T" "T < 2880" using b n by (simp_all add: T_def)
  have tot: "ucast (lt_hour t) * 60 + ucast (lt_minute t) + n = (of_int T :: u16)"
    by (simp only: T_def of_int_add of_int_mult of_int_numeral word_of_int_uint ucast_eq)
  define t1 where "t1 = (if T \<ge> 1440 then nextDay t else t)"
  define R where "R = (if T \<ge> 1440 then T - 1440 else T)"
  have R: "0 \<le> R" "R < 1440" using T by (auto simp: R_def)
  have ge: "(of_int T :: u16) \<ge> 1440 \<longleftrightarrow> T \<ge> 1440"
    using word_of_int_le_small [of 1440 T, where 'a = 16] T by simp
  have not2: "\<not> (of_int R :: u16) \<ge> 1440"
    using word_of_int_le_small [of 1440 R, where 'a = 16] R by simp
  have adv: "advanceDays t (of_int T) = (t1, of_int R)"
  proof (cases "T \<ge> 1440")
    case True
    have "of_int T - 1440 = (of_int R :: u16)" using True by (simp add: R_def)
    then show ?thesis
      using True not2 b(1) by (simp add: advanceDays.simps [of t] advanceDays.simps [of "nextDay t"] ge t1_def advanceDay_next)
  next
    case False
    then show ?thesis by (simp add: advanceDays.simps [of t] ge t1_def R_def)
  qed
  have h: "0 \<le> R div 60" "R div 60 \<le> 23" "0 \<le> R mod 60" "R mod 60 \<le> 59"
    using R zdiv_mono1 [of R 1439 60] by (simp_all add: pos_imp_zdiv_nonneg_iff)
  have q: "(of_int R :: u16) div 60 = of_int (R div 60)" "(of_int R :: u16) mod 60 = of_int (R mod 60)"
    using word_of_int_div_small [of R 60, where 'a = 16] word_of_int_mod_small [of R 60, where 'a = 16] R by simp_all
  have hm: "uint (ucast (of_int (R div 60) :: u16) :: u8) = R div 60"
    "uint (ucast (of_int (R mod 60) :: u16) :: u8) = R mod 60"
    using h by (simp_all add: ucast_eq uint_of_int_small)
  define H where "H = (ucast (of_int (R div 60) :: u16) :: u8)"
  define N where "N = (ucast (of_int (R mod 60) :: u16) :: u8)"
  have res: "addMinutes t n = t1\<lparr>lt_hour := H, lt_minute := N, lt_minuteOfDay := ucast H * 60 + ucast N\<rparr>"
    by (simp add: addMinutes_def tot adv q Let_def H_def N_def)
  have t1: "validDate t1" "dayOf t1 * 1440 + R = dayOf t * 1440 + T" "lt_second t1 = lt_second t"
    using nextDay_correct [OF b(1) y] b(1) by (auto simp: t1_def R_def)
  have sum: "x * 60 + y = r \<Longrightarrow> a * 86400 + (x * 3600 + y * 60 + s) = (a * 1440 + r) * 60 + s"
    for x y r a s :: int by simp
  have R60: "R div 60 * 60 + R mod 60 = R" by simp
  show "validClock (addMinutes t n)"
    using t1 b h by (simp add: res validClock_def H_def N_def hm)
  have "epochSeconds (addMinutes t n) = dayOf t1 * 86400 + (R div 60 * 3600 + R mod 60 * 60 + uint (lt_second t))"
    by (simp add: res epochSeconds_def secondOfDay_def H_def N_def hm t1)
  also have "\<dots> = (dayOf t1 * 1440 + R) * 60 + uint (lt_second t)" by (rule sum [OF R60])
  also have "\<dots> = epochSeconds t + uint n * 60"
    unfolding t1 by (simp add: T_def epochSeconds_def secondOfDay_def)
  finally show "epochSeconds (addMinutes t n) = epochSeconds t + uint n * 60" .
  have mod: "uint (lt_minuteOfDay (addMinutes t n)) = (uint H * 60 + uint N) mod 65536"
    by (simp add: res uint_word_ariths take_bit_eq_mod unsigned_ucast_eq mod_simps)
  show "uint (lt_minuteOfDay (addMinutes t n)) = uint (lt_hour (addMinutes t n)) * 60 + uint (lt_minute (addMinutes t n))"
    unfolding mod using h by (simp add: res H_def N_def hm)
qed

lemma convertUtcToWarsaw_correct:
  assumes v: "validClock utc" "lt_valid utc" and y: "1 \<le> uint (lt_year utc)" "uint (lt_year utc) < 65535"
  shows "lt_valid (convertUtcToWarsaw utc)" "validClock (convertUtcToWarsaw utc)"
    "epochSeconds (convertUtcToWarsaw utc) = epochSeconds utc +
       (if summerTimeStart (uint (lt_year utc)) \<le> epochSeconds utc \<and> epochSeconds utc < summerTimeEnd (uint (lt_year utc))
        then 7200 else 3600)"
    "uint (lt_minuteOfDay (convertUtcToWarsaw utc)) =
       uint (lt_hour (convertUtcToWarsaw utc)) * 60 + uint (lt_minute (convertUtcToWarsaw utc))"
proof -
  define n :: u16 where "n = (if isDstEuropeWarsaw utc then 120 else 60)"
  have eq: "convertUtcToWarsaw utc = (addMinutes utc n)\<lparr>lt_valid := True\<rparr>"
    by (simp add: convertUtcToWarsaw_def v n_def Let_def)
  have n: "uint n \<le> 1440" "uint n * 60 = (if isDstEuropeWarsaw utc then 7200 else 3600)" by (simp_all add: n_def)
  note a = addMinutes_correct [OF v(1) y(2) n(1)]
  show "lt_valid (convertUtcToWarsaw utc)" by (simp add: eq)
  show "validClock (convertUtcToWarsaw utc)" using a(1) by (simp add: eq validClock_def)
  show "uint (lt_minuteOfDay (convertUtcToWarsaw utc)) =
       uint (lt_hour (convertUtcToWarsaw utc)) * 60 + uint (lt_minute (convertUtcToWarsaw utc))"
    using a(3) by (simp add: eq)
  have "epochSeconds (convertUtcToWarsaw utc) = epochSeconds utc + (if isDstEuropeWarsaw utc then 7200 else 3600)"
    using a(2) n(2) by (simp add: eq epochSeconds_def secondOfDay_def)
  then show "epochSeconds (convertUtcToWarsaw utc) = epochSeconds utc +
       (if summerTimeStart (uint (lt_year utc)) \<le> epochSeconds utc \<and> epochSeconds utc < summerTimeEnd (uint (lt_year utc))
        then 7200 else 3600)"
    unfolding isDst_interval [OF v(1) y(1)] .
qed

end
