(* ===== verification/ResilientTime.thy ===== *)
theory ResilientTime
  imports RtcService
begin

text \<open>
  The time service that outlives a failing clock chip,
  \<open>aquaOneCore/src/Time/ResilientTimeService.cpp\<close>: the last good reading is cached and carried forward
  by the millisecond counter, and the health of the chip follows two thresholds. Also
  \<open>RtcWallClock.cpp\<close>, which turns a reading of the chip into a Unix timestamp.
\<close>

section \<open>Carrying a reading forward\<close>

definition addSeconds :: "LocalTime \<Rightarrow> u32 \<Rightarrow> LocalTime" where
  "addSeconds base secondsToAdd =
     (if \<not> lt_valid base then emptyLocalTime
      else
        let days = daysFromCivil (uint (lt_year base)) (ucast (lt_month base)) (ucast (lt_day base));
            totalSec = ucast (lt_hour base) * 3600 + ucast (lt_minute base) * 60 + ucast (lt_second base) + secondsToAdd;
            extraDays = totalSec div 86400;
            daySec = totalSec mod 86400;
            cd = civilFromDays (days + sint extraDays);
            hour = ucast (daySec div 3600); minute = ucast ((daySec mod 3600) div 60)
        in \<lparr>lt_valid = True, lt_year = of_int (cd_year cd), lt_month = ucast (cd_month cd),
            lt_day = ucast (cd_day cd), lt_hour = hour, lt_minute = minute, lt_second = ucast (daySec mod 60),
            lt_minuteOfDay = ucast hour * 60 + ucast minute\<rparr>)"

section \<open>The service\<close>

record ResilientTimeConfig =
  rtcEnabled :: bool
  failureThreshold :: u8
  recoveryThreshold :: u8
  unhealthyProbeIntervalMs :: u32

definition ResilientTimeConfig_default :: ResilientTimeConfig where
  "ResilientTimeConfig_default =
     \<lparr>rtcEnabled = True, failureThreshold = 3, recoveryThreshold = 3, unhealthyProbeIntervalMs = 30000\<rparr>"

record 'b resilient =
  rts_rtc :: "'b rtc_service"
  rts_config :: ResilientTimeConfig
  rts_cachedUtc :: LocalTime
  rts_cachedAtMs :: u32
  rts_lastPollMs :: u32
  rts_consecutiveFailures :: u8
  rts_consecutiveSuccesses :: u8
  rts_rtcHealthy :: bool
  rts_hasValidCache :: bool

definition ResilientTimeService_new :: "'b rtc_service \<Rightarrow> ResilientTimeConfig \<Rightarrow> 'b resilient" where
  "ResilientTimeService_new rtc config =
     \<lparr>rts_rtc = rtc,
      rts_config = config\<lparr>failureThreshold := (if failureThreshold config = 0 then 1 else failureThreshold config),
        recoveryThreshold := (if recoveryThreshold config = 0 then 1 else recoveryThreshold config)\<rparr>,
      rts_cachedUtc = emptyLocalTime, rts_cachedAtMs = 0, rts_lastPollMs = 0, rts_consecutiveFailures = 0,
      rts_consecutiveSuccesses = 0, rts_rtcHealthy = False, rts_hasValidCache = False\<rparr>"

definition rts_begin :: "'b rtc_bus \<Rightarrow> 'b resilient \<Rightarrow> u32 \<Rightarrow> bool \<times> 'b resilient" where
  "rts_begin ops s0 nowMs =
     (let s = s0\<lparr>rts_lastPollMs := nowMs\<rparr>
      in if \<not> rtcEnabled (rts_config s) then
           (True, s\<lparr>rts_rtcHealthy := False, rts_hasValidCache := False, rts_consecutiveFailures := 0,
                    rts_consecutiveSuccesses := 0\<rparr>)
      else
        let (started, rtc1) = rtc_begin ops (rts_rtc s)
        in if \<not> started then
             (False, s\<lparr>rts_rtc := rtc1, rts_rtcHealthy := False, rts_hasValidCache := False,
                       rts_consecutiveFailures := 1, rts_consecutiveSuccesses := 0\<rparr>)
        else
          let (reading, rtc2) = rtc_read ops rtc1
          in if \<not> lt_valid reading then
               (False, s\<lparr>rts_rtc := rtc2, rts_rtcHealthy := False, rts_hasValidCache := False,
                         rts_consecutiveFailures := 1, rts_consecutiveSuccesses := 0\<rparr>)
          else
            (True, s\<lparr>rts_rtc := rtc2, rts_cachedUtc := reading, rts_cachedAtMs := nowMs,
                     rts_hasValidCache := True, rts_rtcHealthy := True, rts_consecutiveFailures := 0,
                     rts_consecutiveSuccesses := recoveryThreshold (rts_config s)\<rparr>))"

definition rts_poll :: "'b rtc_bus \<Rightarrow> 'b resilient \<Rightarrow> u32 \<Rightarrow> 'b resilient" where
  "rts_poll ops s0 nowMs =
     (if \<not> rtcEnabled (rts_config s0) then s0
      else
        let (reading, rtc1) = rtc_read ops (rts_rtc s0);
            s = s0\<lparr>rts_lastPollMs := nowMs, rts_rtc := rtc1\<rparr>
        in if lt_valid reading then
          (let s1 = s\<lparr>rts_cachedUtc := reading, rts_cachedAtMs := nowMs, rts_hasValidCache := True,
                      rts_consecutiveFailures := 0\<rparr>
           in if \<not> rts_rtcHealthy s1 then
                (let n = (if rts_consecutiveSuccesses s1 < 255 then rts_consecutiveSuccesses s1 + 1
                          else rts_consecutiveSuccesses s1)
                 in s1\<lparr>rts_consecutiveSuccesses := n,
                       rts_rtcHealthy := (if n \<ge> recoveryThreshold (rts_config s1) then True else rts_rtcHealthy s1)\<rparr>)
              else s1\<lparr>rts_consecutiveSuccesses := recoveryThreshold (rts_config s1)\<rparr>)
        else
          (let n = (if rts_consecutiveFailures s < 255 then rts_consecutiveFailures s + 1
                    else rts_consecutiveFailures s)
           in s\<lparr>rts_consecutiveSuccesses := 0, rts_consecutiveFailures := n,
                rts_rtcHealthy := (if n \<ge> failureThreshold (rts_config s) then False else rts_rtcHealthy s)\<rparr>))"

definition rts_now :: "'b resilient \<Rightarrow> u32 \<Rightarrow> LocalTime" where
  "rts_now s nowMs =
     (if \<not> rts_hasValidCache s then emptyLocalTime
      else
        let elapsedMs = nowMs - rts_cachedAtMs s; elapsedSec = elapsedMs div 1000
        in addSeconds (rts_cachedUtc s) elapsedSec)"

definition rts_isProbeDue :: "'b resilient \<Rightarrow> u32 \<Rightarrow> bool" where
  "rts_isProbeDue s nowMs =
     (if \<not> rtcEnabled (rts_config s) then False
      else if rts_rtcHealthy s then True
      else if unhealthyProbeIntervalMs (rts_config s) = 0 then True
      else nowMs - rts_lastPollMs s \<ge> unhealthyProbeIntervalMs (rts_config s))"

definition rts_syncUtc :: "'b resilient \<Rightarrow> LocalTime \<Rightarrow> u32 \<Rightarrow> 'b resilient" where
  "rts_syncUtc s utc nowMs =
     (if \<not> lt_valid utc then s
      else if \<not> isValidUtc (lt_year utc) (lt_month utc) (lt_day utc) (lt_hour utc) (lt_minute utc) (lt_second utc)
      then s
      else s\<lparr>rts_cachedUtc := utc, rts_cachedAtMs := nowMs, rts_hasValidCache := True\<rparr>)"

section \<open>Wall clock\<close>

datatype WallClockReadResult = WcSuccess | WcUnavailable

definition toUtcTimestamp :: "LocalTime \<Rightarrow> u64 option" where
  "toUtcTimestamp utc =
     (if \<not> lt_valid utc \<or> lt_year utc < 1970 \<or>
         \<not> isValidUtc (lt_year utc) (lt_month utc) (lt_day utc) (lt_hour utc) (lt_minute utc) (lt_second utc)
      then None
      else
        let days = daysFromCivil (uint (lt_year utc)) (ucast (lt_month utc)) (ucast (lt_day utc))
        in if days < 0 then None
           else Some (of_int days * 86400 + ucast (lt_hour utc) * 3600 + ucast (lt_minute utc) * 60 +
                      ucast (lt_second utc)))"

text \<open>\<open>readUtc(out)\<close>: the result, and the timestamp when \<open>out\<close> is written.\<close>

definition wallclock_readUtc ::
  "'b rtc_bus \<Rightarrow> 'b rtc_service \<Rightarrow> WallClockReadResult \<times> u64 option \<times> 'b rtc_service" where
  "wallclock_readUtc ops rtc =
     (if \<not> rtc_isInitialized rtc then (WcUnavailable, None, rtc)
      else
        let (utc, rtc1) = rtc_read ops rtc
        in case toUtcTimestamp utc of
             None \<Rightarrow> (WcUnavailable, None, rtc1)
           | Some candidate \<Rightarrow> (WcSuccess, Some candidate, rtc1))"

section \<open>Adding seconds\<close>

text \<open>Every day after a valid date is the day of a valid date.\<close>

lemma date_after:
  assumes "validDate t" "uint (lt_year t) + int k < 65535"
  shows "\<exists>t'. validDate t' \<and> dayOf t' = dayOf t + int k \<and> uint (lt_year t) \<le> uint (lt_year t') \<and>
    uint (lt_year t') \<le> uint (lt_year t) + int k"
  using assms(2)
proof (induction k)
  case 0
  then show ?case using assms(1) by (intro exI [of _ t]) simp
next
  case (Suc k)
  then obtain t' where t': "validDate t'" "dayOf t' = dayOf t + int k" "uint (lt_year t) \<le> uint (lt_year t')"
    "uint (lt_year t') \<le> uint (lt_year t) + int k" by auto
  have y: "uint (lt_year t') < 65535" using t' Suc.prems by simp
  then have y1: "uint (lt_year t' + 1) = uint (lt_year t') + 1"
    by (intro uint_Suc_less [of _ 65535]) (simp add: word_less_def)
  have "lt_year (nextDay t') \<in> {lt_year t', lt_year t' + 1}" by (simp add: nextDay_def)
  then have "uint (lt_year t') \<le> uint (lt_year (nextDay t'))" "uint (lt_year (nextDay t')) \<le> uint (lt_year t') + 1"
    using y1 by auto
  then show ?case
    using nextDay_correct [OF t'(1) y] t' by (intro exI [of _ "nextDay t'"]) auto
qed

lemma clock_of_seconds:
  fixes s :: int
  assumes "0 \<le> s" "s < 86400"
  shows "0 \<le> s div 3600" "s div 3600 \<le> 23" "0 \<le> (s mod 3600) div 60" "(s mod 3600) div 60 \<le> 59"
    "0 \<le> s mod 60" "s mod 60 \<le> 59" "s div 3600 * 3600 + (s mod 3600) div 60 * 60 + s mod 60 = s"
proof -
  have m: "0 \<le> s mod 3600" "s mod 3600 \<le> 3599" by simp_all
  show "0 \<le> s div 3600" "s div 3600 \<le> 23" "0 \<le> (s mod 3600) div 60" "(s mod 3600) div 60 \<le> 59"
    "0 \<le> s mod 60" "s mod 60 \<le> 59"
    using assms m zdiv_mono1 [of s 86399 3600] zdiv_mono1 [of "s mod 3600" 3599 60]
    by (simp_all add: pos_imp_zdiv_nonneg_iff)
  have mm: "s mod 60 = (s mod 3600) mod 60" by (simp add: mod_mod_cancel)
  have e: "(s mod 3600) div 60 * 60 + (s mod 3600) mod 60 = s mod 3600" "s div 3600 * 3600 + s mod 3600 = s"
    by (rule div_mult_mod_eq)+
  show "s div 3600 * 3600 + (s mod 3600) div 60 * 60 + s mod 60 = s"
    unfolding mm using e by (metis add.assoc)
qed

lemma daysFromCivil_dayOf:
  assumes "validDate t"
  shows "daysFromCivil (uint (lt_year t)) (ucast (lt_month t)) (ucast (lt_day t)) = dayOf t"
proof -
  have b: "1 \<le> uint (lt_month t)" "uint (lt_month t) \<le> 12" "1 \<le> uint (lt_day t)" "uint (lt_day t) \<le> 31"
    using assms monthLength_bounds [of "uint (lt_year t)" "uint (lt_month t)"] by (auto simp: validDate_def)
  show ?thesis
    unfolding ucast_eq dayOf_def
    by (rule daysFromCivil_dayNumber) (use b uint_lt2p [of "lt_year t"] in simp_all)
qed

lemma addSeconds_correct:
  assumes v: "validClock t" "lt_valid t" and y: "1 \<le> uint (lt_year t)" "uint (lt_year t) \<le> 65000"
    and n: "uint n \<le> 4294967"
  shows "lt_valid (addSeconds t n)" "validClock (addSeconds t n)"
    "epochSeconds (addSeconds t n) = epochSeconds t + uint n"
    "uint (lt_year t) \<le> uint (lt_year (addSeconds t n))"
proof -
  have b: "validDate t" using v by (simp add: validClock_def)
  have S: "0 \<le> secondOfDay t" "secondOfDay t < 86400"
    using v(1) by (simp_all add: validClock_def secondOfDay_def)
  define T where "T = secondOfDay t + uint n"
  have T: "0 \<le> T" "T < 4400000" using S n by (simp_all add: T_def)
  have tot: "ucast (lt_hour t) * 3600 + ucast (lt_minute t) * 60 + ucast (lt_second t) + n = (of_int T :: u32)"
    by (simp only: T_def secondOfDay_def of_int_add of_int_mult of_int_numeral word_of_int_uint ucast_eq)
  define e where "e = T div 86400"
  define r where "r = T mod 86400"
  have e: "0 \<le> e" "e \<le> 50" using T zdiv_mono1 [of T 4399999 86400] by (simp_all add: e_def pos_imp_zdiv_nonneg_iff)
  have r: "0 \<le> r" "r < 86400" "e * 86400 + r = T" by (simp_all add: e_def r_def)
  have q: "(of_int T :: u32) div 86400 = of_int e" "(of_int T :: u32) mod 86400 = of_int r"
    using word_of_int_div_small [of T 86400, where 'a = 32] word_of_int_mod_small [of T 86400, where 'a = 32] T
    by (simp_all add: e_def r_def)
  have se: "sint (of_int e :: u32) = e" using e by (intro sint_of_int_small) simp_all
  obtain t' where t': "validDate t'" "dayOf t' = dayOf t + e" "uint (lt_year t) \<le> uint (lt_year t')"
    "uint (lt_year t') \<le> uint (lt_year t) + e"
    using date_after [OF b, of "nat e"] y e by auto
  let ?Y = "uint (lt_year t')" and ?M = "uint (lt_month t')" and ?D = "uint (lt_day t')"
  have "civilFromDays (dayNumber ?Y ?M ?D) = \<lparr>cd_year = ?Y, cd_month = of_int ?M, cd_day = of_int ?D\<rparr>"
    by (rule civilFromDays_dayNumber) (use t' y e in \<open>simp_all add: validDate_def\<close>)
  then have cd: "civilFromDays (dayOf t + e) = \<lparr>cd_year = ?Y, cd_month = of_int ?M, cd_day = of_int ?D\<rparr>"
    unfolding t'(2) [symmetric] dayOf_def [of t'] .
  note c = clock_of_seconds [OF r(1,2)]
  have w: "(of_int r :: u32) div 3600 = of_int (r div 3600)" "(of_int r :: u32) mod 60 = of_int (r mod 60)"
    "(of_int r :: u32) mod 3600 div 60 = of_int (r mod 3600 div 60)"
    using word_of_int_div_small [of r 3600, where 'a = 32] word_of_int_mod_small [of r 60, where 'a = 32]
      word_of_int_mod_small [of r 3600, where 'a = 32] word_of_int_div_small [of "r mod 3600" 60, where 'a = 32] r
    by simp_all
  have u: "uint (ucast (of_int k :: u32) :: u8) = k" if "0 \<le> k" "k \<le> 59" for k
    using that by (simp add: uint_ucast_mod uint_of_int_small)
  have roundtrip: "(ucast (ucast x :: u32) :: u8) = x" for x :: u8
    using uint_lt2p [of x] by (simp add: word_uint_eq_iff uint_ucast_mod)
  define H :: u8 where "H = ucast (of_int (r div 3600) :: u32)"
  define N :: u8 where "N = ucast (of_int (r mod 3600 div 60) :: u32)"
  define Q :: u8 where "Q = ucast (of_int (r mod 60) :: u32)"
  have hms: "uint H = r div 3600" "uint N = r mod 3600 div 60" "uint Q = r mod 60"
    unfolding H_def N_def Q_def by (rule u; use c(1-6) in linarith)+
  have res: "addSeconds t n = \<lparr>lt_valid = True, lt_year = lt_year t', lt_month = lt_month t', lt_day = lt_day t',
      lt_hour = H, lt_minute = N, lt_second = Q, lt_minuteOfDay = ucast H * 60 + ucast N\<rparr>"
    unfolding addSeconds_def Let_def daysFromCivil_dayOf [OF b] tot q se cd w H_def N_def Q_def
    using v(2) by (simp add: roundtrip)
  have d: "dayOf (addSeconds t n) = dayOf t + e" "validDate (addSeconds t n)"
    using t'(1,2) by (simp_all add: res dayOf_def validDate_def)
  show "lt_valid (addSeconds t n)" by (simp add: res)
  show "uint (lt_year t) \<le> uint (lt_year (addSeconds t n))" using t' by (simp add: res)
  show "validClock (addSeconds t n)" using d(2) c(1-6) unfolding validClock_def res by (simp add: hms)
  have "secondOfDay (addSeconds t n) = r" unfolding secondOfDay_def res LocalTime.select_convs hms by (rule c(7))
  then have "epochSeconds (addSeconds t n) = (dayOf t + e) * 86400 + r" by (simp add: epochSeconds_def d)
  also have "\<dots> = dayOf t * 86400 + T" using r(3) by simp
  also have "\<dots> = epochSeconds t + uint n" by (simp add: T_def epochSeconds_def)
  finally show "epochSeconds (addSeconds t n) = epochSeconds t + uint n" .
qed

section \<open>Readings are valid times\<close>

definition utcOk :: "LocalTime \<Rightarrow> bool" where
  "utcOk t \<longleftrightarrow> lt_valid t \<and> isValidUtc (lt_year t) (lt_month t) (lt_day t) (lt_hour t) (lt_minute t) (lt_second t)"

lemma utcOk_iff: "utcOk t \<longleftrightarrow> lt_valid t \<and> 2000 \<le> uint (lt_year t) \<and> uint (lt_year t) \<le> 2199 \<and> validClock t"
  by (simp add: utcOk_def isValidUtc_iff)

lemma rtc_read_utcOk: "lt_valid (fst (rtc_read ops s)) \<Longrightarrow> utcOk (fst (rtc_read ops s))"
  by (auto simp: rtc_read_def emptyLocalTime_def utcOk_def Let_def split_beta dest!: decode_valid
      split: option.split if_splits)

lemma toUtcTimestamp_correct:
  "toUtcTimestamp t = (if utcOk t then Some (of_int (epochSeconds t)) else None)"
    "utcOk t \<Longrightarrow> 0 \<le> epochSeconds t \<and> epochSeconds t < 2 ^ 34"
proof -
  have pos: "0 \<le> dayOf t \<and> dayOf t < 100000" if "utcOk t"
  proof -
    have "2000 \<le> uint (lt_year t)" "uint (lt_year t) \<le> 2199" "1 \<le> uint (lt_month t)" "uint (lt_month t) \<le> 12"
      "1 \<le> uint (lt_day t)" "uint (lt_day t) \<le> 31"
      using that monthLength_bounds [of "uint (lt_year t)" "uint (lt_month t)"]
      by (auto simp: utcOk_iff validClock_def validDate_def)
    then show ?thesis unfolding dayOf_def by (rule dayNumber_bounds)
  qed
  have S: "0 \<le> secondOfDay t" "secondOfDay t < 86400" if "utcOk t"
    using that by (simp_all add: utcOk_iff validClock_def secondOfDay_def)
  have y: "\<not> lt_year t < 1970" if "utcOk t"
    using that by (simp add: utcOk_iff word_less_def)
  have d: "daysFromCivil (uint (lt_year t)) (ucast (lt_month t)) (ucast (lt_day t)) = dayOf t" if "utcOk t"
    using that by (intro daysFromCivil_dayOf) (simp add: utcOk_iff validClock_def)
  have e: "of_int (dayOf t) * 86400 + ucast (lt_hour t) * 3600 + ucast (lt_minute t) * 60 + ucast (lt_second t) =
      (of_int (epochSeconds t) :: u64)"
    unfolding epochSeconds_def secondOfDay_def of_int_add of_int_mult of_int_numeral ucast_eq
    by (simp only: add.assoc)
  show "toUtcTimestamp t = (if utcOk t then Some (of_int (epochSeconds t)) else None)"
  proof (cases "utcOk t")
    case True
    then have "isValidUtc (lt_year t) (lt_month t) (lt_day t) (lt_hour t) (lt_minute t) (lt_second t)" "lt_valid t"
      by (simp_all add: utcOk_def)
    then show ?thesis
      unfolding toUtcTimestamp_def Let_def d [OF True] e using pos [OF True] y [OF True] True by simp
  next
    case False
    then show ?thesis by (auto simp: toUtcTimestamp_def utcOk_def)
  qed
  show "0 \<le> epochSeconds t \<and> epochSeconds t < 2 ^ 34" if "utcOk t"
    using pos [OF that] S [OF that] by (simp add: epochSeconds_def)
qed

section \<open>Health of the chip\<close>

text \<open>
  The states of the service. The chip object is shared, so its own state may change between two calls.
\<close>

inductive rts_reach :: "'b rtc_bus \<Rightarrow> 'b resilient \<Rightarrow> bool" for ops where
  new: "rts_reach ops (ResilientTimeService_new rtc config)"
| start: "rts_reach ops s \<Longrightarrow> rts_reach ops (snd (rts_begin ops s nowMs))"
| poll: "rts_reach ops s \<Longrightarrow> rts_reach ops (rts_poll ops s nowMs)"
| sync: "rts_reach ops s \<Longrightarrow> rts_reach ops (rts_syncUtc s utc nowMs)"
| shared: "rts_reach ops s \<Longrightarrow> rts_reach ops (s\<lparr>rts_rtc := rtc\<rparr>)"

definition rtsOk :: "'b resilient \<Rightarrow> bool" where
  "rtsOk s \<longleftrightarrow>
     0 < failureThreshold (rts_config s) \<and> 0 < recoveryThreshold (rts_config s) \<and>
     (rts_rtcHealthy s \<longrightarrow> rts_hasValidCache s \<and> rts_consecutiveFailures s < failureThreshold (rts_config s)) \<and>
     (\<not> rts_rtcHealthy s \<longrightarrow> rts_consecutiveSuccesses s < recoveryThreshold (rts_config s)) \<and>
     (rts_hasValidCache s \<longrightarrow> utcOk (rts_cachedUtc s))"

lemma rtsOk_new: "rtsOk (ResilientTimeService_new rtc config)"
  by (simp add: rtsOk_def ResilientTimeService_new_def word_gt_0)

lemma rtsOk_begin: "rtsOk s \<Longrightarrow> rtsOk (snd (rts_begin ops s nowMs))"
  using rtc_read_utcOk [of ops "snd (rtc_begin ops (rts_rtc s))"]
  by (auto simp: rtsOk_def rts_begin_def Let_def split_beta)

lemma rtsOk_poll: "rtsOk s \<Longrightarrow> rtsOk (rts_poll ops s nowMs)"
  using rtc_read_utcOk [of ops "rts_rtc s"]
  by (auto simp: rtsOk_def rts_poll_def Let_def split_beta)

lemma rtsOk_sync: "rtsOk s \<Longrightarrow> rtsOk (rts_syncUtc s utc nowMs)"
  by (auto simp: rtsOk_def rts_syncUtc_def utcOk_def)

lemma rtsOk_shared: "rtsOk s \<Longrightarrow> rtsOk (s\<lparr>rts_rtc := rtc\<rparr>)"
  by (simp add: rtsOk_def)

lemma rts_reach_ok: "rts_reach ops s \<Longrightarrow> rtsOk s"
  by (induction rule: rts_reach.induct)
    (blast intro: rtsOk_new rtsOk_begin rtsOk_poll rtsOk_sync rtsOk_shared)+

text \<open>The next \<open>n\<close> readings of the chip all satisfy \<open>P\<close>.\<close>

fun readsAll :: "(LocalTime \<Rightarrow> bool) \<Rightarrow> 'b rtc_bus \<Rightarrow> 'b rtc_service \<Rightarrow> nat \<Rightarrow> bool" where
  "readsAll P ops rtc 0 = True"
| "readsAll P ops rtc (Suc n) = (P (fst (rtc_read ops rtc)) \<and> readsAll P ops (snd (rtc_read ops rtc)) n)"

lemma u8_step: "(if n < (255 :: u8) then n + 1 else n) = of_nat (min 255 (unat n + 1))"
proof (cases "n < 255")
  case True
  then have "unat n < 255" by (simp add: word_less_nat_alt)
  then show ?thesis using True by (simp add: add.commute)
next
  case False
  then have "255 \<le> unat n" by (simp add: word_less_nat_alt)
  moreover have "unat n < 256" using unsigned_less [of n, where 'a = nat] by simp
  ultimately have "unat n = 255" by simp
  then show ?thesis using False by (simp add: word_unat_eq_iff)
qed

lemma unat_u8: "n < 256 \<Longrightarrow> unat (of_nat n :: u8) = n"
  by (simp add: unat_of_nat)

lemma u8_bound: "unat (x :: u8) < 256"
  using unsigned_less [of x, where 'a = nat] by simp

lemma poll_failing:
  assumes "\<not> lt_valid (fst (rtc_read ops (rts_rtc s)))" "rtcEnabled (rts_config s)"
  defines "n \<equiv> min 255 (unat (rts_consecutiveFailures s) + 1)"
  shows "rts_poll ops s nowMs = s\<lparr>rts_lastPollMs := nowMs, rts_rtc := snd (rtc_read ops (rts_rtc s)),
      rts_consecutiveSuccesses := 0, rts_consecutiveFailures := of_nat n,
      rts_rtcHealthy := rts_rtcHealthy s \<and> n < unat (failureThreshold (rts_config s))\<rparr>"
proof -
  have "n < 256" by (simp add: n_def)
  then have ge: "((of_nat n :: u8) \<ge> failureThreshold (rts_config s)) = (unat (failureThreshold (rts_config s)) \<le> n)"
    by (simp only: word_le_nat_alt unat_u8)
  show ?thesis
    unfolding rts_poll_def Let_def split_beta u8_step
    using assms(1,2) ge by (auto simp add: n_def)
qed

lemma poll_answering:
  assumes "lt_valid (fst (rtc_read ops (rts_rtc s)))" "rtcEnabled (rts_config s)"
  defines "n \<equiv> min 255 (unat (rts_consecutiveSuccesses s) + 1)"
  shows "rts_poll ops s nowMs = s\<lparr>rts_lastPollMs := nowMs, rts_rtc := snd (rtc_read ops (rts_rtc s)),
      rts_cachedUtc := fst (rtc_read ops (rts_rtc s)), rts_cachedAtMs := nowMs, rts_hasValidCache := True,
      rts_consecutiveFailures := 0,
      rts_consecutiveSuccesses := (if rts_rtcHealthy s then recoveryThreshold (rts_config s) else of_nat n),
      rts_rtcHealthy := rts_rtcHealthy s \<or> unat (recoveryThreshold (rts_config s)) \<le> n\<rparr>"
proof -
  have "n < 256" by (simp add: n_def)
  then have ge: "((of_nat n :: u8) \<ge> recoveryThreshold (rts_config s)) = (unat (recoveryThreshold (rts_config s)) \<le> n)"
    by (simp only: word_le_nat_alt unat_u8)
  show ?thesis
    unfolding rts_poll_def Let_def split_beta u8_step
    using assms(1,2) ge by (auto simp add: n_def)
qed

lemma polls_failing:
  assumes "readsAll (\<lambda>t. \<not> lt_valid t) ops (rts_rtc s) (length ts)" "rtcEnabled (rts_config s)" "ts \<noteq> []"
  shows "rts_rtcHealthy (foldl (rts_poll ops) s ts) =
      (rts_rtcHealthy s \<and> unat (rts_consecutiveFailures s) + length ts < unat (failureThreshold (rts_config s))) \<and>
    rts_now (foldl (rts_poll ops) s ts) = rts_now s"
  using assms
proof (induction ts arbitrary: s)
  case (Cons nowMs ts)
  define k where "k = unat (rts_consecutiveFailures s)"
  define f where "f = unat (failureThreshold (rts_config s))"
  have f: "f < 256" by (simp add: f_def u8_bound)
  define n where "n = min 255 (k + 1)"
  define s1 where "s1 = rts_poll ops s nowMs"
  have s1: "s1 = s\<lparr>rts_lastPollMs := nowMs, rts_rtc := snd (rtc_read ops (rts_rtc s)),
      rts_consecutiveSuccesses := 0, rts_consecutiveFailures := of_nat n, rts_rtcHealthy := rts_rtcHealthy s \<and> n < f\<rparr>"
    unfolding s1_def n_def k_def f_def by (rule poll_failing) (use Cons.prems in simp_all)
  have fields: "rts_rtc s1 = snd (rtc_read ops (rts_rtc s))" "rts_config s1 = rts_config s"
    "rts_consecutiveFailures s1 = of_nat n" "rts_rtcHealthy s1 = (rts_rtcHealthy s \<and> n < f)"
    "rts_now s1 = rts_now s"
    by (simp_all add: s1 rts_now_def fun_eq_iff)
  have un: "unat (rts_consecutiveFailures s1) = n" unfolding fields by (rule unat_u8) (simp add: n_def)
  have fold: "foldl (rts_poll ops) s (nowMs # ts) = foldl (rts_poll ops) s1 ts" by (simp add: s1_def)
  show ?case
  proof (cases "ts = []")
    case True
    then show ?thesis unfolding fold k_def [symmetric] f_def [symmetric] using f fields by (auto simp: n_def)
  next
    case False
    have "rts_rtcHealthy (foldl (rts_poll ops) s1 ts) = (rts_rtcHealthy s1 \<and> n + length ts < f) \<and>
        rts_now (foldl (rts_poll ops) s1 ts) = rts_now s1"
      using Cons.IH [of s1] Cons.prems False fields un by (simp add: f_def)
    then show ?thesis
      unfolding fold k_def [symmetric] f_def [symmetric] using fields f by (auto simp: n_def)
  qed
qed simp

lemma polls_answering:
  assumes "readsAll lt_valid ops (rts_rtc s) (length ts)" "rtcEnabled (rts_config s)" "ts \<noteq> []"
    "\<not> rts_rtcHealthy s \<longrightarrow> rts_consecutiveSuccesses s < recoveryThreshold (rts_config s)"
  shows "rts_rtcHealthy (foldl (rts_poll ops) s ts) =
    (rts_rtcHealthy s \<or> unat (recoveryThreshold (rts_config s)) \<le> unat (rts_consecutiveSuccesses s) + length ts)"
  using assms
proof (induction ts arbitrary: s)
  case (Cons nowMs ts)
  define k where "k = unat (rts_consecutiveSuccesses s)"
  define r where "r = unat (recoveryThreshold (rts_config s))"
  have r: "r < 256" by (simp add: r_def u8_bound)
  have kr: "\<not> rts_rtcHealthy s \<Longrightarrow> k < r"
    using Cons.prems(4) by (simp add: k_def r_def word_less_nat_alt)
  define n where "n = min 255 (k + 1)"
  define s1 where "s1 = rts_poll ops s nowMs"
  note p = poll_answering [of ops s nowMs, folded k_def r_def n_def s1_def]
  have fields: "rts_rtc s1 = snd (rtc_read ops (rts_rtc s))" "rts_config s1 = rts_config s"
    "\<not> rts_rtcHealthy s \<Longrightarrow> rts_consecutiveSuccesses s1 = of_nat n" "rts_rtcHealthy s1 = (rts_rtcHealthy s \<or> r \<le> n)"
    using p Cons.prems(1,2) by (simp_all add: n_def)
  have un: "unat (of_nat n :: u8) = n" by (rule unat_u8) (simp add: n_def)
  have fold: "foldl (rts_poll ops) s (nowMs # ts) = foldl (rts_poll ops) s1 ts" by (simp add: s1_def)
  have inv: "\<not> rts_rtcHealthy s1 \<longrightarrow> rts_consecutiveSuccesses s1 < recoveryThreshold (rts_config s1)"
    using fields un by (auto simp: word_less_nat_alt r_def)
  show ?case
  proof (cases "ts = []")
    case True
    then show ?thesis unfolding fold k_def [symmetric] r_def [symmetric] using r kr fields by (auto simp: n_def)
  next
    case False
    have "rts_rtcHealthy (foldl (rts_poll ops) s1 ts) =
        (rts_rtcHealthy s1 \<or> r \<le> unat (rts_consecutiveSuccesses s1) + length ts)"
      using Cons.IH [of s1] Cons.prems False fields(1,2) inv by (simp add: r_def)
    then show ?thesis
      unfolding fold k_def [symmetric] r_def [symmetric] using fields(3,4) un r kr
      by (cases "rts_rtcHealthy s") (auto simp: n_def)
  qed
qed simp

end
