(* ===== verification/NtpService.thy ===== *)
theory NtpService
  imports RtcService
begin

text \<open>
  Network time, \<open>aquaOneCore/src/Time/NtpService.cpp\<close> and \<open>NetworkNtpSync.cpp\<close>: one synchronisation
  attempt at a time, its timeout, the verified write to the clock chip, the periodic schedule, and the
  extension of the 32-bit millisecond counter to 64 bits. The SNTP client is the abstract class
  \<open>NtpBackend\<close>, a record of operations on a state \<open>'n\<close>. The injected monotonic clock is read at each
  call, so its value is an argument of the call.
\<close>

section \<open>Backend\<close>

datatype NtpBackendResult = NtpPending | NtpSuccess | NtpFailure

definition NTP_MAX_SERVERS :: u8 where "NTP_MAX_SERVERS = 3"
definition NTP_SERVER_NAME_CAPACITY :: nat where "NTP_SERVER_NAME_CAPACITY = 64"
definition NTP_SYNC_TIMEOUT_MS :: u32 where "NTP_SYNC_TIMEOUT_MS = 10000"
definition NTP_SYNC_INTERVAL_MS :: u32 where "NTP_SYNC_INTERVAL_MS = 24 * 60 * 60 * 1000"

definition emptyUtc :: UtcDateTime where
  "emptyUtc = \<lparr>ut_year = 0, ut_month = 0, ut_day = 0, ut_hour = 0, ut_minute = 0, ut_second = 0\<rparr>"

definition utcValid :: "UtcDateTime \<Rightarrow> bool" where
  "utcValid u = isValidUtc (ut_year u) (ut_month u) (ut_day u) (ut_hour u) (ut_minute u) (ut_second u)"

text \<open>A null server name is \<open>None\<close>.\<close>

record 'n ntp_backend =
  nbStart :: "'n \<Rightarrow> string option list \<Rightarrow> u8 \<Rightarrow> bool \<times> 'n"
  nbPoll :: "'n \<Rightarrow> NtpBackendResult \<times> UtcDateTime \<times> 'n"
  nbStop :: "'n \<Rightarrow> 'n"

text \<open>
  The SNTP client of the ESP-IDF and \<open>gmtime_r\<close>, which the class \<open>EspNtpBackend\<close> drives. They are not
  part of the repository: \<open>sntpTime\<close> is what \<open>time\<close> gives, \<open>sntpGmtime\<close> the broken-down time, with
  \<open>tm_year\<close> counted from 1900 and \<open>tm_mon\<close> from 0.
\<close>

record tm =
  tm_year :: int
  tm_mon :: int
  tm_mday :: int
  tm_hour :: int
  tm_min :: int
  tm_sec :: int

record 'e sntp =
  sntpEnabled :: "'e \<Rightarrow> bool"
  sntpStop :: "'e \<Rightarrow> 'e"
  sntpSetOperatingModePoll :: "'e \<Rightarrow> 'e"
  sntpSetSyncModeImmediate :: "'e \<Rightarrow> 'e"
  sntpResetSyncStatus :: "'e \<Rightarrow> 'e"
  sntpSetServerName :: "'e \<Rightarrow> nat \<Rightarrow> string option \<Rightarrow> 'e"
  sntpInit :: "'e \<Rightarrow> 'e"
  sntpSyncCompleted :: "'e \<Rightarrow> bool"
  sntpTime :: "'e \<Rightarrow> int"
  sntpGmtime :: "int \<Rightarrow> tm option"

definition EspNtpBackend_start :: "'e sntp \<Rightarrow> 'e \<Rightarrow> string option list \<Rightarrow> u8 \<Rightarrow> bool \<times> 'e" where
  "EspNtpBackend_start lib e servers serverCount =
     (if serverCount = 0 \<or> serverCount > NTP_MAX_SERVERS then (False, e)
      else
        let e1 = (if sntpEnabled lib e then sntpStop lib e else e);
            e2 = sntpResetSyncStatus lib (sntpSetSyncModeImmediate lib (sntpSetOperatingModePoll lib e1));
            e3 = foldl (\<lambda>e i. sntpSetServerName lib e i (if i < unat serverCount then servers ! i else None))
                   e2 [0..<unat NTP_MAX_SERVERS];
            e4 = sntpInit lib e3
        in (sntpEnabled lib e4, e4))"

definition EspNtpBackend_poll :: "'e sntp \<Rightarrow> 'e \<Rightarrow> NtpBackendResult \<times> UtcDateTime \<times> 'e" where
  "EspNtpBackend_poll lib e =
     (if \<not> sntpEnabled lib e then (NtpFailure, emptyUtc, e)
      else if \<not> sntpSyncCompleted lib e then (NtpPending, emptyUtc, e)
      else if sntpTime lib e < 0 then (NtpFailure, emptyUtc, e)
      else
        case sntpGmtime lib (sntpTime lib e) of
          None \<Rightarrow> (NtpFailure, emptyUtc, e)
        | Some utcTime \<Rightarrow>
            let year = tm_year utcTime + 1900
            in if year < 2000 \<or> year > 2199 then (NtpFailure, emptyUtc, e)
               else (NtpSuccess, \<lparr>ut_year = of_int year, ut_month = of_int (tm_mon utcTime + 1),
                      ut_day = of_int (tm_mday utcTime), ut_hour = of_int (tm_hour utcTime),
                      ut_minute = of_int (tm_min utcTime), ut_second = of_int (tm_sec utcTime)\<rparr>, e))"

definition EspNtpBackend_stop :: "'e sntp \<Rightarrow> 'e \<Rightarrow> 'e" where
  "EspNtpBackend_stop lib e = (if sntpEnabled lib e then sntpStop lib e else e)"

definition EspNtpBackend :: "'e sntp \<Rightarrow> 'e ntp_backend" where
  "EspNtpBackend lib =
     \<lparr>nbStart = EspNtpBackend_start lib, nbPoll = EspNtpBackend_poll lib, nbStop = EspNtpBackend_stop lib\<rparr>"

section \<open>Legacy clock\<close>

record LegacyMillisClock =
  lmc_nowMs :: u64
  lmc_lastMs :: u32
  lmc_hasObservation :: bool

definition LegacyMillisClock_new :: LegacyMillisClock where
  "LegacyMillisClock_new = \<lparr>lmc_nowMs = 0, lmc_lastMs = 0, lmc_hasObservation = False\<rparr>"

definition lmc_observe :: "LegacyMillisClock \<Rightarrow> u32 \<Rightarrow> LegacyMillisClock" where
  "lmc_observe c nowMs =
     (let c1 = (if \<not> lmc_hasObservation c then c\<lparr>lmc_nowMs := ucast nowMs, lmc_hasObservation := True\<rparr>
                else c\<lparr>lmc_nowMs := lmc_nowMs c + ucast (nowMs - lmc_lastMs c)\<rparr>)
      in c1\<lparr>lmc_lastMs := nowMs\<rparr>)"

definition lmc_expanded :: "LegacyMillisClock \<Rightarrow> u32 \<Rightarrow> u64" where
  "lmc_expanded c nowMs =
     (if lmc_hasObservation c then lmc_nowMs c + ucast (nowMs - lmc_lastMs c) else ucast nowMs)"

section \<open>The service\<close>

record NtpConfig =
  nc_servers :: "string option list"
  nc_serverCount :: u8
  nc_timeoutMs :: u32
  nc_syncIntervalMs :: u32
  nc_rtcSyncEnabled :: bool

record ('b, 'n) ntp_service =
  ntp_rtc :: "'b rtc_service"
  ntp_backend :: 'n
  ntp_legacyClock :: LegacyMillisClock
  ntp_legacyTiming :: bool
  ntp_serverNames :: "string list"
  ntp_serverCount :: u8
  ntp_timeoutMs :: u32
  ntp_syncIntervalMs :: u32
  ntp_attemptStartedMs :: u64
  ntp_periodicAnchorMs :: u64
  ntp_lastSuccessfulSyncMs :: u64
  ntp_lastReceivedUtc :: UtcDateTime
  ntp_newUtcPending :: bool
  ntp_lastFetchSucceededFlag :: bool
  ntp_initialized :: bool
  ntp_syncInProgress :: bool
  ntp_hasSyncResult :: bool
  ntp_lastSyncSucceededFlag :: bool
  ntp_hasSuccessfulSync :: bool
  ntp_rtcSyncEnabled :: bool

definition NtpService_new :: "'b rtc_service \<Rightarrow> 'n \<Rightarrow> bool \<Rightarrow> ('b, 'n) ntp_service" where
  "NtpService_new rtc backend legacy =
     \<lparr>ntp_rtc = rtc, ntp_backend = backend, ntp_legacyClock = LegacyMillisClock_new,
      ntp_legacyTiming = legacy, ntp_serverNames = ['''', '''', ''''], ntp_serverCount = 0,
      ntp_timeoutMs = NTP_SYNC_TIMEOUT_MS, ntp_syncIntervalMs = NTP_SYNC_INTERVAL_MS,
      ntp_attemptStartedMs = 0, ntp_periodicAnchorMs = 0, ntp_lastSuccessfulSyncMs = 0,
      ntp_lastReceivedUtc = emptyUtc, ntp_newUtcPending = False, ntp_lastFetchSucceededFlag = False,
      ntp_initialized = False, ntp_syncInProgress = False, ntp_hasSyncResult = False,
      ntp_lastSyncSucceededFlag = False, ntp_hasSuccessfulSync = False, ntp_rtcSyncEnabled = True\<rparr>"

definition ntp_defaultConfig :: NtpConfig where
  "ntp_defaultConfig =
     \<lparr>nc_servers = [Some ''pool.ntp.org'', Some ''time.google.com'', Some ''time.cloudflare.com''],
      nc_serverCount = NTP_MAX_SERVERS, nc_timeoutMs = NTP_SYNC_TIMEOUT_MS,
      nc_syncIntervalMs = NTP_SYNC_INTERVAL_MS, nc_rtcSyncEnabled = True\<rparr>"

text \<open>The clock: the extended counter, or the value \<open>injected\<close> of the injected clock.\<close>

definition ntp_clockNow :: "('b, 'n) ntp_service \<Rightarrow> u64 \<Rightarrow> u64" where
  "ntp_clockNow s injected = (if ntp_legacyTiming s then lmc_nowMs (ntp_legacyClock s) else injected)"

definition ntp_observe :: "('b, 'n) ntp_service \<Rightarrow> u32 \<Rightarrow> ('b, 'n) ntp_service" where
  "ntp_observe s nowMs =
     (if ntp_legacyTiming s then s\<lparr>ntp_legacyClock := lmc_observe (ntp_legacyClock s) nowMs\<rparr> else s)"

definition ntp_timeAt :: "('b, 'n) ntp_service \<Rightarrow> u64 \<Rightarrow> u32 \<Rightarrow> u64" where
  "ntp_timeAt s injected nowMs =
     (if ntp_legacyTiming s then lmc_expanded (ntp_legacyClock s) nowMs else injected)"

definition copyServerName :: "string option \<Rightarrow> string option" where
  "copyServerName source =
     (case source of
        None \<Rightarrow> None
      | Some name \<Rightarrow> if length name = 0 \<or> length name \<ge> NTP_SERVER_NAME_CAPACITY then None else Some name)"

text \<open>The copy loop of \<open>beginAt\<close> over the server indexes; it stops at the first name it refuses.\<close>

fun copyServers :: "nat list \<Rightarrow> string option list \<Rightarrow> string list \<Rightarrow> bool \<times> string list" where
  "copyServers [] servers names = (True, names)"
| "copyServers (i # is) servers names =
     (case copyServerName (servers ! i) of
        None \<Rightarrow> (False, names)
      | Some name \<Rightarrow> copyServers is servers (names[i := name]))"

definition ntp_beginAt ::
  "'n ntp_backend \<Rightarrow> ('b, 'n) ntp_service \<Rightarrow> NtpConfig \<Rightarrow> u64 \<Rightarrow> bool \<times> ('b, 'n) ntp_service" where
  "ntp_beginAt ops s0 config nowMs =
     (let s1 = (if ntp_syncInProgress s0 then s0\<lparr>ntp_backend := nbStop ops (ntp_backend s0)\<rparr> else s0);
          s2 = s1\<lparr>ntp_initialized := False, ntp_syncInProgress := False, ntp_hasSyncResult := False,
                  ntp_lastSyncSucceededFlag := False, ntp_lastFetchSucceededFlag := False,
                  ntp_newUtcPending := False, ntp_hasSuccessfulSync := False, ntp_serverCount := 0\<rparr>
      in if nc_serverCount config = 0 \<or> nc_serverCount config > NTP_MAX_SERVERS \<or>
            nc_timeoutMs config = 0 \<or> nc_syncIntervalMs config = 0 then (False, s2)
      else
        let (ok, names) = copyServers [0..<unat (nc_serverCount config)] (nc_servers config) ['''', '''', ''''];
            s3 = s2\<lparr>ntp_serverNames := names\<rparr>
        in if \<not> ok then (False, s3)
        else
          (True, s3\<lparr>ntp_serverCount := nc_serverCount config, ntp_timeoutMs := nc_timeoutMs config,
                    ntp_syncIntervalMs := nc_syncIntervalMs config,
                    ntp_rtcSyncEnabled := nc_rtcSyncEnabled config, ntp_attemptStartedMs := nowMs,
                    ntp_periodicAnchorMs := nowMs, ntp_lastSuccessfulSyncMs := 0, ntp_initialized := True\<rparr>))"

definition ntp_begin ::
  "'n ntp_backend \<Rightarrow> ('b, 'n) ntp_service \<Rightarrow> u64 \<Rightarrow> NtpConfig \<Rightarrow> u32 \<Rightarrow> bool \<times> ('b, 'n) ntp_service" where
  "ntp_begin ops s injected config nowMs =
     (let s1 = ntp_observe s nowMs in ntp_beginAt ops s1 config (ntp_clockNow s1 injected))"

definition ntp_requestSyncAt ::
  "'n ntp_backend \<Rightarrow> ('b, 'n) ntp_service \<Rightarrow> bool \<Rightarrow> u64 \<Rightarrow> bool \<times> ('b, 'n) ntp_service" where
  "ntp_requestSyncAt ops s0 wifiAvailable nowMs =
     (if \<not> ntp_initialized s0 \<or> ntp_syncInProgress s0 then (False, s0)
      else
        let s = s0\<lparr>ntp_attemptStartedMs := nowMs\<rparr>
        in if \<not> wifiAvailable then
             (False, s\<lparr>ntp_hasSyncResult := True, ntp_lastSyncSucceededFlag := False,
                       ntp_lastFetchSucceededFlag := False, ntp_periodicAnchorMs := nowMs\<rparr>)
        else
          let servers = map (\<lambda>i. if i < unat (ntp_serverCount s) then Some (ntp_serverNames s ! i) else None)
                          [0..<unat NTP_MAX_SERVERS];
              (started, n1) = nbStart ops (ntp_backend s) servers (ntp_serverCount s)
          in if \<not> started then
               (False, s\<lparr>ntp_backend := nbStop ops n1, ntp_hasSyncResult := True,
                         ntp_lastSyncSucceededFlag := False, ntp_lastFetchSucceededFlag := False,
                         ntp_periodicAnchorMs := nowMs\<rparr>)
          else (True, s\<lparr>ntp_backend := n1, ntp_syncInProgress := True\<rparr>))"

definition ntp_requestSync ::
  "'n ntp_backend \<Rightarrow> ('b, 'n) ntp_service \<Rightarrow> u64 \<Rightarrow> bool \<Rightarrow> bool \<times> ('b, 'n) ntp_service" where
  "ntp_requestSync ops s injected wifiAvailable = ntp_requestSyncAt ops s wifiAvailable (ntp_clockNow s injected)"

definition ntp_requestSync_legacy ::
  "'n ntp_backend \<Rightarrow> ('b, 'n) ntp_service \<Rightarrow> u64 \<Rightarrow> bool \<Rightarrow> u32 \<Rightarrow> bool \<times> ('b, 'n) ntp_service" where
  "ntp_requestSync_legacy ops s injected wifiAvailable nowMs =
     (let s1 = ntp_observe s nowMs in ntp_requestSyncAt ops s1 wifiAvailable (ntp_clockNow s1 injected))"

definition ntp_isPeriodicSyncDueAt :: "('b, 'n) ntp_service \<Rightarrow> u64 \<Rightarrow> bool" where
  "ntp_isPeriodicSyncDueAt s nowMs \<longleftrightarrow>
     ntp_initialized s \<and> \<not> ntp_syncInProgress s \<and>
     nowMs - ntp_periodicAnchorMs s \<ge> ucast (ntp_syncIntervalMs s)"

definition ntp_requestPeriodicSync ::
  "'n ntp_backend \<Rightarrow> ('b, 'n) ntp_service \<Rightarrow> u64 \<Rightarrow> bool \<Rightarrow> bool \<times> ('b, 'n) ntp_service" where
  "ntp_requestPeriodicSync ops s injected wifiAvailable =
     (let nowMs = ntp_clockNow s injected
      in if \<not> ntp_isPeriodicSyncDueAt s nowMs then (False, s)
         else ntp_requestSyncAt ops s wifiAvailable nowMs)"

definition ntp_requestPeriodicSync_legacy ::
  "'n ntp_backend \<Rightarrow> ('b, 'n) ntp_service \<Rightarrow> u64 \<Rightarrow> bool \<Rightarrow> u32 \<Rightarrow> bool \<times> ('b, 'n) ntp_service" where
  "ntp_requestPeriodicSync_legacy ops s injected wifiAvailable nowMs =
     ntp_requestPeriodicSync ops (ntp_observe s nowMs) injected wifiAvailable"

definition ntp_finishAttempt ::
  "'n ntp_backend \<Rightarrow> ('b, 'n) ntp_service \<Rightarrow> bool \<Rightarrow> bool \<Rightarrow> u64 \<Rightarrow> ('b, 'n) ntp_service" where
  "ntp_finishAttempt ops s0 fetchSucceeded rtcUpdated nowMs =
     (let s = s0\<lparr>ntp_backend := nbStop ops (ntp_backend s0), ntp_syncInProgress := False,
                 ntp_hasSyncResult := True, ntp_lastFetchSucceededFlag := fetchSucceeded,
                 ntp_lastSyncSucceededFlag := fetchSucceeded \<and> rtcUpdated, ntp_periodicAnchorMs := nowMs\<rparr>
      in if ntp_lastSyncSucceededFlag s
         then s\<lparr>ntp_hasSuccessfulSync := True, ntp_lastSuccessfulSyncMs := nowMs\<rparr>
         else s)"

definition ntp_updateAt ::
  "'b rtc_bus \<Rightarrow> 'n ntp_backend \<Rightarrow> ('b, 'n) ntp_service \<Rightarrow> bool \<Rightarrow> u64 \<Rightarrow> ('b, 'n) ntp_service" where
  "ntp_updateAt bus ops s0 wifiAvailable nowMs =
     (if \<not> ntp_syncInProgress s0 then s0
      else if \<not> wifiAvailable \<or> nowMs - ntp_attemptStartedMs s0 \<ge> ucast (ntp_timeoutMs s0)
      then ntp_finishAttempt ops s0 False False nowMs
      else
        let (result, utc, n1) = nbPoll ops (ntp_backend s0);
            s = s0\<lparr>ntp_backend := n1\<rparr>
        in if result = NtpPending then s
        else if result = NtpFailure \<or> \<not> utcValid utc then ntp_finishAttempt ops s False False nowMs
        else
          let s1 = s\<lparr>ntp_lastReceivedUtc := utc, ntp_newUtcPending := True\<rparr>;
              (rtcUpdated, s2) =
                (if ntp_rtcSyncEnabled s1 then
                   (let (ok, rtc1) = rtc_setUtc bus (ntp_rtc s1) (ut_year utc) (ut_month utc) (ut_day utc)
                          (ut_hour utc) (ut_minute utc) (ut_second utc)
                    in (ok, s1\<lparr>ntp_rtc := rtc1\<rparr>))
                 else (False, s1))
          in ntp_finishAttempt ops s2 True rtcUpdated nowMs)"

definition ntp_update ::
  "'b rtc_bus \<Rightarrow> 'n ntp_backend \<Rightarrow> ('b, 'n) ntp_service \<Rightarrow> u64 \<Rightarrow> bool \<Rightarrow> ('b, 'n) ntp_service" where
  "ntp_update bus ops s injected wifiAvailable = ntp_updateAt bus ops s wifiAvailable (ntp_clockNow s injected)"

definition ntp_update_legacy ::
  "'b rtc_bus \<Rightarrow> 'n ntp_backend \<Rightarrow> ('b, 'n) ntp_service \<Rightarrow> u64 \<Rightarrow> bool \<Rightarrow> u32 \<Rightarrow> ('b, 'n) ntp_service" where
  "ntp_update_legacy bus ops s injected wifiAvailable nowMs =
     ntp_update bus ops (ntp_observe s nowMs) injected wifiAvailable"

definition ntp_lastSyncSucceeded :: "('b, 'n) ntp_service \<Rightarrow> bool" where
  "ntp_lastSyncSucceeded s \<longleftrightarrow> ntp_hasSyncResult s \<and> ntp_lastSyncSucceededFlag s"

definition ntp_lastFetchSucceeded :: "('b, 'n) ntp_service \<Rightarrow> bool" where
  "ntp_lastFetchSucceeded s \<longleftrightarrow> ntp_hasSyncResult s \<and> ntp_lastFetchSucceededFlag s"

definition ntp_takeReceivedUtc :: "('b, 'n) ntp_service \<Rightarrow> UtcDateTime option \<times> ('b, 'n) ntp_service" where
  "ntp_takeReceivedUtc s =
     (if \<not> ntp_newUtcPending s then (None, s)
      else (Some (ntp_lastReceivedUtc s), s\<lparr>ntp_newUtcPending := False\<rparr>))"

definition ntp_isPeriodicSyncDue :: "('b, 'n) ntp_service \<Rightarrow> u64 \<Rightarrow> bool" where
  "ntp_isPeriodicSyncDue s injected = ntp_isPeriodicSyncDueAt s (ntp_clockNow s injected)"

definition ntp_isPeriodicSyncDue_legacy :: "('b, 'n) ntp_service \<Rightarrow> u64 \<Rightarrow> u32 \<Rightarrow> bool" where
  "ntp_isPeriodicSyncDue_legacy s injected nowMs = ntp_isPeriodicSyncDueAt s (ntp_timeAt s injected nowMs)"

text \<open>The age of the last success: the flag, and what is stored in \<open>ageMs\<close>.\<close>

definition ntp_lastSuccessfulSyncAgeMs_legacy :: "('b, 'n) ntp_service \<Rightarrow> u64 \<Rightarrow> u32 \<Rightarrow> bool \<times> u32" where
  "ntp_lastSuccessfulSyncAgeMs_legacy s injected nowMs =
     (if \<not> ntp_hasSuccessfulSync s then (False, 0)
      else (True, ucast (ntp_timeAt s injected nowMs - ntp_lastSuccessfulSyncMs s)))"

definition ntp_lastSuccessfulSyncAgeMs :: "('b, 'n) ntp_service \<Rightarrow> u64 \<Rightarrow> bool \<times> u64" where
  "ntp_lastSuccessfulSyncAgeMs s injected =
     (if \<not> ntp_hasSuccessfulSync s then (False, 0)
      else (True, ntp_clockNow s injected - ntp_lastSuccessfulSyncMs s))"

text \<open>\<open>NetworkNtpSync::update\<close>; \<open>connected\<close> is whether the network state is \<open>Connected\<close>.\<close>

definition networkNtpSync_update ::
  "'b rtc_bus \<Rightarrow> 'n ntp_backend \<Rightarrow> ('b, 'n) ntp_service \<Rightarrow> u64 \<Rightarrow> bool \<Rightarrow> ('b, 'n) ntp_service" where
  "networkNtpSync_update bus ops s injected connected =
     (let s1 = ntp_update bus ops s injected connected
      in if \<not> connected \<or> \<not> ntp_initialized s1 then s1
      else if \<not> ntp_hasSyncResult s1 \<and> \<not> ntp_syncInProgress s1
      then snd (ntp_requestSync ops s1 injected True)
      else snd (ntp_requestPeriodicSync ops s1 injected True))"

section \<open>The extended counter\<close>

text \<open>
  True times, in milliseconds since start, of which a call only sees the low 32 bits. When no gap
  reaches \<open>2 ^ 32\<close> milliseconds the extension loses nothing.
\<close>

fun gapsBelow :: "nat \<Rightarrow> nat list \<Rightarrow> bool" where
  "gapsBelow t [] = True"
| "gapsBelow t (t' # ts) = (t \<le> t' \<and> t' - t < 4294967296 \<and> gapsBelow t' ts)"

lemma ucast_gap:
  assumes "t \<le> t'" "t' - t < 4294967296"
  shows "(ucast (of_nat t' - of_nat t :: u32) :: u64) = of_nat t' - of_nat t"
proof -
  have "(of_nat t' - of_nat t :: u32) = of_nat (t' - t)" using assms(1) by (simp add: of_nat_diff)
  moreover have "(ucast (of_nat (t' - t) :: u32) :: u64) = of_nat (t' - t)"
    using assms(2) by (simp add: word_uint_eq_iff uint_ucast_mod uint_word_of_int_eq take_bit_int_eq_self nat_take_bit_eq unsigned_of_nat take_bit_nat_eq_self)
  ultimately show ?thesis using assms(1) by (simp add: of_nat_diff)
qed

lemma observe_all:
  assumes "lmc_hasObservation c" "lmc_lastMs c = of_nat t" "gapsBelow t ts"
  shows "let c' = foldl lmc_observe c (map of_nat ts) in
    lmc_hasObservation c' \<and> lmc_lastMs c' = of_nat (last (t # ts)) \<and>
    lmc_nowMs c' = lmc_nowMs c + of_nat (last (t # ts)) - of_nat t"
  using assms
proof (induction ts arbitrary: c t)
  case (Cons t' ts)
  define c1 where "c1 = lmc_observe c (of_nat t')"
  have c1: "lmc_hasObservation c1" "lmc_lastMs c1 = of_nat t'"
    "lmc_nowMs c1 = lmc_nowMs c + of_nat t' - of_nat t"
    using Cons.prems by (simp_all add: c1_def lmc_observe_def ucast_gap)
  show ?case
    using Cons.IH [OF c1(1,2)] Cons.prems(3) c1(3)
    by (auto simp: Let_def c1_def [symmetric])
qed (simp add: Let_def)

section \<open>Reachable states\<close>

text \<open>Any call with any arguments; the chip and the SNTP client may change between two calls.\<close>

inductive ntp_reach :: "'b rtc_bus \<Rightarrow> 'n ntp_backend \<Rightarrow> ('b, 'n) ntp_service \<Rightarrow> bool" for bus ops where
  new: "ntp_reach bus ops (NtpService_new rtc backend legacy)"
| start: "ntp_reach bus ops s \<Longrightarrow> ntp_reach bus ops (snd (ntp_begin ops s injected config nowMs))"
| request: "ntp_reach bus ops s \<Longrightarrow> ntp_reach bus ops (snd (ntp_requestSyncAt ops s wifi nowMs))"
| update: "ntp_reach bus ops s \<Longrightarrow> ntp_reach bus ops (ntp_updateAt bus ops s wifi nowMs)"
| observe: "ntp_reach bus ops s \<Longrightarrow> ntp_reach bus ops (ntp_observe s nowMs)"
| taken: "ntp_reach bus ops s \<Longrightarrow> ntp_reach bus ops (snd (ntp_takeReceivedUtc s))"
| shared: "ntp_reach bus ops s \<Longrightarrow> ntp_reach bus ops (s\<lparr>ntp_rtc := rtc, ntp_backend := n\<rparr>)"

definition serverOk :: "string \<Rightarrow> bool" where
  "serverOk name \<longleftrightarrow> 0 < length name \<and> length name < NTP_SERVER_NAME_CAPACITY"

definition serversOk :: "('b, 'n) ntp_service \<Rightarrow> bool" where
  "serversOk s \<longleftrightarrow> 0 < unat (ntp_serverCount s) \<and> unat (ntp_serverCount s) \<le> 3 \<and>
     length (ntp_serverNames s) = 3 \<and> (\<forall>i < unat (ntp_serverCount s). serverOk (ntp_serverNames s ! i)) \<and>
     ntp_timeoutMs s \<noteq> 0 \<and> ntp_syncIntervalMs s \<noteq> 0"

definition ntpOk :: "('b, 'n) ntp_service \<Rightarrow> bool" where
  "ntpOk s \<longleftrightarrow>
     (ntp_initialized s \<longrightarrow> serversOk s) \<and>
     (ntp_syncInProgress s \<longrightarrow> ntp_initialized s) \<and>
     (ntp_newUtcPending s \<longrightarrow> utcValid (ntp_lastReceivedUtc s)) \<and>
     (ntp_lastSyncSucceededFlag s \<longrightarrow> ntp_lastFetchSucceededFlag s \<and> ntp_hasSuccessfulSync s) \<and>
     (ntp_lastFetchSucceededFlag s \<longrightarrow> ntp_hasSyncResult s) \<and>
     (ntp_hasSuccessfulSync s \<longrightarrow> ntp_hasSyncResult s)"

lemma copyServers_length: "length (snd (copyServers is servers names)) = length names"
  by (induction "is" servers names rule: copyServers.induct) (auto split: option.split)

lemma copyServers_other:
  "i \<notin> set is \<Longrightarrow> snd (copyServers is servers names) ! i = names ! i"
  by (induction "is" servers names rule: copyServers.induct) (auto split: option.split)

lemma copyServers_ok:
  assumes "distinct is" "\<forall>i \<in> set is. i < length names" "fst (copyServers is servers names)" "i \<in> set is"
  shows "serverOk (snd (copyServers is servers names) ! i) \<and> servers ! i = Some (snd (copyServers is servers names) ! i)"
  using assms
proof (induction "is" servers names rule: copyServers.induct)
  case (2 j "is" servers names)
  obtain name where n: "copyServerName (servers ! j) = Some name"
    using 2(4) by (auto split: option.split_asm)
  then have ok: "serverOk name" "servers ! j = Some name"
    by (auto simp: copyServerName_def serverOk_def split: option.split_asm if_split_asm)
  have "j \<notin> set is" "j < length names" using 2(2,3) by auto
  then show ?case
    using 2 n ok by (cases "i = j") (auto simp: copyServers_other)
qed simp

lemma serversOk_frame [simp]:
  "serversOk (s\<lparr>ntp_rtc := a\<rparr>) = serversOk s" "serversOk (s\<lparr>ntp_backend := b\<rparr>) = serversOk s"
  "serversOk (s\<lparr>ntp_legacyClock := c\<rparr>) = serversOk s" "serversOk (s\<lparr>ntp_attemptStartedMs := d\<rparr>) = serversOk s"
  "serversOk (s\<lparr>ntp_periodicAnchorMs := d\<rparr>) = serversOk s" "serversOk (s\<lparr>ntp_lastSuccessfulSyncMs := d\<rparr>) = serversOk s"
  "serversOk (s\<lparr>ntp_lastReceivedUtc := u\<rparr>) = serversOk s" "serversOk (s\<lparr>ntp_newUtcPending := f\<rparr>) = serversOk s"
  "serversOk (s\<lparr>ntp_lastFetchSucceededFlag := f\<rparr>) = serversOk s" "serversOk (s\<lparr>ntp_syncInProgress := f\<rparr>) = serversOk s"
  "serversOk (s\<lparr>ntp_hasSyncResult := f\<rparr>) = serversOk s" "serversOk (s\<lparr>ntp_lastSyncSucceededFlag := f\<rparr>) = serversOk s"
  "serversOk (s\<lparr>ntp_hasSuccessfulSync := f\<rparr>) = serversOk s"
  by (simp_all add: serversOk_def)

lemma ntpOk_new: "ntpOk (NtpService_new rtc backend legacy)"
  by (simp add: ntpOk_def NtpService_new_def)

lemma ntpOk_beginAt: "ntpOk (snd (ntp_beginAt ops s config nowMs))"
proof -
  define names where "names = copyServers [0..<unat (nc_serverCount config)] (nc_servers config) ['''', '''', '''']"
  have len: "length (snd names) = 3" by (simp add: names_def copyServers_length)
  show ?thesis
  proof (cases "nc_serverCount config = 0 \<or> nc_serverCount config > NTP_MAX_SERVERS \<or>
      nc_timeoutMs config = 0 \<or> nc_syncIntervalMs config = 0 \<or> \<not> fst names")
    case True
    then show ?thesis
      unfolding ntp_beginAt_def Let_def names_def [symmetric]
      by (auto simp: ntpOk_def split_beta)
  next
    case False
    then have c: "0 < unat (nc_serverCount config)" "unat (nc_serverCount config) \<le> 3"
      by (auto simp: NTP_MAX_SERVERS_def word_less_nat_alt unat_eq_0 unat_gt_0)
    have "serverOk (snd names ! i)" if "i < unat (nc_serverCount config)" for i
      using copyServers_ok [of "[0..<unat (nc_serverCount config)]" "['''', '''', '''']" "nc_servers config" i]
        that False c by (simp add: names_def)
    then show ?thesis
      using False c len unfolding ntp_beginAt_def Let_def names_def [symmetric]
      by (auto simp: ntpOk_def serversOk_def split_beta)
  qed
qed

lemma ntpOk_observe: "ntpOk s \<Longrightarrow> ntpOk (ntp_observe s nowMs)"
  by (simp add: ntpOk_def ntp_observe_def)

lemma ntpOk_shared: "ntpOk s \<Longrightarrow> ntpOk (s\<lparr>ntp_rtc := rtc, ntp_backend := n\<rparr>)"
  by (simp add: ntpOk_def)

lemma ntpOk_take: "ntpOk s \<Longrightarrow> ntpOk (snd (ntp_takeReceivedUtc s))"
  by (simp add: ntpOk_def ntp_takeReceivedUtc_def)

lemma ntpOk_request: "ntpOk s \<Longrightarrow> ntpOk (snd (ntp_requestSyncAt ops s wifi nowMs))"
  by (auto simp: ntpOk_def ntp_requestSyncAt_def Let_def split_beta)

lemma ntpOk_finish: "ntpOk s \<Longrightarrow> ntpOk (ntp_finishAttempt ops s fetched updated nowMs)"
  by (auto simp: ntpOk_def ntp_finishAttempt_def Let_def)

lemma ntpOk_update:
  fixes s :: "('b, 'n) ntp_service"
  assumes "ntpOk s"
  shows "ntpOk (ntp_updateAt bus ops s wifi nowMs)"
proof -
  obtain result utc n1 where p: "nbPoll ops (ntp_backend s) = (result, utc, n1)" by (metis prod_cases3)
  have i: "ntpOk (s\<lparr>ntp_backend := n1\<rparr>)"
    "utcValid utc \<Longrightarrow> ntpOk (s\<lparr>ntp_backend := n1, ntp_lastReceivedUtc := utc, ntp_newUtcPending := True\<rparr>)"
    "utcValid utc \<Longrightarrow> ntpOk (s\<lparr>ntp_backend := n1, ntp_lastReceivedUtc := utc, ntp_newUtcPending := True, ntp_rtc := r\<rparr>)" for r
    using assms by (simp_all add: ntpOk_def)
  show ?thesis
    unfolding ntp_updateAt_def p Let_def split_beta fst_conv snd_conv
    using assms i by (auto intro!: ntpOk_finish simp: Let_def)
qed

lemma ntp_reach_ok: "ntp_reach bus ops s \<Longrightarrow> ntpOk s"
proof (induction rule: ntp_reach.induct)
  case (start s injected config nowMs)
  then show ?case by (simp add: ntp_begin_def Let_def ntpOk_beginAt)
qed (blast intro: ntpOk_new ntpOk_request ntpOk_update ntpOk_observe ntpOk_take ntpOk_shared)+

section \<open>An attempt ends\<close>

definition runUpdates ::
  "'b rtc_bus \<Rightarrow> 'n ntp_backend \<Rightarrow> ('b, 'n) ntp_service \<Rightarrow> (bool \<times> u64) list \<Rightarrow> ('b, 'n) ntp_service" where
  "runUpdates bus ops s us = foldl (\<lambda>s (wifi, nowMs). ntp_updateAt bus ops s wifi nowMs) s us"

lemma finish_idle [simp]:
  "\<not> ntp_syncInProgress (ntp_finishAttempt ops s fetched updated nowMs)"
  "ntp_hasSyncResult (ntp_finishAttempt ops s fetched updated nowMs)"
  by (simp_all add: ntp_finishAttempt_def Let_def)

lemma update_progress:
  "ntp_syncInProgress (ntp_updateAt bus ops s wifi nowMs) \<Longrightarrow>
     ntp_syncInProgress s \<and> wifi \<and> nowMs - ntp_attemptStartedMs s < ucast (ntp_timeoutMs s) \<and>
     ntp_attemptStartedMs (ntp_updateAt bus ops s wifi nowMs) = ntp_attemptStartedMs s \<and>
     ntp_timeoutMs (ntp_updateAt bus ops s wifi nowMs) = ntp_timeoutMs s"
  by (auto simp: ntp_updateAt_def Let_def split_beta split: if_split_asm)

lemma update_result:
  "ntp_syncInProgress s \<Longrightarrow> \<not> ntp_syncInProgress (ntp_updateAt bus ops s wifi nowMs) \<Longrightarrow>
     ntp_hasSyncResult (ntp_updateAt bus ops s wifi nowMs)"
  by (auto simp: ntp_updateAt_def Let_def split_beta split: if_split_asm)

lemma update_idle: "\<not> ntp_syncInProgress s \<Longrightarrow> ntp_updateAt bus ops s wifi nowMs = s"
  by (simp add: ntp_updateAt_def)

lemma runUpdates_idle: "\<not> ntp_syncInProgress s \<Longrightarrow> runUpdates bus ops s us = s"
  by (induction us) (auto simp: runUpdates_def update_idle)

lemma runUpdates_ends:
  assumes "ntp_syncInProgress s" "(wifi, nowMs) \<in> set us"
    "\<not> wifi \<or> ucast (ntp_timeoutMs s) \<le> nowMs - ntp_attemptStartedMs s"
  shows "\<not> ntp_syncInProgress (runUpdates bus ops s us) \<and> ntp_hasSyncResult (runUpdates bus ops s us)"
  using assms
proof (induction us arbitrary: s)
  case (Cons u us)
  obtain w t where u: "u = (w, t)" by (cases u)
  define s1 where "s1 = ntp_updateAt bus ops s w t"
  have run: "runUpdates bus ops s (u # us) = runUpdates bus ops s1 us"
    by (simp add: runUpdates_def u s1_def)
  show ?case
  proof (cases "ntp_syncInProgress s1")
    case True
    then have p: "w" "t - ntp_attemptStartedMs s < ucast (ntp_timeoutMs s)"
      "ntp_attemptStartedMs s1 = ntp_attemptStartedMs s" "ntp_timeoutMs s1 = ntp_timeoutMs s"
      using update_progress [OF True [unfolded s1_def]] unfolding s1_def by blast+
    then have "(wifi, nowMs) \<in> set us" using Cons.prems(2,3) by (auto simp: u)
    then show ?thesis using Cons.IH [OF True] Cons.prems(3) p by (simp add: run)
  next
    case False
    then show ?thesis
      using update_result [OF Cons.prems(1), of bus ops w t] by (simp add: run runUpdates_idle s1_def)
  qed
qed simp

end
