(* ===== verification/TimeProperties.thy ===== *)
theory TimeProperties
  imports WarsawTime ResilientTime NtpService
begin

text \<open>
  The properties of the time components: what the clock chip gives back after a verified write, the
  calendar against the day count, local time in Warsaw, the service that outlives a failing chip, the
  wall clock, and network time.
\<close>

section \<open>Clock chip\<close>

text \<open>
  C31: On a bus that keeps registers (a DS3231 between two ticks), \<open>setUtc\<close> of a valid time succeeds and the
  next \<open>read\<close> gives that time back: the BCD encoding, the century bit and the status register agree.
\<close>

theorem rtc_set_then_read:
  assumes "register_file ops regs" "rtc_initialized s"
    "isValidUtc year month day hour minute second"
  shows "\<exists>t. rtc_setUtc ops s year month day hour minute second = (True, t) \<and>
    fst (rtc_read ops t) = \<lparr>lt_valid = True, lt_year = year, lt_month = month, lt_day = day,
      lt_hour = hour, lt_minute = minute, lt_second = second,
      lt_minuteOfDay = ucast hour * 60 + ucast minute\<rparr>"
  using register_file.set_then_read [OF assms] by blast

definition demoChip :: "(u8 \<Rightarrow> u8) rtc_service" where
  "demoChip = \<lparr>rtc_bus = (\<lambda>_. 0), rtc_config = \<lparr>rc_sdaPin = 21, rc_sclPin = 22, rc_i2cAddress = 0x68\<rparr>,
     rtc_initialized = True, rtc_valid = False\<rparr>"

lemma rtc_set_then_read_witness:
  "\<exists>t. rtc_setUtc memoryBus demoChip 2124 2 29 23 59 58 = (True, t) \<and>
    fst (rtc_read memoryBus t) = \<lparr>lt_valid = True, lt_year = 2124, lt_month = 2, lt_day = 29,
      lt_hour = 23, lt_minute = 59, lt_second = 58, lt_minuteOfDay = 1439\<rparr>"
  using rtc_set_then_read [OF chip.register_file_axioms, of demoChip 2124 2 29 23 59 58]
  by (simp add: demoChip_def isValidUtc_def rtcDaysInMonth_def isRtcLeapYear_def)

section \<open>Calendar\<close>

text \<open>
  C37: The conversions between a date and its day number are inverse for every date from year 1 to year 65535,
  and the day number is the Gregorian day count.
\<close>

theorem civil_round_trip:
  assumes "validDate t" "1 \<le> uint (lt_year t)"
  shows "daysFromCivil (uint (lt_year t)) (ucast (lt_month t)) (ucast (lt_day t)) =
      dayNumber (uint (lt_year t)) (uint (lt_month t)) (uint (lt_day t)) \<and>
    civilFromDays (daysFromCivil (uint (lt_year t)) (ucast (lt_month t)) (ucast (lt_day t))) =
      \<lparr>cd_year = uint (lt_year t), cd_month = ucast (lt_month t), cd_day = ucast (lt_day t)\<rparr>"
proof -
  have b: "1 \<le> uint (lt_month t)" "uint (lt_month t) \<le> 12" "1 \<le> uint (lt_day t)"
    "uint (lt_day t) \<le> monthLength (uint (lt_year t)) (uint (lt_month t))" "uint (lt_year t) < 100000"
    using assms uint_lt2p [of "lt_year t"] by (simp_all add: validDate_def)
  show ?thesis
    unfolding daysFromCivil_dayOf [OF assms(1)] unfolding dayOf_def ucast_eq
    using civilFromDays_dayNumber [OF assms(2) b(5,1-4)] by blast
qed

definition leapDay :: LocalTime where
  "leapDay = \<lparr>lt_valid = True, lt_year = 2024, lt_month = 2, lt_day = 29, lt_hour = 12, lt_minute = 30,
     lt_second = 15, lt_minuteOfDay = 750\<rparr>"

lemma civil_round_trip_witness:
  "civilFromDays (daysFromCivil 2024 2 29) = \<lparr>cd_year = 2024, cd_month = 2, cd_day = 29\<rparr>"
  using conjunct2 [OF civil_round_trip [of leapDay]]
  by (simp add: leapDay_def validDate_def monthLength_def leapYear_def)

text \<open>
  Zeller's congruence, as the code computes it on 16 and 32 bit words, is the day count modulo 7 (0 is
  Sunday, and 1970-01-01 was a Thursday), and \<open>lastSunday\<close> is the Sunday among the last seven days of the
  month.
\<close>

theorem day_of_week:
  assumes "1 \<le> uint year" "1 \<le> uint month" "uint month \<le> 12" "uint day \<le> 31"
  shows "uint (dayOfWeek year month day) = (dayNumber (uint year) (uint month) (uint day) + 4) mod 7 \<and>
    (dayNumber (uint year) (uint month) (uint (lastSunday year month)) + 4) mod 7 = 0 \<and>
    monthLength (uint year) (uint month) - 6 \<le> uint (lastSunday year month) \<and>
    uint (lastSunday year month) \<le> monthLength (uint year) (uint month)"
  unfolding lastSunday_int [OF assms(1-3)]
  using dayOfWeek_dayNumber [OF assms] lastSundayOf_sunday lastSundayOf_bounds by simp

lemma day_of_week_witness:
  "uint (dayOfWeek 2025 3 30) = (dayNumber 2025 3 30 + 4) mod 7 \<and> uint (dayOfWeek 2025 3 30) = 0"
proof -
  have "dayNumber 2025 3 30 = 20177" by (simp add: dayNumber_def Let_def)
  then show ?thesis using day_of_week [of 2025 3 30] by simp
qed

section \<open>Local time\<close>

text \<open>
  C32: The local time the service computes from a valid UTC reading is a valid time, one hour ahead of UTC, or
  two hours from 01:00 UTC on the last Sunday of March to 01:00 UTC on the last Sunday of October;
  the date carries over day, month and year ends, and \<open>minuteOfDay\<close> agrees with the clock fields.
\<close>

theorem warsaw_local_time:
  assumes "validClock utc" "lt_valid utc" "1 \<le> uint (lt_year utc)" "uint (lt_year utc) < 65535"
  defines "y \<equiv> uint (lt_year utc)" and "l \<equiv> convertUtcToWarsaw utc"
  shows "lt_valid l \<and> validClock l \<and>
    uint (lt_minuteOfDay l) = uint (lt_hour l) * 60 + uint (lt_minute l) \<and>
    epochSeconds l = epochSeconds utc +
      (if summerTimeStart y \<le> epochSeconds utc \<and> epochSeconds utc < summerTimeEnd y then 7200 else 3600)"
  unfolding y_def l_def using convertUtcToWarsaw_correct [OF assms(1-4)] by blast

definition newYearsEve :: LocalTime where
  "newYearsEve = \<lparr>lt_valid = True, lt_year = 2024, lt_month = 12, lt_day = 31, lt_hour = 23, lt_minute = 30,
     lt_second = 15, lt_minuteOfDay = 1410\<rparr>"

lemma warsaw_local_time_witness:
  "validClock (convertUtcToWarsaw newYearsEve) \<and>
   (epochSeconds (convertUtcToWarsaw newYearsEve) = epochSeconds newYearsEve + 7200 \<or>
    epochSeconds (convertUtcToWarsaw newYearsEve) = epochSeconds newYearsEve + 3600)"
proof -
  have "validClock newYearsEve" "lt_valid newYearsEve" "uint (lt_year newYearsEve) = 2024"
    by (simp_all add: newYearsEve_def validClock_def validDate_def monthLength_def)
  then show ?thesis using warsaw_local_time [of newYearsEve] by (auto split: if_splits)
qed

section \<open>A failing chip\<close>

text \<open>
  C34: In every state the service can reach, with any bus and any interleaving of calls, a cached time carried
  forward is exact: \<open>now\<close> is a valid time, later than the cached reading by the whole seconds that
  the millisecond counter advanced modulo \<open>2 ^ 32\<close>.
\<close>

theorem resilient_now:
  assumes "rts_reach ops s" "rts_hasValidCache s"
  shows "lt_valid (rts_now s nowMs) \<and> validClock (rts_now s nowMs) \<and>
    epochSeconds (rts_now s nowMs) =
      epochSeconds (rts_cachedUtc s) + ((uint nowMs - uint (rts_cachedAtMs s)) mod 4294967296) div 1000"
proof -
  define n where "n = (nowMs - rts_cachedAtMs s) div 1000"
  have ok: "utcOk (rts_cachedUtc s)" using rts_reach_ok [OF assms(1)] assms(2) by (simp add: rtsOk_def)
  have n: "uint n = ((uint nowMs - uint (rts_cachedAtMs s)) mod 4294967296) div 1000"
    by (simp add: n_def uint_div uint_word_ariths)
  have "uint (nowMs - rts_cachedAtMs s) \<le> 4294967295" using uint_lt2p [of "nowMs - rts_cachedAtMs s"] by simp
  then have "uint n \<le> 4294967" unfolding n_def using zdiv_mono1 [of "uint (nowMs - rts_cachedAtMs s)" 4294967295 1000]
    by (simp add: uint_div)
  then show ?thesis
    using addSeconds_correct [of "rts_cachedUtc s" n] ok assms(2) n
    by (simp add: rts_now_def Let_def utcOk_iff n_def [symmetric])
qed

definition demoResilient :: "(u8 \<Rightarrow> u8) resilient" where
  "demoResilient = rts_syncUtc (ResilientTimeService_new demoChip ResilientTimeConfig_default) leapDay 4294967000"

lemma resilient_now_witness:
  "epochSeconds (rts_now demoResilient 704) = epochSeconds leapDay + 1"
proof -
  have "rts_reach memoryBus demoResilient"
    unfolding demoResilient_def by (intro rts_reach.sync rts_reach.new)
  moreover have "rts_hasValidCache demoResilient" "rts_cachedUtc demoResilient = leapDay"
    "rts_cachedAtMs demoResilient = 4294967000"
    by (simp_all add: demoResilient_def rts_syncUtc_def leapDay_def isValidUtc_def rtcDaysInMonth_def isRtcLeapYear_def)
  ultimately show ?thesis using resilient_now [of memoryBus demoResilient 704] by simp
qed

text \<open>
  C35: The health flag follows the thresholds exactly. With a chip that does not answer, a healthy service
  stays healthy for the polls that keep the count below \<open>failureThreshold\<close> and is unhealthy from then on,
  while the cached time is kept; with a chip that answers again, the service becomes healthy at the
  poll that reaches \<open>recoveryThreshold\<close>.
\<close>

theorem resilient_health:
  fixes s :: "'b resilient"
  assumes "rts_reach ops s" "rtcEnabled (rts_config s)" "ts \<noteq> []"
  shows "(readsAll (\<lambda>t. \<not> lt_valid t) ops (rts_rtc s) (length ts) \<longrightarrow>
      rts_rtcHealthy (foldl (rts_poll ops) s ts) = (rts_rtcHealthy s \<and>
        unat (rts_consecutiveFailures s) + length ts < unat (failureThreshold (rts_config s))) \<and>
      rts_now (foldl (rts_poll ops) s ts) = rts_now s) \<and>
    (readsAll lt_valid ops (rts_rtc s) (length ts) \<longrightarrow>
      rts_rtcHealthy (foldl (rts_poll ops) s ts) = (rts_rtcHealthy s \<or>
        unat (recoveryThreshold (rts_config s)) \<le> unat (rts_consecutiveSuccesses s) + length ts))"
proof -
  have "\<not> rts_rtcHealthy s \<longrightarrow> rts_consecutiveSuccesses s < recoveryThreshold (rts_config s)"
    using rts_reach_ok [OF assms(1)] by (simp add: rtsOk_def)
  then show ?thesis
    using polls_failing [OF _ assms(2,3)] polls_answering [OF _ assms(2,3)] by blast
qed

text \<open>
  A service that started with a working chip, and whose chip then shows the oscillator stop flag: it
  stays healthy for two polls and not for three.
\<close>

definition goodRegisters :: "u8 \<Rightarrow> u8" where
  "goodRegisters k = (if k = 4 \<or> k = 5 then 1 else if k = 6 then 0x24 else 0)"

definition stoppedRegisters :: "u8 \<Rightarrow> u8" where
  "stoppedRegisters k = (if k = 0x0F then 0x80 else goodRegisters k)"

definition healthyResilient :: "(u8 \<Rightarrow> u8) resilient" where
  "healthyResilient =
     snd (rts_begin memoryBus (ResilientTimeService_new (demoChip\<lparr>rtc_bus := goodRegisters\<rparr>) ResilientTimeConfig_default) 0)"

definition stoppedResilient :: "(u8 \<Rightarrow> u8) resilient" where
  "stoppedResilient = healthyResilient\<lparr>rts_rtc := demoChip\<lparr>rtc_bus := stoppedRegisters\<rparr>\<rparr>"

lemma stopped_reads: "readsAll (\<lambda>t. \<not> lt_valid t) memoryBus
    (demoChip\<lparr>rtc_bus := stoppedRegisters, rtc_valid := v\<rparr>) n"
proof (induction n arbitrary: v)
  case (Suc n)
  have "rtc_read memoryBus (demoChip\<lparr>rtc_bus := stoppedRegisters, rtc_valid := v\<rparr>) =
      (emptyLocalTime, demoChip\<lparr>rtc_bus := stoppedRegisters, rtc_valid := False\<rparr>)"
    by (simp add: rtc_read_def rtcReadRegisters_def memoryBus_def demoChip_def RTC_STATUS_REGISTER_def
        RTC_OSF_MASK_def write_at_def stoppedRegisters_def)
  then show ?case using Suc.IH [of False] by (simp add: emptyLocalTime_def)
qed simp

lemma stopped_fields: "rts_rtcHealthy stoppedResilient" "rts_consecutiveFailures stoppedResilient = 0"
  "rts_config stoppedResilient = ResilientTimeConfig_default"
  by (simp_all add: stoppedResilient_def healthyResilient_def rts_begin_def ResilientTimeService_new_def
      ResilientTimeConfig_default_def rtc_begin_def rtc_read_def rtcReadRegisters_def memoryBus_def demoChip_def
      goodRegisters_def RTC_STATUS_REGISTER_def RTC_OSF_MASK_def write_at_def upt_rec decodeDateTimeRegisters_def
      decodeHour_def decodeBcd_def isValidUtc_def rtcDaysInMonth_def isRtcLeapYear_def DAYS_def)

lemma resilient_health_witness:
  "rts_rtcHealthy (foldl (rts_poll memoryBus) stoppedResilient [1000, 2000]) \<and>
   \<not> rts_rtcHealthy (foldl (rts_poll memoryBus) stoppedResilient [1000, 2000, 3000])"
proof -
  have r: "rts_reach memoryBus stoppedResilient"
    unfolding stoppedResilient_def healthyResilient_def
    by (rule rts_reach.shared, rule rts_reach.start, rule rts_reach.new)
  have e: "rtcEnabled (rts_config stoppedResilient)"
    by (simp add: stopped_fields ResilientTimeConfig_default_def)
  have reads: "readsAll (\<lambda>t. \<not> lt_valid t) memoryBus (rts_rtc stoppedResilient) n" for n
    using stopped_reads [of False n] by (simp add: stoppedResilient_def demoChip_def)
  show ?thesis
    using resilient_health [OF r e, of "[1000, 2000]"] resilient_health [OF r e, of "[1000, 2000, 3000]"] reads
    by (simp add: stopped_fields ResilientTimeConfig_default_def del: foldl_Cons readsAll.simps)
qed

text \<open>
  The wall clock reports success exactly when the chip was started and its reading is a valid time, and the
  timestamp is then the number of seconds since 1970-01-01 of that reading; otherwise nothing is written.
\<close>

theorem wall_clock_timestamp:
  "let reading = fst (rtc_read ops rtc); (result, out, rtc') = wallclock_readUtc ops rtc
   in (result = WcSuccess) = (rtc_initialized rtc \<and> lt_valid reading) \<and>
      out = (if rtc_initialized rtc \<and> lt_valid reading then Some (of_int (epochSeconds reading)) else None) \<and>
      (case out of None \<Rightarrow> True | Some seconds \<Rightarrow> uint seconds = epochSeconds reading)"
proof -
  define reading where "reading = fst (rtc_read ops rtc)"
  have v: "lt_valid reading = utcOk reading"
    using rtc_read_utcOk [of ops rtc] by (auto simp: reading_def utcOk_def)
  have b: "uint (of_int (epochSeconds reading) :: u64) = epochSeconds reading \<and> 0 \<le> epochSeconds reading" if "utcOk reading"
    using toUtcTimestamp_correct(2) [OF that] by (simp add: uint_of_int_small)
  show ?thesis
    using b by (simp add: wallclock_readUtc_def rtc_isInitialized_def split_beta Let_def
        toUtcTimestamp_correct(1) v flip: reading_def)
qed

section \<open>Network time\<close>

text \<open>
  C36: The 64-bit extension of the millisecond counter loses nothing: after calls at the true times
  \<open>t, ts\<close>, of which it only sees the low 32 bits, the clock has advanced by the true elapsed time, across
  any number of counter overflows, as long as no single gap reaches \<open>2 ^ 32\<close> milliseconds (49.7 days).
\<close>

theorem legacy_clock_exact:
  assumes "gapsBelow t ts"
  shows "lmc_nowMs (foldl lmc_observe LegacyMillisClock_new (map of_nat (t # ts))) =
    of_nat (t mod 4294967296 + (last (t # ts) - t))"
proof -
  define c where "c = lmc_observe LegacyMillisClock_new (of_nat t)"
  have c: "lmc_hasObservation c" "lmc_lastMs c = of_nat t" "lmc_nowMs c = of_nat (t mod 4294967296)"
    by (simp_all add: c_def lmc_observe_def LegacyMillisClock_new_def word_uint_eq_iff uint_ucast_mod
        uint_word_of_int_eq unsigned_of_nat take_bit_eq_mod zmod_int mod_mod_cancel)
  have "t \<le> last (t # ts)" using assms by (induction ts arbitrary: t) (force split: if_splits)+
  then show ?thesis
    using observe_all [OF c(1,2) assms] c(3) by (simp add: Let_def c_def [symmetric] of_nat_diff)
qed

lemma legacy_clock_exact_witness:
  "lmc_nowMs (foldl lmc_observe LegacyMillisClock_new (map of_nat [4294967000, 4294968000, 8589934592])) = 8589934592"
  using legacy_clock_exact [of 4294967000 "[4294968000, 8589934592]"] by simp

text \<open>
  C33: Every attempt ends: once the calls of \<open>update\<close> include one without a connection or one
  \<open>timeoutMs\<close> after the start, no attempt is in progress and there is a result, whatever the SNTP client
  answered and whatever the other calls were.
\<close>

theorem ntp_attempt_ends:
  assumes "ntp_syncInProgress s" "(wifi, nowMs) \<in> set us"
    "wifi \<longrightarrow> ucast (ntp_timeoutMs s) \<le> nowMs - ntp_attemptStartedMs s"
  shows "\<not> ntp_syncInProgress (runUpdates bus ops s us) \<and> ntp_hasSyncResult (runUpdates bus ops s us)"
  by (rule runUpdates_ends [OF assms(1,2)]) (use assms(3) in blast)

text \<open>A client that never answers.\<close>

definition silentBackend :: "unit ntp_backend" where
  "silentBackend = \<lparr>nbStart = (\<lambda>n servers count. (True, n)), nbPoll = (\<lambda>n. (NtpPending, emptyUtc, n)), nbStop = (\<lambda>n. n)\<rparr>"

definition demoNtp :: "(u8 \<Rightarrow> u8, unit) ntp_service" where
  "demoNtp = (NtpService_new demoChip () True)\<lparr>ntp_initialized := True, ntp_syncInProgress := True\<rparr>"

lemma ntp_attempt_ends_witness:
  "\<not> ntp_syncInProgress (runUpdates memoryBus silentBackend demoNtp [(True, 500), (True, 10000), (False, 3)])"
  using ntp_attempt_ends [of demoNtp True 10000 "[(True, 500), (True, 10000), (False, 3)]" memoryBus silentBackend]
  by (simp add: demoNtp_def NtpService_new_def NTP_SYNC_TIMEOUT_MS_def)

text \<open>
  In every reachable state an attempt in progress belongs to an initialised service with one to three usable
  server names, a time handed out by \<open>takeReceivedUtc\<close> is a valid one, and a reported success of the
  synchronisation implies a successful fetch with a recorded time of success.
\<close>

theorem ntp_state_invariant:
  assumes "ntp_reach bus ops s"
  shows "(ntp_initialized s \<longrightarrow> serversOk s) \<and>
    (ntp_syncInProgress s \<longrightarrow> ntp_initialized s) \<and>
    (\<forall>u. fst (ntp_takeReceivedUtc s) = Some u \<longrightarrow> utcValid u) \<and>
    (ntp_lastSyncSucceeded s \<longrightarrow> ntp_lastFetchSucceeded s \<and> fst (ntp_lastSuccessfulSyncAgeMs s now64))"
  using ntp_reach_ok [OF assms]
  by (auto simp: ntpOk_def ntp_takeReceivedUtc_def ntp_lastSyncSucceeded_def ntp_lastFetchSucceeded_def
      ntp_lastSuccessfulSyncAgeMs_def)

lemma ntp_state_invariant_witness:
  "serversOk (snd (ntp_begin silentBackend (NtpService_new demoChip () True) 0 ntp_defaultConfig 500))"
proof -
  let ?s = "snd (ntp_begin silentBackend (NtpService_new demoChip () True) 0 ntp_defaultConfig 500)"
  have r: "ntp_reach memoryBus silentBackend ?s" by (rule ntp_reach.start, rule ntp_reach.new)
  have "ntp_initialized ?s"
    by (simp add: ntp_begin_def ntp_beginAt_def ntp_defaultConfig_def NTP_MAX_SERVERS_def NTP_SYNC_TIMEOUT_MS_def
        NTP_SYNC_INTERVAL_MS_def NtpService_new_def ntp_observe_def copyServerName_def NTP_SERVER_NAME_CAPACITY_def
        upt_rec Let_def)
  then show ?thesis using ntp_state_invariant [OF r] by blast
qed

end
