(* ===== verification/SystemState.thy ===== *)
theory SystemState
  imports AquaPrelude
begin

text \<open>
  The runtime status and the decisions taken on it: \<open>System/SystemState.h\<close>, \<open>SystemState.cpp\<close>,
  \<open>Maintenance/MaintenanceTransition.h\<close>, \<open>NormalProcessing.h\<close>. The enumerations have \<open>uint8_t\<close> as
  their underlying type, so a variable can hold a value that names no enumerator; where the code checks
  for that the datatype has one more constructor, with the value.
\<close>

section \<open>States\<close>

datatype OperationalState = BOOTING | RUNNING | MAINTENANCE | ERROR | OperationalOther u8

datatype HealthState = HealthOK | DEGRADED | FAULT | HealthOther u8

datatype SafetyState = CLEAR | LOCKED | SafetyOther u8

datatype StartupPhase = PhaseBOOT | PhaseCORE_INIT | PhaseLOAD_VALIDATE_CONFIG | PhaseHARDWARE_INIT |
  PhaseDOMAIN_INIT | PhaseSAFETY_VALIDATION | PhaseNETWORK_INIT | PhaseINTERFACES_INIT | PhaseRUNNING |
  PhaseOther u8

record RuntimeStatus =
  operational :: OperationalState
  health :: HealthState
  safety :: SafetyState
  startupPhase :: StartupPhase

definition operationalStateName :: "OperationalState \<Rightarrow> string" where
  "operationalStateName state =
     (case state of
        BOOTING \<Rightarrow> ''BOOTING'' | RUNNING \<Rightarrow> ''RUNNING'' | MAINTENANCE \<Rightarrow> ''MAINTENANCE'' | ERROR \<Rightarrow> ''ERROR''
      | _ \<Rightarrow> ''UNKNOWN'')"

definition healthStateName :: "HealthState \<Rightarrow> string" where
  "healthStateName state =
     (case state of HealthOK \<Rightarrow> ''OK'' | DEGRADED \<Rightarrow> ''DEGRADED'' | FAULT \<Rightarrow> ''FAULT'' | _ \<Rightarrow> ''UNKNOWN'')"

definition safetyStateName :: "SafetyState \<Rightarrow> string" where
  "safetyStateName state = (case state of CLEAR \<Rightarrow> ''CLEAR'' | LOCKED \<Rightarrow> ''LOCKED'' | _ \<Rightarrow> ''UNKNOWN'')"

definition startupPhaseName :: "StartupPhase \<Rightarrow> string" where
  "startupPhaseName state =
     (case state of
        PhaseBOOT \<Rightarrow> ''BOOT'' | PhaseCORE_INIT \<Rightarrow> ''CORE_INIT''
      | PhaseLOAD_VALIDATE_CONFIG \<Rightarrow> ''LOAD_VALIDATE_CONFIG'' | PhaseHARDWARE_INIT \<Rightarrow> ''HARDWARE_INIT''
      | PhaseDOMAIN_INIT \<Rightarrow> ''DOMAIN_INIT'' | PhaseSAFETY_VALIDATION \<Rightarrow> ''SAFETY_VALIDATION''
      | PhaseNETWORK_INIT \<Rightarrow> ''NETWORK_INIT'' | PhaseINTERFACES_INIT \<Rightarrow> ''INTERFACES_INIT''
      | PhaseRUNNING \<Rightarrow> ''RUNNING'' | _ \<Rightarrow> ''UNKNOWN'')"

section \<open>Maintenance\<close>

datatype MaintenanceTransitionRequest = RequestEnter | RequestExit | RequestOther u8

datatype MaintenanceTransitionDecision =
  DecisionAllowed | DecisionAlreadyInTargetState | DecisionInvalidState | DecisionInvalidRequest

datatype MaintenanceTransitionOutcome =
  TransitionCompleted | TransitionAlreadyInTargetState | TransitionRejected | TransitionFailed |
  TransitionInvalidState | TransitionInvalidRequest | TransitionInvalidParticipantResult

datatype MaintenanceParticipantResult = Prepared | ParticipantRejected | ParticipantFailed | ParticipantOther u8

record 'w MaintenanceParticipant =
  prepareEnter :: "'w \<Rightarrow> MaintenanceParticipantResult \<times> 'w"
  prepareExit :: "'w \<Rightarrow> MaintenanceParticipantResult \<times> 'w"

definition evaluateMaintenanceTransition ::
  "OperationalState \<Rightarrow> MaintenanceTransitionRequest \<Rightarrow> MaintenanceTransitionDecision" where
  "evaluateMaintenanceTransition current request =
     (case request of
        RequestEnter \<Rightarrow>
          (case current of
             RUNNING \<Rightarrow> DecisionAllowed | MAINTENANCE \<Rightarrow> DecisionAlreadyInTargetState
           | _ \<Rightarrow> DecisionInvalidState)
      | RequestExit \<Rightarrow>
          (case current of
             MAINTENANCE \<Rightarrow> DecisionAllowed | RUNNING \<Rightarrow> DecisionAlreadyInTargetState
           | _ \<Rightarrow> DecisionInvalidState)
      | _ \<Rightarrow> DecisionInvalidRequest)"

datatype NormalProcessingDecision = ProcessingAllowed | ProcessingBlocked

definition evaluateNormalProcessing :: "OperationalState \<Rightarrow> NormalProcessingDecision" where
  "evaluateNormalProcessing state = (if state = RUNNING then ProcessingAllowed else ProcessingBlocked)"

lemma transition_allowed:
  "evaluateMaintenanceTransition current request = DecisionAllowed \<longleftrightarrow>
     current = RUNNING \<and> request = RequestEnter \<or> current = MAINTENANCE \<and> request = RequestExit"
  by (cases request; cases current) (simp_all add: evaluateMaintenanceTransition_def)

lemma transition_invalid_request:
  "evaluateMaintenanceTransition current request = DecisionInvalidRequest \<longleftrightarrow> (\<exists>n. request = RequestOther n)"
  by (cases request; cases current) (simp_all add: evaluateMaintenanceTransition_def)

end
