(* ===== verification/Startup.thy ===== *)
theory Startup
  imports SystemState
begin

text \<open>
  The vocabulary of the startup: error codes, step results, the plan and the report,
  \<open>aquaOneCore/src/System/Startup.cpp\<close> and \<open>Startup.h\<close>. A C string is a \<open>string\<close> without a
  terminating zero, a null pointer is \<open>None\<close>.
\<close>

section \<open>Error codes\<close>

definition isUppercaseLetter :: "char \<Rightarrow> bool" where
  "isUppercaseLetter c \<longleftrightarrow> 65 \<le> (of_char c :: nat) \<and> (of_char c :: nat) \<le> 90"

definition isTokenTail :: "char \<Rightarrow> bool" where
  "isTokenTail c \<longleftrightarrow>
     isUppercaseLetter c \<or> (48 \<le> (of_char c :: nat) \<and> (of_char c :: nat) \<le> 57) \<or> c = CHR ''_''"

definition isLocalCodeValid :: "string option \<Rightarrow> bool" where
  "isLocalCodeValid value =
     (case value of
        None \<Rightarrow> False
      | Some s \<Rightarrow> (case s of [] \<Rightarrow> False | c # cs \<Rightarrow> isUppercaseLetter c \<and> list_all isTokenTail cs))"

text \<open>The scan of a namespace; the flag says that the next character starts a segment.\<close>

fun namespaceScan :: "bool \<Rightarrow> string \<Rightarrow> bool" where
  "namespaceScan expectsSegmentStart [] = (\<not> expectsSegmentStart)"
| "namespaceScan expectsSegmentStart (current # rest) =
     (if expectsSegmentStart then (if \<not> isUppercaseLetter current then False else namespaceScan False rest)
      else if current = CHR ''.'' then namespaceScan True rest
      else if \<not> isTokenTail current then False
      else namespaceScan False rest)"

definition isNamespaceValid :: "string option \<Rightarrow> bool" where
  "isNamespaceValid value =
     (case value of None \<Rightarrow> False | Some s \<Rightarrow> (if s = [] then False else namespaceScan True s))"

record StartupErrorCode =
  sec_ownerNamespace :: "string option"
  sec_localCode :: "string option"

definition StartupErrorCode_fromStatic :: "string option \<Rightarrow> string option \<Rightarrow> StartupErrorCode" where
  "StartupErrorCode_fromStatic ownerNamespace localCode =
     \<lparr>sec_ownerNamespace = ownerNamespace, sec_localCode = localCode\<rparr>"

definition sec_isValid :: "StartupErrorCode \<Rightarrow> bool" where
  "sec_isValid e \<longleftrightarrow> isNamespaceValid (sec_ownerNamespace e) \<and> isLocalCodeValid (sec_localCode e)"

definition sec_equals :: "StartupErrorCode \<Rightarrow> StartupErrorCode \<Rightarrow> bool" where
  "sec_equals e other \<longleftrightarrow> sec_isValid e \<and> sec_isValid other \<and>
     sec_ownerNamespace e = sec_ownerNamespace other \<and> sec_localCode e = sec_localCode other"

definition coreCode :: "string \<Rightarrow> StartupErrorCode" where
  "coreCode localCode = StartupErrorCode_fromStatic (Some ''AQUA.CORE'') (Some localCode)"

definition participantStorageInvalid :: StartupErrorCode where
  "participantStorageInvalid = coreCode ''PARTICIPANT_STORAGE_INVALID''"
definition reportStorageInvalid :: StartupErrorCode where
  "reportStorageInvalid = coreCode ''REPORT_STORAGE_INVALID''"
definition callbackMissing :: StartupErrorCode where
  "callbackMissing = coreCode ''CALLBACK_MISSING''"
definition participantIdMissing :: StartupErrorCode where
  "participantIdMissing = coreCode ''PARTICIPANT_ID_MISSING''"
definition participantIdDuplicate :: StartupErrorCode where
  "participantIdDuplicate = coreCode ''PARTICIPANT_ID_DUPLICATE''"
definition phaseInvalid :: StartupErrorCode where
  "phaseInvalid = coreCode ''PHASE_INVALID''"
definition phaseNotAllowed :: StartupErrorCode where
  "phaseNotAllowed = coreCode ''PHASE_NOT_ALLOWED''"
definition phaseOrderInvalid :: StartupErrorCode where
  "phaseOrderInvalid = coreCode ''PHASE_ORDER_INVALID''"
definition requirementInvalid :: StartupErrorCode where
  "requirementInvalid = coreCode ''REQUIREMENT_INVALID''"
definition outcomeInvalid :: StartupErrorCode where
  "outcomeInvalid = coreCode ''OUTCOME_INVALID''"
definition errorCodeMissing :: StartupErrorCode where
  "errorCodeMissing = coreCode ''ERROR_CODE_MISSING''"
definition errorCodeInvalid :: StartupErrorCode where
  "errorCodeInvalid = coreCode ''ERROR_CODE_INVALID''"
definition errorCodeUnexpected :: StartupErrorCode where
  "errorCodeUnexpected = coreCode ''ERROR_CODE_UNEXPECTED''"
definition requiredDisabled :: StartupErrorCode where
  "requiredDisabled = coreCode ''REQUIRED_DISABLED''"
definition specialDisabled :: StartupErrorCode where
  "specialDisabled = coreCode ''SPECIAL_DISABLED''"

section \<open>Step results\<close>

datatype StartupRequirement = REQUIRED | OPTIONAL | RequirementOther u8

datatype StartupOutcome = SUCCEEDED | DISABLED | FAILED | OutcomeOther u8

record StartupStepResult =
  ssr_outcome :: StartupOutcome
  ssr_code :: StartupErrorCode

definition noErrorCode :: StartupErrorCode where
  "noErrorCode = \<lparr>sec_ownerNamespace = None, sec_localCode = None\<rparr>"

definition ssr_succeeded :: StartupStepResult where
  "ssr_succeeded = \<lparr>ssr_outcome = SUCCEEDED, ssr_code = noErrorCode\<rparr>"

definition ssr_disabled :: StartupStepResult where
  "ssr_disabled = \<lparr>ssr_outcome = DISABLED, ssr_code = noErrorCode\<rparr>"

definition ssr_failed :: "StartupErrorCode \<Rightarrow> StartupStepResult" where
  "ssr_failed code = \<lparr>ssr_outcome = FAILED, ssr_code = code\<rparr>"

definition ssr_hasErrorCode :: "StartupStepResult \<Rightarrow> bool" where
  "ssr_hasErrorCode r \<longleftrightarrow> sec_ownerNamespace (ssr_code r) \<noteq> None \<or> sec_localCode (ssr_code r) \<noteq> None"

definition ssr_isValid :: "StartupStepResult \<Rightarrow> bool" where
  "ssr_isValid r =
     (case ssr_outcome r of
        SUCCEEDED \<Rightarrow> \<not> ssr_hasErrorCode r
      | DISABLED \<Rightarrow> \<not> ssr_hasErrorCode r
      | FAILED \<Rightarrow> ssr_hasErrorCode r \<and> sec_isValid (ssr_code r)
      | _ \<Rightarrow> False)"

definition ssr_errorCode :: "StartupStepResult \<Rightarrow> StartupErrorCode option" where
  "ssr_errorCode r = (if ssr_hasErrorCode r then Some (ssr_code r) else None)"

section \<open>Plan\<close>

record 'w StartupAction =
  sa_participantId :: "string option"
  sa_callback :: "('w \<Rightarrow> StartupStepResult \<times> 'w) option"

record 'w StartupParticipant =
  sp_action :: "'w StartupAction"
  sp_phase :: StartupPhase
  sp_requirement :: StartupRequirement

record 'w ApplicationPlan =
  ap_earlySafeOutputs :: "'w StartupAction"
  ap_safetyGate :: "'w StartupAction"
  ap_participants :: "'w StartupParticipant list option"
  ap_participantCount :: nat

section \<open>Report\<close>

datatype StartupFailureKind = PARTICIPANT_FAILURE | PLAN_CONTRACT_FAILURE | RESULT_CONTRACT_FAILURE

datatype StartupFailureSource = SourcePLAN | SourceEARLY_SAFE_OUTPUTS | SourcePARTICIPANT | SourceSAFETY_GATE

record StartupFailureRecord =
  sfr_present :: bool
  sfr_kind :: StartupFailureKind
  sfr_source :: StartupFailureSource
  sfr_phase :: StartupPhase
  sfr_participantId :: "string option"
  sfr_hasParticipantIndex :: bool
  sfr_participantIndex :: nat
  sfr_errorCode :: StartupErrorCode

definition StartupFailureRecord_new :: StartupFailureRecord where
  "StartupFailureRecord_new =
     \<lparr>sfr_present = False, sfr_kind = PLAN_CONTRACT_FAILURE, sfr_source = SourcePLAN,
      sfr_phase = PhaseBOOT, sfr_participantId = None, sfr_hasParticipantIndex = False,
      sfr_participantIndex = 0, sfr_errorCode = StartupErrorCode_fromStatic None None\<rparr>"

definition sfr_set ::
  "StartupFailureRecord \<Rightarrow> StartupFailureKind \<Rightarrow> StartupFailureSource \<Rightarrow> StartupPhase \<Rightarrow> string option \<Rightarrow>
   bool \<Rightarrow> nat \<Rightarrow> StartupErrorCode \<Rightarrow> StartupFailureRecord" where
  "sfr_set r kind source phase participantId hasParticipantIndex participantIndex errorCode =
     r\<lparr>sfr_present := True, sfr_kind := kind, sfr_source := source, sfr_phase := phase,
       sfr_participantId := participantId, sfr_hasParticipantIndex := hasParticipantIndex,
       sfr_participantIndex := participantIndex, sfr_errorCode := errorCode\<rparr>"

text \<open>The borrowed array of records is \<open>sr_records\<close> (\<open>None\<close>: null).\<close>

record StartupReport =
  sr_complete :: bool
  sr_finalStatus :: RuntimeStatus
  sr_fatalFailure :: StartupFailureRecord
  sr_records :: "StartupFailureRecord list option"
  sr_capacity :: nat
  sr_optionalFailureCount :: nat
  sr_storedOptionalFailureCount :: nat

definition StartupReport_new :: "StartupFailureRecord list option \<Rightarrow> nat \<Rightarrow> RuntimeStatus \<Rightarrow> StartupReport" where
  "StartupReport_new records capacity initialStatus =
     \<lparr>sr_complete = False, sr_finalStatus = initialStatus, sr_fatalFailure = StartupFailureRecord_new,
      sr_records = records, sr_capacity = capacity, sr_optionalFailureCount = 0,
      sr_storedOptionalFailureCount = 0\<rparr>"

definition sr_hasFatalFailure :: "StartupReport \<Rightarrow> bool" where
  "sr_hasFatalFailure r = sfr_present (sr_fatalFailure r)"

definition sr_fatalFailureOf :: "StartupReport \<Rightarrow> StartupFailureRecord option" where
  "sr_fatalFailureOf r = (if sr_hasFatalFailure r then Some (sr_fatalFailure r) else None)"

definition sr_optionalFailuresTruncated :: "StartupReport \<Rightarrow> bool" where
  "sr_optionalFailuresTruncated r \<longleftrightarrow> sr_optionalFailureCount r > sr_storedOptionalFailureCount r"

definition sr_optionalFailure :: "StartupReport \<Rightarrow> nat \<Rightarrow> StartupFailureRecord option" where
  "sr_optionalFailure r index =
     (if index < sr_storedOptionalFailureCount r then Some (the (sr_records r) ! index) else None)"

definition sr_totalFailureCount :: "StartupReport \<Rightarrow> nat" where
  "sr_totalFailureCount r = sr_optionalFailureCount r + (if sr_hasFatalFailure r then 1 else 0)"

definition sr_addOptionalFailure ::
  "StartupReport \<Rightarrow> StartupFailureSource \<Rightarrow> StartupPhase \<Rightarrow> string option \<Rightarrow> nat \<Rightarrow> StartupErrorCode \<Rightarrow>
   StartupReport" where
  "sr_addOptionalFailure r0 source phase participantId participantIndex errorCode =
     (let r = r0\<lparr>sr_optionalFailureCount := sr_optionalFailureCount r0 + 1\<rparr>;
          k = sr_storedOptionalFailureCount r
      in if k \<ge> sr_capacity r then r
         else r\<lparr>sr_records := map_option (\<lambda>rs. rs[k := sfr_set (rs ! k) PARTICIPANT_FAILURE source phase
                   participantId True participantIndex errorCode]) (sr_records r),
                sr_storedOptionalFailureCount := k + 1\<rparr>)"

definition sr_setFatalFailure ::
  "StartupReport \<Rightarrow> StartupFailureKind \<Rightarrow> StartupFailureSource \<Rightarrow> StartupPhase \<Rightarrow> string option \<Rightarrow> bool \<Rightarrow>
   nat \<Rightarrow> StartupErrorCode \<Rightarrow> StartupReport" where
  "sr_setFatalFailure r kind source phase participantId hasParticipantIndex participantIndex errorCode =
     r\<lparr>sr_fatalFailure := sfr_set (sr_fatalFailure r) kind source phase participantId
         hasParticipantIndex participantIndex errorCode\<rparr>"

definition sr_completeWith :: "StartupReport \<Rightarrow> RuntimeStatus \<Rightarrow> StartupReport" where
  "sr_completeWith r finalStatus = r\<lparr>sr_finalStatus := finalStatus, sr_complete := True\<rparr>"

section \<open>The grammar of a namespace\<close>

text \<open>Segments joined by dots, each a valid local code.\<close>

fun joinSegments :: "string list \<Rightarrow> string" where
  "joinSegments [] = []"
| "joinSegments [s] = s"
| "joinSegments (s # ss) = s @ CHR ''.'' # joinSegments ss"

definition segmentsOk :: "string list \<Rightarrow> bool" where
  "segmentsOk ss \<longleftrightarrow> ss \<noteq> [] \<and> list_all (\<lambda>s. isLocalCodeValid (Some s)) ss"

lemma dot_not_token: "\<not> isTokenTail CHR ''.''"
  by (simp add: isTokenTail_def isUppercaseLetter_def)

lemma namespaceScan_tail:
  "list_all isTokenTail s \<Longrightarrow> namespaceScan False (s @ rest) = namespaceScan False rest"
  using dot_not_token by (induction s) auto

lemma namespaceScan_join: "segmentsOk ss \<Longrightarrow> namespaceScan True (joinSegments ss)"
proof (induction ss rule: joinSegments.induct)
  case (2 s)
  then obtain c cs where s: "s = c # cs" "isUppercaseLetter c" "list_all isTokenTail cs"
    by (auto simp: segmentsOk_def isLocalCodeValid_def split: list.split_asm)
  then show ?case using namespaceScan_tail [of cs "[]"] by simp
next
  case (3 s t ts)
  then obtain c cs where s: "s = c # cs" "isUppercaseLetter c" "list_all isTokenTail cs"
    by (auto simp: segmentsOk_def isLocalCodeValid_def split: list.split_asm)
  have "namespaceScan True (joinSegments (t # ts))" using 3 by (simp add: segmentsOk_def)
  then show ?case using s namespaceScan_tail [of cs "CHR ''.'' # joinSegments (t # ts)"] by simp
qed (simp add: segmentsOk_def)

lemma namespaceScan_split:
  "(namespaceScan True s \<longrightarrow> (\<exists>ss. segmentsOk ss \<and> s = joinSegments ss)) \<and>
   (namespaceScan False s \<longrightarrow>
      (\<exists>u. list_all isTokenTail u \<and> (s = u \<or> (\<exists>ss. segmentsOk ss \<and> s = u @ CHR ''.'' # joinSegments ss))))"
proof (induction s)
  case Nil
  then show ?case by (auto intro: exI [of _ "[]"])
next
  case (Cons c s)
  show ?case
  proof (intro conjI impI)
    assume "namespaceScan True (c # s)"
    then have c: "isUppercaseLetter c" "namespaceScan False s" by (auto split: if_split_asm)
    then obtain u where u: "list_all isTokenTail u"
      "s = u \<or> (\<exists>ss. segmentsOk ss \<and> s = u @ CHR ''.'' # joinSegments ss)" using Cons.IH by blast
    have first: "isLocalCodeValid (Some (c # u))" using c u by (simp add: isLocalCodeValid_def)
    from u(2) show "\<exists>ss. segmentsOk ss \<and> c # s = joinSegments ss"
    proof
      assume "s = u"
      then show ?thesis using first by (intro exI [of _ "[c # u]"]) (simp add: segmentsOk_def)
    next
      assume "\<exists>ss. segmentsOk ss \<and> s = u @ CHR ''.'' # joinSegments ss"
      then obtain ss where ss: "segmentsOk ss" "s = u @ CHR ''.'' # joinSegments ss" by blast
      then obtain t ts where "ss = t # ts" by (cases ss) (auto simp: segmentsOk_def)
      then show ?thesis using first ss by (intro exI [of _ "(c # u) # ss"]) (simp add: segmentsOk_def)
    qed
  next
    assume n: "namespaceScan False (c # s)"
    show "\<exists>u. list_all isTokenTail u \<and>
      (c # s = u \<or> (\<exists>ss. segmentsOk ss \<and> c # s = u @ CHR ''.'' # joinSegments ss))"
    proof (cases "c = CHR ''.''")
      case True
      then have "\<exists>ss. segmentsOk ss \<and> s = joinSegments ss" using n Cons.IH by simp
      then show ?thesis using True by (intro exI [of _ "[]"]) simp
    next
      case False
      then have c: "isTokenTail c" "namespaceScan False s" using n by (auto split: if_split_asm)
      then obtain u where "list_all isTokenTail u"
        "s = u \<or> (\<exists>ss. segmentsOk ss \<and> s = u @ CHR ''.'' # joinSegments ss)" using Cons.IH by blast
      then show ?thesis using c(1) by (intro exI [of _ "c # u"]) auto
    qed
  qed
qed

end
