(* ===== verification/RuntimeState.thy ===== *)
theory RuntimeState
  imports SystemState
begin

text \<open>
  The owner of health and safety after startup,
  \<open>aquaOneCore/src/System/RuntimeStateCoordinator.cpp\<close>: it asks every provider and publishes one pair.
  A provider is a function of the world (a null pointer is \<open>None\<close>); a null provider array is \<open>None\<close>.
  The coordinator's pointer to the status it writes is \<open>rsc_bound\<close>: null, or the status of the runtime
  that activated it, which the operations take and return.
\<close>

definition validHealth :: "HealthState \<Rightarrow> bool" where
  "validHealth v = (case v of HealthOK \<Rightarrow> True | DEGRADED \<Rightarrow> True | FAULT \<Rightarrow> True | _ \<Rightarrow> False)"

definition validSafety :: "SafetyState \<Rightarrow> bool" where
  "validSafety v = (case v of CLEAR \<Rightarrow> True | LOCKED \<Rightarrow> True | _ \<Rightarrow> False)"

definition healthSeverity :: "HealthState \<Rightarrow> u8" where
  "healthSeverity v = (case v of FAULT \<Rightarrow> 2 | DEGRADED \<Rightarrow> 1 | _ \<Rightarrow> 0)"

datatype RuntimeStateRefreshResult = REFRESHED | INACTIVE | INVALID_PROVIDER

type_synonym 'w health_provider = "'w \<Rightarrow> HealthState"
type_synonym 'w safety_provider = "'w \<Rightarrow> SafetyState"

record 'w state_coordinator =
  rsc_healthProviders :: "'w health_provider option list option"
  rsc_healthProviderCount :: nat
  rsc_safetyProviders :: "'w safety_provider option list option"
  rsc_safetyProviderCount :: nat
  rsc_bound :: bool
  rsc_providerListsValid :: bool
  rsc_active :: bool
  rsc_runtimeFailureLatched :: bool

text \<open>The constructor's checks: no array with a zero count, and no null entry.\<close>

definition providersPresent :: "'a option list option \<Rightarrow> nat \<Rightarrow> bool" where
  "providersPresent ps n = (\<forall>i \<in> set [0..<n]. the ps ! i \<noteq> None)"

definition RuntimeStateCoordinator_new ::
  "'w health_provider option list option \<Rightarrow> nat \<Rightarrow> 'w safety_provider option list option \<Rightarrow> nat \<Rightarrow>
   'w state_coordinator" where
  "RuntimeStateCoordinator_new hs hn ss sn =
     (let v1 = \<not> ((hn = 0) \<noteq> (hs = None) \<or> (sn = 0) \<noteq> (ss = None));
          v2 = (if v1 then providersPresent hs hn else v1);
          v3 = (if v2 then providersPresent ss sn else v2)
      in \<lparr>rsc_healthProviders = hs, rsc_healthProviderCount = hn, rsc_safetyProviders = ss,
          rsc_safetyProviderCount = sn, rsc_bound = False, rsc_providerListsValid = v3,
          rsc_active = False, rsc_runtimeFailureLatched = False\<rparr>)"

text \<open>The two loops of \<open>aggregate\<close>; \<open>None\<close> is a contribution that names no state.\<close>

fun aggregateHealth :: "HealthState list \<Rightarrow> HealthState \<Rightarrow> HealthState option" where
  "aggregateHealth [] h = Some h"
| "aggregateHealth (contribution # cs) h =
     (if \<not> validHealth contribution then None
      else aggregateHealth cs (if healthSeverity contribution > healthSeverity h then contribution else h))"

fun aggregateSafety :: "SafetyState list \<Rightarrow> SafetyState \<Rightarrow> SafetyState option" where
  "aggregateSafety [] s = Some s"
| "aggregateSafety (contribution # cs) s =
     (if \<not> validSafety contribution then None
      else aggregateSafety cs (if contribution = LOCKED then LOCKED else s))"

definition contributions :: "('w \<Rightarrow> 'a) option list option \<Rightarrow> nat \<Rightarrow> 'w \<Rightarrow> 'a list" where
  "contributions ps n w = map (\<lambda>i. the (the ps ! i) w) [0..<n]"

definition rsc_aggregate :: "'w state_coordinator \<Rightarrow> 'w \<Rightarrow> bool \<times> HealthState \<times> SafetyState" where
  "rsc_aggregate c w =
     (if \<not> rsc_providerListsValid c then (False, FAULT, LOCKED)
      else
        case aggregateHealth (contributions (rsc_healthProviders c) (rsc_healthProviderCount c) w) HealthOK of
          None \<Rightarrow> (False, FAULT, LOCKED)
        | Some h \<Rightarrow>
           (case aggregateSafety (contributions (rsc_safetyProviders c) (rsc_safetyProviderCount c) w) CLEAR of
              None \<Rightarrow> (False, FAULT, LOCKED)
            | Some s \<Rightarrow> (True, h, s)))"

definition rsc_refresh ::
  "'w state_coordinator \<Rightarrow> RuntimeStatus \<Rightarrow> 'w \<Rightarrow> RuntimeStateRefreshResult \<times> RuntimeStatus" where
  "rsc_refresh c status w =
     (if \<not> rsc_active c \<or> \<not> rsc_bound c then (INACTIVE, status)
      else
        let (valid, h, s) = rsc_aggregate c w;
            (h, s) = (if rsc_runtimeFailureLatched c then (FAULT, LOCKED) else (h, s))
        in (if valid then REFRESHED else INVALID_PROVIDER, status\<lparr>health := h, safety := s\<rparr>))"

definition rsc_latchRuntimeFailure ::
  "'w state_coordinator \<Rightarrow> RuntimeStatus \<Rightarrow> 'w state_coordinator \<times> RuntimeStatus" where
  "rsc_latchRuntimeFailure c status =
     (c\<lparr>rsc_runtimeFailureLatched := True\<rparr>, status\<lparr>health := FAULT, safety := LOCKED\<rparr>)"

definition rsc_activate ::
  "'w state_coordinator \<Rightarrow> RuntimeStatus \<Rightarrow> 'w \<Rightarrow> bool \<times> 'w state_coordinator \<times> RuntimeStatus" where
  "rsc_activate c status w =
     (if rsc_active c then (False, c, status)
      else
        let (valid, h, s) = rsc_aggregate c w
        in if \<not> valid \<or> healthSeverity h < healthSeverity (health status) \<or>
              (safety status = LOCKED \<and> s = CLEAR) then (False, c, status)
           else (True, c\<lparr>rsc_bound := True, rsc_active := True\<rparr>, status\<lparr>health := h, safety := s\<rparr>))"

section \<open>The published pair\<close>

text \<open>The reference: the worst health of a list, and whether anything is locked.\<close>

definition worstHealth :: "HealthState list \<Rightarrow> HealthState" where
  "worstHealth hs = (if FAULT \<in> set hs then FAULT else if DEGRADED \<in> set hs then DEGRADED else HealthOK)"

definition anyLocked :: "SafetyState list \<Rightarrow> SafetyState" where
  "anyLocked ss = (if LOCKED \<in> set ss then LOCKED else CLEAR)"

lemma aggregateHealth_worst:
  assumes "validHealth h"
  shows "aggregateHealth hs h = (if \<forall>c \<in> set hs. validHealth c then Some (worstHealth (h # hs)) else None)"
  using assms
proof (induction hs arbitrary: h)
  case Nil
  then show ?case by (cases h) (simp_all add: worstHealth_def validHealth_def)
next
  case (Cons c cs)
  show ?case
  proof (cases "validHealth c")
    case True
    have "aggregateHealth cs (if healthSeverity c > healthSeverity h then c else h) =
      (if \<forall>c \<in> set cs. validHealth c
       then Some (worstHealth ((if healthSeverity c > healthSeverity h then c else h) # cs)) else None)"
      by (rule Cons.IH) (simp add: True Cons.prems)
    moreover have "worstHealth ((if healthSeverity c > healthSeverity h then c else h) # cs) = worstHealth (h # c # cs)"
      using True Cons.prems by (cases h; cases c) (simp_all add: worstHealth_def validHealth_def healthSeverity_def)
    ultimately show ?thesis using True by simp
  qed simp
qed

lemma aggregateSafety_locked:
  assumes "validSafety s"
  shows "aggregateSafety ss s = (if \<forall>c \<in> set ss. validSafety c then Some (anyLocked (s # ss)) else None)"
  using assms
proof (induction ss arbitrary: s)
  case Nil
  then show ?case by (cases s) (simp_all add: anyLocked_def validSafety_def)
next
  case (Cons c cs)
  show ?case
  proof (cases "validSafety c")
    case True
    have "aggregateSafety cs (if c = LOCKED then LOCKED else s) =
      (if \<forall>c \<in> set cs. validSafety c then Some (anyLocked ((if c = LOCKED then LOCKED else s) # cs)) else None)"
      by (rule Cons.IH) (use Cons.prems in \<open>simp add: validSafety_def\<close>)
    moreover have "anyLocked ((if c = LOCKED then LOCKED else s) # cs) = anyLocked (s # c # cs)"
      by (auto simp: anyLocked_def)
    ultimately show ?thesis using True by simp
  qed simp
qed

definition providersOk :: "'w state_coordinator \<Rightarrow> 'w \<Rightarrow> bool" where
  "providersOk c w \<longleftrightarrow> rsc_providerListsValid c \<and>
     (\<forall>h \<in> set (contributions (rsc_healthProviders c) (rsc_healthProviderCount c) w). validHealth h) \<and>
     (\<forall>s \<in> set (contributions (rsc_safetyProviders c) (rsc_safetyProviderCount c) w). validSafety s)"

lemma rsc_aggregate_spec:
  "rsc_aggregate c w =
     (if providersOk c w
      then (True, worstHealth (contributions (rsc_healthProviders c) (rsc_healthProviderCount c) w),
            anyLocked (contributions (rsc_safetyProviders c) (rsc_safetyProviderCount c) w))
      else (False, FAULT, LOCKED))"
proof -
  have v: "validHealth HealthOK" "validSafety CLEAR" by (simp_all add: validHealth_def validSafety_def)
  have d: "worstHealth (HealthOK # hs) = worstHealth hs" "anyLocked (CLEAR # ss) = anyLocked ss" for hs ss
    by (simp_all add: worstHealth_def anyLocked_def)
  show ?thesis
    by (auto simp: rsc_aggregate_def providersOk_def aggregateHealth_worst [OF v(1)] aggregateSafety_locked [OF v(2)] d)
qed

lemma worstHealth_valid: "validHealth (worstHealth hs)"
  by (simp add: worstHealth_def validHealth_def)

lemma anyLocked_valid: "validSafety (anyLocked ss)"
  by (simp add: anyLocked_def validSafety_def)

end
