(* ===== verification/ApplicationRuntime.thy ===== *)
theory ApplicationRuntime
  imports Startup RuntimeState
begin

text \<open>
  The application lifecycle, \<open>aquaOneCore/src/System/ApplicationRuntime.cpp\<close>: the startup plan is
  validated and executed phase by phase around the safety gate, the state is handed off to the
  coordinator of health and safety, and maintenance is entered and left. A callback of the plan acts on
  the world \<open>rt_world\<close>; it cannot call back into the runtime (the code is documented as not reentrant).
  After the handoff \<open>rt_coordinator\<close> is the coordinator object the runtime points to.
\<close>

section \<open>State and helpers\<close>

record 'w application_runtime =
  rt_plan :: "'w ApplicationPlan"
  rt_storageRecords :: "StartupFailureRecord list option"
  rt_storageCapacity :: nat
  rt_status :: RuntimeStatus
  rt_report :: StartupReport
  rt_startInProgress :: bool
  rt_coordinator :: "'w state_coordinator option"
  rt_world :: 'w

definition preStartStatus :: RuntimeStatus where
  "preStartStatus = \<lparr>operational = BOOTING, health = HealthOK, safety = LOCKED, startupPhase = PhaseBOOT\<rparr>"

definition hasParticipantId :: "string option \<Rightarrow> bool" where
  "hasParticipantId i \<longleftrightarrow> i \<noteq> None \<and> the i \<noteq> []"

definition validParticipantIdOrNull :: "string option \<Rightarrow> string option" where
  "validParticipantIdOrNull i = (if hasParticipantId i then i else None)"

definition sameParticipantId :: "string option \<Rightarrow> string option \<Rightarrow> bool" where
  "sameParticipantId first second \<longleftrightarrow> the first = the second"

definition isValidPhase :: "StartupPhase \<Rightarrow> bool" where
  "isValidPhase phase = (case phase of PhaseOther _ \<Rightarrow> False | _ \<Rightarrow> True)"

definition isOrdinaryPhase :: "StartupPhase \<Rightarrow> bool" where
  "isOrdinaryPhase phase =
     (case phase of
        PhaseBOOT \<Rightarrow> True | PhaseCORE_INIT \<Rightarrow> True | PhaseLOAD_VALIDATE_CONFIG \<Rightarrow> True
      | PhaseHARDWARE_INIT \<Rightarrow> True | PhaseDOMAIN_INIT \<Rightarrow> True | PhaseNETWORK_INIT \<Rightarrow> True
      | PhaseINTERFACES_INIT \<Rightarrow> True | _ \<Rightarrow> False)"

definition phaseOrder :: "StartupPhase \<Rightarrow> u8" where
  "phaseOrder phase =
     (case phase of
        PhaseBOOT \<Rightarrow> 0 | PhaseCORE_INIT \<Rightarrow> 1 | PhaseLOAD_VALIDATE_CONFIG \<Rightarrow> 2 | PhaseHARDWARE_INIT \<Rightarrow> 3
      | PhaseDOMAIN_INIT \<Rightarrow> 4 | PhaseSAFETY_VALIDATION \<Rightarrow> 5 | PhaseNETWORK_INIT \<Rightarrow> 6
      | PhaseINTERFACES_INIT \<Rightarrow> 7 | PhaseRUNNING \<Rightarrow> 8 | PhaseOther n \<Rightarrow> n)"

definition isValidRequirement :: "StartupRequirement \<Rightarrow> bool" where
  "isValidRequirement requirement = (case requirement of REQUIRED \<Rightarrow> True | OPTIONAL \<Rightarrow> True | _ \<Rightarrow> False)"

definition invalidResultError :: "StartupStepResult \<Rightarrow> StartupErrorCode" where
  "invalidResultError result =
     (case ssr_outcome result of
        FAILED \<Rightarrow> (if ssr_hasErrorCode result then errorCodeInvalid else errorCodeMissing)
      | SUCCEEDED \<Rightarrow> errorCodeUnexpected
      | DISABLED \<Rightarrow> errorCodeUnexpected
      | _ \<Rightarrow> outcomeInvalid)"

definition ApplicationRuntime_new ::
  "'w ApplicationPlan \<Rightarrow> StartupFailureRecord list option \<Rightarrow> nat \<Rightarrow> 'w \<Rightarrow> 'w application_runtime" where
  "ApplicationRuntime_new plan records capacity w =
     \<lparr>rt_plan = plan, rt_storageRecords = records, rt_storageCapacity = capacity,
      rt_status = preStartStatus, rt_report = StartupReport_new records capacity preStartStatus,
      rt_startInProgress = False, rt_coordinator = None, rt_world = w\<rparr>"

section \<open>Failure and success\<close>

definition rt_fail ::
  "'w application_runtime \<Rightarrow> StartupFailureKind \<Rightarrow> StartupFailureSource \<Rightarrow> string option \<Rightarrow> bool \<Rightarrow> nat \<Rightarrow>
   StartupErrorCode \<Rightarrow> 'w application_runtime" where
  "rt_fail rt kind source participantId hasParticipantIndex participantIndex errorCode =
     (let st = (rt_status rt)\<lparr>operational := ERROR, health := FAULT, safety := LOCKED\<rparr>
      in rt\<lparr>rt_status := st,
            rt_report := sr_completeWith (sr_setFatalFailure (rt_report rt) kind source (startupPhase st)
              participantId hasParticipantIndex participantIndex errorCode) st,
            rt_startInProgress := False\<rparr>)"

definition finishSuccess :: "'w application_runtime \<Rightarrow> 'w application_runtime" where
  "finishSuccess rt =
     (let st = (rt_status rt)\<lparr>startupPhase := PhaseRUNNING, operational := RUNNING, safety := CLEAR\<rparr>
      in rt\<lparr>rt_status := st, rt_report := sr_completeWith (rt_report rt) st, rt_startInProgress := False\<rparr>)"

section \<open>Validation\<close>

definition validateEarlySafeOutputs :: "'w application_runtime \<Rightarrow> bool \<times> 'w application_runtime" where
  "validateEarlySafeOutputs rt =
     (let a = ap_earlySafeOutputs (rt_plan rt)
      in if sa_callback a = None then
           (False, rt_fail rt PLAN_CONTRACT_FAILURE SourceEARLY_SAFE_OUTPUTS
              (validParticipantIdOrNull (sa_participantId a)) False 0 callbackMissing)
      else if \<not> hasParticipantId (sa_participantId a) then
           (False, rt_fail rt PLAN_CONTRACT_FAILURE SourceEARLY_SAFE_OUTPUTS None False 0 participantIdMissing)
      else (True, rt))"

text \<open>The checks of one participant: the identifier reported and the error code.\<close>

definition participantProblem :: "'w ApplicationPlan \<Rightarrow> nat \<Rightarrow> (string option \<times> StartupErrorCode) option" where
  "participantProblem plan index =
     (let participants = the (ap_participants plan);
          participant = participants ! index;
          i = sa_participantId (sp_action participant)
      in if sa_callback (sp_action participant) = None then Some (validParticipantIdOrNull i, callbackMissing)
      else if \<not> hasParticipantId i then Some (None, participantIdMissing)
      else if \<not> isValidPhase (sp_phase participant) then Some (i, phaseInvalid)
      else if \<not> isOrdinaryPhase (sp_phase participant) then Some (i, phaseNotAllowed)
      else if \<not> isValidRequirement (sp_requirement participant) then Some (i, requirementInvalid)
      else if (sp_phase participant = PhaseNETWORK_INIT \<or> sp_phase participant = PhaseINTERFACES_INIT) \<and>
              sp_requirement participant \<noteq> OPTIONAL then Some (i, phaseNotAllowed)
      else if index > 0 \<and> phaseOrder (sp_phase participant) < phaseOrder (sp_phase (participants ! (index - 1)))
        then Some (i, phaseOrderInvalid)
      else if sameParticipantId i (sa_participantId (ap_earlySafeOutputs plan)) \<or>
              sameParticipantId i (sa_participantId (ap_safetyGate plan)) then Some (i, participantIdDuplicate)
      else if \<exists>previous \<in> set [0..<index]. sameParticipantId i (sa_participantId (sp_action (participants ! previous)))
        then Some (i, participantIdDuplicate)
      else None)"

text \<open>The loop over the participants stops at the first problem.\<close>

fun validateParticipants ::
  "nat list \<Rightarrow> 'w application_runtime \<Rightarrow> bool \<times> 'w application_runtime" where
  "validateParticipants [] rt = (True, rt)"
| "validateParticipants (index # rest) rt =
     (case participantProblem (rt_plan rt) index of
        Some (i, code) \<Rightarrow> (False, rt_fail rt PLAN_CONTRACT_FAILURE SourcePARTICIPANT i True index code)
      | None \<Rightarrow> validateParticipants rest rt)"

definition validateFullPlan :: "'w application_runtime \<Rightarrow> bool \<times> 'w application_runtime" where
  "validateFullPlan rt =
     (let plan = rt_plan rt; gate = ap_safetyGate plan
      in if (rt_storageCapacity rt = 0 \<and> rt_storageRecords rt \<noteq> None) \<or>
            (rt_storageCapacity rt > 0 \<and> rt_storageRecords rt = None) then
           (False, rt_fail rt PLAN_CONTRACT_FAILURE SourcePLAN None False 0 reportStorageInvalid)
      else if sa_callback gate = None then
           (False, rt_fail rt PLAN_CONTRACT_FAILURE SourceSAFETY_GATE
              (validParticipantIdOrNull (sa_participantId gate)) False 0 callbackMissing)
      else if \<not> hasParticipantId (sa_participantId gate) then
           (False, rt_fail rt PLAN_CONTRACT_FAILURE SourceSAFETY_GATE None False 0 participantIdMissing)
      else if (ap_participantCount plan = 0 \<and> ap_participants plan \<noteq> None) \<or>
              (ap_participantCount plan > 0 \<and> ap_participants plan = None) then
           (False, rt_fail rt PLAN_CONTRACT_FAILURE SourcePLAN None False 0 participantStorageInvalid)
      else if sameParticipantId (sa_participantId (ap_earlySafeOutputs plan)) (sa_participantId gate) then
           (False, rt_fail rt PLAN_CONTRACT_FAILURE SourceSAFETY_GATE (sa_participantId gate) False 0
              participantIdDuplicate)
      else validateParticipants [0..<ap_participantCount plan] rt)"

section \<open>Execution\<close>

definition handleParticipantResult ::
  "'w application_runtime \<Rightarrow> 'w StartupParticipant \<Rightarrow> nat \<Rightarrow> StartupStepResult \<Rightarrow> bool \<times> 'w application_runtime" where
  "handleParticipantResult rt participant participantIndex result =
     (let i = sa_participantId (sp_action participant)
      in if \<not> ssr_isValid result then
           (False, rt_fail rt RESULT_CONTRACT_FAILURE SourcePARTICIPANT i True participantIndex
              (invalidResultError result))
      else
        case ssr_outcome result of
          SUCCEEDED \<Rightarrow> (True, rt)
        | DISABLED \<Rightarrow>
            if sp_requirement participant = OPTIONAL then (True, rt)
            else (False, rt_fail rt RESULT_CONTRACT_FAILURE SourcePARTICIPANT i True participantIndex requiredDisabled)
        | FAILED \<Rightarrow>
            if sp_requirement participant = REQUIRED then
              (False, rt_fail rt PARTICIPANT_FAILURE SourcePARTICIPANT i True participantIndex
                 (the (ssr_errorCode result)))
            else
              (True, rt\<lparr>rt_status := (rt_status rt)\<lparr>health := DEGRADED\<rparr>,
                        rt_report := sr_addOptionalFailure (rt_report rt) SourcePARTICIPANT
                          (startupPhase (rt_status rt)) i participantIndex (the (ssr_errorCode result))\<rparr>)
        | _ \<Rightarrow> (False, rt))"

definition handleSpecialResult ::
  "'w application_runtime \<Rightarrow> 'w StartupAction \<Rightarrow> StartupFailureSource \<Rightarrow> StartupStepResult \<Rightarrow>
   bool \<times> 'w application_runtime" where
  "handleSpecialResult rt action source result =
     (let i = sa_participantId action
      in if \<not> ssr_isValid result then
           (False, rt_fail rt RESULT_CONTRACT_FAILURE source i False 0 (invalidResultError result))
      else
        case ssr_outcome result of
          SUCCEEDED \<Rightarrow> (True, rt)
        | FAILED \<Rightarrow> (False, rt_fail rt PARTICIPANT_FAILURE source i False 0 (the (ssr_errorCode result)))
        | DISABLED \<Rightarrow> (False, rt_fail rt RESULT_CONTRACT_FAILURE source i False 0 specialDisabled)
        | _ \<Rightarrow> (False, rt))"

text \<open>The call of a callback.\<close>

definition callAction :: "'w StartupAction \<Rightarrow> 'w application_runtime \<Rightarrow> StartupStepResult \<times> 'w application_runtime" where
  "callAction action rt =
     (let (result, w) = the (sa_callback action) (rt_world rt) in (result, rt\<lparr>rt_world := w\<rparr>))"

definition executeEarlySafeOutputs :: "'w application_runtime \<Rightarrow> bool \<times> 'w application_runtime" where
  "executeEarlySafeOutputs rt =
     (let (result, rt1) = callAction (ap_earlySafeOutputs (rt_plan rt)) rt
      in handleSpecialResult rt1 (ap_earlySafeOutputs (rt_plan rt1)) SourceEARLY_SAFE_OUTPUTS result)"

fun executePhaseLoop :: "StartupPhase \<Rightarrow> nat list \<Rightarrow> 'w application_runtime \<Rightarrow> bool \<times> 'w application_runtime" where
  "executePhaseLoop phase [] rt = (True, rt)"
| "executePhaseLoop phase (index # rest) rt =
     (let participant = the (ap_participants (rt_plan rt)) ! index
      in if sp_phase participant \<noteq> phase then executePhaseLoop phase rest rt
      else
        let (result, rt1) = callAction (sp_action participant) rt;
            (ok, rt2) = handleParticipantResult rt1 participant index result
        in if \<not> ok then (False, rt2) else executePhaseLoop phase rest rt2)"

definition executePhase :: "StartupPhase \<Rightarrow> 'w application_runtime \<Rightarrow> bool \<times> 'w application_runtime" where
  "executePhase phase rt =
     executePhaseLoop phase [0..<ap_participantCount (rt_plan rt)]
       (rt\<lparr>rt_status := (rt_status rt)\<lparr>startupPhase := phase\<rparr>\<rparr>)"

definition executeSafetyGate :: "'w application_runtime \<Rightarrow> bool \<times> 'w application_runtime" where
  "executeSafetyGate rt0 =
     (let rt = rt0\<lparr>rt_status := (rt_status rt0)\<lparr>startupPhase := PhaseSAFETY_VALIDATION\<rparr>\<rparr>;
          (result, rt1) = callAction (ap_safetyGate (rt_plan rt)) rt;
          (ok, rt2) = handleSpecialResult rt1 (ap_safetyGate (rt_plan rt1)) SourceSAFETY_GATE result
      in if \<not> ok then (False, rt2)
         else (True, rt2\<lparr>rt_status := (rt_status rt2)\<lparr>safety := CLEAR\<rparr>\<rparr>))"

text \<open>\<open>a() && b() && ...\<close> of steps that change the runtime.\<close>

fun allSteps :: "('s \<Rightarrow> bool \<times> 's) list \<Rightarrow> 's \<Rightarrow> bool \<times> 's" where
  "allSteps [] s = (True, s)"
| "allSteps (f # fs) s = (let (ok, s1) = f s in if \<not> ok then (False, s1) else allSteps fs s1)"

definition rt_start :: "'w application_runtime \<Rightarrow> 'w application_runtime" where
  "rt_start rt0 =
     (if sr_complete (rt_report rt0) \<or> rt_startInProgress rt0 then rt0
      else
        let rt = rt0\<lparr>rt_startInProgress := True, rt_status := preStartStatus\<rparr>;
            (ok1, rt1) = allSteps [validateEarlySafeOutputs, executeEarlySafeOutputs] rt
        in if \<not> ok1 then rt1
        else
          let (ok2, rt2) = validateFullPlan rt1
          in if \<not> ok2 then rt2
          else
            let (ok3, rt3) = allSteps [executePhase PhaseBOOT, executePhase PhaseCORE_INIT,
                  executePhase PhaseLOAD_VALIDATE_CONFIG, executePhase PhaseHARDWARE_INIT,
                  executePhase PhaseDOMAIN_INIT, executeSafetyGate, executePhase PhaseNETWORK_INIT,
                  executePhase PhaseINTERFACES_INIT] rt2
            in if \<not> ok3 then rt3 else finishSuccess rt3)"

section \<open>After startup\<close>

definition handoffRuntimeState ::
  "'w application_runtime \<Rightarrow> 'w state_coordinator \<Rightarrow> bool \<times> 'w application_runtime" where
  "handoffRuntimeState rt coordinator =
     (if rt_coordinator rt \<noteq> None \<or> \<not> sr_complete (rt_report rt) \<or> sr_hasFatalFailure (rt_report rt) \<or>
         operational (rt_status rt) \<noteq> RUNNING \<or> startupPhase (rt_status rt) \<noteq> PhaseRUNNING then (False, rt)
      else
        let (ok, coordinator1, st) = rsc_activate coordinator (rt_status rt) (rt_world rt)
        in if \<not> ok then
             (False, rt\<lparr>rt_status := st\<lparr>operational := ERROR, health := FAULT, safety := LOCKED\<rparr>\<rparr>)
           else (True, rt\<lparr>rt_status := st, rt_coordinator := Some coordinator1\<rparr>))"

definition runtimeStateHandedOff :: "'w application_runtime \<Rightarrow> bool" where
  "runtimeStateHandedOff rt \<longleftrightarrow> rt_coordinator rt \<noteq> None"

text \<open>\<open>refresh\<close> of the coordinator that was handed the status of this runtime.\<close>

definition runtimeRefresh :: "'w application_runtime \<Rightarrow> RuntimeStateRefreshResult \<times> 'w application_runtime" where
  "runtimeRefresh rt =
     (case rt_coordinator rt of
        None \<Rightarrow> (INACTIVE, rt)
      | Some c \<Rightarrow> (let (result, st) = rsc_refresh c (rt_status rt) (rt_world rt) in (result, rt\<lparr>rt_status := st\<rparr>)))"

definition latchAndStop :: "'w application_runtime \<Rightarrow> 'w application_runtime" where
  "latchAndStop rt =
     (let (c, st) = rsc_latchRuntimeFailure (the (rt_coordinator rt)) (rt_status rt)
      in rt\<lparr>rt_coordinator := Some c, rt_status := st\<lparr>operational := ERROR\<rparr>\<rparr>)"

definition requestMaintenanceTransition ::
  "'w application_runtime \<Rightarrow> MaintenanceTransitionRequest \<Rightarrow> 'w MaintenanceParticipant \<Rightarrow>
   MaintenanceTransitionOutcome \<times> 'w application_runtime" where
  "requestMaintenanceTransition rt request participant =
     (let decision = evaluateMaintenanceTransition (operational (rt_status rt)) request
      in if decision = DecisionInvalidRequest then (TransitionInvalidRequest, rt)
      else if decision = DecisionInvalidState \<or> rt_coordinator rt = None then (TransitionInvalidState, rt)
      else if decision = DecisionAlreadyInTargetState then (TransitionAlreadyInTargetState, rt)
      else
        let (result, w) = (if request = RequestEnter then prepareEnter participant (rt_world rt)
                           else prepareExit participant (rt_world rt));
            rt1 = rt\<lparr>rt_world := w\<rparr>
        in case result of
             Prepared \<Rightarrow>
               (TransitionCompleted, rt1\<lparr>rt_status := (rt_status rt1)\<lparr>operational :=
                  (if request = RequestEnter then MAINTENANCE else RUNNING)\<rparr>\<rparr>)
           | ParticipantRejected \<Rightarrow> (TransitionRejected, rt1)
           | ParticipantFailed \<Rightarrow> (TransitionFailed, latchAndStop rt1)
           | _ \<Rightarrow> (TransitionInvalidParticipantResult, latchAndStop rt1))"

section \<open>Frames and the shape of a startup\<close>

lemma rt_fail_simps [simp]:
  "rt_plan (rt_fail rt k s i h n e) = rt_plan rt" "rt_coordinator (rt_fail rt k s i h n e) = rt_coordinator rt"
  "rt_world (rt_fail rt k s i h n e) = rt_world rt" "rt_startInProgress (rt_fail rt k s i h n e) = False"
  "sr_complete (rt_report (rt_fail rt k s i h n e))" "sr_hasFatalFailure (rt_report (rt_fail rt k s i h n e))"
  "operational (rt_status (rt_fail rt k s i h n e)) = ERROR" "health (rt_status (rt_fail rt k s i h n e)) = FAULT"
  "safety (rt_status (rt_fail rt k s i h n e)) = LOCKED"
  "sr_finalStatus (rt_report (rt_fail rt k s i h n e)) = rt_status (rt_fail rt k s i h n e)"
  "sr_optionalFailureCount (rt_report (rt_fail rt k s i h n e)) = sr_optionalFailureCount (rt_report rt)"
  by (simp_all add: rt_fail_def Let_def sr_completeWith_def sr_setFatalFailure_def sr_hasFatalFailure_def sfr_set_def)

text \<open>A runtime whose startup failed, and one whose startup is under way.\<close>

definition failedRt :: "'w application_runtime \<Rightarrow> bool" where
  "failedRt rt \<longleftrightarrow> sr_complete (rt_report rt) \<and> sr_hasFatalFailure (rt_report rt) \<and> \<not> rt_startInProgress rt \<and>
     rt_coordinator rt = None \<and> sr_finalStatus (rt_report rt) = rt_status rt \<and>
     operational (rt_status rt) = ERROR \<and> health (rt_status rt) = FAULT \<and> safety (rt_status rt) = LOCKED"

definition startingRt :: "'w application_runtime \<Rightarrow> bool" where
  "startingRt rt \<longleftrightarrow> \<not> sr_complete (rt_report rt) \<and> \<not> sr_hasFatalFailure (rt_report rt) \<and> rt_coordinator rt = None \<and>
     operational (rt_status rt) = BOOTING \<and>
     health (rt_status rt) = (if sr_optionalFailureCount (rt_report rt) = 0 then HealthOK else DEGRADED)"

lemma failedRt_fail: "rt_coordinator rt = None \<Longrightarrow> failedRt (rt_fail rt k s i h n e)"
  by (simp add: failedRt_def)

lemma addOptionalFailure_simps [simp]:
  "sr_complete (sr_addOptionalFailure r s p i n e) = sr_complete r"
  "sr_hasFatalFailure (sr_addOptionalFailure r s p i n e) = sr_hasFatalFailure r"
  "sr_optionalFailureCount (sr_addOptionalFailure r s p i n e) = sr_optionalFailureCount r + 1"
  by (simp_all add: sr_addOptionalFailure_def sr_hasFatalFailure_def Let_def)

text \<open>A step keeps the plan, and a starting runtime stays one or has failed.\<close>

definition goodStep :: "('w application_runtime \<Rightarrow> bool \<times> 'w application_runtime) \<Rightarrow> bool" where
  "goodStep f \<longleftrightarrow> (\<forall>rt. startingRt rt \<longrightarrow> rt_plan (snd (f rt)) = rt_plan rt \<and>
     (if fst (f rt) then startingRt (snd (f rt)) else failedRt (snd (f rt))))"

lemma goodStepD:
  assumes "goodStep f" "startingRt rt" "f rt = (ok, rt1)"
  shows "rt_plan rt1 = rt_plan rt" "ok \<Longrightarrow> startingRt rt1" "\<not> ok \<Longrightarrow> failedRt rt1"
  using assms by (force simp: goodStep_def)+

lemma goodStep_all: "\<forall>f \<in> set fs. goodStep f \<Longrightarrow> goodStep (allSteps fs)"
proof (induction fs)
  case Nil
  then show ?case by (simp add: goodStep_def)
next
  case (Cons f fs)
  show ?case
    unfolding goodStep_def
  proof (intro allI impI)
    fix rt :: "'a application_runtime"
    assume s: "startingRt rt"
    obtain ok rt1 where f: "f rt = (ok, rt1)" by (cases "f rt")
    have g: "goodStep f" "goodStep (allSteps fs)" using Cons by simp_all
    show "rt_plan (snd (allSteps (f # fs) rt)) = rt_plan rt \<and>
      (if fst (allSteps (f # fs) rt) then startingRt (snd (allSteps (f # fs) rt))
       else failedRt (snd (allSteps (f # fs) rt)))"
      using goodStepD [OF g(1) s f] g(2) [unfolded goodStep_def, rule_format, of rt1] by (cases ok) (auto simp: f)
  qed
qed

lemma valid_outcome: "ssr_isValid r \<Longrightarrow> ssr_outcome r \<noteq> OutcomeOther n"
  by (auto simp: ssr_isValid_def)

lemma handleParticipant_good:
  assumes "startingRt rt"
  shows "rt_plan (snd (handleParticipantResult rt p i r)) = rt_plan rt \<and>
    rt_world (snd (handleParticipantResult rt p i r)) = rt_world rt \<and>
    (if fst (handleParticipantResult rt p i r) then startingRt (snd (handleParticipantResult rt p i r))
     else failedRt (snd (handleParticipantResult rt p i r)))"
  using assms valid_outcome [of r]
  by (auto simp: handleParticipantResult_def Let_def startingRt_def failedRt_def split: StartupOutcome.split)

lemma handleSpecial_good:
  assumes "startingRt rt"
  shows "rt_plan (snd (handleSpecialResult rt a s r)) = rt_plan rt \<and>
    rt_world (snd (handleSpecialResult rt a s r)) = rt_world rt \<and>
    (if fst (handleSpecialResult rt a s r) then startingRt (snd (handleSpecialResult rt a s r))
     else failedRt (snd (handleSpecialResult rt a s r)))"
  using assms valid_outcome [of r]
  by (auto simp: handleSpecialResult_def Let_def startingRt_def failedRt_def split: StartupOutcome.split)

lemma startingRt_frames [simp]:
  "startingRt (rt\<lparr>rt_world := w\<rparr>) = startingRt rt"
  "startingRt (rt\<lparr>rt_status := (rt_status rt)\<lparr>startupPhase := ph\<rparr>\<rparr>) = startingRt rt"
  "startingRt (rt\<lparr>rt_status := (rt_status rt)\<lparr>safety := sf\<rparr>\<rparr>) = startingRt rt"
  by (simp_all add: startingRt_def)

lemma callAction_simps [simp]:
  "rt_plan (snd (callAction a rt)) = rt_plan rt" "startingRt (snd (callAction a rt)) = startingRt rt"
  "rt_world (snd (callAction a rt)) = snd (the (sa_callback a) (rt_world rt))"
  "fst (callAction a rt) = fst (the (sa_callback a) (rt_world rt))"
  by (simp_all add: callAction_def split_beta)

lemma executePhaseLoop_good:
  "startingRt rt \<Longrightarrow> rt_plan (snd (executePhaseLoop ph is rt)) = rt_plan rt \<and>
     (if fst (executePhaseLoop ph is rt) then startingRt (snd (executePhaseLoop ph is rt))
      else failedRt (snd (executePhaseLoop ph is rt)))"
proof (induction "is" arbitrary: rt)
  case (Cons i "is")
  define p where "p = the (ap_participants (rt_plan rt)) ! i"
  obtain r rt1 where c: "callAction (sp_action p) rt = (r, rt1)" by (cases "callAction (sp_action p) rt")
  have rt1: "rt_plan rt1 = rt_plan rt" "startingRt rt1"
    using callAction_simps(1,2) [of "sp_action p" rt] c Cons.prems by simp_all
  obtain ok rt2 where h: "handleParticipantResult rt1 p i r = (ok, rt2)" by (cases "handleParticipantResult rt1 p i r")
  have rt2: "rt_plan rt2 = rt_plan rt" "if ok then startingRt rt2 else failedRt rt2"
    using handleParticipant_good [OF rt1(2), of p i r, unfolded h fst_conv snd_conv] rt1(1) by simp_all
  show ?case
  proof (cases "sp_phase p = ph")
    case True
    have step: "executePhaseLoop ph (i # is) rt = (if \<not> ok then (False, rt2) else executePhaseLoop ph is rt2)"
      using True by (simp add: p_def [symmetric] c h)
    show ?thesis unfolding step using Cons.IH [of rt2] rt2 by (cases ok) simp_all
  next
    case False
    have step: "executePhaseLoop ph (i # is) rt = executePhaseLoop ph is rt"
      using False by (simp add: p_def [symmetric])
    show ?thesis unfolding step by (rule Cons.IH [OF Cons.prems])
  qed
qed simp

lemma goodStep_phase: "goodStep (executePhase ph)"
  unfolding goodStep_def
proof (intro allI impI)
  fix rt :: "'a application_runtime"
  assume "startingRt rt"
  then have "startingRt (rt\<lparr>rt_status := (rt_status rt)\<lparr>startupPhase := ph\<rparr>\<rparr>)" by simp
  from executePhaseLoop_good [OF this, of ph "[0..<ap_participantCount (rt_plan rt)]"]
  show "rt_plan (snd (executePhase ph rt)) = rt_plan rt \<and>
      (if fst (executePhase ph rt) then startingRt (snd (executePhase ph rt)) else failedRt (snd (executePhase ph rt)))"
    by (simp add: executePhase_def)
qed

lemma goodStep_special:
  assumes "startingRt rt" "handleSpecialResult (snd (callAction a rt)) b s r = (ok, rt2)"
  shows "rt_plan rt2 = rt_plan rt" "ok \<Longrightarrow> startingRt rt2" "\<not> ok \<Longrightarrow> failedRt rt2"
  using handleSpecial_good [of "snd (callAction a rt)" b s r] assms by auto

lemma goodStep_gate: "goodStep executeSafetyGate"
  unfolding goodStep_def
proof (intro allI impI)
  fix rt :: "'a application_runtime"
  assume s: "startingRt rt"
  let ?rt = "rt\<lparr>rt_status := (rt_status rt)\<lparr>startupPhase := PhaseSAFETY_VALIDATION\<rparr>\<rparr>"
  let ?g = "ap_safetyGate (rt_plan rt)"
  obtain ok rt2 where h: "handleSpecialResult (snd (callAction ?g ?rt)) ?g SourceSAFETY_GATE
      (fst (callAction ?g ?rt)) = (ok, rt2)" by (metis surj_pair)
  have "startingRt ?rt" using s by simp
  note g = goodStep_special [OF this h]
  have "executeSafetyGate rt = (if \<not> ok then (False, rt2) else (True, rt2\<lparr>rt_status := (rt_status rt2)\<lparr>safety := CLEAR\<rparr>\<rparr>))"
    using h by (simp add: executeSafetyGate_def Let_def split_beta del: callAction_simps(3,4))
  then show "rt_plan (snd (executeSafetyGate rt)) = rt_plan rt \<and>
      (if fst (executeSafetyGate rt) then startingRt (snd (executeSafetyGate rt)) else failedRt (snd (executeSafetyGate rt)))"
    using g by (cases ok) simp_all
qed

lemma goodStep_validateEarly: "goodStep validateEarlySafeOutputs"
  unfolding goodStep_def
  by (auto simp: validateEarlySafeOutputs_def Let_def startingRt_def intro: failedRt_fail)

lemma goodStep_early: "goodStep executeEarlySafeOutputs"
  unfolding goodStep_def
proof (intro allI impI)
  fix rt :: "'a application_runtime"
  assume s: "startingRt rt"
  let ?a = "ap_earlySafeOutputs (rt_plan rt)"
  obtain ok rt2 where h: "handleSpecialResult (snd (callAction ?a rt)) ?a SourceEARLY_SAFE_OUTPUTS
      (fst (callAction ?a rt)) = (ok, rt2)" by (metis surj_pair)
  note g = goodStep_special [OF s h]
  have "executeEarlySafeOutputs rt = (ok, rt2)"
    using h by (simp add: executeEarlySafeOutputs_def split_beta del: callAction_simps(3,4))
  then show "rt_plan (snd (executeEarlySafeOutputs rt)) = rt_plan rt \<and>
      (if fst (executeEarlySafeOutputs rt) then startingRt (snd (executeEarlySafeOutputs rt))
       else failedRt (snd (executeEarlySafeOutputs rt)))"
    using g by simp
qed

lemma validateParticipants_good:
  "startingRt rt \<Longrightarrow> (if fst (validateParticipants is rt) then snd (validateParticipants is rt) = rt
     else failedRt (snd (validateParticipants is rt))) \<and>
     rt_world (snd (validateParticipants is rt)) = rt_world rt \<and> rt_plan (snd (validateParticipants is rt)) = rt_plan rt"
  by (induction "is") (auto simp: startingRt_def intro: failedRt_fail split: option.split)

lemma validateFullPlan_good:
  assumes "startingRt rt"
  shows "(if fst (validateFullPlan rt) then snd (validateFullPlan rt) = rt else failedRt (snd (validateFullPlan rt))) \<and>
    rt_world (snd (validateFullPlan rt)) = rt_world rt \<and> rt_plan (snd (validateFullPlan rt)) = rt_plan rt"
  using assms validateParticipants_good [OF assms]
  by (auto simp: validateFullPlan_def Let_def startingRt_def intro: failedRt_fail)

text \<open>A finished startup: failed, or running with the health the optional participants left.\<close>

definition startedRt :: "'w application_runtime \<Rightarrow> bool" where
  "startedRt rt \<longleftrightarrow> sr_complete (rt_report rt) \<and> \<not> sr_hasFatalFailure (rt_report rt) \<and> \<not> rt_startInProgress rt \<and>
     rt_coordinator rt = None \<and> sr_finalStatus (rt_report rt) = rt_status rt \<and>
     rt_status rt = \<lparr>operational = RUNNING,
       health = (if sr_optionalFailureCount (rt_report rt) = 0 then HealthOK else DEGRADED),
       safety = CLEAR, startupPhase = PhaseRUNNING\<rparr>"

lemma finishSuccess_started: "startingRt rt \<Longrightarrow> startedRt (finishSuccess rt)"
  by (simp add: startedRt_def startingRt_def finishSuccess_def Let_def sr_completeWith_def sr_hasFatalFailure_def)

definition phaseSteps :: "('w application_runtime \<Rightarrow> bool \<times> 'w application_runtime) list" where
  "phaseSteps = [executePhase PhaseBOOT, executePhase PhaseCORE_INIT, executePhase PhaseLOAD_VALIDATE_CONFIG,
     executePhase PhaseHARDWARE_INIT, executePhase PhaseDOMAIN_INIT, executeSafetyGate,
     executePhase PhaseNETWORK_INIT, executePhase PhaseINTERFACES_INIT]"

lemma phaseSteps_good: "goodStep (allSteps phaseSteps)"
  by (rule goodStep_all) (auto simp: phaseSteps_def intro: goodStep_phase goodStep_gate)

lemma early_good: "goodStep (allSteps [validateEarlySafeOutputs, executeEarlySafeOutputs])"
  by (rule goodStep_all) (auto intro: goodStep_early goodStep_validateEarly)

text \<open>A runtime that was not started yet.\<close>

definition freshRt :: "'w application_runtime \<Rightarrow> bool" where
  "freshRt rt \<longleftrightarrow> \<not> sr_complete (rt_report rt) \<and> \<not> sr_hasFatalFailure (rt_report rt) \<and>
     \<not> rt_startInProgress rt \<and> rt_coordinator rt = None \<and> sr_optionalFailureCount (rt_report rt) = 0 \<and>
     rt_status rt = preStartStatus"

lemma freshRt_new: "freshRt (ApplicationRuntime_new plan records capacity w)"
  by (simp add: freshRt_def ApplicationRuntime_new_def StartupReport_new_def sr_hasFatalFailure_def
      StartupFailureRecord_new_def)

lemma rt_start_result:
  assumes "freshRt rt"
  shows "rt_plan (rt_start rt) = rt_plan rt \<and> (startedRt (rt_start rt) \<or> failedRt (rt_start rt))"
proof -
  let ?rt = "rt\<lparr>rt_startInProgress := True, rt_status := preStartStatus\<rparr>"
  have s: "startingRt ?rt" using assms by (simp add: freshRt_def startingRt_def preStartStatus_def)
  obtain ok1 rt1 where e: "allSteps [validateEarlySafeOutputs, executeEarlySafeOutputs] ?rt = (ok1, rt1)"
    by (metis surj_pair)
  note g1 = goodStepD [OF early_good s e]
  obtain ok2 rt2 where v: "validateFullPlan rt1 = (ok2, rt2)" by (metis surj_pair)
  obtain ok3 rt3 where p: "allSteps phaseSteps rt2 = (ok3, rt3)" by (metis surj_pair)
  have start: "rt_start rt = (if \<not> ok1 then rt1 else if \<not> ok2 then rt2 else if \<not> ok3 then rt3 else finishSuccess rt3)"
    using assms v p [unfolded phaseSteps_def] e
    by (simp add: rt_start_def freshRt_def Let_def del: allSteps.simps)
  have plan: "rt_plan (finishSuccess r) = rt_plan r" for r :: "'a application_runtime"
    by (simp add: finishSuccess_def Let_def)
  show ?thesis
  proof (cases ok1)
    case False
    then show ?thesis using g1 by (simp add: start)
  next
    case ok1: True
    then have s1: "startingRt rt1" using g1 by simp
    note g2 = validateFullPlan_good [OF s1, unfolded v fst_conv snd_conv]
    show ?thesis
    proof (cases ok2)
      case False
      then show ?thesis using g1 g2 ok1 by (simp add: start)
    next
      case ok2: True
      then have s2: "startingRt rt2" using g2 s1 by simp
      note g3 = goodStepD [OF phaseSteps_good s2 p]
      show ?thesis
        using g1(1) g2 g3 ok1 ok2 finishSuccess_started [of rt3] by (cases ok3) (simp_all add: start plan)
    qed
  qed
qed

end
