(* ===== verification/StartupOrder.thy ===== *)
theory StartupOrder
  imports ApplicationRuntime
begin

text \<open>
  The order in which a startup calls the actions of its plan. The reference is the list of steps of a
  plan, in the plan's order with the safety gate after the domain initialisation; the startup runs a
  prefix of it, and all of it when it succeeds.
\<close>

text \<open>A step: the action, and the requirement of a participant (\<open>None\<close>: safe outputs or safety gate).\<close>

type_synonym 'w step = "'w StartupAction \<times> StartupRequirement option"

definition runAction :: "'w step \<Rightarrow> 'w \<Rightarrow> StartupStepResult \<times> 'w" where
  "runAction s w = the (sa_callback (fst s)) w"

fun runActions :: "'w step list \<Rightarrow> 'w \<Rightarrow> 'w" where
  "runActions [] w = w"
| "runActions (s # ss) w = runActions ss (snd (runAction s w))"

fun outcomes :: "'w step list \<Rightarrow> 'w \<Rightarrow> ('w step \<times> StartupStepResult) list" where
  "outcomes [] w = []"
| "outcomes (s # ss) w = (s, fst (runAction s w)) # outcomes ss (snd (runAction s w))"

definition mustSucceed :: "'w step \<Rightarrow> bool" where
  "mustSucceed s \<longleftrightarrow> snd s = None \<or> snd s = Some REQUIRED"

definition allSucceeded :: "'w step list \<Rightarrow> 'w \<Rightarrow> bool" where
  "allSucceeded ss w \<longleftrightarrow> (\<forall>(s, r) \<in> set (outcomes ss w). mustSucceed s \<longrightarrow> ssr_outcome r = SUCCEEDED)"

definition participantStep :: "'w StartupParticipant \<Rightarrow> 'w step" where
  "participantStep p = (sp_action p, Some (sp_requirement p))"

definition planParticipants :: "'w ApplicationPlan \<Rightarrow> 'w StartupParticipant list" where
  "planParticipants plan = map (\<lambda>i. the (ap_participants plan) ! i) [0..<ap_participantCount plan]"

definition phaseParticipants :: "'w ApplicationPlan \<Rightarrow> StartupPhase \<Rightarrow> 'w step list" where
  "phaseParticipants plan ph = map participantStep (filter (\<lambda>p. sp_phase p = ph) (planParticipants plan))"

lemma runActions_append: "runActions (a @ b) w = runActions b (runActions a w)"
  by (induction a arbitrary: w) simp_all

lemma outcomes_append: "outcomes (a @ b) w = outcomes a w @ outcomes b (runActions a w)"
  by (induction a arbitrary: w) simp_all

lemma allSucceeded_append: "allSucceeded (a @ b) w \<longleftrightarrow> allSucceeded a w \<and> allSucceeded b (runActions a w)"
  by (auto simp: allSucceeded_def outcomes_append)

lemma allSucceeded_Nil [simp]: "allSucceeded [] w"
  by (simp add: allSucceeded_def)

text \<open>A step function calls these actions, up to the one that stops it.\<close>

definition follows ::
  "'w ApplicationPlan \<Rightarrow> ('w application_runtime \<Rightarrow> bool \<times> 'w application_runtime) \<Rightarrow> 'w step list \<Rightarrow> bool" where
  "follows plan f ss \<longleftrightarrow> (\<forall>rt. startingRt rt \<and> rt_plan rt = plan \<longrightarrow>
     (\<exists>k \<le> length ss. rt_world (snd (f rt)) = runActions (take k ss) (rt_world rt) \<and>
        (fst (f rt) \<longrightarrow> k = length ss \<and> allSucceeded ss (rt_world rt))))"

lemma followsD:
  assumes "follows plan f ss" "startingRt rt" "rt_plan rt = plan" "f rt = (ok, rt1)"
  obtains k where "k \<le> length ss" "rt_world rt1 = runActions (take k ss) (rt_world rt)"
    "ok \<Longrightarrow> k = length ss \<and> allSucceeded ss (rt_world rt)"
  using assms(1) [unfolded follows_def, rule_format, of rt] assms(2-4) that by auto

lemma follows_seq:
  assumes f: "follows plan f a" "goodStep f" and fs: "follows plan (allSteps fs) b"
  shows "follows plan (allSteps (f # fs)) (a @ b)"
  unfolding follows_def
proof (intro allI impI)
  fix rt :: "'a application_runtime"
  assume s: "startingRt rt \<and> rt_plan rt = plan"
  obtain ok rt1 where e: "f rt = (ok, rt1)" by (metis surj_pair)
  obtain k where k: "k \<le> length a" "rt_world rt1 = runActions (take k a) (rt_world rt)"
    "ok \<Longrightarrow> k = length a \<and> allSucceeded a (rt_world rt)"
    using followsD [OF f(1) _ _ e] s by blast
  show "\<exists>k \<le> length (a @ b). rt_world (snd (allSteps (f # fs) rt)) = runActions (take k (a @ b)) (rt_world rt) \<and>
      (fst (allSteps (f # fs) rt) \<longrightarrow> k = length (a @ b) \<and> allSucceeded (a @ b) (rt_world rt))"
  proof (cases ok)
    case False
    then show ?thesis using k by (intro exI [of _ k]) (simp add: e)
  next
    case True
    then have s1: "startingRt rt1" "rt_plan rt1 = plan" using goodStepD [OF f(2) _ e] s by auto
    obtain ok2 rt2 where e2: "allSteps fs rt1 = (ok2, rt2)" by (metis surj_pair)
    obtain l where l: "l \<le> length b" "rt_world rt2 = runActions (take l b) (rt_world rt1)"
      "ok2 \<Longrightarrow> l = length b \<and> allSucceeded b (rt_world rt1)"
      using followsD [OF fs s1 e2] by blast
    show ?thesis
      using k l True by (intro exI [of _ "length a + l"]) (auto simp: e e2 runActions_append allSucceeded_append)
  qed
qed

lemma handleParticipant_ok:
  assumes "startingRt rt" "handleParticipantResult rt p i r = (True, rt1)"
  shows "mustSucceed (participantStep p) \<longrightarrow> ssr_outcome r = SUCCEEDED"
  using assms by (auto simp: handleParticipantResult_def mustSucceed_def participantStep_def Let_def
      split: StartupOutcome.split_asm if_split_asm)

lemma handleSpecial_ok: "handleSpecialResult rt a s r = (True, rt1) \<Longrightarrow> ssr_outcome r = SUCCEEDED"
  by (auto simp: handleSpecialResult_def Let_def split: StartupOutcome.split_asm if_split_asm)

declare executePhaseLoop.simps(2) [simp del]

lemma loop_follows:
  fixes plan :: "'w ApplicationPlan" and ph :: StartupPhase
  defines "ps is \<equiv> map participantStep (filter (\<lambda>p. sp_phase p = ph) (map (\<lambda>i. the (ap_participants plan) ! i) is))"
  shows "follows plan (executePhaseLoop ph is) (ps is)"
proof (induction "is")
  case Nil
  then show ?case by (simp add: follows_def ps_def)
next
  case (Cons i "is")
  show ?case
    unfolding follows_def
  proof (intro allI impI)
    fix rt :: "'w application_runtime"
    assume s: "startingRt rt \<and> rt_plan rt = plan"
    define p where "p = the (ap_participants (rt_plan rt)) ! i"
    let ?goal = "\<exists>k \<le> length (ps (i # is)). rt_world (snd (executePhaseLoop ph (i # is) rt)) = runActions (take k (ps (i # is))) (rt_world rt) \<and>
      (fst (executePhaseLoop ph (i # is) rt) \<longrightarrow> k = length (ps (i # is)) \<and> allSucceeded (ps (i # is)) (rt_world rt))"
    show ?goal
    proof (cases "sp_phase p = ph")
      case False
      have "ps (i # is) = ps is" using False s by (simp add: ps_def p_def)
      moreover have "executePhaseLoop ph (i # is) rt = executePhaseLoop ph is rt"
        using False by (simp add: executePhaseLoop.simps(2) p_def [symmetric])
      ultimately show ?thesis using Cons.IH s by (simp add: follows_def)
    next
      case True
      have ps: "ps (i # is) = participantStep p # ps is" using True s by (simp add: ps_def p_def)
      obtain r rt1 where c: "callAction (sp_action p) rt = (r, rt1)" by (metis surj_pair)
      have run: "runAction (participantStep p) (rt_world rt) = (r, rt_world rt1)"
        using c by (auto simp: callAction_def runAction_def participantStep_def split_beta)
      have rt1: "rt_plan rt1 = plan" "startingRt rt1"
        using callAction_simps(1,2) [of "sp_action p" rt] c s by simp_all
      obtain ok rt2 where h: "handleParticipantResult rt1 p i r = (ok, rt2)" by (metis surj_pair)
      note g = handleParticipant_good [OF rt1(2), of p i r, unfolded h fst_conv snd_conv]
      have step: "executePhaseLoop ph (i # is) rt = (if \<not> ok then (False, rt2) else executePhaseLoop ph is rt2)"
        using True by (simp add: executePhaseLoop.simps(2) p_def [symmetric] c h)
      show ?thesis
      proof (cases ok)
        case False
        then show ?thesis using g by (intro exI [of _ 1]) (simp add: step ps run)
      next
        case ok: True
        have s2: "startingRt rt2" "rt_plan rt2 = plan" "rt_world rt2 = rt_world rt1" using g ok rt1 by simp_all
        obtain ok3 rt3 where e: "executePhaseLoop ph is rt2 = (ok3, rt3)" by (metis surj_pair)
        obtain k where k: "k \<le> length (ps is)" "rt_world rt3 = runActions (take k (ps is)) (rt_world rt1)"
          "ok3 \<Longrightarrow> k = length (ps is) \<and> allSucceeded (ps is) (rt_world rt1)"
          using followsD [OF Cons.IH s2(1,2) e] s2(3) by auto
        have "mustSucceed (participantStep p) \<longrightarrow> ssr_outcome r = SUCCEEDED"
          using handleParticipant_ok [OF rt1(2), of p i r rt2] h ok by simp
        then show ?thesis
          using k ok by (intro exI [of _ "Suc k"]) (auto simp: step e ps run allSucceeded_def)
      qed
    qed
  qed
qed

lemma phase_follows: "follows plan (executePhase ph) (phaseParticipants plan ph)"
  unfolding follows_def
proof (intro allI impI)
  fix rt :: "'a application_runtime"
  assume s: "startingRt rt \<and> rt_plan rt = plan"
  let ?rt = "rt\<lparr>rt_status := (rt_status rt)\<lparr>startupPhase := ph\<rparr>\<rparr>"
  have "startingRt ?rt" "rt_plan ?rt = plan" using s by simp_all
  then show "\<exists>k \<le> length (phaseParticipants plan ph).
      rt_world (snd (executePhase ph rt)) = runActions (take k (phaseParticipants plan ph)) (rt_world rt) \<and>
      (fst (executePhase ph rt) \<longrightarrow> k = length (phaseParticipants plan ph) \<and> allSucceeded (phaseParticipants plan ph) (rt_world rt))"
    using loop_follows [of plan ph "[0..<ap_participantCount plan]", unfolded follows_def, rule_format, of ?rt] s
    by (simp add: executePhase_def phaseParticipants_def planParticipants_def)
qed

lemma special_follows:
  assumes "startingRt rt" "handleSpecialResult (snd (callAction a rt)) b s (fst (callAction a rt)) = (ok, rt2)"
  shows "rt_world rt2 = runActions [(a, None)] (rt_world rt) \<and> (ok \<longrightarrow> allSucceeded [(a, None)] (rt_world rt))"
  using handleSpecial_good [of "snd (callAction a rt)" b s "fst (callAction a rt)"] assms
    handleSpecial_ok [of "snd (callAction a rt)" b s "fst (callAction a rt)" rt2]
  by (auto simp: runAction_def allSucceeded_def)

lemma gate_follows: "follows plan executeSafetyGate [(ap_safetyGate plan, None)]"
  unfolding follows_def
proof (intro allI impI)
  fix rt :: "'a application_runtime"
  assume s: "startingRt rt \<and> rt_plan rt = plan"
  let ?rt = "rt\<lparr>rt_status := (rt_status rt)\<lparr>startupPhase := PhaseSAFETY_VALIDATION\<rparr>\<rparr>"
  obtain ok rt2 where h: "handleSpecialResult (snd (callAction (ap_safetyGate plan) ?rt)) (ap_safetyGate plan)
      SourceSAFETY_GATE (fst (callAction (ap_safetyGate plan) ?rt)) = (ok, rt2)" by (metis surj_pair)
  have "startingRt ?rt" using s by simp
  note g = special_follows [OF this h]
  have e: "executeSafetyGate rt = (if \<not> ok then (False, rt2) else (True, rt2\<lparr>rt_status := (rt_status rt2)\<lparr>safety := CLEAR\<rparr>\<rparr>))"
    using h s by (simp add: executeSafetyGate_def Let_def split_beta del: callAction_simps(3,4))
  show "\<exists>k \<le> length [(ap_safetyGate plan, None)].
      rt_world (snd (executeSafetyGate rt)) = runActions (take k [(ap_safetyGate plan, None)]) (rt_world rt) \<and>
      (fst (executeSafetyGate rt) \<longrightarrow> k = length [(ap_safetyGate plan, None)] \<and> allSucceeded [(ap_safetyGate plan, None)] (rt_world rt))"
    using g by (intro exI [of _ 1]) (simp add: e)
qed

lemma early_follows: "follows plan executeEarlySafeOutputs [(ap_earlySafeOutputs plan, None)]"
  unfolding follows_def
proof (intro allI impI)
  fix rt :: "'a application_runtime"
  assume s: "startingRt rt \<and> rt_plan rt = plan"
  let ?a = "ap_earlySafeOutputs plan"
  obtain ok rt2 where h: "handleSpecialResult (snd (callAction ?a rt)) ?a
      SourceEARLY_SAFE_OUTPUTS (fst (callAction ?a rt)) = (ok, rt2)" by (metis surj_pair)
  note g = special_follows [OF conjunct1 [OF s] h]
  have e: "executeEarlySafeOutputs rt = (ok, rt2)"
    using h s by (simp add: executeEarlySafeOutputs_def Let_def split_beta del: callAction_simps(3,4))
  show "\<exists>k \<le> length [(?a, None)].
      rt_world (snd (executeEarlySafeOutputs rt)) = runActions (take k [(?a, None)]) (rt_world rt) \<and>
      (fst (executeEarlySafeOutputs rt) \<longrightarrow> k = length [(?a, None)] \<and> allSucceeded [(?a, None)] (rt_world rt))"
    using g by (intro exI [of _ 1]) (simp add: e)
qed

lemma validateEarly_follows: "follows plan validateEarlySafeOutputs []"
  by (auto simp: follows_def validateEarlySafeOutputs_def Let_def)

text \<open>The steps phase by phase, and the same list in the order of the plan.\<close>

definition bodySteps :: "'w ApplicationPlan \<Rightarrow> 'w step list" where
  "bodySteps plan = phaseParticipants plan PhaseBOOT @ phaseParticipants plan PhaseCORE_INIT @
     phaseParticipants plan PhaseLOAD_VALIDATE_CONFIG @ phaseParticipants plan PhaseHARDWARE_INIT @
     phaseParticipants plan PhaseDOMAIN_INIT @ [(ap_safetyGate plan, None)] @
     phaseParticipants plan PhaseNETWORK_INIT @ phaseParticipants plan PhaseINTERFACES_INIT"

lemma phaseSteps_follow: "follows plan (allSteps phaseSteps) (bodySteps plan)"
proof -
  have "follows plan (allSteps phaseSteps) (phaseParticipants plan PhaseBOOT @ phaseParticipants plan PhaseCORE_INIT @
     phaseParticipants plan PhaseLOAD_VALIDATE_CONFIG @ phaseParticipants plan PhaseHARDWARE_INIT @
     phaseParticipants plan PhaseDOMAIN_INIT @ [(ap_safetyGate plan, None)] @
     phaseParticipants plan PhaseNETWORK_INIT @ phaseParticipants plan PhaseINTERFACES_INIT @ [])"
    unfolding phaseSteps_def
    by (intro follows_seq phase_follows gate_follows goodStep_phase goodStep_gate)
      (simp add: follows_def)
  then show ?thesis by (simp add: bodySteps_def)
qed

lemma early_steps_follow:
  "follows plan (allSteps [validateEarlySafeOutputs, executeEarlySafeOutputs]) [(ap_earlySafeOutputs plan, None)]"
proof -
  have "follows plan (allSteps [validateEarlySafeOutputs, executeEarlySafeOutputs])
      ([] @ [(ap_earlySafeOutputs plan, None)] @ [])"
    by (intro follows_seq validateEarly_follows early_follows goodStep_early goodStep_validateEarly)
      (simp add: follows_def)
  then show ?thesis by simp
qed

text \<open>What the validation of the plan accepts, as a predicate.\<close>

definition planAccepted :: "'w ApplicationPlan \<Rightarrow> bool" where
  "planAccepted plan \<longleftrightarrow> sa_callback (ap_safetyGate plan) \<noteq> None \<and> (ap_participants plan = None) = (ap_participantCount plan = 0) \<and>
     (\<forall>i < ap_participantCount plan. participantProblem plan i = None)"

lemma validateParticipants_accepts:
  "fst (validateParticipants is rt) = (\<forall>i \<in> set is. participantProblem (rt_plan rt) i = None)"
  by (induction "is") (auto split: option.split)

lemma validateFullPlan_accepts: "fst (validateFullPlan rt) \<Longrightarrow> planAccepted (rt_plan rt)"
  by (auto simp: validateFullPlan_def planAccepted_def validateParticipants_accepts Let_def split: if_split_asm)

lemma rt_start_prefix:
  assumes "freshRt rt"
  defines "ss \<equiv> (ap_earlySafeOutputs (rt_plan rt), None) # bodySteps (rt_plan rt)"
  shows "\<exists>k \<le> length ss. rt_world (rt_start rt) = runActions (take k ss) (rt_world rt) \<and>
    (1 < k \<longrightarrow> planAccepted (rt_plan rt)) \<and>
    (startedRt (rt_start rt) \<longrightarrow> k = length ss \<and> allSucceeded ss (rt_world rt))"
proof -
  let ?rt = "rt\<lparr>rt_startInProgress := True, rt_status := preStartStatus\<rparr>"
  let ?early = "[(ap_earlySafeOutputs (rt_plan rt), None)]"
  have s: "startingRt ?rt" "rt_plan ?rt = rt_plan rt"
    using assms by (simp_all add: freshRt_def startingRt_def preStartStatus_def)
  obtain ok1 rt1 where e: "allSteps [validateEarlySafeOutputs, executeEarlySafeOutputs] ?rt = (ok1, rt1)"
    by (metis surj_pair)
  note g1 = goodStepD [OF early_good s(1) e]
  obtain k where k: "k \<le> length ?early" "rt_world rt1 = runActions (take k ?early) (rt_world rt)"
    "ok1 \<Longrightarrow> k = length ?early \<and> allSucceeded ?early (rt_world rt)"
    using followsD [OF early_steps_follow s e] by auto
  obtain ok2 rt2 where v: "validateFullPlan rt1 = (ok2, rt2)" by (metis surj_pair)
  obtain ok3 rt3 where p: "allSteps phaseSteps rt2 = (ok3, rt3)" by (metis surj_pair)
  have start: "rt_start rt = (if \<not> ok1 then rt1 else if \<not> ok2 then rt2 else if \<not> ok3 then rt3 else finishSuccess rt3)"
    using assms v p [unfolded phaseSteps_def] e
    by (simp add: rt_start_def freshRt_def Let_def del: allSteps.simps)
  have notst: "failedRt r \<Longrightarrow> \<not> startedRt r" for r :: "'a application_runtime"
    by (simp add: failedRt_def startedRt_def)
  have le1: "take k ss = take k ?early" "k \<le> length ss" using k(1) by (cases k; simp add: ss_def)+
  show ?thesis
  proof (cases ok1)
    case False
    then show ?thesis
      using g1 k le1 notst by (intro exI [of _ k]) (simp add: start)
  next
    case ok1: True
    then have s1: "startingRt rt1" "rt_plan rt1 = rt_plan rt" using g1 by simp_all
    note g2 = validateFullPlan_good [OF s1(1), unfolded v fst_conv snd_conv]
    show ?thesis
    proof (cases ok2)
      case False
      then show ?thesis
        using g2 k le1 notst ok1 by (intro exI [of _ k]) (simp add: start)
    next
      case ok2: True
      then have s2: "startingRt rt2" "rt_plan rt2 = rt_plan rt" "rt_world rt2 = rt_world rt1" using g2 s1 by simp_all
      have acc: "planAccepted (rt_plan rt)" using validateFullPlan_accepts [of rt1] v ok2 s1 by simp
      note g3 = goodStepD [OF phaseSteps_good s2(1) p]
      obtain l where l: "l \<le> length (bodySteps (rt_plan rt))"
        "rt_world rt3 = runActions (take l (bodySteps (rt_plan rt))) (rt_world rt2)"
        "ok3 \<Longrightarrow> l = length (bodySteps (rt_plan rt)) \<and> allSucceeded (bodySteps (rt_plan rt)) (rt_world rt2)"
        using followsD [OF phaseSteps_follow s2(1,2) p] by blast
      have w: "rt_world (finishSuccess rt3) = rt_world rt3" by (simp add: finishSuccess_def Let_def)
      have one: "k = 1" "allSucceeded ?early (rt_world rt)" using k(3) ok1 by simp_all
      have W: "rt_world rt3 = runActions (take (Suc l) ss) (rt_world rt)"
        using l(2) k(2) one s2(3) by (simp add: ss_def)
      have all: "ok3 \<Longrightarrow> allSucceeded ss (rt_world rt)"
        using l(3) one(2) allSucceeded_append [of ?early "bodySteps (rt_plan rt)" "rt_world rt"] k(2) one(1) s2(3)
        by (simp add: ss_def)
      show ?thesis
        using g3 l W all acc ok1 ok2 notst w
        by (intro exI [of _ "Suc l"]) (cases ok3; simp add: start ss_def)
    qed
  qed
qed

text \<open>An accepted plan is in phase order, so its steps are the plan with the gate inserted.\<close>

definition planSteps :: "'w ApplicationPlan \<Rightarrow> 'w step list" where
  "planSteps plan =
     (ap_earlySafeOutputs plan, None) #
     map participantStep (filter (\<lambda>p. phaseOrder (sp_phase p) < 5) (planParticipants plan)) @
     (ap_safetyGate plan, None) #
     map participantStep (filter (\<lambda>p. \<not> phaseOrder (sp_phase p) < 5) (planParticipants plan))"

lemma filter_next:
  fixes key :: "'a \<Rightarrow> nat"
  assumes "sorted (map key xs)"
  shows "filter (\<lambda>x. key x < n) xs @ filter (\<lambda>x. key x = n) xs = filter (\<lambda>x. key x < Suc n) xs"
  using assms
proof (induction xs)
  case (Cons x xs)
  have le: "\<forall>y \<in> set xs. key x \<le> key y" using Cons.prems by simp
  show ?case
  proof (cases "key x < n")
    case True
    then show ?thesis using Cons by simp
  next
    case False
    have "filter (\<lambda>x. key x < n) xs = []" using le False by (auto simp: filter_empty_conv)
    then show ?thesis using Cons False by (auto simp: less_Suc_eq)
  qed
qed simp

lemma phaseOrder_nat:
  "isOrdinaryPhase ph \<Longrightarrow> (ph = PhaseBOOT) = (unat (phaseOrder ph) = 0) \<and>
    (ph = PhaseCORE_INIT) = (unat (phaseOrder ph) = 1) \<and> (ph = PhaseLOAD_VALIDATE_CONFIG) = (unat (phaseOrder ph) = 2) \<and>
    (ph = PhaseHARDWARE_INIT) = (unat (phaseOrder ph) = 3) \<and> (ph = PhaseDOMAIN_INIT) = (unat (phaseOrder ph) = 4) \<and>
    (ph = PhaseNETWORK_INIT) = (unat (phaseOrder ph) = 6) \<and> (ph = PhaseINTERFACES_INIT) = (unat (phaseOrder ph) = 7) \<and>
    unat (phaseOrder ph) < 8 \<and> unat (phaseOrder ph) \<noteq> 5"
  by (cases ph) (simp_all add: isOrdinaryPhase_def phaseOrder_def)

lemma accepted_ordinary:
  assumes "planAccepted plan" "p \<in> set (planParticipants plan)"
  shows "isOrdinaryPhase (sp_phase p)"
proof -
  obtain i where i: "i < ap_participantCount plan" "p = the (ap_participants plan) ! i"
    using assms(2) by (auto simp: planParticipants_def)
  then have "participantProblem plan i = None" using assms(1) by (simp add: planAccepted_def)
  then show ?thesis using i(2) by (simp add: participantProblem_def Let_def split: if_split_asm)
qed

lemma accepted_sorted:
  assumes "planAccepted plan"
  shows "sorted (map (\<lambda>p. unat (phaseOrder (sp_phase p))) (planParticipants plan))"
proof -
  let ?key = "\<lambda>i. unat (phaseOrder (sp_phase (the (ap_participants plan) ! i)))"
  have step: "?key i \<le> ?key (Suc i)" if "Suc i < ap_participantCount plan" for i
  proof -
    have "participantProblem plan (Suc i) = None" using assms that by (simp add: planAccepted_def)
    then show ?thesis
      by (simp add: participantProblem_def Let_def word_less_nat_alt not_less split: if_split_asm)
  qed
  have "sorted (map ?key [0..<ap_participantCount plan])"
    unfolding sorted_iff_nth_Suc using step by simp
  then show ?thesis by (simp add: planParticipants_def comp_def)
qed

lemma planSteps_body:
  assumes "planAccepted plan"
  shows "planSteps plan = (ap_earlySafeOutputs plan, None) # bodySteps plan"
proof -
  let ?ps = "planParticipants plan"
  let ?key = "\<lambda>p :: 'a StartupParticipant. unat (phaseOrder (sp_phase p))"
  have sorted: "sorted (map ?key ?ps)" by (rule accepted_sorted [OF assms])
  have ord: "isOrdinaryPhase (sp_phase p)" if "p \<in> set ?ps" for p by (rule accepted_ordinary [OF assms that])
  have eq: "filter (\<lambda>p. sp_phase p = PhaseBOOT) ?ps = filter (\<lambda>p. ?key p = 0) ?ps"
    "filter (\<lambda>p. sp_phase p = PhaseCORE_INIT) ?ps = filter (\<lambda>p. ?key p = 1) ?ps"
    "filter (\<lambda>p. sp_phase p = PhaseLOAD_VALIDATE_CONFIG) ?ps = filter (\<lambda>p. ?key p = 2) ?ps"
    "filter (\<lambda>p. sp_phase p = PhaseHARDWARE_INIT) ?ps = filter (\<lambda>p. ?key p = 3) ?ps"
    "filter (\<lambda>p. sp_phase p = PhaseDOMAIN_INIT) ?ps = filter (\<lambda>p. ?key p = 4) ?ps"
    "filter (\<lambda>p. sp_phase p = PhaseNETWORK_INIT) ?ps = filter (\<lambda>p. ?key p = 6) ?ps"
    "filter (\<lambda>p. sp_phase p = PhaseINTERFACES_INIT) ?ps = filter (\<lambda>p. ?key p = 7) ?ps"
    using phaseOrder_nat [OF ord] by (intro filter_cong; force)+
  have none: "filter (\<lambda>p. ?key p = 5) ?ps = []" "filter (\<lambda>p. ?key p < 8) ?ps = ?ps"
    "filter (\<lambda>p. ?key p < 0) ?ps = []"
    using phaseOrder_nat [OF ord] by (auto simp: filter_empty_conv filter_id_conv)
  define L where "L n = filter (\<lambda>p. ?key p < n) ?ps" for n
  define E where "E n = filter (\<lambda>p. ?key p = n) ?ps" for n
  have n: "L (Suc n) = L n @ E n" for n unfolding L_def E_def by (rule filter_next [OF sorted, symmetric])
  have L0: "L 0 = []" "E 5 = []" "L 8 = ?ps" unfolding L_def E_def using none by simp_all
  have L2: "L 2 = E 0 @ E 1" using n [of 0] n [of 1] L0 by (simp add: numeral_2_eq_2)
  have L5: "L 5 = E 0 @ E 1 @ E 2 @ E 3 @ E 4"
    using n [of 2] n [of 3] n [of 4] L2 by simp
  have "L 8 = L 5 @ E 6 @ E 7" using n [of 5] n [of 6] n [of 7] L0(2) by simp
  then have all: "?ps = filter (\<lambda>p. ?key p < 5) ?ps @ filter (\<lambda>p. ?key p = 6) ?ps @ filter (\<lambda>p. ?key p = 7) ?ps"
    unfolding L0(3) unfolding L_def E_def .
  note five = L5 [unfolded L_def E_def]
  have split: "filter (\<lambda>p. ?key p < 5) ?ps @ filter (\<lambda>p. \<not> ?key p < 5) ?ps = ?ps"
  proof -
    have "sorted (map ?key xs) \<Longrightarrow> filter (\<lambda>p. ?key p < 5) xs @ filter (\<lambda>p. \<not> ?key p < 5) xs = xs" for xs
    proof (induction xs)
      case (Cons x xs)
      show ?case
      proof (cases "?key x < 5")
        case False
        then have "filter (\<lambda>p. ?key p < 5) xs = []" using Cons.prems by (force simp: filter_empty_conv)
        then show ?thesis using Cons False by simp
      qed (use Cons in simp)
    qed simp
    then show ?thesis using sorted by blast
  qed
  have rest: "filter (\<lambda>p. \<not> ?key p < 5) ?ps = filter (\<lambda>p. ?key p = 6) ?ps @ filter (\<lambda>p. ?key p = 7) ?ps"
    using all split by (metis append_same_eq same_append_eq)
  have w: "(phaseOrder (sp_phase p) < 5) = (?key p < 5)" for p :: "'a StartupParticipant"
    by (simp add: word_less_nat_alt)
  show ?thesis
    by (simp add: planSteps_def bodySteps_def phaseParticipants_def eq w five rest)
qed

end
