(* ===== verification/RuntimeSteps.thy ===== *)
theory RuntimeSteps
  imports StartupOrder
begin

text \<open>
  The runtime under any sequence of operations: the step relation of \<open>ApplicationRuntime\<close>, its invariant,
  and the cases of a maintenance request.
\<close>

section \<open>Steps of the runtime\<close>

text \<open>
  Any operation with any arguments. A coordinator is handed over as it was constructed; between two
  operations the world, and with it what the providers answer, may change in any way.
\<close>

inductive rt_step :: "'w application_runtime \<Rightarrow> 'w application_runtime \<Rightarrow> bool" where
  start: "rt_step rt (rt_start rt)"
| handoff: "rt_step rt (snd (handoffRuntimeState rt (RuntimeStateCoordinator_new hs hn ss sn)))"
| refresh: "rt_step rt (snd (runtimeRefresh rt))"
| maintain: "rt_step rt (snd (requestMaintenanceTransition rt request participant))"
| world: "rt_step rt (rt\<lparr>rt_world := w\<rparr>)"

definition rt_reachable :: "'w application_runtime \<Rightarrow> bool" where
  "rt_reachable rt \<longleftrightarrow> (\<exists>plan records capacity w. rt_step\<^sup>*\<^sup>* (ApplicationRuntime_new plan records capacity w) rt)"

definition runtimeOk :: "'w application_runtime \<Rightarrow> bool" where
  "runtimeOk rt \<longleftrightarrow>
     freshRt rt \<or> failedRt rt \<or>
     (sr_complete (rt_report rt) \<and> \<not> sr_hasFatalFailure (rt_report rt) \<and> startupPhase (rt_status rt) = PhaseRUNNING \<and>
      validHealth (health (rt_status rt)) \<and> validSafety (safety (rt_status rt)) \<and>
      (case rt_coordinator rt of
         None \<Rightarrow> operational (rt_status rt) \<in> {RUNNING, ERROR}
       | Some c \<Rightarrow> rsc_active c \<and> rsc_bound c \<and> operational (rt_status rt) \<in> {RUNNING, MAINTENANCE, ERROR} \<and>
           (operational (rt_status rt) = ERROR) = rsc_runtimeFailureLatched c) \<and>
      (operational (rt_status rt) = ERROR \<longrightarrow> health (rt_status rt) = FAULT \<and> safety (rt_status rt) = LOCKED))"

lemma valid_states [simp]: "validHealth FAULT" "validHealth HealthOK" "validHealth DEGRADED" "validSafety LOCKED" "validSafety CLEAR"
  by (simp_all add: validHealth_def validSafety_def)

lemma fresh_states: "freshRt rt \<Longrightarrow> operational (rt_status rt) = BOOTING"
  by (simp add: freshRt_def preStartStatus_def)

lemma runtimeOk_start: "runtimeOk rt \<Longrightarrow> runtimeOk (rt_start rt)"
proof (cases "freshRt rt")
  case True
  then show ?thesis
    using rt_start_result [OF True] by (auto simp: runtimeOk_def startedRt_def)
next
  case False
  moreover assume "runtimeOk rt"
  ultimately have "sr_complete (rt_report rt)" by (auto simp: runtimeOk_def failedRt_def)
  then show ?thesis using \<open>runtimeOk rt\<close> by (simp add: rt_start_def)
qed

lemma coordinator_new [simp]:
  "\<not> rsc_active (RuntimeStateCoordinator_new hs hn ss sn)"
  "\<not> rsc_runtimeFailureLatched (RuntimeStateCoordinator_new hs hn ss sn)"
  by (simp_all add: RuntimeStateCoordinator_new_def Let_def)

lemma activate_cases:
  assumes "\<not> rsc_active c" "rsc_activate c st w = (ok, c', st')"
  shows "if ok then providersOk c w \<and> c' = c\<lparr>rsc_bound := True, rsc_active := True\<rparr> \<and>
      (\<exists>h s. validHealth h \<and> validSafety s \<and> st' = st\<lparr>health := h, safety := s\<rparr>)
    else c' = c \<and> st' = st"
  using assms worstHealth_valid anyLocked_valid
  by (auto simp: rsc_activate_def rsc_aggregate_spec split: if_split_asm)

lemma runtimeOk_handoff:
  assumes "runtimeOk rt"
  shows "runtimeOk (snd (handoffRuntimeState rt (RuntimeStateCoordinator_new hs hn ss sn)))"
proof -
  define c where "c = RuntimeStateCoordinator_new hs hn ss sn"
  obtain ok c' st where a: "rsc_activate c (rt_status rt) (rt_world rt) = (ok, c', st)"
    by (metis prod_cases3)
  have c: "\<not> rsc_active c" "\<not> rsc_runtimeFailureLatched c" by (simp_all add: c_def)
  note n = activate_cases [OF c(1) a]
  show ?thesis
  proof (cases "rt_coordinator rt \<noteq> None \<or> \<not> sr_complete (rt_report rt) \<or> sr_hasFatalFailure (rt_report rt) \<or>
         operational (rt_status rt) \<noteq> RUNNING \<or> startupPhase (rt_status rt) \<noteq> PhaseRUNNING")
    case True
    then show ?thesis using assms by (auto simp: handoffRuntimeState_def)
  next
    case False
    show ?thesis
    proof (cases ok)
      case True
      then obtain h s where hs: "validHealth h" "validSafety s" "st = (rt_status rt)\<lparr>health := h, safety := s\<rparr>"
        "c' = c\<lparr>rsc_bound := True, rsc_active := True\<rparr>" using n by auto
      have "snd (handoffRuntimeState rt c) = rt\<lparr>rt_status := st, rt_coordinator := Some c'\<rparr>"
        using False True a by (simp add: handoffRuntimeState_def)
      then show ?thesis using False hs c(2) by (simp add: runtimeOk_def c_def [symmetric])
    next
      case nok: False
      then have "snd (handoffRuntimeState rt c) = rt\<lparr>rt_status := (rt_status rt)\<lparr>operational := ERROR, health := FAULT, safety := LOCKED\<rparr>\<rparr>"
        using False n a by (simp add: handoffRuntimeState_def)
      then show ?thesis using False by (simp add: runtimeOk_def c_def [symmetric])
    qed
  qed
qed

lemma refresh_frames:
  "rt_coordinator (snd (runtimeRefresh rt)) = rt_coordinator rt" "rt_report (snd (runtimeRefresh rt)) = rt_report rt"
  "operational (rt_status (snd (runtimeRefresh rt))) = operational (rt_status rt)"
  "startupPhase (rt_status (snd (runtimeRefresh rt))) = startupPhase (rt_status rt)"
  by (auto simp: runtimeRefresh_def rsc_refresh_def Let_def split_beta split: option.split)

lemma runtimeOk_refresh:
  assumes "runtimeOk rt"
  shows "runtimeOk (snd (runtimeRefresh rt))"
proof (cases "rt_coordinator rt")
  case None
  then show ?thesis using assms by (simp add: runtimeRefresh_def)
next
  case (Some c)
  then have ok: "sr_complete (rt_report rt)" "\<not> sr_hasFatalFailure (rt_report rt)" "startupPhase (rt_status rt) = PhaseRUNNING"
    "rsc_active c" "rsc_bound c" "operational (rt_status rt) \<in> {RUNNING, MAINTENANCE, ERROR}"
    "(operational (rt_status rt) = ERROR) = rsc_runtimeFailureLatched c"
    using assms by (auto simp: runtimeOk_def freshRt_def failedRt_def)
  have h: "validHealth (health (rt_status (snd (runtimeRefresh rt)))) \<and> validSafety (safety (rt_status (snd (runtimeRefresh rt)))) \<and>
      (rsc_runtimeFailureLatched c \<longrightarrow> health (rt_status (snd (runtimeRefresh rt))) = FAULT \<and>
         safety (rt_status (snd (runtimeRefresh rt))) = LOCKED)"
    using Some ok(4,5) by (auto simp: runtimeRefresh_def rsc_refresh_def rsc_aggregate_spec worstHealth_valid
        anyLocked_valid Let_def split_beta)
  show ?thesis
    unfolding runtimeOk_def refresh_frames using ok h Some by auto
qed

lemma latch_simps [simp]:
  "rt_report (latchAndStop rt) = rt_report rt"
  "operational (rt_status (latchAndStop rt)) = ERROR" "health (rt_status (latchAndStop rt)) = FAULT"
  "safety (rt_status (latchAndStop rt)) = LOCKED" "startupPhase (rt_status (latchAndStop rt)) = startupPhase (rt_status rt)"
  "rt_coordinator (latchAndStop rt) = Some ((the (rt_coordinator rt))\<lparr>rsc_runtimeFailureLatched := True\<rparr>)"
  by (simp_all add: latchAndStop_def rsc_latchRuntimeFailure_def)

text \<open>The request, by what the participant answers.\<close>

lemma maintain_cases:
  assumes "rt_coordinator rt \<noteq> None"
    "operational (rt_status rt) = RUNNING \<and> request = RequestEnter \<or>
     operational (rt_status rt) = MAINTENANCE \<and> request = RequestExit"
    "(if request = RequestEnter then prepareEnter p (rt_world rt) else prepareExit p (rt_world rt)) = (result, w)"
  shows "requestMaintenanceTransition rt request p =
    (case result of
       Prepared \<Rightarrow> (TransitionCompleted, rt\<lparr>rt_world := w, rt_status := (rt_status rt)\<lparr>operational :=
         (if request = RequestEnter then MAINTENANCE else RUNNING)\<rparr>\<rparr>)
     | ParticipantRejected \<Rightarrow> (TransitionRejected, rt\<lparr>rt_world := w\<rparr>)
     | ParticipantFailed \<Rightarrow> (TransitionFailed, latchAndStop (rt\<lparr>rt_world := w\<rparr>))
     | _ \<Rightarrow> (TransitionInvalidParticipantResult, latchAndStop (rt\<lparr>rt_world := w\<rparr>)))"
proof -
  have "evaluateMaintenanceTransition (operational (rt_status rt)) request = DecisionAllowed"
    using assms(2) by (simp add: transition_allowed)
  then show ?thesis
    using assms(1,3)
    by (cases "request = RequestEnter"; cases result) (simp_all add: requestMaintenanceTransition_def)
qed

lemma maintain_refused:
  assumes "rt_coordinator rt = None \<or>
    \<not> (operational (rt_status rt) = RUNNING \<and> request = RequestEnter \<or>
       operational (rt_status rt) = MAINTENANCE \<and> request = RequestExit)"
  shows "snd (requestMaintenanceTransition rt request p) = rt \<and>
    fst (requestMaintenanceTransition rt request p) \<in> {TransitionInvalidRequest, TransitionInvalidState,
      TransitionAlreadyInTargetState}"
  using assms transition_allowed [of "operational (rt_status rt)" request]
  by (cases "evaluateMaintenanceTransition (operational (rt_status rt)) request")
    (auto simp: requestMaintenanceTransition_def)

lemma runtimeOk_world: "runtimeOk (rt\<lparr>rt_world := w\<rparr>) = runtimeOk rt"
  by (cases "rt_coordinator rt") (simp_all add: runtimeOk_def freshRt_def failedRt_def cong: conj_cong)

lemma runtimeOk_maintain:
  assumes "runtimeOk rt"
  shows "runtimeOk (snd (requestMaintenanceTransition rt request p))"
proof (cases "rt_coordinator rt = None \<or>
    \<not> (operational (rt_status rt) = RUNNING \<and> request = RequestEnter \<or>
       operational (rt_status rt) = MAINTENANCE \<and> request = RequestExit)")
  case True
  then show ?thesis using maintain_refused [OF True] assms by simp
next
  case False
  then obtain c where c: "rt_coordinator rt = Some c" by auto
  have ok: "sr_complete (rt_report rt)" "\<not> sr_hasFatalFailure (rt_report rt)" "startupPhase (rt_status rt) = PhaseRUNNING"
    "rsc_active c" "rsc_bound c" "(operational (rt_status rt) = ERROR) = rsc_runtimeFailureLatched c"
    "validHealth (health (rt_status rt))" "validSafety (safety (rt_status rt))"
    using assms c by (auto simp: runtimeOk_def freshRt_def failedRt_def)
  obtain result w where r: "(if request = RequestEnter then prepareEnter p (rt_world rt) else prepareExit p (rt_world rt)) = (result, w)"
    by (metis surj_pair)
  have nl: "\<not> rsc_runtimeFailureLatched c" using False ok(6) by auto
  have latched: "runtimeOk (latchAndStop (rt\<lparr>rt_world := w\<rparr>))"
    using ok c by (auto simp: runtimeOk_def)
  have moved: "runtimeOk (rt\<lparr>rt_world := w, rt_status := (rt_status rt)\<lparr>operational := op\<rparr>\<rparr>)" if "op \<in> {RUNNING, MAINTENANCE}" for op
    using ok c nl that by (auto simp: runtimeOk_def)
  have "runtimeOk (rt\<lparr>rt_world := w\<rparr>)" using assms by (simp add: runtimeOk_world)
  then show ?thesis
    using maintain_cases [OF _ _ r] False latched moved
    by (cases result) auto
qed

lemma rt_step_ok: "rt_step rt rt' \<Longrightarrow> runtimeOk rt \<Longrightarrow> runtimeOk rt'"
  by (induction rule: rt_step.induct)
    (auto intro: runtimeOk_start runtimeOk_handoff runtimeOk_refresh runtimeOk_maintain simp: runtimeOk_world)

lemma rt_reachable_ok: "rt_reachable rt \<Longrightarrow> runtimeOk rt"
  unfolding rt_reachable_def
proof (elim exE)
  fix plan :: "'a ApplicationPlan" and records capacity w
  assume "rt_step\<^sup>*\<^sup>* (ApplicationRuntime_new plan records capacity w) rt"
  then show ?thesis
  proof (induction rule: rtranclp_induct)
    case base
    show ?case by (simp add: runtimeOk_def freshRt_new)
  qed (rule rt_step_ok)
qed

lemma error_step:
  assumes "runtimeOk rt" "operational (rt_status rt) = ERROR" "rt_step rt rt'"
  shows "operational (rt_status rt') = ERROR"
  using assms(3,1,2)
proof cases
  case start
  have "sr_complete (rt_report rt)" using assms by (auto simp: runtimeOk_def failedRt_def freshRt_def preStartStatus_def)
  then show ?thesis using start assms(2) by (simp add: rt_start_def)
next
  case (maintain request participant)
  then show ?thesis using maintain_refused [of rt request participant] assms(2) by simp
qed (use assms(2) in \<open>auto simp: handoffRuntimeState_def refresh_frames\<close>)

end
