(* ===== verification/Commands.thy ===== *)
theory Commands
  imports SystemState
begin

text \<open>
  Commands, \<open>aquaOneCore/include/AquaCore/Commands\<close> and \<open>Safety/ActionLockCoordinator.h\<close>: the pipeline
  that validates a command, asks policy and safety, and calls the handler; the gates on the runtime status;
  and the coordinator of action locks. A callback with its context is a function that threads the
  world \<open>'w\<close>; a null callback is \<open>None\<close>. The readers and resolvers of the gates take a constant
  context, so they read the world; \<open>None\<close> from them is the result false.
\<close>

section \<open>Results\<close>

datatype DomainCommandResult =
  DomainCompleted | DomainRejected | DomainInvalidState | DomainOperationStarted | DomainOther u8

definition isDomainCommandResultValid :: "DomainCommandResult \<Rightarrow> bool" where
  "isDomainCommandResultValid result =
     (case result of
        DomainCompleted \<Rightarrow> True | DomainRejected \<Rightarrow> True | DomainInvalidState \<Rightarrow> True
      | DomainOperationStarted \<Rightarrow> True | _ \<Rightarrow> False)"

definition domainCommandResultName :: "DomainCommandResult \<Rightarrow> string" where
  "domainCommandResultName result =
     (case result of
        DomainCompleted \<Rightarrow> ''COMPLETED'' | DomainRejected \<Rightarrow> ''REJECTED''
      | DomainInvalidState \<Rightarrow> ''INVALID_STATE'' | DomainOperationStarted \<Rightarrow> ''OPERATION_STARTED''
      | _ \<Rightarrow> ''UNKNOWN'')"

datatype CommandExecutionOutcome =
  Handled | InvalidCommand | BlockedByPolicy | BlockedBySafety | InvalidPipeline

record CommandExecutionResult =
  cer_outcome :: CommandExecutionOutcome
  cer_hasDomainResult :: bool
  cer_domainResult :: DomainCommandResult

definition cer_invalidCommand :: CommandExecutionResult where
  "cer_invalidCommand =
     \<lparr>cer_outcome = InvalidCommand, cer_hasDomainResult = False, cer_domainResult = DomainCompleted\<rparr>"

definition cer_blockedByPolicy :: CommandExecutionResult where
  "cer_blockedByPolicy =
     \<lparr>cer_outcome = BlockedByPolicy, cer_hasDomainResult = False, cer_domainResult = DomainCompleted\<rparr>"

definition cer_blockedBySafety :: CommandExecutionResult where
  "cer_blockedBySafety =
     \<lparr>cer_outcome = BlockedBySafety, cer_hasDomainResult = False, cer_domainResult = DomainCompleted\<rparr>"

definition cer_invalidPipeline :: CommandExecutionResult where
  "cer_invalidPipeline =
     \<lparr>cer_outcome = InvalidPipeline, cer_hasDomainResult = False, cer_domainResult = DomainCompleted\<rparr>"

definition cer_handled :: "DomainCommandResult \<Rightarrow> CommandExecutionResult" where
  "cer_handled domainResult =
     (if \<not> isDomainCommandResultValid domainResult then cer_invalidPipeline
      else \<lparr>cer_outcome = Handled, cer_hasDomainResult = True, cer_domainResult = domainResult\<rparr>)"

definition cer_domainResultOf :: "CommandExecutionResult \<Rightarrow> DomainCommandResult option" where
  "cer_domainResultOf r = (if cer_hasDomainResult r then Some (cer_domainResult r) else None)"

section \<open>Pipeline\<close>

record ('c, 'w) CommandPipelineConfig =
  cp_validator :: "('c \<Rightarrow> 'w \<Rightarrow> bool \<times> 'w) option"
  cp_policy :: "('c \<Rightarrow> 'w \<Rightarrow> bool \<times> 'w) option"
  cp_safety :: "('c \<Rightarrow> 'w \<Rightarrow> bool \<times> 'w) option"
  cp_handler :: "('c \<Rightarrow> 'w \<Rightarrow> DomainCommandResult \<times> 'w) option"

definition pipeline_isValid :: "('c, 'w) CommandPipelineConfig \<Rightarrow> bool" where
  "pipeline_isValid p \<longleftrightarrow>
     cp_validator p \<noteq> None \<and> cp_policy p \<noteq> None \<and> cp_safety p \<noteq> None \<and> cp_handler p \<noteq> None"

definition pipeline_execute ::
  "('c, 'w) CommandPipelineConfig \<Rightarrow> 'c \<Rightarrow> 'w \<Rightarrow> CommandExecutionResult \<times> 'w" where
  "pipeline_execute p command w =
     (if \<not> pipeline_isValid p then (cer_invalidPipeline, w)
      else
        let (valid, w1) = the (cp_validator p) command w
        in if \<not> valid then (cer_invalidCommand, w1)
        else
          let (permitted, w2) = the (cp_policy p) command w1
          in if \<not> permitted then (cer_blockedByPolicy, w2)
          else
            let (safe, w3) = the (cp_safety p) command w2
            in if \<not> safe then (cer_blockedBySafety, w3)
            else
              let (result, w4) = the (cp_handler p) command w3 in (cer_handled result, w4))"

section \<open>Policy gates\<close>

datatype CommandClass = NormalDomain | SystemRecovery | ClassMaintenance | ClassOther u8

type_synonym 'w status_reader = "('w \<Rightarrow> RuntimeStatus option) option"

record ('c, 'w) RuntimeCommandPolicyGate =
  pg_readStatus :: "'w status_reader"
  pg_resolveClass :: "('c \<Rightarrow> 'w \<Rightarrow> CommandClass option) option"
  pg_routeClass :: CommandClass

definition policyGate_allows :: "('c, 'w) RuntimeCommandPolicyGate \<Rightarrow> 'c \<Rightarrow> 'w \<Rightarrow> bool" where
  "policyGate_allows g command w =
     (if pg_readStatus g = None \<or> pg_resolveClass g = None then False
      else
        case the (pg_readStatus g) w of
          None \<Rightarrow> False
        | Some status \<Rightarrow>
           (case the (pg_resolveClass g) command w of
              None \<Rightarrow> False
            | Some commandClass \<Rightarrow>
               if commandClass \<noteq> pg_routeClass g then False
               else (case commandClass of
                       NormalDomain \<Rightarrow> operational status = RUNNING
                     | SystemRecovery \<Rightarrow> operational status = RUNNING \<or> operational status = ERROR
                     | _ \<Rightarrow> False)))"

definition policyGate_callback ::
  "('c, 'w) RuntimeCommandPolicyGate option \<Rightarrow> 'c \<Rightarrow> 'w \<Rightarrow> bool \<times> 'w" where
  "policyGate_callback context command w =
     (context \<noteq> None \<and> policyGate_allows (the context) command w, w)"

datatype MaintenanceCommandKind = KindEnter | KindOperation | KindExit | KindOther u8

record ('c, 'w) RuntimeMaintenanceCommandPolicyGate =
  mg_readStatus :: "'w status_reader"
  mg_resolveClass :: "('c \<Rightarrow> 'w \<Rightarrow> CommandClass option) option"
  mg_resolveKind :: "('c \<Rightarrow> 'w \<Rightarrow> MaintenanceCommandKind option) option"

definition allowsTransition :: "OperationalState \<Rightarrow> MaintenanceTransitionRequest \<Rightarrow> bool" where
  "allowsTransition current request =
     (let decision = evaluateMaintenanceTransition current request
      in decision = DecisionAllowed \<or> decision = DecisionAlreadyInTargetState)"

definition maintenanceGate_allows ::
  "('c, 'w) RuntimeMaintenanceCommandPolicyGate \<Rightarrow> 'c \<Rightarrow> 'w \<Rightarrow> bool" where
  "maintenanceGate_allows g command w =
     (if mg_readStatus g = None \<or> mg_resolveClass g = None \<or> mg_resolveKind g = None then False
      else
        case the (mg_readStatus g) w of
          None \<Rightarrow> False
        | Some status \<Rightarrow>
           (case the (mg_resolveClass g) command w of
              None \<Rightarrow> False
            | Some commandClass \<Rightarrow>
               if commandClass \<noteq> ClassMaintenance then False
               else (case the (mg_resolveKind g) command w of
                       None \<Rightarrow> False
                     | Some kind \<Rightarrow>
                        (case kind of
                           KindEnter \<Rightarrow> allowsTransition (operational status) RequestEnter
                         | KindOperation \<Rightarrow> operational status = MAINTENANCE
                         | KindExit \<Rightarrow> allowsTransition (operational status) RequestExit
                         | _ \<Rightarrow> False))))"

definition maintenanceGate_callback ::
  "('c, 'w) RuntimeMaintenanceCommandPolicyGate option \<Rightarrow> 'c \<Rightarrow> 'w \<Rightarrow> bool \<times> 'w" where
  "maintenanceGate_callback context command w =
     (context \<noteq> None \<and> maintenanceGate_allows (the context) command w, w)"

section \<open>Action locks\<close>

record ActionLockContribution =
  alc_locked :: bool
  alc_safetyCritical :: bool

record ActionLockState =
  als_locked :: bool
  als_hasSafetyCriticalLock :: bool
  als_activeProviderCount :: nat
  als_compositionValid :: bool

definition ActionLockState_default :: ActionLockState where
  "ActionLockState_default =
     \<lparr>als_locked = False, als_hasSafetyCriticalLock = False, als_activeProviderCount = 0,
      als_compositionValid = True\<rparr>"

definition lock_failClosed :: ActionLockState where
  "lock_failClosed =
     \<lparr>als_locked = True, als_hasSafetyCriticalLock = True, als_activeProviderCount = 0,
      als_compositionValid = False\<rparr>"

type_synonym ('a, 'w) lock_provider = "'a \<Rightarrow> 'w \<Rightarrow> ActionLockContribution"

record ('a, 'w) ActionLockCoordinator =
  alk_providers :: "('a, 'w) lock_provider option list option"
  alk_providerCount :: nat
  alk_compositionValid :: bool

definition ActionLockCoordinator_new ::
  "('a, 'w) lock_provider option list option \<Rightarrow> nat \<Rightarrow> ('a, 'w) ActionLockCoordinator" where
  "ActionLockCoordinator_new providers providerCount =
     \<lparr>alk_providers = providers, alk_providerCount = providerCount,
      alk_compositionValid =
        (if (providerCount = 0) \<noteq> (providers = None) then False
         else \<forall>index \<in> set [0..<providerCount]. the providers ! index \<noteq> None)\<rparr>"

text \<open>The loop of \<open>query\<close> over the providers' answers.\<close>

fun lockLoop :: "ActionLockContribution list \<Rightarrow> ActionLockState \<Rightarrow> ActionLockState" where
  "lockLoop [] result = result"
| "lockLoop (contribution # rest) result =
     (if alc_safetyCritical contribution \<and> \<not> alc_locked contribution then lock_failClosed
      else if alc_locked contribution then
        lockLoop rest (result\<lparr>als_locked := True, als_activeProviderCount := als_activeProviderCount result + 1,
          als_hasSafetyCriticalLock := (if alc_safetyCritical contribution then True
                                        else als_hasSafetyCriticalLock result)\<rparr>)
      else lockLoop rest result)"

definition lockContributions :: "('a, 'w) ActionLockCoordinator \<Rightarrow> 'a \<Rightarrow> 'w \<Rightarrow> ActionLockContribution list" where
  "lockContributions c action w =
     map (\<lambda>index. the (the (alk_providers c) ! index) action w) [0..<alk_providerCount c]"

definition lock_query :: "('a, 'w) ActionLockCoordinator \<Rightarrow> 'a \<Rightarrow> 'w \<Rightarrow> ActionLockState" where
  "lock_query c action w =
     (if \<not> alk_compositionValid c then lock_failClosed
      else lockLoop (lockContributions c action w) ActionLockState_default)"

section \<open>Safety gate\<close>

record ('c, 'a, 'w) RuntimeCommandSafetyGate =
  sg_readStatus :: "'w status_reader"
  sg_resolveAction :: "('c \<Rightarrow> 'w \<Rightarrow> 'a option) option"
  sg_actionLocks :: "('a, 'w) ActionLockCoordinator option"

definition safetyGate_allows :: "('c, 'a, 'w) RuntimeCommandSafetyGate \<Rightarrow> 'c \<Rightarrow> 'w \<Rightarrow> bool" where
  "safetyGate_allows g command w =
     (if sg_readStatus g = None \<or> sg_resolveAction g = None \<or> sg_actionLocks g = None \<or>
         \<not> alk_compositionValid (the (sg_actionLocks g)) then False
      else
        case the (sg_readStatus g) w of
          None \<Rightarrow> False
        | Some status \<Rightarrow>
           if safety status \<noteq> CLEAR then False
           else (case the (sg_resolveAction g) command w of
                   None \<Rightarrow> False
                 | Some action \<Rightarrow>
                    (let lock = lock_query (the (sg_actionLocks g)) action w
                     in als_compositionValid lock \<and> \<not> als_locked lock)))"

definition safetyGate_callback :: "('c, 'a, 'w) RuntimeCommandSafetyGate option \<Rightarrow> 'c \<Rightarrow> 'w \<Rightarrow> bool \<times> 'w" where
  "safetyGate_callback context command w =
     (if context = None then (False, w) else (safetyGate_allows (the context) command w, w))"

section \<open>What the parts decide\<close>

lemma lockLoop_spec:
  "lockLoop cs r =
     (if \<exists>c \<in> set cs. alc_safetyCritical c \<and> \<not> alc_locked c then lock_failClosed
      else r\<lparr>als_locked := als_locked r \<or> (\<exists>c \<in> set cs. alc_locked c),
             als_activeProviderCount := als_activeProviderCount r + length (filter alc_locked cs),
             als_hasSafetyCriticalLock := als_hasSafetyCriticalLock r \<or> (\<exists>c \<in> set cs. alc_safetyCritical c)\<rparr>)"
proof (induction cs arbitrary: r)
  case (Cons c cs)
  show ?case
    by (cases "alc_locked c"; cases "alc_safetyCritical c") (auto simp: Cons.IH)
qed simp

lemma lock_query_open:
  "als_compositionValid (lock_query c action w) \<and> \<not> als_locked (lock_query c action w) \<longleftrightarrow>
     alk_compositionValid c \<and>
     (\<forall>contribution \<in> set (lockContributions c action w).
        \<not> alc_locked contribution \<and> \<not> alc_safetyCritical contribution)"
  by (auto simp: lock_query_def lockLoop_spec lock_failClosed_def ActionLockState_default_def)

lemma safetyGate_allows_iff:
  "safetyGate_allows g command w \<longleftrightarrow>
     (\<exists>readStatus resolveAction locks status action.
        sg_readStatus g = Some readStatus \<and> sg_resolveAction g = Some resolveAction \<and>
        sg_actionLocks g = Some locks \<and> readStatus w = Some status \<and> safety status = CLEAR \<and>
        resolveAction command w = Some action \<and> alk_compositionValid locks \<and>
        (\<forall>contribution \<in> set (lockContributions locks action w).
           \<not> alc_locked contribution \<and> \<not> alc_safetyCritical contribution))"
  unfolding safetyGate_allows_def Let_def lock_query_open by (auto split: option.split)

lemma policyGate_allows_iff:
  "policyGate_allows g command w \<longleftrightarrow>
     (\<exists>readStatus resolveClass status.
        pg_readStatus g = Some readStatus \<and> pg_resolveClass g = Some resolveClass \<and>
        readStatus w = Some status \<and> resolveClass command w = Some (pg_routeClass g) \<and>
        (pg_routeClass g = NormalDomain \<and> operational status = RUNNING \<or>
         pg_routeClass g = SystemRecovery \<and> operational status \<in> {RUNNING, ERROR}))"
  by (auto simp: policyGate_allows_def split: option.split CommandClass.split)

lemma maintenanceGate_allows_iff:
  "maintenanceGate_allows g command w \<longleftrightarrow>
     (\<exists>readStatus resolveClass resolveKind status kind.
        mg_readStatus g = Some readStatus \<and> mg_resolveClass g = Some resolveClass \<and>
        mg_resolveKind g = Some resolveKind \<and> readStatus w = Some status \<and>
        resolveClass command w = Some ClassMaintenance \<and> resolveKind command w = Some kind \<and>
        (kind \<in> {KindEnter, KindExit} \<and> operational status \<in> {RUNNING, MAINTENANCE} \<or>
         kind = KindOperation \<and> operational status = MAINTENANCE))"
  by (auto simp: maintenanceGate_allows_def allowsTransition_def evaluateMaintenanceTransition_def Let_def
      split: option.split MaintenanceCommandKind.split OperationalState.split)

lemma pipeline_handler_ran:
  assumes "cer_outcome (fst (pipeline_execute p command w)) = Handled"
  shows "\<exists>validator policy safety handler w1 w2 w3.
    cp_validator p = Some validator \<and> cp_policy p = Some policy \<and> cp_safety p = Some safety \<and>
    cp_handler p = Some handler \<and> validator command w = (True, w1) \<and> policy command w1 = (True, w2) \<and>
    safety command w2 = (True, w3) \<and>
    snd (pipeline_execute p command w) = snd (handler command w3) \<and>
    cer_domainResultOf (fst (pipeline_execute p command w)) = Some (fst (handler command w3))"
proof -
  note defs = cer_invalidPipeline_def cer_invalidCommand_def cer_blockedByPolicy_def cer_blockedBySafety_def
  have "pipeline_isValid p" using assms by (cases "pipeline_isValid p") (simp_all add: pipeline_execute_def defs)
  then obtain validator policy safety handler where p: "cp_validator p = Some validator" "cp_policy p = Some policy"
    "cp_safety p = Some safety" "cp_handler p = Some handler" by (auto simp: pipeline_isValid_def)
  obtain b1 w1 where 1: "validator command w = (b1, w1)" by (metis surj_pair)
  obtain b2 w2 where 2: "policy command w1 = (b2, w2)" by (metis surj_pair)
  obtain b3 w3 where 3: "safety command w2 = (b3, w3)" by (metis surj_pair)
  obtain r w4 where 4: "handler command w3 = (r, w4)" by (metis surj_pair)
  have e: "pipeline_execute p command w = (if \<not> b1 then (cer_invalidCommand, w1) else if \<not> b2 then (cer_blockedByPolicy, w2)
      else if \<not> b3 then (cer_blockedBySafety, w3) else (cer_handled r, w4))"
    by (simp add: pipeline_execute_def pipeline_isValid_def p 1 2 3 4)
  have b: "b1" "b2" "b3" using assms by (auto simp: e defs split: if_split_asm)
  then have "isDomainCommandResultValid r" using assms by (auto simp: e cer_handled_def defs split: if_split_asm)
  then show ?thesis using b by (simp add: p 1 2 3 4 e cer_handled_def cer_domainResultOf_def)
qed

end
