(* ===== verification/SystemProperties.thy ===== *)
theory SystemProperties
  imports RuntimeSteps Commands
begin

text \<open>
  The properties of the system components: what a startup does and reports, the states of the runtime
  under any sequence of operations, the published health and safety, maintenance, and the conditions
  under which a command reaches its handler.
\<close>

section \<open>Startup\<close>

text \<open>
  C8: A startup calls the actions of its plan in the plan's order, safe outputs first and the safety gate after
  the domain initialisation: what it does to the world is what a prefix of that list does. More than
  the safe outputs only runs when the plan was accepted, and a startup that ends in \<open>RUNNING\<close> has run
  all of it, with success of the safe outputs, of the gate and of every required participant.
\<close>

theorem startup_order:
  fixes plan :: "'w ApplicationPlan" and records capacity and w :: 'w
  defines "rt' \<equiv> rt_start (ApplicationRuntime_new plan records capacity w)"
  shows "\<exists>k \<le> length (planSteps plan). rt_world rt' = runActions (take k (planSteps plan)) w \<and>
    (1 < k \<longrightarrow> planAccepted plan) \<and>
    (operational (rt_status rt') = RUNNING \<longrightarrow> k = length (planSteps plan) \<and> allSucceeded (planSteps plan) w)"
proof -
  let ?rt = "ApplicationRuntime_new plan records capacity w"
  let ?ss = "(ap_earlySafeOutputs plan, None) # bodySteps plan"
  have plan: "rt_plan ?rt = plan" "rt_world ?rt = w" by (simp_all add: ApplicationRuntime_new_def)
  obtain k where k: "k \<le> length ?ss" "rt_world rt' = runActions (take k ?ss) w" "1 < k \<longrightarrow> planAccepted plan"
    "startedRt rt' \<longrightarrow> k = length ?ss \<and> allSucceeded ?ss w"
    using rt_start_prefix [OF freshRt_new [of plan records capacity w]] unfolding plan rt'_def by blast
  have started: "operational (rt_status rt') = RUNNING \<Longrightarrow> startedRt rt'"
    using rt_start_result [OF freshRt_new [of plan records capacity w]] by (auto simp: rt'_def failedRt_def)
  show ?thesis
  proof (cases "planAccepted plan")
    case True
    then show ?thesis unfolding planSteps_body [OF True] using k started by blast
  next
    case False
    then have "k \<le> 1" using k(3) by simp
    then have "take k ?ss = take k (planSteps plan)" "k \<le> length (planSteps plan)"
      by (cases k; simp add: planSteps_def)+
    moreover have "\<not> startedRt rt'"
      using k(4) \<open>k \<le> 1\<close> by (auto simp: bodySteps_def)
    ultimately show ?thesis using k started False by metis
  qed
qed

definition logAction :: "string \<Rightarrow> StartupStepResult \<Rightarrow> string list StartupAction" where
  "logAction name result = \<lparr>sa_participantId = Some name, sa_callback = Some (\<lambda>w. (result, w @ [name]))\<rparr>"

definition demoPlan :: "string list ApplicationPlan" where
  "demoPlan =
     \<lparr>ap_earlySafeOutputs = logAction ''outputs'' ssr_succeeded, ap_safetyGate = logAction ''gate'' ssr_succeeded,
      ap_participants = Some [
        \<lparr>sp_action = logAction ''config'' ssr_succeeded, sp_phase = PhaseLOAD_VALIDATE_CONFIG, sp_requirement = REQUIRED\<rparr>,
        \<lparr>sp_action = logAction ''network'' ssr_disabled, sp_phase = PhaseNETWORK_INIT, sp_requirement = OPTIONAL\<rparr>],
      ap_participantCount = 2\<rparr>"

definition demoRuntime :: "string list application_runtime" where
  "demoRuntime = ApplicationRuntime_new demoPlan None 0 []"

lemma demo_results: "ssr_isValid ssr_succeeded" "ssr_isValid ssr_disabled" "ssr_outcome ssr_succeeded = SUCCEEDED"
  "ssr_outcome ssr_disabled = DISABLED"
  by (simp_all add: ssr_isValid_def ssr_succeeded_def ssr_disabled_def ssr_hasErrorCode_def noErrorCode_def)

lemma demo_start: "operational (rt_status (rt_start demoRuntime)) = RUNNING"
  "rt_world (rt_start demoRuntime) = [''outputs'', ''config'', ''gate'', ''network'']"
  by (simp_all add: demoRuntime_def demoPlan_def logAction_def ApplicationRuntime_new_def rt_start_def
      StartupReport_new_def validateEarlySafeOutputs_def executeEarlySafeOutputs_def validateFullPlan_def
      participantProblem_def executePhase_def executeSafetyGate_def executePhaseLoop.simps callAction_def
      handleParticipantResult_def handleSpecialResult_def demo_results hasParticipantId_def sameParticipantId_def
      isValidPhase_def isOrdinaryPhase_def isValidRequirement_def phaseOrder_def finishSuccess_def preStartStatus_def
      upt_rec Let_def)

lemma startup_order_witness:
  "allSucceeded (planSteps demoPlan) [] \<and>
   runActions (planSteps demoPlan) [] = [''outputs'', ''config'', ''gate'', ''network'']"
  using startup_order [of demoPlan None 0 "[]"] demo_start by (auto simp: demoRuntime_def [symmetric])

text \<open>
  C28: Every startup ends with a complete report whose final status is the runtime's. With a fatal failure the
  runtime is in \<open>ERROR\<close>, health \<open>FAULT\<close> and safety \<open>LOCKED\<close>; without one it is \<open>RUNNING\<close> and \<open>CLEAR\<close>,
  degraded exactly when an optional participant failed.
\<close>

theorem startup_report:
  "let rt' = rt_start (ApplicationRuntime_new plan records capacity w); r = rt_report rt'; st = rt_status rt'
   in sr_complete r \<and> sr_finalStatus r = st \<and> \<not> rt_startInProgress rt' \<and>
      (if sr_hasFatalFailure r
       then operational st = ERROR \<and> health st = FAULT \<and> safety st = LOCKED
       else st = \<lparr>operational = RUNNING, health = (if sr_optionalFailureCount r = 0 then HealthOK else DEGRADED),
                  safety = CLEAR, startupPhase = PhaseRUNNING\<rparr>)"
  using rt_start_result [OF freshRt_new [of plan records capacity w]]
  by (auto simp: startedRt_def failedRt_def Let_def)

section \<open>Running\<close>

text \<open>
  C9: In every reachable state an operational \<open>ERROR\<close> comes with health \<open>FAULT\<close> and safety \<open>LOCKED\<close>; safety is
  \<open>CLEAR\<close> only after a startup without fatal failure and while \<open>RUNNING\<close> or in \<open>MAINTENANCE\<close>;
  \<open>MAINTENANCE\<close> only follows a handoff; and \<open>ERROR\<close> is final: no operation leaves it.
\<close>

theorem runtime_states:
  assumes "rt_reachable rt"
  defines "st \<equiv> rt_status rt"
  shows "(operational st = ERROR \<longrightarrow> health st = FAULT \<and> safety st = LOCKED \<and>
      (\<forall>rt'. rt_step\<^sup>*\<^sup>* rt rt' \<longrightarrow> operational (rt_status rt') = ERROR \<and> safety (rt_status rt') = LOCKED)) \<and>
    (safety st = CLEAR \<longrightarrow> operational st \<in> {RUNNING, MAINTENANCE}) \<and>
    (operational st \<in> {RUNNING, MAINTENANCE} \<longrightarrow> sr_complete (rt_report rt) \<and> \<not> sr_hasFatalFailure (rt_report rt)) \<and>
    (operational st = MAINTENANCE \<longrightarrow> runtimeStateHandedOff rt)"
proof -
  have ok: "runtimeOk rt" by (rule rt_reachable_ok [OF assms(1)])
  have locked: "operational (rt_status r) = ERROR \<Longrightarrow> health (rt_status r) = FAULT \<and> safety (rt_status r) = LOCKED"
    if "runtimeOk r" for r :: "'a application_runtime"
    using that by (auto simp: runtimeOk_def freshRt_def failedRt_def preStartStatus_def)
  have "operational (rt_status rt') = ERROR \<and> safety (rt_status rt') = LOCKED"
    if e: "operational (rt_status rt) = ERROR" and "rt_step\<^sup>*\<^sup>* rt rt'" for rt'
  proof -
    from that(2) have "runtimeOk rt' \<and> operational (rt_status rt') = ERROR"
    proof (induction rule: rtranclp_induct)
      case base
      then show ?case using ok e by simp
    next
      case (step y z)
      then show ?case using error_step rt_step_ok by blast
    qed
    then show ?thesis using locked by blast
  qed
  then show ?thesis
    using ok locked [OF ok] unfolding st_def
    by (auto simp: runtimeOk_def freshRt_def failedRt_def preStartStatus_def runtimeStateHandedOff_def
        split: option.split_asm)
qed

lemma runtime_states_witness:
  "sr_complete (rt_report (rt_start demoRuntime)) \<and> \<not> sr_hasFatalFailure (rt_report (rt_start demoRuntime))"
proof -
  have "rt_reachable (rt_start demoRuntime)"
    unfolding rt_reachable_def demoRuntime_def by (blast intro: rt_step.start)
  from runtime_states [OF this] show ?thesis by (simp add: demo_start)
qed

text \<open>
  C29: After the handoff a refresh publishes the worst health of the providers and locks safety when any of
  them does; it fails closed, to \<open>FAULT\<close> and \<open>LOCKED\<close>, when a provider answers outside its enumeration
  or a runtime failure was latched.
\<close>

theorem refresh_publishes:
  assumes "rt_reachable rt" "rt_coordinator rt = Some c"
  defines "hs \<equiv> contributions (rsc_healthProviders c) (rsc_healthProviderCount c) (rt_world rt)"
    and "ss \<equiv> contributions (rsc_safetyProviders c) (rsc_safetyProviderCount c) (rt_world rt)"
  shows "fst (runtimeRefresh rt) = (if providersOk c (rt_world rt) then REFRESHED else INVALID_PROVIDER) \<and>
    rt_status (snd (runtimeRefresh rt)) =
      (if providersOk c (rt_world rt) \<and> \<not> rsc_runtimeFailureLatched c
       then (rt_status rt)\<lparr>health := worstHealth hs, safety := anyLocked ss\<rparr>
       else (rt_status rt)\<lparr>health := FAULT, safety := LOCKED\<rparr>)"
proof -
  have "rsc_active c" "rsc_bound c"
    using rt_reachable_ok [OF assms(1)] assms(2) by (auto simp: runtimeOk_def freshRt_def failedRt_def)
  then show ?thesis
    unfolding hs_def ss_def using assms(2)
    by (auto simp: runtimeRefresh_def rsc_refresh_def rsc_aggregate_spec Let_def split_beta)
qed

definition demoProviders :: "string list health_provider option list" where
  "demoProviders = [Some (\<lambda>w. if w = [] then HealthOK else DEGRADED), Some (\<lambda>w. HealthOK)]"

definition handedOff :: "string list application_runtime" where
  "handedOff = snd (handoffRuntimeState (rt_start demoRuntime)
     (RuntimeStateCoordinator_new (Some demoProviders) 2 None 0))"

lemma refresh_publishes_witness:
  "health (rt_status (snd (runtimeRefresh handedOff))) = DEGRADED"
proof -
  let ?rt = "rt_start demoRuntime"
  let ?c = "RuntimeStateCoordinator_new (Some demoProviders) 2 None 0 :: string list state_coordinator"
  have reach: "rt_reachable handedOff"
    unfolding rt_reachable_def handedOff_def demoRuntime_def
    by (blast intro: rt_step.start rt_step.handoff rtranclp_trans [OF r_into_rtranclp r_into_rtranclp])
  have st: "startedRt ?rt"
    using rt_start_result [of demoRuntime] freshRt_new [of demoPlan None 0 "[]"] demo_start
    by (auto simp: demoRuntime_def failedRt_def)
  have ok: "providersOk ?c w" for w
    by (auto simp: providersOk_def RuntimeStateCoordinator_new_def providersPresent_def demoProviders_def contributions_def
        validHealth_def upt_rec Let_def)
  have hs: "contributions (rsc_healthProviders ?c) (rsc_healthProviderCount ?c) w = [if w = [] then HealthOK else DEGRADED, HealthOK]"
    "contributions (rsc_safetyProviders ?c) (rsc_safetyProviderCount ?c) w = []" for w
    by (simp_all add: RuntimeStateCoordinator_new_def demoProviders_def contributions_def upt_rec Let_def)
  have sev: "\<not> healthSeverity (worstHealth [DEGRADED, HealthOK]) < healthSeverity h" if "h \<in> {HealthOK, DEGRADED}" for h
    using that by (auto simp: worstHealth_def healthSeverity_def)
  have h: "health (rt_status ?rt) \<in> {HealthOK, DEGRADED}" "safety (rt_status ?rt) = CLEAR"
    using st by (auto simp: startedRt_def)
  obtain done' c' st' where a: "rsc_activate ?c (rt_status ?rt) (rt_world ?rt) = (done', c', st')"
    by (metis prod_cases3)
  have d: "done'"
    using a ok hs sev [OF h(1)] h(2) by (simp add: rsc_activate_def rsc_aggregate_spec demo_start)
  then have c': "c' = ?c\<lparr>rsc_bound := True, rsc_active := True\<rparr>"
    using activate_cases [OF _ a] by simp
  have c: "rt_coordinator handedOff = Some (?c\<lparr>rsc_bound := True, rsc_active := True\<rparr>)" "rt_world handedOff = rt_world ?rt"
    unfolding c' [symmetric] using st a d by (simp_all add: handedOff_def handoffRuntimeState_def startedRt_def)
  have frame: "providersOk (d\<lparr>rsc_bound := True, rsc_active := True\<rparr>) w = providersOk d w"
    for d :: "string list state_coordinator" and w by (simp add: providersOk_def)
  show ?thesis
    using refresh_publishes [OF reach c(1)] ok hs by (simp add: c(2) demo_start frame worstHealth_def)
qed

section \<open>Commands\<close>

text \<open>
  C30: The action locks are the disjunction of the providers: an action is open exactly when no provider locks it,
  the count is that of the locking providers, and an invalid composition or a safety critical answer that
  does not lock closes every action.
\<close>

theorem action_lock_query:
  fixes locks :: "('a, 'w) ActionLockCoordinator" and action w
  defines "cs \<equiv> lockContributions locks action w"
  shows "lock_query locks action w =
    (if alk_compositionValid locks \<and> (\<forall>c \<in> set cs. alc_safetyCritical c \<longrightarrow> alc_locked c)
     then \<lparr>als_locked = list_ex alc_locked cs,
           als_hasSafetyCriticalLock = list_ex (\<lambda>c. alc_safetyCritical c \<and> alc_locked c) cs,
           als_activeProviderCount = length (filter alc_locked cs), als_compositionValid = True\<rparr>
     else \<lparr>als_locked = True, als_hasSafetyCriticalLock = True, als_activeProviderCount = 0,
           als_compositionValid = False\<rparr>)"
  unfolding cs_def
  by (auto simp: lock_query_def lockLoop_spec lock_failClosed_def ActionLockState_default_def list_ex_iff)

lemma action_lock_query_witness:
  "als_locked (lock_query (ActionLockCoordinator_new (Some [Some (\<lambda>a w. \<lparr>alc_locked = a = w, alc_safetyCritical = False\<rparr>)]) 1) (5 :: nat) 5)"
proof -
  let ?locks = "ActionLockCoordinator_new (Some [Some (\<lambda>(a :: nat) w. \<lparr>alc_locked = a = w, alc_safetyCritical = False\<rparr>)]) 1"
  have cs: "lockContributions ?locks 5 5 = [\<lparr>alc_locked = True, alc_safetyCritical = False\<rparr>]" "alk_compositionValid ?locks"
    by (simp_all add: lockContributions_def ActionLockCoordinator_new_def)
  show ?thesis unfolding action_lock_query cs by simp
qed

text \<open>
  C10: A normal domain command whose pipeline uses the runtime's gates reaches its handler only when the runtime
  is \<open>RUNNING\<close> after a startup without fatal failure, safety is \<open>CLEAR\<close> and no provider locks the action
  of the command; in every other case the handler does not run and the world is unchanged.
\<close>

theorem command_needs_clear_runtime:
  assumes "rt_reachable (runtimeOf w)"
    "cp_validator p = Some (\<lambda>c w. (valid c w, w))" "cp_handler p = Some handler"
    "cp_policy p = Some (policyGate_callback (Some pg))" "pg_routeClass pg = NormalDomain"
    "pg_readStatus pg = Some (\<lambda>w. Some (rt_status (runtimeOf w)))"
    "cp_safety p = Some (safetyGate_callback (Some sg))"
    "sg_readStatus sg = Some (\<lambda>w. Some (rt_status (runtimeOf w)))"
  shows "pipeline_execute p command w =
      (if valid command w \<and> policyGate_allows pg command w \<and> safetyGate_allows sg command w
       then (cer_handled (fst (handler command w)), snd (handler command w))
       else (if \<not> valid command w then cer_invalidCommand
             else if \<not> policyGate_allows pg command w then cer_blockedByPolicy else cer_blockedBySafety, w)) \<and>
    (policyGate_allows pg command w \<and> safetyGate_allows sg command w \<longrightarrow>
      operational (rt_status (runtimeOf w)) = RUNNING \<and> safety (rt_status (runtimeOf w)) = CLEAR \<and>
      sr_complete (rt_report (runtimeOf w)) \<and> \<not> sr_hasFatalFailure (rt_report (runtimeOf w)) \<and>
      (\<exists>resolve locks action. sg_resolveAction sg = Some resolve \<and> sg_actionLocks sg = Some locks \<and>
         resolve command w = Some action \<and> \<not> als_locked (lock_query locks action w)))"
proof
  show "pipeline_execute p command w =
      (if valid command w \<and> policyGate_allows pg command w \<and> safetyGate_allows sg command w
       then (cer_handled (fst (handler command w)), snd (handler command w))
       else (if \<not> valid command w then cer_invalidCommand
             else if \<not> policyGate_allows pg command w then cer_blockedByPolicy else cer_blockedBySafety, w))"
    using assms(2-4,7) by (simp add: pipeline_execute_def pipeline_isValid_def policyGate_callback_def
        safetyGate_callback_def split_beta)
  show "policyGate_allows pg command w \<and> safetyGate_allows sg command w \<longrightarrow>
      operational (rt_status (runtimeOf w)) = RUNNING \<and> safety (rt_status (runtimeOf w)) = CLEAR \<and>
      sr_complete (rt_report (runtimeOf w)) \<and> \<not> sr_hasFatalFailure (rt_report (runtimeOf w)) \<and>
      (\<exists>resolve locks action. sg_resolveAction sg = Some resolve \<and> sg_actionLocks sg = Some locks \<and>
         resolve command w = Some action \<and> \<not> als_locked (lock_query locks action w))"
  proof
    assume a: "policyGate_allows pg command w \<and> safetyGate_allows sg command w"
    then have run: "operational (rt_status (runtimeOf w)) = RUNNING"
      using assms(5,6) by (auto simp: policyGate_allows_iff)
    moreover have "safety (rt_status (runtimeOf w)) = CLEAR \<and>
      (\<exists>resolve locks action. sg_resolveAction sg = Some resolve \<and> sg_actionLocks sg = Some locks \<and>
         resolve command w = Some action \<and> \<not> als_locked (lock_query locks action w))"
      using a assms(8) lock_query_open by (fastforce simp: safetyGate_allows_iff)
    ultimately show "operational (rt_status (runtimeOf w)) = RUNNING \<and> safety (rt_status (runtimeOf w)) = CLEAR \<and>
      sr_complete (rt_report (runtimeOf w)) \<and> \<not> sr_hasFatalFailure (rt_report (runtimeOf w)) \<and>
      (\<exists>resolve locks action. sg_resolveAction sg = Some resolve \<and> sg_actionLocks sg = Some locks \<and>
         resolve command w = Some action \<and> \<not> als_locked (lock_query locks action w))"
      using rt_reachable_ok [OF assms(1)]
      by (auto simp: runtimeOk_def freshRt_def failedRt_def preStartStatus_def)
  qed
qed

definition demoPolicy :: "(nat, string list application_runtime) RuntimeCommandPolicyGate" where
  "demoPolicy = \<lparr>pg_readStatus = Some (\<lambda>w. Some (rt_status w)), pg_resolveClass = Some (\<lambda>c w. Some NormalDomain),
     pg_routeClass = NormalDomain\<rparr>"

definition demoSafety :: "(nat, nat, string list application_runtime) RuntimeCommandSafetyGate" where
  "demoSafety = \<lparr>sg_readStatus = Some (\<lambda>w. Some (rt_status w)), sg_resolveAction = Some (\<lambda>c w. Some c),
     sg_actionLocks = Some (ActionLockCoordinator_new (Some [Some (\<lambda>a w. \<lparr>alc_locked = a = 3, alc_safetyCritical = a = 3\<rparr>)]) 1)\<rparr>"

definition demoPipeline :: "(nat, string list application_runtime) CommandPipelineConfig" where
  "demoPipeline = \<lparr>cp_validator = Some (\<lambda>c w. (c < 10, w)), cp_policy = Some (policyGate_callback (Some demoPolicy)),
     cp_safety = Some (safetyGate_callback (Some demoSafety)),
     cp_handler = Some (\<lambda>c w. (DomainCompleted, w\<lparr>rt_world := rt_world w @ [''handled'']\<rparr>))\<rparr>"

lemma command_needs_clear_runtime_witness:
  "cer_outcome (fst (pipeline_execute demoPipeline 3 (rt_start demoRuntime))) = BlockedBySafety"
proof -
  have reach: "rt_reachable (rt_start demoRuntime)"
    unfolding rt_reachable_def demoRuntime_def by (blast intro: rt_step.start)
  have locked: "\<not> safetyGate_allows demoSafety 3 (rt_start demoRuntime)"
    by (simp add: safetyGate_allows_iff demoSafety_def ActionLockCoordinator_new_def lockContributions_def)
  have open': "policyGate_allows demoPolicy 3 (rt_start demoRuntime)"
    by (simp add: policyGate_allows_iff demoPolicy_def demo_start)
  note t = command_needs_clear_runtime [where runtimeOf = "\<lambda>w. w", OF reach, of demoPipeline "\<lambda>c w. c < 10"
    "\<lambda>c w. (DomainCompleted, w\<lparr>rt_world := rt_world w @ [''handled'']\<rparr>)" demoPolicy demoSafety 3]
  have "pipeline_execute demoPipeline 3 (rt_start demoRuntime) = (cer_blockedBySafety, rt_start demoRuntime)"
    using t locked open' by (simp add: demoPipeline_def demoPolicy_def demoSafety_def)
  then show ?thesis by (simp add: cer_blockedBySafety_def)
qed

end
