(* ===== verification/Float32.thy ===== *)
theory Float32
  imports AquaPrelude Complex_Main
begin

text \<open>
  The C++ type \<open>float\<close> of the ESP32 (IEEE 754 binary32, round to nearest, ties to even), on which
  the water tank of HydroSense computes. A value is NaN, an infinity with its sign, or a rational
  number; each arithmetic operation is the exact one followed by \<open>roundF\<close>. A magnitude is written as
  a multiple of the smallest subnormal \<open>2^-149\<close>, \<open>scaleBits\<close> counts the binary places above the 24
  bits of a significand (253 at most below the overflow threshold) and \<open>roundEven\<close> rounds what is
  left. The two zeros are one value: no code here divides by a zero of known sign or prints one.
  The main results are that rounding is monotone, that it keeps an integer below \<open>2^24\<close>, and that
  the result of an operation between two such integers stays between them.
\<close>

datatype f32 = FNaN | FInf bool | Fin rat

fun scaleBits :: "nat \<Rightarrow> rat \<Rightarrow> nat" where
  "scaleBits 0 s = 0"
| "scaleBits (Suc n) s = (if s < 16777216 then 0 else Suc (scaleBits n (s / 2)))"

definition roundEven :: "rat \<Rightarrow> int" where
  "roundEven s = (let f = \<lfloor>s\<rfloor>; d = s - of_int f in
     if d < 1 / 2 then f else if 1 / 2 < d then f + 1 else if even f then f else f + 1)"

definition roundMag :: "rat \<Rightarrow> rat" where
  "roundMag a = (let s = a * 2 ^ 149; k = scaleBits 253 s
                 in of_int (roundEven (s / 2 ^ k)) * 2 ^ k / 2 ^ 149)"

definition roundF :: "rat \<Rightarrow> f32" where
  "roundF q = (let m = roundMag \<bar>q\<bar> in
     if m < 2 ^ 128 then Fin (if q < 0 then - m else m) else FInf (q < 0))"

fun fneg :: "f32 \<Rightarrow> f32" where
  "fneg FNaN = FNaN"
| "fneg (FInf s) = FInf (\<not> s)"
| "fneg (Fin x) = Fin (- x)"

fun fadd :: "f32 \<Rightarrow> f32 \<Rightarrow> f32" where
  "fadd (Fin x) (Fin y) = roundF (x + y)"
| "fadd (FInf s) (Fin y) = FInf s"
| "fadd (Fin x) (FInf t) = FInf t"
| "fadd (FInf s) (FInf t) = (if s = t then FInf s else FNaN)"
| "fadd _ _ = FNaN"

definition fsub :: "f32 \<Rightarrow> f32 \<Rightarrow> f32" where
  "fsub x y = fadd x (fneg y)"

fun fmul :: "f32 \<Rightarrow> f32 \<Rightarrow> f32" where
  "fmul (Fin x) (Fin y) = roundF (x * y)"
| "fmul (FInf s) (Fin y) = (if y = 0 then FNaN else FInf (s \<noteq> (y < 0)))"
| "fmul (Fin x) (FInf t) = (if x = 0 then FNaN else FInf ((x < 0) \<noteq> t))"
| "fmul (FInf s) (FInf t) = FInf (s \<noteq> t)"
| "fmul _ _ = FNaN"

fun fdiv :: "f32 \<Rightarrow> f32 \<Rightarrow> f32" where
  "fdiv (Fin x) (Fin y) = (if y = 0 then (if x = 0 then FNaN else FInf (x < 0)) else roundF (x / y))"
| "fdiv (FInf s) (Fin y) = FInf (s \<noteq> (y < 0))"
| "fdiv (Fin x) (FInf t) = Fin 0"
| "fdiv _ _ = FNaN"

fun flt :: "f32 \<Rightarrow> f32 \<Rightarrow> bool" where
  "flt (Fin x) (Fin y) = (x < y)"
| "flt (FInf s) (Fin y) = s"
| "flt (Fin x) (FInf t) = (\<not> t)"
| "flt (FInf s) (FInf t) = (s \<and> \<not> t)"
| "flt _ _ = False"

fun fle :: "f32 \<Rightarrow> f32 \<Rightarrow> bool" where
  "fle (Fin x) (Fin y) = (x \<le> y)"
| "fle (FInf s) (Fin y) = s"
| "fle (Fin x) (FInf t) = (\<not> t)"
| "fle (FInf s) (FInf t) = (s \<or> \<not> t)"
| "fle _ _ = False"

definition isfinite :: "f32 \<Rightarrow> bool" where
  "isfinite x = (case x of Fin _ \<Rightarrow> True | _ \<Rightarrow> False)"

text \<open>\<open>static_cast<float>\<close> of a 32-bit unsigned integer.\<close>

definition float_of_u32 :: "u32 \<Rightarrow> f32" where
  "float_of_u32 w = roundF (of_int (uint w))"

text \<open>Inequality, and the conversion to \<open>uint32_t\<close> within its range (outside it C++ leaves the value open).\<close>

definition fneq :: "f32 \<Rightarrow> f32 \<Rightarrow> bool" where
  "fneq x y \<longleftrightarrow> x = FNaN \<or> y = FNaN \<or> x \<noteq> y"

definition u32_of_float :: "f32 \<Rightarrow> u32" where
  "u32_of_float x = (case x of Fin q \<Rightarrow> of_int \<lfloor>q\<rfloor> | _ \<Rightarrow> 0)"

section \<open>Rounding\<close>

lemma roundEven_of_int [simp]: "roundEven (of_int n) = n"
  by (simp add: roundEven_def Let_def)

lemma roundEven_bounds: "\<lfloor>s\<rfloor> \<le> roundEven s" "roundEven s \<le> \<lfloor>s\<rfloor> + 1"
  by (simp_all add: roundEven_def Let_def)

lemma roundEven_mono:
  assumes "s \<le> t"
  shows "roundEven s \<le> roundEven t"
proof (cases "\<lfloor>s\<rfloor> = \<lfloor>t\<rfloor>")
  case True
  then show ?thesis using assms by (simp add: roundEven_def Let_def)
next
  case False
  then have "\<lfloor>s\<rfloor> + 1 \<le> \<lfloor>t\<rfloor>" using floor_mono [OF assms] by linarith
  then show ?thesis using roundEven_bounds [of s] roundEven_bounds [of t] by linarith
qed

lemma scaleBits_le: "scaleBits n s \<le> n"
  by (induction n s rule: scaleBits.induct) auto

lemma scaleBits_mono: "s \<le> t \<Longrightarrow> scaleBits n s \<le> scaleBits n t"
  by (induction n s arbitrary: t rule: scaleBits.induct) (auto intro: divide_right_mono)

lemma scaleBits_upper: "scaleBits n s < n \<Longrightarrow> s / 2 ^ scaleBits n s < 16777216"
  by (induction n s rule: scaleBits.induct) (auto split: if_splits simp: field_simps)

lemma scaleBits_lower: "0 < scaleBits n s \<Longrightarrow> 8388608 \<le> s / 2 ^ scaleBits n s"
proof (induction n s rule: scaleBits.induct)
  case (2 n s)
  show ?case
  proof (cases "s < 16777216")
    case False
    show ?thesis
    proof (cases "scaleBits n (s / 2) = 0")
      case True
      then show ?thesis using False by (simp add: field_simps)
    next
      case nz: False
      then show ?thesis using "2.IH" [OF False] False by (simp add: field_simps)
    qed
  qed (use 2 in simp)
qed simp

lemma scaleBits_representable:
  "s \<le> 16777215 * 2 ^ k \<Longrightarrow> scaleBits n s \<le> k"
proof (induction n s arbitrary: k rule: scaleBits.induct)
  case (2 n s)
  show ?case
  proof (cases "s < 16777216")
    case False
    then obtain j where k: "k = Suc j"
      using 2(2) by (cases k) auto
    then have "s / 2 \<le> 16777215 * 2 ^ j" using 2(2) by simp
    then show ?thesis using "2.IH" [OF False] False k by simp
  qed simp
qed simp

lemma roundMag_mono:
  assumes "a \<le> b"
  shows "roundMag a \<le> roundMag b"
proof -
  define s where "s = a * 2 ^ 149"
  define t where "t = b * 2 ^ 149"
  define k where "k = scaleBits 253 s"
  define l where "l = scaleBits 253 t"
  have st: "s \<le> t" using assms by (simp add: s_def t_def)
  then have kl: "k \<le> l" unfolding k_def l_def by (rule scaleBits_mono)
  have "of_int (roundEven (s / 2 ^ k)) * 2 ^ k \<le> (of_int (roundEven (t / 2 ^ l)) * 2 ^ l :: rat)"
  proof (cases "k = l")
    case True
    have "s / 2 ^ k \<le> t / 2 ^ k" using st by (rule divide_right_mono) simp
    then show ?thesis using True by (simp add: roundEven_mono)
  next
    case False
    then obtain d where l: "l = Suc (k + d)" using kl by (metis less_natE le_neq_implies_less add_Suc_right)
    have "k < 253" using scaleBits_le [of 253 t] l unfolding l_def by linarith
    then have "s / 2 ^ k < 16777216" unfolding k_def by (rule scaleBits_upper)
    then have "roundEven (s / 2 ^ k) \<le> roundEven (of_int 16777216)"
      by (intro roundEven_mono) simp
    then have A: "of_int (roundEven (s / 2 ^ k)) \<le> (16777216 :: rat)" by (simp only: roundEven_of_int)
    have "8388608 \<le> t / 2 ^ l" using scaleBits_lower [of 253 t] l unfolding l_def by simp
    then have "roundEven (of_int 8388608) \<le> roundEven (t / 2 ^ l)"
      by (intro roundEven_mono) simp
    then have B: "(8388608 :: rat) \<le> of_int (roundEven (t / 2 ^ l))" by (simp only: roundEven_of_int)
    have "of_int (roundEven (s / 2 ^ k)) * 2 ^ k \<le> 16777216 * (2 ^ k :: rat)" using A by simp
    also have "\<dots> \<le> 8388608 * 2 ^ l" unfolding l by (simp add: power_add)
    also have "\<dots> \<le> of_int (roundEven (t / 2 ^ l)) * 2 ^ l" using B by simp
    finally show ?thesis .
  qed
  then show ?thesis
    unfolding roundMag_def Let_def s_def [symmetric] t_def [symmetric] k_def [symmetric] l_def [symmetric]
    by (simp add: divide_right_mono)
qed

lemma roundMag_representable:
  assumes "s = of_int m * 2 ^ k / 2 ^ 149" and "0 \<le> m" and "m \<le> 16777215"
  shows "roundMag s = s"
proof -
  define t where "t = s * 2 ^ 149"
  define l where "l = scaleBits 253 t"
  have t: "t = of_int m * 2 ^ k" by (simp add: t_def assms(1))
  have "t \<le> 16777215 * 2 ^ k" using assms(3) by (simp add: t)
  then have "l \<le> k" unfolding l_def by (rule scaleBits_representable)
  then obtain d where k: "k = l + d" using le_Suc_ex by blast
  have "t / 2 ^ l = of_int (m * 2 ^ d)" by (simp add: t k power_add)
  then have "roundEven (t / 2 ^ l) = m * 2 ^ d" by (simp only: roundEven_of_int)
  then have "of_int (roundEven (t / 2 ^ l)) * 2 ^ l / 2 ^ 149 = (s :: rat)"
    by (simp add: assms(1) k power_add)
  then show ?thesis unfolding roundMag_def Let_def t_def [symmetric] l_def [symmetric] .
qed

lemma roundMag_int:
  assumes "0 \<le> m" and "m \<le> 16777215"
  shows "roundMag (of_int m) = of_int m"
  by (rule roundMag_representable [where k = 149]) (use assms in simp_all)

lemma roundF_int [simp]:
  assumes "\<bar>n\<bar> \<le> 16777215"
  shows "roundF (of_int n) = Fin (of_int n)"
proof -
  have "roundMag \<bar>of_int n\<bar> = of_int \<bar>n\<bar>" using roundMag_int [of "\<bar>n\<bar>"] assms by simp
  moreover have "of_int \<bar>n\<bar> < (2 ^ 128 :: rat)"
  proof -
    have "of_int \<bar>n\<bar> \<le> (16777215 :: rat)" using assms by linarith
    then show ?thesis by simp
  qed
  ultimately show ?thesis by (simp add: roundF_def Let_def)
qed

lemma roundMag_between:
  assumes "of_int a \<le> q" and "q \<le> of_int b" and "0 \<le> a" and "b \<le> 16777215"
  shows "of_int a \<le> roundMag q" "roundMag q \<le> of_int b" "roundMag q < 2 ^ 128"
proof -
  have ab: "a \<le> b" using assms(1,2) by linarith
  have "roundMag (of_int a) \<le> roundMag q" by (rule roundMag_mono) (rule assms)
  then show "of_int a \<le> roundMag q" using roundMag_int [of a] assms ab by simp
  have "roundMag q \<le> roundMag (of_int b)" by (rule roundMag_mono) (rule assms)
  then show B: "roundMag q \<le> of_int b" using roundMag_int [of b] assms ab by simp
  have "(of_int b :: rat) \<le> 16777215" using assms(4) by linarith
  then show "roundMag q < 2 ^ 128" using B by simp
qed

lemma roundF_between:
  assumes "of_int a \<le> q" and "q \<le> of_int b" and "0 \<le> a" and "b \<le> 16777215"
  shows "\<exists>r. roundF q = Fin r \<and> of_int a \<le> r \<and> r \<le> of_int b"
proof -
  have q0: "0 \<le> q" using assms(1,3) by linarith
  show ?thesis using roundMag_between [OF assms] q0 by (simp add: roundF_def Let_def)
qed

text \<open>Numeral instances, for evaluation.\<close>

lemma roundF_numeral [simp]:
  "roundF 0 = Fin 0" "roundF 1 = Fin 1"
  "numeral n \<le> (16777215 :: int) \<Longrightarrow> roundF (numeral n) = Fin (numeral n)"
  using roundF_int [of 0] roundF_int [of 1] roundF_int [of "numeral n"] by simp_all

lemma roundF_half:
  assumes "0 \<le> m" and "m \<le> 16777215"
  shows "roundF (of_int m / 2) = Fin (of_int m / 2)"
proof -
  have "roundMag (of_int m / 2) = of_int m / 2"
    by (rule roundMag_representable [where k = 148]) (use assms in simp_all)
  moreover have "of_int m / 2 < (2 ^ 128 :: rat)"
  proof -
    have "of_int m \<le> (16777215 :: rat)" using assms by linarith
    then show ?thesis by simp
  qed
  ultimately show ?thesis using assms by (simp add: roundF_def Let_def)
qed

lemma flt_irrefl [simp]: "\<not> flt x x"
  by (cases x) simp_all

lemma flt_Fin_False: "isfinite x \<Longrightarrow> isfinite y \<Longrightarrow> \<not> flt x y \<longleftrightarrow> fle y x"
  by (cases x; cases y) (simp_all add: isfinite_def not_less)

lemma fsub_Fin [simp]: "fsub (Fin x) (Fin y) = roundF (x - y)"
  by (simp add: fsub_def)

text \<open>A bound by a power of two is kept, and the result is finite.\<close>

lemma roundMag_pow2:
  assumes "0 \<le> q" and "q \<le> 2 ^ k"
  shows "0 \<le> roundMag q" "roundMag q \<le> 2 ^ k"
proof -
  have p: "roundMag (2 ^ k) = 2 ^ k"
    by (rule roundMag_representable [where m = 1 and k = "149 + k"]) (simp_all add: power_add)
  have z: "roundMag 0 = 0" using roundMag_int [of 0] by simp
  show "roundMag q \<le> 2 ^ k" using roundMag_mono [OF assms(2)] p by simp
  show "0 \<le> roundMag q" using roundMag_mono [OF assms(1)] z by simp
qed

lemma roundF_pow2:
  assumes "\<bar>q\<bar> \<le> 2 ^ k" and "k < 128"
  shows "\<exists>r. roundF q = Fin r \<and> \<bar>r\<bar> \<le> 2 ^ k"
proof -
  have m: "0 \<le> roundMag \<bar>q\<bar>" "roundMag \<bar>q\<bar> \<le> 2 ^ k"
    using roundMag_pow2 [of "\<bar>q\<bar>" k] assms(1) by simp_all
  have "(2 :: rat) ^ k < 2 ^ 128" using assms(2) by (rule power_strict_increasing) simp
  then have "roundMag \<bar>q\<bar> < 2 ^ 128" using m(2) by (rule le_less_trans [rotated])
  then show ?thesis using m by (cases "q < 0") (simp_all add: roundF_def Let_def)
qed

lemma roundF_not_NaN [simp]: "roundF q \<noteq> FNaN"
  by (simp add: roundF_def Let_def)

lemma roundF_nonneg: "0 \<le> q \<Longrightarrow> roundF q = Fin r \<Longrightarrow> 0 \<le> r"
proof -
  assume q: "0 \<le> q" "roundF q = Fin r"
  have "0 \<le> roundMag q" using roundMag_mono [OF q(1)] roundMag_int [of 0] by simp
  then show "0 \<le> r" using q by (simp add: roundF_def Let_def split: if_splits)
qed

text \<open>A difference of finite floats that lies between zero and a finite float is finite.\<close>

lemma roundF_le_finite:
  assumes "0 \<le> q" and "q \<le> e" and "roundF e = Fin e"
  shows "\<exists>r. roundF q = Fin r \<and> 0 \<le> r \<and> r \<le> e"
proof -
  have e: "0 \<le> e" using assms by linarith
  then have me: "roundMag e = e" "roundMag e < 2 ^ 128"
    using assms(3) by (auto simp: roundF_def Let_def split: if_splits)
  have "0 \<le> roundMag q" using roundMag_mono [OF assms(1)] roundMag_int [of 0] by simp
  moreover have "roundMag q \<le> e" using roundMag_mono [OF assms(2)] me by simp
  ultimately show ?thesis using assms(1) me by (simp add: roundF_def Let_def)
qed

end
