(* ===== verification/HydroDevices.thy ===== *)
theory HydroDevices
  imports Float32
begin

text \<open>
  The board of aquaOneHydro (\<open>src/aquaOneHydro/src/hardware\<close>). The Arduino calls are the interface
  to hardware that is not part of the program: every reading (\<open>millis\<close>, \<open>digitalRead\<close>, \<open>pulseIn\<close>)
  takes the next instant of the board and the value the environment functions \<open>millisAt\<close>,
  \<open>levelAt\<close> and \<open>echoAt\<close> give at it, so two readings in one handler may differ; \<open>digitalWrite\<close> and
  \<open>pinMode\<close> change the output level and the mode of a pin. \<open>True\<close> is the level HIGH. The short
  \<open>delayMicroseconds\<close> pauses of the trigger pulse only let time pass and are not written out.

  The application is one record, extended component by component: a C++ reference to another
  component is an access to the fields of that component in the same record. Here are the fields of
  the pump, the float switch, the ultrasonic sensor, the button and the buzzer, with the methods of
  their classes.
\<close>

datatype pin_mode = INPUT | INPUT_PULLUP | OUTPUT

record board =
  ioCount :: nat
  millisAt :: "nat \<Rightarrow> u32"
  levelAt :: "nat \<Rightarrow> u8 \<Rightarrow> bool"
  echoAt :: "nat \<Rightarrow> u8 \<Rightarrow> u32 \<Rightarrow> u32"
  outLevel :: "u8 \<Rightarrow> bool"
  modeOf :: "u8 \<Rightarrow> pin_mode"

definition millis :: "'a board_scheme \<Rightarrow> u32 \<times> 'a board_scheme" where
  "millis s = (millisAt s (ioCount s), s\<lparr>ioCount := Suc (ioCount s)\<rparr>)"

definition digitalRead :: "u8 \<Rightarrow> 'a board_scheme \<Rightarrow> bool \<times> 'a board_scheme" where
  "digitalRead pin s = (levelAt s (ioCount s) pin, s\<lparr>ioCount := Suc (ioCount s)\<rparr>)"

definition pulseIn :: "u8 \<Rightarrow> u32 \<Rightarrow> 'a board_scheme \<Rightarrow> u32 \<times> 'a board_scheme" where
  "pulseIn pin timeoutUs s =
     (echoAt s (ioCount s) pin timeoutUs, s\<lparr>ioCount := Suc (ioCount s)\<rparr>)"

definition digitalWrite :: "u8 \<Rightarrow> bool \<Rightarrow> 'a board_scheme \<Rightarrow> 'a board_scheme" where
  "digitalWrite pin level s = s\<lparr>outLevel := (outLevel s)(pin := level)\<rparr>"

definition pinMode :: "u8 \<Rightarrow> pin_mode \<Rightarrow> 'a board_scheme \<Rightarrow> 'a board_scheme" where
  "pinMode pin m s = s\<lparr>modeOf := (modeOf s)(pin := m)\<rparr>"

named_theorems board_defs \<open>the Arduino calls\<close>
named_theorems device_defs \<open>the methods of the device classes\<close>

lemmas [board_defs] = millis_def digitalRead_def pulseIn_def digitalWrite_def pinMode_def

section \<open>Pins\<close>

definition PIN_PUMP :: u8 where "PIN_PUMP = 1"
definition PIN_ULTRASONIC_TRIG :: u8 where "PIN_ULTRASONIC_TRIG = 2"
definition PIN_ULTRASONIC_ECHO :: u8 where "PIN_ULTRASONIC_ECHO = 3"
definition PIN_FLOAT_SENSOR :: u8 where "PIN_FLOAT_SENSOR = 4"
definition PIN_BUTTON :: u8 where "PIN_BUTTON = 11"
definition PIN_BUZZER :: u8 where "PIN_BUZZER = 12"

lemmas pin_defs = PIN_PUMP_def PIN_ULTRASONIC_TRIG_def PIN_ULTRASONIC_ECHO_def PIN_FLOAT_SENSOR_def
  PIN_BUTTON_def PIN_BUZZER_def

section \<open>The device fields\<close>

record hydro_hw = board +
  pump_pin :: u8
  pump_isOn :: bool
  float_pin :: u8
  float_activeLow :: bool
  float_usePullup :: bool
  float_debounceMs :: u32
  float_rawState :: bool
  float_stableState :: bool
  float_lastChangeMs :: u32
  us_trigPin :: u8
  us_echoPin :: u8
  us_minDistanceCm :: f32
  us_maxDistanceCm :: f32
  us_timeoutUs :: u32
  us_distanceCm :: f32
  us_valid :: bool
  btn_pin :: u8
  btn_activeLow :: bool
  btn_usePullup :: bool
  btn_debounceMs :: u32
  btn_longPressMs :: u32
  btn_rawPressed :: bool
  btn_stablePressed :: bool
  btn_longPressReported :: bool
  btn_shortPressEvent :: bool
  btn_longPressEvent :: bool
  btn_rawChangeMs :: u32
  btn_pressStartMs :: u32
  bz_pin :: u8
  bz_activeHigh :: bool
  bz_isOn :: bool

subsection \<open>Pump\<close>

definition pump_begin :: "'a hydro_hw_scheme \<Rightarrow> 'a hydro_hw_scheme" where
  "pump_begin s = (digitalWrite (pump_pin s) False (pinMode (pump_pin s) OUTPUT s))\<lparr>pump_isOn := False\<rparr>"

definition pump_on :: "'a hydro_hw_scheme \<Rightarrow> 'a hydro_hw_scheme" where
  "pump_on s = (digitalWrite (pump_pin s) True s)\<lparr>pump_isOn := True\<rparr>"

definition pump_off :: "'a hydro_hw_scheme \<Rightarrow> 'a hydro_hw_scheme" where
  "pump_off s = (digitalWrite (pump_pin s) False s)\<lparr>pump_isOn := False\<rparr>"

subsection \<open>Float switch\<close>

definition float_configure :: "bool \<Rightarrow> bool \<Rightarrow> u32 \<Rightarrow> 'a hydro_hw_scheme \<Rightarrow> 'a hydro_hw_scheme" where
  "float_configure activeLow usePullup debounceMs s =
     s\<lparr>float_activeLow := activeLow, float_usePullup := usePullup, float_debounceMs := debounceMs\<rparr>"

definition float_readActive :: "'a hydro_hw_scheme \<Rightarrow> bool \<times> 'a hydro_hw_scheme" where
  "float_readActive s = (let (pinHigh, s) = digitalRead (float_pin s) s
     in (if float_activeLow s then \<not> pinHigh else pinHigh, s))"

definition float_begin :: "'a hydro_hw_scheme \<Rightarrow> 'a hydro_hw_scheme" where
  "float_begin s =
    (let s = pinMode (float_pin s) (if float_usePullup s then INPUT_PULLUP else INPUT) s;
         (active, s) = float_readActive s;
         s = s\<lparr>float_rawState := active\<rparr>;
         s = s\<lparr>float_stableState := float_rawState s\<rparr>;
         (now, s) = millis s
     in s\<lparr>float_lastChangeMs := now\<rparr>)"

definition float_update :: "'a hydro_hw_scheme \<Rightarrow> 'a hydro_hw_scheme" where
  "float_update s =
    (let (currentState, s) = float_readActive s;
         (now, s) = millis s;
         s = (if currentState \<noteq> float_rawState s
              then s\<lparr>float_rawState := currentState, float_lastChangeMs := now\<rparr> else s)
     in if float_stableState s \<noteq> float_rawState s \<and> now - float_lastChangeMs s \<ge> float_debounceMs s
        then s\<lparr>float_stableState := float_rawState s\<rparr> else s)"

subsection \<open>Ultrasonic sensor\<close>

definition us_configure :: "f32 \<Rightarrow> f32 \<Rightarrow> u32 \<Rightarrow> 'a hydro_hw_scheme \<Rightarrow> 'a hydro_hw_scheme" where
  "us_configure minDistanceCm maxDistanceCm timeoutUs s =
     s\<lparr>us_minDistanceCm := minDistanceCm, us_maxDistanceCm := maxDistanceCm, us_timeoutUs := timeoutUs\<rparr>"

definition us_begin :: "'a hydro_hw_scheme \<Rightarrow> 'a hydro_hw_scheme" where
  "us_begin s =
    (let s = pinMode (us_trigPin s) OUTPUT s;
         s = digitalWrite (us_trigPin s) False s;
         s = pinMode (us_echoPin s) INPUT s
     in s\<lparr>us_distanceCm := Fin 0, us_valid := False\<rparr>)"

definition echoDistance :: "u32 \<Rightarrow> f32" where
  "echoDistance durationUs = fdiv (fmul (float_of_u32 durationUs) (roundF (343 / 10000))) (Fin 2)"

definition us_measure :: "'a hydro_hw_scheme \<Rightarrow> bool \<times> 'a hydro_hw_scheme" where
  "us_measure s =
    (let s = digitalWrite (us_trigPin s) False s;
         s = digitalWrite (us_trigPin s) True s;
         s = digitalWrite (us_trigPin s) False s;
         (durationUs, s) = pulseIn (us_echoPin s) (us_timeoutUs s) s
     in if durationUs = 0 then (False, s\<lparr>us_valid := False\<rparr>)
        else let measuredDistance = echoDistance durationUs
             in if flt measuredDistance (us_minDistanceCm s) \<or> flt (us_maxDistanceCm s) measuredDistance
                then (False, s\<lparr>us_valid := False\<rparr>)
                else (True, s\<lparr>us_distanceCm := measuredDistance, us_valid := True\<rparr>))"

subsection \<open>Button\<close>

definition btn_configure :: "bool \<Rightarrow> bool \<Rightarrow> u32 \<Rightarrow> u32 \<Rightarrow> 'a hydro_hw_scheme \<Rightarrow> 'a hydro_hw_scheme" where
  "btn_configure activeLow usePullup debounceMs longPressMs s =
     s\<lparr>btn_activeLow := activeLow, btn_usePullup := usePullup, btn_debounceMs := debounceMs,
       btn_longPressMs := longPressMs\<rparr>"

definition btn_readPressed :: "'a hydro_hw_scheme \<Rightarrow> bool \<times> 'a hydro_hw_scheme" where
  "btn_readPressed s = (let (pinHigh, s) = digitalRead (btn_pin s) s
     in (if btn_activeLow s then \<not> pinHigh else pinHigh, s))"

definition btn_begin :: "'a hydro_hw_scheme \<Rightarrow> 'a hydro_hw_scheme" where
  "btn_begin s =
    (let s = pinMode (btn_pin s) (if btn_usePullup s then INPUT_PULLUP else INPUT) s;
         (pressed, s) = btn_readPressed s;
         s = s\<lparr>btn_rawPressed := pressed, btn_stablePressed := pressed, btn_longPressReported := False,
               btn_shortPressEvent := False, btn_longPressEvent := False\<rparr>;
         (t, s) = millis s;
         s = s\<lparr>btn_rawChangeMs := t\<rparr>
     in if btn_stablePressed s then let (t, s) = millis s in s\<lparr>btn_pressStartMs := t\<rparr>
        else s\<lparr>btn_pressStartMs := 0\<rparr>)"

text \<open>The three blocks of \<open>Button::update\<close>: the raw level, the debounced level, the long press.\<close>

definition btn_observe :: "u32 \<Rightarrow> bool \<Rightarrow> 'a hydro_hw_scheme \<Rightarrow> 'a hydro_hw_scheme" where
  "btn_observe now currentRaw s =
    (if currentRaw \<noteq> btn_rawPressed s
     then s\<lparr>btn_rawPressed := currentRaw, btn_rawChangeMs := now\<rparr> else s)"

definition btn_settle :: "u32 \<Rightarrow> 'a hydro_hw_scheme \<Rightarrow> 'a hydro_hw_scheme" where
  "btn_settle now s =
    (if btn_stablePressed s \<noteq> btn_rawPressed s \<and> now - btn_rawChangeMs s \<ge> btn_debounceMs s
     then let s = s\<lparr>btn_stablePressed := btn_rawPressed s\<rparr>
          in if btn_stablePressed s then s\<lparr>btn_pressStartMs := now, btn_longPressReported := False\<rparr>
             else (if \<not> btn_longPressReported s then s\<lparr>btn_shortPressEvent := True\<rparr> else s)
                    \<lparr>btn_pressStartMs := 0\<rparr>
     else s)"

definition btn_hold :: "u32 \<Rightarrow> 'a hydro_hw_scheme \<Rightarrow> 'a hydro_hw_scheme" where
  "btn_hold now s =
    (if btn_stablePressed s \<and> \<not> btn_longPressReported s \<and> now - btn_pressStartMs s \<ge> btn_longPressMs s
     then s\<lparr>btn_longPressReported := True, btn_longPressEvent := True\<rparr> else s)"

definition btn_update :: "'a hydro_hw_scheme \<Rightarrow> 'a hydro_hw_scheme" where
  "btn_update s =
    (let (now, s) = millis s;
         (currentRaw, s) = btn_readPressed s
     in btn_hold now (btn_settle now (btn_observe now currentRaw s)))"

definition btn_shortPress :: "'a hydro_hw_scheme \<Rightarrow> bool \<times> 'a hydro_hw_scheme" where
  "btn_shortPress s = (if \<not> btn_shortPressEvent s then (False, s)
                       else (True, s\<lparr>btn_shortPressEvent := False\<rparr>))"

definition btn_longPress :: "'a hydro_hw_scheme \<Rightarrow> bool \<times> 'a hydro_hw_scheme" where
  "btn_longPress s = (if \<not> btn_longPressEvent s then (False, s)
                      else (True, s\<lparr>btn_longPressEvent := False\<rparr>))"

subsection \<open>Buzzer\<close>

definition bz_configure :: "bool \<Rightarrow> 'a hydro_hw_scheme \<Rightarrow> 'a hydro_hw_scheme" where
  "bz_configure activeHigh s = s\<lparr>bz_activeHigh := activeHigh\<rparr>"

definition bz_begin :: "'a hydro_hw_scheme \<Rightarrow> 'a hydro_hw_scheme" where
  "bz_begin s = (digitalWrite (bz_pin s) (\<not> bz_activeHigh s) (pinMode (bz_pin s) OUTPUT s))\<lparr>bz_isOn := False\<rparr>"

definition bz_writeState :: "bool \<Rightarrow> 'a hydro_hw_scheme \<Rightarrow> 'a hydro_hw_scheme" where
  "bz_writeState enabled s =
     (digitalWrite (bz_pin s) (if enabled then bz_activeHigh s else \<not> bz_activeHigh s) s)\<lparr>bz_isOn := enabled\<rparr>"

definition bz_on :: "'a hydro_hw_scheme \<Rightarrow> 'a hydro_hw_scheme" where
  "bz_on s = bz_writeState True s"

definition bz_off :: "'a hydro_hw_scheme \<Rightarrow> 'a hydro_hw_scheme" where
  "bz_off s = bz_writeState False s"

lemmas [device_defs] = pump_begin_def pump_on_def pump_off_def
  float_configure_def float_readActive_def float_begin_def float_update_def
  us_configure_def us_begin_def us_measure_def
  btn_configure_def btn_readPressed_def btn_begin_def btn_observe_def btn_settle_def btn_hold_def
  btn_update_def btn_shortPress_def btn_longPress_def
  bz_configure_def bz_begin_def bz_writeState_def bz_on_def bz_off_def

end
