(* ===== verification/HydroTank.thy ===== *)
theory HydroTank
  imports HydroDevices "HOL-Library.Multiset"
begin

text \<open>
  The RO water tank (\<open>WaterTank.cpp\<close>): one distance sample per interval, five attempts per series,
  the median of at least three valid samples, the level above the empty mark clamped to the usable
  height, and a failure counter that saturates at 255 and raises the sensor fault.
  The array \<open>samples_\<close> is the list \<open>tank_samples\<close> of five floats; \<open>median\<close> sorts its first \<open>count\<close>
  entries in place, so it returns the sorted array too. Then the reserve state machine with
  hysteresis (\<open>WaterReserve.cpp\<close>).
\<close>

definition SAMPLE_COUNT :: u8 where "SAMPLE_COUNT = 5"
definition MIN_VALID_SAMPLES :: u8 where "MIN_VALID_SAMPLES = 3"

record hydro_tank = hydro_hw +
  tank_emptyDistanceCm :: f32
  tank_fullDistanceCm :: f32
  tank_sampleIntervalMs :: u32
  tank_maxFailedSeries :: u8
  tank_samples :: "f32 list"
  tank_attempts :: u8
  tank_validSamples :: u8
  tank_failedSeries :: u8
  tank_lastSampleMs :: u32
  tank_lastValidReadingMs :: u32
  tank_distanceCm :: f32
  tank_levelCm :: f32
  tank_levelPercent :: f32
  tank_valid :: bool
  tank_newReading :: bool
  tank_sensorFault :: bool

named_theorems tank_defs \<open>the methods of WaterTank\<close>

definition tank_configure :: "f32 \<Rightarrow> f32 \<Rightarrow> u32 \<Rightarrow> u8 \<Rightarrow> 'a hydro_tank_scheme \<Rightarrow> 'a hydro_tank_scheme" where
  "tank_configure emptyDistanceCm fullDistanceCm sampleIntervalMs maxFailedSeries s =
     s\<lparr>tank_emptyDistanceCm := emptyDistanceCm, tank_fullDistanceCm := fullDistanceCm,
       tank_sampleIntervalMs := sampleIntervalMs, tank_maxFailedSeries := maxFailedSeries\<rparr>"

definition tank_begin :: "'a hydro_tank_scheme \<Rightarrow> 'a hydro_tank_scheme" where
  "tank_begin s =
    (let s = s\<lparr>tank_attempts := 0, tank_validSamples := 0, tank_failedSeries := 0\<rparr>;
         (now, s) = millis s
     in s\<lparr>tank_lastSampleMs := now, tank_lastValidReadingMs := 0,
          tank_distanceCm := Fin 0, tank_levelCm := Fin 0, tank_levelPercent := Fin 0,
          tank_valid := False, tank_newReading := False, tank_sensorFault := False\<rparr>)"

text \<open>
  \<open>median\<close>: exchange sort of the first \<open>count\<close> values. The 8-bit counters do not wrap, since
  \<open>i < count - 1\<close> and \<open>j < count\<close>, so they are naturals here.
\<close>

fun medianInner :: "nat \<Rightarrow> nat \<Rightarrow> nat \<Rightarrow> f32 list \<Rightarrow> f32 list" where
  "medianInner 0 i j values = values"
| "medianInner (Suc n) i j values =
     medianInner n i (Suc j)
       (if flt (values ! j) (values ! i) then values[i := values ! j, j := values ! i] else values)"

fun medianOuter :: "nat \<Rightarrow> nat \<Rightarrow> nat \<Rightarrow> f32 list \<Rightarrow> f32 list" where
  "medianOuter 0 cnt i values = values"
| "medianOuter (Suc n) cnt i values =
     medianOuter n cnt (Suc i) (medianInner (cnt - Suc i) i (Suc i) values)"

definition sortSamples :: "f32 list \<Rightarrow> nat \<Rightarrow> f32 list" where
  "sortSamples values cnt = medianOuter (cnt - 1) cnt 0 values"

definition median :: "f32 list \<Rightarrow> u8 \<Rightarrow> f32 \<times> f32 list" where
  "median values cnt =
    (let values = sortSamples values (unat cnt)
     in if cnt mod 2 = 1 then (values ! unat (cnt div 2), values)
        else let upper = cnt div 2; lower = upper - 1
             in (fdiv (fadd (values ! unat lower) (values ! unat upper)) (Fin 2), values))"

definition tank_processSamples :: "'a hydro_tank_scheme \<Rightarrow> 'a hydro_tank_scheme" where
  "tank_processSamples s =
    (let usableHeight = fsub (tank_emptyDistanceCm s) (tank_fullDistanceCm s)
     in if fle usableHeight (Fin 0) then s\<lparr>tank_valid := False\<rparr>
        else let (m, sorted) = median (tank_samples s) (tank_validSamples s);
                 s = s\<lparr>tank_samples := sorted, tank_distanceCm := m\<rparr>;
                 s = s\<lparr>tank_levelCm := fsub (tank_emptyDistanceCm s) (tank_distanceCm s)\<rparr>;
                 s = (if flt (tank_levelCm s) (Fin 0) then s\<lparr>tank_levelCm := Fin 0\<rparr> else s);
                 s = (if flt usableHeight (tank_levelCm s) then s\<lparr>tank_levelCm := usableHeight\<rparr> else s)
             in s\<lparr>tank_levelPercent := fmul (fdiv (tank_levelCm s) usableHeight) (Fin 100),
                  tank_valid := True\<rparr>)"

definition tank_finishSeries :: "'a hydro_tank_scheme \<Rightarrow> 'a hydro_tank_scheme" where
  "tank_finishSeries s =
    (let s = (if tank_validSamples s \<ge> MIN_VALID_SAMPLES
              then let s = tank_processSamples s
                   in if tank_valid s
                      then let s = s\<lparr>tank_failedSeries := 0, tank_sensorFault := False\<rparr>;
                               (now, s) = millis s
                           in s\<lparr>tank_lastValidReadingMs := now\<rparr>
                      else s
              else s\<lparr>tank_valid := False\<rparr>);
         s = (if \<not> tank_valid s
              then let s = (if tank_failedSeries s < 255
                            then s\<lparr>tank_failedSeries := tank_failedSeries s + 1\<rparr> else s)
                   in if tank_failedSeries s \<ge> tank_maxFailedSeries s
                      then s\<lparr>tank_sensorFault := True\<rparr> else s
              else s)
     in s\<lparr>tank_newReading := True, tank_attempts := 0, tank_validSamples := 0\<rparr>)"

text \<open>One attempt of \<open>update\<close>: a measurement, stored when it is valid and there is room.\<close>

definition tank_sample :: "'a hydro_tank_scheme \<Rightarrow> 'a hydro_tank_scheme" where
  "tank_sample s =
    (let s = s\<lparr>tank_attempts := tank_attempts s + 1\<rparr>;
         (measured, s) = us_measure s
     in if measured \<and> tank_validSamples s < SAMPLE_COUNT
        then s\<lparr>tank_samples := (tank_samples s)[unat (tank_validSamples s) := us_distanceCm s],
               tank_validSamples := tank_validSamples s + 1\<rparr>
        else s)"

definition tank_update :: "'a hydro_tank_scheme \<Rightarrow> 'a hydro_tank_scheme" where
  "tank_update s =
    (let (now, s) = millis s
     in if now - tank_lastSampleMs s < tank_sampleIntervalMs s then s
        else let s = tank_sample (s\<lparr>tank_lastSampleMs := now\<rparr>)
             in if tank_attempts s \<ge> SAMPLE_COUNT then tank_finishSeries s else s)"

definition tank_clearNewReading :: "'a hydro_tank_scheme \<Rightarrow> 'a hydro_tank_scheme" where
  "tank_clearNewReading s = s\<lparr>tank_newReading := False\<rparr>"

lemmas [tank_defs] = tank_configure_def tank_begin_def tank_processSamples_def
  tank_finishSeries_def tank_sample_def tank_update_def tank_clearNewReading_def

section \<open>The exchange sort\<close>

text \<open>
  On finite floats the loops are the exchange sort of their rational values. \<open>innerR\<close> and \<open>outerR\<close>
  are the same loops on rationals; after the inner loop, position \<open>i\<close> holds the least of the values
  from \<open>i\<close> on.
\<close>

fun innerR :: "nat \<Rightarrow> nat \<Rightarrow> nat \<Rightarrow> rat list \<Rightarrow> rat list" where
  "innerR 0 i j v = v"
| "innerR (Suc n) i j v =
     innerR n i (Suc j) (if v ! j < v ! i then v[i := v ! j, j := v ! i] else v)"

fun outerR :: "nat \<Rightarrow> nat \<Rightarrow> nat \<Rightarrow> rat list \<Rightarrow> rat list" where
  "outerR 0 cnt i v = v"
| "outerR (Suc n) cnt i v = outerR n cnt (Suc i) (innerR (cnt - Suc i) i (Suc i) v)"

lemma length_innerR [simp]: "length (innerR n i j v) = length v"
  by (induction n i j v rule: innerR.induct) (simp_all add: Let_def)

lemma length_outerR [simp]: "length (outerR n c i v) = length v"
  by (induction n c i v rule: outerR.induct) simp_all

lemma medianInner_Fin:
  "i < j \<Longrightarrow> j + n \<le> length v \<Longrightarrow> medianInner n i j (map Fin v) = map Fin (innerR n i j v)"
proof (induction n i j v rule: innerR.induct)
  case (2 n i j v)
  then have ij: "i < length v" "j < length v" by simp_all
  have eq: "(if flt (map Fin v ! j) (map Fin v ! i)
        then (map Fin v)[i := map Fin v ! j, j := map Fin v ! i] else map Fin v) =
      map Fin (if v ! j < v ! i then v[i := v ! j, j := v ! i] else v)"
    using ij by (simp add: map_update)
  show ?case unfolding medianInner.simps innerR.simps eq
    by (rule "2.IH") (use 2(2,3) in simp_all)
qed simp

lemma medianOuter_Fin:
  "cnt \<le> length v \<Longrightarrow> i + n < cnt \<or> n = 0 \<Longrightarrow>
   medianOuter n cnt i (map Fin v) = map Fin (outerR n cnt i v)"
proof (induction n cnt i v rule: outerR.induct)
  case (2 n cnt i v)
  have "medianInner (cnt - Suc i) i (Suc i) (map Fin v) = map Fin (innerR (cnt - Suc i) i (Suc i) v)"
    by (rule medianInner_Fin) (use 2(2,3) in simp_all)
  then show ?case using 2 by simp
qed simp

lemma mset_swap2: "i < length v \<Longrightarrow> j < length v \<Longrightarrow> mset (v[i := v ! j, j := v ! i]) = mset v"
  using mset_swap [of j v i] by simp

lemma innerR_spec:
  assumes "i < j" and "j + n \<le> length v"
    and "\<And>x. i \<le> x \<Longrightarrow> x < j \<Longrightarrow> v ! i \<le> v ! x"
  shows "mset (innerR n i j v) = mset v
    \<and> take i (innerR n i j v) = take i v
    \<and> drop (j + n) (innerR n i j v) = drop (j + n) v
    \<and> (\<forall>x. i \<le> x \<longrightarrow> x < j + n \<longrightarrow> innerR n i j v ! i \<le> innerR n i j v ! x)"
  using assms
proof (induction n i j v rule: innerR.induct)
  case (2 n i j v)
  define w where "w = (if v ! j < v ! i then v[i := v ! j, j := v ! i] else v)"
  have ij: "i < length v" "j < length v" "i < j" using 2(2,3) by simp_all
  have len: "length w = length v" by (simp add: w_def)
  have ms: "mset w = mset v" using ij by (simp add: w_def mset_swap2)
  have least: "w ! i \<le> w ! x" if x: "i \<le> x" "x < Suc j" for x
  proof (cases "x = j")
    case True
    then show ?thesis using ij by (auto simp: w_def nth_list_update)
  next
    case False
    then have "v ! i \<le> v ! x" using "2.prems"(3) x by simp
    then show ?thesis using ij False x by (auto simp: w_def nth_list_update)
  qed
  have "w = v \<or> w = v[i := v ! j, j := v ! i]" by (simp add: w_def)
  then have fr: "take i w = take i v" "drop (Suc j + n) w = drop (Suc j + n) v"
    using ij by (elim disjE; simp)+
  show ?case
    using "2.IH" [folded w_def, of] ij(3) 2(3) least ms fr len
    unfolding innerR.simps w_def [symmetric] by simp
qed auto

definition sortedTo :: "nat \<Rightarrow> nat \<Rightarrow> rat list \<Rightarrow> bool" where
  "sortedTo i cnt v \<longleftrightarrow> (\<forall>x y. x < i \<longrightarrow> x \<le> y \<longrightarrow> y < cnt \<longrightarrow> v ! x \<le> v ! y)"

lemma in_set_drop_take:
  assumes "n \<le> length v"
  shows "x \<in> set (drop i (take n v)) \<longleftrightarrow> (\<exists>z. i \<le> z \<and> z < n \<and> v ! z = x)"
proof
  assume "x \<in> set (drop i (take n v))"
  then obtain k where "k < n - i" "v ! (i + k) = x"
    using assms by (auto simp: in_set_conv_nth)
  then show "\<exists>z. i \<le> z \<and> z < n \<and> v ! z = x" by (intro exI [of _ "i + k"]) simp
next
  assume "\<exists>z. i \<le> z \<and> z < n \<and> v ! z = x"
  then obtain z where "i \<le> z" "z < n" "v ! z = x" by blast
  then show "x \<in> set (drop i (take n v))"
    using assms by (auto simp: in_set_conv_nth intro!: exI [of _ "z - i"])
qed

lemma innerR_keeps:
  assumes "i < cnt" and "cnt \<le> length v" and sorted: "sortedTo i cnt v"
  defines "w \<equiv> innerR (cnt - Suc i) i (Suc i) v"
  shows "mset w = mset v" and "drop cnt w = drop cnt v" and "sortedTo (Suc i) cnt w"
proof -
  have least0: "v ! i \<le> v ! x" if "i \<le> x" "x < Suc i" for x
    using that by (simp add: le_less_Suc_eq)
  have spec: "mset w = mset v \<and> take i w = take i v \<and> drop cnt w = drop cnt v
      \<and> (\<forall>x. i \<le> x \<longrightarrow> x < cnt \<longrightarrow> w ! i \<le> w ! x)"
    using innerR_spec [of i "Suc i" "cnt - Suc i" v, OF _ _ least0] assms(1,2)
    unfolding w_def by simp
  then show "mset w = mset v" "drop cnt w = drop cnt v" by simp_all
  have len: "length w = length v" by (simp add: w_def)
  define mid where "mid u = drop i (take cnt u)" for u :: "rat list"
  have split: "u = take i u @ mid u @ drop cnt u" for u :: "rat list"
    using assms(1) unfolding mid_def
    by (metis append_assoc append_take_drop_id less_imp_le_nat min.absorb1 take_take)
  have "mset w = mset (take i v) + mset (mid w) + mset (drop cnt v)"
    by (subst split [of w]) (simp add: spec)
  moreover have "mset v = mset (take i v) + mset (mid v) + mset (drop cnt v)"
    by (subst split [of v]) simp
  ultimately have "mset (mid w) = mset (mid v)" using spec by simp
  then have mid: "set (mid w) = set (mid v)" by (rule mset_eq_setD)
  show "sortedTo (Suc i) cnt w"
    unfolding sortedTo_def
  proof (intro allI impI)
    fix x y assume xy: "x < Suc i" "x \<le> y" "y < cnt"
    show "w ! x \<le> w ! y"
    proof (cases "x = i")
      case True then show ?thesis using spec xy by simp
    next
      case False
      then have x: "x < i" using xy by simp
      have wx: "w ! x = v ! x" using spec x by (metis nth_take)
      show ?thesis
      proof (cases "y < i")
        case True
        then have "w ! y = v ! y" using spec by (metis nth_take)
        then show ?thesis using sorted x xy wx by (simp add: sortedTo_def)
      next
        case y: False
        have "w ! y \<in> set (mid w)"
          using y xy assms(2) len by (auto simp: mid_def in_set_drop_take intro!: exI [of _ y])
        then obtain z where z: "i \<le> z" "z < cnt" "w ! y = v ! z"
          unfolding mid using assms(2) by (auto simp: mid_def in_set_drop_take)
        then show ?thesis using sorted x wx by (simp add: sortedTo_def)
      qed
    qed
  qed
qed

lemma outerR_spec:
  assumes "i + n = cnt - 1" and "cnt \<le> length v" and "sortedTo i cnt v"
  shows "mset (outerR n cnt i v) = mset v \<and> drop cnt (outerR n cnt i v) = drop cnt v
    \<and> sortedTo (cnt - 1) cnt (outerR n cnt i v)"
  using assms
proof (induction n cnt i v rule: outerR.induct)
  case (2 n cnt i v)
  have i: "i < cnt" using 2(2) by simp
  note k = innerR_keeps [OF i 2(3,4)]
  have "length (innerR (cnt - Suc i) i (Suc i) v) = length v" by simp
  then show ?case using "2.IH" k 2(2,3) by simp
qed simp

lemma sortedTo_sorted:
  assumes "sortedTo (cnt - 1) cnt v" and "cnt \<le> length v"
  shows "sorted (take cnt v)"
  unfolding sorted_iff_nth_mono
proof (intro allI impI)
  fix i j assume ij: "i \<le> j" "j < length (take cnt v)"
  show "take cnt v ! i \<le> take cnt v ! j"
  proof (cases "i < cnt - 1")
    case True then show ?thesis using assms ij by (simp add: sortedTo_def)
  next
    case False then have "i = j" using ij by auto
    then show ?thesis by simp
  qed
qed

text \<open>The first \<open>count\<close> entries of the array are sorted, the rest is untouched.\<close>

lemma sortSamples_sort:
  assumes "cnt \<le> length v"
  shows "sortSamples (map Fin v) cnt = map Fin (sort (take cnt v) @ drop cnt v)"
proof -
  define w where "w = outerR (cnt - 1) cnt 0 v"
  have len: "length w = length v" by (simp add: w_def)
  have s: "mset w = mset v" "drop cnt w = drop cnt v" "sortedTo (cnt - 1) cnt w"
    using outerR_spec [of 0 "cnt - 1" cnt v] assms by (simp_all add: w_def sortedTo_def)
  have "mset (take cnt w) + mset (drop cnt w) = mset (take cnt v) + mset (drop cnt v)"
    using s(1) by (metis append_take_drop_id mset_append)
  then have "mset (take cnt w) = mset (take cnt v)" using s(2) by simp
  then have "sort (take cnt v) = take cnt w"
    by (rule properties_for_sort) (use sortedTo_sorted [OF s(3)] assms len in simp)
  then have "w = sort (take cnt v) @ drop cnt v" using s(2) by (metis append_take_drop_id)
  moreover have "sortSamples (map Fin v) cnt = map Fin w"
    unfolding sortSamples_def w_def using assms by (intro medianOuter_Fin) auto
  ultimately show ?thesis by simp
qed

text \<open>\<open>medianOf\<close>, the reference: the middle value, or the rounded mean of the two middle ones.\<close>

definition medianOf :: "rat list \<Rightarrow> f32" where
  "medianOf qs = (let s = sort qs; n = length qs
     in if odd n then Fin (s ! (n div 2)) else fdiv (roundF (s ! (n div 2 - 1) + s ! (n div 2))) (Fin 2))"

lemma unat_half: "unat (c div 2) = unat c div 2" for c :: u8
  by (simp add: unat_div_distrib)

lemma unat_half_pred: "2 \<le> c \<Longrightarrow> unat (c div 2 - 1) = unat c div 2 - 1" for c :: u8
  by (subst unat_sub) (simp_all add: word_le_nat_alt unat_div_distrib)

lemma odd_word: "c mod 2 = 1 \<longleftrightarrow> odd (unat c)" for c :: u8
  by (simp add: word_unat_eq_iff unat_mod_distrib odd_iff_mod_2_eq_one)

lemma median_spec:
  assumes "1 \<le> c" and "unat c \<le> length v"
  shows "fst (median (map Fin v) c) = medianOf (take (unat c) v)"
proof -
  have c1: "1 \<le> unat c" using assms(1) by (simp add: word_le_nat_alt)
  have nth: "(map Fin (sort (take (unat c) v) @ drop (unat c) v)) ! i = Fin (sort (take (unat c) v) ! i)"
    if "i < unat c" for i
    using that assms(2) by (simp add: nth_append)
  have len: "length (take (unat c) v) = unat c" using assms(2) by simp
  show ?thesis
  proof (cases "odd (unat c)")
    case True
    then show ?thesis
      unfolding median_def Let_def sortSamples_sort [OF assms(2)] medianOf_def len odd_word unat_half
      using c1 nth [of "unat c div 2"] by simp
  next
    case False
    then have c2: "2 \<le> unat c" using c1 by presburger
    then have c2': "2 \<le> c" by (simp add: word_le_nat_alt)
    show ?thesis
      unfolding median_def Let_def sortSamples_sort [OF assms(2)] medianOf_def len odd_word unat_half
        unat_half_pred [OF c2']
      using False c2 nth [of "unat c div 2"] nth [of "unat c div 2 - 1"] by simp
  qed
qed

text \<open>Entries of the array beyond the first \<open>count\<close> take no part.\<close>

lemma medianInner_append:
  "i < j \<Longrightarrow> j + n \<le> length xs \<Longrightarrow> medianInner n i j (xs @ ys) = medianInner n i j xs @ ys"
proof (induction n i j xs rule: medianInner.induct)
  case (2 n i j xs)
  then have ij: "i < length xs" "j < length xs" by simp_all
  have eq: "(if flt ((xs @ ys) ! j) ((xs @ ys) ! i)
        then (xs @ ys)[i := (xs @ ys) ! j, j := (xs @ ys) ! i] else xs @ ys) =
      (if flt (xs ! j) (xs ! i) then xs[i := xs ! j, j := xs ! i] else xs) @ ys"
    using ij by (simp add: nth_append list_update_append1)
  show ?case unfolding medianInner.simps eq by (rule "2.IH") (use 2(2,3) in simp_all)
qed simp

lemma length_medianInner [simp]: "length (medianInner n i j v) = length v"
  by (induction n i j v rule: medianInner.induct) (simp_all add: Let_def)

lemma length_medianOuter [simp]: "length (medianOuter n c i v) = length v"
  by (induction n c i v rule: medianOuter.induct) simp_all

lemma length_sortSamples [simp]: "length (sortSamples v c) = length v"
  by (simp add: sortSamples_def)

lemma medianOuter_append:
  "cnt \<le> length xs \<Longrightarrow> i + n < cnt \<or> n = 0 \<Longrightarrow>
   medianOuter n cnt i (xs @ ys) = medianOuter n cnt i xs @ ys"
proof (induction n cnt i xs rule: medianOuter.induct)
  case (2 n cnt i xs)
  have "medianInner (cnt - Suc i) i (Suc i) (xs @ ys) = medianInner (cnt - Suc i) i (Suc i) xs @ ys"
    by (rule medianInner_append) (use 2(2,3) in simp_all)
  then show ?case using 2 by simp
qed simp

lemma sortSamples_append:
  "cnt \<le> length xs \<Longrightarrow> sortSamples (xs @ ys) cnt = sortSamples xs cnt @ ys"
  unfolding sortSamples_def by (intro medianOuter_append) auto

lemma median_take:
  assumes "1 \<le> c" and "unat c \<le> length v" and "take (unat c) v = map Fin qs"
  shows "fst (median v c) = medianOf qs"
proof -
  have len: "length qs = unat c" using assms(2,3) by (metis length_map length_take min_absorb2)
  have v: "v = map Fin qs @ drop (unat c) v" using assms(3) by (metis append_take_drop_id)
  have c1: "1 \<le> unat c" using assms(1) by (simp add: word_le_nat_alt)
  have "fst (median (map Fin qs @ w) c) = fst (median (map Fin qs) c)" for w
  proof -
    have s: "sortSamples (map Fin qs @ w) (unat c) = sortSamples (map Fin qs) (unat c) @ w"
      by (rule sortSamples_append) (simp add: len)
    have l: "length (sortSamples (map Fin qs) (unat c)) = unat c" by (simp add: len)
    have n: "(sortSamples (map Fin qs) (unat c) @ w) ! i = sortSamples (map Fin qs) (unat c) ! i"
      if "i < unat c" for i using that by (simp add: nth_append len)
    show ?thesis
    proof (cases "odd (unat c)")
      case True
      then show ?thesis unfolding median_def Let_def s odd_word unat_half using n c1 by simp
    next
      case False
      then have c2: "2 \<le> unat c" using c1 by presburger
      then have c2': "2 \<le> c" by (simp add: word_le_nat_alt)
      show ?thesis unfolding median_def Let_def s odd_word unat_half unat_half_pred [OF c2']
        using False n [of "unat c div 2"] n [of "unat c div 2 - 1"] c2 by simp
    qed
  qed
  also have "fst (median (map Fin qs) c) = medianOf qs"
    using median_spec [OF assms(1), of qs] len by simp
  finally show ?thesis using v by metis
qed

lemma length_snd_median [simp]: "length (snd (median v c)) = length v"
  by (simp add: median_def Let_def)

lemma fadd_NaN: "x \<noteq> FNaN \<Longrightarrow> \<not> (x = FInf s \<and> y = FInf (\<not> s)) \<Longrightarrow> y \<noteq> FNaN \<Longrightarrow> isfinite x \<or> isfinite y
    \<Longrightarrow> fadd x y \<noteq> FNaN"
  by (cases x; cases y) (auto simp: isfinite_def)

lemma medianOf_not_NaN: "medianOf qs \<noteq> FNaN"
proof -
  have "fdiv (roundF x) (Fin 2) \<noteq> FNaN" for x
    by (cases "roundF x") (simp_all add: roundF_not_NaN)
  then show ?thesis by (simp add: medianOf_def Let_def)
qed

section \<open>Levels\<close>

lemma echoDistance_finite: "\<exists>d. echoDistance w = Fin d"
proof -
  have "\<bar>rat_of_int (uint w)\<bar> \<le> 2 ^ 32"
  proof -
    have "uint w \<le> 2 ^ 32" using uint_lt2p [of w] by simp
    then have "rat_of_int (uint w) \<le> of_int (2 ^ 32)" by (simp only: of_int_le_iff)
    moreover have "0 \<le> rat_of_int (uint w)" by (simp only: of_int_0_le_iff) simp
    ultimately show ?thesis by (simp only: abs_of_nonneg) simp
  qed
  then obtain a where a: "float_of_u32 w = Fin a" "\<bar>a\<bar> \<le> 2 ^ 32"
    unfolding float_of_u32_def using roundF_pow2 [of "of_int (uint w)" 32] by auto
  obtain b where b: "roundF (343 / 10000) = Fin b" "\<bar>b\<bar> \<le> 2 ^ 0"
    using roundF_pow2 [of "343 / 10000" 0] by auto
  have "\<bar>a * b\<bar> \<le> 2 ^ 32 * 2 ^ 0" unfolding abs_mult by (rule mult_mono) (use a b in auto)
  then obtain c where c: "roundF (a * b) = Fin c" "\<bar>c\<bar> \<le> 2 ^ 32"
    using roundF_pow2 [of "a * b" 32] by auto
  have "\<bar>c / 2\<bar> \<le> 2 ^ 32" using c(2) by simp
  then obtain d where "roundF (c / 2) = Fin d" using roundF_pow2 [of "c / 2" 32] by auto
  then show ?thesis by (simp add: echoDistance_def a b c)
qed

text \<open>The clamped level and the percentage computed from it.\<close>

lemma clamp_level:
  assumes "x \<noteq> FNaN" and "0 < u"
  defines "l1 \<equiv> (if flt x (Fin 0) then Fin 0 else x)"
  defines "l2 \<equiv> (if flt (Fin u) l1 then Fin u else l1)"
  shows "\<exists>l. l2 = Fin l \<and> 0 \<le> l \<and> l \<le> u"
  using assms(1,2) unfolding l2_def l1_def by (cases x) (auto simp: not_less)

lemma percent_bounds:
  assumes "0 \<le> l" and "l \<le> u" and "0 < u"
  shows "\<exists>p. fmul (fdiv (Fin l) (Fin u)) (Fin 100) = Fin p \<and> 0 \<le> p \<and> p \<le> 100"
proof -
  have "0 \<le> l / u" "l / u \<le> 1" using assms by simp_all
  then obtain r where r: "roundF (l / u) = Fin r" "0 \<le> r" "r \<le> 1"
    using roundF_between [of 0 "l / u" 1] by auto
  have "0 \<le> r * 100" "r * 100 \<le> 100" using r by simp_all
  then obtain p where "roundF (r * 100) = Fin p" "0 \<le> p" "p \<le> 100"
    using roundF_between [of 0 "r * 100" 100] by auto
  then show ?thesis using assms(3) r(1) by simp
qed

end
