(* ===== verification/HydroReserve.thy ===== *)
theory HydroReserve
  imports HydroTank
begin

text \<open>
  The reserve of RO water (\<open>WaterReserve.cpp\<close>): \<open>Unknown\<close> without a valid reading, otherwise \<open>Ok\<close>,
  \<open>Low\<close> or \<open>Critical\<close> with a hysteresis on the way up. Before it, the invariant of the tank: the
  counters, the stored samples, and the level and percentage that a valid series leaves.
\<close>

datatype ReserveState = ReserveUnknown | ReserveOk | ReserveLow | ReserveCritical

record hydro_reserve = hydro_tank +
  res_lowLevelPercent :: f32
  res_criticalLevelPercent :: f32
  res_hysteresisPercent :: f32
  res_state :: ReserveState

definition res_configure :: "f32 \<Rightarrow> f32 \<Rightarrow> f32 \<Rightarrow> 'a hydro_reserve_scheme \<Rightarrow> 'a hydro_reserve_scheme" where
  "res_configure lowLevelPercent criticalLevelPercent hysteresisPercent s =
     s\<lparr>res_lowLevelPercent := lowLevelPercent, res_criticalLevelPercent := criticalLevelPercent,
       res_hysteresisPercent := hysteresisPercent\<rparr>"

definition res_begin :: "'a hydro_reserve_scheme \<Rightarrow> 'a hydro_reserve_scheme" where
  "res_begin s = s\<lparr>res_state := ReserveUnknown\<rparr>"

text \<open>The switch of \<open>update\<close>, for a level: the state it leaves.\<close>

definition reserveNext :: "f32 \<Rightarrow> f32 \<Rightarrow> f32 \<Rightarrow> ReserveState \<Rightarrow> f32 \<Rightarrow> ReserveState" where
  "reserveNext low critical hyst state level = (case state of
     ReserveUnknown \<Rightarrow> if fle level critical then ReserveCritical
                       else if fle level low then ReserveLow else ReserveOk
   | ReserveOk \<Rightarrow> if fle level critical then ReserveCritical
                  else if fle level low then ReserveLow else ReserveOk
   | ReserveLow \<Rightarrow> if fle level critical then ReserveCritical
                   else if fle (fadd low hyst) level then ReserveOk else ReserveLow
   | ReserveCritical \<Rightarrow> if fle (fadd critical hyst) level
                        then (if fle level low then ReserveLow else ReserveOk) else ReserveCritical)"

definition res_update :: "'a hydro_reserve_scheme \<Rightarrow> 'a hydro_reserve_scheme" where
  "res_update s =
    (if \<not> tank_valid s then s\<lparr>res_state := ReserveUnknown\<rparr>
     else s\<lparr>res_state := reserveNext (res_lowLevelPercent s) (res_criticalLevelPercent s)
               (res_hysteresisPercent s) (res_state s) (tank_levelPercent s)\<rparr>)"

definition res_allowsPump :: "'a hydro_reserve_scheme \<Rightarrow> bool" where
  "res_allowsPump s \<longleftrightarrow> res_state s = ReserveOk \<or> res_state s = ReserveLow"

definition res_isLow :: "'a hydro_reserve_scheme \<Rightarrow> bool" where
  "res_isLow s \<longleftrightarrow> res_state s = ReserveLow"

definition res_isCritical :: "'a hydro_reserve_scheme \<Rightarrow> bool" where
  "res_isCritical s \<longleftrightarrow> res_state s = ReserveCritical"

definition res_isUnknown :: "'a hydro_reserve_scheme \<Rightarrow> bool" where
  "res_isUnknown s \<longleftrightarrow> res_state s = ReserveUnknown"

section \<open>The tank invariant\<close>

definition tankCounters :: "'a hydro_tank_scheme \<Rightarrow> bool" where
  "tankCounters s \<longleftrightarrow> length (tank_samples s) = 5 \<and> tank_validSamples s \<le> tank_attempts s
     \<and> tank_attempts s \<le> 5
     \<and> (\<exists>qs. take (unat (tank_validSamples s)) (tank_samples s) = map Fin qs)"

definition tankLevels :: "'a hydro_tank_scheme \<Rightarrow> bool" where
  "tankLevels s \<longleftrightarrow> (\<exists>l p. tank_levelCm s = Fin l \<and> 0 \<le> l \<and>
     tank_levelPercent s = Fin p \<and> 0 \<le> p \<and> p \<le> 100 \<and>
     (tank_valid s \<longrightarrow> fle (Fin l) (fsub (tank_emptyDistanceCm s) (tank_fullDistanceCm s))))"

definition tankGeometry :: "'a hydro_tank_scheme \<Rightarrow> bool" where
  "tankGeometry s \<longleftrightarrow> isfinite (tank_emptyDistanceCm s) \<and>
     isfinite (fsub (tank_emptyDistanceCm s) (tank_fullDistanceCm s))"

lemma isfiniteE: "isfinite x \<Longrightarrow> (\<And>q. x = Fin q \<Longrightarrow> P) \<Longrightarrow> P"
  by (cases x) (simp_all add: isfinite_def)

lemma isfinite_Fin [simp]: "isfinite (Fin q)"
  by (simp add: isfinite_def)

lemma us_measure_frame [simp]:
  "tank_samples (snd (us_measure s)) = tank_samples s"
  "tank_validSamples (snd (us_measure s)) = tank_validSamples s"
  "tank_attempts (snd (us_measure s)) = tank_attempts s"
  "tank_emptyDistanceCm (snd (us_measure s)) = tank_emptyDistanceCm s"
  "tank_fullDistanceCm (snd (us_measure s)) = tank_fullDistanceCm s"
  "tank_levelCm (snd (us_measure s)) = tank_levelCm s"
  "tank_levelPercent (snd (us_measure s)) = tank_levelPercent s"
  "tank_valid (snd (us_measure s)) = tank_valid s"
  "tank_failedSeries (snd (us_measure s)) = tank_failedSeries s"
  "tank_maxFailedSeries (snd (us_measure s)) = tank_maxFailedSeries s"
  "tank_sensorFault (snd (us_measure s)) = tank_sensorFault s"
  by (simp_all add: us_measure_def board_defs Let_def)

lemma echoDistance_isfinite [simp]: "isfinite (echoDistance w)"
  using echoDistance_finite [of w] by (auto simp: isfinite_def)

lemma us_measure_finite: "fst (us_measure s) \<Longrightarrow> isfinite (us_distanceCm (snd (us_measure s)))"
  by (auto simp: us_measure_def board_defs Let_def split: if_splits)

lemma take_snoc_update:
  assumes "n < length v" and "take n v = map Fin qs"
  shows "take (Suc n) (v[n := Fin q]) = map Fin (qs @ [q])"
  using assms by (simp add: take_Suc_conv_app_nth)

lemma tank_sample_counters:
  assumes "tankCounters s" and "tank_attempts s < 5"
  shows "tankCounters (tank_sample s)"
proof -
  define t where "t = s\<lparr>tank_attempts := tank_attempts s + 1\<rparr>"
  have at: "unat (tank_attempts s + 1) = Suc (unat (tank_attempts s))"
    by (rule unat_Suc_less) (rule assms(2))
  have le: "unat (tank_validSamples s) \<le> unat (tank_attempts s)" "unat (tank_attempts s) < 5"
    using assms by (simp_all add: tankCounters_def word_le_nat_alt word_less_nat_alt)
  have a5: "tank_attempts s + 1 \<le> 5" using at le(2) by (simp add: word_le_nat_alt)
  have v5: "tank_validSamples s \<le> tank_attempts s + 1" using at le(1) by (simp add: word_le_nat_alt)
  show ?thesis
  proof (cases "fst (us_measure t) \<and> tank_validSamples s < SAMPLE_COUNT")
    case True
    obtain q where q: "us_distanceCm (snd (us_measure t)) = Fin q"
      using us_measure_finite [of t] True by (auto elim: isfiniteE)
    have vs: "unat (tank_validSamples s + 1) = Suc (unat (tank_validSamples s))"
      by (rule unat_Suc_less [of _ 5]) (use True in \<open>simp add: SAMPLE_COUNT_def\<close>)
    have vle: "tank_validSamples s + 1 \<le> tank_attempts s + 1"
      using vs at le by (simp add: word_le_nat_alt)
    have len: "length (tank_samples s) = 5" using assms(1) by (simp add: tankCounters_def)
    have lt: "unat (tank_validSamples s) < length (tank_samples s)" using le len by simp
    obtain qs where "take (unat (tank_validSamples s)) (tank_samples s) = map Fin qs"
      using assms(1) by (auto simp: tankCounters_def)
    then have "take (Suc (unat (tank_validSamples s)))
        ((tank_samples s)[unat (tank_validSamples s) := Fin q]) = map Fin (qs @ [q])"
      by (rule take_snoc_update [OF lt])
    then show ?thesis
      using True q vs vle a5 len
      by (auto simp: tank_sample_def t_def [symmetric] Let_def split_beta tankCounters_def simp flip: t_def)
        (auto simp: t_def intro!: exI [of _ "qs @ [q]"])
  next
    case False
    then show ?thesis
      using assms(1) a5 v5
      by (auto simp: tank_sample_def Let_def split_beta tankCounters_def t_def)
  qed
qed

text \<open>A valid series: the distance is the reference median, the level and percentage are bounded.\<close>

lemma processSamples_invalid:
  "fle (fsub (tank_emptyDistanceCm s) (tank_fullDistanceCm s)) (Fin 0) \<Longrightarrow>
   tank_processSamples s = s\<lparr>tank_valid := False\<rparr>"
  by (simp add: tank_processSamples_def)

lemma processSamples_valid:
  assumes geo: "fsub (tank_emptyDistanceCm s) (tank_fullDistanceCm s) = Fin u" "0 < u"
    and e: "isfinite (tank_emptyDistanceCm s)"
    and m: "fst (median (tank_samples s) (tank_validSamples s)) = medianOf qs"
  shows "tank_valid (tank_processSamples s)" (is ?valid)
    and "tank_distanceCm (tank_processSamples s) = medianOf qs" (is ?dist)
    and "tankLevels (tank_processSamples s)" (is ?levels)
proof -
  obtain e where e: "tank_emptyDistanceCm s = Fin e" using e by (rule isfiniteE)
  define x where "x = fsub (Fin e) (medianOf qs)"
  define l1 where "l1 = (if flt x (Fin 0) then Fin 0 else x)"
  define l2 where "l2 = (if flt (Fin u) l1 then Fin u else l1)"
  obtain sorted where md: "median (tank_samples s) (tank_validSamples s) = (medianOf qs, sorted)"
    using m by (cases "median (tank_samples s) (tank_validSamples s)") simp
  have x: "x \<noteq> FNaN"
    unfolding x_def fsub_def using medianOf_not_NaN [of qs] by (cases "medianOf qs") simp_all
  obtain l where l: "l2 = Fin l" "0 \<le> l" "l \<le> u"
    using clamp_level [OF x geo(2)] unfolding l2_def l1_def by blast
  obtain p where p: "fmul (fdiv (Fin l) (Fin u)) (Fin 100) = Fin p" "0 \<le> p" "p \<le> 100"
    using percent_bounds [OF l(2,3) geo(2)] by blast
  have ps: "tank_processSamples s = s\<lparr>tank_samples := sorted, tank_distanceCm := medianOf qs,
      tank_levelCm := l2, tank_levelPercent := fmul (fdiv l2 (Fin u)) (Fin 100), tank_valid := True\<rparr>"
    using geo e md by (simp add: tank_processSamples_def Let_def l2_def l1_def x_def)
  show ?valid ?dist by (simp_all add: ps)
  show ?levels using l p geo e by (simp add: ps tankLevels_def)
qed

lemma processSamples_frame [simp]:
  "tank_validSamples (tank_processSamples s) = tank_validSamples s"
  "tank_attempts (tank_processSamples s) = tank_attempts s"
  "tank_emptyDistanceCm (tank_processSamples s) = tank_emptyDistanceCm s"
  "tank_fullDistanceCm (tank_processSamples s) = tank_fullDistanceCm s"
  "tank_failedSeries (tank_processSamples s) = tank_failedSeries s"
  "tank_maxFailedSeries (tank_processSamples s) = tank_maxFailedSeries s"
  "tank_sensorFault (tank_processSamples s) = tank_sensorFault s"
  "length (tank_samples (tank_processSamples s)) = length (tank_samples s)"
  by (simp_all add: tank_processSamples_def Let_def split_beta)

lemma median_of_counters:
  assumes "tankCounters s" and "MIN_VALID_SAMPLES \<le> tank_validSamples s"
  obtains qs where "take (unat (tank_validSamples s)) (tank_samples s) = map Fin qs"
    and "fst (median (tank_samples s) (tank_validSamples s)) = medianOf qs"
proof -
  obtain qs where qs: "take (unat (tank_validSamples s)) (tank_samples s) = map Fin qs"
    using assms(1) by (auto simp: tankCounters_def)
  have "unat (tank_validSamples s) \<le> length (tank_samples s)"
    using assms(1) by (simp add: tankCounters_def word_le_nat_alt)
  moreover have "1 \<le> tank_validSamples s"
    by (rule order_trans [OF _ assms(2)]) (simp add: MIN_VALID_SAMPLES_def)
  ultimately show thesis using median_take [OF _ _ qs] qs that by blast
qed

lemma processSamples_levels:
  assumes "tankCounters s" and "MIN_VALID_SAMPLES \<le> tank_validSamples s" and "tankGeometry s"
    and "tankLevels s"
  shows "tankLevels (tank_processSamples s)"
proof (cases "fle (fsub (tank_emptyDistanceCm s) (tank_fullDistanceCm s)) (Fin 0)")
  case True
  then show ?thesis using assms(4) by (auto simp: processSamples_invalid tankLevels_def)
next
  case False
  obtain u where u: "fsub (tank_emptyDistanceCm s) (tank_fullDistanceCm s) = Fin u"
    using assms(3) by (auto simp: tankGeometry_def elim: isfiniteE)
  then have "0 < u" using False by simp
  moreover obtain qs where "fst (median (tank_samples s) (tank_validSamples s)) = medianOf qs"
    using median_of_counters [OF assms(1,2)] by blast
  ultimately show ?thesis using processSamples_valid(3) [OF u] assms(3) by (simp add: tankGeometry_def)
qed

lemma tankLevels_cong:
  assumes "tank_levelCm t = tank_levelCm s" "tank_levelPercent t = tank_levelPercent s"
    "tank_valid t \<longrightarrow> tank_valid s"
    "tank_emptyDistanceCm t = tank_emptyDistanceCm s" "tank_fullDistanceCm t = tank_fullDistanceCm s"
    "tankLevels s"
  shows "tankLevels t"
  using assms by (auto simp: tankLevels_def)

lemma finishSeries_fields [simp]:
  "tank_attempts (tank_finishSeries s) = 0"
  "tank_validSamples (tank_finishSeries s) = 0"
  "tank_newReading (tank_finishSeries s)"
  "length (tank_samples (tank_finishSeries s)) = length (tank_samples s)"
  "tank_emptyDistanceCm (tank_finishSeries s) = tank_emptyDistanceCm s"
  "tank_fullDistanceCm (tank_finishSeries s) = tank_fullDistanceCm s"
  "tank_maxFailedSeries (tank_finishSeries s) = tank_maxFailedSeries s"
  by (simp_all add: tank_finishSeries_def Let_def millis_def)

text \<open>Whether a series is valid, and the counter and fault it leaves.\<close>

definition seriesValid :: "'a hydro_tank_scheme \<Rightarrow> bool" where
  "seriesValid s \<longleftrightarrow> MIN_VALID_SAMPLES \<le> tank_validSamples s
     \<and> \<not> fle (fsub (tank_emptyDistanceCm s) (tank_fullDistanceCm s)) (Fin 0)"

lemma finishSeries_valid:
  "tank_valid (tank_finishSeries s) = seriesValid s"
  by (simp add: tank_finishSeries_def Let_def millis_def seriesValid_def tank_processSamples_def split_beta)

lemma finishSeries_counter:
  "tank_failedSeries (tank_finishSeries s) =
     (if seriesValid s then 0 else if tank_failedSeries s < 255 then tank_failedSeries s + 1
      else tank_failedSeries s)"
  "tank_sensorFault (tank_finishSeries s) =
     (if seriesValid s then False
      else tank_sensorFault s \<or> tank_maxFailedSeries s \<le> tank_failedSeries (tank_finishSeries s))"
  by (simp_all add: tank_finishSeries_def Let_def millis_def seriesValid_def tank_processSamples_def split_beta)

lemma finishSeries_inv:
  assumes "tankCounters s" and "tankGeometry s" and "tankLevels s"
  shows "tankCounters (tank_finishSeries s)" and "tankLevels (tank_finishSeries s)"
proof -
  show "tankCounters (tank_finishSeries s)" using assms(1) by (simp add: tankCounters_def)
  show "tankLevels (tank_finishSeries s)"
  proof (cases "MIN_VALID_SAMPLES \<le> tank_validSamples s")
    case True
    show ?thesis
      by (rule tankLevels_cong [OF _ _ _ _ _ processSamples_levels [OF assms(1) True assms(2,3)]])
        (simp_all add: tank_finishSeries_def True Let_def millis_def)
  next
    case False
    show ?thesis
      by (rule tankLevels_cong [OF _ _ _ _ _ assms(3)])
        (simp_all add: tank_finishSeries_def False Let_def millis_def)
  qed
qed

lemma tankCounters_cong:
  assumes "tank_samples t = tank_samples s" "tank_validSamples t = tank_validSamples s"
    "tank_attempts t = tank_attempts s" "tankCounters s"
  shows "tankCounters t"
  using assms by (simp add: tankCounters_def)

lemma sample_frame [simp]:
  "tank_emptyDistanceCm (tank_sample s) = tank_emptyDistanceCm s"
  "tank_fullDistanceCm (tank_sample s) = tank_fullDistanceCm s"
  "tank_levelCm (tank_sample s) = tank_levelCm s"
  "tank_levelPercent (tank_sample s) = tank_levelPercent s"
  "tank_valid (tank_sample s) = tank_valid s"
  "tank_failedSeries (tank_sample s) = tank_failedSeries s"
  "tank_maxFailedSeries (tank_sample s) = tank_maxFailedSeries s"
  "tank_sensorFault (tank_sample s) = tank_sensorFault s"
  "tank_attempts (tank_sample s) = tank_attempts s + 1"
  by (simp_all add: tank_sample_def Let_def split_beta)

lemma tank_update_geometry [simp]:
  "tank_emptyDistanceCm (tank_update s) = tank_emptyDistanceCm s"
  "tank_fullDistanceCm (tank_update s) = tank_fullDistanceCm s"
  "tank_maxFailedSeries (tank_update s) = tank_maxFailedSeries s"
  by (simp_all add: tank_update_def millis_def Let_def)

definition tankInv :: "'a hydro_tank_scheme \<Rightarrow> bool" where
  "tankInv s \<longleftrightarrow> tankCounters s \<and> tank_attempts s < 5 \<and> tankGeometry s \<and> tankLevels s"

lemma tank_update_inv:
  assumes "tankInv s"
  shows "tankInv (tank_update s)"
proof -
  define s0 where "s0 = s\<lparr>ioCount := Suc (ioCount s), tank_lastSampleMs := millisAt s (ioCount s)\<rparr>"
  define s1 where "s1 = tank_sample s0"
  have upd: "tank_update s =
      (if millisAt s (ioCount s) - tank_lastSampleMs s < tank_sampleIntervalMs s
       then s\<lparr>ioCount := Suc (ioCount s)\<rparr>
       else if SAMPLE_COUNT \<le> tank_attempts s1 then tank_finishSeries s1 else s1)"
    by (simp add: tank_update_def millis_def Let_def s1_def s0_def)
  have inv0: "tankCounters s0" "tank_attempts s0 < 5" "tankGeometry s0" "tankLevels s0"
    using assms by (simp_all add: s0_def tankInv_def tankCounters_def tankGeometry_def tankLevels_def)
  have c1: "tankCounters s1" unfolding s1_def by (rule tank_sample_counters [OF inv0(1,2)])
  have g1: "tankGeometry s1" using inv0(3) by (simp add: s1_def tankGeometry_def)
  have l1: "tankLevels s1"
    by (rule tankLevels_cong [OF _ _ _ _ _ inv0(4)]) (simp_all add: s1_def)
  have "tankGeometry (tank_finishSeries s1)" using g1 by (simp add: tankGeometry_def)
  then have "tankInv (tank_finishSeries s1)"
    using finishSeries_inv [OF c1 g1 l1] by (simp add: tankInv_def)
  moreover have "tankInv s1" if "\<not> SAMPLE_COUNT \<le> tank_attempts s1"
    using c1 g1 l1 that by (simp add: tankInv_def SAMPLE_COUNT_def)
  moreover have "tankInv (s\<lparr>ioCount := Suc (ioCount s)\<rparr>)"
    using assms by (simp add: tankInv_def tankCounters_def tankGeometry_def tankLevels_def)
  ultimately show ?thesis unfolding upd by simp
qed

lemma tank_begin_inv:
  assumes "tankGeometry s" and "length (tank_samples s) = 5"
  shows "tankInv (tank_begin s)"
  using assms by (simp add: tankInv_def tank_begin_def millis_def Let_def tankCounters_def
      tankGeometry_def tankLevels_def)

lemma tank_updates_inv: "tankInv s \<Longrightarrow> tankInv ((tank_update ^^ n) s)"
  by (induction n) (simp_all add: tank_update_inv)

section \<open>The reserve\<close>

lemma res_update_unknown: "\<not> tank_valid s \<Longrightarrow> res_state (res_update s) = ReserveUnknown"
  by (simp add: res_update_def)

lemma reserveNext_not_unknown: "reserveNext low critical hyst state level \<noteq> ReserveUnknown"
  by (simp add: reserveNext_def split: ReserveState.split)

text \<open>
  What the reserve allows, for finite thresholds with \<open>critical < low\<close>: never at or below the
  critical level, and after \<open>Critical\<close> only at the level of the hysteresis.
\<close>

lemma reserveNext_allows:
  assumes "fle level critical"
    and "\<not> fle (fadd critical hyst) level"
  shows "reserveNext low critical hyst state level = ReserveCritical"
  using assms by (simp add: reserveNext_def split: ReserveState.split)

lemma reserveNext_above:
  assumes "reserveNext low critical hyst state level = ReserveOk \<or>
      reserveNext low critical hyst state level = ReserveLow"
  shows "\<not> fle level critical \<or> (state = ReserveCritical \<and> fle (fadd critical hyst) level)"
  using assms by (auto simp: reserveNext_def split: ReserveState.splits if_splits)

end
