(* ===== verification/HydroTopup.thy ===== *)
theory HydroTopup
  imports HydroReserve
begin

text \<open>
  The top-up controller (\<open>TopupController.cpp\<close>), the only component that turns the pump on: the
  states Idle, Waiting, Pumping, Blocked and Lockout, the service mode, the external permission
  \<open>pumpAllowed\<close>, and the runtime limit that ends in Lockout.

  The lemmas follow the pump: it runs only in state Pumping, outside the service mode and with the
  permission (\<open>pumpSafe\<close>, kept by every operation); a lockout is left by \<open>resetLockout\<close> alone; and
  an update that leaves the pump on has just read a runtime below the limit.
\<close>

datatype TopupState = Idle | Waiting | Pumping | Blocked | Lockout

record hydro_topup = hydro_reserve +
  tc_startDelayMs :: u32
  tc_maxPumpRuntimeMs :: u32
  tc_state :: TopupState
  tc_stateStartMs :: u32
  tc_serviceMode :: bool
  tc_pumpAllowed :: bool

named_theorems topup_defs \<open>the methods of TopupController\<close>

definition tc_configure :: "u32 \<Rightarrow> u32 \<Rightarrow> 'a hydro_topup_scheme \<Rightarrow> 'a hydro_topup_scheme" where
  "tc_configure startDelayMs maxPumpRuntimeMs s =
     s\<lparr>tc_startDelayMs := startDelayMs, tc_maxPumpRuntimeMs := maxPumpRuntimeMs\<rparr>"

definition tc_enterState :: "TopupState \<Rightarrow> 'a hydro_topup_scheme \<Rightarrow> 'a hydro_topup_scheme" where
  "tc_enterState newState s =
    (let s = s\<lparr>tc_state := newState\<rparr>;
         (t, s) = millis s;
         s = s\<lparr>tc_stateStartMs := t\<rparr>
     in if newState = Pumping \<and> \<not> tc_serviceMode s \<and> tc_pumpAllowed s then pump_on s else pump_off s)"

definition tc_begin :: "'a hydro_topup_scheme \<Rightarrow> 'a hydro_topup_scheme" where
  "tc_begin s =
    (let s = pump_off s;
         s = s\<lparr>tc_serviceMode := False, tc_pumpAllowed := False, tc_state := Idle\<rparr>;
         (t, s) = millis s
     in s\<lparr>tc_stateStartMs := t\<rparr>)"

text \<open>The switch of \<open>update\<close>.\<close>

definition tc_run :: "u32 \<Rightarrow> bool \<Rightarrow> 'a hydro_topup_scheme \<Rightarrow> 'a hydro_topup_scheme" where
  "tc_run now lowWater s = (case tc_state s of
     Idle \<Rightarrow> let s = pump_off s in if lowWater then tc_enterState Waiting s else s
   | Waiting \<Rightarrow> let s = pump_off s
       in if \<not> lowWater then tc_enterState Idle s
          else if now - tc_stateStartMs s \<ge> tc_startDelayMs s then tc_enterState Pumping s
          else s
   | Pumping \<Rightarrow>
       if \<not> lowWater then tc_enterState Idle s
       else if now - tc_stateStartMs s \<ge> tc_maxPumpRuntimeMs s then tc_enterState Lockout s
       else s
   | Blocked \<Rightarrow> pump_off s
   | Lockout \<Rightarrow> pump_off s)"

definition tc_update :: "'a hydro_topup_scheme \<Rightarrow> 'a hydro_topup_scheme" where
  "tc_update s =
    (let s = float_update s
     in if tc_serviceMode s then pump_off s
        else if \<not> tc_pumpAllowed s then
          let s = pump_off s
          in if tc_state s \<noteq> Lockout then if tc_state s \<noteq> Blocked then tc_enterState Blocked s else s
             else s
        else let s = (if tc_state s = Blocked then tc_enterState Idle s else s);
                 (now, s) = millis s
             in tc_run now (float_stableState s) s)"

definition tc_setServiceMode :: "bool \<Rightarrow> 'a hydro_topup_scheme \<Rightarrow> 'a hydro_topup_scheme" where
  "tc_setServiceMode enabled s =
    (if tc_serviceMode s = enabled then s
     else let s = pump_off (s\<lparr>tc_serviceMode := enabled\<rparr>)
          in if tc_state s \<noteq> Lockout then tc_enterState (if tc_pumpAllowed s then Idle else Blocked) s
             else s)"

definition tc_setPumpAllowed :: "bool \<Rightarrow> 'a hydro_topup_scheme \<Rightarrow> 'a hydro_topup_scheme" where
  "tc_setPumpAllowed allowed s =
    (if tc_pumpAllowed s = allowed then s
     else let s = s\<lparr>tc_pumpAllowed := allowed\<rparr>
          in if \<not> tc_pumpAllowed s
             then let s = pump_off s in if tc_state s \<noteq> Lockout then tc_enterState Blocked s else s
             else s)"

definition tc_isLocked :: "'a hydro_topup_scheme \<Rightarrow> bool" where
  "tc_isLocked s \<longleftrightarrow> tc_state s = Lockout"

definition tc_resetLockout :: "'a hydro_topup_scheme \<Rightarrow> 'a hydro_topup_scheme" where
  "tc_resetLockout s =
    (let s = pump_off s in if tc_pumpAllowed s then tc_enterState Idle s else tc_enterState Blocked s)"

lemmas [topup_defs] = tc_configure_def tc_enterState_def tc_begin_def tc_run_def tc_update_def
  tc_setServiceMode_def tc_setPumpAllowed_def tc_isLocked_def tc_resetLockout_def

section \<open>The pump pin\<close>

text \<open>
  \<open>pumpPin\<close>: the level of the output pin is the flag \<open>isOn\<close>; it holds from \<open>Pump::begin\<close> on, since no
  other device writes that pin.
\<close>

definition pinsDistinct :: "'a hydro_hw_scheme \<Rightarrow> bool" where
  "pinsDistinct s \<longleftrightarrow> pump_pin s \<noteq> us_trigPin s \<and> pump_pin s \<noteq> bz_pin s"

definition pumpPin :: "'a hydro_hw_scheme \<Rightarrow> bool" where
  "pumpPin s \<longleftrightarrow> pinsDistinct s \<and> outLevel s (pump_pin s) = pump_isOn s"

definition pumpSafe :: "'a hydro_topup_scheme \<Rightarrow> bool" where
  "pumpSafe s \<longleftrightarrow> (pump_isOn s \<longrightarrow> tc_state s = Pumping \<and> \<not> tc_serviceMode s \<and> tc_pumpAllowed s)"

lemma pump_writes [simp]:
  "pump_isOn (pump_off s) = False" "pump_isOn (pump_on s) = True"
  "tc_state (pump_off t) = tc_state t" "tc_state (pump_on t) = tc_state t"
  "tc_stateStartMs (pump_off t) = tc_stateStartMs t" "tc_stateStartMs (pump_on t) = tc_stateStartMs t"
  "tc_serviceMode (pump_off t) = tc_serviceMode t" "tc_serviceMode (pump_on t) = tc_serviceMode t"
  "tc_pumpAllowed (pump_off t) = tc_pumpAllowed t" "tc_pumpAllowed (pump_on t) = tc_pumpAllowed t"
  "tc_startDelayMs (pump_off t) = tc_startDelayMs t"
  "tc_maxPumpRuntimeMs (pump_off t) = tc_maxPumpRuntimeMs t"
  "tc_maxPumpRuntimeMs (pump_on t) = tc_maxPumpRuntimeMs t"
  "ioCount (pump_off s) = ioCount s" "ioCount (pump_on s) = ioCount s"
  "millisAt (pump_off s) = millisAt s" "millisAt (pump_on s) = millisAt s"
  by (simp_all add: pump_off_def pump_on_def digitalWrite_def)

lemma pumpPin_writes [simp]: "pumpPin (pump_off s) = pinsDistinct s" "pumpPin (pump_on s) = pinsDistinct s"
  "pinsDistinct (pump_off s) = pinsDistinct s" "pinsDistinct (pump_on s) = pinsDistinct s"
  by (auto simp: pumpPin_def pinsDistinct_def pump_off_def pump_on_def digitalWrite_def)

lemma enterState_fields [simp]:
  "tc_state (tc_enterState n s) = n"
  "tc_serviceMode (tc_enterState n s) = tc_serviceMode s"
  "tc_pumpAllowed (tc_enterState n s) = tc_pumpAllowed s"
  "tc_maxPumpRuntimeMs (tc_enterState n s) = tc_maxPumpRuntimeMs s"
  "tc_stateStartMs (tc_enterState n s) = millisAt s (ioCount s)"
  "millisAt (tc_enterState n s) = millisAt s"
  "ioCount (tc_enterState n s) = Suc (ioCount s)"
  "pump_isOn (tc_enterState n s) \<longleftrightarrow> n = Pumping \<and> \<not> tc_serviceMode s \<and> tc_pumpAllowed s"
  "pinsDistinct (tc_enterState n s) = pinsDistinct s"
  "pumpPin (tc_enterState n s) = pinsDistinct s"
  by (simp_all add: tc_enterState_def Let_def millis_def pinsDistinct_def)
    (simp_all add: pump_off_def pump_on_def digitalWrite_def pumpPin_def pinsDistinct_def)

lemma float_update_frame [simp]:
  "tc_state (float_update s) = tc_state s"
  "tc_stateStartMs (float_update s) = tc_stateStartMs s"
  "tc_serviceMode (float_update s) = tc_serviceMode s"
  "tc_pumpAllowed (float_update s) = tc_pumpAllowed s"
  "tc_maxPumpRuntimeMs (float_update s) = tc_maxPumpRuntimeMs s"
  "tc_startDelayMs (float_update s) = tc_startDelayMs s"
  "millisAt (float_update t) = millisAt t"
  "pump_isOn (float_update t) = pump_isOn t"
  "pinsDistinct (float_update t) = pinsDistinct t"
  "pumpPin (float_update t) = pumpPin t"
  by (simp_all add: float_update_def float_readActive_def digitalRead_def millis_def Let_def
      pinsDistinct_def pumpPin_def)

section \<open>Safety\<close>

lemma enterState_safe [simp]: "pumpSafe (tc_enterState n s)"
  by (auto simp: pumpSafe_def)

lemma pump_off_safe [simp]: "pumpSafe (pump_off s)"
  by (simp add: pumpSafe_def)

lemma pumpSafe_io [simp]: "pumpSafe (ioCount_update f s) = pumpSafe s"
  "pumpSafe (float_update s) = pumpSafe s"
  by (simp_all add: pumpSafe_def)

lemma pumpPin_io [simp]: "pumpPin (ioCount_update f s) = pumpPin s"
  "pinsDistinct (ioCount_update f s) = pinsDistinct s"
  by (simp_all add: pumpPin_def pinsDistinct_def)

lemma pumpPin_distinct: "pumpPin s \<Longrightarrow> pinsDistinct s"
  by (simp add: pumpPin_def)

lemma tc_run_safe: "pumpSafe s \<Longrightarrow> pumpSafe (tc_run now low s)"
  by (simp add: tc_run_def Let_def split: TopupState.split)

lemma tc_run_pin: "pumpPin s \<Longrightarrow> pumpPin (tc_run now low s)"
  by (simp add: tc_run_def Let_def pumpPin_distinct split: TopupState.split)

lemma tc_update_safe: "pumpSafe s \<Longrightarrow> pumpSafe (tc_update s)"
  by (simp add: tc_update_def Let_def millis_def tc_run_safe)

lemma tc_update_pin: "pumpPin s \<Longrightarrow> pumpPin (tc_update s)"
  by (simp add: tc_update_def Let_def millis_def tc_run_pin pumpPin_distinct)

lemma tc_setServiceMode_safe: "pumpSafe s \<Longrightarrow> pumpSafe (tc_setServiceMode b s)"
  by (simp add: tc_setServiceMode_def Let_def)

lemma tc_setPumpAllowed_safe: "pumpSafe s \<Longrightarrow> pumpSafe (tc_setPumpAllowed b s)"
  by (auto simp: tc_setPumpAllowed_def Let_def pumpSafe_def)

lemma tc_resetLockout_safe: "pumpSafe (tc_resetLockout s)"
  by (simp add: tc_resetLockout_def Let_def)

lemma tc_begin_safe: "pumpSafe (tc_begin s)"
  by (simp add: tc_begin_def Let_def millis_def pumpSafe_def)

lemma tc_setServiceMode_pin: "pumpPin s \<Longrightarrow> pumpPin (tc_setServiceMode b s)"
  by (simp add: tc_setServiceMode_def Let_def pumpPin_distinct) (simp add: pumpPin_def pinsDistinct_def)

lemma tc_setPumpAllowed_pin: "pumpPin s \<Longrightarrow> pumpPin (tc_setPumpAllowed b s)"
  by (auto simp: tc_setPumpAllowed_def Let_def pumpPin_def pinsDistinct_def pump_off_def digitalWrite_def
      tc_enterState_def millis_def)

lemma tc_resetLockout_pin: "pumpPin s \<Longrightarrow> pumpPin (tc_resetLockout s)"
  by (simp add: tc_resetLockout_def Let_def pumpPin_distinct)

lemma tc_begin_pin: "pinsDistinct s \<Longrightarrow> pumpPin (tc_begin s)"
  by (simp add: tc_begin_def Let_def millis_def pumpPin_def pinsDistinct_def pump_off_def digitalWrite_def)

text \<open>An update that leaves the pump on has seen the float switch active.\<close>

lemma tc_run_low:
  "pumpSafe s \<Longrightarrow> pump_isOn (tc_run now low s) \<Longrightarrow> low"
  by (auto simp: tc_run_def Let_def pumpSafe_def split: TopupState.splits if_splits)

lemma pump_float [simp]: "float_stableState (pump_off s) = float_stableState s"
  "float_stableState (pump_on s) = float_stableState s"
  "float_stableState (tc_enterState n t) = float_stableState t"
  "float_stableState (tc_run now low t) = float_stableState t"
  by (simp_all add: pump_off_def pump_on_def digitalWrite_def tc_enterState_def tc_run_def millis_def Let_def
      split: TopupState.split)

lemma tc_update_low:
  assumes "pumpSafe s" and on: "pump_isOn (tc_update s)"
  shows "float_stableState (tc_update s)"
proof -
  define t where "t = float_update s"
  have nb: "\<not> tc_serviceMode t" "tc_pumpAllowed t"
    using on by (auto simp: tc_update_def t_def Let_def split: if_splits)
  define u where "u = (if tc_state t = Blocked then tc_enterState Idle t else t)"
  have upd: "tc_update s = tc_run (millisAt u (ioCount u)) (float_stableState u) (u\<lparr>ioCount := Suc (ioCount u)\<rparr>)"
    using nb by (simp add: tc_update_def t_def [symmetric] u_def [symmetric] millis_def Let_def)
  have "pumpSafe (u\<lparr>ioCount := Suc (ioCount u)\<rparr>)" using assms(1) by (simp add: u_def t_def)
  from tc_run_low [OF this] on show ?thesis unfolding upd by simp
qed

section \<open>Operations and sequences\<close>

datatype topup_op = TopupUpdate | TopupService bool | TopupAllowed bool | TopupReset

fun topup_exec :: "topup_op \<Rightarrow> 'a hydro_topup_scheme \<Rightarrow> 'a hydro_topup_scheme" where
  "topup_exec TopupUpdate s = tc_update s"
| "topup_exec (TopupService b) s = tc_setServiceMode b s"
| "topup_exec (TopupAllowed b) s = tc_setPumpAllowed b s"
| "topup_exec TopupReset s = tc_resetLockout s"

lemma topup_exec_safe: "pumpSafe s \<Longrightarrow> pumpSafe (topup_exec op s)"
  by (cases op) (simp_all add: tc_update_safe tc_setServiceMode_safe tc_setPumpAllowed_safe tc_resetLockout_safe)

lemma topup_exec_pin: "pumpPin s \<Longrightarrow> pumpPin (topup_exec op s)"
  by (cases op) (simp_all add: tc_update_pin tc_setServiceMode_pin tc_setPumpAllowed_pin tc_resetLockout_pin)

text \<open>A lockout is absorbing for everything but the reset.\<close>

lemma locked_exec:
  assumes "tc_state s = Lockout" and "pumpSafe s" and "op \<noteq> TopupReset"
  shows "tc_state (topup_exec op s) = Lockout \<and> \<not> pump_isOn (topup_exec op s)"
  using assms
  by (cases op) (auto simp: tc_update_def tc_run_def tc_setServiceMode_def tc_setPumpAllowed_def Let_def
      millis_def pumpSafe_def)

lemma locked_execs:
  "tc_state s = Lockout \<Longrightarrow> pumpSafe s \<Longrightarrow> TopupReset \<notin> set ops \<Longrightarrow>
   tc_state (fold topup_exec ops s) = Lockout \<and> \<not> pump_isOn (fold topup_exec ops s)"
proof (induction ops arbitrary: s)
  case Nil
  then show ?case by (auto simp: pumpSafe_def)
next
  case (Cons op ops)
  have "op \<noteq> TopupReset" "TopupReset \<notin> set ops" using Cons.prems(3) by auto
  then show ?case
    using Cons.IH [of "topup_exec op s"] locked_exec [OF Cons.prems(1,2), of op]
      topup_exec_safe [OF Cons.prems(2), of op] by simp
qed

subsection \<open>The runtime limit\<close>

text \<open>
  A monitor that only watches the pump: \<open>Some t\<close> while it is on, with \<open>t\<close> the last clock reading of
  the operation that turned it on.
\<close>

definition lastReading :: "'a board_scheme \<Rightarrow> u32" where
  "lastReading s = millisAt s (ioCount s - 1)"

definition watch :: "'a hydro_topup_scheme \<Rightarrow> 'a hydro_topup_scheme \<Rightarrow> u32 option \<Rightarrow> u32 option" where
  "watch s s' since = (if \<not> pump_isOn s' then None else if pump_isOn s then since
     else Some (lastReading s'))"

fun watchRun :: "topup_op list \<Rightarrow> 'a hydro_topup_scheme \<times> u32 option \<Rightarrow> 'a hydro_topup_scheme \<times> u32 option" where
  "watchRun [] sw = sw"
| "watchRun (op # ops) (s, since) = (let s' = topup_exec op s in watchRun ops (s', watch s s' since))"

definition watchInv :: "'a hydro_topup_scheme \<Rightarrow> u32 option \<Rightarrow> bool" where
  "watchInv s since \<longleftrightarrow> pumpSafe s \<and> since = (if pump_isOn s then Some (tc_stateStartMs s) else None)"

lemma tc_update_start:
  assumes safe: "pumpSafe s" and on: "pump_isOn (tc_update s)"
  shows "if pump_isOn s
    then tc_stateStartMs (tc_update s) = tc_stateStartMs s
       \<and> lastReading (tc_update s) - tc_stateStartMs s < tc_maxPumpRuntimeMs s
    else tc_stateStartMs (tc_update s) = lastReading (tc_update s)"
proof -
  define t where "t = float_update s"
  have nb: "\<not> tc_serviceMode t" "tc_pumpAllowed t"
    using on by (auto simp: tc_update_def t_def Let_def split: if_splits)
  define u where "u = (if tc_state t = Blocked then tc_enterState Idle t else t)"
  define v where "v = u\<lparr>ioCount := Suc (ioCount u)\<rparr>"
  have upd: "tc_update s = tc_run (millisAt u (ioCount u)) (float_stableState u) v"
    using nb by (simp add: tc_update_def t_def [symmetric] u_def [symmetric] v_def millis_def Let_def)
  show ?thesis
  proof (cases "pump_isOn s")
    case True
    then have "tc_state s = Pumping" using safe by (simp add: pumpSafe_def)
    then have u: "u = t" "tc_state v = Pumping" by (simp_all add: u_def t_def v_def)
    then show ?thesis
      using True on upd
      by (auto simp: tc_run_def v_def t_def lastReading_def not_le split: if_splits)
  next
    case False
    then have "\<not> pump_isOn v" by (simp add: v_def u_def t_def)
    then show ?thesis
      using False on upd
      by (auto simp: tc_run_def lastReading_def Let_def split: TopupState.splits if_splits)
  qed
qed

lemma watch_exec:
  assumes "watchInv s since"
  shows "watchInv (topup_exec op s) (watch s (topup_exec op s) since)"
proof (cases "pump_isOn (topup_exec op s)")
  case False
  then show ?thesis using assms by (simp add: watchInv_def watch_def topup_exec_safe)
next
  case True
  have safe: "pumpSafe s" using assms by (simp add: watchInv_def)
  have *: "(if pump_isOn s then tc_stateStartMs (topup_exec op s) = tc_stateStartMs s
      else tc_stateStartMs (topup_exec op s) = lastReading (topup_exec op s))"
  proof (cases op)
    case TopupUpdate
    then show ?thesis using tc_update_start [OF safe] True by (simp split: if_splits)
  qed (use True in \<open>auto simp: tc_setServiceMode_def tc_setPumpAllowed_def tc_resetLockout_def Let_def
      split: if_splits\<close>)
  then show ?thesis
    using True assms topup_exec_safe [OF safe, of op] by (auto simp: watchInv_def watch_def split: if_splits)
qed

lemma watchRun_inv:
  "watchInv s since \<Longrightarrow> watchInv (fst (watchRun ops (s, since))) (snd (watchRun ops (s, since)))"
  by (induction ops arbitrary: s since) (simp_all add: Let_def watch_exec)

lemma watchRun_fst [simp]: "fst (watchRun ops (s, since)) = fold topup_exec ops s"
  by (induction ops arbitrary: s since) (simp_all add: Let_def)

lemma watchInv_begin: "watchInv (tc_begin s) None"
  by (simp add: watchInv_def tc_begin_safe) (simp add: tc_begin_def millis_def Let_def)

end
