(* ===== verification/HydroAlarm.thy ===== *)
theory HydroAlarm
  imports HydroTopup
begin

text \<open>
  The alarm of HydroSense (\<open>AlarmManager.cpp\<close>: one alarm by priority) and its sound
  (\<open>BuzzerController.cpp\<close>: one beep and a five second pause for a warning, three beeps and a three
  second pause for a critical alarm, mute until the alarm changes). In \<open>updateCritical\<close> the switch
  has a case for every state; in \<open>updateWarning\<close> the state \<open>BeepOff\<close> goes to the default case.
\<close>

datatype AlarmSeverity = SeverityNone | SeverityInfo | SeverityWarning | SeverityCritical

datatype AlarmCode = AlarmNone | TankSensorFault | TankLevelLow | TankLevelCritical | PumpLockout

datatype PatternState = PatternIdle | BeepOn | BeepOff | PatternPause

record hydro_alarm = hydro_topup +
  al_code :: AlarmCode
  al_severity :: AlarmSeverity
  bc_patternState :: PatternState
  bc_stateStartMs :: u32
  bc_beepCount :: u8
  bc_muted :: bool
  bc_lastAlarmCode :: AlarmCode

definition al_setAlarm :: "AlarmCode \<Rightarrow> AlarmSeverity \<Rightarrow> 'a hydro_alarm_scheme \<Rightarrow> 'a hydro_alarm_scheme" where
  "al_setAlarm code severity s = s\<lparr>al_code := code, al_severity := severity\<rparr>"

definition al_clearAlarm :: "'a hydro_alarm_scheme \<Rightarrow> 'a hydro_alarm_scheme" where
  "al_clearAlarm s = s\<lparr>al_code := AlarmNone, al_severity := SeverityNone\<rparr>"

definition al_begin :: "'a hydro_alarm_scheme \<Rightarrow> 'a hydro_alarm_scheme" where
  "al_begin s = al_clearAlarm s"

definition al_update :: "'a hydro_alarm_scheme \<Rightarrow> 'a hydro_alarm_scheme" where
  "al_update s =
    (if tc_isLocked s then al_setAlarm PumpLockout SeverityCritical s
     else if tank_sensorFault s then al_setAlarm TankSensorFault SeverityCritical s
     else if res_isCritical s then al_setAlarm TankLevelCritical SeverityCritical s
     else if res_isLow s then al_setAlarm TankLevelLow SeverityWarning s
     else al_clearAlarm s)"

definition al_hasAlarm :: "'a hydro_alarm_scheme \<Rightarrow> bool" where
  "al_hasAlarm s \<longleftrightarrow> al_code s \<noteq> AlarmNone"

definition bc_resetPattern :: "'a hydro_alarm_scheme \<Rightarrow> 'a hydro_alarm_scheme" where
  "bc_resetPattern s =
    (let s = bz_off s;
         s = s\<lparr>bc_patternState := PatternIdle\<rparr>;
         (t, s) = millis s
     in s\<lparr>bc_stateStartMs := t, bc_beepCount := 0\<rparr>)"

definition bc_begin :: "'a hydro_alarm_scheme \<Rightarrow> 'a hydro_alarm_scheme" where
  "bc_begin s =
    (let s = bz_off s
     in bc_resetPattern (s\<lparr>bc_muted := False, bc_lastAlarmCode := AlarmNone\<rparr>))"

definition bc_updateWarning :: "u32 \<Rightarrow> 'a hydro_alarm_scheme \<Rightarrow> 'a hydro_alarm_scheme" where
  "bc_updateWarning now s = (case bc_patternState s of
     PatternIdle \<Rightarrow> (bz_on s)\<lparr>bc_patternState := BeepOn, bc_stateStartMs := now\<rparr>
   | BeepOn \<Rightarrow> if now - bc_stateStartMs s \<ge> 150
               then (bz_off s)\<lparr>bc_patternState := PatternPause, bc_stateStartMs := now\<rparr> else s
   | PatternPause \<Rightarrow> if now - bc_stateStartMs s \<ge> 5000 then s\<lparr>bc_patternState := PatternIdle\<rparr> else s
   | BeepOff \<Rightarrow> s\<lparr>bc_patternState := PatternIdle\<rparr>)"

definition bc_updateCritical :: "u32 \<Rightarrow> 'a hydro_alarm_scheme \<Rightarrow> 'a hydro_alarm_scheme" where
  "bc_updateCritical now s = (case bc_patternState s of
     PatternIdle \<Rightarrow> (bz_on (s\<lparr>bc_beepCount := 0\<rparr>))\<lparr>bc_patternState := BeepOn, bc_stateStartMs := now\<rparr>
   | BeepOn \<Rightarrow> if now - bc_stateStartMs s \<ge> 150
               then let s = bz_off s;
                        s = s\<lparr>bc_beepCount := bc_beepCount s + 1, bc_stateStartMs := now\<rparr>
                    in s\<lparr>bc_patternState := if bc_beepCount s \<ge> 3 then PatternPause else BeepOff\<rparr>
               else s
   | BeepOff \<Rightarrow> if now - bc_stateStartMs s \<ge> 150
                then (bz_on s)\<lparr>bc_patternState := BeepOn, bc_stateStartMs := now\<rparr> else s
   | PatternPause \<Rightarrow> if now - bc_stateStartMs s \<ge> 3000 then s\<lparr>bc_patternState := PatternIdle\<rparr> else s)"

definition bc_update :: "'a hydro_alarm_scheme \<Rightarrow> 'a hydro_alarm_scheme" where
  "bc_update s =
    (let currentCode = al_code s; currentSeverity = al_severity s
     in if currentCode = AlarmNone
        then bc_resetPattern ((bz_off s)\<lparr>bc_muted := False, bc_lastAlarmCode := AlarmNone\<rparr>)
        else let s = (if currentCode \<noteq> bc_lastAlarmCode s
                      then (bc_resetPattern (s\<lparr>bc_muted := False\<rparr>))\<lparr>bc_lastAlarmCode := currentCode\<rparr>
                      else s)
             in if bc_muted s then bz_off s
                else let (now, s) = millis s
                     in case currentSeverity of
                          SeverityWarning \<Rightarrow> bc_updateWarning now s
                        | SeverityCritical \<Rightarrow> bc_updateCritical now s
                        | _ \<Rightarrow> bc_resetPattern (bz_off s))"

definition bc_mute :: "'a hydro_alarm_scheme \<Rightarrow> 'a hydro_alarm_scheme" where
  "bc_mute s = bc_resetPattern (bz_off (s\<lparr>bc_muted := True\<rparr>))"

section \<open>Frames\<close>

text \<open>
  \<open>pumpView\<close> is everything the pump's safety depends on. The alarm, the buzzer, the button and the
  tank leave it as it is.
\<close>

definition pumpView :: "'a hydro_topup_scheme \<Rightarrow>
    u8 \<times> bool \<times> bool \<times> u8 \<times> u8 \<times> TopupState \<times> bool \<times> bool \<times> bool" where
  "pumpView s = (pump_pin s, pump_isOn s, outLevel s (pump_pin s), us_trigPin s, bz_pin s,
     tc_state s, tc_serviceMode s, tc_pumpAllowed s, float_stableState s)"

lemma pumpView_cong:
  assumes "pumpView t = pumpView s"
  shows "pumpSafe t = pumpSafe s" "pumpPin t = pumpPin s" "pump_isOn t = pump_isOn s"
    "tc_state t = tc_state s" "tc_serviceMode t = tc_serviceMode s" "tc_pumpAllowed t = tc_pumpAllowed s"
    "pinsDistinct t = pinsDistinct s" "float_stableState t = float_stableState s"
    "outLevel t (pump_pin t) = outLevel s (pump_pin s)"
  using assms by (auto simp: pumpView_def pumpSafe_def pumpPin_def pinsDistinct_def)

lemma bz_write_view: "pinsDistinct s \<Longrightarrow> pumpView (bz_writeState b s) = pumpView s"
  by (simp add: pumpView_def bz_writeState_def digitalWrite_def pinsDistinct_def)

lemma us_measure_view: "pinsDistinct s \<Longrightarrow> pumpView (snd (us_measure s)) = pumpView s"
  by (simp add: pumpView_def us_measure_def board_defs pinsDistinct_def Let_def)

lemma bz_fields [simp]:
  "al_code (bz_writeState b s) = al_code s"
  "al_severity (bz_writeState b s) = al_severity s"
  "bc_muted (bz_writeState b s) = bc_muted s"
  "bc_lastAlarmCode (bz_writeState b s) = bc_lastAlarmCode s"
  "bc_patternState (bz_writeState b s) = bc_patternState s"
  "bc_stateStartMs (bz_writeState b s) = bc_stateStartMs s"
  "bc_beepCount (bz_writeState b s) = bc_beepCount s"
  "bz_isOn (bz_writeState b s) = b"
  "pinsDistinct (bz_writeState b s) = pinsDistinct s"
  by (simp_all add: bz_writeState_def digitalWrite_def pinsDistinct_def)

lemma view_upd [simp]:
  "pumpView (ioCount_update f t) = pumpView t"
  "pumpView (al_code_update f1 s) = pumpView s"
  "pumpView (al_severity_update f2 s) = pumpView s"
  "pumpView (bc_patternState_update f3 s) = pumpView s"
  "pumpView (bc_stateStartMs_update f4 s) = pumpView s"
  "pumpView (bc_beepCount_update f5 s) = pumpView s"
  "pumpView (bc_muted_update f6 s) = pumpView s"
  "pumpView (bc_lastAlarmCode_update f7 s) = pumpView s"
  by (simp_all add: pumpView_def)

lemma distinct_upd [simp]:
  "pinsDistinct (al_code_update f1 s) = pinsDistinct s"
  "pinsDistinct (al_severity_update f2 s) = pinsDistinct s"
  "pinsDistinct (bc_patternState_update f3 s) = pinsDistinct s"
  "pinsDistinct (bc_stateStartMs_update f4 s) = pinsDistinct s"
  "pinsDistinct (bc_beepCount_update f5 s) = pinsDistinct s"
  "pinsDistinct (bc_muted_update f6 s) = pinsDistinct s"
  "pinsDistinct (bc_lastAlarmCode_update f7 s) = pinsDistinct s"
  by (simp_all add: pinsDistinct_def)

lemma reset_view: "pinsDistinct s \<Longrightarrow> pumpView (bc_resetPattern s) = pumpView s"
  by (simp add: bc_resetPattern_def bz_off_def millis_def Let_def bz_write_view)

lemma reset_distinct [simp]: "pinsDistinct (bc_resetPattern s) = pinsDistinct s"
  by (simp add: bc_resetPattern_def bz_off_def millis_def Let_def)

lemma mute_view: "pinsDistinct s \<Longrightarrow> pumpView (bc_mute s) = pumpView s"
  by (simp add: bc_mute_def reset_view bz_off_def bz_write_view)

lemma al_update_view [simp]: "pumpView (al_update s) = pumpView s"
  by (simp add: al_update_def al_setAlarm_def al_clearAlarm_def)

lemma warning_view: "pinsDistinct s \<Longrightarrow> pumpView (bc_updateWarning now s) = pumpView s"
  by (simp add: bc_updateWarning_def bz_on_def bz_off_def bz_write_view split: PatternState.split)

lemma critical_view: "pinsDistinct s \<Longrightarrow> pumpView (bc_updateCritical now s) = pumpView s"
  by (simp add: bc_updateCritical_def bz_on_def bz_off_def bz_write_view Let_def split: PatternState.split)

lemma bc_update_view: "pinsDistinct s \<Longrightarrow> pumpView (bc_update s) = pumpView s"
  by (simp add: bc_update_def Let_def millis_def reset_view warning_view critical_view bz_off_def
      bz_write_view split: AlarmSeverity.split)

section \<open>Mute\<close>

text \<open>
  A muted alarm stays silent and muted while the same alarm lasts; another alarm, or no alarm, ends
  the mute.
\<close>

lemma bc_update_muted:
  assumes "bc_muted s" and "al_code s \<noteq> AlarmNone" and "al_code s = bc_lastAlarmCode s"
  shows "bc_update s = bz_off s"
  using assms by (simp add: bc_update_def Let_def)

lemma reset_fields [simp]:
  "al_code (bc_resetPattern s) = al_code s"
  "bc_muted (bc_resetPattern s) = bc_muted s"
  "bc_lastAlarmCode (bc_resetPattern s) = bc_lastAlarmCode s"
  "\<not> bz_isOn (bc_resetPattern s)"
  "bc_patternState (bc_resetPattern s) = PatternIdle"
  by (simp_all add: bc_resetPattern_def bz_off_def millis_def Let_def)

lemma bc_update_unmutes:
  assumes "al_code s \<noteq> bc_lastAlarmCode s"
  shows "\<not> bc_muted (bc_update s)"
  using assms by (simp add: bc_update_def Let_def millis_def bc_updateWarning_def bc_updateCritical_def
      bz_off_def bz_on_def split: AlarmSeverity.split PatternState.split)

end
