(* ===== verification/CText.thy ===== *)
theory CText
  imports AquaPrelude
begin

text \<open>
  Fixed character arrays of the configuration structs as byte lists of the array's length:
  initialisation from a literal, termination, \<open>strncpy\<close> and the bounded copy used by the Web
  application. Reads stay inside the array: \<open>strncpy\<close> is only called with a count below the size
  of its source array or with a terminated source.
\<close>

definition cArray :: "nat \<Rightarrow> string \<Rightarrow> bytes" where
  "cArray n cs = map of_char cs @ replicate (n - length cs) 0"

definition isNullTerminated :: "bytes \<Rightarrow> nat \<Rightarrow> bool" where
  "isNullTerminated text capacity \<longleftrightarrow> capacity \<noteq> 0 \<and> list_ex (\<lambda>index. text ! index = 0) [0..<capacity]"

definition isEmpty :: "bytes \<Rightarrow> bool" where
  "isEmpty value \<longleftrightarrow> value ! 0 = 0"

text \<open>The characters of a C string: those before the first NUL.\<close>

definition cChars :: "bytes \<Rightarrow> bytes" where
  "cChars text = takeWhile (\<lambda>c. c \<noteq> 0) text"

definition strncpy :: "bytes \<Rightarrow> bytes \<Rightarrow> nat \<Rightarrow> bytes" where
  "strncpy output input n =
     (let cs = take n (cChars input) in cs @ replicate (n - length cs) 0 @ drop n output)"

definition copyText :: "bytes \<Rightarrow> nat \<Rightarrow> bytes \<Rightarrow> bytes" where
  "copyText output capacity input =
     (if capacity = 0 then output
      else (strncpy (output[0 := 0]) input (capacity - 1))[capacity - 1 := 0])"

lemma length_cArray [simp]: "length cs \<le> n \<Longrightarrow> length (cArray n cs) = n"
  by (simp add: cArray_def)

lemma length_strncpy [simp]: "n \<le> length output \<Longrightarrow> length (strncpy output input n) = length output"
  by (auto simp: strncpy_def Let_def)

lemma length_copyText [simp]: "capacity \<le> length output \<Longrightarrow> length (copyText output capacity input) = length output"
  by (simp add: copyText_def)

lemma isNullTerminated_iff:
  "isNullTerminated text capacity \<longleftrightarrow> (\<exists>index<capacity. text ! index = 0)"
  by (auto simp: isNullTerminated_def list_ex_iff)

lemma copyText_terminated:
  assumes "0 < capacity" and "capacity \<le> length output"
  shows "isNullTerminated (copyText output capacity input) capacity"
proof -
  have "copyText output capacity input ! (capacity - 1) = 0"
    using assms by (simp add: copyText_def)
  then show ?thesis using assms(1) unfolding isNullTerminated_iff by (intro exI [of _ "capacity - 1"]) simp
qed

lemma cChars_append_zero [simp]: "cChars (xs @ 0 # ys) = cChars xs"
  by (simp add: cChars_def takeWhile_tail)

lemma cChars_takeWhile [simp]: "cChars (takeWhile (\<lambda>c. c \<noteq> 0) xs) = cChars xs"
  by (simp add: cChars_def)

text \<open>Copying a terminated text of the same array size keeps its characters.\<close>

lemma cChars_take: "cChars (take n (cChars xs)) = take n (cChars xs)"
proof -
  have "c \<noteq> 0" if "c \<in> set (take n (cChars xs))" for c
    using that by (metis cChars_def in_set_takeD set_takeWhileD)
  then show ?thesis unfolding cChars_def by (rule takeWhile_eq_all_conv [THEN iffD2, rule_format])
qed

lemma cChars_copyText:
  assumes "capacity = length output" and "0 < capacity"
  shows "cChars (copyText output capacity input) = take (capacity - 1) (cChars input)"
proof -
  define cs where "cs = take (capacity - 1) (cChars input)"
  have len: "length cs \<le> capacity - 1" by (simp add: cs_def)
  have out: "drop (capacity - 1) (output[0 := 0]) = [(output[0 := 0]) ! (capacity - 1)]"
    using assms by (metis Cons_nth_drop_Suc Suc_diff_1 diff_less drop_all length_list_update order_refl zero_less_one)
  have pre: "length (cs @ replicate (capacity - 1 - length cs) (0 :: u8)) = capacity - 1" using len by simp
  have "copyText output capacity input = cs @ replicate (capacity - 1 - length cs) 0 @ [0]"
  proof -
    have "strncpy (output[0 := 0]) input (capacity - 1) =
        (cs @ replicate (capacity - 1 - length cs) 0) @ [(output[0 := 0]) ! (capacity - 1)]"
      unfolding strncpy_def Let_def cs_def [symmetric] out by simp
    then show ?thesis using assms(2) pre
      by (simp only: copyText_def if_False) (simp add: list_update_append)
  qed
  also have "\<dots> = cs @ 0 # replicate (capacity - 1 - length cs) 0"
    by (metis Cons_replicate_eq append_Cons append_Nil replicate_append_same)
  finally show ?thesis by (simp add: cs_def cChars_take)
qed

lemma cArray_terminated: "length cs < n \<Longrightarrow> isNullTerminated (cArray n cs) n"
  unfolding isNullTerminated_iff by (rule exI [of _ "length cs"]) (simp add: cArray_def nth_append)

end
