(* ===== verification/HydroConfig.thy ===== *)
theory HydroConfig
  imports HydroAlarm CText StorageProperties
begin

text \<open>
  The configuration of HydroSense: the struct with its defaults (\<open>HydroSenseConfig.h\<close>), the
  validator, and the storage adapter over the dual-slot \<open>StorageService\<close>
  (\<open>HydroSenseConfigStorage.cpp\<close>). The payload of a record is the memory image of the struct;
  its layout is chosen by the compiler, so the image and its reading are the parameter
  \<open>config_image\<close>, and \<open>imageFloats\<close> says that what is read has binary32 members.
\<close>

record HydroSenseConfig =
  cfg_floatActiveLow :: bool
  cfg_floatUsePullup :: bool
  cfg_floatDebounceMs :: u32
  cfg_ultrasonicMinDistanceCm :: f32
  cfg_ultrasonicMaxDistanceCm :: f32
  cfg_ultrasonicTimeoutUs :: u32
  cfg_tankEmptyDistanceCm :: f32
  cfg_tankFullDistanceCm :: f32
  cfg_tankSampleIntervalMs :: u32
  cfg_tankMaxFailedSeries :: u8
  cfg_reserveLowPercent :: f32
  cfg_reserveCriticalPercent :: f32
  cfg_reserveHysteresisPercent :: f32
  cfg_topupStartDelayMs :: u32
  cfg_topupMaxPumpRuntimeMs :: u32
  cfg_wifiStaEnabled :: bool
  cfg_wifiSsid :: bytes
  cfg_wifiPassword :: bytes
  cfg_wifiHostname :: bytes
  cfg_wifiAutoReconnect :: bool
  cfg_wifiReconnectIntervalMs :: u32
  cfg_wifiApEnabled :: bool
  cfg_wifiApSsid :: bytes
  cfg_wifiApPassword :: bytes

definition HydroSenseConfig_default :: HydroSenseConfig where
  "HydroSenseConfig_default = \<lparr>cfg_floatActiveLow = True, cfg_floatUsePullup = True,
     cfg_floatDebounceMs = 100, cfg_ultrasonicMinDistanceCm = Fin 2, cfg_ultrasonicMaxDistanceCm = Fin 450,
     cfg_ultrasonicTimeoutUs = 30000, cfg_tankEmptyDistanceCm = Fin 40, cfg_tankFullDistanceCm = Fin 5,
     cfg_tankSampleIntervalMs = 80, cfg_tankMaxFailedSeries = 3, cfg_reserveLowPercent = Fin 25,
     cfg_reserveCriticalPercent = Fin 10, cfg_reserveHysteresisPercent = Fin 3,
     cfg_topupStartDelayMs = 3000, cfg_topupMaxPumpRuntimeMs = 120000, cfg_wifiStaEnabled = False,
     cfg_wifiSsid = cArray 33 '''', cfg_wifiPassword = cArray 65 '''',
     cfg_wifiHostname = cArray 33 ''hydrosense'', cfg_wifiAutoReconnect = True,
     cfg_wifiReconnectIntervalMs = 10000, cfg_wifiApEnabled = True,
     cfg_wifiApSsid = cArray 33 ''HydroSense-Setup'', cfg_wifiApPassword = cArray 65 ''''\<rparr>"

section \<open>Validation\<close>

definition validFloats :: "HydroSenseConfig \<Rightarrow> bool" where
  "validFloats c \<longleftrightarrow> isfinite (cfg_ultrasonicMinDistanceCm c) \<and> isfinite (cfg_ultrasonicMaxDistanceCm c)
     \<and> isfinite (cfg_tankEmptyDistanceCm c) \<and> isfinite (cfg_tankFullDistanceCm c)
     \<and> isfinite (cfg_reserveLowPercent c) \<and> isfinite (cfg_reserveCriticalPercent c)
     \<and> isfinite (cfg_reserveHysteresisPercent c)"

definition invalidSensor :: "HydroSenseConfig \<Rightarrow> bool" where
  "invalidSensor c \<longleftrightarrow> flt (cfg_ultrasonicMinDistanceCm c) (roundF (1 / 2))
     \<or> fle (cfg_ultrasonicMaxDistanceCm c) (cfg_ultrasonicMinDistanceCm c)
     \<or> flt (Fin 1000) (cfg_ultrasonicMaxDistanceCm c)
     \<or> cfg_ultrasonicTimeoutUs c < 1000 \<or> cfg_ultrasonicTimeoutUs c > 100000"

definition invalidTank :: "HydroSenseConfig \<Rightarrow> bool" where
  "invalidTank c \<longleftrightarrow> flt (cfg_tankFullDistanceCm c) (Fin 0)
     \<or> fle (cfg_tankEmptyDistanceCm c) (cfg_tankFullDistanceCm c)
     \<or> cfg_tankSampleIntervalMs c < 20 \<or> cfg_tankSampleIntervalMs c > 10000
     \<or> cfg_tankMaxFailedSeries c = 0 \<or> cfg_tankMaxFailedSeries c > 100"

definition invalidReserve :: "HydroSenseConfig \<Rightarrow> bool" where
  "invalidReserve c \<longleftrightarrow> flt (cfg_reserveCriticalPercent c) (Fin 0) \<or> flt (Fin 100) (cfg_reserveCriticalPercent c)
     \<or> flt (cfg_reserveLowPercent c) (Fin 0) \<or> flt (Fin 100) (cfg_reserveLowPercent c)
     \<or> fle (cfg_reserveLowPercent c) (cfg_reserveCriticalPercent c)
     \<or> flt (cfg_reserveHysteresisPercent c) (Fin 0) \<or> flt (Fin 20) (cfg_reserveHysteresisPercent c)"

definition validateHydroSenseConfig :: "HydroSenseConfig \<Rightarrow> bool" where
  "validateHydroSenseConfig c =
    (if \<not> validFloats c then False
     else if cfg_floatDebounceMs c > 5000 then False
     else if invalidSensor c then False
     else if invalidTank c then False
     else if invalidReserve c then False
     else if cfg_topupStartDelayMs c > 600000 \<or> cfg_topupMaxPumpRuntimeMs c < 1000 \<or>
             cfg_topupMaxPumpRuntimeMs c > 3600000 then False
     else if \<not> isNullTerminated (cfg_wifiSsid c) 33 \<or> \<not> isNullTerminated (cfg_wifiPassword c) 65 \<or>
             \<not> isNullTerminated (cfg_wifiHostname c) 33 \<or> \<not> isNullTerminated (cfg_wifiApSsid c) 33 \<or>
             \<not> isNullTerminated (cfg_wifiApPassword c) 65 then False
     else if cfg_wifiStaEnabled c \<and> isEmpty (cfg_wifiSsid c) then False
     else if cfg_wifiAutoReconnect c \<and> cfg_wifiStaEnabled c \<and> cfg_wifiReconnectIntervalMs c = 0 then False
     else if cfg_wifiApEnabled c \<and> isEmpty (cfg_wifiApSsid c) then False
     else True)"

section \<open>Storage\<close>

definition HYDRO_SCHEMA_VERSION :: u16 where "HYDRO_SCHEMA_VERSION = 3"

record config_image =
  img_size :: nat
  img_bytes :: "HydroSenseConfig \<Rightarrow> bytes"
  img_value :: "bytes \<Rightarrow> HydroSenseConfig"

definition validatePayload :: "config_image \<Rightarrow> payload_validator" where
  "validatePayload img payload payloadSize =
     (if payloadSize \<noteq> img_size img then False else validateHydroSenseConfig (img_value img payload))"

definition HydroSenseConfigStorage_new :: "config_image \<Rightarrow> 'b \<Rightarrow> nat \<Rightarrow> 'b storage_service" where
  "HydroSenseConfigStorage_new img b address =
     StorageService_new b (Some ''hydrosense'') (Some ''config_a'') (Some ''config_b'') address
       (Some (replicate (HEADER_SIZE + img_size img) 0)) (HEADER_SIZE + img_size img)"

definition hcs_begin :: "config_image \<Rightarrow> 'b backend_ops \<Rightarrow> 'b storage_service \<Rightarrow> bool \<times> 'b storage_service" where
  "hcs_begin img ops st = storage_begin ops st (img_size img) HYDRO_SCHEMA_VERSION (Some (validatePayload img))"

text \<open>\<open>load(config)\<close>: the configuration the caller's variable holds afterwards.\<close>

definition hcs_load ::
  "config_image \<Rightarrow> 'b backend_ops \<Rightarrow> HydroSenseConfig \<Rightarrow> 'b storage_service \<Rightarrow>
     bool \<times> HydroSenseConfig \<times> 'b storage_service" where
  "hcs_load img ops config st = (case storage_load ops st True of
     (True, Some payload, st) \<Rightarrow> (True, img_value img payload, st)
   | (_, _, st) \<Rightarrow> (False, config, st))"

text \<open>\<open>save(config)\<close>: \<open>address\<close> is where the caller keeps the struct.\<close>

definition hcs_save ::
  "config_image \<Rightarrow> 'b backend_ops \<Rightarrow> nat \<Rightarrow> HydroSenseConfig \<Rightarrow> 'b storage_service \<Rightarrow> bool \<times> 'b storage_service" where
  "hcs_save img ops address config st = storage_save ops st (Some (address, img_bytes img config))"

definition hcs_hasValidConfig :: "'b storage_service \<Rightarrow> bool" where
  "hcs_hasValidConfig st = ss_hasValidPayload st"

definition hcs_status :: "'b storage_service \<Rightarrow> StorageStatus" where
  "hcs_status st = storage_status st"

section \<open>What validation gives\<close>

definition isF32 :: "f32 \<Rightarrow> bool" where
  "isF32 x \<longleftrightarrow> (case x of Fin q \<Rightarrow> roundF q = Fin q | _ \<Rightarrow> True)"

text \<open>Every \<open>float\<close> member of a configuration is a binary32 value.\<close>

definition configFloats :: "HydroSenseConfig \<Rightarrow> bool" where
  "configFloats c \<longleftrightarrow> isF32 (cfg_ultrasonicMinDistanceCm c) \<and> isF32 (cfg_ultrasonicMaxDistanceCm c)
     \<and> isF32 (cfg_tankEmptyDistanceCm c) \<and> isF32 (cfg_tankFullDistanceCm c)
     \<and> isF32 (cfg_reserveLowPercent c) \<and> isF32 (cfg_reserveCriticalPercent c)
     \<and> isF32 (cfg_reserveHysteresisPercent c)"

text \<open>Reading a memory image gives such members.\<close>

definition imageFloats :: "config_image \<Rightarrow> bool" where
  "imageFloats img \<longleftrightarrow> (\<forall>bs. configFloats (img_value img bs))"

lemma default_texts:
  "isNullTerminated (cArray 33 '''') 33" "isNullTerminated (cArray 65 '''') 65"
  "isNullTerminated (cArray 33 ''hydrosense'') 33" "isNullTerminated (cArray 33 ''HydroSense-Setup'') 33"
  "\<not> isEmpty (cArray 33 ''HydroSense-Setup'')"
  by (simp_all add: cArray_terminated) (simp add: isEmpty_def cArray_def)

lemma roundF_one_half: "roundF (1 / 2) = Fin (1 / 2)"
  using roundF_half [of 1] by simp

lemma default_valid: "validateHydroSenseConfig HydroSenseConfig_default"
  unfolding validateHydroSenseConfig_def validFloats_def invalidSensor_def invalidTank_def invalidReserve_def
    HydroSenseConfig_default_def
  by (simp add: default_texts roundF_one_half)

text \<open>A valid geometry: the usable height is positive and finite.\<close>

lemma valid_geometry:
  assumes "validateHydroSenseConfig c" and "isF32 (cfg_tankEmptyDistanceCm c)"
  shows "isfinite (cfg_tankEmptyDistanceCm c)"
    and "isfinite (fsub (cfg_tankEmptyDistanceCm c) (cfg_tankFullDistanceCm c))"
proof -
  have v: "validFloats c" "\<not> invalidTank c"
    using assms(1) by (auto simp: validateHydroSenseConfig_def split: if_splits)
  then show "isfinite (cfg_tankEmptyDistanceCm c)" by (simp add: validFloats_def)
  obtain e f where ef: "cfg_tankEmptyDistanceCm c = Fin e" "cfg_tankFullDistanceCm c = Fin f"
    using v(1) by (auto simp: validFloats_def elim!: isfiniteE)
  have "0 \<le> f" "f < e" using v(2) ef by (auto simp: invalidTank_def)
  moreover have "roundF e = Fin e" using assms(2) ef by (simp add: isF32_def)
  ultimately obtain r where "roundF (e - f) = Fin r" using roundF_le_finite [of "e - f" e] by auto
  then show "isfinite (fsub (cfg_tankEmptyDistanceCm c) (cfg_tankFullDistanceCm c))" by (simp add: ef)
qed

end
