(* ===== verification/NetworkService.thy ===== *)
theory NetworkService
  imports CText
begin

text \<open>
  The Wi-Fi connection service (\<open>aquaOneCore/src/Network/NetworkService.cpp\<close>) above the abstract
  \<open>NetworkBackend\<close>: the 64-bit extension of \<open>millis()\<close>, \<open>begin\<close> with its error paths, \<open>update\<close>
  with the connect timeout and the paced reconnects, and the queries. The backend is a record of
  operations on its own state; the radio library behind it is not in the repository. With an
  injected clock the reading is an argument of \<open>net_update\<close>; with the legacy constructor the
  service reads its own extended clock.
\<close>

section \<open>Types\<close>

record IpAddress =
  octets :: bytes

definition noAddress :: IpAddress where
  "noAddress = \<lparr>octets = [0, 0, 0, 0]\<rparr>"

definition ip_isSet :: "IpAddress \<Rightarrow> bool" where
  "ip_isSet a \<longleftrightarrow> octets a ! 0 \<noteq> 0 \<or> octets a ! 1 \<noteq> 0 \<or> octets a ! 2 \<noteq> 0 \<or> octets a ! 3 \<noteq> 0"

datatype NetworkState = NetDisabled | NetIdle | NetConnecting | NetConnected | NetDisconnected | NetError

datatype AccessPointState = ApDisabled | ApActive | ApError

datatype BackendStaState = StaDisconnected | StaConnecting | StaConnected | StaError

datatype NetworkDisconnectReason =
    ReasonNone | ReasonUnknown | AssociationExpired | ConnectionFailed | AssociationComebackTooLong
  | AuthenticationFailed | ApNotFound | ReasonOther

datatype TriStateSetting = TriFrameworkDefault | TriEnabled | TriDisabled

datatype WifiPowerSaveMode = PsFrameworkDefault | PsNone

definition DEFAULT_RECONNECT_INTERVAL_MS :: u32 where
  "DEFAULT_RECONNECT_INTERVAL_MS = 10000"

record NetworkConfig =
  nc_staEnabled :: bool
  nc_ssid :: bytes
  nc_password :: bytes
  nc_hostname :: bytes
  nc_autoReconnect :: bool
  nc_reconnectIntervalMs :: u32
  nc_connectTimeoutMs :: u32
  nc_fastRetryEnabled :: bool
  nc_fastReconnectIntervalMs :: u32
  nc_persistent :: TriStateSetting
  nc_sdkAutoReconnect :: TriStateSetting
  nc_powerSave :: WifiPowerSaveMode
  nc_apEnabled :: bool
  nc_apSsid :: bytes
  nc_apPassword :: bytes

definition NetworkConfig_default :: NetworkConfig where
  "NetworkConfig_default = \<lparr>nc_staEnabled = False, nc_ssid = cArray 33 '''', nc_password = cArray 65 '''',
     nc_hostname = cArray 33 '''', nc_autoReconnect = True,
     nc_reconnectIntervalMs = DEFAULT_RECONNECT_INTERVAL_MS, nc_connectTimeoutMs = 0,
     nc_fastRetryEnabled = False, nc_fastReconnectIntervalMs = 0,
     nc_persistent = TriFrameworkDefault, nc_sdkAutoReconnect = TriFrameworkDefault,
     nc_powerSave = PsFrameworkDefault, nc_apEnabled = False, nc_apSsid = cArray 33 '''',
     nc_apPassword = cArray 65 ''''\<rparr>"

record 'b network_ops =
  nbApplyRadioPolicy :: "'b \<Rightarrow> TriStateSetting \<Rightarrow> TriStateSetting \<Rightarrow> WifiPowerSaveMode \<Rightarrow> bool \<times> 'b"
  nbSetHostname :: "'b \<Rightarrow> bytes \<Rightarrow> bool \<times> 'b"
  nbBeginSta :: "'b \<Rightarrow> bytes \<Rightarrow> bytes \<Rightarrow> bool \<times> 'b"
  nbStaState :: "'b \<Rightarrow> BackendStaState"
  nbReconnectSta :: "'b \<Rightarrow> bool \<times> 'b"
  nbDisconnectSta :: "'b \<Rightarrow> bool \<times> 'b"
  nbLocalIp :: "'b \<Rightarrow> IpAddress"
  nbRssi :: "'b \<Rightarrow> int"
  nbConsumeDisconnectReason :: "'b \<Rightarrow> NetworkDisconnectReason \<times> 'b"
  nbStartAccessPoint :: "'b \<Rightarrow> bytes \<Rightarrow> bytes \<Rightarrow> bool \<times> 'b"
  nbStopAccessPoint :: "'b \<Rightarrow> bool \<times> 'b"
  nbAccessPointIp :: "'b \<Rightarrow> IpAddress"

record legacy_clock =
  lc_nowMs :: u64
  lc_lastMs :: u32
  lc_hasObservation :: bool

record 'b network =
  net_backend :: 'b
  net_legacyClock :: legacy_clock
  net_legacyTiming :: bool
  net_config :: NetworkConfig
  net_state :: NetworkState
  net_apState :: AccessPointState
  net_ipAddress :: IpAddress
  net_apIpAddress :: IpAddress
  net_rssi :: int
  net_reconnectCount :: u32
  net_reconnectAnchorMs :: u64
  net_activeReconnectIntervalMs :: u32
  net_connectingStartedMs :: u64
  net_connectedSinceMs :: u64
  net_initialized :: bool
  net_initializationFailed :: bool
  net_hasReconnectAnchor :: bool
  net_hasConnectingStarted :: bool
  net_hasConnectedSince :: bool

definition NetworkService_new :: "'b \<Rightarrow> bool \<Rightarrow> 'b network" where
  "NetworkService_new backend legacyTiming = \<lparr>net_backend = backend,
     net_legacyClock = \<lparr>lc_nowMs = 0, lc_lastMs = 0, lc_hasObservation = False\<rparr>,
     net_legacyTiming = legacyTiming, net_config = NetworkConfig_default, net_state = NetDisabled,
     net_apState = ApDisabled, net_ipAddress = noAddress, net_apIpAddress = noAddress, net_rssi = 0,
     net_reconnectCount = 0, net_reconnectAnchorMs = 0,
     net_activeReconnectIntervalMs = DEFAULT_RECONNECT_INTERVAL_MS, net_connectingStartedMs = 0,
     net_connectedSinceMs = 0, net_initialized = False, net_initializationFailed = False,
     net_hasReconnectAnchor = False, net_hasConnectingStarted = False, net_hasConnectedSince = False\<rparr>"

section \<open>The legacy clock\<close>

definition lc_observe :: "u32 \<Rightarrow> legacy_clock \<Rightarrow> legacy_clock" where
  "lc_observe nowMs c =
    (let c = (if \<not> lc_hasObservation c then c\<lparr>lc_nowMs := ucast nowMs, lc_hasObservation := True\<rparr>
              else c\<lparr>lc_nowMs := lc_nowMs c + ucast (nowMs - lc_lastMs c)\<rparr>)
     in c\<lparr>lc_lastMs := nowMs\<rparr>)"

definition lc_expanded :: "u32 \<Rightarrow> legacy_clock \<Rightarrow> u64" where
  "lc_expanded nowMs c = (if lc_hasObservation c then lc_nowMs c + ucast (nowMs - lc_lastMs c) else ucast nowMs)"

section \<open>Operations\<close>

definition net_validateConfig :: "NetworkConfig \<Rightarrow> bool" where
  "net_validateConfig config =
    (if \<not> isNullTerminated (nc_ssid config) 33 \<or> \<not> isNullTerminated (nc_password config) 65 \<or>
        \<not> isNullTerminated (nc_hostname config) 33 \<or> \<not> isNullTerminated (nc_apSsid config) 33 \<or>
        \<not> isNullTerminated (nc_apPassword config) 65 then False
     else if nc_staEnabled config \<and> (isEmpty (nc_ssid config) \<or>
        (nc_autoReconnect config \<and> nc_reconnectIntervalMs config = 0)) then False
     else \<not> nc_apEnabled config \<or> \<not> isEmpty (nc_apSsid config))"

definition net_clearStaRuntime :: "'b network \<Rightarrow> 'b network" where
  "net_clearStaRuntime s =
     s\<lparr>net_ipAddress := noAddress, net_rssi := 0, net_connectedSinceMs := 0, net_hasConnectedSince := False\<rparr>"

text \<open>The release of a previous configuration and the reset at the start of \<open>begin\<close>.\<close>

definition net_release :: "'b network_ops \<Rightarrow> 'b network \<Rightarrow> 'b network" where
  "net_release ops s =
    (if net_initialized s
     then let s = (if nc_staEnabled (net_config s)
                   then s\<lparr>net_backend := snd (nbDisconnectSta ops (net_backend s))\<rparr> else s)
          in if nc_apEnabled (net_config s)
             then s\<lparr>net_backend := snd (nbStopAccessPoint ops (net_backend s))\<rparr> else s
     else s)"

definition net_reset :: "'b network \<Rightarrow> 'b network" where
  "net_reset s = net_clearStaRuntime
     (s\<lparr>net_initialized := False, net_initializationFailed := False, net_config := NetworkConfig_default,
        net_state := NetDisabled, net_apState := ApDisabled, net_apIpAddress := noAddress,
        net_reconnectCount := 0, net_reconnectAnchorMs := 0,
        net_activeReconnectIntervalMs := DEFAULT_RECONNECT_INTERVAL_MS, net_connectingStartedMs := 0,
        net_hasReconnectAnchor := False, net_hasConnectingStarted := False\<rparr>)"

definition net_failed :: "'b network \<Rightarrow> bool \<times> 'b network" where
  "net_failed s = (False, s\<lparr>net_state := NetError, net_initializationFailed := True\<rparr>)"

text \<open>The station part of \<open>begin\<close>.\<close>

definition net_beginSta :: "'b network_ops \<Rightarrow> 'b network \<Rightarrow> bool \<times> 'b network" where
  "net_beginSta ops s =
    (let config = net_config s
     in if \<not> nc_staEnabled config then (True, s\<lparr>net_state := NetIdle\<rparr>)
        else let (named, b) = (if isEmpty (nc_hostname config) then (True, net_backend s)
                               else nbSetHostname ops (net_backend s) (nc_hostname config));
                 s = s\<lparr>net_backend := b\<rparr>
             in if \<not> named then net_failed s
                else let (begun, b) = nbBeginSta ops (net_backend s) (nc_ssid config) (nc_password config);
                         s = s\<lparr>net_backend := b\<rparr>
                     in if \<not> begun then net_failed s else (True, s\<lparr>net_state := NetConnecting\<rparr>))"

definition net_begin :: "'b network_ops \<Rightarrow> NetworkConfig \<Rightarrow> 'b network \<Rightarrow> bool \<times> 'b network" where
  "net_begin ops config s =
    (let s = net_reset (net_release ops s)
     in if \<not> net_validateConfig config then (False, s\<lparr>net_state := NetError\<rparr>)
        else let s = s\<lparr>net_config := config, net_activeReconnectIntervalMs := nc_reconnectIntervalMs config\<rparr>
        in if \<not> nc_staEnabled config \<and> \<not> nc_apEnabled config then (True, s\<lparr>net_initialized := True\<rparr>)
        else let (applied, b) = nbApplyRadioPolicy ops (net_backend s) (nc_persistent config)
                   (nc_sdkAutoReconnect config) (nc_powerSave config);
                 s = s\<lparr>net_backend := b\<rparr>
        in if \<not> applied then (False, s\<lparr>net_state := NetError\<rparr>)
        else let s = s\<lparr>net_initialized := True\<rparr>
        in if nc_apEnabled config
           then let (started, b) = nbStartAccessPoint ops (net_backend s) (nc_apSsid config) (nc_apPassword config);
                    s = s\<lparr>net_backend := b\<rparr>
                in if started
                   then net_beginSta ops (s\<lparr>net_apState := ApActive, net_apIpAddress := nbAccessPointIp ops b\<rparr>)
                   else net_failed (s\<lparr>net_apState := ApError\<rparr>)
           else net_beginSta ops s)"

definition fastCandidate :: "NetworkDisconnectReason \<Rightarrow> bool" where
  "fastCandidate reason \<longleftrightarrow> reason = AssociationExpired \<or> reason = ConnectionFailed \<or>
     reason = AssociationComebackTooLong"

definition net_observeDisconnected ::
  "'b network_ops \<Rightarrow> BackendStaState \<Rightarrow> u64 \<Rightarrow> 'b network \<Rightarrow> 'b network" where
  "net_observeDisconnected ops backendState nowMs s =
    (let s = (net_clearStaRuntime s)\<lparr>net_connectingStartedMs := 0, net_hasConnectingStarted := False,
               net_state := (if backendState = StaError then NetError else NetDisconnected)\<rparr>;
         (reason, b) = nbConsumeDisconnectReason ops (net_backend s);
         s = s\<lparr>net_backend := b\<rparr>;
         config = net_config s
     in if \<not> net_hasReconnectAnchor s
        then s\<lparr>net_reconnectAnchorMs := nowMs, net_hasReconnectAnchor := True,
               net_activeReconnectIntervalMs :=
                 (if nc_fastRetryEnabled config \<and> fastCandidate reason \<and> nc_fastReconnectIntervalMs config > 0
                  then nc_fastReconnectIntervalMs config else nc_reconnectIntervalMs config)\<rparr>
        else if \<not> nc_autoReconnect config \<or>
                nowMs - net_reconnectAnchorMs s < ucast (net_activeReconnectIntervalMs s) then s
        else let s = s\<lparr>net_reconnectAnchorMs := nowMs, net_hasReconnectAnchor := False,
                       net_reconnectCount := net_reconnectCount s + 1\<rparr>;
                 (reconnected, b) = nbReconnectSta ops (net_backend s);
                 s = s\<lparr>net_backend := b\<rparr>
             in if reconnected
                then s\<lparr>net_state := NetConnecting, net_connectingStartedMs := nowMs,
                       net_hasConnectingStarted := True\<rparr>
                else s\<lparr>net_state := NetError\<rparr>)"

text \<open>\<open>update()\<close>, with the reading of the injected clock.\<close>

definition net_update :: "'b network_ops \<Rightarrow> u64 \<Rightarrow> 'b network \<Rightarrow> 'b network" where
  "net_update ops clockMs s =
    (if \<not> net_initialized s \<or> net_initializationFailed s \<or> \<not> nc_staEnabled (net_config s) then s
     else let nowMs = (if net_legacyTiming s then lc_nowMs (net_legacyClock s) else clockMs)
     in case nbStaState ops (net_backend s) of
          StaConnected \<Rightarrow>
            let s = (if net_state s \<noteq> NetConnected
                     then s\<lparr>net_connectedSinceMs := nowMs, net_hasConnectedSince := True\<rparr> else s)
            in s\<lparr>net_state := NetConnected, net_hasReconnectAnchor := False,
                 net_hasConnectingStarted := False, net_connectingStartedMs := 0,
                 net_ipAddress := nbLocalIp ops (net_backend s), net_rssi := nbRssi ops (net_backend s)\<rparr>
        | StaConnecting \<Rightarrow>
            let s = net_clearStaRuntime (s\<lparr>net_state := NetConnecting\<rparr>)
            in if \<not> net_hasConnectingStarted s
               then s\<lparr>net_connectingStartedMs := nowMs, net_hasConnectingStarted := True\<rparr>
               else if nc_connectTimeoutMs (net_config s) > 0 \<and>
                       nowMs - net_connectingStartedMs s \<ge> ucast (nc_connectTimeoutMs (net_config s))
               then net_observeDisconnected ops StaDisconnected nowMs s
               else s
        | backendState \<Rightarrow> net_observeDisconnected ops backendState nowMs s)"

text \<open>\<open>update(nowMs)\<close>, the adapter for callers that pass \<open>millis()\<close>.\<close>

definition net_updateAt :: "'b network_ops \<Rightarrow> u64 \<Rightarrow> u32 \<Rightarrow> 'b network \<Rightarrow> 'b network" where
  "net_updateAt ops clockMs nowMs s =
    (let s = (if net_legacyTiming s then s\<lparr>net_legacyClock := lc_observe nowMs (net_legacyClock s)\<rparr> else s)
     in net_update ops clockMs s)"

section \<open>Queries\<close>

definition net_isConnected :: "'b network \<Rightarrow> bool" where
  "net_isConnected s \<longleftrightarrow> net_state s = NetConnected"

definition net_isStaEnabled :: "'b network \<Rightarrow> bool" where
  "net_isStaEnabled s \<longleftrightarrow> net_initialized s \<and> nc_staEnabled (net_config s)"

definition net_isApEnabled :: "'b network \<Rightarrow> bool" where
  "net_isApEnabled s \<longleftrightarrow> net_initialized s \<and> nc_apEnabled (net_config s)"

definition net_isApActive :: "'b network \<Rightarrow> bool" where
  "net_isApActive s \<longleftrightarrow> net_apState s = ApActive"

definition net_ssidOf :: "'b network \<Rightarrow> bytes" where
  "net_ssidOf s = (if net_isStaEnabled s then cChars (nc_ssid (net_config s)) else [])"

definition net_hostnameOf :: "'b network \<Rightarrow> bytes" where
  "net_hostnameOf s = (if net_initialized s then cChars (nc_hostname (net_config s)) else [])"

definition net_accessPointSsid :: "'b network \<Rightarrow> bytes" where
  "net_accessPointSsid s = (if net_isApEnabled s then cChars (nc_apSsid (net_config s)) else [])"

definition net_rssiOf :: "'b network \<Rightarrow> int" where
  "net_rssiOf s = (if net_isConnected s then net_rssi s else 0)"

definition net_ipAddressOf :: "'b network \<Rightarrow> IpAddress" where
  "net_ipAddressOf s = (if net_isConnected s then net_ipAddress s else noAddress)"

definition net_accessPointIpAddress :: "'b network \<Rightarrow> IpAddress" where
  "net_accessPointIpAddress s = (if net_isApActive s then net_apIpAddress s else noAddress)"

definition net_connectionUptimeAt :: "u64 \<Rightarrow> 'b network \<Rightarrow> u64" where
  "net_connectionUptimeAt nowMs s =
    (if \<not> net_isConnected s \<or> \<not> net_hasConnectedSince s then 0 else nowMs - net_connectedSinceMs s)"

definition net_connectionUptime64 :: "u64 \<Rightarrow> 'b network \<Rightarrow> u64" where
  "net_connectionUptime64 clockMs s =
     net_connectionUptimeAt (if net_legacyTiming s then lc_nowMs (net_legacyClock s) else clockMs) s"

definition net_connectionUptime32 :: "u64 \<Rightarrow> u32 \<Rightarrow> 'b network \<Rightarrow> u32" where
  "net_connectionUptime32 clockMs nowMs s =
     ucast (net_connectionUptimeAt
       (if net_legacyTiming s then lc_expanded nowMs (net_legacyClock s) else clockMs) s)"

section \<open>Reconnect pacing\<close>

text \<open>
  \<open>net_poll\<close>: the radio may have moved to any state before the next update. The log of reconnect
  attempts holds the time of each and the interval it had to wait for.
\<close>

definition net_poll :: "'b network_ops \<Rightarrow> u64 \<times> 'b \<Rightarrow> 'b network \<Rightarrow> 'b network" where
  "net_poll ops e s = net_update ops (fst e) (s\<lparr>net_backend := snd e\<rparr>)"

fun reconnectLog :: "'b network_ops \<Rightarrow> (u64 \<times> 'b) list \<Rightarrow> 'b network \<Rightarrow> (u64 \<times> u32) list" where
  "reconnectLog ops [] s = []"
| "reconnectLog ops (e # es) s = (let s' = net_poll ops e s
     in (if net_reconnectCount s' \<noteq> net_reconnectCount s
         then [(fst e, net_activeReconnectIntervalMs s')] else []) @ reconnectLog ops es s')"

fun spacedFrom :: "u64 option \<Rightarrow> (u64 \<times> u32) list \<Rightarrow> bool" where
  "spacedFrom prev [] = True"
| "spacedFrom prev ((t, interval) # log) =
     ((case prev of None \<Rightarrow> True | Some p \<Rightarrow> p \<le> t \<and> ucast interval \<le> t - p) \<and> spacedFrom (Some t) log)"

definition waiting :: "'b network \<Rightarrow> 'b network \<Rightarrow> u64 \<Rightarrow> bool" where
  "waiting s s' t \<longleftrightarrow> net_reconnectCount s' = net_reconnectCount s \<and>
     (net_hasReconnectAnchor s' \<longrightarrow> net_reconnectAnchorMs s' = t \<or>
        net_hasReconnectAnchor s \<and> net_reconnectAnchorMs s' = net_reconnectAnchorMs s)"

definition reconnecting :: "'b network \<Rightarrow> 'b network \<Rightarrow> u64 \<Rightarrow> bool" where
  "reconnecting s s' t \<longleftrightarrow> net_reconnectCount s' = net_reconnectCount s + 1 \<and>
     net_hasReconnectAnchor s \<and> \<not> net_hasReconnectAnchor s' \<and> nc_autoReconnect (net_config s) \<and>
     net_activeReconnectIntervalMs s' = net_activeReconnectIntervalMs s \<and>
     ucast (net_activeReconnectIntervalMs s) \<le> t - net_reconnectAnchorMs s"

lemma clearStaRuntime_fields [simp]:
  "net_config (net_clearStaRuntime s) = net_config s"
  "net_legacyTiming (net_clearStaRuntime s) = net_legacyTiming s"
  "net_hasReconnectAnchor (net_clearStaRuntime s) = net_hasReconnectAnchor s"
  "net_reconnectAnchorMs (net_clearStaRuntime s) = net_reconnectAnchorMs s"
  "net_reconnectCount (net_clearStaRuntime s) = net_reconnectCount s"
  "net_activeReconnectIntervalMs (net_clearStaRuntime s) = net_activeReconnectIntervalMs s"
  "net_state (net_clearStaRuntime s) = net_state s"
  "net_hasConnectingStarted (net_clearStaRuntime s) = net_hasConnectingStarted s"
  "net_connectingStartedMs (net_clearStaRuntime s) = net_connectingStartedMs s"
  "net_backend (net_clearStaRuntime s) = net_backend s"
  by (simp_all add: net_clearStaRuntime_def)

definition intervalOk :: "'b network \<Rightarrow> bool" where
  "intervalOk s \<longleftrightarrow> net_activeReconnectIntervalMs s = nc_reconnectIntervalMs (net_config s) \<or>
     nc_fastRetryEnabled (net_config s) \<and>
     net_activeReconnectIntervalMs s = nc_fastReconnectIntervalMs (net_config s)"

lemma observeDisconnected_pacing:
  "waiting s (net_observeDisconnected ops st t s) t \<or> reconnecting s (net_observeDisconnected ops st t s) t"
  by (simp add: net_observeDisconnected_def waiting_def reconnecting_def Let_def split_beta not_less)

lemma observeDisconnected_frame:
  "net_config (net_observeDisconnected ops st t s) = net_config s"
  "net_legacyTiming (net_observeDisconnected ops st t s) = net_legacyTiming s"
  "intervalOk s \<Longrightarrow> intervalOk (net_observeDisconnected ops st t s)"
  by (auto simp: net_observeDisconnected_def intervalOk_def Let_def split_beta)

lemma net_update_pacing:
  assumes "\<not> net_legacyTiming s"
  shows "waiting s (net_update ops t s) t \<or> reconnecting s (net_update ops t s) t"
proof (cases "net_initialized s \<and> \<not> net_initializationFailed s \<and> nc_staEnabled (net_config s)")
  case False
  then show ?thesis by (auto simp: net_update_def waiting_def)
next
  case active: True
  define s1 where "s1 = net_clearStaRuntime (s\<lparr>net_state := NetConnecting\<rparr>)"
  have eqs: "waiting s = waiting s1" "reconnecting s = reconnecting s1"
    by (simp_all add: fun_eq_iff waiting_def reconnecting_def s1_def)
  show ?thesis
  proof (cases "nbStaState ops (net_backend s)")
    case StaConnecting
    have "net_update ops t s = (if \<not> net_hasConnectingStarted s1
        then s1\<lparr>net_connectingStartedMs := t, net_hasConnectingStarted := True\<rparr>
        else if nc_connectTimeoutMs (net_config s1) > 0 \<and>
                t - net_connectingStartedMs s1 \<ge> ucast (nc_connectTimeoutMs (net_config s1))
        then net_observeDisconnected ops StaDisconnected t s1 else s1)"
      using active StaConnecting assms by (simp add: net_update_def Let_def s1_def)
    moreover have "waiting s1 (s1\<lparr>net_connectingStartedMs := t, net_hasConnectingStarted := True\<rparr>) t"
      "waiting s1 s1 t" by (simp_all add: waiting_def)
    ultimately show ?thesis unfolding eqs using observeDisconnected_pacing [of s1] by presburger
  next
    case StaConnected
    then show ?thesis using active assms by (simp add: net_update_def Let_def waiting_def)
  next
    case StaDisconnected
    then show ?thesis using active assms observeDisconnected_pacing [of s] by (simp add: net_update_def Let_def)
  next
    case StaError
    then show ?thesis using active assms observeDisconnected_pacing [of s] by (simp add: net_update_def Let_def)
  qed
qed

lemma net_poll_pacing:
  assumes "\<not> net_legacyTiming s"
  shows "waiting s (net_poll ops e s) (fst e) \<or> reconnecting s (net_poll ops e s) (fst e)"
proof -
  define s0 where "s0 = s\<lparr>net_backend := snd e\<rparr>"
  have "waiting s = waiting s0" "reconnecting s = reconnecting s0"
    by (simp_all add: fun_eq_iff waiting_def reconnecting_def s0_def)
  then show ?thesis
    using net_update_pacing [of s0] assms by (simp add: net_poll_def s0_def [symmetric]) (simp add: s0_def)
qed

lemma net_update_config: "net_config (net_update ops t s) = net_config s"
  by (simp add: net_update_def Let_def observeDisconnected_frame split: BackendStaState.split)

lemma net_update_legacy: "net_legacyTiming (net_update ops t s) = net_legacyTiming s"
  by (simp add: net_update_def Let_def observeDisconnected_frame split: BackendStaState.split)

lemma intervalOk_cong:
  "net_activeReconnectIntervalMs t = net_activeReconnectIntervalMs s \<Longrightarrow> net_config t = net_config s \<Longrightarrow>
   intervalOk t = intervalOk s"
  by (simp add: intervalOk_def)

lemma net_update_interval:
  assumes "intervalOk s"
  shows "intervalOk (net_update ops t s)"
proof -
  define s1 where "s1 = net_clearStaRuntime (s\<lparr>net_state := NetConnecting\<rparr>)"
  have s1: "intervalOk s1" using assms intervalOk_cong [of s1 s] by (simp add: s1_def)
  show ?thesis
    using observeDisconnected_frame(3) [OF assms] observeDisconnected_frame(3) [OF s1] assms s1
    unfolding net_update_def s1_def [symmetric]
    by (simp add: Let_def s1_def [symmetric] split: BackendStaState.split) (simp add: intervalOk_def)
qed

lemma net_poll_frame:
  "net_config (net_poll ops e s) = net_config s"
  "net_legacyTiming (net_poll ops e s) = net_legacyTiming s"
  "intervalOk s \<Longrightarrow> intervalOk (net_poll ops e s)"
  using net_update_interval [of "s\<lparr>net_backend := snd e\<rparr>" ops "fst e"] intervalOk_cong [of "s\<lparr>net_backend := snd e\<rparr>" s]
  by (simp_all add: net_poll_def net_update_config net_update_legacy)

definition paced :: "u64 option \<Rightarrow> u64 \<Rightarrow> 'b network \<Rightarrow> bool" where
  "paced prev m s \<longleftrightarrow> (\<forall>p. prev = Some p \<longrightarrow> p \<le> m) \<and>
     (net_hasReconnectAnchor s \<longrightarrow> net_reconnectAnchorMs s \<le> m \<and>
        (\<forall>p. prev = Some p \<longrightarrow> p \<le> net_reconnectAnchorMs s))"

lemma word_gap:
  fixes p a t i :: u64
  assumes "p \<le> a" and "a \<le> t" and "i \<le> t - a"
  shows "i \<le> t - p"
proof -
  have "unat (t - a) = unat t - unat a" "unat (t - p) = unat t - unat p"
    using assms order_trans [OF assms(1,2)] by (simp_all add: unat_sub)
  then show ?thesis using assms by (simp add: word_le_nat_alt)
qed

lemma reconnectLog_spaced:
  assumes "\<not> net_legacyTiming s" and "paced prev m s" and "\<forall>t\<in>set (map fst es). m \<le> t"
    and "sorted (map fst es)"
  shows "spacedFrom prev (reconnectLog ops es s)"
  using assms
proof (induction es arbitrary: s prev m)
  case (Cons e es)
  define s' where "s' = net_poll ops e s"
  define t where "t = fst e"
  have mt: "m \<le> t" and later: "\<forall>u\<in>set (map fst es). t \<le> u" "sorted (map fst es)"
    using Cons.prems(3,4) by (simp_all add: t_def)
  have legacy: "\<not> net_legacyTiming s'" using Cons.prems(1) by (simp add: s'_def net_poll_frame)
  have mono: "paced prev t s" using Cons.prems(2) mt by (auto simp: paced_def)
  consider "waiting s s' t" | "reconnecting s s' t"
    using net_poll_pacing [OF Cons.prems(1), of ops e] unfolding s'_def t_def by blast
  then show ?case
  proof cases
    case 1
    then have "paced prev t s'" using mono by (auto simp: paced_def waiting_def)
    from Cons.IH [OF legacy this later] show ?thesis
      using 1 by (simp add: Let_def s'_def [symmetric] waiting_def)
  next
    case 2
    then have changed: "net_reconnectCount s' \<noteq> net_reconnectCount s" by (simp add: reconnecting_def)
    have "paced (Some t) t s'" using 2 by (simp add: paced_def reconnecting_def)
    then have rest: "spacedFrom (Some t) (reconnectLog ops es s')" by (rule Cons.IH [OF legacy _ later])
    have "p \<le> t \<and> ucast (net_activeReconnectIntervalMs s') \<le> t - p" if "prev = Some p" for p
    proof -
      have "p \<le> net_reconnectAnchorMs s" "net_reconnectAnchorMs s \<le> t" "p \<le> t"
        using mono 2 that by (auto simp: paced_def reconnecting_def)
      moreover have "ucast (net_activeReconnectIntervalMs s') \<le> t - net_reconnectAnchorMs s"
        using 2 by (simp add: reconnecting_def)
      ultimately show ?thesis using word_gap by blast
    qed
    then show ?thesis
      using rest changed by (simp add: Let_def s'_def [symmetric] t_def [symmetric] split: option.split)
  qed
qed simp

lemma reconnectLog_intervals:
  assumes "\<not> net_legacyTiming s" and "intervalOk s" and "(t, i) \<in> set (reconnectLog ops es s)"
  shows "nc_autoReconnect (net_config s) \<and> (i = nc_reconnectIntervalMs (net_config s) \<or>
    nc_fastRetryEnabled (net_config s) \<and> i = nc_fastReconnectIntervalMs (net_config s))"
  using assms
proof (induction es arbitrary: s)
  case (Cons e es)
  define s' where "s' = net_poll ops e s"
  have legacy: "\<not> net_legacyTiming s'" and cfg: "net_config s' = net_config s" and ok: "intervalOk s'"
    using Cons.prems(1,2) by (simp_all add: s'_def net_poll_frame)
  from Cons.prems(3) consider "(t, i) \<in> set (reconnectLog ops es s')"
    | "net_reconnectCount s' \<noteq> net_reconnectCount s" "i = net_activeReconnectIntervalMs s'"
    by (auto simp: Let_def s'_def [symmetric] split: if_splits)
  then show ?case
  proof cases
    case 1
    then show ?thesis using Cons.IH [OF legacy ok] cfg by simp
  next
    case 2
    then have "reconnecting s s' (fst e)"
      using net_poll_pacing [OF Cons.prems(1), of ops e] unfolding s'_def waiting_def by blast
    then show ?thesis using ok cfg 2 by (auto simp: reconnecting_def intervalOk_def)
  qed
qed simp

lemma net_begin_start:
  assumes "net_begin ops config s = (ok, t)"
  shows "\<not> net_hasReconnectAnchor t" "net_legacyTiming t = net_legacyTiming s" "intervalOk t"
proof -
  have sta: "net_hasReconnectAnchor (snd (net_beginSta ops u)) = net_hasReconnectAnchor u \<and>
      net_legacyTiming (snd (net_beginSta ops u)) = net_legacyTiming u \<and>
      net_activeReconnectIntervalMs (snd (net_beginSta ops u)) = net_activeReconnectIntervalMs u \<and>
      net_config (snd (net_beginSta ops u)) = net_config u" for u
    by (simp add: net_beginSta_def net_failed_def Let_def split_beta)
  define r where "r = net_reset (net_release ops s)"
  have r: "\<not> net_hasReconnectAnchor r" "net_legacyTiming r = net_legacyTiming s" "intervalOk r"
    by (simp_all add: r_def net_reset_def net_release_def Let_def intervalOk_def NetworkConfig_default_def)
  have t: "t = snd (net_begin ops config s)" using assms by simp
  have *: "net_hasReconnectAnchor t = net_hasReconnectAnchor r \<and> net_legacyTiming t = net_legacyTiming r \<and>
      (net_activeReconnectIntervalMs t = nc_reconnectIntervalMs config \<and> net_config t = config \<or>
       net_activeReconnectIntervalMs t = net_activeReconnectIntervalMs r \<and> net_config t = net_config r)"
    unfolding t net_begin_def r_def [symmetric] Let_def split_beta net_failed_def
    by (simp add: sta)
  then show "\<not> net_hasReconnectAnchor t" "net_legacyTiming t = net_legacyTiming s" "intervalOk t"
    using r by (auto simp: intervalOk_def)
qed

section \<open>The legacy clock\<close>

text \<open>
  \<open>millis()\<close> wraps every 49.7 days. As long as two observations are less than one wrap apart, the
  extended clock advances by the true time between them.
\<close>

fun lc_observeAll :: "nat list \<Rightarrow> legacy_clock \<Rightarrow> legacy_clock" where
  "lc_observeAll [] c = c"
| "lc_observeAll (t # ts) c = lc_observeAll ts (lc_observe (of_nat t) c)"

fun closelyObserved :: "nat list \<Rightarrow> bool" where
  "closelyObserved (t # u # ts) \<longleftrightarrow> t \<le> u \<and> u - t < 4294967296 \<and> closelyObserved (u # ts)"
| "closelyObserved _ \<longleftrightarrow> True"

lemma millis_difference:
  assumes "t \<le> u" and "u - t < 4294967296"
  shows "ucast (of_nat u - of_nat t :: u32) = (of_nat (u - t) :: u64)"
proof -
  have "(of_nat u - of_nat t :: u32) = of_nat (u - t)" using assms(1) by (simp add: of_nat_diff)
  moreover have "ucast (of_nat (u - t) :: u32) = (of_nat (u - t) :: u64)"
    using assms(2) by (simp add: unsigned_ucast_eq unsigned_of_nat word_unat_eq_iff take_bit_nat_eq_self)
  ultimately show ?thesis by simp
qed

lemma lc_observeAll_from:
  assumes "closelyObserved (t # ts)" and "lc_hasObservation c" and "lc_lastMs c = of_nat t"
  shows "lc_nowMs (lc_observeAll ts c) = lc_nowMs c + of_nat (last (t # ts) - t) \<and>
    lc_hasObservation (lc_observeAll ts c) \<and> lc_lastMs (lc_observeAll ts c) = of_nat (last (t # ts)) \<and>
    t \<le> last (t # ts)"
  using assms
proof (induction ts arbitrary: t c)
  case (Cons u ts)
  have tu: "t \<le> u" "u - t < 4294967296" "closelyObserved (u # ts)" using Cons.prems(1) by simp_all
  define c' where "c' = lc_observe (of_nat u) c"
  have c': "lc_hasObservation c'" "lc_lastMs c' = of_nat u" "lc_nowMs c' = lc_nowMs c + of_nat (u - t)"
    using Cons.prems(2,3) millis_difference [OF tu(1,2)] by (simp_all add: c'_def lc_observe_def Let_def)
  note IH = Cons.IH [OF tu(3) c'(1,2)]
  have "of_nat (u - t) + of_nat (last (u # ts) - u) = (of_nat (last (u # ts) - t) :: u64)"
    using IH tu(1) by (simp add: of_nat_diff)
  then show ?case using IH tu(1) c'(3) by (simp add: c'_def [symmetric] add.assoc)
qed simp

end
