(* ===== verification/WebBridge.thy ===== *)
theory WebBridge
  imports Commands
begin

text \<open>
  The bridges from the Web task to the application task: \<open>WebApplicationBridge.h\<close> (requests with an
  executor) and \<open>WebActionBridge.h\<close> (commands with a pipeline). A producer submits a request, gets a
  token and waits or abandons; the application takes the oldest request, executes it without the
  lock and publishes the result in the slot.

  One function per critical section: what a call does between \<open>lock\<close> and \<open>unlock\<close> is atomic, and
  \<open>processOne\<close> and \<open>wait\<close> are two sections with other tasks between them. The answers of the
  synchronizer (\<open>lock\<close>, \<open>prepareCompletion\<close>, \<open>signalCompletion\<close>, \<open>waitForCompletion\<close>) are
  arguments, since FreeRTOS is not in the repository. The fixed arrays \<open>slots_\<close> and \<open>pending_\<close> are lists
  of the length \<open>Capacity\<close>.
\<close>

section \<open>State\<close>

record ActionBridgeToken =
  tok_slotIndex :: nat
  tok_generation :: u64

datatype SubmitResult = SubmitAccepted | QueueFull | SubmitSyncFailure

datatype WaitResult = WaitCompleted | TimedOutAccepted | WaitInvalidToken | WaitSyncFailure

datatype AbandonResult = Abandoned | AbandonInvalidToken | AbandonSyncFailure

datatype ActionBridgeWaitStatus = Signaled | TimedOut | WaitFailure

datatype SlotState = SlotFree | SlotQueued | SlotProcessing | SlotCompleted

record ('q, 'r) bridge_slot =
  slot_request :: 'q
  slot_result :: 'r
  slot_generation :: u64
  slot_state :: SlotState
  slot_waiterAttached :: bool

record ('q, 'r) bridge =
  br_capacity :: nat
  br_slots :: "('q, 'r) bridge_slot list"
  br_pending :: "nat list"
  br_pendingHead :: nat
  br_pendingTail :: nat
  br_pendingCount :: nat

definition bridge_new :: "nat \<Rightarrow> 'q \<Rightarrow> 'r \<Rightarrow> ('q, 'r) bridge" where
  "bridge_new capacity q r = \<lparr>br_capacity = capacity,
     br_slots = replicate capacity \<lparr>slot_request = q, slot_result = r, slot_generation = 0,
       slot_state = SlotFree, slot_waiterAttached = False\<rparr>,
     br_pending = replicate capacity 0, br_pendingHead = 0, br_pendingTail = 0, br_pendingCount = 0\<rparr>"

definition set_slot :: "nat \<Rightarrow> (('q, 'r) bridge_slot \<Rightarrow> ('q, 'r) bridge_slot) \<Rightarrow> ('q, 'r) bridge \<Rightarrow> ('q, 'r) bridge" where
  "set_slot i f b = b\<lparr>br_slots := (br_slots b)[i := f (br_slots b ! i)]\<rparr>"

section \<open>Operations\<close>

fun freeSlotFrom :: "('q, 'r) bridge_slot list \<Rightarrow> nat \<Rightarrow> nat" where
  "freeSlotFrom [] index = index"
| "freeSlotFrom (slot # slots) index =
     (if slot_state slot = SlotFree then index else freeSlotFrom slots (Suc index))"

definition freeSlot :: "('q, 'r) bridge \<Rightarrow> nat" where
  "freeSlot b = freeSlotFrom (br_slots b) 0"

definition token_matches :: "('q, 'r) bridge \<Rightarrow> ActionBridgeToken \<Rightarrow> bool" where
  "token_matches b token \<longleftrightarrow> tok_slotIndex token < br_capacity b
     \<and> slot_state (br_slots b ! tok_slotIndex token) \<noteq> SlotFree
     \<and> slot_generation (br_slots b ! tok_slotIndex token) = tok_generation token"

definition nextGeneration :: "u64 \<Rightarrow> u64" where
  "nextGeneration generation = (let generation = generation + 1 in if generation = 0 then 1 else generation)"

definition slot_release :: "('q, 'r) bridge_slot \<Rightarrow> ('q, 'r) bridge_slot" where
  "slot_release slot = slot\<lparr>slot_waiterAttached := False, slot_state := SlotFree\<rparr>"

definition bridge_submit ::
  "nat \<Rightarrow> bool \<Rightarrow> bool \<Rightarrow> 'q \<Rightarrow> ('q, 'r) bridge \<Rightarrow> SubmitResult \<times> ActionBridgeToken option \<times> ('q, 'r) bridge" where
  "bridge_submit completionSlots locked prepared request b =
    (if completionSlots < br_capacity b \<or> \<not> locked then (SubmitSyncFailure, None, b)
     else let slotIndex = freeSlot b
     in if slotIndex = br_capacity b then (QueueFull, None, b)
     else if \<not> prepared then (SubmitSyncFailure, None, b)
     else let generation = nextGeneration (slot_generation (br_slots b ! slotIndex));
              b = set_slot slotIndex (\<lambda>slot. slot\<lparr>slot_generation := generation, slot_request := request,
                    slot_state := SlotQueued, slot_waiterAttached := True\<rparr>) b;
              b = b\<lparr>br_pending := (br_pending b)[br_pendingTail b := slotIndex],
                    br_pendingTail := (br_pendingTail b + 1) mod br_capacity b,
                    br_pendingCount := br_pendingCount b + 1\<rparr>
          in (SubmitAccepted, Some \<lparr>tok_slotIndex = slotIndex, tok_generation = generation\<rparr>, b))"

text \<open>\<open>processOne\<close> up to the executor: the slot, generation and request to execute.\<close>

definition bridge_take ::
  "bool \<Rightarrow> ('q, 'r) bridge \<Rightarrow> (nat \<times> u64 \<times> 'q) option \<times> ('q, 'r) bridge" where
  "bridge_take locked b =
    (if \<not> locked then (None, b)
     else if br_pendingCount b = 0 then (None, b)
     else let slotIndex = br_pending b ! br_pendingHead b;
              b = b\<lparr>br_pendingHead := (br_pendingHead b + 1) mod br_capacity b,
                    br_pendingCount := br_pendingCount b - 1\<rparr>;
              slot = br_slots b ! slotIndex
          in if slot_state slot \<noteq> SlotQueued then (None, b)
             else (Some (slotIndex, slot_generation slot, slot_request slot),
                   set_slot slotIndex (\<lambda>slot. slot\<lparr>slot_state := SlotProcessing\<rparr>) b))"

text \<open>\<open>processOne\<close> after the executor, with its result.\<close>

definition bridge_finish ::
  "bool \<Rightarrow> bool \<Rightarrow> nat \<Rightarrow> u64 \<Rightarrow> 'r \<Rightarrow> ('q, 'r) bridge \<Rightarrow> bool \<times> ('q, 'r) bridge" where
  "bridge_finish locked signaled slotIndex generation result b =
    (if \<not> locked then (False, b)
     else let completed = br_slots b ! slotIndex
     in if slot_generation completed \<noteq> generation \<or> slot_state completed \<noteq> SlotProcessing then (False, b)
     else if \<not> slot_waiterAttached completed then (True, set_slot slotIndex slot_release b)
     else (signaled, set_slot slotIndex (\<lambda>slot. slot\<lparr>slot_result := result, slot_state := SlotCompleted\<rparr>) b))"

text \<open>
  \<open>wait\<close> before the completion wait: the answer when it is already known, and the result it
  stores. \<open>None\<close> means that the producer goes on to wait.
\<close>

definition bridge_waitBegin ::
  "bool \<Rightarrow> ActionBridgeToken \<Rightarrow> ('q, 'r) bridge \<Rightarrow> (WaitResult \<times> 'r option) option \<times> ('q, 'r) bridge" where
  "bridge_waitBegin locked token b =
    (if \<not> locked then (Some (WaitSyncFailure, None), b)
     else if \<not> token_matches b token \<or> \<not> slot_waiterAttached (br_slots b ! tok_slotIndex token)
     then (Some (WaitInvalidToken, None), b)
     else let initial = br_slots b ! tok_slotIndex token
     in if slot_state initial = SlotCompleted
        then (Some (WaitCompleted, Some (slot_result initial)), set_slot (tok_slotIndex token) slot_release b)
        else (None, b))"

text \<open>
  \<open>wait\<close> after the completion wait. The two bridges differ in one case: after a failed or a spurious wake the
  application bridge detaches the waiter, the action bridge keeps it.
\<close>

definition bridge_waitEnd ::
  "bool \<Rightarrow> bool \<Rightarrow> ActionBridgeWaitStatus \<Rightarrow> ActionBridgeToken \<Rightarrow> ('q, 'r) bridge \<Rightarrow>
     (WaitResult \<times> 'r option) \<times> ('q, 'r) bridge" where
  "bridge_waitEnd detachOnFailure locked waitStatus token b =
    (if \<not> locked then ((WaitSyncFailure, None), b)
     else if \<not> token_matches b token \<or> \<not> slot_waiterAttached (br_slots b ! tok_slotIndex token)
     then ((WaitInvalidToken, None), b)
     else let i = tok_slotIndex token; slot = br_slots b ! i;
              detached = set_slot i (\<lambda>slot. slot\<lparr>slot_waiterAttached := False\<rparr>) b
     in if slot_state slot = SlotCompleted
        then ((WaitCompleted, Some (slot_result slot)), set_slot i slot_release b)
        else if waitStatus = WaitFailure \<or> waitStatus = Signaled
        then ((WaitSyncFailure, None), if detachOnFailure then detached else b)
        else if slot_state slot = SlotQueued \<or> slot_state slot = SlotProcessing
        then ((TimedOutAccepted, None), detached)
        else ((WaitInvalidToken, None), detached))"

definition applicationBridge_waitEnd ::
  "bool \<Rightarrow> ActionBridgeWaitStatus \<Rightarrow> ActionBridgeToken \<Rightarrow> ('q, 'r) bridge \<Rightarrow>
     (WaitResult \<times> 'r option) \<times> ('q, 'r) bridge" where
  "applicationBridge_waitEnd = bridge_waitEnd True"

definition actionBridge_waitEnd ::
  "bool \<Rightarrow> ActionBridgeWaitStatus \<Rightarrow> ActionBridgeToken \<Rightarrow> ('q, 'r) bridge \<Rightarrow>
     (WaitResult \<times> 'r option) \<times> ('q, 'r) bridge" where
  "actionBridge_waitEnd = bridge_waitEnd False"

definition bridge_abandon ::
  "bool \<Rightarrow> ActionBridgeToken \<Rightarrow> ('q, 'r) bridge \<Rightarrow> AbandonResult \<times> ('q, 'r) bridge" where
  "bridge_abandon locked token b =
    (if \<not> locked then (AbandonSyncFailure, b)
     else if \<not> token_matches b token \<or> \<not> slot_waiterAttached (br_slots b ! tok_slotIndex token)
     then (AbandonInvalidToken, b)
     else let i = tok_slotIndex token
     in (Abandoned,
         if slot_state (br_slots b ! i) = SlotCompleted then set_slot i slot_release b
         else set_slot i (\<lambda>slot. slot\<lparr>slot_waiterAttached := False\<rparr>) b))"

definition bridge_pendingCount :: "bool \<Rightarrow> ('q, 'r) bridge \<Rightarrow> nat" where
  "bridge_pendingCount locked b = (if \<not> locked then 0 else br_pendingCount b)"

text \<open>The command bridge: the executor is the command pipeline.\<close>

definition actionBridge_execute ::
  "('c, 'w) CommandPipelineConfig \<Rightarrow> 'c \<Rightarrow> 'w \<Rightarrow> CommandExecutionResult \<times> 'w" where
  "actionBridge_execute pipeline command w = pipeline_execute pipeline command w"

text \<open>A whole \<open>processOne\<close> of the application task, when no other task gets in between; \<open>None\<close> is a null executor.\<close>

definition bridge_processOne ::
  "bool \<Rightarrow> bool \<Rightarrow> bool \<Rightarrow> ('q \<Rightarrow> 'w \<Rightarrow> 'r \<times> 'w) option \<Rightarrow> ('q, 'r) bridge \<Rightarrow> 'w \<Rightarrow> bool \<times> ('q, 'r) bridge \<times> 'w" where
  "bridge_processOne locked1 locked2 signaled executor b w =
    (case executor of None \<Rightarrow> (False, b, w) | Some execute \<Rightarrow>
       (case bridge_take locked1 b of
          (None, b) \<Rightarrow> (False, b, w)
        | (Some (slotIndex, generation, request), b) \<Rightarrow>
            let (result, w) = execute request w;
                (ok, b) = bridge_finish locked2 signaled slotIndex generation result b
            in (ok, b, w)))"

end
