(* ===== verification/BridgeRuns.thy ===== *)
theory BridgeRuns
  imports WebBridge
begin

text \<open>
  Runs of a bridge: any interleaving of the critical sections of \<open>WebBridge\<close> by producers, by waiters with
  any token and by the application task. The record of a run keeps, beside the bridge, what
  happened: the requests accepted, the requests executed with their results, and the results
  delivered to waiters. The invariant \<open>runOk\<close> relates the ring buffer and the slots to these logs;
  its consequences are that the requests are executed in the order of their acceptance, each at
  most once, and that a waiter gets the result of the request its token stands for.
\<close>

section \<open>The ring of pending slots\<close>

definition queue :: "('q, 'r) bridge \<Rightarrow> nat list" where
  "queue b = map (\<lambda>k. br_pending b ! ((br_pendingHead b + k) mod br_capacity b)) [0..<br_pendingCount b]"

definition bridgeOk :: "('q, 'r) bridge \<Rightarrow> bool" where
  "bridgeOk b \<longleftrightarrow> 0 < br_capacity b \<and> length (br_slots b) = br_capacity b
     \<and> length (br_pending b) = br_capacity b \<and> br_pendingHead b < br_capacity b
     \<and> br_pendingTail b = (br_pendingHead b + br_pendingCount b) mod br_capacity b
     \<and> br_pendingCount b \<le> br_capacity b
     \<and> distinct (queue b)
     \<and> set (queue b) = {i. i < br_capacity b \<and> slot_state (br_slots b ! i) = SlotQueued}"

lemma length_queue [simp]: "length (queue b) = br_pendingCount b"
  by (simp add: queue_def)

lemma mod_shift_inj:
  fixes h j k c :: nat
  assumes "(h + j) mod c = (h + k) mod c" and "j < k" and "k < j + c"
  shows False
proof -
  have "(h + k) - (h + j) = k - j" by simp
  then have "c dvd k - j" using assms(1,2) by (metis mod_eq_dvd_iff_nat add_le_cancel_left less_imp_le)
  then have "c \<le> k - j" using assms(2) by (intro dvd_imp_le) simp_all
  then show False using assms(2,3) by simp
qed

lemma queue_slots [simp]:
  "queue (b\<lparr>br_slots := xs\<rparr>) = queue b"
  "queue (set_slot i f b) = queue b"
  by (simp_all add: queue_def set_slot_def)

lemma set_slot_fields [simp]:
  "br_capacity (set_slot i f b) = br_capacity b"
  "br_pending (set_slot i f b) = br_pending b"
  "br_pendingHead (set_slot i f b) = br_pendingHead b"
  "br_pendingTail (set_slot i f b) = br_pendingTail b"
  "br_pendingCount (set_slot i f b) = br_pendingCount b"
  "length (br_slots (set_slot i f b)) = length (br_slots b)"
  by (simp_all add: set_slot_def)

lemma set_slot_nth:
  "j < length (br_slots b) \<Longrightarrow>
   br_slots (set_slot i f b) ! j = (if j = i then f (br_slots b ! i) else br_slots b ! j)"
  by (simp add: set_slot_def nth_list_update)

lemma queue_enqueue:
  assumes "length (br_pending b) = br_capacity b" and "0 < br_capacity b"
    and "br_pendingTail b = (br_pendingHead b + br_pendingCount b) mod br_capacity b"
    and "br_pendingCount b < br_capacity b"
  shows "queue (b\<lparr>br_pending := (br_pending b)[br_pendingTail b := i],
      br_pendingTail := t, br_pendingCount := br_pendingCount b + 1\<rparr>) = queue b @ [i]"
proof -
  have neq: "br_pendingTail b \<noteq> (br_pendingHead b + k) mod br_capacity b" if "k < br_pendingCount b" for k
    using mod_shift_inj [of "br_pendingHead b" k "br_capacity b" "br_pendingCount b"] that assms(3,4) by auto
  have "br_pendingTail b < br_capacity b" using assms(2,3) by simp
  then show ?thesis using assms(1) neq by (simp add: queue_def assms(3) [symmetric])
qed

lemma queue_dequeue:
  assumes "0 < br_pendingCount b" and "br_pendingHead b < br_capacity b"
  shows "queue b = br_pending b ! br_pendingHead b #
     queue (b\<lparr>br_pendingHead := (br_pendingHead b + 1) mod br_capacity b,
              br_pendingCount := br_pendingCount b - 1\<rparr>)"
proof -
  obtain n where n: "br_pendingCount b = Suc n" using assms(1) gr0_implies_Suc by blast
  have "[0..<Suc n] = 0 # map Suc [0..<n]" by (simp add: map_Suc_upt upt_conv_Cons del: upt_Suc)
  then have "queue b = br_pending b ! br_pendingHead b #
      map (\<lambda>k. br_pending b ! ((br_pendingHead b + Suc k) mod br_capacity b)) [0..<n]"
    using assms(2) by (simp add: queue_def n del: upt_Suc)
  moreover have "((br_pendingHead b + 1) mod br_capacity b + k) mod br_capacity b =
      (br_pendingHead b + Suc k) mod br_capacity b" for k
    unfolding mod_add_left_eq by (rule arg_cong [of _ _ "\<lambda>x. x mod br_capacity b"]) simp
  ultimately show ?thesis unfolding queue_def n by simp
qed

lemma freeSlotFrom_spec:
  "freeSlotFrom slots k \<le> k + length slots \<and> k \<le> freeSlotFrom slots k \<and>
   (freeSlotFrom slots k < k + length slots \<longrightarrow> slot_state (slots ! (freeSlotFrom slots k - k)) = SlotFree)"
proof (induction slots k rule: freeSlotFrom.induct)
  case (2 slot slots k)
  show ?case
  proof (cases "slot_state slot = SlotFree")
    case False
    then show ?thesis using "2.IH" by (auto simp: nth_Cons')
  qed simp
qed simp

lemma freeSlot_spec:
  assumes "length (br_slots b) = br_capacity b" and "freeSlot b \<noteq> br_capacity b"
  shows "freeSlot b < br_capacity b" "slot_state (br_slots b ! freeSlot b) = SlotFree"
  using freeSlotFrom_spec [of "br_slots b" 0] assms by (auto simp: freeSlot_def)

text \<open>A free slot is not in the ring, so the ring has room for it.\<close>

lemma free_room:
  assumes "bridgeOk b" and "i < br_capacity b" and "slot_state (br_slots b ! i) \<noteq> SlotQueued"
  shows "br_pendingCount b < br_capacity b"
proof -
  have "set (queue b) \<subseteq> {..<br_capacity b} - {i}" using assms by (auto simp: bridgeOk_def)
  then have "card (set (queue b)) \<le> card ({..<br_capacity b} - {i})" by (intro card_mono) simp_all
  moreover have "card (set (queue b)) = br_pendingCount b"
    using assms(1) unfolding bridgeOk_def by (metis distinct_card length_queue)
  ultimately show ?thesis using assms(2) by simp
qed

text \<open>Changing a slot that is and stays out of the ring.\<close>

lemma bridgeOk_set_slot:
  assumes "bridgeOk b" and "i < br_capacity b"
    and "(slot_state (f (br_slots b ! i)) = SlotQueued) = (slot_state (br_slots b ! i) = SlotQueued)"
  shows "bridgeOk (set_slot i f b)"
proof -
  have "{j. j < br_capacity b \<and> slot_state (br_slots (set_slot i f b) ! j) = SlotQueued} =
      {j. j < br_capacity b \<and> slot_state (br_slots b ! j) = SlotQueued}"
    using assms by (intro Collect_cong conj_cong refl) (simp add: bridgeOk_def set_slot_nth)
  then show ?thesis using assms(1) unfolding bridgeOk_def by simp
qed

lemma bridgeOk_new: "0 < n \<Longrightarrow> bridgeOk (bridge_new n q r)"
  by (simp add: bridgeOk_def bridge_new_def queue_def)

section \<open>Runs\<close>

datatype ('q, 'r) app_phase = AppIdle | AppTaken nat u64 'q | AppDone nat u64 'r

record ('q, 'r, 'w) bridge_run =
  run_bridge :: "('q, 'r) bridge"
  run_phase :: "('q, 'r) app_phase"
  run_world :: 'w
  run_accepted :: "(ActionBridgeToken \<times> 'q) list"
  run_executed :: "(ActionBridgeToken \<times> 'q \<times> 'r) list"
  run_delivered :: "(ActionBridgeToken \<times> 'r) list"

definition run_start :: "nat \<Rightarrow> 'q \<Rightarrow> 'r \<Rightarrow> 'w \<Rightarrow> ('q, 'r, 'w) bridge_run" where
  "run_start capacity q r w = \<lparr>run_bridge = bridge_new capacity q r, run_phase = AppIdle, run_world = w,
     run_accepted = [], run_executed = [], run_delivered = []\<rparr>"

definition slotToken :: "nat \<Rightarrow> u64 \<Rightarrow> ActionBridgeToken" where
  "slotToken i g = \<lparr>tok_slotIndex = i, tok_generation = g\<rparr>"

definition deliver :: "ActionBridgeToken \<Rightarrow> (WaitResult \<times> 'r option) option \<Rightarrow> (ActionBridgeToken \<times> 'r) list" where
  "deliver token answer = (case answer of Some (WaitCompleted, Some r) \<Rightarrow> [(token, r)] | _ \<Rightarrow> [])"

inductive bridge_step ::
  "('q \<Rightarrow> 'w \<Rightarrow> 'r \<times> 'w) \<Rightarrow> ('q, 'r, 'w) bridge_run \<Rightarrow> ('q, 'r, 'w) bridge_run \<Rightarrow> bool"
  for executor :: "'q \<Rightarrow> 'w \<Rightarrow> 'r \<times> 'w" where
  submit: "bridge_submit n locked prepared q (run_bridge x) = (res, token, b) \<Longrightarrow>
    bridge_step executor x (x\<lparr>run_bridge := b, run_accepted := run_accepted x @
      (case token of None \<Rightarrow> [] | Some t \<Rightarrow> [(t, q)])\<rparr>)"
| take_none: "run_phase x = AppIdle \<Longrightarrow> bridge_take locked (run_bridge x) = (None, b) \<Longrightarrow>
    bridge_step executor x (x\<lparr>run_bridge := b\<rparr>)"
| take_some: "run_phase x = AppIdle \<Longrightarrow> bridge_take locked (run_bridge x) = (Some (i, g, q), b) \<Longrightarrow>
    bridge_step executor x (x\<lparr>run_bridge := b, run_phase := AppTaken i g q\<rparr>)"
| execute: "run_phase x = AppTaken i g q \<Longrightarrow> executor q (run_world x) = (r, w) \<Longrightarrow>
    bridge_step executor x (x\<lparr>run_phase := AppDone i g r, run_world := w,
      run_executed := run_executed x @ [(slotToken i g, q, r)]\<rparr>)"
| finish: "run_phase x = AppDone i g r \<Longrightarrow>
    bridge_finish locked signaled i g r (run_bridge x) = (ok, b) \<Longrightarrow>
    bridge_step executor x (x\<lparr>run_bridge := b, run_phase := AppIdle\<rparr>)"
| wait_first: "bridge_waitBegin locked token (run_bridge x) = (answer, b) \<Longrightarrow>
    bridge_step executor x (x\<lparr>run_bridge := b, run_delivered := run_delivered x @ deliver token answer\<rparr>)"
| wait_second: "bridge_waitEnd detach locked status token (run_bridge x) = (answer, b) \<Longrightarrow>
    bridge_step executor x (x\<lparr>run_bridge := b, run_delivered := run_delivered x @ deliver token (Some answer)\<rparr>)"
| abandon: "bridge_abandon locked token (run_bridge x) = (res, b) \<Longrightarrow>
    bridge_step executor x (x\<lparr>run_bridge := b\<rparr>)"

inductive bridge_steps ::
  "('q \<Rightarrow> 'w \<Rightarrow> 'r \<times> 'w) \<Rightarrow> ('q, 'r, 'w) bridge_run \<Rightarrow> ('q, 'r, 'w) bridge_run \<Rightarrow> bool"
  for executor :: "'q \<Rightarrow> 'w \<Rightarrow> 'r \<times> 'w" where
  refl: "bridge_steps executor x x"
| step: "bridge_steps executor x y \<Longrightarrow> bridge_step executor y z \<Longrightarrow> bridge_steps executor x z"

section \<open>The invariant\<close>

definition inFlight :: "('q, 'r) app_phase \<Rightarrow> (ActionBridgeToken \<times> 'q) list" where
  "inFlight p = (case p of AppTaken i g q \<Rightarrow> [(slotToken i g, q)] | _ \<Rightarrow> [])"

definition queued :: "('q, 'r) bridge \<Rightarrow> (ActionBridgeToken \<times> 'q) list" where
  "queued b = map (\<lambda>i. (slotToken i (slot_generation (br_slots b ! i)), slot_request (br_slots b ! i))) (queue b)"

definition phaseOk :: "('q, 'r, 'w) bridge_run \<Rightarrow> bool" where
  "phaseOk x = (case run_phase x of AppIdle \<Rightarrow> True
     | AppTaken i g q \<Rightarrow> i < br_capacity (run_bridge x)
     | AppDone i g r \<Rightarrow> i < br_capacity (run_bridge x) \<and> (\<exists>q. (slotToken i g, q, r) \<in> set (run_executed x)))"

definition resultsOk :: "('q, 'r, 'w) bridge_run \<Rightarrow> bool" where
  "resultsOk x \<longleftrightarrow> (\<forall>i < br_capacity (run_bridge x). slot_state (br_slots (run_bridge x) ! i) = SlotCompleted \<longrightarrow>
       (\<exists>q. (slotToken i (slot_generation (br_slots (run_bridge x) ! i)), q, slot_result (br_slots (run_bridge x) ! i))
          \<in> set (run_executed x)))
     \<and> (\<forall>(t, r) \<in> set (run_delivered x). \<exists>q. (t, q, r) \<in> set (run_executed x))"

fun runRequests :: "('q \<Rightarrow> 'w \<Rightarrow> 'r \<times> 'w) \<Rightarrow> 'q list \<Rightarrow> 'w \<Rightarrow> 'r list \<times> 'w" where
  "runRequests executor [] w = ([], w)"
| "runRequests executor (q # qs) w = (let (r, w) = executor q w; (rs, w) = runRequests executor qs w in (r # rs, w))"

definition logOk :: "('q \<Rightarrow> 'w \<Rightarrow> 'r \<times> 'w) \<Rightarrow> 'w \<Rightarrow> ('q, 'r, 'w) bridge_run \<Rightarrow> bool" where
  "logOk executor w0 x \<longleftrightarrow>
     run_accepted x = map (\<lambda>(t, q, r). (t, q)) (run_executed x) @ inFlight (run_phase x) @ queued (run_bridge x)
     \<and> runRequests executor (map (fst \<circ> snd) (run_executed x)) w0 = (map (snd \<circ> snd) (run_executed x), run_world x)"

definition generationsOk :: "('q, 'r, 'w) bridge_run \<Rightarrow> bool" where
  "generationsOk x \<longleftrightarrow> length (run_accepted x) < 2 ^ 64 \<longrightarrow>
     distinct (map fst (run_accepted x)) \<and>
     (\<forall>i < br_capacity (run_bridge x).
        unat (slot_generation (br_slots (run_bridge x) ! i)) =
          length (filter (\<lambda>e. tok_slotIndex (fst e) = i) (run_accepted x))) \<and>
     (\<forall>e \<in> set (run_accepted x). tok_slotIndex (fst e) < br_capacity (run_bridge x) \<and>
        tok_generation (fst e) \<le> slot_generation (br_slots (run_bridge x) ! tok_slotIndex (fst e)))"

definition runOk :: "('q \<Rightarrow> 'w \<Rightarrow> 'r \<times> 'w) \<Rightarrow> 'w \<Rightarrow> ('q, 'r, 'w) bridge_run \<Rightarrow> bool" where
  "runOk executor w0 x \<longleftrightarrow> bridgeOk (run_bridge x) \<and> phaseOk x \<and> resultsOk x \<and> logOk executor w0 x
     \<and> generationsOk x"

text \<open>
  \<open>keeps\<close>: a change of the slots that leaves the ring, the requests, the generations and the set of
  queued slots alone; \<open>sameResults\<close>: and that completes no slot.
\<close>

definition keeps :: "('q, 'r) bridge \<Rightarrow> ('q, 'r) bridge \<Rightarrow> bool" where
  "keeps b b' \<longleftrightarrow> br_capacity b' = br_capacity b \<and> br_pending b' = br_pending b \<and>
     br_pendingHead b' = br_pendingHead b \<and> br_pendingTail b' = br_pendingTail b \<and>
     br_pendingCount b' = br_pendingCount b \<and> length (br_slots b') = length (br_slots b) \<and>
     (\<forall>j < length (br_slots b). slot_generation (br_slots b' ! j) = slot_generation (br_slots b ! j) \<and>
        slot_request (br_slots b' ! j) = slot_request (br_slots b ! j) \<and>
        (slot_state (br_slots b' ! j) = SlotQueued) = (slot_state (br_slots b ! j) = SlotQueued))"

definition sameResults :: "('q, 'r) bridge \<Rightarrow> ('q, 'r) bridge \<Rightarrow> bool" where
  "sameResults b b' \<longleftrightarrow> (\<forall>j < length (br_slots b). slot_state (br_slots b' ! j) = SlotCompleted \<longrightarrow>
     slot_state (br_slots b ! j) = SlotCompleted \<and> slot_result (br_slots b' ! j) = slot_result (br_slots b ! j))"

lemma keeps_refl [simp]: "keeps b b" "sameResults b b"
  by (simp_all add: keeps_def sameResults_def)

lemma keeps_set_slot:
  assumes "slot_generation (f (br_slots b ! i)) = slot_generation (br_slots b ! i)"
    and "slot_request (f (br_slots b ! i)) = slot_request (br_slots b ! i)"
    and "(slot_state (f (br_slots b ! i)) = SlotQueued) = (slot_state (br_slots b ! i) = SlotQueued)"
  shows "keeps b (set_slot i f b)"
  using assms by (simp add: keeps_def set_slot_nth)

lemma sameResults_set_slot:
  assumes "slot_state (f (br_slots b ! i)) = SlotCompleted \<Longrightarrow>
      slot_state (br_slots b ! i) = SlotCompleted \<and> slot_result (f (br_slots b ! i)) = slot_result (br_slots b ! i)"
  shows "sameResults b (set_slot i f b)"
  using assms by (simp add: sameResults_def set_slot_nth)

lemma keeps_queue: "keeps b b' \<Longrightarrow> queue b' = queue b"
  by (simp add: keeps_def queue_def)

lemma keeps_ok:
  assumes k: "keeps b b'" and ok: "bridgeOk b"
  shows "bridgeOk b'"
proof -
  have "{j. j < br_capacity b \<and> slot_state (br_slots b' ! j) = SlotQueued} =
      {j. j < br_capacity b \<and> slot_state (br_slots b ! j) = SlotQueued}"
  proof (intro Collect_cong conj_cong refl)
    fix j assume "j < br_capacity b"
    moreover have "length (br_slots b) = br_capacity b" using ok by (simp add: bridgeOk_def)
    ultimately show "(slot_state (br_slots b' ! j) = SlotQueued) = (slot_state (br_slots b ! j) = SlotQueued)"
      using k unfolding keeps_def by metis
  qed simp
  then show ?thesis using ok keeps_queue [OF k] k unfolding bridgeOk_def keeps_def by simp
qed

lemma queue_bound: "bridgeOk b \<Longrightarrow> i \<in> set (queue b) \<Longrightarrow> i < length (br_slots b)"
  unfolding bridgeOk_def by auto

lemma keeps_queued: "keeps b b' \<Longrightarrow> bridgeOk b \<Longrightarrow> queued b' = queued b"
  unfolding queued_def using keeps_queue [of b b'] queue_bound [of b]
  by (auto simp: keeps_def intro!: map_cong)

lemma waitBegin_keeps:
  assumes "bridge_waitBegin locked token b = (answer, b')"
  shows "keeps b b' \<and> sameResults b b'"
  using assms
  by (auto simp: bridge_waitBegin_def Let_def slot_release_def split: if_splits
      intro!: keeps_set_slot sameResults_set_slot)

lemma waitEnd_keeps:
  assumes "bridge_waitEnd detach locked status token b = (answer, b')"
  shows "keeps b b' \<and> sameResults b b'"
  using assms
  by (auto simp: bridge_waitEnd_def Let_def slot_release_def split: if_splits
      intro!: keeps_set_slot sameResults_set_slot)

lemma abandon_keeps:
  assumes "bridge_abandon locked token b = (res, b')"
  shows "keeps b b' \<and> sameResults b b'"
  using assms
  by (auto simp: bridge_abandon_def Let_def slot_release_def split: if_splits
      intro!: keeps_set_slot sameResults_set_slot)

lemma finish_keeps:
  assumes "bridge_finish locked signaled i g r b = (ok, b')"
  shows "keeps b b' \<and> (sameResults b b' \<or>
    slot_generation (br_slots b ! i) = g \<and> b' = set_slot i (\<lambda>slot. slot\<lparr>slot_result := r, slot_state := SlotCompleted\<rparr>) b)"
  using assms
  by (auto simp: bridge_finish_def Let_def slot_release_def split: if_splits
      intro!: keeps_set_slot sameResults_set_slot)

text \<open>What a wait delivers is the result of the slot the token names.\<close>

definition delivers :: "ActionBridgeToken \<Rightarrow> ('q, 'r) bridge \<Rightarrow> 'r \<Rightarrow> bool" where
  "delivers token b r \<longleftrightarrow> tok_slotIndex token < br_capacity b \<and>
     slot_state (br_slots b ! tok_slotIndex token) = SlotCompleted \<and>
     slot_generation (br_slots b ! tok_slotIndex token) = tok_generation token \<and>
     slot_result (br_slots b ! tok_slotIndex token) = r"

lemma waitBegin_delivers:
  "bridge_waitBegin locked token b = (answer, b') \<Longrightarrow> (t, r) \<in> set (deliver token answer) \<Longrightarrow>
   t = token \<and> delivers token b r"
  by (auto simp: bridge_waitBegin_def Let_def deliver_def delivers_def token_matches_def split: if_splits)

lemma waitEnd_delivers:
  "bridge_waitEnd detach locked status token b = (answer, b') \<Longrightarrow> (t, r) \<in> set (deliver token (Some answer)) \<Longrightarrow>
   t = token \<and> delivers token b r"
  by (auto simp: bridge_waitEnd_def Let_def deliver_def delivers_def token_matches_def split: if_splits)

section \<open>Preservation\<close>

lemma slotToken_token: "slotToken (tok_slotIndex t) (tok_generation t) = t"
  by (simp add: slotToken_def)

lemma resultsOk_delivers:
  assumes "resultsOk x" and "delivers token (run_bridge x) r"
  shows "\<exists>q. (token, q, r) \<in> set (run_executed x)"
  using assms slotToken_token [of token] by (force simp: resultsOk_def delivers_def)

text \<open>A step that keeps the bridge and the logs except for deliveries that are justified.\<close>

lemma keeps_runOk:
  assumes ok: "runOk executor w0 x" and k: "keeps (run_bridge x) b" "sameResults (run_bridge x) b"
    and d: "\<And>t r. (t, r) \<in> set ds \<Longrightarrow> \<exists>q. (t, q, r) \<in> set (run_executed x)"
  shows "runOk executor w0 (x\<lparr>run_bridge := b, run_delivered := run_delivered x @ ds\<rparr>)"
proof -
  have bok: "bridgeOk (run_bridge x)" using ok by (simp add: runOk_def)
  have len: "length (br_slots (run_bridge x)) = br_capacity (run_bridge x)" using bok by (simp add: bridgeOk_def)
  have cap: "br_capacity b = br_capacity (run_bridge x)" using k(1) by (simp add: keeps_def)
  have "resultsOk (x\<lparr>run_bridge := b, run_delivered := run_delivered x @ ds\<rparr>)"
    using ok k d len cap
    by (fastforce simp: runOk_def resultsOk_def keeps_def sameResults_def)
  moreover have "generationsOk (x\<lparr>run_bridge := b, run_delivered := run_delivered x @ ds\<rparr>)"
    using ok k(1) len cap by (simp add: runOk_def generationsOk_def keeps_def)
  moreover have "logOk executor w0 (x\<lparr>run_bridge := b, run_delivered := run_delivered x @ ds\<rparr>)"
    using ok keeps_queued [OF k(1) bok] by (simp add: runOk_def logOk_def)
  moreover have "phaseOk (x\<lparr>run_bridge := b, run_delivered := run_delivered x @ ds\<rparr>)"
    using ok cap by (simp add: runOk_def phaseOk_def split: app_phase.splits)
  ultimately show ?thesis using keeps_ok [OF k(1) bok] by (simp add: runOk_def)
qed

lemma runRequests_snoc:
  "runRequests executor (qs @ [q]) w = (let (rs, v) = runRequests executor qs w; (r, u) = executor q v in (rs @ [r], u))"
  by (induction qs arbitrary: w) (simp_all add: Let_def split_beta)

lemma execute_runOk:
  assumes ok: "runOk executor w0 x" and p: "run_phase x = AppTaken i g q"
    and e: "executor q (run_world x) = (r, w)"
  shows "runOk executor w0 (x\<lparr>run_phase := AppDone i g r, run_world := w,
    run_executed := run_executed x @ [(slotToken i g, q, r)]\<rparr>)"
proof -
  have "resultsOk (x\<lparr>run_phase := AppDone i g r, run_world := w,
      run_executed := run_executed x @ [(slotToken i g, q, r)]\<rparr>)"
    using ok by (fastforce simp: runOk_def resultsOk_def)
  moreover have "phaseOk (x\<lparr>run_phase := AppDone i g r, run_world := w,
      run_executed := run_executed x @ [(slotToken i g, q, r)]\<rparr>)"
    using ok p by (auto simp: runOk_def phaseOk_def)
  moreover have "logOk executor w0 (x\<lparr>run_phase := AppDone i g r, run_world := w,
      run_executed := run_executed x @ [(slotToken i g, q, r)]\<rparr>)"
    using ok p e by (simp add: runOk_def logOk_def inFlight_def runRequests_snoc)
  ultimately show ?thesis using ok by (simp add: runOk_def generationsOk_def)
qed

lemma take_effect:
  assumes ok: "bridgeOk b" and t: "bridge_take locked b = (res, b')"
  shows "(res = None \<and> b' = b) \<or> (\<exists>i rest. queue b = i # rest \<and> i < br_capacity b \<and>
    res = Some (i, slot_generation (br_slots b ! i), slot_request (br_slots b ! i)) \<and>
    queue b' = rest \<and> bridgeOk b' \<and> br_capacity b' = br_capacity b \<and>
    br_slots b' = (br_slots b)[i := (br_slots b ! i)\<lparr>slot_state := SlotProcessing\<rparr>])"
proof (cases "locked \<and> br_pendingCount b \<noteq> 0")
  case False
  then have "bridge_take locked b = (None, b)" by (auto simp: bridge_take_def)
  then show ?thesis using t by simp
next
  case True
  define i where "i = br_pending b ! br_pendingHead b"
  define c where "c = b\<lparr>br_pendingHead := (br_pendingHead b + 1) mod br_capacity b,
              br_pendingCount := br_pendingCount b - 1\<rparr>"
  have q: "queue b = i # queue c"
    unfolding i_def c_def by (rule queue_dequeue) (use True ok in \<open>simp_all add: bridgeOk_def\<close>)
  have set: "set (queue b) = {j. j < br_capacity b \<and> slot_state (br_slots b ! j) = SlotQueued}"
    using ok by (simp add: bridgeOk_def)
  have "i \<in> set (queue b)" by (simp add: q)
  then have i: "i < br_capacity b" "slot_state (br_slots b ! i) = SlotQueued" unfolding set by simp_all
  define d where "d = set_slot i (\<lambda>slot. slot\<lparr>slot_state := SlotProcessing\<rparr>) c"
  have res: "res = Some (i, slot_generation (br_slots b ! i), slot_request (br_slots b ! i))" "b' = d"
    using t True i(2) by (simp_all add: bridge_take_def Let_def i_def [symmetric] c_def d_def)
  have slots: "br_slots d = (br_slots b)[i := (br_slots b ! i)\<lparr>slot_state := SlotProcessing\<rparr>]"
    by (simp add: d_def set_slot_def c_def)
  have qd: "queue d = queue c" by (simp add: d_def)
  have dist: "distinct (i # queue c)" using ok q by (simp add: bridgeOk_def)
  have tail: "(br_pendingHead b + br_pendingCount b) mod br_capacity b =
      ((br_pendingHead b + 1) mod br_capacity b + (br_pendingCount b - 1)) mod br_capacity b"
    unfolding mod_add_left_eq using True by (intro arg_cong [of _ _ "\<lambda>x. x mod br_capacity b"]) simp
  have "set (queue c) = {j. j < br_capacity b \<and> slot_state (br_slots d ! j) = SlotQueued}"
  proof -
    have len: "length (br_slots b) = br_capacity b" using ok by (simp add: bridgeOk_def)
    have "set (queue c) = set (queue b) - {i}" using dist by (auto simp: q)
    also have "\<dots> = {j. j < br_capacity b \<and> slot_state (br_slots b ! j) = SlotQueued \<and> j \<noteq> i}"
      unfolding set by blast
    also have "\<dots> = {j. j < br_capacity b \<and> slot_state (br_slots d ! j) = SlotQueued}"
      using i len by (intro Collect_cong) (auto simp: slots nth_list_update)
    finally show ?thesis .
  qed
  moreover have "br_capacity d = br_capacity b" "length (br_slots d) = length (br_slots b)"
      "br_pending d = br_pending b" "br_pendingHead d = (br_pendingHead b + 1) mod br_capacity b"
      "br_pendingTail d = br_pendingTail b" "br_pendingCount d = br_pendingCount b - 1"
    by (simp_all add: d_def c_def)
  moreover have "0 < br_capacity b" "length (br_slots b) = br_capacity b"
      "length (br_pending b) = br_capacity b" "br_pendingCount b \<le> br_capacity b"
      "br_pendingTail b = (br_pendingHead b + br_pendingCount b) mod br_capacity b" "distinct (queue c)"
    using ok dist by (simp_all add: bridgeOk_def)
  ultimately have "bridgeOk d" unfolding bridgeOk_def qd using tail by simp
  then show ?thesis using res q i slots qd by (auto simp: d_def c_def)
qed

lemma take_runOk:
  assumes ok: "runOk executor w0 x" and p: "run_phase x = AppIdle"
    and t: "bridge_take locked (run_bridge x) = (Some (i, g, q), b)"
  shows "runOk executor w0 (x\<lparr>run_bridge := b, run_phase := AppTaken i g q\<rparr>)"
proof -
  have bok: "bridgeOk (run_bridge x)" using ok by (simp add: runOk_def)
  obtain rest where e: "queue (run_bridge x) = i # rest" "i < br_capacity (run_bridge x)"
      "g = slot_generation (br_slots (run_bridge x) ! i)" "q = slot_request (br_slots (run_bridge x) ! i)"
      "queue b = rest" "bridgeOk b" "br_capacity b = br_capacity (run_bridge x)"
      "br_slots b = (br_slots (run_bridge x))[i := (br_slots (run_bridge x) ! i)\<lparr>slot_state := SlotProcessing\<rparr>]"
    using take_effect [OF bok t] by auto
  have len: "length (br_slots (run_bridge x)) = br_capacity (run_bridge x)" using bok by (simp add: bridgeOk_def)
  have gens: "slot_generation (br_slots b ! j) = slot_generation (br_slots (run_bridge x) ! j)"
    "slot_request (br_slots b ! j) = slot_request (br_slots (run_bridge x) ! j)"
    "slot_result (br_slots b ! j) = slot_result (br_slots (run_bridge x) ! j)"
    "slot_state (br_slots b ! j) = SlotCompleted \<Longrightarrow> slot_state (br_slots (run_bridge x) ! j) = SlotCompleted"
    if "j < br_capacity (run_bridge x)" for j
    using that len e(2) by (auto simp: e(8) nth_list_update split: if_splits)
  have inb: "j < br_capacity (run_bridge x)" if "j \<in> set rest" for j
    using queue_bound [OF bok, of j] e(1) len that by simp
  have "queued (run_bridge x) = (slotToken i g, q) # queued b"
    using gens inb by (simp add: queued_def e(1,3,4,5))
  then have "logOk executor w0 (x\<lparr>run_bridge := b, run_phase := AppTaken i g q\<rparr>)"
    using ok p by (simp add: runOk_def logOk_def inFlight_def)
  moreover have "resultsOk (x\<lparr>run_bridge := b, run_phase := AppTaken i g q\<rparr>)"
    using ok gens e(7) by (auto simp: runOk_def resultsOk_def)
  moreover have "generationsOk (x\<lparr>run_bridge := b, run_phase := AppTaken i g q\<rparr>)"
    using ok gens e(7) by (simp add: runOk_def generationsOk_def)
  ultimately show ?thesis using e by (simp add: runOk_def phaseOk_def)
qed

lemma finish_runOk:
  assumes ok: "runOk executor w0 x" and p: "run_phase x = AppDone i g r"
    and f: "bridge_finish locked signaled i g r (run_bridge x) = (res, b)"
  shows "runOk executor w0 (x\<lparr>run_bridge := b, run_phase := AppIdle\<rparr>)"
proof -
  have bok: "bridgeOk (run_bridge x)" using ok by (simp add: runOk_def)
  have k: "keeps (run_bridge x) b" using finish_keeps [OF f] by blast
  have len: "length (br_slots (run_bridge x)) = br_capacity (run_bridge x)" using bok by (simp add: bridgeOk_def)
  have cap: "br_capacity b = br_capacity (run_bridge x)" using k by (simp add: keeps_def)
  obtain q where i: "i < br_capacity (run_bridge x)" "(slotToken i g, q, r) \<in> set (run_executed x)"
    using ok p by (auto simp: runOk_def phaseOk_def)
  have published: "\<exists>q. (slotToken j (slot_generation (br_slots b ! j)), q, slot_result (br_slots b ! j)) \<in> set (run_executed x)"
    if j: "j < br_capacity b" "slot_state (br_slots b ! j) = SlotCompleted" for j
  proof (cases "slot_state (br_slots (run_bridge x) ! j) = SlotCompleted \<and>
      slot_result (br_slots b ! j) = slot_result (br_slots (run_bridge x) ! j)")
    case True
    then show ?thesis using ok k j cap len by (auto simp: runOk_def resultsOk_def keeps_def)
  next
    case False
    then have "\<not> sameResults (run_bridge x) b" using j cap len by (auto simp: sameResults_def)
    then have b: "slot_generation (br_slots (run_bridge x) ! i) = g"
        "b = set_slot i (\<lambda>slot. slot\<lparr>slot_result := r, slot_state := SlotCompleted\<rparr>) (run_bridge x)"
      using finish_keeps [OF f] by auto
    have "j = i" using False j cap len b(2) by (auto simp: set_slot_nth split: if_splits)
    then show ?thesis using b i len j by (auto simp: set_slot_nth)
  qed
  have "resultsOk (x\<lparr>run_bridge := b, run_phase := AppIdle\<rparr>)"
    using ok published by (simp add: runOk_def resultsOk_def)
  moreover have "generationsOk (x\<lparr>run_bridge := b, run_phase := AppIdle\<rparr>)"
    using ok k len cap by (simp add: runOk_def generationsOk_def keeps_def)
  moreover have "logOk executor w0 (x\<lparr>run_bridge := b, run_phase := AppIdle\<rparr>)"
    using ok p keeps_queued [OF k bok] by (simp add: runOk_def logOk_def inFlight_def)
  ultimately show ?thesis using keeps_ok [OF k bok] by (simp add: runOk_def phaseOk_def)
qed

lemma submit_effect:
  assumes ok: "bridgeOk b" and s: "bridge_submit n locked prepared q b = (res, token, b')"
  shows "(token = None \<and> b' = b) \<or> (\<exists>i g. i < br_capacity b \<and> slot_state (br_slots b ! i) = SlotFree \<and>
    g = nextGeneration (slot_generation (br_slots b ! i)) \<and> token = Some (slotToken i g) \<and>
    queue b' = queue b @ [i] \<and> bridgeOk b' \<and> br_capacity b' = br_capacity b \<and>
    br_slots b' = (br_slots b)[i := (br_slots b ! i)\<lparr>slot_generation := g, slot_request := q,
                    slot_state := SlotQueued, slot_waiterAttached := True\<rparr>])"
proof (cases "token = None")
  case True
  then show ?thesis using s by (auto simp: bridge_submit_def Let_def split: if_splits)
next
  case False
  define i where "i = freeSlot b"
  define g where "g = nextGeneration (slot_generation (br_slots b ! i))"
  define c where "c = set_slot i (\<lambda>slot. slot\<lparr>slot_generation := g, slot_request := q,
                    slot_state := SlotQueued, slot_waiterAttached := True\<rparr>) b"
  define d where "d = c\<lparr>br_pending := (br_pending c)[br_pendingTail c := i],
                    br_pendingTail := (br_pendingTail c + 1) mod br_capacity c,
                    br_pendingCount := br_pendingCount c + 1\<rparr>"
  have f: "br_capacity c = br_capacity b" "length (br_slots c) = length (br_slots b)"
      "br_pending c = br_pending b" "br_pendingHead c = br_pendingHead b"
      "br_pendingTail c = br_pendingTail b" "br_pendingCount c = br_pendingCount b" "queue c = queue b"
    by (simp_all add: c_def)
  have res: "freeSlot b \<noteq> br_capacity b" "token = Some (slotToken i g)" "b' = d"
    using s False
    by (auto simp: bridge_submit_def Let_def i_def [symmetric] g_def [symmetric] c_def [symmetric]
        d_def f slotToken_def split: if_splits)
  have len: "length (br_slots b) = br_capacity b" using ok by (simp add: bridgeOk_def)
  have i: "i < br_capacity b" "slot_state (br_slots b ! i) = SlotFree"
    using freeSlot_spec [OF len res(1)] by (simp_all add: i_def)
  have room: "br_pendingCount b < br_capacity b" by (rule free_room [OF ok i(1)]) (simp add: i(2))
  have ok': "0 < br_capacity b" "length (br_pending b) = br_capacity b" "br_pendingHead b < br_capacity b"
      "br_pendingTail b = (br_pendingHead b + br_pendingCount b) mod br_capacity b" "distinct (queue b)"
      "set (queue b) = {j. j < br_capacity b \<and> slot_state (br_slots b ! j) = SlotQueued}"
    using ok by (simp_all add: bridgeOk_def)
  have "queue d = queue c @ [i]"
    unfolding d_def by (rule queue_enqueue) (simp_all add: f ok'(1,2) room, simp add: ok'(4))
  then have q: "queue d = queue b @ [i]" by (simp only: f)
  have slots: "br_slots d = (br_slots b)[i := (br_slots b ! i)\<lparr>slot_generation := g, slot_request := q,
                    slot_state := SlotQueued, slot_waiterAttached := True\<rparr>]"
    by (simp add: d_def c_def set_slot_def)
  have "i \<notin> set (queue b)" unfolding ok'(6) by (simp add: i(2))
  then have dist: "distinct (queue d)" using ok'(5) by (simp add: q)
  have set: "set (queue d) = {j. j < br_capacity b \<and> slot_state (br_slots d ! j) = SlotQueued}"
  proof -
    have "set (queue d) = {j. j < br_capacity b \<and> (slot_state (br_slots b ! j) = SlotQueued \<or> j = i)}"
      unfolding q set_append ok'(6) using i(1) by auto
    also have "\<dots> = {j. j < br_capacity b \<and> slot_state (br_slots d ! j) = SlotQueued}"
      using i len by (intro Collect_cong) (auto simp: slots nth_list_update)
    finally show ?thesis .
  qed
  have tail: "(br_pendingTail b + 1) mod br_capacity b =
      (br_pendingHead b + (br_pendingCount b + 1)) mod br_capacity b"
    unfolding ok'(4) mod_add_left_eq by (simp add: add.assoc)
  have e: "br_capacity d = br_capacity b" "length (br_slots d) = br_capacity b"
      "length (br_pending d) = br_capacity b" "br_pendingHead d = br_pendingHead b"
      "br_pendingTail d = (br_pendingTail b + 1) mod br_capacity b" "br_pendingCount d = br_pendingCount b + 1"
    using f len ok'(2) by (simp_all add: d_def)
  have "bridgeOk d"
    unfolding bridgeOk_def e tail using ok'(1,3) room dist set by simp
  then show ?thesis using res(2,3) i q slots e(1) g_def by blast
qed

lemma submit_generations:
  assumes gen: "generationsOk x" and i: "i < br_capacity (run_bridge x)"
    and g: "g = nextGeneration (slot_generation (br_slots (run_bridge x) ! i))"
    and len: "length (br_slots (run_bridge x)) = br_capacity (run_bridge x)"
    and b: "br_capacity b = br_capacity (run_bridge x)"
      "br_slots b = (br_slots (run_bridge x))[i := (br_slots (run_bridge x) ! i)\<lparr>slot_generation := g,
         slot_request := q, slot_state := SlotQueued, slot_waiterAttached := True\<rparr>]"
  shows "generationsOk (x\<lparr>run_bridge := b, run_accepted := run_accepted x @ [(slotToken i g, q)]\<rparr>)"
  unfolding generationsOk_def
proof
  let ?cap = "br_capacity (run_bridge x)" and ?gen = "\<lambda>j. slot_generation (br_slots (run_bridge x) ! j)"
  let ?cnt = "\<lambda>j. length (filter (\<lambda>e. tok_slotIndex (fst e) = j) (run_accepted x))"
  assume "length (run_accepted (x\<lparr>run_bridge := b, run_accepted := run_accepted x @ [(slotToken i g, q)]\<rparr>)) < 2 ^ 64"
  then have small: "Suc (length (run_accepted x)) < 2 ^ 64" by simp
  then have old: "distinct (map fst (run_accepted x))" "\<And>j. j < ?cap \<Longrightarrow> unat (?gen j) = ?cnt j"
      "\<And>e. e \<in> set (run_accepted x) \<Longrightarrow> tok_slotIndex (fst e) < ?cap \<and> tok_generation (fst e) \<le> ?gen (tok_slotIndex (fst e))"
    using gen by (auto simp: generationsOk_def)
  have "unat (?gen i) < 2 ^ 64 - 1"
    using old(2) [OF i] small length_filter_le [of "\<lambda>e. tok_slotIndex (fst e) = i" "run_accepted x"] by linarith
  then have lt: "?gen i < - 1" by (simp add: word_less_nat_alt unsigned_minus_1_eq_mask mask_eq_exp_minus_1)
  have up: "unat (?gen i + 1) = Suc (unat (?gen i))" by (rule unat_Suc_less [OF lt])
  then have g1: "g = ?gen i + 1" using g by (auto simp: nextGeneration_def Let_def unat_eq_0 [symmetric])
  have g2: "?gen i < g" using up by (simp add: g1 word_less_nat_alt)
  have gens: "slot_generation (br_slots b ! j) = (if j = i then g else ?gen j)" if "j < ?cap" for j
    using that len i by (simp add: b(2) nth_list_update)
  have oldg: "tok_generation a \<le> g" if "(a, y) \<in> set (run_accepted x)" "tok_slotIndex a = i" for a y
    using old(3) [OF that(1)] that(2) g2 by auto
  have fresh: "slotToken i g \<notin> set (map fst (run_accepted x))"
  proof
    assume "slotToken i g \<in> set (map fst (run_accepted x))"
    then obtain e where "e \<in> set (run_accepted x)" "fst e = slotToken i g" by auto
    then show False using old(3) [of e] g2 by (auto simp: slotToken_def dest: leD)
  qed
  show "distinct (map fst (run_accepted (x\<lparr>run_bridge := b, run_accepted := run_accepted x @ [(slotToken i g, q)]\<rparr>))) \<and>
    (\<forall>j<br_capacity (run_bridge (x\<lparr>run_bridge := b, run_accepted := run_accepted x @ [(slotToken i g, q)]\<rparr>)).
      unat (slot_generation (br_slots (run_bridge (x\<lparr>run_bridge := b, run_accepted := run_accepted x @ [(slotToken i g, q)]\<rparr>)) ! j)) =
      length (filter (\<lambda>e. tok_slotIndex (fst e) = j)
        (run_accepted (x\<lparr>run_bridge := b, run_accepted := run_accepted x @ [(slotToken i g, q)]\<rparr>)))) \<and>
    (\<forall>e\<in>set (run_accepted (x\<lparr>run_bridge := b, run_accepted := run_accepted x @ [(slotToken i g, q)]\<rparr>)).
      tok_slotIndex (fst e) < br_capacity (run_bridge (x\<lparr>run_bridge := b, run_accepted := run_accepted x @ [(slotToken i g, q)]\<rparr>)) \<and>
      tok_generation (fst e) \<le> slot_generation
        (br_slots (run_bridge (x\<lparr>run_bridge := b, run_accepted := run_accepted x @ [(slotToken i g, q)]\<rparr>)) ! tok_slotIndex (fst e)))"
    using old fresh up i g2 b(1)
    by (auto simp: gens g1 [symmetric] slotToken_def intro: oldg)
qed

lemma submit_runOk:
  assumes ok: "runOk executor w0 x"
    and s: "bridge_submit n locked prepared q (run_bridge x) = (res, token, b)"
  shows "runOk executor w0 (x\<lparr>run_bridge := b, run_accepted := run_accepted x @
    (case token of None \<Rightarrow> [] | Some t \<Rightarrow> [(t, q)])\<rparr>)"
proof -
  have bok: "bridgeOk (run_bridge x)" using ok by (simp add: runOk_def)
  have len: "length (br_slots (run_bridge x)) = br_capacity (run_bridge x)" using bok by (simp add: bridgeOk_def)
  from submit_effect [OF bok s] show ?thesis
  proof (elim disjE exE conjE)
    assume "token = None" "b = run_bridge x"
    then show ?thesis using ok by simp
  next
    fix i g
    assume e: "i < br_capacity (run_bridge x)" "slot_state (br_slots (run_bridge x) ! i) = SlotFree"
      "g = nextGeneration (slot_generation (br_slots (run_bridge x) ! i))" "token = Some (slotToken i g)"
      "queue b = queue (run_bridge x) @ [i]" "bridgeOk b" "br_capacity b = br_capacity (run_bridge x)"
      "br_slots b = (br_slots (run_bridge x))[i := (br_slots (run_bridge x) ! i)\<lparr>slot_generation := g,
         slot_request := q, slot_state := SlotQueued, slot_waiterAttached := True\<rparr>]"
    have other: "br_slots b ! j = br_slots (run_bridge x) ! j" if "j \<noteq> i" for j
      using that by (simp add: e(8))
    have new: "slot_generation (br_slots b ! i) = g" "slot_request (br_slots b ! i) = q"
      "slot_state (br_slots b ! i) = SlotQueued" using e(1) len by (simp_all add: e(8))
    have "i \<notin> set (queue (run_bridge x))" using e(5,6) by (simp add: bridgeOk_def)
    then have otherq: "br_slots b ! j = br_slots (run_bridge x) ! j" if "j \<in> set (queue (run_bridge x))" for j
      using that other by metis
    have "queued b = queued (run_bridge x) @ [(slotToken i g, q)]"
      using new by (simp add: queued_def e(5) otherq)
    then have "logOk executor w0 (x\<lparr>run_bridge := b, run_accepted := run_accepted x @ [(slotToken i g, q)]\<rparr>)"
      using ok by (simp add: runOk_def logOk_def)
    moreover have "resultsOk (x\<lparr>run_bridge := b, run_accepted := run_accepted x @ [(slotToken i g, q)]\<rparr>)"
    proof -
      have r: "resultsOk x" using ok by (simp add: runOk_def)
      have "\<exists>p. (slotToken j (slot_generation (br_slots b ! j)), p, slot_result (br_slots b ! j)) \<in> set (run_executed x)"
        if "j < br_capacity (run_bridge x)" "slot_state (br_slots b ! j) = SlotCompleted" for j
      proof -
        have "j \<noteq> i" using that(2) new(3) by auto
        then show ?thesis using r that other [of j] by (simp add: resultsOk_def)
      qed
      then show ?thesis using r e(7) by (simp add: resultsOk_def)
    qed
    moreover have "phaseOk (x\<lparr>run_bridge := b, run_accepted := run_accepted x @ [(slotToken i g, q)]\<rparr>)"
      using ok e(7) by (simp add: runOk_def phaseOk_def split: app_phase.splits)
    moreover have "generationsOk (x\<lparr>run_bridge := b, run_accepted := run_accepted x @ [(slotToken i g, q)]\<rparr>)"
      by (rule submit_generations [OF _ e(1,3) len e(7,8)]) (use ok in \<open>simp add: runOk_def\<close>)
    ultimately show ?thesis using e(4,6) by (simp add: runOk_def)
  qed
qed

section \<open>Every run\<close>

lemma step_runOk:
  assumes "bridge_step executor x y" and ok: "runOk executor w0 x"
  shows "runOk executor w0 y"
  using assms(1)
proof cases
  case (submit n locked prepared q res token b)
  then show ?thesis using submit_runOk [OF ok] by simp
next
  case (take_none locked b)
  then have "b = run_bridge x" using take_effect [of "run_bridge x" locked None b] ok by (auto simp: runOk_def)
  then show ?thesis using take_none ok by simp
next
  case (take_some locked i g q b)
  then show ?thesis using take_runOk [OF ok] by simp
next
  case (execute i g q r w)
  then show ?thesis using execute_runOk [OF ok] by simp
next
  case (finish i g r locked signaled res b)
  then show ?thesis using finish_runOk [OF ok] by simp
next
  case (wait_first locked token answer b)
  have d: "\<exists>q. (t, q, r) \<in> set (run_executed x)" if "(t, r) \<in> set (deliver token answer)" for t r
    using waitBegin_delivers [OF wait_first(2) that] resultsOk_delivers [of x token r] ok by (simp add: runOk_def)
  show ?thesis using keeps_runOk [OF ok _ _ d] waitBegin_keeps [OF wait_first(2)] wait_first(1) by simp
next
  case (wait_second detach locked status token answer b)
  have d: "\<exists>q. (t, q, r) \<in> set (run_executed x)" if "(t, r) \<in> set (deliver token (Some answer))" for t r
    using waitEnd_delivers [OF wait_second(2) that] resultsOk_delivers [of x token r] ok by (simp add: runOk_def)
  show ?thesis using keeps_runOk [OF ok _ _ d] waitEnd_keeps [OF wait_second(2)] wait_second(1) by simp
next
  case (abandon locked token res b)
  show ?thesis using keeps_runOk [OF ok, of b "[]"] abandon_keeps [OF abandon(2)] abandon(1) by simp
qed

lemma start_runOk: "0 < n \<Longrightarrow> runOk executor w (run_start n q r w)"
  by (simp add: runOk_def run_start_def bridgeOk_new phaseOk_def resultsOk_def logOk_def generationsOk_def
      inFlight_def queued_def queue_def) (simp add: bridge_new_def)

lemma steps_runOk: "bridge_steps executor x y \<Longrightarrow> runOk executor w0 x \<Longrightarrow> runOk executor w0 y"
  by (induction rule: bridge_steps.induct) (auto intro: step_runOk)

text \<open>A request is executed with the token it was accepted under.\<close>

lemma executed_accepted:
  "runOk executor w0 x \<Longrightarrow> (t, q, r) \<in> set (run_executed x) \<Longrightarrow> (t, q) \<in> set (run_accepted x)"
  by (force simp: runOk_def logOk_def)

lemma accepted_unique:
  assumes "runOk executor w0 x" and "length (run_accepted x) < 2 ^ 64"
    and "(t, q) \<in> set (run_accepted x)" and "(t, q') \<in> set (run_accepted x)"
  shows "q = q'"
  using assms by (auto simp: runOk_def generationsOk_def intro: eq_key_imp_eq_value)

end
