(* ===== verification/HydroApp.thy ===== *)
theory HydroApp
  imports HydroConfig NetworkService BridgeRuns
begin

text \<open>
  The application object of HydroSense (\<open>app/HydroSenseApp.cpp\<close>) and the Web commands executed in its
  loop (\<open>web/HydroWebApplication.cpp\<close>). The record adds to the devices and controllers the
  configuration and its storage, the network service, the request bridge, the published snapshots
  and the restart state. The backends of the storage and of the radio, the memory image of the
  configuration and the answers of the synchronizers (\<open>app_syncAt\<close>) are parameters.
  The identity of the device, the core projections and the HTTP server started by \<open>beginSystem\<close> and
  \<open>beginWeb\<close> do not act on the water logic and are left out; \<open>ESP.restart()\<close> sets \<open>app_restarted\<close>.
\<close>

section \<open>Requests and projections\<close>

record HydroSettingsRequest =
  sreq_floatActiveLow :: bool
  sreq_floatUsePullup :: bool
  sreq_floatDebounceMs :: u32
  sreq_ultrasonicMinDistanceCm :: f32
  sreq_ultrasonicMaxDistanceCm :: f32
  sreq_ultrasonicTimeoutUs :: u32
  sreq_tankEmptyDistanceCm :: f32
  sreq_tankFullDistanceCm :: f32
  sreq_tankSampleIntervalMs :: u32
  sreq_tankMaxFailedSeries :: u8
  sreq_reserveLowPercent :: f32
  sreq_reserveCriticalPercent :: f32
  sreq_reserveHysteresisPercent :: f32
  sreq_topupStartDelayMs :: u32
  sreq_topupMaxPumpRuntimeMs :: u32
  sreq_wifiStaEnabled :: bool
  sreq_wifiSsid :: bytes
  sreq_wifiPassword :: bytes
  sreq_replaceWifiPassword :: bool
  sreq_wifiHostname :: bytes
  sreq_wifiAutoReconnect :: bool
  sreq_wifiReconnectIntervalMs :: u32
  sreq_wifiApEnabled :: bool
  sreq_wifiApSsid :: bytes
  sreq_wifiApPassword :: bytes
  sreq_replaceApPassword :: bool

datatype HydroWebRequestKind = ToggleServiceMode | MuteBuzzer | ResetLockout | SaveSettings | OtherKind u8

record HydroWebRequest =
  hreq_kind :: HydroWebRequestKind
  hreq_settings :: HydroSettingsRequest

datatype HydroWebResult = CompletedSuccess | HydroValidationFailure | HydroStorageFailure

text \<open>The passwords are not part of what the settings page can read.\<close>

record HydroSettingsProjection =
  sp_floatActiveLow :: bool
  sp_floatUsePullup :: bool
  sp_floatDebounceMs :: u32
  sp_ultrasonicMinDistanceCm :: f32
  sp_ultrasonicMaxDistanceCm :: f32
  sp_ultrasonicTimeoutUs :: u32
  sp_tankEmptyDistanceCm :: f32
  sp_tankFullDistanceCm :: f32
  sp_tankSampleIntervalMs :: u32
  sp_tankMaxFailedSeries :: u8
  sp_reserveLowPercent :: f32
  sp_reserveCriticalPercent :: f32
  sp_reserveHysteresisPercent :: f32
  sp_topupStartDelayMs :: u32
  sp_topupMaxPumpRuntimeMs :: u32
  sp_wifiStaEnabled :: bool
  sp_wifiSsid :: bytes
  sp_wifiHostname :: bytes
  sp_wifiAutoReconnect :: bool
  sp_wifiReconnectIntervalMs :: u32
  sp_wifiApEnabled :: bool
  sp_wifiApSsid :: bytes

record SystemStatus =
  sy_serviceMode :: bool
  sy_floatSensorActive :: bool
  sy_pumpOn :: bool
  sy_pumpAllowed :: bool
  sy_pumpLocked :: bool
  sy_topupState :: TopupState
  sy_tankValid :: bool
  sy_tankSensorFault :: bool
  sy_tankDistanceCm :: f32
  sy_tankLevelCm :: f32
  sy_tankLevelPercent :: f32
  sy_reserveState :: ReserveState
  sy_hasAlarm :: bool
  sy_alarmCode :: AlarmCode
  sy_alarmSeverity :: AlarmSeverity
  sy_buzzerMuted :: bool
  sy_networkState :: NetworkState
  sy_wifiConnected :: bool
  sy_wifiRssi :: int
  sy_ipAddress :: IpAddress
  sy_accessPointActive :: bool
  sy_accessPointIpAddress :: IpAddress
  sy_networkReconnectCount :: u32

text \<open>\<open>PublishedSnapshot\<close>: the value and its availability; the lock may fail.\<close>

record 'v snapshot =
  snap_value :: 'v
  snap_available :: bool

definition snap_publish :: "bool \<Rightarrow> 'v \<Rightarrow> 'v snapshot \<Rightarrow> bool \<times> 'v snapshot" where
  "snap_publish locked value s =
     (if \<not> locked then (False, s) else (True, s\<lparr>snap_value := value, snap_available := True\<rparr>))"

definition snap_read :: "bool \<Rightarrow> 'v snapshot \<Rightarrow> 'v option" where
  "snap_read locked s = (if \<not> locked \<or> \<not> snap_available s then None else Some (snap_value s))"

definition snap_invalidate :: "bool \<Rightarrow> 'v snapshot \<Rightarrow> bool \<times> 'v snapshot" where
  "snap_invalidate locked s = (if \<not> locked then (False, s) else (True, s\<lparr>snap_available := False\<rparr>))"

record ('b, 'n) hydro_app = hydro_alarm +
  app_config :: HydroSenseConfig
  app_configAddress :: nat
  app_storage :: "'b storage_service"
  app_status :: SystemStatus
  app_network :: "'n network"
  app_bridge :: "(HydroWebRequest, HydroWebResult) bridge"
  app_statusSnapshot :: "SystemStatus snapshot"
  app_settingsSnapshot :: "HydroSettingsProjection snapshot"
  app_syncAt :: "nat \<Rightarrow> bool \<times> bool \<times> bool"
  app_restartRequested :: bool
  app_restartPending :: bool
  app_restartRequestedMs :: u32
  app_restarted :: bool

type_synonym ('b, 'n) app_step = "('b, 'n) hydro_app \<Rightarrow> ('b, 'n) hydro_app"

section \<open>Web commands\<close>

definition settingsCandidate :: "HydroSenseConfig \<Rightarrow> HydroSettingsRequest \<Rightarrow> HydroSenseConfig" where
  "settingsCandidate config request =
    (let candidate = config
       \<lparr>cfg_floatActiveLow := sreq_floatActiveLow request,
        cfg_floatUsePullup := sreq_floatUsePullup request,
        cfg_floatDebounceMs := sreq_floatDebounceMs request,
        cfg_ultrasonicMinDistanceCm := sreq_ultrasonicMinDistanceCm request,
        cfg_ultrasonicMaxDistanceCm := sreq_ultrasonicMaxDistanceCm request,
        cfg_ultrasonicTimeoutUs := sreq_ultrasonicTimeoutUs request,
        cfg_tankEmptyDistanceCm := sreq_tankEmptyDistanceCm request,
        cfg_tankFullDistanceCm := sreq_tankFullDistanceCm request,
        cfg_tankSampleIntervalMs := sreq_tankSampleIntervalMs request,
        cfg_tankMaxFailedSeries := sreq_tankMaxFailedSeries request,
        cfg_reserveLowPercent := sreq_reserveLowPercent request,
        cfg_reserveCriticalPercent := sreq_reserveCriticalPercent request,
        cfg_reserveHysteresisPercent := sreq_reserveHysteresisPercent request,
        cfg_topupStartDelayMs := sreq_topupStartDelayMs request,
        cfg_topupMaxPumpRuntimeMs := sreq_topupMaxPumpRuntimeMs request,
        cfg_wifiStaEnabled := sreq_wifiStaEnabled request,
        cfg_wifiSsid := copyText (cfg_wifiSsid config) 33 (sreq_wifiSsid request),
        cfg_wifiHostname := copyText (cfg_wifiHostname config) 33 (sreq_wifiHostname request),
        cfg_wifiAutoReconnect := sreq_wifiAutoReconnect request,
        cfg_wifiReconnectIntervalMs := sreq_wifiReconnectIntervalMs request,
        cfg_wifiApEnabled := sreq_wifiApEnabled request,
        cfg_wifiApSsid := copyText (cfg_wifiApSsid config) 33 (sreq_wifiApSsid request)\<rparr>;
       candidate = (if sreq_replaceWifiPassword request
         then candidate\<lparr>cfg_wifiPassword := copyText (cfg_wifiPassword candidate) 65 (sreq_wifiPassword request)\<rparr>
         else candidate)
     in if sreq_replaceApPassword request
        then candidate\<lparr>cfg_wifiApPassword := copyText (cfg_wifiApPassword candidate) 65 (sreq_wifiApPassword request)\<rparr>
        else candidate)"

text \<open>\<open>candidate\<close> is a local variable of \<open>applySettings\<close>; its address is that of the configuration here.\<close>

definition applySettings ::
  "config_image \<Rightarrow> 'b backend_ops \<Rightarrow> HydroSettingsRequest \<Rightarrow> ('b, 'n) hydro_app \<Rightarrow>
     HydroWebResult \<times> ('b, 'n) hydro_app" where
  "applySettings img ops request s =
    (let candidate = settingsCandidate (app_config s) request
     in if \<not> validateHydroSenseConfig candidate then (HydroValidationFailure, s)
        else let (saved, st) = hcs_save img ops (app_configAddress s) candidate (app_storage s);
                 s = s\<lparr>app_storage := st\<rparr>
             in if \<not> saved then (HydroStorageFailure, s)
                else (CompletedSuccess, s\<lparr>app_config := candidate, app_restartRequested := True\<rparr>))"

definition hydro_execute ::
  "config_image \<Rightarrow> 'b backend_ops \<Rightarrow> HydroWebRequest \<Rightarrow> ('b, 'n) hydro_app \<Rightarrow>
     HydroWebResult \<times> ('b, 'n) hydro_app" where
  "hydro_execute img ops request s = (case hreq_kind request of
     ToggleServiceMode \<Rightarrow> (CompletedSuccess, tc_setServiceMode (\<not> tc_serviceMode s) s)
   | MuteBuzzer \<Rightarrow> (CompletedSuccess, bc_mute s)
   | ResetLockout \<Rightarrow> (CompletedSuccess, tc_resetLockout s)
   | SaveSettings \<Rightarrow> applySettings img ops (hreq_settings request) s
   | OtherKind k \<Rightarrow> (HydroValidationFailure, s))"

definition hydro_processOne :: "config_image \<Rightarrow> 'b backend_ops \<Rightarrow> ('b, 'n) hydro_app \<Rightarrow> bool \<times> ('b, 'n) hydro_app" where
  "hydro_processOne img ops s =
    (let (locked1, locked2, signaled) = app_syncAt s (ioCount s);
         (processed, b, s) = bridge_processOne locked1 locked2 signaled (Some (hydro_execute img ops)) (app_bridge s) s
     in (processed, s\<lparr>app_bridge := b\<rparr>))"

definition settingsProjection :: "HydroSenseConfig \<Rightarrow> HydroSettingsProjection" where
  "settingsProjection c =
    \<lparr>sp_floatActiveLow = cfg_floatActiveLow c, sp_floatUsePullup = cfg_floatUsePullup c,
     sp_floatDebounceMs = cfg_floatDebounceMs c,
     sp_ultrasonicMinDistanceCm = cfg_ultrasonicMinDistanceCm c,
     sp_ultrasonicMaxDistanceCm = cfg_ultrasonicMaxDistanceCm c,
     sp_ultrasonicTimeoutUs = cfg_ultrasonicTimeoutUs c,
     sp_tankEmptyDistanceCm = cfg_tankEmptyDistanceCm c, sp_tankFullDistanceCm = cfg_tankFullDistanceCm c,
     sp_tankSampleIntervalMs = cfg_tankSampleIntervalMs c, sp_tankMaxFailedSeries = cfg_tankMaxFailedSeries c,
     sp_reserveLowPercent = cfg_reserveLowPercent c, sp_reserveCriticalPercent = cfg_reserveCriticalPercent c,
     sp_reserveHysteresisPercent = cfg_reserveHysteresisPercent c,
     sp_topupStartDelayMs = cfg_topupStartDelayMs c, sp_topupMaxPumpRuntimeMs = cfg_topupMaxPumpRuntimeMs c,
     sp_wifiStaEnabled = cfg_wifiStaEnabled c,
     sp_wifiSsid = copyText (replicate 33 0) 33 (cfg_wifiSsid c),
     sp_wifiHostname = copyText (replicate 33 0) 33 (cfg_wifiHostname c),
     sp_wifiAutoReconnect = cfg_wifiAutoReconnect c,
     sp_wifiReconnectIntervalMs = cfg_wifiReconnectIntervalMs c,
     sp_wifiApEnabled = cfg_wifiApEnabled c,
     sp_wifiApSsid = copyText (replicate 33 0) 33 (cfg_wifiApSsid c)\<rparr>"

text \<open>\<open>publish\<close>, without the third snapshot (diagnostics of the core system).\<close>

definition hydro_publish :: "('b, 'n) app_step" where
  "hydro_publish s =
    (let (locked1, locked2, _) = app_syncAt s (ioCount s)
     in s\<lparr>app_statusSnapshot := snd (snap_publish locked1 (app_status s) (app_statusSnapshot s)),
          app_settingsSnapshot :=
            snd (snap_publish locked2 (settingsProjection (app_config s)) (app_settingsSnapshot s))\<rparr>)"

section \<open>The application loop\<close>

definition app_updateStatus :: "('b, 'n) app_step" where
  "app_updateStatus s = s\<lparr>app_status := app_status s
    \<lparr>sy_serviceMode := tc_serviceMode s, sy_floatSensorActive := float_stableState s,
     sy_pumpOn := pump_isOn s, sy_pumpAllowed := tc_pumpAllowed s, sy_pumpLocked := tc_isLocked s,
     sy_topupState := tc_state s, sy_tankValid := tank_valid s, sy_tankSensorFault := tank_sensorFault s,
     sy_tankDistanceCm := tank_distanceCm s, sy_tankLevelCm := tank_levelCm s,
     sy_tankLevelPercent := tank_levelPercent s, sy_reserveState := res_state s,
     sy_hasAlarm := al_hasAlarm s, sy_alarmCode := al_code s, sy_alarmSeverity := al_severity s,
     sy_buzzerMuted := bc_muted s, sy_networkState := net_state (app_network s),
     sy_wifiConnected := net_isConnected (app_network s), sy_wifiRssi := net_rssiOf (app_network s),
     sy_ipAddress := net_ipAddressOf (app_network s),
     sy_accessPointActive := net_isApActive (app_network s),
     sy_accessPointIpAddress := net_accessPointIpAddress (app_network s),
     sy_networkReconnectCount := net_reconnectCount (app_network s)\<rparr>\<rparr>"

definition app_handleButton :: "('b, 'n) app_step" where
  "app_handleButton s =
    (let (short, s) = btn_shortPress s;
         s = (if short then bc_mute s else s);
         (long, s) = btn_longPress s
     in if long then tc_setServiceMode (\<not> tc_serviceMode s) s else s)"

definition app_handleRestartRequest :: "('b, 'n) app_step" where
  "app_handleRestartRequest s =
    (let s = (if \<not> app_restartPending s \<and> app_restartRequested s
              then let s = s\<lparr>app_restartRequested := False, app_restartPending := True\<rparr>;
                       (t, s) = millis s
                   in pump_off (s\<lparr>app_restartRequestedMs := t\<rparr>)
              else s)
     in if \<not> app_restartPending s then s
        else let (t, s) = millis s
             in if t - app_restartRequestedMs s < 500 then s
                else (bz_off (pump_off s))\<lparr>app_restarted := True\<rparr>)"

definition app_update :: "config_image \<Rightarrow> 'b backend_ops \<Rightarrow> 'n network_ops \<Rightarrow> ('b, 'n) app_step" where
  "app_update img ops nops s =
    (let (now, s) = millis s;
         s = s\<lparr>app_network := net_updateAt nops 0 now (app_network s)\<rparr>;
         s = btn_update s;
         s = app_handleButton s;
         s = tank_update s;
         s = res_update s;
         s = tc_setPumpAllowed (res_allowsPump s) s;
         s = tc_update s;
         s = al_update s;
         s = bc_update s;
         s = app_updateStatus s;
         (processed, s) = hydro_processOne img ops s;
         s = (if processed then app_updateStatus s else s);
         s = hydro_publish s
     in app_handleRestartRequest s)"

section \<open>Start\<close>

definition app_loadConfiguration :: "config_image \<Rightarrow> 'b backend_ops \<Rightarrow> ('b, 'n) app_step" where
  "app_loadConfiguration img ops s =
    (let (ready, st) = hcs_begin img ops (app_storage s);
         s = s\<lparr>app_storage := st\<rparr>
     in if \<not> ready then s
        else let (loaded, storedConfig, st) = hcs_load img ops HydroSenseConfig_default (app_storage s);
                 s = s\<lparr>app_storage := st\<rparr>
             in if loaded then s\<lparr>app_config := storedConfig\<rparr>
                else s\<lparr>app_storage := snd (hcs_save img ops (app_configAddress s) (app_config s) (app_storage s))\<rparr>)"

definition app_configure :: "('b, 'n) app_step" where
  "app_configure s =
    (let c = app_config s;
         s = float_configure (cfg_floatActiveLow c) (cfg_floatUsePullup c) (cfg_floatDebounceMs c) s;
         s = us_configure (cfg_ultrasonicMinDistanceCm c) (cfg_ultrasonicMaxDistanceCm c) (cfg_ultrasonicTimeoutUs c) s;
         s = tank_configure (cfg_tankEmptyDistanceCm c) (cfg_tankFullDistanceCm c)
               (cfg_tankSampleIntervalMs c) (cfg_tankMaxFailedSeries c) s;
         s = res_configure (cfg_reserveLowPercent c) (cfg_reserveCriticalPercent c)
               (cfg_reserveHysteresisPercent c) s;
         s = tc_configure (cfg_topupStartDelayMs c) (cfg_topupMaxPumpRuntimeMs c) s
     in btn_configure True True 50 3000 s)"

definition app_networkConfig :: "HydroSenseConfig \<Rightarrow> NetworkConfig" where
  "app_networkConfig c = NetworkConfig_default
    \<lparr>nc_staEnabled := cfg_wifiStaEnabled c,
     nc_ssid := strncpy (nc_ssid NetworkConfig_default) (cfg_wifiSsid c) 32,
     nc_password := strncpy (nc_password NetworkConfig_default) (cfg_wifiPassword c) 64,
     nc_hostname := strncpy (nc_hostname NetworkConfig_default) (cfg_wifiHostname c) 32,
     nc_autoReconnect := cfg_wifiAutoReconnect c,
     nc_reconnectIntervalMs := cfg_wifiReconnectIntervalMs c,
     nc_apEnabled := cfg_wifiApEnabled c,
     nc_apSsid := strncpy (nc_apSsid NetworkConfig_default) (cfg_wifiApSsid c) 32,
     nc_apPassword := strncpy (nc_apPassword NetworkConfig_default) (cfg_wifiApPassword c) 64\<rparr>"

definition app_beginNetwork :: "'n network_ops \<Rightarrow> ('b, 'n) app_step" where
  "app_beginNetwork nops s =
     s\<lparr>app_network := snd (net_begin nops (app_networkConfig (app_config s)) (app_network s))\<rparr>"

definition app_begin :: "config_image \<Rightarrow> 'b backend_ops \<Rightarrow> 'n network_ops \<Rightarrow> ('b, 'n) app_step" where
  "app_begin img ops nops s =
    (let s = pump_begin s;
         s = bz_begin (bz_configure True s);
         s = app_loadConfiguration img ops s;
         s = app_configure s;
         s = btn_begin (us_begin (float_begin s));
         s = res_begin (tank_begin s);
         s = bc_begin (al_begin (tc_begin s));
         s = app_beginNetwork nops s;
         s = app_updateStatus s
     in hydro_publish s)"

end
