(* ===== verification/HydroSafety.thy ===== *)
theory HydroSafety
  imports HydroApp
begin

text \<open>
  Invariants of the application loop. \<open>pumpOk\<close> is the safety of the pump: it runs, and its pin is high,
  only while the controller is pumping, outside the service mode, with the water in the aquarium low,
  the tank reading valid and the reserve not critical. \<open>appInv\<close> adds the tank invariant and the
  validity of the configuration. The frame lemmas say which components an operation does not touch:
  \<open>pumpView\<close> is what the pump's safety reads, \<open>tankView\<close> the tank, and the reserve state is apart.
\<close>

section \<open>Frames\<close>

definition tankView :: "'a hydro_tank_scheme \<Rightarrow>
    f32 \<times> f32 \<times> f32 list \<times> u8 \<times> u8 \<times> f32 \<times> f32 \<times> bool" where
  "tankView s = (tank_emptyDistanceCm s, tank_fullDistanceCm s, tank_samples s, tank_attempts s,
     tank_validSamples s, tank_levelCm s, tank_levelPercent s, tank_valid s)"

definition waterView :: "'a hydro_reserve_scheme \<Rightarrow>
    (f32 \<times> f32 \<times> f32 list \<times> u8 \<times> u8 \<times> f32 \<times> f32 \<times> bool) \<times> ReserveState" where
  "waterView s = (tankView s, res_state s)"

lemma tankView_cong:
  assumes "tankView t = tankView s"
  shows "tankInv t = tankInv s" "tank_valid t = tank_valid s"
    "tank_emptyDistanceCm t = tank_emptyDistanceCm s" "tank_fullDistanceCm t = tank_fullDistanceCm s"
  using assms by (simp_all add: tankView_def tankInv_def tankCounters_def tankGeometry_def tankLevels_def)

lemma waterView_cong:
  assumes "waterView t = waterView s"
  shows "tankView t = tankView s" "res_state t = res_state s" "res_allowsPump t = res_allowsPump s"
  using assms by (simp_all add: waterView_def res_allowsPump_def)

lemma pump_water [simp]: "waterView (pump_off s) = waterView s" "waterView (pump_on s) = waterView s"
  by (simp_all add: waterView_def tankView_def pump_off_def pump_on_def digitalWrite_def)

lemma bz_water [simp]: "waterView (bz_writeState b s) = waterView s"
  by (simp add: waterView_def tankView_def bz_writeState_def digitalWrite_def)

lemma enterState_water [simp]: "waterView (tc_enterState n s) = waterView s"
  by (simp add: tc_enterState_def millis_def Let_def) (simp add: waterView_def tankView_def)

lemma upd_water [simp]:
  "waterView (ioCount_update f s) = waterView s"
  "waterView (tc_state_update f1 t) = waterView t"
  "waterView (tc_stateStartMs_update f2 t) = waterView t"
  "waterView (tc_serviceMode_update f3 t) = waterView t"
  "waterView (tc_pumpAllowed_update f4 t) = waterView t"
  by (simp_all add: waterView_def tankView_def)

lemma alarm_upd_water [simp]:
  "waterView (al_code_update f1 s) = waterView s"
  "waterView (al_severity_update f2 s) = waterView s"
  "waterView (bc_patternState_update f3 s) = waterView s"
  "waterView (bc_stateStartMs_update f4 s) = waterView s"
  "waterView (bc_beepCount_update f5 s) = waterView s"
  "waterView (bc_muted_update f6 s) = waterView s"
  "waterView (bc_lastAlarmCode_update f7 s) = waterView s"
  by (simp_all add: waterView_def tankView_def)

lemma float_update_water [simp]: "waterView (float_update s) = waterView s"
  by (simp add: waterView_def tankView_def float_update_def float_readActive_def digitalRead_def millis_def Let_def)

lemma tc_run_water [simp]: "waterView (tc_run now low s) = waterView s"
  by (simp add: tc_run_def Let_def split: TopupState.split)

lemma tc_update_water [simp]: "waterView (tc_update s) = waterView s"
  by (simp add: tc_update_def Let_def millis_def)

lemma tc_setServiceMode_water [simp]: "waterView (tc_setServiceMode b s) = waterView s"
  by (simp add: tc_setServiceMode_def Let_def)

lemma tc_setPumpAllowed_water [simp]: "waterView (tc_setPumpAllowed b s) = waterView s"
  by (simp add: tc_setPumpAllowed_def Let_def)

lemma tc_resetLockout_water [simp]: "waterView (tc_resetLockout s) = waterView s"
  by (simp add: tc_resetLockout_def Let_def)

lemma reset_water [simp]: "waterView (bc_resetPattern s) = waterView s"
  by (simp add: bc_resetPattern_def bz_off_def millis_def Let_def)

lemma mute_water [simp]: "waterView (bc_mute s) = waterView s"
  by (simp add: bc_mute_def bz_off_def)

lemma al_update_water [simp]: "waterView (al_update s) = waterView s"
  by (simp add: al_update_def al_setAlarm_def al_clearAlarm_def)

lemma bc_update_water [simp]: "waterView (bc_update s) = waterView s"
  by (simp add: bc_update_def bc_updateWarning_def bc_updateCritical_def bz_on_def bz_off_def Let_def millis_def
      split: AlarmSeverity.split PatternState.split)

lemma btn_parts_frame:
  "waterView (btn_observe now raw s) = waterView s" "pumpView (btn_observe now raw t) = pumpView t"
  "waterView (btn_settle now s) = waterView s" "pumpView (btn_settle now t) = pumpView t"
  "waterView (btn_hold now s) = waterView s" "pumpView (btn_hold now t) = pumpView t"
  by (simp_all add: waterView_def tankView_def pumpView_def btn_observe_def btn_settle_def btn_hold_def Let_def)

lemma btn_update_frame [simp]:
  "waterView (btn_update s) = waterView s" "pumpView (btn_update t) = pumpView t"
  by (simp_all add: btn_update_def btn_readPressed_def digitalRead_def millis_def Let_def btn_parts_frame)

lemma btn_event_frame [simp]:
  "waterView (snd (btn_shortPress s)) = waterView s" "waterView (snd (btn_longPress s)) = waterView s"
  "pumpView (snd (btn_shortPress t)) = pumpView t" "pumpView (snd (btn_longPress t)) = pumpView t"
  by (simp_all add: waterView_def tankView_def pumpView_def btn_shortPress_def btn_longPress_def)

lemma app_upd_frame [simp]:
  "waterView (app_network_update f1 s) = waterView s" "pumpView (app_network_update f1 s) = pumpView s"
  "waterView (app_status_update f2 s) = waterView s" "pumpView (app_status_update f2 s) = pumpView s"
  "waterView (app_bridge_update f3 s) = waterView s" "pumpView (app_bridge_update f3 s) = pumpView s"
  "waterView (app_storage_update f4 s) = waterView s" "pumpView (app_storage_update f4 s) = pumpView s"
  "waterView (app_config_update f5 s) = waterView s" "pumpView (app_config_update f5 s) = pumpView s"
  "waterView (app_statusSnapshot_update f6 s) = waterView s" "pumpView (app_statusSnapshot_update f6 s) = pumpView s"
  "waterView (app_settingsSnapshot_update f7 s) = waterView s"
  "pumpView (app_settingsSnapshot_update f7 s) = pumpView s"
  "waterView (app_restartRequested_update f8 s) = waterView s"
  "pumpView (app_restartRequested_update f8 s) = pumpView s"
  "waterView (app_restartPending_update f9 s) = waterView s"
  "pumpView (app_restartPending_update f9 s) = pumpView s"
  "waterView (app_restartRequestedMs_update f10 s) = waterView s"
  "pumpView (app_restartRequestedMs_update f10 s) = pumpView s"
  "waterView (app_restarted_update f11 s) = waterView s" "pumpView (app_restarted_update f11 s) = pumpView s"
  by (simp_all add: waterView_def tankView_def pumpView_def)

text \<open>The tank and the reserve do not touch the pump.\<close>

lemma tank_upd_view [simp]:
  "pumpView (tank_samples_update f1 s) = pumpView s" "pumpView (tank_attempts_update f2 s) = pumpView s"
  "pumpView (tank_validSamples_update f3 s) = pumpView s" "pumpView (tank_failedSeries_update f4 s) = pumpView s"
  "pumpView (tank_lastSampleMs_update f5 s) = pumpView s"
  "pumpView (tank_lastValidReadingMs_update f6 s) = pumpView s"
  "pumpView (tank_distanceCm_update f7 s) = pumpView s" "pumpView (tank_levelCm_update f8 s) = pumpView s"
  "pumpView (tank_levelPercent_update f9 s) = pumpView s" "pumpView (tank_valid_update f10 s) = pumpView s"
  "pumpView (tank_newReading_update f11 s) = pumpView s" "pumpView (tank_sensorFault_update f12 s) = pumpView s"
  "pumpView (res_state_update f13 s) = pumpView s"
  by (simp_all add: pumpView_def)

lemma tank_process_view [simp]: "pumpView (tank_processSamples s) = pumpView s"
  by (simp add: tank_processSamples_def Let_def split_beta)

lemma tank_finish_view [simp]: "pumpView (tank_finishSeries s) = pumpView s"
  by (simp add: tank_finishSeries_def Let_def millis_def)

lemma tank_sample_view: "pinsDistinct s \<Longrightarrow> pumpView (tank_sample s) = pumpView s"
  using us_measure_view [of "s\<lparr>tank_attempts := tank_attempts s + 1\<rparr>"]
  by (simp add: tank_sample_def Let_def split_beta pinsDistinct_def)

lemma tank_update_view: "pinsDistinct s \<Longrightarrow> pumpView (tank_update s) = pumpView s"
  using tank_sample_view [of "s\<lparr>ioCount := Suc (ioCount s), tank_lastSampleMs := millisAt s (ioCount s)\<rparr>"]
  by (simp add: tank_update_def Let_def millis_def pinsDistinct_def)

lemma res_update_view [simp]: "pumpView (res_update s) = pumpView s"
  by (simp add: res_update_def)

lemma res_update_tank [simp]: "tankView (res_update s) = tankView s"
  by (simp add: res_update_def tankView_def)

lemma res_update_valid: "res_allowsPump (res_update s) \<Longrightarrow> tank_valid (res_update s)"
  by (cases "tank_valid s") (auto simp: res_update_def res_allowsPump_def)

section \<open>The pump\<close>

definition pumpOk :: "('b, 'n) hydro_app \<Rightarrow> bool" where
  "pumpOk s \<longleftrightarrow> pumpPin s \<and> pumpSafe s \<and>
     (pump_isOn s \<longrightarrow> float_stableState s \<and> tank_valid s \<and> res_allowsPump s)"

lemma pumpOk_cong:
  assumes "pumpView t = pumpView s" and "waterView t = waterView s"
  shows "pumpOk t = pumpOk s"
  unfolding pumpOk_def
  using pumpView_cong [OF assms(1)] waterView_cong [OF assms(2)] tankView_cong(2) [OF waterView_cong(1) [OF assms(2)]]
  by simp

text \<open>An operation that leaves the pump off, with its pin low, is fine.\<close>

lemma pumpOk_off: "pumpPin s \<Longrightarrow> pumpSafe s \<Longrightarrow> \<not> pump_isOn s \<Longrightarrow> pumpOk s"
  by (simp add: pumpOk_def)

lemma pumpOk_upd [simp]:
  "pumpOk (ioCount_update f s) = pumpOk s" "pumpOk (app_storage_update f1 s) = pumpOk s"
  "pumpOk (app_config_update f2 s) = pumpOk s" "pumpOk (app_restartRequested_update f3 s) = pumpOk s"
  "pumpOk (app_bridge_update f4 s) = pumpOk s" "pumpOk (app_restarted_update f5 s) = pumpOk s"
  by (rule pumpOk_cong; simp)+

lemma setServiceMode_off: "pumpSafe s \<Longrightarrow> tc_setServiceMode (\<not> tc_serviceMode s) s = t \<Longrightarrow> \<not> pump_isOn t"
  by (auto simp: tc_setServiceMode_def Let_def split: if_splits)

lemma toggleService_ok:
  assumes "pumpPin s" and "pumpSafe s"
  shows "pumpOk (tc_setServiceMode (\<not> tc_serviceMode s) s)"
  using assms tc_setServiceMode_pin tc_setServiceMode_safe setServiceMode_off [OF assms(2)]
  by (intro pumpOk_off) auto

lemma resetLockout_ok: "pumpPin s \<Longrightarrow> pumpOk (tc_resetLockout s)"
  by (rule pumpOk_off) (simp_all add: tc_resetLockout_pin tc_resetLockout_safe, simp add: tc_resetLockout_def Let_def)

lemma mute_ok: "pumpOk s \<Longrightarrow> pumpOk (bc_mute s)"
  by (metis pumpOk_cong mute_view mute_water pumpOk_def pumpPin_distinct)

lemma pumpOk_D: "pumpOk s \<Longrightarrow> pumpPin s" "pumpOk s \<Longrightarrow> pumpSafe s" "pumpOk s \<Longrightarrow> pinsDistinct s"
  by (simp_all add: pumpOk_def pumpPin_distinct)

text \<open>Safety of the controller alone, before the tank is looked at again.\<close>

definition pumpCore :: "'a hydro_topup_scheme \<Rightarrow> bool" where
  "pumpCore s \<longleftrightarrow> pumpPin s \<and> pumpSafe s"

lemma pumpCore_cong: "pumpView t = pumpView s \<Longrightarrow> pumpCore t = pumpCore s"
  unfolding pumpCore_def using pumpView_cong(1,2) [of t s] by simp

lemma pumpCore_distinct: "pumpCore s \<Longrightarrow> pinsDistinct s"
  by (simp add: pumpCore_def pumpPin_distinct)

lemma handleButton_core:
  assumes "pumpCore s"
  shows "pumpCore (app_handleButton s)"
proof -
  define s1 where "s1 = snd (btn_shortPress s)"
  define s2 where "s2 = (if fst (btn_shortPress s) then bc_mute s1 else s1)"
  define s3 where "s3 = snd (btn_longPress s2)"
  have "pumpCore s1" using assms pumpCore_cong [of s1 s] by (simp add: s1_def)
  then have "pumpCore s2" using pumpCore_cong [OF mute_view] pumpCore_distinct by (auto simp: s2_def)
  then have "pumpCore s3" using pumpCore_cong [of s3 s2] by (simp add: s3_def)
  then show ?thesis
    by (simp add: app_handleButton_def Let_def split_beta s1_def [symmetric] s2_def [symmetric] s3_def [symmetric])
      (simp add: pumpCore_def tc_setServiceMode_pin tc_setServiceMode_safe)
qed

text \<open>From the tank reading to the controller: the permission is that of the reserve.\<close>

lemma grant_ok:
  assumes "pumpCore s"
  defines "t \<equiv> tc_update (tc_setPumpAllowed (res_allowsPump (res_update s)) (res_update s))"
  shows "pumpOk t"
proof -
  define r where "r = res_update s"
  define g where "g = tc_setPumpAllowed (res_allowsPump r) r"
  have r: "pumpCore r" using assms(1) pumpCore_cong [of r s] by (simp add: r_def)
  then have g: "pumpPin g" "pumpSafe g"
    by (simp_all add: g_def pumpCore_def tc_setPumpAllowed_pin tc_setPumpAllowed_safe)
  have t: "t = tc_update g" by (simp add: t_def g_def r_def)
  have w: "waterView t = waterView r" by (simp add: t g_def)
  have allowed: "tc_pumpAllowed g = res_allowsPump r"
    by (simp add: g_def tc_setPumpAllowed_def Let_def)
  have keep: "tc_pumpAllowed t = tc_pumpAllowed g"
    by (simp add: t tc_update_def tc_run_def Let_def millis_def split: TopupState.split)
  have safe: "pumpSafe t" "pumpPin t" using g by (simp_all add: t tc_update_safe tc_update_pin)
  have "float_stableState t \<and> tank_valid t \<and> res_allowsPump t" if on: "pump_isOn t"
  proof -
    have "res_allowsPump r" using safe(1) on allowed keep by (simp add: pumpSafe_def)
    moreover have "tank_valid r" using calculation res_update_valid by (simp add: r_def)
    ultimately show ?thesis
      using tc_update_low [OF g(2)] on waterView_cong [OF w] tankView_cong(2) [OF waterView_cong(1) [OF w]]
      by (simp add: t)
  qed
  then show ?thesis using safe by (simp add: pumpOk_def)
qed

lemma execute_ok:
  assumes "pumpOk s"
  shows "pumpOk (snd (hydro_execute img ops request s))"
proof -
  have "pumpOk (snd (applySettings img ops r s))" for r
    using assms by (simp add: applySettings_def Let_def split_beta)
  then show ?thesis
    using toggleService_ok [OF pumpOk_D(1) [OF assms] pumpOk_D(2) [OF assms]] resetLockout_ok [OF pumpOk_D(1) [OF assms]]
      mute_ok [OF assms] assms
    by (simp add: hydro_execute_def split: HydroWebRequestKind.split)
qed

lemma processOne_world:
  assumes "P w" and "\<And>q w. P w \<Longrightarrow> P (snd (executor q w))"
  shows "P (snd (snd (bridge_processOne l1 l2 sg (Some executor) b w)))"
proof (cases "bridge_take l1 b")
  case (Pair o' b')
  show ?thesis
  proof (cases o')
    case None
    then show ?thesis using assms(1) Pair by (simp add: bridge_processOne_def)
  next
    case (Some igq)
    then show ?thesis using assms(2) [OF assms(1)] Pair by (simp add: bridge_processOne_def Let_def split_beta)
  qed
qed

lemma processOne_ok: "pumpOk s \<Longrightarrow> pumpOk (snd (hydro_processOne img ops s))"
  by (simp add: hydro_processOne_def Let_def split_beta processOne_world [where P = pumpOk] execute_ok)

lemma restart_ok:
  fixes s :: "('b, 'n) hydro_app"
  assumes "pumpOk s"
  shows "pumpOk (app_handleRestartRequest s)"
proof -
  have pin: "pumpPin s" "pinsDistinct s" using pumpOk_D [OF assms] by simp_all
  have off: "pumpOk (pump_off u)" if "pumpView u = pumpView s" for u :: "('b, 'n) hydro_app"
    using pumpView_cong [OF that] pin by (intro pumpOk_off) simp_all
  have quiet: "pumpOk ((bz_off (pump_off u))\<lparr>app_restarted := True\<rparr>)"
    if "pumpOk u" for u :: "('b, 'n) hydro_app"
  proof -
    have "pumpOk (pump_off u)" using pumpOk_D [OF that] by (intro pumpOk_off) simp_all
    then show ?thesis
      using pumpOk_cong [of "(bz_off (pump_off u))\<lparr>app_restarted := True\<rparr>" "pump_off u"] pumpOk_D [OF that]
      by (simp add: bz_off_def bz_write_view)
  qed
  define u where "u = (if \<not> app_restartPending s \<and> app_restartRequested s
     then pump_off (s\<lparr>app_restartRequested := False, app_restartPending := True, ioCount := Suc (ioCount s),
       app_restartRequestedMs := millisAt s (ioCount s)\<rparr>) else s)"
  have "pumpOk (pump_off (s\<lparr>app_restartRequested := False, app_restartPending := True, ioCount := Suc (ioCount s),
       app_restartRequestedMs := millisAt s (ioCount s)\<rparr>))" by (rule off) simp
  then have u: "pumpOk u" using assms by (simp add: u_def)
  define v where "v = u\<lparr>ioCount := Suc (ioCount u)\<rparr>"
  have v: "pumpOk v" using u by (simp add: v_def)
  have "app_handleRestartRequest s = (if \<not> app_restartPending u then u
      else if millisAt u (ioCount u) - app_restartRequestedMs u < 500 then v
      else (bz_off (pump_off v))\<lparr>app_restarted := True\<rparr>)"
    by (simp add: app_handleRestartRequest_def Let_def millis_def u_def [symmetric] v_def [symmetric] cong: if_cong split del: if_split)
  then show ?thesis using u v quiet [OF v] by simp
qed

lemma updateStatus_frame [simp]:
  "pumpView (app_updateStatus s) = pumpView s" "waterView (app_updateStatus s) = waterView s"
  "pumpOk (app_updateStatus s) = pumpOk s"
  by (simp_all add: app_updateStatus_def pumpOk_cong [OF app_upd_frame(4,3)])

lemma publish_frame [simp]:
  "pumpView (hydro_publish s) = pumpView s" "waterView (hydro_publish s) = waterView s"
  by (simp_all add: hydro_publish_def Let_def split_beta)

lemma publish_ok [simp]: "pumpOk (hydro_publish s) = pumpOk s"
  by (rule pumpOk_cong) simp_all

lemma app_update_pumpOk:
  assumes "pumpCore s"
  shows "pumpOk (app_update img ops nops s)"
proof -
  define s1 where "s1 = btn_update (s\<lparr>ioCount := Suc (ioCount s),
     app_network := net_updateAt nops 0 (millisAt s (ioCount s)) (app_network s)\<rparr>)"
  define s2 where "s2 = tank_update (app_handleButton s1)"
  define s3 where "s3 = tc_update (tc_setPumpAllowed (res_allowsPump (res_update s2)) (res_update s2))"
  define s4 where "s4 = app_updateStatus (bc_update (al_update s3))"
  define s5 where "s5 = snd (hydro_processOne img ops s4)"
  define s6 where "s6 = (if fst (hydro_processOne img ops s4) then app_updateStatus s5 else s5)"
  have "pumpCore s1" using assms pumpCore_cong [of s1 s] by (simp add: s1_def)
  then have "pumpCore (app_handleButton s1)" by (rule handleButton_core)
  then have "pumpCore s2" unfolding s2_def using pumpCore_cong [OF tank_update_view] pumpCore_distinct by blast
  then have "pumpOk s3" unfolding s3_def by (rule grant_ok)
  moreover have "pinsDistinct (al_update s3)"
    using pumpOk_D(3) [OF calculation] pumpView_cong(7) [OF al_update_view [of s3]] by simp
  ultimately have "pumpOk s4" using pumpOk_cong [of s4 s3] bc_update_view [of "al_update s3"] by (simp add: s4_def)
  then have "pumpOk s5" unfolding s5_def by (rule processOne_ok)
  then have "pumpOk s6" by (simp add: s6_def)
  then have "pumpOk (hydro_publish s6)" by simp
  then have "pumpOk (app_handleRestartRequest (hydro_publish s6))" by (rule restart_ok)
  then show ?thesis
    by (simp add: app_update_def millis_def Let_def split_beta s1_def [symmetric] s2_def [symmetric]
        s3_def [symmetric] s4_def [symmetric] s5_def [symmetric] s6_def [symmetric] cong: if_cong split del: if_split)
qed

end
