(* ===== verification/HydroRuns.thy ===== *)
theory HydroRuns
  imports HydroSafety
begin

text \<open>
  HydroSense from start to any number of loops, with the Web task and the radio acting between two
  loops: the invariant \<open>appInv\<close> (tank counters and levels, valid configuration) and the safety of the
  pump hold throughout. A stored configuration is only used after the validator accepted it.
\<close>

section \<open>Configuration\<close>

lemma readSlot_config:
  "ss_validator (snd (snd (snd (readSlot ops s slot w)))) = ss_validator s"
  "ss_payloadSize (snd (snd (snd (readSlot ops s slot w)))) = ss_payloadSize s"
  by (simp_all add: readSlot_def Let_def split_beta)

lemma selectLatest_config:
  "ss_validator (snd (snd (snd (selectLatest ops s)))) = ss_validator s"
  "ss_payloadSize (snd (snd (snd (selectLatest ops s)))) = ss_payloadSize s"
  by (simp_all add: selectLatest_def Let_def split_beta readSlot_config)

lemma readSlot_validated:
  assumes "readSlot ops s slot w = (True, info, Some p, t)"
  shows "runValidator s p"
  using assms by (auto simp: readSlot_def Let_def split_beta slotRecordOk_def split: if_splits)

lemma load_validated:
  assumes "storage_load ops s True = (True, Some p, t)"
  shows "runValidator s p"
proof -
  define u where "u = snd (snd (snd (selectLatest ops s)))"
  define slot where "slot = fst (snd (selectLatest ops s))"
  obtain ok info out v where r: "readSlot ops u slot True = (ok, info, out, v)"
    by (metis surj_pair)
  have "ok" "out = Some p"
    using assms r by (auto simp: storage_load_def Let_def split_beta u_def [symmetric] slot_def [symmetric] split: if_splits)
  then have "runValidator u p" using readSlot_validated [of ops u slot True info p v] r by simp
  moreover have "runValidator u p = runValidator s p"
    by (cases "ss_validator s") (simp_all add: runValidator_def u_def selectLatest_config)
  ultimately show ?thesis by simp
qed

lemma refreshStatus_validator: "ss_validator (refreshStatus ops s) = ss_validator s"
  "ss_payloadSize (refreshStatus ops s) = ss_payloadSize s"
  by (simp_all add: refreshStatus_def Let_def split_beta selectLatest_config)

lemma hcs_begin_validator:
  "fst (hcs_begin img ops st) \<Longrightarrow> ss_validator (snd (hcs_begin img ops st)) = Some (validatePayload img)"
  by (auto simp: hcs_begin_def storage_begin_def configure_def Let_def split_beta refreshStatus_validator
      split: if_splits)

lemma hcs_load_valid:
  assumes "ss_validator st = Some (validatePayload img)" and "hcs_load img ops c st = (True, c', st')"
  shows "validateHydroSenseConfig c'" and "\<exists>bs. c' = img_value img bs"
proof -
  obtain ok out st2 where l: "storage_load ops st True = (ok, out, st2)" by (metis surj_pair)
  then obtain p where p: "ok" "out = Some p" "c' = img_value img p"
    using assms(2) by (auto simp: hcs_load_def split: bool.splits option.splits)
  then have "runValidator st p" using load_validated [of ops st p st2] l by simp
  then show "validateHydroSenseConfig c'"
    using assms(1) p(3) by (simp add: runValidator_def validatePayload_def split: if_splits)
  show "\<exists>bs. c' = img_value img bs" using p(3) by blast
qed

lemma loadConfiguration_valid:
  assumes "validateHydroSenseConfig (app_config s)" and "configFloats (app_config s)" and "imageFloats img"
  shows "validateHydroSenseConfig (app_config (app_loadConfiguration img ops s))"
    and "configFloats (app_config (app_loadConfiguration img ops s))"
proof -
  define st where "st = snd (hcs_begin img ops (app_storage s))"
  define r where "r = hcs_load img ops HydroSenseConfig_default st"
  have cfg: "app_config (app_loadConfiguration img ops s) =
      (if fst (hcs_begin img ops (app_storage s)) \<and> fst r then fst (snd r) else app_config s)"
    by (simp add: app_loadConfiguration_def Let_def split_beta st_def [symmetric] r_def [symmetric])
  have "validateHydroSenseConfig (fst (snd r)) \<and> configFloats (fst (snd r))"
    if b: "fst (hcs_begin img ops (app_storage s))" and l: "fst r"
  proof -
    have v: "ss_validator st = Some (validatePayload img)" using hcs_begin_validator [OF b] by (simp add: st_def)
    have "hcs_load img ops HydroSenseConfig_default st = (True, fst (snd r), snd (snd r))"
      using l by (simp add: r_def [symmetric] prod_eq_iff)
    from hcs_load_valid [OF v this] show ?thesis using assms(3) by (auto simp: imageFloats_def)
  qed
  then show "validateHydroSenseConfig (app_config (app_loadConfiguration img ops s))"
    "configFloats (app_config (app_loadConfiguration img ops s))"
    using assms(1,2) by (simp_all add: cfg)
qed

lemma default_floats: "configFloats HydroSenseConfig_default"
  by (simp add: configFloats_def isF32_def HydroSenseConfig_default_def)

section \<open>Start\<close>

text \<open>The state of the object before \<open>begin\<close>: its constructors have run.\<close>

definition app_constructed :: "('b, 'n) hydro_app \<Rightarrow> bool" where
  "app_constructed s \<longleftrightarrow> pump_pin s = PIN_PUMP \<and> us_trigPin s = PIN_ULTRASONIC_TRIG \<and> bz_pin s = PIN_BUZZER
     \<and> length (tank_samples s) = 5 \<and> app_config s = HydroSenseConfig_default"

lemma constructed_distinct: "app_constructed s \<Longrightarrow> pinsDistinct s"
  by (simp add: app_constructed_def pinsDistinct_def pin_defs)

definition appInv :: "('b, 'n) hydro_app \<Rightarrow> bool" where
  "appInv s \<longleftrightarrow> pumpCore s \<and> tankInv s \<and> validateHydroSenseConfig (app_config s)"

text \<open>The pins, the samples and the configuration up to \<open>tank_begin\<close>.\<close>

lemma loadConfiguration_frame:
  "pump_pin (app_loadConfiguration img ops s) = pump_pin s"
  "us_trigPin (app_loadConfiguration img ops s) = us_trigPin s"
  "bz_pin (app_loadConfiguration img ops s) = bz_pin s"
  "tank_samples (app_loadConfiguration img ops s) = tank_samples s"
  by (simp_all add: app_loadConfiguration_def Let_def split_beta)

lemma device_begin_frame:
  "pump_pin (pump_begin s) = pump_pin s" "us_trigPin (pump_begin s) = us_trigPin s" "bz_pin (pump_begin s) = bz_pin s"
  "pump_pin (bz_begin s) = pump_pin s" "us_trigPin (bz_begin s) = us_trigPin s" "bz_pin (bz_begin s) = bz_pin s"
  "pump_pin (bz_configure b s) = pump_pin s" "us_trigPin (bz_configure b s) = us_trigPin s"
  "bz_pin (bz_configure b s) = bz_pin s"
  "tank_samples (pump_begin t) = tank_samples t" "tank_samples (bz_begin t) = tank_samples t"
  "tank_samples (bz_configure b t) = tank_samples t"
  "app_config (pump_begin u) = app_config u" "app_config (bz_begin u) = app_config u"
  "app_config (bz_configure b u) = app_config u"
  by (simp_all add: pump_begin_def bz_begin_def bz_configure_def digitalWrite_def pinMode_def)

lemma configure_eq:
  "app_configure s = s
    \<lparr>float_activeLow := cfg_floatActiveLow (app_config s), float_usePullup := cfg_floatUsePullup (app_config s),
     float_debounceMs := cfg_floatDebounceMs (app_config s),
     us_minDistanceCm := cfg_ultrasonicMinDistanceCm (app_config s),
     us_maxDistanceCm := cfg_ultrasonicMaxDistanceCm (app_config s),
     us_timeoutUs := cfg_ultrasonicTimeoutUs (app_config s),
     tank_emptyDistanceCm := cfg_tankEmptyDistanceCm (app_config s),
     tank_fullDistanceCm := cfg_tankFullDistanceCm (app_config s),
     tank_sampleIntervalMs := cfg_tankSampleIntervalMs (app_config s),
     tank_maxFailedSeries := cfg_tankMaxFailedSeries (app_config s),
     res_lowLevelPercent := cfg_reserveLowPercent (app_config s),
     res_criticalLevelPercent := cfg_reserveCriticalPercent (app_config s),
     res_hysteresisPercent := cfg_reserveHysteresisPercent (app_config s),
     tc_startDelayMs := cfg_topupStartDelayMs (app_config s),
     tc_maxPumpRuntimeMs := cfg_topupMaxPumpRuntimeMs (app_config s),
     btn_activeLow := True, btn_usePullup := True, btn_debounceMs := 50, btn_longPressMs := 3000\<rparr>"
  unfolding app_configure_def Let_def float_configure_def us_configure_def tank_configure_def
    res_configure_def tc_configure_def btn_configure_def by simp

lemma configure_frame:
  "pump_pin (app_configure s) = pump_pin s" "us_trigPin (app_configure s) = us_trigPin s"
  "bz_pin (app_configure s) = bz_pin s" "tank_samples (app_configure s) = tank_samples s"
  "app_config (app_configure s) = app_config s"
  "tank_emptyDistanceCm (app_configure s) = cfg_tankEmptyDistanceCm (app_config s)"
  "tank_fullDistanceCm (app_configure s) = cfg_tankFullDistanceCm (app_config s)"
  unfolding configure_eq by simp_all

lemma float_begin_frame:
  "pump_pin (float_begin s) = pump_pin s"
  "us_trigPin (float_begin s) = us_trigPin s"
  "bz_pin (float_begin s) = bz_pin s"
  "tank_samples (float_begin t) = tank_samples t"
  "tank_emptyDistanceCm (float_begin t) = tank_emptyDistanceCm t"
  "tank_fullDistanceCm (float_begin t) = tank_fullDistanceCm t"
  "app_config (float_begin u) = app_config u"
  by (simp_all add: float_begin_def float_readActive_def digitalRead_def pinMode_def millis_def Let_def)

lemma us_begin_frame:
  "pump_pin (us_begin s) = pump_pin s"
  "us_trigPin (us_begin s) = us_trigPin s"
  "bz_pin (us_begin s) = bz_pin s"
  "tank_samples (us_begin t) = tank_samples t"
  "tank_emptyDistanceCm (us_begin t) = tank_emptyDistanceCm t"
  "tank_fullDistanceCm (us_begin t) = tank_fullDistanceCm t"
  "app_config (us_begin u) = app_config u"
  by (simp_all add: us_begin_def digitalWrite_def pinMode_def millis_def Let_def)

lemma btn_begin_frame:
  "pump_pin (btn_begin s) = pump_pin s"
  "us_trigPin (btn_begin s) = us_trigPin s"
  "bz_pin (btn_begin s) = bz_pin s"
  "tank_samples (btn_begin t) = tank_samples t"
  "tank_emptyDistanceCm (btn_begin t) = tank_emptyDistanceCm t"
  "tank_fullDistanceCm (btn_begin t) = tank_fullDistanceCm t"
  "app_config (btn_begin u) = app_config u"
  by (simp_all add: btn_begin_def btn_readPressed_def digitalRead_def pinMode_def millis_def Let_def)

lemmas sensors_begin_frame = float_begin_frame us_begin_frame btn_begin_frame

lemma begin_core:
  "pumpView (al_begin s) = pumpView s" "tankView (al_begin t) = tankView t"
  "tankView (tc_begin u) = tankView u" "tankView (res_begin v) = tankView v"
  by (simp_all add: al_begin_def al_clearAlarm_def tankView_def tc_begin_def pump_off_def digitalWrite_def
      millis_def res_begin_def Let_def)

lemma bc_begin_frame:
  "pinsDistinct s \<Longrightarrow> pumpView (bc_begin s) = pumpView s" "waterView (bc_begin t) = waterView t"
  by (simp_all add: bc_begin_def Let_def bz_off_def reset_view bz_write_view)

lemma app_begin_config_frame:
  "app_config (res_begin (tank_begin s)) = app_config s" "app_config (tc_begin s) = app_config s"
  "app_config (al_begin s) = app_config s" "app_config (bc_begin s) = app_config s"
  "app_config (app_beginNetwork nops s) = app_config s" "app_config (app_updateStatus s) = app_config s"
  "app_config (hydro_publish s) = app_config s"
  by (simp_all add: res_begin_def tank_begin_def millis_def Let_def tc_begin_def pump_off_def digitalWrite_def
      al_begin_def al_clearAlarm_def bc_begin_def bc_resetPattern_def bz_off_def bz_writeState_def
      app_beginNetwork_def app_updateStatus_def hydro_publish_def split_beta)

lemma app_begin_inv:
  assumes c: "app_constructed s" and img: "imageFloats img"
  shows "appInv (app_begin img ops nops s)" and "\<not> pump_isOn (app_begin img ops nops s)"
    and "\<not> tank_valid (app_begin img ops nops s)"
proof -
  define s1 where "s1 = app_loadConfiguration img ops (bz_begin (bz_configure True (pump_begin s)))"
  define s2 where "s2 = btn_begin (us_begin (float_begin (app_configure s1)))"
  define s3 where "s3 = res_begin (tank_begin s2)"
  define s4 where "s4 = tc_begin s3"
  define s5 where "s5 = bc_begin (al_begin s4)"
  have all: "app_begin img ops nops s = hydro_publish (app_updateStatus (app_beginNetwork nops s5))"
    by (simp add: app_begin_def Let_def s5_def s4_def s3_def s2_def s1_def)
  have cfg1: "validateHydroSenseConfig (app_config s1)" "configFloats (app_config s1)"
    using loadConfiguration_valid [of "bz_begin (bz_configure True (pump_begin s))" img ops]
      img c default_valid default_floats
    by (simp_all add: s1_def device_begin_frame app_constructed_def)
  have pins2: "pump_pin s2 = PIN_PUMP" "us_trigPin s2 = PIN_ULTRASONIC_TRIG" "bz_pin s2 = PIN_BUZZER"
      "length (tank_samples s2) = 5"
    using c by (simp_all add: s2_def sensors_begin_frame configure_frame s1_def loadConfiguration_frame
        device_begin_frame app_constructed_def)
  have geo: "tankGeometry s2"
    using valid_geometry [OF cfg1(1)] cfg1(2)
    by (simp add: tankGeometry_def s2_def sensors_begin_frame configure_frame configFloats_def)
  have tank3: "tankInv s3"
    using tank_begin_inv [OF geo pins2(4)] tankView_cong(1) [OF begin_core(4) [of "tank_begin s2"]]
    by (simp add: s3_def)
  have "pinsDistinct s2" by (simp add: pinsDistinct_def pins2 pin_defs)
  then have "pinsDistinct s3"
    by (simp add: s3_def res_begin_def tank_begin_def millis_def Let_def pinsDistinct_def)
  then have s4: "pumpCore s4" "\<not> pump_isOn s4" "tankView s4 = tankView s3"
    by (simp_all add: s4_def pumpCore_def tc_begin_pin tc_begin_safe begin_core(3))
      (simp add: tc_begin_def millis_def Let_def)
  have v5: "pumpView s5 = pumpView s4" "tankView s5 = tankView s3"
    using bc_begin_frame(1) [of "al_begin s4"] waterView_cong(1) [OF bc_begin_frame(2) [of "al_begin s4"]]
      begin_core(1,2) [of s4] pumpCore_distinct [OF s4(1)] pumpView_cong(7) [OF begin_core(1) [of s4]] s4(3)
    by (simp_all add: s5_def)
  define s6 where "s6 = hydro_publish (app_updateStatus (app_beginNetwork nops s5))"
  have v6: "pumpView s6 = pumpView s4" "tankView s6 = tankView s3"
    using v5 waterView_cong(1) [of s6 s5] by (simp_all add: s6_def app_beginNetwork_def)
  have "app_config s6 = app_config s1"
    by (simp add: s6_def s5_def s4_def s3_def s2_def app_begin_config_frame sensors_begin_frame configure_frame)
  then show "appInv (app_begin img ops nops s)"
    unfolding all s6_def [symmetric] appInv_def
    using pumpCore_cong [OF v6(1)] s4(1) tankView_cong(1) [OF v6(2)] tank3 cfg1(1) by simp
  show "\<not> pump_isOn (app_begin img ops nops s)"
    unfolding all s6_def [symmetric] using pumpView_cong(3) [OF v6(1)] s4(2) by simp
  have "\<not> tank_valid s3" by (simp add: s3_def res_begin_def tank_begin_def millis_def Let_def)
  then show "\<not> tank_valid (app_begin img ops nops s)"
    unfolding all s6_def [symmetric] using v6(2) by (simp add: tankView_def)
qed

section \<open>Loops\<close>

lemma execute_water: "waterView (snd (hydro_execute img ops request s)) = waterView s"
  by (simp add: hydro_execute_def applySettings_def Let_def split_beta split: HydroWebRequestKind.split)

lemma controller_config [simp]:
  "app_config (tc_setServiceMode b s) = app_config s" "app_config (tc_resetLockout s) = app_config s"
  "app_config (bc_mute s) = app_config s"
  by (simp_all add: tc_setServiceMode_def tc_resetLockout_def tc_enterState_def pump_off_def pump_on_def
      digitalWrite_def millis_def bc_mute_def bc_resetPattern_def bz_off_def bz_writeState_def Let_def)

lemma execute_config:
  "validateHydroSenseConfig (app_config s) \<Longrightarrow>
   validateHydroSenseConfig (app_config (snd (hydro_execute img ops request s)))"
  by (simp add: hydro_execute_def applySettings_def Let_def split_beta split: HydroWebRequestKind.split)

lemma handleButton_water: "waterView (app_handleButton s) = waterView s"
  by (simp add: app_handleButton_def Let_def split_beta)

lemma handleButton_config: "app_config (app_handleButton s) = app_config s"
  by (simp add: app_handleButton_def Let_def split_beta btn_shortPress_def btn_longPress_def)

lemma restart_frame:
  "waterView (app_handleRestartRequest s) = waterView s"
  "app_config (app_handleRestartRequest s) = app_config s"
  by (simp_all add: app_handleRestartRequest_def Let_def millis_def bz_off_def)
    (simp_all add: bz_writeState_def pump_off_def digitalWrite_def)

lemma processOne_frame:
  "waterView (snd (hydro_processOne img ops s)) = waterView s"
  "validateHydroSenseConfig (app_config s) \<Longrightarrow>
   validateHydroSenseConfig (app_config (snd (hydro_processOne img ops s)))"
  using processOne_world [where P = "\<lambda>u. waterView u = waterView s" and w = s and executor = "hydro_execute img ops"]
    processOne_world [where P = "\<lambda>u. validateHydroSenseConfig (app_config u)" and w = s
      and executor = "hydro_execute img ops"]
  by (simp_all add: hydro_processOne_def Let_def split_beta execute_water execute_config)

named_theorems config_frame \<open>operations that leave the configuration alone\<close>

lemma device_config [config_frame]:
  "app_config (pump_off s) = app_config s" "app_config (pump_on s) = app_config s"
  "app_config (bz_writeState b s) = app_config s"
  "app_config (snd (us_measure s)) = app_config s"
  by (simp_all add: pump_off_def pump_on_def digitalWrite_def bz_writeState_def us_measure_def pulseIn_def Let_def)

lemma button_config [config_frame]:
  "app_config (btn_observe now raw s) = app_config s" "app_config (btn_settle now s) = app_config s"
  "app_config (btn_hold now s) = app_config s"
  by (simp_all add: btn_observe_def btn_settle_def btn_hold_def Let_def)

lemma btn_update_config: "app_config (btn_update s) = app_config s"
  by (simp add: btn_update_def btn_readPressed_def digitalRead_def millis_def Let_def config_frame)

lemma float_config [config_frame]: "app_config (float_update s) = app_config s"
  by (simp add: float_update_def float_readActive_def digitalRead_def millis_def Let_def)

lemma enterState_config [config_frame]: "app_config (tc_enterState n s) = app_config s"
  by (simp add: tc_enterState_def millis_def Let_def config_frame)

lemma tc_run_config [config_frame]: "app_config (tc_run now low s) = app_config s"
  by (simp add: tc_run_def Let_def config_frame split: TopupState.split)

lemma tc_update_config: "app_config (tc_update s) = app_config s"
  by (simp add: tc_update_def Let_def millis_def config_frame)

lemma reset_config [config_frame]: "app_config (bc_resetPattern s) = app_config s"
  by (simp add: bc_resetPattern_def bz_off_def millis_def Let_def config_frame)

lemma pattern_config [config_frame]:
  "app_config (bc_updateWarning now s) = app_config s" "app_config (bc_updateCritical now s) = app_config s"
  by (simp_all add: bc_updateWarning_def bc_updateCritical_def bz_on_def bz_off_def Let_def config_frame
      split: PatternState.split)

lemma water_config:
  "app_config (res_update s) = app_config s" "app_config (tc_setPumpAllowed b s) = app_config s"
  "app_config (al_update s) = app_config s" "app_config (bc_update s) = app_config s"
  by (simp_all add: res_update_def tc_setPumpAllowed_def Let_def al_update_def al_setAlarm_def al_clearAlarm_def
      bc_update_def bz_off_def millis_def config_frame split: AlarmSeverity.split)

lemma tank_parts_config [config_frame]:
  "app_config (tank_processSamples s) = app_config s" "app_config (tank_sample s) = app_config s"
  by (simp_all add: tank_processSamples_def tank_sample_def Let_def split_beta config_frame)

lemma tank_update_config: "app_config (tank_update s) = app_config s"
  by (simp add: tank_update_def tank_finishSeries_def millis_def Let_def config_frame)

lemma app_update_inv:
  assumes "appInv s"
  shows "appInv (app_update img ops nops s)"
proof -
  define s1 where "s1 = btn_update (s\<lparr>ioCount := Suc (ioCount s),
     app_network := net_updateAt nops 0 (millisAt s (ioCount s)) (app_network s)\<rparr>)"
  define s2 where "s2 = tank_update (app_handleButton s1)"
  define s3 where "s3 = tc_update (tc_setPumpAllowed (res_allowsPump (res_update s2)) (res_update s2))"
  define s4 where "s4 = app_updateStatus (bc_update (al_update s3))"
  define s5 where "s5 = snd (hydro_processOne img ops s4)"
  define s6 where "s6 = (if fst (hydro_processOne img ops s4) then app_updateStatus s5 else s5)"
  have upd: "app_update img ops nops s = app_handleRestartRequest (hydro_publish s6)"
    by (simp add: app_update_def millis_def Let_def split_beta s1_def [symmetric] s2_def [symmetric]
        s3_def [symmetric] s4_def [symmetric] s5_def [symmetric] s6_def [symmetric] cong: if_cong split del: if_split)
  have "waterView (app_handleButton s1) = waterView s" by (simp add: handleButton_water s1_def)
  then have "tankInv (app_handleButton s1)"
    using tankView_cong(1) waterView_cong(1) assms by (metis appInv_def)
  then have t2: "tankInv s2" unfolding s2_def by (rule tank_update_inv)
  have "tankView s3 = tankView s2"
    using waterView_cong(1) [of s3 "res_update s2"] by (simp add: s3_def)
  moreover have "waterView (app_handleRestartRequest (hydro_publish s6)) = waterView s3"
    by (simp add: restart_frame s6_def s5_def s4_def processOne_frame)
  ultimately have tank: "tankInv (app_handleRestartRequest (hydro_publish s6))"
    using t2 tankView_cong(1) waterView_cong(1) by metis
  have "app_config s4 = app_config s"
    by (simp add: s4_def s3_def s2_def s1_def app_begin_config_frame(6) water_config tc_update_config
        tank_update_config handleButton_config btn_update_config)
  then have "validateHydroSenseConfig (app_config s5)"
    using assms processOne_frame(2) [of s4 img ops] by (simp add: s5_def appInv_def)
  then have "validateHydroSenseConfig (app_config (app_handleRestartRequest (hydro_publish s6)))"
    by (simp add: restart_frame app_begin_config_frame(6,7) s6_def)
  moreover have "pumpCore (app_update img ops nops s)"
    using app_update_pumpOk [of s img ops nops] assms by (simp add: appInv_def pumpOk_def pumpCore_def)
  ultimately show ?thesis using tank by (simp add: appInv_def upd)
qed

text \<open>
  Loops with the other tasks in between: the bridge as the Web task leaves it, and the state the radio has
  moved to.
\<close>

definition app_environment ::
  "(HydroWebRequest, HydroWebResult) bridge \<times> 'n \<Rightarrow> ('b, 'n) hydro_app \<Rightarrow> ('b, 'n) hydro_app" where
  "app_environment e s = s\<lparr>app_bridge := fst e, app_network := (app_network s)\<lparr>net_backend := snd e\<rparr>\<rparr>"

fun app_run ::
  "config_image \<Rightarrow> 'b backend_ops \<Rightarrow> 'n network_ops \<Rightarrow>
     ((HydroWebRequest, HydroWebResult) bridge \<times> 'n) list \<Rightarrow> ('b, 'n) hydro_app \<Rightarrow> ('b, 'n) hydro_app" where
  "app_run img ops nops [] s = s"
| "app_run img ops nops (e # es) s = app_run img ops nops es (app_update img ops nops (app_environment e s))"

lemma environment_inv: "appInv s \<Longrightarrow> appInv (app_environment e s)"
  using pumpCore_cong [of "app_environment e s" s] tankView_cong(1) [of "app_environment e s" s]
    waterView_cong(1) [of "app_environment e s" s]
  by (simp add: appInv_def app_environment_def)

lemma app_run_inv:
  "appInv s \<Longrightarrow> \<not> pump_isOn s \<or> pumpOk s \<Longrightarrow>
   appInv (app_run img ops nops es s) \<and> (\<not> pump_isOn (app_run img ops nops es s) \<or> pumpOk (app_run img ops nops es s))"
proof (induction es arbitrary: s)
  case (Cons e es)
  have i: "appInv (app_environment e s)" using Cons.prems(1) by (rule environment_inv)
  then have "pumpOk (app_update img ops nops (app_environment e s))"
    by (intro app_update_pumpOk) (simp add: appInv_def)
  then show ?case using Cons.IH [OF app_update_inv [OF i]] by simp
qed simp

end
