(* ===== verification/HydroProperties.thy ===== *)
theory HydroProperties
  imports HydroRuns
begin

text \<open>
  The properties of HydroSense, each with a witness on the concrete application \<open>demoApp\<close>: a board
  whose clock advances five seconds per reading, whose inputs are all low and whose echo never
  comes, an empty key-value storage and a radio that never connects.
\<close>

section \<open>A concrete application\<close>

definition demoRadio :: "unit network_ops" where
  "demoRadio = \<lparr>nbApplyRadioPolicy = \<lambda>b _ _ _. (True, b), nbSetHostname = \<lambda>b _. (True, b),
     nbBeginSta = \<lambda>b _ _. (True, b), nbStaState = \<lambda>_. StaDisconnected, nbReconnectSta = \<lambda>b. (True, b),
     nbDisconnectSta = \<lambda>b. (True, b), nbLocalIp = \<lambda>_. noAddress, nbRssi = \<lambda>_. 0,
     nbConsumeDisconnectReason = \<lambda>b. (ReasonNone, b), nbStartAccessPoint = \<lambda>b _ _. (True, b),
     nbStopAccessPoint = \<lambda>b. (True, b), nbAccessPointIp = \<lambda>_. noAddress\<rparr>"

definition demoSettings :: HydroSettingsRequest where
  "demoSettings = \<lparr>sreq_floatActiveLow = True, sreq_floatUsePullup = True, sreq_floatDebounceMs = 100,
     sreq_ultrasonicMinDistanceCm = Fin 2, sreq_ultrasonicMaxDistanceCm = Fin 450,
     sreq_ultrasonicTimeoutUs = 30000, sreq_tankEmptyDistanceCm = Fin 40, sreq_tankFullDistanceCm = Fin 5,
     sreq_tankSampleIntervalMs = 80, sreq_tankMaxFailedSeries = 3, sreq_reserveLowPercent = Fin 25,
     sreq_reserveCriticalPercent = Fin 10, sreq_reserveHysteresisPercent = Fin 3,
     sreq_topupStartDelayMs = 3000, sreq_topupMaxPumpRuntimeMs = 120000, sreq_wifiStaEnabled = False,
     sreq_wifiSsid = cArray 33 '''', sreq_wifiPassword = cArray 65 '''', sreq_replaceWifiPassword = False,
     sreq_wifiHostname = cArray 33 ''hydrosense'', sreq_wifiAutoReconnect = True,
     sreq_wifiReconnectIntervalMs = 10000, sreq_wifiApEnabled = True, sreq_wifiApSsid = cArray 33 ''AP'',
     sreq_wifiApPassword = cArray 65 '''', sreq_replaceApPassword = False\<rparr>"

definition demoRequest :: HydroWebRequest where
  "demoRequest = \<lparr>hreq_kind = ToggleServiceMode, hreq_settings = demoSettings\<rparr>"

definition demoStatus :: SystemStatus where
  "demoStatus = \<lparr>sy_serviceMode = False, sy_floatSensorActive = False, sy_pumpOn = False, sy_pumpAllowed = False,
     sy_pumpLocked = False, sy_topupState = Idle, sy_tankValid = False, sy_tankSensorFault = False,
     sy_tankDistanceCm = Fin 0, sy_tankLevelCm = Fin 0, sy_tankLevelPercent = Fin 0,
     sy_reserveState = ReserveUnknown, sy_hasAlarm = False, sy_alarmCode = AlarmNone,
     sy_alarmSeverity = SeverityNone, sy_buzzerMuted = False, sy_networkState = NetDisabled,
     sy_wifiConnected = False, sy_wifiRssi = 0, sy_ipAddress = noAddress, sy_accessPointActive = False,
     sy_accessPointIpAddress = noAddress, sy_networkReconnectCount = 0\<rparr>"

definition demoImage :: config_image where
  "demoImage = \<lparr>img_size = 4, img_bytes = \<lambda>_. [1, 2, 3, 4], img_value = \<lambda>_. HydroSenseConfig_default\<rparr>"

definition demoApp :: "(cstr \<Rightarrow> bytes, unit) hydro_app" where
  "demoApp = \<lparr>ioCount = 0, millisAt = \<lambda>n. of_nat (5000 * n), levelAt = \<lambda>_ _. False, echoAt = \<lambda>_ _ _. 0,
     outLevel = \<lambda>_. False, modeOf = \<lambda>_. INPUT,
     pump_pin = PIN_PUMP, pump_isOn = False,
     float_pin = PIN_FLOAT_SENSOR, float_activeLow = True, float_usePullup = True, float_debounceMs = 100,
     float_rawState = False, float_stableState = False, float_lastChangeMs = 0,
     us_trigPin = PIN_ULTRASONIC_TRIG, us_echoPin = PIN_ULTRASONIC_ECHO, us_minDistanceCm = Fin 2,
     us_maxDistanceCm = Fin 450, us_timeoutUs = 30000, us_distanceCm = Fin 0, us_valid = False,
     btn_pin = PIN_BUTTON, btn_activeLow = True, btn_usePullup = True, btn_debounceMs = 50,
     btn_longPressMs = 3000, btn_rawPressed = False, btn_stablePressed = False, btn_longPressReported = False,
     btn_shortPressEvent = False, btn_longPressEvent = False, btn_rawChangeMs = 0, btn_pressStartMs = 0,
     bz_pin = PIN_BUZZER, bz_activeHigh = True, bz_isOn = False,
     tank_emptyDistanceCm = Fin 40, tank_fullDistanceCm = Fin 5, tank_sampleIntervalMs = 80,
     tank_maxFailedSeries = 3, tank_samples = [Fin 0, Fin 0, Fin 0, Fin 0, Fin 0], tank_attempts = 0,
     tank_validSamples = 0, tank_failedSeries = 0, tank_lastSampleMs = 0, tank_lastValidReadingMs = 0,
     tank_distanceCm = Fin 0, tank_levelCm = Fin 0, tank_levelPercent = Fin 0, tank_valid = False,
     tank_newReading = False, tank_sensorFault = False,
     res_lowLevelPercent = Fin 25, res_criticalLevelPercent = Fin 10, res_hysteresisPercent = Fin 3,
     res_state = ReserveUnknown,
     tc_startDelayMs = 3000, tc_maxPumpRuntimeMs = 120000, tc_state = Idle, tc_stateStartMs = 0,
     tc_serviceMode = False, tc_pumpAllowed = False,
     al_code = AlarmNone, al_severity = SeverityNone, bc_patternState = PatternIdle, bc_stateStartMs = 0,
     bc_beepCount = 0, bc_muted = False, bc_lastAlarmCode = AlarmNone,
     app_config = HydroSenseConfig_default, app_configAddress = 4096,
     app_storage = HydroSenseConfigStorage_new demoImage (\<lambda>_. []) 1024, app_status = demoStatus,
     app_network = NetworkService_new () True, app_bridge = bridge_new 4 demoRequest CompletedSuccess,
     app_statusSnapshot = \<lparr>snap_value = demoStatus, snap_available = False\<rparr>,
     app_settingsSnapshot = \<lparr>snap_value = settingsProjection HydroSenseConfig_default, snap_available = False\<rparr>,
     app_syncAt = \<lambda>_. (True, True, True), app_restartRequested = False, app_restartPending = False,
     app_restartRequestedMs = 0, app_restarted = False\<rparr>"

lemma demoApp_constructed: "app_constructed demoApp"
  by (simp add: app_constructed_def demoApp_def)

lemma demoImage_floats: "imageFloats demoImage"
  by (simp add: imageFloats_def demoImage_def default_floats)

text \<open>One Web request (toggle the service mode) waits in the bridge of the first loop.\<close>

definition demoEvents :: "((HydroWebRequest, HydroWebResult) bridge \<times> unit) list" where
  "demoEvents = [(snd (snd (bridge_submit 8 True True demoRequest (bridge_new 4 demoRequest CompletedSuccess))), ()),
     (bridge_new 4 demoRequest CompletedSuccess, ())]"

section \<open>Pump\<close>

text \<open>
  C1: The pump interlock. At the end of \<open>begin\<close> and of every loop of HydroSense, whatever the
  hardware, the radio, the storage and the Web requests do: if the tank reading is not valid, the
  reserve is unknown or critical, the service mode is on, the float switch does not report low
  water, the permission is withdrawn or the controller is not pumping (a lockout included), the
  pump's output pin is low.
\<close>

theorem hydro_pump_interlock:
  assumes "app_constructed s" and "imageFloats img"
    and "t = app_run img ops nops es (app_begin img ops nops s)"
    and "\<not> tank_valid t \<or> res_state t = ReserveUnknown \<or> res_state t = ReserveCritical \<or> tc_serviceMode t \<or>
      \<not> float_stableState t \<or> \<not> tc_pumpAllowed t \<or> tc_state t \<noteq> Pumping"
  shows "\<not> outLevel t (pump_pin t)"
proof -
  have "appInv t" "\<not> pump_isOn t \<or> pumpOk t"
    using app_run_inv [OF app_begin_inv(1) [OF assms(1,2)]] app_begin_inv(2) [OF assms(1,2)] assms(3) by blast+
  then show ?thesis
    using assms(4) by (auto simp: appInv_def pumpCore_def pumpPin_def pumpSafe_def pumpOk_def res_allowsPump_def)
qed

text \<open>The application as it leaves \<open>begin\<close>: nothing is measured yet and the pump is off.\<close>

abbreviation demoBackend :: "(cstr \<Rightarrow> bytes) backend_ops" where
  "demoBackend \<equiv> preferencesStorageBackend kvPreferences"

abbreviation demoStart :: "(cstr \<Rightarrow> bytes, unit) hydro_app" where
  "demoStart \<equiv> app_begin demoImage demoBackend demoRadio demoApp"

lemma demoStart_unread: "\<not> tank_valid demoStart"
  by (rule app_begin_inv(3) [OF demoApp_constructed demoImage_floats])

theorem hydro_pump_interlock_witness:
  "\<not> tank_valid demoStart \<and> \<not> outLevel demoStart (pump_pin demoStart)"
  using hydro_pump_interlock [OF demoApp_constructed demoImage_floats,
      of demoStart demoBackend demoRadio "[]"] demoStart_unread by simp

text \<open>
  C11: The ranges of the published values. At the end of \<open>begin\<close> and of every loop, the configuration
  in use is one the validator accepts, the water level is a finite number that is not negative
  and the percentage is a finite number from 0 to 100: no infinity and no NaN reaches the reserve
  logic.
\<close>

theorem hydro_reading_ranges:
  assumes "app_constructed s" and "imageFloats img"
  shows "validateHydroSenseConfig (app_config (app_run img ops nops es (app_begin img ops nops s))) \<and>
    fle (Fin 0) (tank_levelCm (app_run img ops nops es (app_begin img ops nops s))) \<and>
    isfinite (tank_levelCm (app_run img ops nops es (app_begin img ops nops s))) \<and>
    fle (Fin 0) (tank_levelPercent (app_run img ops nops es (app_begin img ops nops s))) \<and>
    fle (tank_levelPercent (app_run img ops nops es (app_begin img ops nops s))) (Fin 100)"
proof -
  have "appInv (app_run img ops nops es (app_begin img ops nops s))"
    using app_run_inv [OF app_begin_inv(1) [OF assms]] app_begin_inv(2) [OF assms] by blast
  then show ?thesis by (auto simp: appInv_def tankInv_def tankLevels_def)
qed

theorem hydro_reading_ranges_witness:
  "validateHydroSenseConfig (app_config (app_run demoImage demoBackend demoRadio demoEvents demoStart)) \<and>
   fle (Fin 0) (tank_levelPercent (app_run demoImage demoBackend demoRadio demoEvents demoStart)) \<and>
   fle (tank_levelPercent (app_run demoImage demoBackend demoRadio demoEvents demoStart)) (Fin 100)"
  using hydro_reading_ranges [OF demoApp_constructed demoImage_floats, of demoBackend demoRadio demoEvents] by blast

section \<open>The controller of the pump\<close>

text \<open>
  C12: The runtime limit. Whatever operations are called on the controller after \<open>begin\<close>, a monitor
  that records the clock reading at which the pump's state changed from off to on agrees with the
  pump, and an update that leaves the pump on took its reading less than the configured maximum
  after that (in the arithmetic of the 32-bit clock).
\<close>

theorem pump_runtime_limit:
  assumes "pump_isOn (fold topup_exec calls (tc_begin s))"
    and "pump_isOn (tc_update (fold topup_exec calls (tc_begin s)))"
  shows "case snd (watchRun calls (tc_begin s, None)) of
     None \<Rightarrow> False
   | Some started \<Rightarrow> lastReading (tc_update (fold topup_exec calls (tc_begin s))) - started
          < tc_maxPumpRuntimeMs (fold topup_exec calls (tc_begin s))"
proof -
  have "watchInv (fold topup_exec calls (tc_begin s)) (snd (watchRun calls (tc_begin s, None)))"
    using watchRun_inv [OF watchInv_begin, of calls s] by simp
  then show ?thesis
    using tc_update_start [of "fold topup_exec calls (tc_begin s)"] assms
    by (simp add: watchInv_def)
qed

text \<open>
  C23: A lockout is final. Once the controller of a pump that follows the safety rule is locked out,
  no sequence of updates, permissions and service mode changes leaves the lockout or turns the
  pump on; only the reset of the lockout does.
\<close>

theorem lockout_absorbing:
  assumes "pumpSafe s" and "tc_isLocked s" and "TopupReset \<notin> set calls"
  shows "tc_isLocked (fold topup_exec calls s) \<and> \<not> pump_isOn (fold topup_exec calls s) \<and>
    \<not> tc_isLocked (tc_resetLockout (fold topup_exec calls s))"
  using locked_execs [of s calls] assms by (auto simp: tc_isLocked_def tc_resetLockout_def Let_def)

theorem lockout_absorbing_witness:
  "tc_isLocked (fold topup_exec [TopupUpdate, TopupAllowed True, TopupService True, TopupUpdate]
     (demoApp\<lparr>tc_state := Lockout\<rparr>))"
  using lockout_absorbing [of "demoApp\<lparr>tc_state := Lockout\<rparr>" "[TopupUpdate, TopupAllowed True, TopupService True, TopupUpdate]"]
  by (simp add: tc_isLocked_def pumpSafe_def demoApp_def)

text \<open>A controller whose pump runs, with the float switch reporting low water.\<close>

definition demoPumping :: "(cstr \<Rightarrow> bytes, unit) hydro_app" where
  "demoPumping = demoApp\<lparr>levelAt := \<lambda>n pin. False, float_rawState := True, float_stableState := True\<rparr>"

abbreviation demoCalls :: "topup_op list" where
  "demoCalls \<equiv> [TopupAllowed True, TopupUpdate, TopupUpdate]"

lemma demoPumping_on:
  "pump_isOn (fold topup_exec demoCalls (tc_begin demoPumping))"
  "pump_isOn (tc_update (fold topup_exec demoCalls (tc_begin demoPumping)))"
  by (simp_all add: demoPumping_def demoApp_def topup_defs float_update_def float_readActive_def digitalRead_def
      millis_def pump_off_def pump_on_def digitalWrite_def Let_def)

theorem pump_runtime_limit_witness:
  "snd (watchRun demoCalls (tc_begin demoPumping, None)) \<noteq> None"
  using pump_runtime_limit [OF demoPumping_on] by (auto split: option.splits)

section \<open>Measurement\<close>

text \<open>
  C24: The median. Sorting the first \<open>c\<close> samples in place by exchanges and picking the middle is the
  median of those samples: the middle element of the sorted list when their number is odd, the
  rounded mean of the two middle elements when it is even. The remaining cells of the buffer do
  not matter.
\<close>

theorem median_reference:
  assumes "1 \<le> c" and "unat c \<le> length v" and "take (unat c) v = map Fin qs"
  shows "fst (median v c) = medianOf qs"
  using assms by (rule median_take)

theorem median_reference_witness:
  "fst (median [Fin 7, Fin 3, Fin 5, Fin 4, FNaN] 4) = medianOf [7, 3, 5, 4]"
  using median_reference [of 4 "[Fin 7, Fin 3, Fin 5, Fin 4, FNaN]" "[7, 3, 5, 4]"] by simp

section \<open>Reserve\<close>

text \<open>A sequence of readings: whether the reading is valid, and the percentage.\<close>

definition reserveReadings :: "(bool \<times> f32) list \<Rightarrow> 'a hydro_reserve_scheme \<Rightarrow> 'a hydro_reserve_scheme" where
  "reserveReadings = fold (\<lambda>(valid, level) s. res_update (s\<lparr>tank_valid := valid, tank_levelPercent := level\<rparr>))"

lemma critical_stays:
  assumes "res_state s = ReserveCritical"
    and "\<forall>(valid, level)\<in>set rs. valid \<and> \<not> fle (fadd (res_criticalLevelPercent s) (res_hysteresisPercent s)) level"
  shows "res_state (reserveReadings rs s) = ReserveCritical"
  using assms
proof (induction rs arbitrary: s)
  case (Cons r rs)
  obtain valid level where r: "r = (valid, level)" by (cases r)
  define s' where "s' = res_update (s\<lparr>tank_valid := valid, tank_levelPercent := level\<rparr>)"
  have "res_state s' = ReserveCritical" "res_criticalLevelPercent s' = res_criticalLevelPercent s"
    "res_hysteresisPercent s' = res_hysteresisPercent s"
    using Cons.prems by (auto simp: s'_def r res_update_def reserveNext_def)
  then have "res_state (reserveReadings rs s') = ReserveCritical" using Cons.IH [of s'] Cons.prems(2) by simp
  then show ?case by (simp add: reserveReadings_def r s'_def)
qed (simp add: reserveReadings_def)

text \<open>
  C25: The hysteresis of the reserve. Once the reserve is critical, the permission for the pump comes
  back only after some reading was invalid (the state is then evaluated afresh) or reached the
  critical threshold plus the hysteresis; levels that only cross the threshold itself never
  give it back.
\<close>

theorem reserve_hysteresis:
  assumes "res_isCritical s" and "res_allowsPump (reserveReadings rs s)"
  shows "\<exists>(valid, level)\<in>set rs. \<not> valid \<or>
    fle (fadd (res_criticalLevelPercent s) (res_hysteresisPercent s)) level"
  using critical_stays [of s rs] assms by (fastforce simp: res_isCritical_def res_allowsPump_def)

text \<open>
  The validator accepts a hysteresis of zero. At a level equal to the critical threshold the state
  then changes with every reading.
\<close>

lemma zero_hysteresis_alternates:
  "validateHydroSenseConfig (HydroSenseConfig_default\<lparr>cfg_reserveHysteresisPercent := Fin 0\<rparr>)"
  "reserveNext (Fin 25) (Fin 10) (Fin 0) ReserveCritical (Fin 10) = ReserveLow"
  "reserveNext (Fin 25) (Fin 10) (Fin 0) ReserveLow (Fin 10) = ReserveCritical"
proof -
  have "roundF 10 = Fin 10" using roundF_int [of 10] by simp
  then show "reserveNext (Fin 25) (Fin 10) (Fin 0) ReserveCritical (Fin 10) = ReserveLow"
    "reserveNext (Fin 25) (Fin 10) (Fin 0) ReserveLow (Fin 10) = ReserveCritical"
    by (simp_all add: reserveNext_def)
  show "validateHydroSenseConfig (HydroSenseConfig_default\<lparr>cfg_reserveHysteresisPercent := Fin 0\<rparr>)"
    unfolding validateHydroSenseConfig_def validFloats_def invalidSensor_def invalidTank_def invalidReserve_def
      HydroSenseConfig_default_def
    by (simp add: default_texts roundF_one_half)
qed

text \<open>A reserve at three readings: 8, 12 and 14 percent, with a critical threshold of 10 and a hysteresis of 3.\<close>

lemma round_13: "roundF 13 = Fin 13"
  using roundF_int [of 13] by simp

theorem reserve_hysteresis_witness:
  "res_isCritical (demoApp\<lparr>res_state := ReserveCritical\<rparr>) \<and>
   \<not> res_allowsPump (reserveReadings [(True, Fin 8), (True, Fin 12)] (demoApp\<lparr>res_state := ReserveCritical\<rparr>)) \<and>
   (\<exists>(valid, level)\<in>set [(True, Fin 8), (True, Fin 12), (True, Fin 14)]. \<not> valid \<or>
      fle (fadd (res_criticalLevelPercent demoApp) (res_hysteresisPercent demoApp)) level)"
proof -
  have "res_allowsPump (reserveReadings [(True, Fin 8), (True, Fin 12), (True, Fin 14)]
      (demoApp\<lparr>res_state := ReserveCritical\<rparr>))"
    by (simp add: reserveReadings_def res_update_def reserveNext_def demoApp_def res_allowsPump_def round_13)
  moreover have c: "res_isCritical (demoApp\<lparr>res_state := ReserveCritical\<rparr>)" by (simp add: res_isCritical_def)
  moreover have "\<not> res_allowsPump (reserveReadings [(True, Fin 8), (True, Fin 12)] (demoApp\<lparr>res_state := ReserveCritical\<rparr>))"
    by (simp add: reserveReadings_def res_update_def reserveNext_def demoApp_def res_allowsPump_def round_13)
  ultimately show ?thesis using reserve_hysteresis [OF c] by (simp add: demoApp_def)
qed

end
