(* ===== verification/HydroSettings.thy ===== *)
theory HydroSettings
  imports HydroProperties
begin










section \<open>A concrete save\<close>




















end
