(* ===== verification/NetworkProperties.thy ===== *)
theory NetworkProperties
  imports NetworkService
begin

text \<open>
  The properties of the network service: the pacing of reconnect attempts, what the queries show
  while the station is not connected, and the extension of the 32-bit clock.
\<close>

section \<open>A concrete radio\<close>

text \<open>A radio that accepts every call and whose station state is the backend itself.\<close>

definition stateRadio :: "BackendStaState network_ops" where
  "stateRadio = \<lparr>nbApplyRadioPolicy = \<lambda>b _ _ _. (True, b), nbSetHostname = \<lambda>b _. (True, b),
     nbBeginSta = \<lambda>b _ _. (True, b), nbStaState = \<lambda>b. b, nbReconnectSta = \<lambda>b. (True, b),
     nbDisconnectSta = \<lambda>b. (True, b), nbLocalIp = \<lambda>_. noAddress, nbRssi = \<lambda>_. - 60,
     nbConsumeDisconnectReason = \<lambda>b. (ReasonNone, b), nbStartAccessPoint = \<lambda>b _ _. (True, b),
     nbStopAccessPoint = \<lambda>b. (True, b), nbAccessPointIp = \<lambda>_. noAddress\<rparr>"

definition demoNetConfig :: NetworkConfig where
  "demoNetConfig = NetworkConfig_default\<lparr>nc_staEnabled := True, nc_ssid := cArray 33 ''home'',
     nc_autoReconnect := True, nc_reconnectIntervalMs := 10000\<rparr>"

section \<open>Properties\<close>


text \<open>A station that never connects, polled every six seconds: an attempt at the third poll.\<close>

lemma home_set: "\<not> isEmpty (cArray 33 ''home'')"
  by (simp add: isEmpty_def cArray_def)

lemma demoNet_begin:
  "net_begin stateRadio demoNetConfig (NetworkService_new StaDisconnected False) =
    (True, (NetworkService_new StaDisconnected False)\<lparr>net_config := demoNetConfig,
       net_activeReconnectIntervalMs := 10000, net_initialized := True, net_state := NetConnecting\<rparr>)"
  by (simp add: net_begin_def net_release_def net_reset_def net_clearStaRuntime_def NetworkService_new_def
      net_validateConfig_def net_beginSta_def DEFAULT_RECONNECT_INTERVAL_MS_def demoNetConfig_def NetworkConfig_default_def stateRadio_def Let_def
      cArray_terminated home_set)

abbreviation demoPolls :: "(u64 \<times> BackendStaState) list" where
  "demoPolls \<equiv> map (\<lambda>k. (of_nat (6000 * k), StaDisconnected)) [0, 1, 2]"


lemma demo_poll:
  assumes "net_initialized s" "\<not> net_initializationFailed s" "\<not> net_legacyTiming s" "net_config s = demoNetConfig"
  shows "\<not> net_hasReconnectAnchor s \<Longrightarrow> net_poll stateRadio (t, StaDisconnected) s =
      (net_clearStaRuntime s)\<lparr>net_backend := StaDisconnected, net_connectingStartedMs := 0, net_hasConnectingStarted := False, net_state := NetDisconnected,
         net_reconnectAnchorMs := t, net_hasReconnectAnchor := True, net_activeReconnectIntervalMs := 10000\<rparr>"
    and "net_hasReconnectAnchor s \<Longrightarrow> net_poll stateRadio (t, StaDisconnected) s =
      (if t - net_reconnectAnchorMs s < ucast (net_activeReconnectIntervalMs s)
       then (net_clearStaRuntime s)\<lparr>net_backend := StaDisconnected, net_connectingStartedMs := 0, net_hasConnectingStarted := False, net_state := NetDisconnected\<rparr>
       else (net_clearStaRuntime s)\<lparr>net_backend := StaDisconnected, net_connectingStartedMs := t, net_hasConnectingStarted := True, net_state := NetConnecting,
         net_reconnectAnchorMs := t, net_hasReconnectAnchor := False, net_reconnectCount := net_reconnectCount s + 1\<rparr>)"
  using assms
  by (simp_all add: net_poll_def net_update_def net_observeDisconnected_def stateRadio_def Let_def fastCandidate_def
      net_clearStaRuntime_def demoNetConfig_def NetworkConfig_default_def)

lemma demoNet_attempts:
  "reconnectLog stateRadio demoPolls
     (snd (net_begin stateRadio demoNetConfig (NetworkService_new StaDisconnected False))) = [(12000, 10000)]"
  unfolding demoNet_begin snd_conv
  by (simp add: demo_poll NetworkService_new_def net_clearStaRuntime_def Let_def)

definition clearUnlessConnected :: "'b network \<Rightarrow> bool" where
  "clearUnlessConnected s \<longleftrightarrow> net_hasConnectedSince s = net_isConnected s \<and>
     (net_isConnected s \<or> net_ipAddress s = noAddress \<and> net_rssi s = 0 \<and> net_connectedSinceMs s = 0)"

lemma clear_disconnected:
  "net_state s \<noteq> NetConnected \<Longrightarrow> \<not> net_hasConnectedSince s \<Longrightarrow> net_ipAddress s = noAddress \<Longrightarrow> net_rssi s = 0 \<Longrightarrow>
   net_connectedSinceMs s = 0 \<Longrightarrow> clearUnlessConnected s"
  by (simp add: clearUnlessConnected_def net_isConnected_def)

lemma observeDisconnected_clear: "clearUnlessConnected (net_observeDisconnected ops st t s)"
  by (rule clear_disconnected)
    (simp_all add: net_observeDisconnected_def net_clearStaRuntime_def Let_def split_beta)

lemma net_update_clear:
  assumes "clearUnlessConnected s"
  shows "clearUnlessConnected (net_update ops t s)"
proof (cases "net_initialized s \<and> \<not> net_initializationFailed s \<and> nc_staEnabled (net_config s)")
  case False
  then show ?thesis using assms by (simp add: net_update_def)
next
  case True
  define s1 where "s1 = net_clearStaRuntime (s\<lparr>net_state := NetConnecting\<rparr>)"
  define now where "now = (if net_legacyTiming s then lc_nowMs (net_legacyClock s) else t)"
  have "clearUnlessConnected (s1\<lparr>net_connectingStartedMs := now, net_hasConnectingStarted := True\<rparr>)"
    "clearUnlessConnected s1"
    by (rule clear_disconnected; simp add: s1_def net_clearStaRuntime_def)+
  moreover have "clearUnlessConnected (net_update ops t s)" if "nbStaState ops (net_backend s) = StaConnected"
    using True assms that by (simp add: net_update_def Let_def clearUnlessConnected_def net_isConnected_def)
  ultimately show ?thesis
    using True
    unfolding net_update_def s1_def [symmetric] now_def [symmetric]
    by (cases "nbStaState ops (net_backend s)") (simp_all add: Let_def observeDisconnected_clear)
qed

lemma net_poll_clear: "clearUnlessConnected s \<Longrightarrow> clearUnlessConnected (net_poll ops e s)"
  unfolding net_poll_def by (rule net_update_clear) (simp add: clearUnlessConnected_def net_isConnected_def)

lemma net_begin_clear: "clearUnlessConnected (snd (net_begin ops config s))"
proof -
  define r where "r = net_reset (net_release ops s)"
  have r: "net_state r = NetDisabled" "\<not> net_hasConnectedSince r" "net_ipAddress r = noAddress" "net_rssi r = 0"
      "net_connectedSinceMs r = 0"
    by (simp_all add: r_def net_reset_def net_clearStaRuntime_def)
  have sta: "net_state (snd (net_beginSta ops u)) \<noteq> NetConnected"
      "net_hasConnectedSince (snd (net_beginSta ops u)) = net_hasConnectedSince u"
      "net_ipAddress (snd (net_beginSta ops u)) = net_ipAddress u"
      "net_rssi (snd (net_beginSta ops u)) = net_rssi u"
      "net_connectedSinceMs (snd (net_beginSta ops u)) = net_connectedSinceMs u" for u
    by (simp_all add: net_beginSta_def net_failed_def Let_def split_beta)
  show ?thesis
    unfolding net_begin_def r_def [symmetric] Let_def split_beta net_failed_def
    by (rule clear_disconnected; simp add: r sta)
qed

text \<open>Any sequence of updates.\<close>

definition net_polls :: "'b network_ops \<Rightarrow> (u64 \<times> 'b) list \<Rightarrow> 'b network \<Rightarrow> 'b network" where
  "net_polls ops es s = fold (net_poll ops) es s"

text \<open>
  What is shown of a station that is not connected. After \<open>begin\<close>, at every update and whatever the
  radio does: the service reports an address, a signal strength or an uptime only while its
  state is connected.
\<close>

theorem disconnected_shows_nothing:
  "clearUnlessConnected (net_polls ops es (snd (net_begin ops config s)))"
proof -
  have "clearUnlessConnected u \<Longrightarrow> clearUnlessConnected (fold (net_poll ops) es u)" for u
    by (induction es arbitrary: u) (simp_all add: net_poll_clear)
  then show ?thesis unfolding net_polls_def using net_begin_clear by blast
qed

text \<open>
  The extension of the 32-bit clock. When readings of a counter that wraps every 49.7 days are
  given to the legacy clock less than one wrap apart, the 64-bit clock equals the true time since the
  start of the counter: the first reading counts from zero, and no wrap is lost or counted
  twice.
\<close>

theorem legacy_clock_extension:
  assumes "closelyObserved (t # ts)" and "t < 4294967296" and "\<not> lc_hasObservation c"
  shows "lc_nowMs (lc_observeAll (t # ts) c) = of_nat (last (t # ts)) \<and>
    lc_expanded (of_nat (last (t # ts))) (lc_observeAll (t # ts) c) = of_nat (last (t # ts))"
proof -
  define c1 where "c1 = lc_observe (of_nat t) c"
  have "ucast (of_nat t :: u32) = (of_nat t :: u64)" using millis_difference [of 0 t] assms(2) by simp
  then have c1: "lc_hasObservation c1" "lc_lastMs c1 = of_nat t" "lc_nowMs c1 = of_nat t"
    using assms(3) by (simp_all add: c1_def lc_observe_def Let_def)
  note r = lc_observeAll_from [OF assms(1) c1(1,2)]
  then have "lc_nowMs (lc_observeAll ts c1) = of_nat (last (t # ts))"
    using c1(3) by (simp add: of_nat_diff)
  then show ?thesis using r by (simp add: c1_def [symmetric] lc_expanded_def del: last.simps)
qed

theorem legacy_clock_extension_witness:
  "lc_nowMs (lc_observeAll [4294967000, 4294967290, 4294967400, 8589934000, 8589934700]
     \<lparr>lc_nowMs = 0, lc_lastMs = 0, lc_hasObservation = False\<rparr>) = 8589934700"
  using legacy_clock_extension [of 4294967000 "[4294967290, 4294967400, 8589934000, 8589934700]"
      "\<lparr>lc_nowMs = 0, lc_lastMs = 0, lc_hasObservation = False\<rparr>"] by simp

end
