(* ===== verification/BridgeProperties.thy ===== *)
theory BridgeProperties
  imports BridgeRuns
begin

text \<open>
  The properties of the bridge between the Web tasks and the application, over every interleaving of
  its critical sections, with a witness on a run of five steps: submit, take, execute, finish, wait.
\<close>

section \<open>A concrete run\<close>

definition demoExecutor :: "nat \<Rightarrow> nat \<Rightarrow> nat \<times> nat" where
  "demoExecutor q w = (2 * q, w + q)"

definition demoRun0 :: "(nat, nat, nat) bridge_run" where
  "demoRun0 = run_start 2 0 0 100"

definition demoToken :: ActionBridgeToken where
  "demoToken = \<lparr>tok_slotIndex = 0, tok_generation = 1\<rparr>"

abbreviation demoSubmitted :: "(nat, nat) bridge" where
  "demoSubmitted \<equiv> snd (snd (bridge_submit 2 True True 7 (bridge_new 2 0 0)))"

abbreviation demoTaken :: "(nat, nat) bridge" where
  "demoTaken \<equiv> snd (bridge_take True demoSubmitted)"

abbreviation demoFinished :: "(nat, nat) bridge" where
  "demoFinished \<equiv> snd (bridge_finish True True 0 1 14 demoTaken)"

abbreviation demoReleased :: "(nat, nat) bridge" where
  "demoReleased \<equiv> snd (bridge_waitBegin True demoToken demoFinished)"

lemmas bridge_eval = bridge_submit_def bridge_new_def freeSlot_def set_slot_def nextGeneration_def bridge_take_def
  bridge_finish_def bridge_waitBegin_def slot_release_def token_matches_def demoToken_def Let_def

definition demoRun :: "(nat, nat, nat) bridge_run" where
  "demoRun = \<lparr>run_bridge = demoReleased, run_phase = AppIdle, run_world = 107, run_accepted = [(demoToken, 7)],
     run_executed = [(demoToken, 7, 14)], run_delivered = [(demoToken, 14)]\<rparr>"

lemma demo_calls:
  "bridge_submit 2 True True 7 (bridge_new 2 0 0) = (SubmitAccepted, Some demoToken, demoSubmitted)"
  "bridge_take True demoSubmitted = (Some (0, 1, 7), demoTaken)"
  "bridge_finish True True 0 1 14 demoTaken = (True, demoFinished)"
  "bridge_waitBegin True demoToken demoFinished = (Some (WaitCompleted, Some 14), demoReleased)"
  by (simp_all add: bridge_eval numeral_2_eq_2)

lemma demoRun_steps: "bridge_steps demoExecutor demoRun0 demoRun"
proof -
  let ?r = "\<lambda>b p w e d. \<lparr>run_bridge = b, run_phase = p, run_world = w, run_accepted = [(demoToken, 7)],
     run_executed = e, run_delivered = d\<rparr> :: (nat, nat, nat) bridge_run"
  have "bridge_step demoExecutor demoRun0 (?r demoSubmitted AppIdle 100 [] [])"
    using bridge_step.submit [of 2 True True 7 demoRun0 SubmitAccepted "Some demoToken" demoSubmitted demoExecutor]
      demo_calls(1) by (simp add: demoRun0_def run_start_def)
  moreover have "bridge_step demoExecutor (?r demoSubmitted AppIdle 100 [] []) (?r demoTaken (AppTaken 0 1 7) 100 [] [])"
    using bridge_step.take_some [of "?r demoSubmitted AppIdle 100 [] []" True 0 1 7 demoTaken demoExecutor]
      demo_calls(2) by simp
  moreover have "bridge_step demoExecutor (?r demoTaken (AppTaken 0 1 7) 100 [] [])
      (?r demoTaken (AppDone 0 1 14) 107 [(demoToken, 7, 14)] [])"
    using bridge_step.execute [of "?r demoTaken (AppTaken 0 1 7) 100 [] []" 0 1 7 demoExecutor 14 107]
    by (simp add: demoExecutor_def slotToken_def demoToken_def)
  moreover have "bridge_step demoExecutor (?r demoTaken (AppDone 0 1 14) 107 [(demoToken, 7, 14)] [])
      (?r demoFinished AppIdle 107 [(demoToken, 7, 14)] [])"
    using bridge_step.finish [of "?r demoTaken (AppDone 0 1 14) 107 [(demoToken, 7, 14)] []" 0 1 14 True True True
        demoFinished demoExecutor] demo_calls(3) by simp
  moreover have "bridge_step demoExecutor (?r demoFinished AppIdle 107 [(demoToken, 7, 14)] []) demoRun"
    using bridge_step.wait_first [of True demoToken "?r demoFinished AppIdle 107 [(demoToken, 7, 14)] []"
        "Some (WaitCompleted, Some 14)" demoReleased demoExecutor] demo_calls(4)
    by (simp add: demoRun_def deliver_def)
  ultimately show ?thesis by (meson bridge_steps.refl bridge_steps.step)
qed

section \<open>Properties\<close>

text \<open>
  C5: The bridge is a serial queue. In every interleaving of submissions, waits, abandonments and
  application steps, failures of the synchronizer included, the accepted requests are, in
  the order of their acceptance, those executed, then the one the application holds, then
  those in the ring: none is lost, repeated or overtaken. The state of the application is that of
  executing the former one after another, with the results they gave.
\<close>

theorem bridge_serializes:
  assumes "0 < capacity" and "bridge_steps executor (run_start capacity q0 r0 w0) x"
  shows "run_accepted x = map (\<lambda>(t, q, r). (t, q)) (run_executed x) @ inFlight (run_phase x) @ queued (run_bridge x) \<and>
    runRequests executor (map (fst \<circ> snd) (run_executed x)) w0 = (map (snd \<circ> snd) (run_executed x), run_world x)"
  using steps_runOk [OF assms(2) start_runOk [OF assms(1)]] by (simp_all add: runOk_def logOk_def)

theorem bridge_serializes_witness:
  "run_accepted demoRun = [(demoToken, 7)] \<and> runRequests demoExecutor [7] 100 = ([14], run_world demoRun)"
  using bridge_serializes [OF _ demoRun_steps [unfolded demoRun0_def]]
  by (simp add: demoRun_def inFlight_def demoExecutor_def)

text \<open>
  C6: A waiter gets its own answer. As long as fewer than \<open>2 ^ 64\<close> requests were accepted (the
  generations of a slot do not repeat), a result delivered to a waiter is the result of executing the
  request that was accepted under the waiter's token, and of no other.
\<close>

theorem bridge_results:
  assumes "0 < capacity" and "bridge_steps executor (run_start capacity q0 r0 w0) x"
    and "length (run_accepted x) < 2 ^ 64"
    and "(token, r) \<in> set (run_delivered x)" and "(token, q) \<in> set (run_accepted x)"
  shows "(token, q, r) \<in> set (run_executed x)"
proof -
  have ok: "runOk executor w0 x" using steps_runOk [OF assms(2) start_runOk [OF assms(1)]] .
  then obtain q' where e: "(token, q', r) \<in> set (run_executed x)"
    using assms(4) by (auto simp: runOk_def resultsOk_def)
  show ?thesis using accepted_unique [OF ok assms(3,5) executed_accepted [OF ok e]] e by simp
qed

theorem bridge_results_witness:
  "(demoToken, 14) \<in> set (run_delivered demoRun) \<and> (demoToken, 7, 14) \<in> set (run_executed demoRun)"
  using bridge_results [OF _ demoRun_steps [unfolded demoRun0_def], of demoToken 14 7]
  by (simp add: demoRun_def)

end
