(* ===== verification/LumaTypes.thy ===== *)
theory LumaTypes
  imports Float32 CText Calendar
begin

text \<open>
  The data of LumaSense, the lighting controller (\<open>aquaOneLuma\<close>): channel levels, profiles with their
  eight day stages, the device configuration with its defaults and its validator, operating modes and
  the runtime state. The fixed C arrays are lists; \<open>configShape\<close> states their lengths. A level is
  a \<open>float\<close> percentage.
\<close>

section \<open>Constants\<close>

definition CHANNEL_COUNT :: nat where "CHANNEL_COUNT = 8"
definition PROFILE_COUNT :: nat where "PROFILE_COUNT = 5"
definition DAY_STAGE_COUNT :: nat where "DAY_STAGE_COUNT = 8"
definition STANDARD_TRANSITION_MS :: u32 where "STANDARD_TRANSITION_MS = 60000"
definition NIGHT_TRANSITION_MS :: u32 where "NIGHT_TRANSITION_MS = 5000"
definition CHANNEL_TEST_TIMEOUT_MS :: u32 where "CHANNEL_TEST_TIMEOUT_MS = 5 * 60 * 1000"
definition PREVIEW_SMOOTH_MS :: u32 where "PREVIEW_SMOOTH_MS = 750"
definition SIMULATION_ENTRY_MS :: u32 where "SIMULATION_ENTRY_MS = 7500"
definition LEVEL_MIN_PERCENT :: f32 where "LEVEL_MIN_PERCENT = Fin 0"
definition LEVEL_MAX_PERCENT :: f32 where "LEVEL_MAX_PERCENT = Fin 100"
definition MINUTES_PER_DAY :: u16 where "MINUTES_PER_DAY = 1440"
definition PWM_RESOLUTION_BITS :: nat where "PWM_RESOLUTION_BITS = 12"
definition PWM_MAX_VALUE :: u32 where "PWM_MAX_VALUE = push_bit PWM_RESOLUTION_BITS 1 - 1"

definition DAY_STAGE_POSITION :: "f32 list" where
  "DAY_STAGE_POSITION = map roundF [0, 7 / 100, 20 / 100, 41 / 100, 68 / 100, 84 / 100, 93 / 100, 1]"

lemmas count_defs [simp] = CHANNEL_COUNT_def PROFILE_COUNT_def DAY_STAGE_COUNT_def

lemma PWM_MAX_VALUE_eq: "PWM_MAX_VALUE = 4095"
  by (simp add: PWM_MAX_VALUE_def PWM_RESOLUTION_BITS_def)

section \<open>Profiles\<close>

type_synonym ChannelLevels = "f32 list"

abbreviation zeroLevels :: ChannelLevels where
  "zeroLevels \<equiv> replicate CHANNEL_COUNT (Fin 0)"

datatype DayStageId = SunriseStart | Morning | Forenoon | Noon | Afternoon | Evening | Twilight | Sunset

record DayStage =
  stg_id :: DayStageId
  stg_levels :: ChannelLevels

record Profile =
  prf_name :: bytes
  prf_dayStartMinute :: u16
  prf_dayEndMinute :: u16
  prf_stages :: "DayStage list"
  prf_nightEnabled :: bool
  prf_nightLevels :: ChannelLevels
  prf_generated :: bool
  prf_generatorVersion :: u16
  prf_generatorOutdated :: bool

section \<open>Configuration\<close>

text \<open>The validator compares the value of the enumeration, so a value outside it is possible.\<close>

datatype IntensityLevel = IntensityLow | IntensityMedium | IntensityHigh | IntensityOther u8

fun intensityValue :: "IntensityLevel \<Rightarrow> u8" where
  "intensityValue IntensityLow = 0"
| "intensityValue IntensityMedium = 1"
| "intensityValue IntensityHigh = 2"
| "intensityValue (IntensityOther v) = v"

record ChannelConfig =
  cc_enabled :: bool
  cc_name :: bytes
  cc_pwmInverted :: bool
  cc_hardMaxPercent :: f32
  cc_calibrationMinPercent :: f32
  cc_calibrationMaxPercent :: f32
  cc_gamma :: f32
  cc_ledCount :: u16
  cc_ledPowerW :: f32
  cc_ledModel :: bytes
  cc_spectrumName :: bytes
  cc_colorTemperatureK :: f32
  cc_wavelengthNm :: f32
  cc_opticAngleDeg :: f32

record TankConfig =
  tk_volumeLiters :: f32
  tk_tankLengthCm :: f32
  tk_tankWidthCm :: f32
  tk_tankHeightCm :: f32
  tk_waterColumnHeightCm :: f32
  tk_lampHeightAboveWaterCm :: f32
  tk_lampLengthCm :: f32
  tk_intensityLevel :: IntensityLevel
  tk_co2Enabled :: bool

definition DEVICE_CONFIG_SCHEMA_VERSION :: u16 where "DEVICE_CONFIG_SCHEMA_VERSION = 1"

record DeviceConfig =
  dc_schemaVersion :: u16
  dc_channels :: "ChannelConfig list"
  dc_profiles :: "Profile list"
  dc_tank :: TankConfig
  dc_activeProfileIndex :: u8
  dc_serviceProfileIndex :: u8
  dc_globalPowerLimitPercent :: f32
  dc_timezone :: bytes

text \<open>The default member initializers.\<close>

definition ChannelConfig_default :: ChannelConfig where
  "ChannelConfig_default = \<lparr>cc_enabled = True, cc_name = cArray 32 '''', cc_pwmInverted = False,
     cc_hardMaxPercent = Fin 100, cc_calibrationMinPercent = Fin 0, cc_calibrationMaxPercent = Fin 100,
     cc_gamma = Fin 1, cc_ledCount = 0, cc_ledPowerW = Fin 0, cc_ledModel = cArray 32 '''',
     cc_spectrumName = cArray 32 '''', cc_colorTemperatureK = Fin 0, cc_wavelengthNm = Fin 0,
     cc_opticAngleDeg = Fin 120\<rparr>"

definition TankConfig_default :: TankConfig where
  "TankConfig_default = \<lparr>tk_volumeLiters = Fin 0, tk_tankLengthCm = Fin 0, tk_tankWidthCm = Fin 0,
     tk_tankHeightCm = Fin 0, tk_waterColumnHeightCm = Fin 0, tk_lampHeightAboveWaterCm = Fin 0,
     tk_lampLengthCm = Fin 0, tk_intensityLevel = IntensityMedium, tk_co2Enabled = False\<rparr>"

definition Profile_default :: Profile where
  "Profile_default = \<lparr>prf_name = cArray 32 '''', prf_dayStartMinute = 480, prf_dayEndMinute = 1140,
     prf_stages = replicate DAY_STAGE_COUNT \<lparr>stg_id = SunriseStart, stg_levels = zeroLevels\<rparr>,
     prf_nightEnabled = False, prf_nightLevels = zeroLevels, prf_generated = False,
     prf_generatorVersion = 0, prf_generatorOutdated = False\<rparr>"

definition DeviceConfig_default :: DeviceConfig where
  "DeviceConfig_default = \<lparr>dc_schemaVersion = DEVICE_CONFIG_SCHEMA_VERSION,
     dc_channels = replicate CHANNEL_COUNT ChannelConfig_default,
     dc_profiles = replicate PROFILE_COUNT Profile_default, dc_tank = TankConfig_default,
     dc_activeProfileIndex = 0, dc_serviceProfileIndex = 0, dc_globalPowerLimitPercent = Fin 100,
     dc_timezone = cArray 48 ''Europe/Warsaw''\<rparr>"

definition stageIds :: "DayStageId list" where
  "stageIds = [SunriseStart, Morning, Forenoon, Noon, Afternoon, Evening, Twilight, Sunset]"

definition createDefaultConfig :: DeviceConfig where
  "createDefaultConfig =
    (let config = DeviceConfig_default
       \<lparr>dc_schemaVersion := DEVICE_CONFIG_SCHEMA_VERSION, dc_activeProfileIndex := 0,
        dc_serviceProfileIndex := 0, dc_globalPowerLimitPercent := Fin 100\<rparr>
     in config
       \<lparr>dc_channels := map (\<lambda>channel. channel
          \<lparr>cc_enabled := True, cc_pwmInverted := False, cc_hardMaxPercent := Fin 100,
           cc_calibrationMinPercent := Fin 0, cc_calibrationMaxPercent := Fin 100, cc_gamma := Fin 1,
           cc_opticAngleDeg := Fin 120\<rparr>) (dc_channels config),
        dc_profiles := map (\<lambda>profile. profile
          \<lparr>prf_dayStartMinute := 480, prf_dayEndMinute := 1140,
           prf_stages := map2 (\<lambda>stage i. stage\<lparr>stg_id := i\<rparr>) (prf_stages profile) stageIds\<rparr>)
          (dc_profiles config)\<rparr>)"

section \<open>Validator\<close>

definition isFiniteInRange :: "f32 \<Rightarrow> f32 \<Rightarrow> f32 \<Rightarrow> bool" where
  "isFiniteInRange value minimum maximum \<longleftrightarrow> isfinite value \<and> fle minimum value \<and> fle value maximum"

definition isFiniteNonNegative :: "f32 \<Rightarrow> bool" where
  "isFiniteNonNegative value \<longleftrightarrow> isfinite value \<and> fle (Fin 0) value"

definition validateLevels :: "ChannelLevels \<Rightarrow> bool" where
  "validateLevels levels =
     list_all (\<lambda>channel. isFiniteInRange (levels ! channel) LEVEL_MIN_PERCENT LEVEL_MAX_PERCENT) [0..<CHANNEL_COUNT]"

definition validateChannel :: "ChannelConfig \<Rightarrow> bool" where
  "validateChannel channel \<longleftrightarrow> isNullTerminated (cc_name channel) 32 \<and> isNullTerminated (cc_ledModel channel) 32 \<and>
     isNullTerminated (cc_spectrumName channel) 32 \<and>
     isFiniteInRange (cc_hardMaxPercent channel) LEVEL_MIN_PERCENT LEVEL_MAX_PERCENT \<and>
     isFiniteInRange (cc_calibrationMinPercent channel) LEVEL_MIN_PERCENT LEVEL_MAX_PERCENT \<and>
     isFiniteInRange (cc_calibrationMaxPercent channel) LEVEL_MIN_PERCENT LEVEL_MAX_PERCENT \<and>
     fle (cc_calibrationMinPercent channel) (cc_calibrationMaxPercent channel) \<and>
     isfinite (cc_gamma channel) \<and> flt (Fin 0) (cc_gamma channel) \<and>
     isFiniteNonNegative (cc_ledPowerW channel) \<and> isFiniteNonNegative (cc_colorTemperatureK channel) \<and>
     isFiniteNonNegative (cc_wavelengthNm channel) \<and> isFiniteInRange (cc_opticAngleDeg channel) (Fin 0) (Fin 180)"

definition validateProfile :: "Profile \<Rightarrow> bool" where
  "validateProfile profile =
    (if \<not> isNullTerminated (prf_name profile) 32 \<or> prf_dayStartMinute profile \<ge> MINUTES_PER_DAY \<or>
        prf_dayEndMinute profile \<ge> MINUTES_PER_DAY \<or> prf_dayStartMinute profile \<ge> prf_dayEndMinute profile
     then False
     else if \<not> list_all (\<lambda>stage. validateLevels (stg_levels (prf_stages profile ! stage))) [0..<DAY_STAGE_COUNT]
     then False
     else validateLevels (prf_nightLevels profile))"

definition validateTank :: "TankConfig \<Rightarrow> bool" where
  "validateTank tank \<longleftrightarrow> isFiniteNonNegative (tk_volumeLiters tank) \<and> isFiniteNonNegative (tk_tankLengthCm tank) \<and>
     isFiniteNonNegative (tk_tankWidthCm tank) \<and> isFiniteNonNegative (tk_tankHeightCm tank) \<and>
     isFiniteNonNegative (tk_waterColumnHeightCm tank) \<and> isFiniteNonNegative (tk_lampHeightAboveWaterCm tank) \<and>
     isFiniteNonNegative (tk_lampLengthCm tank) \<and>
     intensityValue (tk_intensityLevel tank) \<le> intensityValue IntensityHigh"

definition validateDeviceConfig :: "DeviceConfig \<Rightarrow> bool" where
  "validateDeviceConfig config =
    (if unat (dc_activeProfileIndex config) \<ge> PROFILE_COUNT \<or> unat (dc_serviceProfileIndex config) \<ge> PROFILE_COUNT \<or>
        \<not> isFiniteInRange (dc_globalPowerLimitPercent config) LEVEL_MIN_PERCENT LEVEL_MAX_PERCENT \<or>
        \<not> isNullTerminated (dc_timezone config) 48 \<or> \<not> validateTank (dc_tank config) then False
     else if \<not> list_all (\<lambda>channel. validateChannel (dc_channels config ! channel)) [0..<CHANNEL_COUNT] then False
     else if \<not> list_all (\<lambda>profile. validateProfile (dc_profiles config ! profile)) [0..<PROFILE_COUNT] then False
     else True)"

section \<open>Modes and runtime state\<close>

datatype OperatingMode = ModeNormal | ModeService | ModeManual | ModeChannelTest | ModePreview | ModeSimulation | ModeOff

datatype DayState = Day | Night

record RuntimeState =
  ru_mode :: OperatingMode
  ru_returnMode :: OperatingMode
  ru_dayState :: DayState
  ru_timeValid :: bool
  ru_currentStageIndex :: u8
  ru_nextStageIndex :: u8
  ru_currentMinuteOfDay :: u16
  ru_requestedLevels :: ChannelLevels
  ru_actualLevels :: ChannelLevels
  ru_transitionActive :: bool

definition RuntimeState_default :: RuntimeState where
  "RuntimeState_default = \<lparr>ru_mode = ModeNormal, ru_returnMode = ModeNormal, ru_dayState = Day,
     ru_timeValid = False, ru_currentStageIndex = 0, ru_nextStageIndex = 0, ru_currentMinuteOfDay = 0,
     ru_requestedLevels = zeroLevels, ru_actualLevels = zeroLevels, ru_transitionActive = False\<rparr>"

section \<open>Shape and validity\<close>

definition configShape :: "DeviceConfig \<Rightarrow> bool" where
  "configShape config \<longleftrightarrow> length (dc_channels config) = CHANNEL_COUNT \<and> length (dc_profiles config) = PROFILE_COUNT \<and>
     list_all (\<lambda>profile. length (prf_stages profile) = DAY_STAGE_COUNT \<and> length (prf_nightLevels profile) = CHANNEL_COUNT \<and>
       list_all (\<lambda>stage. length (stg_levels stage) = CHANNEL_COUNT) (prf_stages profile)) (dc_profiles config)"

lemma upt_8: "[0..<8] = [0, 1, 2, 3, 4, 5, 6, 7::nat]"
  by (simp add: upt_rec)

lemma upt_5: "[0..<5] = [0, 1, 2, 3, 4::nat]"
  by (simp add: upt_rec)

lemma replicate_8: "replicate 8 x = [x, x, x, x, x, x, x, x]"
  by (simp add: eval_nat_numeral)

lemma replicate_5: "replicate 5 x = [x, x, x, x, x]"
  by (simp add: eval_nat_numeral)

lemma inRangeE:
  assumes "isFiniteInRange x (Fin a) (Fin b)"
  obtains q where "x = Fin q" "a \<le> q" "q \<le> b"
  using assms by (cases x) (auto simp: isFiniteInRange_def isfinite_def)

lemma default_shape: "configShape createDefaultConfig"
  by (simp add: configShape_def createDefaultConfig_def DeviceConfig_default_def Profile_default_def stageIds_def
      Let_def replicate_8 replicate_5)

lemma default_validates: "validateDeviceConfig createDefaultConfig"
proof -
  have c: "validateChannel (ChannelConfig_default\<lparr>cc_enabled := True, cc_pwmInverted := False,
      cc_hardMaxPercent := Fin 100, cc_calibrationMinPercent := Fin 0, cc_calibrationMaxPercent := Fin 100,
      cc_gamma := Fin 1, cc_opticAngleDeg := Fin 120\<rparr>)"
    by (simp add: validateChannel_def ChannelConfig_default_def cArray_terminated isFiniteInRange_def
        isFiniteNonNegative_def isfinite_def LEVEL_MIN_PERCENT_def LEVEL_MAX_PERCENT_def)
  have z: "validateLevels zeroLevels"
    by (simp add: validateLevels_def upt_8 replicate_8 isFiniteInRange_def isfinite_def LEVEL_MIN_PERCENT_def
        LEVEL_MAX_PERCENT_def)
  have p: "validateProfile (Profile_default\<lparr>prf_dayStartMinute := 480, prf_dayEndMinute := 1140,
      prf_stages := map2 (\<lambda>stage i. stage\<lparr>stg_id := i\<rparr>) (prf_stages Profile_default) stageIds\<rparr>)"
    using z by (simp add: validateProfile_def Profile_default_def cArray_terminated MINUTES_PER_DAY_def upt_8
        stageIds_def replicate_8)
  have t: "validateTank TankConfig_default"
    by (simp add: validateTank_def TankConfig_default_def isFiniteNonNegative_def isfinite_def)
  show ?thesis
    using c p t
    by (simp add: validateDeviceConfig_def createDefaultConfig_def DeviceConfig_default_def Let_def upt_8 upt_5
        cArray_terminated isFiniteInRange_def isfinite_def LEVEL_MIN_PERCENT_def LEVEL_MAX_PERCENT_def)
qed

end
