(* ===== verification/LumaEngines.thy ===== *)
theory LumaEngines
  imports LumaTypes
begin

text \<open>
  The three engines of LumaSense: \<open>LightEngine\<close> (limits, calibration and gamma of a channel),
  \<open>TransitionEngine\<close> (the timed smoothstep between two sets of levels) and \<open>DayEngine\<close> (the levels of a
  profile at a second of the day). \<open>std::pow\<close> on \<open>float\<close> is the parameter \<open>powf\<close>: the standard does
  not fix its rounding, and no result here needs more than that it is a function.
\<close>

section \<open>Functions of the C++ library\<close>

text \<open>\<open>std::clamp\<close> and \<open>std::min\<close>.\<close>

definition fclamp :: "f32 \<Rightarrow> f32 \<Rightarrow> f32 \<Rightarrow> f32" where
  "fclamp value lo hi = (if flt value lo then lo else if flt hi value then hi else value)"

definition fmin :: "f32 \<Rightarrow> f32 \<Rightarrow> f32" where
  "fmin a b = (if flt b a then b else a)"

section \<open>Light engine\<close>

definition isFinitePercent :: "f32 \<Rightarrow> bool" where
  "isFinitePercent value \<longleftrightarrow> isfinite value \<and> fle LEVEL_MIN_PERCENT value \<and> fle value LEVEL_MAX_PERCENT"

definition clampPercent :: "f32 \<Rightarrow> f32" where
  "clampPercent value = (if \<not> isfinite value then Fin 0 else fclamp value LEVEL_MIN_PERCENT LEVEL_MAX_PERCENT)"

definition processChannel :: "(f32 \<Rightarrow> f32 \<Rightarrow> f32) \<Rightarrow> f32 \<Rightarrow> ChannelConfig \<Rightarrow> f32 \<Rightarrow> f32" where
  "processChannel powf requestedPercent channelConfig globalPowerLimitPercent =
    (if \<not> cc_enabled channelConfig then Fin 0
     else if \<not> isfinite requestedPercent \<or> \<not> isFinitePercent globalPowerLimitPercent \<or>
        \<not> isFinitePercent (cc_hardMaxPercent channelConfig) \<or>
        \<not> isFinitePercent (cc_calibrationMinPercent channelConfig) \<or>
        \<not> isFinitePercent (cc_calibrationMaxPercent channelConfig) \<or>
        flt (cc_calibrationMaxPercent channelConfig) (cc_calibrationMinPercent channelConfig) \<or>
        \<not> isfinite (cc_gamma channelConfig) \<or> fle (cc_gamma channelConfig) (Fin 0)
     then Fin 0
     else let value = clampPercent requestedPercent
     in if fle value (Fin 0) then Fin 0
     else let value = fmul value (fdiv globalPowerLimitPercent (Fin 100))
     in if \<not> isfinite value \<or> fle value (Fin 0) then Fin 0
     else let x = fdiv value (Fin 100); xGamma = powf x (cc_gamma channelConfig)
     in if \<not> isfinite xGamma then Fin 0
     else let calibrated = fadd (cc_calibrationMinPercent channelConfig)
                (fmul xGamma (fsub (cc_calibrationMaxPercent channelConfig) (cc_calibrationMinPercent channelConfig)))
     in if \<not> isfinite calibrated then Fin 0
     else let limited = fmin calibrated (cc_hardMaxPercent channelConfig)
     in clampPercent limited)"

definition light_process :: "(f32 \<Rightarrow> f32 \<Rightarrow> f32) \<Rightarrow> ChannelLevels \<Rightarrow> DeviceConfig \<Rightarrow> ChannelLevels" where
  "light_process powf requested config =
     map (\<lambda>channel. processChannel powf (requested ! channel) (dc_channels config ! channel)
        (dc_globalPowerLimitPercent config)) [0..<CHANNEL_COUNT]"

section \<open>Transition engine\<close>

record transition_engine =
  tr_from :: ChannelLevels
  tr_to :: ChannelLevels
  tr_current :: ChannelLevels
  tr_startMs :: u32
  tr_durationMs :: u32
  tr_active :: bool

definition TransitionEngine_new :: transition_engine where
  "TransitionEngine_new = \<lparr>tr_from = zeroLevels, tr_to = zeroLevels, tr_current = zeroLevels, tr_startMs = 0,
     tr_durationMs = 0, tr_active = False\<rparr>"

definition tr_smoothstep :: "f32 \<Rightarrow> f32" where
  "tr_smoothstep t = (let t = fclamp t (Fin 0) (Fin 1)
     in fmul (fmul t t) (fsub (Fin 3) (fmul (Fin 2) t)))"

definition tr_start :: "ChannelLevels \<Rightarrow> ChannelLevels \<Rightarrow> u32 \<Rightarrow> u32 \<Rightarrow> transition_engine \<Rightarrow> transition_engine" where
  "tr_start source target durationMs nowMs s =
    (let s = s\<lparr>tr_from := source, tr_to := target, tr_current := source, tr_startMs := nowMs, tr_durationMs := durationMs\<rparr>
     in if tr_durationMs s = 0 then s\<lparr>tr_current := tr_to s, tr_active := False\<rparr>
        else s\<lparr>tr_active := True\<rparr>)"

definition tr_update :: "u32 \<Rightarrow> transition_engine \<Rightarrow> ChannelLevels \<times> transition_engine" where
  "tr_update nowMs s =
    (if \<not> tr_active s then (tr_current s, s)
     else let elapsedMs = nowMs - tr_startMs s
     in if elapsedMs \<ge> tr_durationMs s
        then (tr_to s, s\<lparr>tr_current := tr_to s, tr_active := False\<rparr>)
        else let t = fdiv (float_of_u32 elapsedMs) (float_of_u32 (tr_durationMs s));
                 t = fclamp t (Fin 0) (Fin 1);
                 k = tr_smoothstep t;
                 current = map (\<lambda>channel. fadd (tr_from s ! channel)
                     (fmul (fsub (tr_to s ! channel) (tr_from s ! channel)) k)) [0..<CHANNEL_COUNT]
             in (current, s\<lparr>tr_current := current\<rparr>))"

text \<open>The overload with a moving target.\<close>

definition tr_updateTo :: "u32 \<Rightarrow> ChannelLevels \<Rightarrow> transition_engine \<Rightarrow> ChannelLevels \<times> transition_engine" where
  "tr_updateTo nowMs target s = tr_update nowMs (if tr_active s then s\<lparr>tr_to := target\<rparr> else s)"

definition tr_cancel :: "transition_engine \<Rightarrow> transition_engine" where
  "tr_cancel s = s\<lparr>tr_active := False\<rparr>"

section \<open>Day engine\<close>

record DayCalculation =
  dy_levels :: ChannelLevels
  dy_dayState :: DayState
  dy_currentStageIndex :: u8
  dy_nextStageIndex :: u8
  dy_segmentProgress :: f32

definition day_smoothstep :: "f32 \<Rightarrow> f32" where
  "day_smoothstep value =
    (if fle value (Fin 0) then Fin 0 else if fle (Fin 1) value then Fin 1
     else fmul (fmul value value) (fsub (Fin 3) (fmul (Fin 2) value)))"

text \<open>The first segment that holds the second, or 0 when the loop finds none.\<close>

fun findSegment :: "u32 \<Rightarrow> u32 list \<Rightarrow> nat list \<Rightarrow> nat" where
  "findSegment second stageSecond [] = 0"
| "findSegment second stageSecond (i # is) =
    (if stageSecond ! i \<le> second \<and> second < stageSecond ! (i + 1) then i
     else findSegment second stageSecond is)"

definition stageSeconds :: "u32 \<Rightarrow> u32 \<Rightarrow> u32 list" where
  "stageSeconds dayStartSecond photoperiodSeconds =
     map (\<lambda>i. dayStartSecond + u32_of_float (fmul (float_of_u32 photoperiodSeconds) (DAY_STAGE_POSITION ! i)))
       [0..<DAY_STAGE_COUNT]"

definition segmentProgress :: "u32 \<Rightarrow> u32 \<Rightarrow> u32 \<Rightarrow> f32" where
  "segmentProgress second segmentStart segmentEnd =
    (let segmentLength = segmentEnd - segmentStart;
         progress = (if segmentLength > 0
            then fdiv (float_of_u32 (second - segmentStart)) (float_of_u32 segmentLength) else Fin 0);
         progress = (if flt progress (Fin 0) then Fin 0 else progress)
     in if flt (Fin 1) progress then Fin 1 else progress)"

definition day_calculateSeconds :: "Profile \<Rightarrow> u32 \<Rightarrow> DayCalculation" where
  "day_calculateSeconds profile second =
    (let second = second mod 86400;
         dayStartSecond = ucast (prf_dayStartMinute profile) * 60;
         dayEndSecond = ucast (prf_dayEndMinute profile) * 60
     in if second < dayStartSecond \<or> dayEndSecond \<le> second
        then \<lparr>dy_levels = (if prf_nightEnabled profile then prf_nightLevels profile else zeroLevels),
              dy_dayState = Night, dy_currentStageIndex = 0, dy_nextStageIndex = 0, dy_segmentProgress = Fin 0\<rparr>
        else let photoperiodSeconds = dayEndSecond - dayStartSecond;
                 stageSecond = stageSeconds dayStartSecond photoperiodSeconds;
                 currentStage = findSegment second stageSecond [0..<DAY_STAGE_COUNT - 1];
                 nextStage = currentStage + 1;
                 progress = segmentProgress second (stageSecond ! currentStage) (stageSecond ! nextStage);
                 curvedProgress = day_smoothstep progress;
                 levels = map (\<lambda>ch. let start = stg_levels (prf_stages profile ! currentStage) ! ch;
                                          goal = stg_levels (prf_stages profile ! nextStage) ! ch
                                      in fadd start (fmul (fsub goal start) curvedProgress)) [0..<CHANNEL_COUNT]
             in \<lparr>dy_levels = levels, dy_dayState = Day, dy_currentStageIndex = of_nat currentStage,
                 dy_nextStageIndex = of_nat nextStage, dy_segmentProgress = progress\<rparr>)"

definition day_calculate :: "Profile \<Rightarrow> u16 \<Rightarrow> DayCalculation" where
  "day_calculate profile minuteOfDay =
     day_calculateSeconds profile (ucast (minuteOfDay mod MINUTES_PER_DAY) * 60)"

section \<open>Results\<close>

subsection \<open>Light engine\<close>

lemma clampPercent_Fin:
  "clampPercent (Fin q) = (if q < 0 then Fin 0 else if 100 < q then Fin 100 else Fin q)"
  by (simp add: clampPercent_def fclamp_def isfinite_def LEVEL_MIN_PERCENT_def LEVEL_MAX_PERCENT_def)

lemma clampPercent_range: "\<exists>q. clampPercent x = Fin q \<and> 0 \<le> q \<and> q \<le> 100"
  by (cases x) (simp_all add: clampPercent_Fin, simp_all add: clampPercent_def isfinite_def)

lemma clampPercent_le:
  "isfinite x \<Longrightarrow> fle x (Fin h) \<Longrightarrow> 0 \<le> h \<Longrightarrow> fle (clampPercent x) (Fin h)"
  by (cases x) (auto simp: clampPercent_def fclamp_def isfinite_def LEVEL_MIN_PERCENT_def LEVEL_MAX_PERCENT_def)

lemma isFinitePercentE:
  assumes "isFinitePercent x"
  obtains q where "x = Fin q" "0 \<le> q" "q \<le> 100"
  using assms by (cases x) (auto simp: isFinitePercent_def isfinite_def LEVEL_MIN_PERCENT_def LEVEL_MAX_PERCENT_def)

lemma fmin_le: "isfinite a \<Longrightarrow> fle (fmin a (Fin h)) (Fin h) \<and> isfinite (fmin a (Fin h))"
  by (cases a) (auto simp: fmin_def isfinite_def)

lemma processChannel_range: "\<exists>q. processChannel powf r c g = Fin q \<and> 0 \<le> q \<and> q \<le> 100"
proof -
  have "\<exists>q. Fin 0 = Fin q \<and> 0 \<le> q \<and> q \<le> (100 :: rat)" by simp
  then show ?thesis
    unfolding processChannel_def Let_def by (simp only: clampPercent_range split: if_split) simp
qed

lemma processChannel_limit:
  assumes "isFinitePercent (cc_hardMaxPercent c)"
  shows "fle (processChannel powf r c g) (cc_hardMaxPercent c)"
proof -
  obtain h where h: "cc_hardMaxPercent c = Fin h" "0 \<le> h" using assms by (rule isFinitePercentE)
  have "fle (clampPercent (fmin x (Fin h))) (Fin h)" if "isfinite x" for x
    using clampPercent_le fmin_le [OF that, of h] h(2) by blast
  moreover have "fle (Fin 0) (Fin h)" using h(2) by simp
  ultimately show ?thesis unfolding processChannel_def Let_def h(1) by presburger
qed

text \<open>Zero is a physical off, whatever the calibration.\<close>

lemma clampPercent_nonpos: "fle r (Fin 0) \<Longrightarrow> clampPercent r = Fin 0"
  by (cases r) (auto simp: clampPercent_def fclamp_def isfinite_def LEVEL_MIN_PERCENT_def LEVEL_MAX_PERCENT_def)

lemma processChannel_off:
  assumes "\<not> cc_enabled c \<or> fle r (Fin 0) \<or> \<not> isfinite r \<or> g = Fin 0"
  shows "processChannel powf r c g = Fin 0"
proof -
  have "fmul v (fdiv (Fin 0) (Fin 100)) = Fin 0" if "v = Fin q" for v q using that by simp
  then have "fle (fmul (clampPercent r) (fdiv (Fin 0) (Fin 100))) (Fin 0)"
    using clampPercent_range [of r] by (metis fle.simps(1) order_refl)
  then show ?thesis using assms by (auto simp: processChannel_def Let_def clampPercent_nonpos)
qed

subsection \<open>Transition engine\<close>

lemma tr_start_active: "tr_active (tr_start a b d now s) = (d \<noteq> 0)"
  by (simp add: tr_start_def Let_def)

lemma tr_update_end:
  assumes "tr_active s" and "now - tr_startMs s \<ge> tr_durationMs s"
  shows "fst (tr_update now s) = tr_to s" and "\<not> tr_active (snd (tr_update now s))"
  using assms by (simp_all add: tr_update_def Let_def)

lemma tr_update_keeps:
  "tr_startMs (snd (tr_update now s)) = tr_startMs s" "tr_durationMs (snd (tr_update now s)) = tr_durationMs s"
  "tr_to (snd (tr_update now s)) = tr_to s" "tr_active (snd (tr_update now s)) \<Longrightarrow> tr_active s"
  by (simp_all add: tr_update_def Let_def split: if_splits)

subsection \<open>Day engine\<close>

lemma findSegment_in:
  assumes "\<exists>i\<in>set is. s ! i \<le> x \<and> x < s ! (i + 1)"
  shows "findSegment x s is \<in> set is \<and> s ! findSegment x s is \<le> x \<and> x < s ! (findSegment x s is + 1)"
  using assms by (induction x s "is" rule: findSegment.induct) auto

lemma crossing:
  fixes s :: "u32 list"
  assumes "s ! 0 \<le> x" and "x < s ! n"
  shows "\<exists>i<n. s ! i \<le> x \<and> x < s ! (i + 1)"
  using assms
proof (induction n)
  case (Suc n)
  show ?case
  proof (cases "s ! n \<le> x")
    case True
    then show ?thesis using Suc.prems(2) by auto
  next
    case False
    then show ?thesis using Suc.IH Suc.prems(1) less_Suc_eq by (auto simp: not_le)
  qed
qed simp

lemma findSegment_spec:
  assumes "s ! 0 \<le> x" and "x < s ! n"
  shows "findSegment x s [0..<n] < n" "s ! findSegment x s [0..<n] \<le> x" "x < s ! (findSegment x s [0..<n] + 1)"
proof -
  have "\<exists>i\<in>set [0..<n]. s ! i \<le> x \<and> x < s ! (i + 1)" using crossing [OF assms] by auto
  note r = findSegment_in [OF this]
  show "findSegment x s [0..<n] < n" using r by simp
  show "s ! findSegment x s [0..<n] \<le> x" "x < s ! (findSegment x s [0..<n] + 1)" using r by blast+
qed

lemma stageSeconds_ends:
  assumes "uint p < 16777216"
  shows "stageSeconds d p ! 0 = d" "stageSeconds d p ! 7 = d + p"
proof -
  have p: "float_of_u32 p = Fin (of_int (uint p))"
    unfolding float_of_u32_def by (rule roundF_int) (use assms in simp)
  show "stageSeconds d p ! 0 = d" by (simp add: stageSeconds_def p DAY_STAGE_POSITION_def u32_of_float_def)
  have "fmul (float_of_u32 p) (DAY_STAGE_POSITION ! 7) = Fin (of_int (uint p))"
    using assms roundF_int [of "uint p"] by (simp add: p DAY_STAGE_POSITION_def)
  moreover have "u32_of_float (Fin (of_int (uint p))) = p"
    unfolding u32_of_float_def f32.case floor_of_int by simp
  ultimately have "u32_of_float (fmul (float_of_u32 p) (DAY_STAGE_POSITION ! 7)) = p" by metis
  then show "stageSeconds d p ! 7 = d + p" by (simp add: stageSeconds_def)
qed

end
