(* ===== verification/LumaModes.thy ===== *)
theory LumaModes
  imports LumaTypes
begin

text \<open>
  \<open>ModeManager\<close> of LumaSense: a base mode (normal or service) under four overrides and off. The
  reference is a list of the active modes in order of priority: the mode is its first element, the
  return mode the next one.
\<close>

record mode_manager =
  mm_mode :: OperatingMode
  mm_baseMode :: OperatingMode
  mm_returnMode :: OperatingMode
  mm_manualActive :: bool
  mm_channelTestActive :: bool
  mm_previewActive :: bool
  mm_simulationActive :: bool

definition mm_resetToNormal :: "mode_manager \<Rightarrow> mode_manager" where
  "mm_resetToNormal s = s\<lparr>mm_mode := ModeNormal, mm_baseMode := ModeNormal, mm_returnMode := ModeNormal,
     mm_manualActive := False, mm_channelTestActive := False, mm_previewActive := False,
     mm_simulationActive := False\<rparr>"

definition ModeManager_new :: mode_manager where
  "ModeManager_new = \<lparr>mm_mode = ModeNormal, mm_baseMode = ModeNormal, mm_returnMode = ModeNormal,
     mm_manualActive = False, mm_channelTestActive = False, mm_previewActive = False,
     mm_simulationActive = False\<rparr>"

fun priorityOf :: "OperatingMode \<Rightarrow> nat" where
  "priorityOf ModeOff = 7"
| "priorityOf ModeChannelTest = 6"
| "priorityOf ModeManual = 5"
| "priorityOf ModePreview = 4"
| "priorityOf ModeSimulation = 3"
| "priorityOf ModeService = 2"
| "priorityOf ModeNormal = 1"

definition canEnterOverride :: "mode_manager \<Rightarrow> OperatingMode \<Rightarrow> bool" where
  "canEnterOverride s requestedMode \<longleftrightarrow> mm_mode s \<noteq> ModeOff \<and> priorityOf requestedMode > priorityOf (mm_mode s)"

definition refreshModes :: "mode_manager \<Rightarrow> mode_manager" where
  "refreshModes s =
    (if mm_mode s = ModeOff then s\<lparr>mm_returnMode := ModeNormal\<rparr>
     else let s = s\<lparr>mm_mode :=
            (if mm_channelTestActive s then ModeChannelTest else if mm_manualActive s then ModeManual
             else if mm_previewActive s then ModePreview else if mm_simulationActive s then ModeSimulation
             else mm_baseMode s)\<rparr>
     in s\<lparr>mm_returnMode := (case mm_mode s of
          ModeChannelTest \<Rightarrow> if mm_manualActive s then ModeManual else if mm_previewActive s then ModePreview
             else if mm_simulationActive s then ModeSimulation else mm_baseMode s
        | ModeManual \<Rightarrow> if mm_previewActive s then ModePreview
             else if mm_simulationActive s then ModeSimulation else mm_baseMode s
        | ModePreview \<Rightarrow> if mm_simulationActive s then ModeSimulation else mm_baseMode s
        | _ \<Rightarrow> mm_baseMode s)\<rparr>)"

definition mm_enterService :: "mode_manager \<Rightarrow> bool \<times> mode_manager" where
  "mm_enterService s = (if mm_mode s = ModeOff \<or> mm_baseMode s = ModeService then (False, s)
     else (True, refreshModes (s\<lparr>mm_baseMode := ModeService\<rparr>)))"

definition mm_exitService :: "mode_manager \<Rightarrow> bool \<times> mode_manager" where
  "mm_exitService s = (if mm_mode s = ModeOff \<or> mm_baseMode s \<noteq> ModeService then (False, s)
     else (True, refreshModes (s\<lparr>mm_baseMode := ModeNormal\<rparr>)))"

definition mm_enterManual :: "mode_manager \<Rightarrow> bool \<times> mode_manager" where
  "mm_enterManual s = (if mm_manualActive s \<or> \<not> canEnterOverride s ModeManual then (False, s)
     else (True, refreshModes (s\<lparr>mm_manualActive := True\<rparr>)))"

definition mm_exitManual :: "mode_manager \<Rightarrow> bool \<times> mode_manager" where
  "mm_exitManual s = (if mm_mode s \<noteq> ModeManual \<or> \<not> mm_manualActive s then (False, s)
     else (True, refreshModes (s\<lparr>mm_manualActive := False\<rparr>)))"

definition mm_enterChannelTest :: "mode_manager \<Rightarrow> bool \<times> mode_manager" where
  "mm_enterChannelTest s = (if mm_channelTestActive s \<or> \<not> canEnterOverride s ModeChannelTest then (False, s)
     else (True, refreshModes (s\<lparr>mm_channelTestActive := True\<rparr>)))"

definition mm_exitChannelTest :: "mode_manager \<Rightarrow> bool \<times> mode_manager" where
  "mm_exitChannelTest s = (if mm_mode s \<noteq> ModeChannelTest \<or> \<not> mm_channelTestActive s then (False, s)
     else (True, refreshModes (s\<lparr>mm_channelTestActive := False\<rparr>)))"

definition mm_enterPreview :: "mode_manager \<Rightarrow> bool \<times> mode_manager" where
  "mm_enterPreview s = (if mm_previewActive s \<or> \<not> canEnterOverride s ModePreview then (False, s)
     else (True, refreshModes (s\<lparr>mm_previewActive := True\<rparr>)))"

definition mm_exitPreview :: "mode_manager \<Rightarrow> bool \<times> mode_manager" where
  "mm_exitPreview s = (if mm_mode s \<noteq> ModePreview \<or> \<not> mm_previewActive s then (False, s)
     else (True, refreshModes (s\<lparr>mm_previewActive := False\<rparr>)))"

definition mm_enterSimulation :: "mode_manager \<Rightarrow> bool \<times> mode_manager" where
  "mm_enterSimulation s = (if mm_simulationActive s \<or> \<not> canEnterOverride s ModeSimulation then (False, s)
     else (True, refreshModes (s\<lparr>mm_simulationActive := True\<rparr>)))"

definition mm_exitSimulation :: "mode_manager \<Rightarrow> bool \<times> mode_manager" where
  "mm_exitSimulation s = (if mm_mode s \<noteq> ModeSimulation \<or> \<not> mm_simulationActive s then (False, s)
     else (True, refreshModes (s\<lparr>mm_simulationActive := False\<rparr>)))"

definition mm_enterOff :: "mode_manager \<Rightarrow> bool \<times> mode_manager" where
  "mm_enterOff s = (if mm_mode s = ModeOff then (False, s)
     else (True, s\<lparr>mm_manualActive := False, mm_channelTestActive := False, mm_previewActive := False,
       mm_simulationActive := False, mm_baseMode := ModeNormal, mm_mode := ModeOff, mm_returnMode := ModeNormal\<rparr>))"

definition mm_exitOff :: "mode_manager \<Rightarrow> bool \<times> mode_manager" where
  "mm_exitOff s = (if mm_mode s \<noteq> ModeOff then (False, s)
     else (True, refreshModes (s\<lparr>mm_mode := ModeNormal, mm_baseMode := ModeNormal\<rparr>)))"

lemmas mode_defs = mm_resetToNormal_def mm_enterService_def mm_exitService_def mm_enterManual_def mm_exitManual_def
  mm_enterChannelTest_def mm_exitChannelTest_def mm_enterPreview_def mm_exitPreview_def mm_enterSimulation_def
  mm_exitSimulation_def mm_enterOff_def mm_exitOff_def

section \<open>The stack of modes\<close>

definition activeModes :: "mode_manager \<Rightarrow> OperatingMode list" where
  "activeModes s = (if mm_mode s = ModeOff then [ModeOff, ModeNormal] else
     [m \<leftarrow> [ModeChannelTest, ModeManual, ModePreview, ModeSimulation].
        (m = ModeChannelTest \<and> mm_channelTestActive s) \<or> (m = ModeManual \<and> mm_manualActive s) \<or>
        (m = ModePreview \<and> mm_previewActive s) \<or> (m = ModeSimulation \<and> mm_simulationActive s)] @
     [mm_baseMode s, mm_baseMode s])"

definition modesOk :: "mode_manager \<Rightarrow> bool" where
  "modesOk s \<longleftrightarrow> mm_mode s = hd (activeModes s) \<and> mm_returnMode s = hd (tl (activeModes s)) \<and>
     mm_baseMode s \<in> {ModeNormal, ModeService} \<and>
     (mm_mode s = ModeOff \<longrightarrow> mm_baseMode s = ModeNormal \<and> \<not> mm_manualActive s \<and> \<not> mm_channelTestActive s \<and>
        \<not> mm_previewActive s \<and> \<not> mm_simulationActive s)"

lemma refreshModes_ok:
  assumes "mm_baseMode s \<in> {ModeNormal, ModeService}" and "mm_mode s \<noteq> ModeOff"
  shows "modesOk (refreshModes s)"
  using assms by (auto simp: modesOk_def refreshModes_def activeModes_def Let_def)

lemma refreshModes_fields [simp]:
  "mm_baseMode (refreshModes s) = mm_baseMode s" "mm_manualActive (refreshModes s) = mm_manualActive s"
  "mm_channelTestActive (refreshModes s) = mm_channelTestActive s"
  "mm_previewActive (refreshModes s) = mm_previewActive s"
  "mm_simulationActive (refreshModes s) = mm_simulationActive s"
  by (simp_all add: refreshModes_def Let_def)

datatype mode_op = EnterService | ExitService | EnterManual | ExitManual | EnterChannelTest | ExitChannelTest |
  EnterPreview | ExitPreview | EnterSimulation | ExitSimulation | EnterOff | ExitOff

fun mode_exec :: "mode_op \<Rightarrow> mode_manager \<Rightarrow> bool \<times> mode_manager" where
  "mode_exec EnterService s = mm_enterService s"
| "mode_exec ExitService s = mm_exitService s"
| "mode_exec EnterManual s = mm_enterManual s"
| "mode_exec ExitManual s = mm_exitManual s"
| "mode_exec EnterChannelTest s = mm_enterChannelTest s"
| "mode_exec ExitChannelTest s = mm_exitChannelTest s"
| "mode_exec EnterPreview s = mm_enterPreview s"
| "mode_exec ExitPreview s = mm_exitPreview s"
| "mode_exec EnterSimulation s = mm_enterSimulation s"
| "mode_exec ExitSimulation s = mm_exitSimulation s"
| "mode_exec EnterOff s = mm_enterOff s"
| "mode_exec ExitOff s = mm_exitOff s"

definition modesAfter :: "mode_op list \<Rightarrow> mode_manager" where
  "modesAfter calls = fold (\<lambda>call s. snd (mode_exec call s)) calls ModeManager_new"

lemma mode_exec_ok:
  assumes "modesOk s"
  shows "modesOk (snd (mode_exec call s))"
proof -
  have base: "mm_baseMode s \<in> {ModeNormal, ModeService}" using assms by (simp add: modesOk_def)
  show ?thesis
  proof (cases call)
    case EnterOff
    then show ?thesis using assms by (simp add: mm_enterOff_def modesOk_def activeModes_def)
  qed (use assms base in \<open>auto simp: mode_defs canEnterOverride_def intro!: refreshModes_ok\<close>)
qed

lemma modesAfter_ok: "modesOk (modesAfter calls)"
proof -
  have "modesOk s \<Longrightarrow> modesOk (fold (\<lambda>call s. snd (mode_exec call s)) calls s)" for s
    by (induction calls arbitrary: s) (simp_all add: mode_exec_ok)
  moreover have "modesOk ModeManager_new" by (simp add: modesOk_def ModeManager_new_def activeModes_def)
  ultimately show ?thesis by (simp add: modesAfter_def)
qed

text \<open>An accepted override is pushed on the stack, and leaving the mode in force pops it.\<close>

definition overrideOf :: "mode_op \<Rightarrow> OperatingMode option" where
  "overrideOf call = (case call of EnterManual \<Rightarrow> Some ModeManual | EnterChannelTest \<Rightarrow> Some ModeChannelTest
     | EnterPreview \<Rightarrow> Some ModePreview | EnterSimulation \<Rightarrow> Some ModeSimulation | _ \<Rightarrow> None)"

definition exitOf :: "mode_op \<Rightarrow> bool" where
  "exitOf call \<longleftrightarrow> call \<in> {ExitManual, ExitChannelTest, ExitPreview, ExitSimulation}"

text \<open>The two derived fields, by the flags.\<close>

definition topMode :: "bool \<Rightarrow> bool \<Rightarrow> bool \<Rightarrow> bool \<Rightarrow> OperatingMode \<Rightarrow> OperatingMode" where
  "topMode ct ma pv sm base = (if ct then ModeChannelTest else if ma then ModeManual else if pv then ModePreview
     else if sm then ModeSimulation else base)"

definition belowMode :: "bool \<Rightarrow> bool \<Rightarrow> bool \<Rightarrow> bool \<Rightarrow> OperatingMode \<Rightarrow> OperatingMode" where
  "belowMode ct ma pv sm base = (if ct then topMode False ma pv sm base else if ma then topMode False False pv sm base
     else if pv then topMode False False False sm base else base)"

lemma refresh_mode:
  "mm_mode s \<noteq> ModeOff \<Longrightarrow> mm_mode (refreshModes s) =
     topMode (mm_channelTestActive s) (mm_manualActive s) (mm_previewActive s) (mm_simulationActive s) (mm_baseMode s)"
  by (simp add: refreshModes_def topMode_def Let_def)

lemma refresh_return:
  "mm_mode s \<noteq> ModeOff \<Longrightarrow> mm_baseMode s \<in> {ModeNormal, ModeService} \<Longrightarrow> mm_returnMode (refreshModes s) =
     belowMode (mm_channelTestActive s) (mm_manualActive s) (mm_previewActive s) (mm_simulationActive s) (mm_baseMode s)"
  by (auto simp: refreshModes_def topMode_def belowMode_def Let_def)

lemma modesOk_fields:
  assumes "modesOk s" and "mm_mode s \<noteq> ModeOff"
  shows "mm_mode s = topMode (mm_channelTestActive s) (mm_manualActive s) (mm_previewActive s) (mm_simulationActive s) (mm_baseMode s)"
    and "mm_returnMode s = belowMode (mm_channelTestActive s) (mm_manualActive s) (mm_previewActive s) (mm_simulationActive s) (mm_baseMode s)"
    and "mm_baseMode s \<in> {ModeNormal, ModeService}"
  using assms by (auto simp: modesOk_def activeModes_def topMode_def belowMode_def)

lemma topMode_priority:
  assumes "base \<in> {ModeNormal, ModeService}"
  shows "priorityOf (topMode ct ma pv sm base) < 6 \<longleftrightarrow> \<not> ct"
    "priorityOf (topMode ct ma pv sm base) < 5 \<longleftrightarrow> \<not> ct \<and> \<not> ma"
    "priorityOf (topMode ct ma pv sm base) < 4 \<longleftrightarrow> \<not> ct \<and> \<not> ma \<and> \<not> pv"
    "priorityOf (topMode ct ma pv sm base) < 3 \<longleftrightarrow> \<not> ct \<and> \<not> ma \<and> \<not> pv \<and> \<not> sm"
    "topMode ct ma pv sm base = ModeChannelTest \<longleftrightarrow> ct"
    "topMode ct ma pv sm base = ModeManual \<longleftrightarrow> \<not> ct \<and> ma"
    "topMode ct ma pv sm base = ModePreview \<longleftrightarrow> \<not> ct \<and> \<not> ma \<and> pv"
    "topMode ct ma pv sm base = ModeSimulation \<longleftrightarrow> \<not> ct \<and> \<not> ma \<and> \<not> pv \<and> sm"
  using assms by (auto simp: topMode_def)

lemma topMode_True [simp]:
  "topMode True ma pv sm base = ModeChannelTest" "topMode False True pv sm base = ModeManual"
  "topMode False False True sm base = ModePreview" "topMode False False False True base = ModeSimulation"
  "topMode False False False False base = base"
  "belowMode True ma pv sm base = topMode False ma pv sm base"
  "belowMode False True pv sm base = topMode False False pv sm base"
  "belowMode False False True sm base = topMode False False False sm base"
  "belowMode False False False sm base = base"
  by (simp_all add: topMode_def belowMode_def)

lemma enter_pushes:
  assumes ok: "modesOk s" and call: "overrideOf call = Some m" and r: "mode_exec call s = (True, t)"
  shows "mm_mode t = m \<and> mm_returnMode t = mm_mode s \<and> priorityOf (mm_mode s) < priorityOf m"
proof -
  have on: "mm_mode s \<noteq> ModeOff"
    using call r by (auto simp: overrideOf_def mode_defs canEnterOverride_def split: mode_op.splits if_splits)
  note f = modesOk_fields [OF ok on] and p = topMode_priority [OF modesOk_fields(3) [OF ok on]]
  have canEnter: "canEnterOverride s m \<longleftrightarrow> priorityOf (mm_mode s) < priorityOf m" for m
    using on by (simp add: canEnterOverride_def)
  show ?thesis
  proof (cases call)
    case EnterManual
    then show ?thesis using call r on f(3)
      by (auto simp: overrideOf_def mm_enterManual_def canEnter f(1) p refresh_mode refresh_return split: if_splits)
  next
    case EnterChannelTest
    then show ?thesis using call r on f(3)
      by (auto simp: overrideOf_def mm_enterChannelTest_def canEnter f(1) p refresh_mode refresh_return split: if_splits)
  next
    case EnterPreview
    then show ?thesis using call r on f(3)
      by (auto simp: overrideOf_def mm_enterPreview_def canEnter f(1) p refresh_mode refresh_return split: if_splits)
  next
    case EnterSimulation
    then show ?thesis using call r on f(3)
      by (auto simp: overrideOf_def mm_enterSimulation_def canEnter f(1) p refresh_mode refresh_return split: if_splits)
  qed (use call in \<open>simp_all add: overrideOf_def\<close>)
qed

lemma topMode_lower:
  assumes "base \<in> {ModeNormal, ModeService}"
  shows "priorityOf (topMode False ma pv sm base) < priorityOf ModeChannelTest"
    "priorityOf (topMode False False pv sm base) < priorityOf ModeManual"
    "priorityOf (topMode False False False sm base) < priorityOf ModePreview"
    "priorityOf base < priorityOf ModeSimulation"
  using assms by (auto simp: topMode_def)

lemma exit_pops:
  assumes ok: "modesOk s" and call: "exitOf call" and r: "mode_exec call s = (True, t)"
  shows "mm_mode t = mm_returnMode s \<and> priorityOf (mm_mode t) < priorityOf (mm_mode s)"
proof -
  have on: "mm_mode s \<noteq> ModeOff" using call r by (auto simp: exitOf_def mode_defs split: if_splits)
  note f = modesOk_fields [OF ok on] and b = modesOk_fields(3) [OF ok on]
  note p = topMode_priority(5-8) [OF b] and l = topMode_lower [OF b]
  from call consider "call = ExitManual" | "call = ExitChannelTest" | "call = ExitPreview" | "call = ExitSimulation"
    by (auto simp: exitOf_def)
  then show ?thesis
  proof cases
    case 1
    then show ?thesis using r on f l by (auto simp: mm_exitManual_def p refresh_mode split: if_splits)
  next
    case 2
    then show ?thesis using r on f l by (auto simp: mm_exitChannelTest_def p refresh_mode split: if_splits)
  next
    case 3
    then show ?thesis using r on f l by (auto simp: mm_exitPreview_def p refresh_mode split: if_splits)
  next
    case 4
    then show ?thesis using r on f l by (auto simp: mm_exitSimulation_def p refresh_mode split: if_splits)
  qed
qed

end
