(* ===== verification/LumaCore.thy ===== *)
theory LumaCore
  imports LumaEngines LumaModes
begin

text \<open>
  \<open>LumaCore\<close> (\<open>aquaOneLuma/src/core/LumaCore.cpp\<close>): the modes, their timeouts, the levels each mode
  requests, the transitions between them and the levels sent to the channels. The configuration the
  object points to belongs to the application and is an argument of the operations that read it;
  \<open>co_configured\<close> says whether the pointer is set. The long \<open>update\<close> is cut into its numbered sections,
  in their order.
\<close>

section \<open>Fingerprints and time jumps\<close>

text \<open>The memory image of a \<open>float\<close> (the two zeros are one value in the model).\<close>

definition float_bits :: "f32 \<Rightarrow> u32" where
  "float_bits x = (case x of
     FNaN \<Rightarrow> 0x7FC00000
   | FInf s \<Rightarrow> if s then 0xFF800000 else 0x7F800000
   | Fin q \<Rightarrow> let s = \<bar>q\<bar> * 2 ^ 149; k = scaleBits 253 s
       in (if q < 0 then 0x80000000 else 0) + of_nat k * 0x800000 + of_int \<lfloor>s / 2 ^ k\<rfloor>)"

definition addFingerprintByte :: "u32 \<Rightarrow> u8 \<Rightarrow> u32" where
  "addFingerprintByte fingerprint value = (fingerprint XOR ucast value) * 16777619"

definition addFingerprintUint16 :: "u32 \<Rightarrow> u16 \<Rightarrow> u32" where
  "addFingerprintUint16 fingerprint value =
     addFingerprintByte (addFingerprintByte fingerprint (ucast value)) (ucast (drop_bit 8 value))"

definition addFingerprintFloat :: "u32 \<Rightarrow> f32 \<Rightarrow> u32" where
  "addFingerprintFloat fingerprint value =
     fold (\<lambda>byte fp. addFingerprintByte fp (ucast (drop_bit (byte * 8) (float_bits value)))) [0..<4] fingerprint"

definition profileOutputFingerprint :: "Profile \<Rightarrow> u32" where
  "profileOutputFingerprint profile =
    (let fp = 2166136261;
         fp = addFingerprintUint16 fp (prf_dayStartMinute profile);
         fp = addFingerprintUint16 fp (prf_dayEndMinute profile);
         fp = addFingerprintByte fp (if prf_nightEnabled profile then 1 else 0);
         fp = fold (\<lambda>stage fp. fold (\<lambda>channel fp.
                addFingerprintFloat fp (stg_levels (prf_stages profile ! stage) ! channel)) [0..<CHANNEL_COUNT] fp)
              [0..<DAY_STAGE_COUNT] fp
     in fold (\<lambda>channel fp. addFingerprintFloat fp (prf_nightLevels profile ! channel)) [0..<CHANNEL_COUNT] fp)"

definition SECONDS_PER_DAY :: u32 where "SECONDS_PER_DAY = 24 * 60 * 60"

definition TIME_JUMP_TOLERANCE_SECONDS :: int where "TIME_JUMP_TOLERANCE_SECONDS = 3"

definition isSignificantTimeJump :: "u32 \<Rightarrow> u32 \<Rightarrow> u32 \<Rightarrow> u32 \<Rightarrow> bool" where
  "isSignificantTimeJump previousSecond currentSecond previousMs currentMs =
    (let elapsedMs = currentMs - previousMs;
         expected = elapsedMs div 1000;
         expected = (if elapsedMs mod 1000 \<ge> 500 then expected + 1 else expected);
         expected = expected mod SECONDS_PER_DAY;
         actual = (currentSecond + SECONDS_PER_DAY - previousSecond) mod SECONDS_PER_DAY;
         difference = uint actual - uint expected;
         halfDay = uint (SECONDS_PER_DAY div 2);
         difference = (if difference > halfDay then difference - uint SECONDS_PER_DAY
                       else if difference < - halfDay then difference + uint SECONDS_PER_DAY else difference)
     in difference > TIME_JUMP_TOLERANCE_SECONDS \<or> difference < - TIME_JUMP_TOLERANCE_SECONDS)"

text \<open>\<open>!=\<close> on floats: a NaN differs from everything, itself included.\<close>

definition channelLevelsDiffer :: "ChannelLevels \<Rightarrow> ChannelLevels \<Rightarrow> bool" where
  "channelLevelsDiffer first second = list_ex (\<lambda>channel. fneq (first ! channel) (second ! channel)) [0..<CHANNEL_COUNT]"

section \<open>State\<close>

record luma_core =
  co_configured :: bool
  co_state :: RuntimeState
  co_modes :: mode_manager
  co_transition :: transition_engine
  co_manualLevels :: ChannelLevels
  co_lastManualLevels :: ChannelLevels
  co_manualStartedMs :: u32
  co_manualTimeoutMs :: u32
  co_manualTimerActive :: bool
  co_channelTestLevels :: ChannelLevels
  co_lastChannelTestLevels :: ChannelLevels
  co_channelTestChannel :: u8
  co_channelTestStartedMs :: u32
  co_channelTestTimerActive :: bool
  co_previewProfileIndex :: u8
  co_previewStageIndex :: u8
  co_lastPreviewProfileIndex :: u8
  co_lastPreviewStageIndex :: u8
  co_simulationStartedMs :: u32
  co_simulationDurationMs :: u32
  co_simulationActive :: bool
  co_simulationEntryActive :: bool
  co_simulationCompletionPending :: bool
  co_initialized :: bool
  co_lastRealSecondOfDay :: u32
  co_lastTimeObservationMs :: u32
  co_timeObservationValid :: bool
  co_profileFingerprints :: "u32 list"
  co_profileFingerprintInitialized :: "bool list"
  co_lastProfileIndex :: u8
  co_lastDayState :: DayState
  co_lastMode :: OperatingMode

definition LumaCore_new :: luma_core where
  "LumaCore_new = \<lparr>co_configured = False, co_state = RuntimeState_default, co_modes = ModeManager_new,
     co_transition = TransitionEngine_new, co_manualLevels = zeroLevels, co_lastManualLevels = zeroLevels,
     co_manualStartedMs = 0, co_manualTimeoutMs = 0, co_manualTimerActive = False,
     co_channelTestLevels = zeroLevels, co_lastChannelTestLevels = zeroLevels, co_channelTestChannel = 0,
     co_channelTestStartedMs = 0, co_channelTestTimerActive = False, co_previewProfileIndex = 0,
     co_previewStageIndex = 0, co_lastPreviewProfileIndex = 0, co_lastPreviewStageIndex = 0,
     co_simulationStartedMs = 0, co_simulationDurationMs = 0, co_simulationActive = False,
     co_simulationEntryActive = False, co_simulationCompletionPending = False, co_initialized = False,
     co_lastRealSecondOfDay = 0, co_lastTimeObservationMs = 0, co_timeObservationValid = False,
     co_profileFingerprints = replicate PROFILE_COUNT 0,
     co_profileFingerprintInitialized = replicate PROFILE_COUNT False, co_lastProfileIndex = 0,
     co_lastDayState = Day, co_lastMode = ModeNormal\<rparr>"

type_synonym core_step = "luma_core \<Rightarrow> luma_core"

definition core_begin :: "DeviceConfig \<Rightarrow> luma_core \<Rightarrow> bool \<times> luma_core" where
  "core_begin config s =
    (let s = s\<lparr>co_modes := mm_resetToNormal (co_modes s)\<rparr>;
         configValid = validateDeviceConfig config;
         s = s\<lparr>co_configured := configValid,
           co_state := RuntimeState_default\<lparr>ru_mode := mm_mode (co_modes s),
             ru_returnMode := mm_returnMode (co_modes s), ru_timeValid := False,
             ru_requestedLevels := zeroLevels, ru_actualLevels := zeroLevels, ru_transitionActive := False\<rparr>,
           co_manualLevels := zeroLevels, co_lastManualLevels := zeroLevels, co_manualStartedMs := 0,
           co_manualTimeoutMs := 0, co_manualTimerActive := False, co_channelTestLevels := zeroLevels,
           co_lastChannelTestLevels := zeroLevels, co_channelTestChannel := 0, co_channelTestStartedMs := 0,
           co_channelTestTimerActive := False, co_previewProfileIndex := 0, co_previewStageIndex := 0,
           co_lastPreviewProfileIndex := 0, co_lastPreviewStageIndex := 0, co_simulationStartedMs := 0,
           co_simulationDurationMs := 0, co_simulationActive := False, co_simulationEntryActive := False,
           co_simulationCompletionPending := False, co_transition := tr_cancel (co_transition s),
           co_initialized := False, co_lastRealSecondOfDay := 0, co_lastTimeObservationMs := 0,
           co_timeObservationValid := False,
           co_profileFingerprints := map (\<lambda>profile. profileOutputFingerprint (dc_profiles config ! profile)) [0..<PROFILE_COUNT],
           co_profileFingerprintInitialized := replicate PROFILE_COUNT configValid,
           co_lastProfileIndex := 0, co_lastDayState := Day, co_lastMode := mm_mode (co_modes s)\<rparr>
     in (configValid, s))"

definition core_syncModeState :: core_step where
  "core_syncModeState s =
    (let s = s\<lparr>co_state := (co_state s)\<lparr>ru_mode := mm_mode (co_modes s), ru_returnMode := mm_returnMode (co_modes s)\<rparr>\<rparr>
     in if ru_mode (co_state s) \<noteq> ModeNormal \<and> ru_mode (co_state s) \<noteq> ModeService
        then s\<lparr>co_timeObservationValid := False\<rparr> else s)"

section \<open>Commands\<close>

definition core_enterService :: core_step where
  "core_enterService s = (let (ok, m) = mm_enterService (co_modes s); s = s\<lparr>co_modes := m\<rparr>
     in if ok then core_syncModeState s else s)"

definition core_exitService :: core_step where
  "core_exitService s = (let (ok, m) = mm_exitService (co_modes s); s = s\<lparr>co_modes := m\<rparr>
     in if ok then core_syncModeState s else s)"

definition core_enterManual :: "ChannelLevels \<Rightarrow> u16 \<Rightarrow> u32 \<Rightarrow> core_step" where
  "core_enterManual levels timeoutMinutes nowMs s =
    (let timeoutMinutes = (if timeoutMinutes \<noteq> 15 \<and> timeoutMinutes \<noteq> 30 \<and> timeoutMinutes \<noteq> 60 then 0 else timeoutMinutes);
         (ok, m) = mm_enterManual (co_modes s); s = s\<lparr>co_modes := m\<rparr>
     in if \<not> ok then s
        else let s = s\<lparr>co_manualLevels := levels, co_lastManualLevels := levels, co_manualStartedMs := nowMs\<rparr>;
                 s = (if timeoutMinutes = 0 then s\<lparr>co_manualTimeoutMs := 0, co_manualTimerActive := False\<rparr>
                      else s\<lparr>co_manualTimeoutMs := ucast timeoutMinutes * 60 * 1000, co_manualTimerActive := True\<rparr>)
             in core_syncModeState s)"

definition core_setManualLevels :: "ChannelLevels \<Rightarrow> core_step" where
  "core_setManualLevels levels s = s\<lparr>co_manualLevels := levels\<rparr>"

definition core_exitManual :: core_step where
  "core_exitManual s =
    (let (ok, m) = mm_exitManual (co_modes s); s = s\<lparr>co_modes := m\<rparr>
     in if \<not> ok then s
        else core_syncModeState (s\<lparr>co_manualTimerActive := False, co_manualTimeoutMs := 0\<rparr>))"

text \<open>The two comparisons that bound a percentage; a NaN passes them.\<close>

definition boundPercent :: "f32 \<Rightarrow> f32" where
  "boundPercent percent =
    (let percent = (if flt percent (Fin 0) then Fin 0 else percent)
     in if flt (Fin 100) percent then Fin 100 else percent)"

definition core_enterChannelTest :: "u8 \<Rightarrow> f32 \<Rightarrow> core_step" where
  "core_enterChannelTest channel percent s =
    (if unat channel \<ge> CHANNEL_COUNT then s
     else let percent = boundPercent percent;
              (ok, m) = mm_enterChannelTest (co_modes s); s = s\<lparr>co_modes := m\<rparr>
     in if \<not> ok then s
        else let s = s\<lparr>co_channelTestChannel := channel\<rparr>;
                 s = s\<lparr>co_channelTestLevels := zeroLevels[unat (co_channelTestChannel s) := percent]\<rparr>;
                 s = s\<lparr>co_lastChannelTestLevels := co_channelTestLevels s, co_channelTestTimerActive := False\<rparr>
             in core_syncModeState s)"

definition core_setChannelTestLevel :: "f32 \<Rightarrow> core_step" where
  "core_setChannelTestLevel percent s =
    (if mm_mode (co_modes s) \<noteq> ModeChannelTest then s
     else s\<lparr>co_channelTestLevels := zeroLevels[unat (co_channelTestChannel s) := boundPercent percent]\<rparr>)"

definition core_exitChannelTest :: core_step where
  "core_exitChannelTest s =
    (let (ok, m) = mm_exitChannelTest (co_modes s); s = s\<lparr>co_modes := m\<rparr>
     in if \<not> ok then s else core_syncModeState (s\<lparr>co_channelTestTimerActive := False\<rparr>))"

definition core_enterPreview :: "u8 \<Rightarrow> u8 \<Rightarrow> core_step" where
  "core_enterPreview profileIndex stageIndex s =
    (if unat profileIndex \<ge> PROFILE_COUNT \<or> unat stageIndex \<ge> DAY_STAGE_COUNT then s
     else let (ok, m) = mm_enterPreview (co_modes s); s = s\<lparr>co_modes := m\<rparr>
     in if \<not> ok then s
        else core_syncModeState (s\<lparr>co_previewProfileIndex := profileIndex, co_previewStageIndex := stageIndex,
               co_lastPreviewProfileIndex := profileIndex, co_lastPreviewStageIndex := stageIndex\<rparr>))"

definition core_setPreviewProfile :: "u8 \<Rightarrow> core_step" where
  "core_setPreviewProfile profileIndex s =
    (if mm_mode (co_modes s) \<noteq> ModePreview \<or> unat profileIndex \<ge> PROFILE_COUNT then s
     else s\<lparr>co_previewProfileIndex := profileIndex\<rparr>)"

definition core_setPreviewStage :: "u8 \<Rightarrow> core_step" where
  "core_setPreviewStage stageIndex s =
    (if mm_mode (co_modes s) \<noteq> ModePreview then s
     else if unat stageIndex \<ge> DAY_STAGE_COUNT then s
     else s\<lparr>co_previewStageIndex := stageIndex\<rparr>)"

definition core_exitPreview :: core_step where
  "core_exitPreview s = (let (ok, m) = mm_exitPreview (co_modes s); s = s\<lparr>co_modes := m\<rparr>
     in if ok then core_syncModeState s else s)"

definition core_enterSimulation :: "u8 \<Rightarrow> core_step" where
  "core_enterSimulation durationMinutes s =
    (let durationMinutes = (if durationMinutes < 1 then 1 else durationMinutes);
         durationMinutes = (if durationMinutes > 15 then 15 else durationMinutes);
         (ok, m) = mm_enterSimulation (co_modes s); s = s\<lparr>co_modes := m\<rparr>
     in if \<not> ok then s
        else core_syncModeState (s\<lparr>co_simulationStartedMs := 0,
               co_simulationDurationMs := ucast durationMinutes * 60 * 1000, co_simulationActive := False,
               co_simulationEntryActive := True, co_simulationCompletionPending := False\<rparr>))"

definition core_exitSimulation :: core_step where
  "core_exitSimulation s =
    (let (ok, m) = mm_exitSimulation (co_modes s); s = s\<lparr>co_modes := m\<rparr>
     in if \<not> ok then s
        else core_syncModeState (s\<lparr>co_simulationActive := False, co_simulationEntryActive := False,
               co_simulationCompletionPending := False\<rparr>))"

definition core_enterOff :: core_step where
  "core_enterOff s =
    (let (ok, m) = mm_enterOff (co_modes s); s = s\<lparr>co_modes := m\<rparr>
     in if \<not> ok then s
        else core_syncModeState (s\<lparr>co_manualTimerActive := False, co_manualTimeoutMs := 0,
               co_channelTestTimerActive := False, co_simulationActive := False,
               co_simulationEntryActive := False, co_simulationCompletionPending := False\<rparr>))"

definition core_exitOff :: core_step where
  "core_exitOff s =
    (let (ok, m) = mm_exitOff (co_modes s); s = s\<lparr>co_modes := m\<rparr>
     in if \<not> ok then s else core_syncModeState (s\<lparr>co_initialized := False\<rparr>))"

section \<open>Update: fingerprints and timeouts\<close>

definition core_observeProfiles :: "DeviceConfig \<Rightarrow> luma_core \<Rightarrow> bool list \<times> luma_core" where
  "core_observeProfiles config s =
    (let fingerprints = map (\<lambda>profile. profileOutputFingerprint (dc_profiles config ! profile)) [0..<PROFILE_COUNT];
         changed = map (\<lambda>profile. co_profileFingerprintInitialized s ! profile \<and>
           fingerprints ! profile \<noteq> co_profileFingerprints s ! profile) [0..<PROFILE_COUNT]
     in (changed, s\<lparr>co_profileFingerprints := fingerprints,
           co_profileFingerprintInitialized := replicate PROFILE_COUNT True\<rparr>))"

definition core_channelTestTimeout :: "u32 \<Rightarrow> core_step" where
  "core_channelTestTimeout nowMs s =
    (if ru_mode (co_state s) = ModeChannelTest
     then if \<not> co_channelTestTimerActive s
          then s\<lparr>co_channelTestStartedMs := nowMs, co_channelTestTimerActive := True\<rparr>
          else if nowMs - co_channelTestStartedMs s \<ge> CHANNEL_TEST_TIMEOUT_MS
          then let (ok, m) = mm_exitChannelTest (co_modes s); s = s\<lparr>co_modes := m\<rparr>
               in if ok then core_syncModeState (s\<lparr>co_channelTestTimerActive := False\<rparr>) else s
          else s
     else s\<lparr>co_channelTestTimerActive := False\<rparr>)"

definition core_manualTimeout :: "u32 \<Rightarrow> core_step" where
  "core_manualTimeout nowMs s =
    (if ru_mode (co_state s) = ModeManual \<and> co_manualTimerActive s \<and> co_manualTimeoutMs s > 0 \<and>
        nowMs - co_manualStartedMs s \<ge> co_manualTimeoutMs s
     then let (ok, m) = mm_exitManual (co_modes s); s = s\<lparr>co_modes := m\<rparr>
          in if ok then core_syncModeState (s\<lparr>co_manualTimerActive := False, co_manualTimeoutMs := 0\<rparr>) else s
     else s)"

definition core_simulationCompletion :: core_step where
  "core_simulationCompletion s =
    (if ru_mode (co_state s) = ModeSimulation \<and> co_simulationCompletionPending s
     then let (ok, m) = mm_exitSimulation (co_modes s); s = s\<lparr>co_modes := m\<rparr>
          in if ok then core_syncModeState (s\<lparr>co_simulationActive := False, co_simulationEntryActive := False,
                          co_simulationCompletionPending := False\<rparr>) else s
     else s)"

text \<open>All channels dark: the early return of off and of an invalid time.\<close>

definition core_dark :: "OperatingMode \<Rightarrow> core_step" where
  "core_dark lastMode s = s\<lparr>co_transition := tr_cancel (co_transition s),
     co_state := (co_state s)\<lparr>ru_requestedLevels := zeroLevels, ru_actualLevels := zeroLevels,
       ru_transitionActive := False\<rparr>,
     co_initialized := False, co_timeObservationValid := False, co_lastMode := lastMode\<rparr>"

section \<open>Update: requested levels\<close>

definition realSecond :: "LocalTime \<Rightarrow> u32" where
  "realSecond localTime = ucast (lt_hour localTime) * 3600 + ucast (lt_minute localTime) * 60 + ucast (lt_second localTime)"

definition scheduleMode :: "luma_core \<Rightarrow> bool" where
  "scheduleMode s \<longleftrightarrow> ru_mode (co_state s) = ModeNormal \<or> ru_mode (co_state s) = ModeService"

definition core_observeTime :: "u32 \<Rightarrow> u32 \<Rightarrow> luma_core \<Rightarrow> bool \<times> luma_core" where
  "core_observeTime second nowMs s =
    (if scheduleMode s
     then (co_timeObservationValid s \<and>
             isSignificantTimeJump (co_lastRealSecondOfDay s) second (co_lastTimeObservationMs s) nowMs,
           s\<lparr>co_lastRealSecondOfDay := second, co_lastTimeObservationMs := nowMs, co_timeObservationValid := True\<rparr>)
     else (False, s\<lparr>co_timeObservationValid := False\<rparr>))"

definition core_profileIndex :: "DeviceConfig \<Rightarrow> luma_core \<Rightarrow> u8" where
  "core_profileIndex config s =
    (let index = (if ru_mode (co_state s) = ModeService then dc_serviceProfileIndex config
                  else dc_activeProfileIndex config)
     in if unat index \<ge> PROFILE_COUNT then 0 else index)"

definition core_takeCalculation :: "DayCalculation \<Rightarrow> core_step" where
  "core_takeCalculation calculation s = s\<lparr>co_state := (co_state s)
     \<lparr>ru_dayState := dy_dayState calculation, ru_currentStageIndex := dy_currentStageIndex calculation,
      ru_nextStageIndex := dy_nextStageIndex calculation, ru_requestedLevels := dy_levels calculation\<rparr>\<rparr>"

text \<open>The simulated second of the day, or \<open>None\<close> for the final frame.\<close>

definition simulatedSecond :: "Profile \<Rightarrow> u32 \<Rightarrow> luma_core \<Rightarrow> u32 option" where
  "simulatedSecond profile nowMs s =
    (let startSecond = ucast (prf_dayStartMinute profile) * 60
     in if co_simulationActive s \<and> co_simulationDurationMs s > 0
        then let elapsedMs = nowMs - co_simulationStartedMs s;
                 progress = fdiv (float_of_u32 elapsedMs) (float_of_u32 (co_simulationDurationMs s));
                 progress = (if flt progress (Fin 0) then Fin 0 else progress)
             in if fle (Fin 1) progress then None
                else let endSecond = ucast (prf_dayEndMinute profile) * 60;
                         photoperiodSeconds = (if endSecond > startSecond then endSecond - startSecond else 0);
                         offsetSeconds = u32_of_float (fmul progress (float_of_u32 photoperiodSeconds));
                         offsetSeconds = (if photoperiodSeconds > 0 \<and> offsetSeconds \<ge> photoperiodSeconds
                           then photoperiodSeconds - 1 else offsetSeconds)
                     in Some (startSecond + offsetSeconds)
        else Some startSecond)"

definition core_simulate :: "Profile \<Rightarrow> u32 \<Rightarrow> core_step" where
  "core_simulate profile nowMs s = (case simulatedSecond profile nowMs s of
     None \<Rightarrow> s\<lparr>co_state := (co_state s)\<lparr>ru_dayState := Day,
         ru_currentStageIndex := of_nat (DAY_STAGE_COUNT - 1), ru_nextStageIndex := of_nat (DAY_STAGE_COUNT - 1),
         ru_requestedLevels := stg_levels (prf_stages profile ! (DAY_STAGE_COUNT - 1))\<rparr>\<rparr>
   | Some second \<Rightarrow> core_takeCalculation (day_calculateSeconds profile second) s)"

definition core_request :: "DeviceConfig \<Rightarrow> u8 \<Rightarrow> u32 \<Rightarrow> u32 \<Rightarrow> core_step" where
  "core_request config profileIndex second nowMs s =
    (let profile = dc_profiles config ! unat profileIndex
     in case ru_mode (co_state s) of
          ModeSimulation \<Rightarrow> core_simulate profile nowMs s
        | ModePreview \<Rightarrow> s\<lparr>co_state := (co_state s)\<lparr>ru_requestedLevels :=
              stg_levels (prf_stages (dc_profiles config ! unat (co_previewProfileIndex s)) ! unat (co_previewStageIndex s))\<rparr>\<rparr>
        | ModeChannelTest \<Rightarrow> s\<lparr>co_state := (co_state s)\<lparr>ru_requestedLevels := co_channelTestLevels s\<rparr>\<rparr>
        | ModeManual \<Rightarrow> s\<lparr>co_state := (co_state s)\<lparr>ru_requestedLevels := co_manualLevels s\<rparr>\<rparr>
        | _ \<Rightarrow> core_takeCalculation (day_calculateSeconds profile second) s)"

section \<open>Update: transitions\<close>

text \<open>A new transition from where the output is now: inside a running one, or at the previous request.\<close>

definition core_startFrom :: "ChannelLevels \<Rightarrow> ChannelLevels \<Rightarrow> u32 \<Rightarrow> u32 \<Rightarrow> core_step" where
  "core_startFrom previousRequested target durationMs nowMs s =
    (let (source, tr) = (if tr_active (co_transition s) then tr_update nowMs (co_transition s)
                         else (previousRequested, co_transition s))
     in s\<lparr>co_transition := tr_start source target durationMs nowMs tr\<rparr>)"

definition core_firstStart :: "u8 \<Rightarrow> u32 \<Rightarrow> core_step" where
  "core_firstStart profileIndex nowMs s =
    (let s = s\<lparr>co_transition := tr_start zeroLevels (ru_requestedLevels (co_state s)) STANDARD_TRANSITION_MS nowMs (co_transition s)\<rparr>;
         s = s\<lparr>co_initialized := True, co_lastProfileIndex := profileIndex,
               co_lastDayState := ru_dayState (co_state s), co_lastMode := ru_mode (co_state s)\<rparr>;
         s = (if ru_mode (co_state s) = ModeManual then s\<lparr>co_lastManualLevels := co_manualLevels s\<rparr> else s);
         s = (if ru_mode (co_state s) = ModeChannelTest then s\<lparr>co_lastChannelTestLevels := co_channelTestLevels s\<rparr> else s)
     in if ru_mode (co_state s) = ModePreview
        then s\<lparr>co_lastPreviewProfileIndex := co_previewProfileIndex s, co_lastPreviewStageIndex := co_previewStageIndex s\<rparr>
        else s)"

definition core_remember :: "u8 \<Rightarrow> core_step" where
  "core_remember profileIndex s = s\<lparr>co_lastProfileIndex := profileIndex,
     co_lastDayState := ru_dayState (co_state s), co_lastMode := ru_mode (co_state s)\<rparr>"

definition core_rememberMode :: core_step where
  "core_rememberMode s = s\<lparr>co_lastMode := ru_mode (co_state s)\<rparr>"

definition modeChange :: "OperatingMode \<Rightarrow> luma_core \<Rightarrow> bool" where
  "modeChange m s \<longleftrightarrow> ru_mode (co_state s) \<noteq> co_lastMode s \<and> (ru_mode (co_state s) = m \<or> co_lastMode s = m)"

text \<open>The branches of the chain of cases, each with its transition and what it remembers.\<close>

definition core_simulationChange :: "u8 \<Rightarrow> ChannelLevels \<Rightarrow> u32 \<Rightarrow> core_step" where
  "core_simulationChange profileIndex previous nowMs s =
     core_remember profileIndex (core_startFrom previous (ru_requestedLevels (co_state s)) SIMULATION_ENTRY_MS nowMs s)"

definition core_previewChange :: "u8 \<Rightarrow> ChannelLevels \<Rightarrow> u32 \<Rightarrow> core_step" where
  "core_previewChange profileIndex previous nowMs s =
    (let s = core_remember profileIndex (core_startFrom previous (ru_requestedLevels (co_state s)) PREVIEW_SMOOTH_MS nowMs s)
     in if ru_mode (co_state s) = ModePreview
        then s\<lparr>co_lastPreviewProfileIndex := co_previewProfileIndex s, co_lastPreviewStageIndex := co_previewStageIndex s\<rparr>
        else s)"

definition core_previewSelection :: "bool list \<Rightarrow> ChannelLevels \<Rightarrow> u32 \<Rightarrow> core_step" where
  "core_previewSelection changed previous nowMs s = core_rememberMode
     (if co_previewProfileIndex s \<noteq> co_lastPreviewProfileIndex s \<or> co_previewStageIndex s \<noteq> co_lastPreviewStageIndex s \<or>
         (changed ! unat (co_previewProfileIndex s) \<and> channelLevelsDiffer (ru_requestedLevels (co_state s)) previous)
      then (core_startFrom previous (ru_requestedLevels (co_state s)) PREVIEW_SMOOTH_MS nowMs s)
        \<lparr>co_lastPreviewProfileIndex := co_previewProfileIndex s, co_lastPreviewStageIndex := co_previewStageIndex s\<rparr>
      else s)"

definition core_channelTestChange :: "u8 \<Rightarrow> ChannelLevels \<Rightarrow> u32 \<Rightarrow> core_step" where
  "core_channelTestChange profileIndex previous nowMs s =
    (let s = core_remember profileIndex (core_startFrom previous (ru_requestedLevels (co_state s)) PREVIEW_SMOOTH_MS nowMs s)
     in if ru_mode (co_state s) = ModeChannelTest then s\<lparr>co_lastChannelTestLevels := co_channelTestLevels s\<rparr> else s)"

definition core_channelTestValue :: "ChannelLevels \<Rightarrow> u32 \<Rightarrow> core_step" where
  "core_channelTestValue previous nowMs s = core_rememberMode
     (if channelLevelsDiffer (co_channelTestLevels s) (co_lastChannelTestLevels s)
      then (core_startFrom previous (co_channelTestLevels s) PREVIEW_SMOOTH_MS nowMs s)
        \<lparr>co_lastChannelTestLevels := co_channelTestLevels s\<rparr>
      else s)"

definition core_manualChange :: "u8 \<Rightarrow> ChannelLevels \<Rightarrow> u32 \<Rightarrow> core_step" where
  "core_manualChange profileIndex previous nowMs s =
    (let s = core_remember profileIndex (core_startFrom previous (ru_requestedLevels (co_state s)) STANDARD_TRANSITION_MS nowMs s)
     in if ru_mode (co_state s) = ModeManual then s\<lparr>co_lastManualLevels := co_manualLevels s\<rparr> else s)"

definition core_manualValue :: "ChannelLevels \<Rightarrow> u32 \<Rightarrow> core_step" where
  "core_manualValue previous nowMs s = core_rememberMode
     (if channelLevelsDiffer (co_manualLevels s) (co_lastManualLevels s)
      then (core_startFrom previous (co_manualLevels s) PREVIEW_SMOOTH_MS nowMs s)\<lparr>co_lastManualLevels := co_manualLevels s\<rparr>
      else s)"

definition core_profileChange :: "u8 \<Rightarrow> ChannelLevels \<Rightarrow> u32 \<Rightarrow> core_step" where
  "core_profileChange profileIndex previous nowMs s =
     core_remember profileIndex (core_startFrom previous (ru_requestedLevels (co_state s)) STANDARD_TRANSITION_MS nowMs s)"

definition core_scheduleChange :: "bool list \<Rightarrow> bool \<Rightarrow> u8 \<Rightarrow> ChannelLevels \<Rightarrow> u32 \<Rightarrow> core_step" where
  "core_scheduleChange changed timeJump profileIndex previous nowMs s =
    (let requested = ru_requestedLevels (co_state s); mode = ru_mode (co_state s)
     in if scheduleMode s \<and> changed ! unat profileIndex \<and> channelLevelsDiffer requested previous
     then (core_startFrom previous requested STANDARD_TRANSITION_MS nowMs s)
          \<lparr>co_lastDayState := ru_dayState (co_state s), co_lastMode := mode\<rparr>
     else if ru_dayState (co_state s) \<noteq> co_lastDayState s
     then (core_startFrom previous requested NIGHT_TRANSITION_MS nowMs s)
          \<lparr>co_lastDayState := ru_dayState (co_state s), co_lastMode := mode\<rparr>
     else if timeJump \<and> channelLevelsDiffer requested previous
     then (core_startFrom previous requested STANDARD_TRANSITION_MS nowMs s)\<lparr>co_lastMode := mode\<rparr>
     else core_rememberMode s)"

definition core_transitions :: "u8 \<Rightarrow> bool list \<Rightarrow> bool \<Rightarrow> ChannelLevels \<Rightarrow> u32 \<Rightarrow> core_step" where
  "core_transitions profileIndex changed timeJump previous nowMs s =
    (if \<not> co_initialized s then core_firstStart profileIndex nowMs s
     else if modeChange ModeSimulation s then core_simulationChange profileIndex previous nowMs s
     else if modeChange ModePreview s then core_previewChange profileIndex previous nowMs s
     else if ru_mode (co_state s) = ModePreview then core_previewSelection changed previous nowMs s
     else if modeChange ModeChannelTest s then core_channelTestChange profileIndex previous nowMs s
     else if ru_mode (co_state s) = ModeChannelTest then core_channelTestValue previous nowMs s
     else if modeChange ModeManual s then core_manualChange profileIndex previous nowMs s
     else if ru_mode (co_state s) = ModeManual then core_manualValue previous nowMs s
     else if profileIndex \<noteq> co_lastProfileIndex s then core_profileChange profileIndex previous nowMs s
     else core_scheduleChange changed timeJump profileIndex previous nowMs s)"

lemmas transition_branches = core_simulationChange_def core_previewChange_def core_previewSelection_def
  core_channelTestChange_def core_channelTestValue_def core_manualChange_def core_manualValue_def
  core_profileChange_def core_scheduleChange_def

section \<open>Update: output\<close>

definition core_output :: "(f32 \<Rightarrow> f32 \<Rightarrow> f32) \<Rightarrow> DeviceConfig \<Rightarrow> u32 \<Rightarrow> core_step" where
  "core_output powf config nowMs s =
    (let (source, tr) = (if tr_active (co_transition s)
           then tr_updateTo nowMs (ru_requestedLevels (co_state s)) (co_transition s)
           else (ru_requestedLevels (co_state s), co_transition s));
         s = s\<lparr>co_transition := tr, co_state := (co_state s)
           \<lparr>ru_actualLevels := light_process powf source config, ru_transitionActive := tr_active tr\<rparr>\<rparr>;
         s = (if ru_mode (co_state s) = ModeSimulation \<and> co_simulationEntryActive s \<and> \<not> ru_transitionActive (co_state s)
              then s\<lparr>co_simulationStartedMs := nowMs, co_simulationEntryActive := False, co_simulationActive := True\<rparr>
              else s)
     in if ru_mode (co_state s) = ModeSimulation \<and> co_simulationActive s \<and> co_simulationDurationMs s > 0 \<and>
           nowMs - co_simulationStartedMs s \<ge> co_simulationDurationMs s \<and> \<not> ru_transitionActive (co_state s)
        then s\<lparr>co_simulationActive := False, co_simulationCompletionPending := True\<rparr> else s)"

definition core_update :: "(f32 \<Rightarrow> f32 \<Rightarrow> f32) \<Rightarrow> DeviceConfig \<Rightarrow> LocalTime \<Rightarrow> u32 \<Rightarrow> core_step" where
  "core_update powf config localTime nowMs s =
    (if \<not> co_configured s then s
     else let s = s\<lparr>co_state := (co_state s)\<lparr>ru_mode := mm_mode (co_modes s), ru_returnMode := mm_returnMode (co_modes s)\<rparr>\<rparr>;
              (changed, s) = core_observeProfiles config s;
              s = core_simulationCompletion (core_manualTimeout nowMs (core_channelTestTimeout nowMs s))
     in if ru_mode (co_state s) = ModeOff then core_dark ModeOff s
     else let previous = ru_requestedLevels (co_state s);
              s = s\<lparr>co_state := (co_state s)\<lparr>ru_timeValid := lt_valid localTime\<rparr>\<rparr>
     in if \<not> lt_valid localTime
        then core_dark (ru_mode (co_state s)) (s\<lparr>co_state := (co_state s)\<lparr>ru_currentMinuteOfDay := 0\<rparr>\<rparr>)
     else let s = s\<lparr>co_state := (co_state s)\<lparr>ru_currentMinuteOfDay := lt_minuteOfDay localTime\<rparr>\<rparr>;
              second = realSecond localTime;
              (timeJump, s) = core_observeTime second nowMs s;
              profileIndex = core_profileIndex config s;
              s = core_request config profileIndex second nowMs s;
              s = core_transitions profileIndex changed timeJump previous nowMs s
     in core_output powf config nowMs s)"

end
