(* ===== verification/LumaHardware.thy ===== *)
theory LumaHardware
  imports LumaEngines
begin

text \<open>
  The lamp outputs: the interface \<open>HardwareInterface.h\<close> as a record of operations, and its
  implementation \<open>AqmaHardware.cpp\<close> over the GPIO and LEDC calls of the ESP32 libraries, which are the
  parameter \<open>gpio_ops\<close>. \<open>Lolin32Hardware.cpp\<close> is the same code with another table of pins, so the table is
  an argument.
\<close>

section \<open>The interface\<close>

record 'h hardware_ops =
  hwBegin :: "ChannelConfig list option \<Rightarrow> 'h \<Rightarrow> bool \<times> 'h"
  hwSetChannelPercent :: "u8 \<Rightarrow> f32 \<Rightarrow> 'h \<Rightarrow> bool \<times> 'h"
  hwAllChannelsOff :: "'h \<Rightarrow> bool \<times> 'h"
  hwIsReady :: "'h \<Rightarrow> bool"
  hwAvailableChannelCount :: "'h \<Rightarrow> u8"
  hwIsChannelAvailable :: "u8 \<Rightarrow> 'h \<Rightarrow> bool"

text \<open>
  What the application relies on: a success of \<open>allChannelsOff\<close> means that every channel is dark, and a
  success of \<open>setChannelPercent\<close> that the channel shows the level and the others are as they were.
\<close>

locale lamp_output =
  fixes ops :: "'h hardware_ops"
    and dark :: "'h \<Rightarrow> bool"
    and shows_level :: "'h \<Rightarrow> nat \<Rightarrow> f32 \<Rightarrow> bool"
  assumes off_dark: "hwAllChannelsOff ops h = (True, h') \<Longrightarrow> dark h'"
    and set_shows: "hwSetChannelPercent ops channel percent h = (True, h') \<Longrightarrow> shows_level h' (unat channel) percent"
    and set_keeps: "hwSetChannelPercent ops channel percent h = (True, h') \<Longrightarrow> other \<noteq> unat channel \<Longrightarrow>
      other < CHANNEL_COUNT \<Longrightarrow> shows_level h other level \<Longrightarrow> shows_level h' other level"

section \<open>The GPIO and LEDC calls\<close>

record 'g gpio_ops =
  gpioSetLevel :: "u8 \<Rightarrow> u32 \<Rightarrow> 'g \<Rightarrow> bool \<times> 'g"
  gpioPinModeOutput :: "u8 \<Rightarrow> 'g \<Rightarrow> 'g"
  gpioHoldEn :: "u8 \<Rightarrow> 'g \<Rightarrow> bool \<times> 'g"
  gpioHoldDis :: "u8 \<Rightarrow> 'g \<Rightarrow> bool \<times> 'g"
  ledcAttach :: "u8 \<Rightarrow> u32 \<Rightarrow> u8 \<Rightarrow> u8 \<Rightarrow> 'g \<Rightarrow> bool \<times> 'g"
  ledcWriteDuty :: "u8 \<Rightarrow> u32 \<Rightarrow> 'g \<Rightarrow> bool \<times> 'g"
  ledcDetachPin :: "u8 \<Rightarrow> 'g \<Rightarrow> bool \<times> 'g"
  ledcStop :: "u8 \<Rightarrow> u8 \<Rightarrow> u32 \<Rightarrow> 'g \<Rightarrow> bool \<times> 'g"

section \<open>The implementation\<close>

definition PWM_FREQUENCY_HZ :: u32 where "PWM_FREQUENCY_HZ = 1000"

definition AQMA_PWM_PINS :: "u8 list" where "AQMA_PWM_PINS = [23, 19, 17, 16, 26, 25, 27, 13]"
definition LOLIN32_PWM_PINS :: "u8 list" where "LOLIN32_PWM_PINS = [23, 19, 18, 17, 16, 25, 26, 27]"
definition PWM_CHANNELS :: "u8 list" where "PWM_CHANNELS = [0, 1, 2, 3, 4, 5, 6, 7]"

record 'g lamp_hardware =
  lh_pwmInverted :: "bool list"
  lh_attached :: "bool list"
  lh_ready :: bool
  lh_gpio :: 'g

definition AqmaHardware_new :: "'g \<Rightarrow> 'g lamp_hardware" where
  "AqmaHardware_new g = \<lparr>lh_pwmInverted = replicate 8 False, lh_attached = replicate 8 False, lh_ready = False, lh_gpio = g\<rparr>"

definition percentToPwm :: "f32 \<Rightarrow> u32" where
  "percentToPwm percent =
    (if fle percent (Fin 0) then 0
     else if fle (Fin 100) percent then PWM_MAX_VALUE
     else u32_of_float (fadd (fmul (fdiv percent (Fin 100)) (float_of_u32 PWM_MAX_VALUE)) (Fin (1 / 2))))"

definition physicalPwm :: "'g lamp_hardware \<Rightarrow> nat \<Rightarrow> f32 \<Rightarrow> u32" where
  "physicalPwm h channel percent =
    (let logicalPwm = percentToPwm percent
     in if lh_pwmInverted h ! channel then PWM_MAX_VALUE - logicalPwm else logicalPwm)"

definition offLevel :: "'g lamp_hardware \<Rightarrow> nat \<Rightarrow> u32" where
  "offLevel h channel = (if lh_pwmInverted h ! channel then 1 else 0)"

definition isChannelAvailable :: "u8 \<Rightarrow> bool" where
  "isChannelAvailable channel \<longleftrightarrow> unat channel < CHANNEL_COUNT"

type_synonym 'g lamp_action = "'g lamp_hardware \<Rightarrow> bool \<times> 'g lamp_hardware"

text \<open>A call on the GPIO state inside the object.\<close>

definition onGpio :: "('g \<Rightarrow> bool \<times> 'g) \<Rightarrow> 'g lamp_action" where
  "onGpio f h = (let (ok, g) = f (lh_gpio h) in (ok, h\<lparr>lh_gpio := g\<rparr>))"

definition writePhysicalPwm :: "u8 list \<Rightarrow> 'g gpio_ops \<Rightarrow> nat \<Rightarrow> u32 \<Rightarrow> 'g lamp_action" where
  "writePhysicalPwm pins ops channel pwm h =
    (if channel \<ge> CHANNEL_COUNT \<or> \<not> lh_attached h ! channel then (False, h)
     else onGpio (ledcWriteDuty ops (pins ! channel) pwm) h)"

definition stopPwmAtPhysicalOff :: "'g gpio_ops \<Rightarrow> nat \<Rightarrow> 'g lamp_action" where
  "stopPwmAtPhysicalOff ops channel h =
    (if channel \<ge> CHANNEL_COUNT then (False, h)
     else let ledcChannel = PWM_CHANNELS ! channel
     in onGpio (ledcStop ops (ledcChannel div 8) (ledcChannel mod 8) (offLevel h channel)) h)"

definition setPinToSafeGpioOff :: "u8 list \<Rightarrow> 'g gpio_ops \<Rightarrow> nat \<Rightarrow> 'g lamp_action" where
  "setPinToSafeGpioOff pins ops channel h =
    (if channel \<ge> CHANNEL_COUNT then (False, h)
     else let pin = pins ! channel; level = offLevel h channel;
              (ok, h) = onGpio (gpioSetLevel ops pin level) h
     in if \<not> ok then (False, h)
     else let h = h\<lparr>lh_gpio := gpioPinModeOutput ops pin (lh_gpio h)\<rparr>
     in onGpio (gpioSetLevel ops pin level) h)"

text \<open>One round of \<open>allChannelsOff\<close>; the result is whether it left \<open>success\<close> alone.\<close>

definition offRecover :: "u8 list \<Rightarrow> 'g gpio_ops \<Rightarrow> nat \<Rightarrow> 'g lamp_hardware \<Rightarrow> 'g lamp_hardware" where
  "offRecover pins ops channel h =
    (let (latchPrepared, h) = onGpio (gpioSetLevel ops (pins ! channel) (offLevel h channel)) h;
         (pwmStopped, h) = stopPwmAtPhysicalOff ops channel h;
         (detached, h) = onGpio (ledcDetachPin ops (pins ! channel)) h
     in if detached then h\<lparr>lh_attached := (lh_attached h)[channel := False]\<rparr> else h)"

definition channelOff :: "u8 list \<Rightarrow> 'g gpio_ops \<Rightarrow> nat \<Rightarrow> 'g lamp_action" where
  "channelOff pins ops channel h =
    (let (written, h) = (if lh_attached h ! channel
           then writePhysicalPwm pins ops channel (physicalPwm h channel (Fin 0)) h else (False, h))
     in if written then (True, h)
     else let failed = lh_attached h ! channel;
              h = (if failed then offRecover pins ops channel h else h);
              (ok, h) = (if \<not> lh_attached h ! channel then setPinToSafeGpioOff pins ops channel h else (True, h))
     in (ok \<and> \<not> failed, h))"

fun channelsOff :: "u8 list \<Rightarrow> 'g gpio_ops \<Rightarrow> nat list \<Rightarrow> 'g lamp_action" where
  "channelsOff pins ops [] h = (True, h)"
| "channelsOff pins ops (channel # rest) h =
    (let (ok, h) = channelOff pins ops channel h; (others, h) = channelsOff pins ops rest h
     in (ok \<and> others, h))"

definition allChannelsOff :: "u8 list \<Rightarrow> 'g gpio_ops \<Rightarrow> 'g lamp_action" where
  "allChannelsOff pins ops h =
    (let (success, h) = channelsOff pins ops [0..<CHANNEL_COUNT] h
     in (success, if success then h else h\<lparr>lh_ready := False\<rparr>))"

definition setChannelPercent :: "u8 list \<Rightarrow> 'g gpio_ops \<Rightarrow> u8 \<Rightarrow> f32 \<Rightarrow> 'g lamp_action" where
  "setChannelPercent pins ops channel percent h =
    (if \<not> lh_ready h \<or> \<not> isChannelAvailable channel \<or> \<not> lh_attached h ! unat channel then (False, h)
     else let (written, h) = writePhysicalPwm pins ops (unat channel) (physicalPwm h (unat channel) percent) h
     in if written then (True, h)
     else (False, snd (allChannelsOff pins ops (h\<lparr>lh_ready := False\<rparr>))))"

text \<open>The two loops of \<open>begin\<close> that call the pins; they stop at the first failure.\<close>

fun safePins :: "u8 list \<Rightarrow> 'g gpio_ops \<Rightarrow> nat list \<Rightarrow> 'g lamp_action" where
  "safePins pins ops [] h = (True, h)"
| "safePins pins ops (channel # rest) h =
    (let (ok, h) = setPinToSafeGpioOff pins ops channel h
     in if ok then safePins pins ops rest h else (False, snd (allChannelsOff pins ops h)))"

definition attachPin :: "u8 list \<Rightarrow> 'g gpio_ops \<Rightarrow> nat \<Rightarrow> 'g lamp_action" where
  "attachPin pins ops channel h =
    (let pin = pins ! channel; (held, h) = onGpio (gpioHoldEn ops pin) h
     in if \<not> held then (False, snd (allChannelsOff pins ops h))
     else let (attached, h) = onGpio (ledcAttach ops pin PWM_FREQUENCY_HZ (of_nat PWM_RESOLUTION_BITS) (PWM_CHANNELS ! channel)) h
     in if \<not> attached
        then let h = snd (allChannelsOff pins ops h) in (False, snd (onGpio (gpioHoldDis ops pin) h))
     else let h = h\<lparr>lh_attached := (lh_attached h)[channel := True]\<rparr>;
              (written, h) = writePhysicalPwm pins ops channel (physicalPwm h channel (Fin 0)) h
     in if \<not> written then (False, snd (allChannelsOff pins ops (h\<lparr>lh_ready := False\<rparr>)))
     else let (released, h) = onGpio (gpioHoldDis ops pin) h
     in if \<not> released then (False, snd (allChannelsOff pins ops (h\<lparr>lh_ready := False\<rparr>)))
     else (True, h))"

fun attachPins :: "u8 list \<Rightarrow> 'g gpio_ops \<Rightarrow> nat list \<Rightarrow> 'g lamp_action" where
  "attachPins pins ops [] h = (True, h)"
| "attachPins pins ops (channel # rest) h =
    (let (ok, h) = attachPin pins ops channel h in if ok then attachPins pins ops rest h else (False, h))"

definition lamp_begin :: "u8 list \<Rightarrow> 'g gpio_ops \<Rightarrow> ChannelConfig list option \<Rightarrow> 'g lamp_action" where
  "lamp_begin pins ops channels h =
    (let h = h\<lparr>lh_ready := False\<rparr>
     in case channels of None \<Rightarrow> (False, h)
   | Some channels \<Rightarrow>
     (let h = h\<lparr>lh_pwmInverted := map (\<lambda>ch. cc_pwmInverted (channels ! ch)) [0..<CHANNEL_COUNT],
                lh_attached := replicate CHANNEL_COUNT False\<rparr>;
          (ok, h) = safePins pins ops [0..<CHANNEL_COUNT] h
      in if \<not> ok then (False, h)
      else let (ok, h) = attachPins pins ops [0..<CHANNEL_COUNT] h
      in if \<not> ok then (False, h) else (True, h\<lparr>lh_ready := True\<rparr>)))"

definition lampHardware :: "u8 list \<Rightarrow> 'g gpio_ops \<Rightarrow> 'g lamp_hardware hardware_ops" where
  "lampHardware pins ops = \<lparr>hwBegin = lamp_begin pins ops, hwSetChannelPercent = setChannelPercent pins ops,
     hwAllChannelsOff = allChannelsOff pins ops, hwIsReady = lh_ready, hwAvailableChannelCount = (\<lambda>_. of_nat CHANNEL_COUNT),
     hwIsChannelAvailable = (\<lambda>channel _. isChannelAvailable channel)\<rparr>"

section \<open>What a success means\<close>

text \<open>
  The documented behaviour of the GPIO and LEDC calls, for the calls that succeed: \<open>duty\<close> is the LEDC
  duty of a pin and \<open>latch\<close> its output latch.
\<close>

locale gpio_driver =
  fixes gpio :: "'g gpio_ops"
    and duty :: "'g \<Rightarrow> u8 \<Rightarrow> u32"
    and latch :: "'g \<Rightarrow> u8 \<Rightarrow> u32"
  assumes write_ok: "ledcWriteDuty gpio p v g = (True, g') \<Longrightarrow> duty g' = (duty g)(p := v) \<and> latch g' = latch g"
    and level_ok: "gpioSetLevel gpio p l g = (True, g') \<Longrightarrow> latch g' = (latch g)(p := l) \<and> duty g' = duty g"
    and mode_ok: "latch (gpioPinModeOutput gpio p g) = latch g \<and> duty (gpioPinModeOutput gpio p g) = duty g"
    and hold_ok: "gpioHoldEn gpio p g = (True, g') \<Longrightarrow> latch g' = latch g \<and> duty g' = duty g"
    and release_ok: "gpioHoldDis gpio p g = (True, g') \<Longrightarrow> latch g' = latch g \<and> duty g' = duty g"
    and attach_ok: "ledcAttach gpio p f b c g = (True, g') \<Longrightarrow>
      latch g' = latch g \<and> (\<forall>q. q \<noteq> p \<longrightarrow> duty g' q = duty g q)"

definition channelDark :: "('g \<Rightarrow> u8 \<Rightarrow> u32) \<Rightarrow> ('g \<Rightarrow> u8 \<Rightarrow> u32) \<Rightarrow> u8 list \<Rightarrow> 'g lamp_hardware \<Rightarrow> nat \<Rightarrow> bool" where
  "channelDark duty latch pins h channel \<longleftrightarrow>
     (if lh_attached h ! channel
      then duty (lh_gpio h) (pins ! channel) = (if lh_pwmInverted h ! channel then PWM_MAX_VALUE else 0)
      else latch (lh_gpio h) (pins ! channel) = offLevel h channel)"

definition lampDark :: "('g \<Rightarrow> u8 \<Rightarrow> u32) \<Rightarrow> ('g \<Rightarrow> u8 \<Rightarrow> u32) \<Rightarrow> u8 list \<Rightarrow> 'g lamp_hardware \<Rightarrow> bool" where
  "lampDark duty latch pins h \<longleftrightarrow> list_all (channelDark duty latch pins h) [0..<CHANNEL_COUNT]"

definition showsLevel :: "('g \<Rightarrow> u8 \<Rightarrow> u32) \<Rightarrow> u8 list \<Rightarrow> 'g lamp_hardware \<Rightarrow> nat \<Rightarrow> f32 \<Rightarrow> bool" where
  "showsLevel duty pins h channel percent \<longleftrightarrow>
     lh_attached h ! channel \<and> duty (lh_gpio h) (pins ! channel) = physicalPwm h channel percent"

definition pinTable :: "u8 list \<Rightarrow> bool" where
  "pinTable pins \<longleftrightarrow> distinct pins \<and> length pins = CHANNEL_COUNT"

lemma percentToPwm_0 [simp]: "percentToPwm (Fin 0) = 0"
  by (simp add: percentToPwm_def)

lemma pinTable_other: "pinTable pins \<Longrightarrow> i \<noteq> j \<Longrightarrow> i < CHANNEL_COUNT \<Longrightarrow> j < CHANNEL_COUNT \<Longrightarrow> pins ! i \<noteq> pins ! j"
  by (simp add: pinTable_def nth_eq_iff_index_eq)

lemma onGpio_split: "onGpio f h = (ok, h') \<longleftrightarrow> (\<exists>g. f (lh_gpio h) = (ok, g) \<and> h' = h\<lparr>lh_gpio := g\<rparr>)"
  by (auto simp: onGpio_def split: prod.splits)

lemma physicalPwm_gpio [simp]: "physicalPwm (h\<lparr>lh_gpio := g\<rparr>) = physicalPwm h"
  by (simp add: physicalPwm_def fun_eq_iff)

lemma offLevel_gpio [simp]: "offLevel (h\<lparr>lh_gpio := g\<rparr>) = offLevel h"
  by (simp add: offLevel_def fun_eq_iff)

locale lamp_pins = gpio_driver +
  fixes pins :: "u8 list"
  assumes pin_table: "pinTable pins"
begin

abbreviation "dark_at \<equiv> channelDark duty latch pins"

lemma write_result:
  assumes "writePhysicalPwm pins gpio channel pwm h = (True, h')"
  shows "channel < CHANNEL_COUNT" "lh_attached h ! channel"
    "\<exists>g. h' = h\<lparr>lh_gpio := g\<rparr> \<and> duty g = (duty (lh_gpio h))(pins ! channel := pwm) \<and> latch g = latch (lh_gpio h)"
  using assms write_ok by (force simp: writePhysicalPwm_def onGpio_split split: if_splits)+

lemma safe_result:
  assumes "setPinToSafeGpioOff pins gpio channel h = (True, h')"
  shows "channel < CHANNEL_COUNT"
    "\<exists>g. h' = h\<lparr>lh_gpio := g\<rparr> \<and> latch g = (latch (lh_gpio h))(pins ! channel := offLevel h channel) \<and>
      duty g = duty (lh_gpio h)"
proof -
  show c: "channel < CHANNEL_COUNT" using assms by (simp add: setPinToSafeGpioOff_def split: if_splits)
  obtain g1 g2 where g: "gpioSetLevel gpio (pins ! channel) (offLevel h channel) (lh_gpio h) = (True, g1)"
    "gpioSetLevel gpio (pins ! channel) (offLevel h channel) (gpioPinModeOutput gpio (pins ! channel) g1) = (True, g2)"
    "h' = h\<lparr>lh_gpio := g2\<rparr>"
    using assms c by (auto simp: setPinToSafeGpioOff_def Let_def onGpio_split split: prod.splits if_splits)
  then show "\<exists>g. h' = h\<lparr>lh_gpio := g\<rparr> \<and> latch g = (latch (lh_gpio h))(pins ! channel := offLevel h channel) \<and>
      duty g = duty (lh_gpio h)"
    using level_ok [OF g(1)] level_ok [OF g(2)] mode_ok [of "pins ! channel" g1] by auto
qed

lemma channelOff_result:
  assumes "channelOff pins gpio channel h = (True, h')" and "channel < CHANNEL_COUNT"
  shows "dark_at h' channel" "lh_attached h' = lh_attached h" "lh_pwmInverted h' = lh_pwmInverted h"
    "lh_ready h' = lh_ready h" "other < CHANNEL_COUNT \<Longrightarrow> dark_at h other \<Longrightarrow> dark_at h' other"
proof -
  have step: "(\<exists>g. h' = h\<lparr>lh_gpio := g\<rparr> \<and> lh_attached h ! channel \<and> latch g = latch (lh_gpio h) \<and>
      duty g = (duty (lh_gpio h))(pins ! channel := physicalPwm h channel (Fin 0))) \<or>
    (\<exists>g. h' = h\<lparr>lh_gpio := g\<rparr> \<and> \<not> lh_attached h ! channel \<and> duty g = duty (lh_gpio h) \<and>
      latch g = (latch (lh_gpio h))(pins ! channel := offLevel h channel))"
  proof (cases "lh_attached h ! channel")
    case True
    obtain w g where w: "writePhysicalPwm pins gpio channel (physicalPwm h channel (Fin 0)) h = (w, h\<lparr>lh_gpio := g\<rparr>)"
      using assms(2) by (cases "ledcWriteDuty gpio (pins ! channel) (physicalPwm h channel (Fin 0)) (lh_gpio h)")
        (simp add: writePhysicalPwm_def onGpio_def True)
    then have "w" "h' = h\<lparr>lh_gpio := g\<rparr>"
      using assms(1) True by (auto simp: channelOff_def Let_def split: prod.splits if_splits)
    then show ?thesis using w write_result(3) [of channel _ h h'] True by auto
  next
    case False
    then have "setPinToSafeGpioOff pins gpio channel h = (True, h')"
      using assms(1) by (auto simp: channelOff_def Let_def split: prod.splits if_splits)
    then show ?thesis using safe_result(2) False by blast
  qed
  from step show "dark_at h' channel" "lh_attached h' = lh_attached h" "lh_pwmInverted h' = lh_pwmInverted h"
    "lh_ready h' = lh_ready h"
    by (auto simp: channelDark_def physicalPwm_def Let_def)
  show "other < CHANNEL_COUNT \<Longrightarrow> dark_at h other \<Longrightarrow> dark_at h' other"
    using step pinTable_other [OF pin_table, of other channel] assms(2)
    by (cases "other = channel") (auto simp: channelDark_def physicalPwm_def)
qed

lemma channelsOff_result:
  assumes "channelsOff pins gpio cs h = (True, h')" and "set cs \<subseteq> {..<CHANNEL_COUNT}"
  shows "lh_attached h' = lh_attached h" "lh_pwmInverted h' = lh_pwmInverted h" "lh_ready h' = lh_ready h"
    "list_all (dark_at h') cs" "other < CHANNEL_COUNT \<Longrightarrow> dark_at h other \<Longrightarrow> dark_at h' other"
proof -
  have "lh_attached h' = lh_attached h \<and> lh_pwmInverted h' = lh_pwmInverted h \<and> lh_ready h' = lh_ready h \<and>
    list_all (dark_at h') cs \<and> (\<forall>other<CHANNEL_COUNT. dark_at h other \<longrightarrow> dark_at h' other)"
    using assms
  proof (induction cs arbitrary: h)
    case (Cons channel rest)
    obtain h1 where s: "channelOff pins gpio channel h = (True, h1)" "channelsOff pins gpio rest h1 = (True, h')"
      using Cons.prems(1) by (auto simp: Let_def split: prod.splits)
    have c: "channel < CHANNEL_COUNT" "set rest \<subseteq> {..<CHANNEL_COUNT}" using Cons.prems(2) by auto
    from Cons.IH [OF s(2) c(2)] channelOff_result [OF s(1) c(1)] c(1) show ?case by simp
  qed simp
  then show "lh_attached h' = lh_attached h" "lh_pwmInverted h' = lh_pwmInverted h" "lh_ready h' = lh_ready h"
    "list_all (dark_at h') cs" "other < CHANNEL_COUNT \<Longrightarrow> dark_at h other \<Longrightarrow> dark_at h' other"
    by auto
qed

lemma allOff_dark: "allChannelsOff pins gpio h = (True, h') \<Longrightarrow> lampDark duty latch pins h'"
  using channelsOff_result(4) [of "[0..<CHANNEL_COUNT]" h h']
  by (auto simp: allChannelsOff_def lampDark_def Let_def atLeast0LessThan split: prod.splits)

lemma set_result:
  assumes "setChannelPercent pins gpio channel percent h = (True, h')"
  shows "showsLevel duty pins h' (unat channel) percent"
    and "other \<noteq> unat channel \<Longrightarrow> other < CHANNEL_COUNT \<Longrightarrow> showsLevel duty pins h other level \<Longrightarrow>
      showsLevel duty pins h' other level"
proof -
  have w: "writePhysicalPwm pins gpio (unat channel) (physicalPwm h (unat channel) percent) h = (True, h')"
    using assms by (auto simp: setChannelPercent_def split: prod.splits if_splits)
  note r = write_result [OF w]
  show "showsLevel duty pins h' (unat channel) percent" using r by (auto simp: showsLevel_def)
  show "other \<noteq> unat channel \<Longrightarrow> other < CHANNEL_COUNT \<Longrightarrow> showsLevel duty pins h other level \<Longrightarrow>
      showsLevel duty pins h' other level"
    using r pinTable_other [OF pin_table] by (auto simp: showsLevel_def)
qed

lemma safe_dark:
  assumes "setPinToSafeGpioOff pins gpio channel h = (True, h')" and "\<not> lh_attached h ! channel"
  shows "dark_at h' channel" "lh_attached h' = lh_attached h" "lh_pwmInverted h' = lh_pwmInverted h"
    "other < CHANNEL_COUNT \<Longrightarrow> dark_at h other \<Longrightarrow> dark_at h' other"
proof -
  note r = safe_result [OF assms(1)]
  then show "dark_at h' channel" "lh_attached h' = lh_attached h" "lh_pwmInverted h' = lh_pwmInverted h"
    using assms(2) by (auto simp: channelDark_def)
  show "other < CHANNEL_COUNT \<Longrightarrow> dark_at h other \<Longrightarrow> dark_at h' other"
    using r assms(2) pinTable_other [OF pin_table, of other channel]
    by (cases "other = channel") (auto simp: channelDark_def)
qed

lemma safePins_dark:
  assumes "safePins pins gpio cs h = (True, h')" and "\<forall>c<CHANNEL_COUNT. \<not> lh_attached h ! c"
    and "set cs \<subseteq> {..<CHANNEL_COUNT}"
  shows "lh_attached h' = lh_attached h \<and> lh_pwmInverted h' = lh_pwmInverted h \<and> list_all (dark_at h') cs \<and>
    (\<forall>other<CHANNEL_COUNT. dark_at h other \<longrightarrow> dark_at h' other)"
  using assms
proof (induction cs arbitrary: h)
  case (Cons channel rest)
  obtain h1 where s: "setPinToSafeGpioOff pins gpio channel h = (True, h1)" "safePins pins gpio rest h1 = (True, h')"
    using Cons.prems(1) by (auto simp: Let_def split: prod.splits if_splits)
  have c: "channel < CHANNEL_COUNT" "set rest \<subseteq> {..<CHANNEL_COUNT}" using Cons.prems(3) by auto
  note d = safe_dark [OF s(1)]
  have "\<not> lh_attached h ! channel" using Cons.prems(2) c(1) by blast
  note d = d [OF this]
  from Cons.IH [OF s(2) _ c(2)] d Cons.prems(2) c(1) show ?case by simp
qed simp

lemma attachPin_dark:
  assumes "attachPin pins gpio channel h = (True, h')" and "length (lh_attached h) = CHANNEL_COUNT"
  shows "channel < CHANNEL_COUNT" "dark_at h' channel" "lh_attached h' = (lh_attached h)[channel := True]"
    "lh_pwmInverted h' = lh_pwmInverted h" "other < CHANNEL_COUNT \<Longrightarrow> dark_at h other \<Longrightarrow> dark_at h' other"
proof -
  obtain g1 g2 h3 g4 where s: "gpioHoldEn gpio (pins ! channel) (lh_gpio h) = (True, g1)"
    "ledcAttach gpio (pins ! channel) PWM_FREQUENCY_HZ (of_nat PWM_RESOLUTION_BITS) (PWM_CHANNELS ! channel) g1 = (True, g2)"
    "writePhysicalPwm pins gpio channel (physicalPwm h channel (Fin 0))
       (h\<lparr>lh_gpio := g2, lh_attached := (lh_attached h)[channel := True]\<rparr>) = (True, h3)"
    "gpioHoldDis gpio (pins ! channel) (lh_gpio h3) = (True, g4)" "h' = h3\<lparr>lh_gpio := g4\<rparr>"
    using assms(1) by (auto simp: attachPin_def Let_def onGpio_split physicalPwm_def split: prod.splits if_splits)
  note w = write_result [OF s(3)]
  show c: "channel < CHANNEL_COUNT" by (rule w(1))
  note f = hold_ok [OF s(1)] attach_ok [OF s(2)] release_ok [OF s(4)]
  then show "dark_at h' channel" "lh_attached h' = (lh_attached h)[channel := True]"
    "lh_pwmInverted h' = lh_pwmInverted h"
    using w(3) s(5) c assms(2) by (auto simp: channelDark_def physicalPwm_def)
  then show "other < CHANNEL_COUNT \<Longrightarrow> dark_at h other \<Longrightarrow> dark_at h' other"
    using f w(3) s(5) c pinTable_other [OF pin_table, of other channel]
    by (cases "other = channel") (auto simp: channelDark_def offLevel_def)
qed

lemma attachPins_dark:
  assumes "attachPins pins gpio cs h = (True, h')" and "length (lh_attached h) = CHANNEL_COUNT"
  shows "length (lh_attached h') = CHANNEL_COUNT \<and> lh_pwmInverted h' = lh_pwmInverted h \<and>
    (\<forall>c<CHANNEL_COUNT. lh_attached h' ! c \<longleftrightarrow> lh_attached h ! c \<or> c \<in> set cs) \<and>
    (\<forall>other<CHANNEL_COUNT. dark_at h other \<longrightarrow> dark_at h' other)"
  using assms
proof (induction cs arbitrary: h)
  case (Cons channel rest)
  obtain h1 where s: "attachPin pins gpio channel h = (True, h1)" "attachPins pins gpio rest h1 = (True, h')"
    using Cons.prems(1) by (auto simp: Let_def split: prod.splits if_splits)
  note d = attachPin_dark [OF s(1) Cons.prems(2)]
  have "length (lh_attached h1) = CHANNEL_COUNT" using d(3) Cons.prems(2) by simp
  from Cons.IH [OF s(2) this] d Cons.prems(2) show ?case by (auto simp: nth_list_update)
qed simp

lemma lamp_begin_dark:
  assumes "lamp_begin pins gpio channels h = (True, h')"
  shows "lampDark duty latch pins h' \<and> lh_ready h' \<and> (\<forall>c<CHANNEL_COUNT. lh_attached h' ! c)"
proof -
  obtain cs where cs: "channels = Some cs" using assms by (auto simp: lamp_begin_def Let_def split: option.splits)
  define h0 where "h0 = h\<lparr>lh_ready := False, lh_pwmInverted := map (\<lambda>ch. cc_pwmInverted (cs ! ch)) [0..<CHANNEL_COUNT],
     lh_attached := replicate CHANNEL_COUNT False\<rparr>"
  obtain h1 h2 where s: "safePins pins gpio [0..<CHANNEL_COUNT] h0 = (True, h1)"
    "attachPins pins gpio [0..<CHANNEL_COUNT] h1 = (True, h2)" "h' = h2\<lparr>lh_ready := True\<rparr>"
    using assms by (auto simp: lamp_begin_def Let_def cs h0_def simp del: safePins.simps attachPins.simps upt_8
        split: prod.splits if_splits)
  have "\<forall>c<CHANNEL_COUNT. \<not> lh_attached h0 ! c" "length (lh_attached h0) = CHANNEL_COUNT" by (auto simp: h0_def)
  note a = safePins_dark [OF s(1) this(1)] this(2)
  then have l: "length (lh_attached h1) = CHANNEL_COUNT" by (simp add: atLeast0LessThan)
  note b = attachPins_dark [OF s(2) l]
  show ?thesis using a b s(3) by (auto simp: lampDark_def list_all_iff atLeast0LessThan channelDark_def offLevel_def)
qed

end

sublocale lamp_pins \<subseteq> lamp: lamp_output "lampHardware pins gpio" "lampDark duty latch pins" "showsLevel duty pins"
  by unfold_locales (auto simp: lampHardware_def allOff_dark set_result)

section \<open>The duty\<close>

lemma roundF_mono:
  assumes "0 \<le> x" and "x \<le> y" and "roundF x = Fin a" and "roundF y = Fin b"
  shows "a \<le> b"
  using assms roundMag_mono [OF assms(2)] by (auto simp: roundF_def Let_def split: if_splits)

lemma pwm_steps:
  assumes "0 < q" and "q < 100"
  shows "\<exists>a b c. roundF (q / 100) = Fin a \<and> 0 \<le> a \<and> roundF (a * 4095) = Fin b \<and> 0 \<le> b \<and>
    roundF (b + 1 / 2) = Fin c \<and> 0 \<le> c \<and> c \<le> 8191 / 2 \<and> percentToPwm (Fin q) = of_int \<lfloor>c\<rfloor>"
proof -
  obtain a where a: "roundF (q / 100) = Fin a" "0 \<le> a" "a \<le> 1"
    using roundF_between [of 0 "q / 100" 1] assms by auto
  obtain b where b: "roundF (a * 4095) = Fin b" "0 \<le> b" "b \<le> 4095"
    using roundF_between [of 0 "a * 4095" 4095] a by auto
  obtain c where c: "roundF (b + 1 / 2) = Fin c" "0 \<le> c" "c \<le> 8191 / 2"
    using roundF_le_finite [of "b + 1 / 2" "8191 / 2"] roundF_half [of 8191] b by auto
  have m: "float_of_u32 PWM_MAX_VALUE = Fin 4095"
    using roundF_int [of 4095] by (simp add: float_of_u32_def PWM_MAX_VALUE_eq)
  have "percentToPwm (Fin q) = of_int \<lfloor>c\<rfloor>"
    using assms a b c by (simp add: percentToPwm_def m u32_of_float_def)
  then show ?thesis using a b c by blast
qed

lemma floor_duty: "0 \<le> c \<Longrightarrow> c \<le> 8191 / 2 \<Longrightarrow> uint (of_int \<lfloor>c\<rfloor> :: u32) = \<lfloor>c\<rfloor> \<and> \<lfloor>c\<rfloor> \<le> 4095" for c :: rat
proof -
  assume c: "0 \<le> c" "c \<le> 8191 / 2"
  then have "\<lfloor>c\<rfloor> < 4096" "0 \<le> \<lfloor>c\<rfloor>" by (simp_all add: floor_less_iff)
  then show ?thesis by (simp add: uint_word_of_int unsigned_of_int)
qed

lemma percentToPwm_max: "x \<noteq> FNaN \<Longrightarrow> percentToPwm x \<le> PWM_MAX_VALUE"
proof (cases x)
  case (Fin q)
  show ?thesis
  proof (cases "0 < q \<and> q < 100")
    case True
    then show ?thesis using pwm_steps [of q] floor_duty unfolding Fin by (auto simp: word_le_def PWM_MAX_VALUE_eq)
  qed (auto simp: Fin percentToPwm_def)
qed (auto simp: percentToPwm_def)

lemma percentToPwm_mono:
  assumes "fle x y"
  shows "percentToPwm x \<le> percentToPwm y"
proof -
  have ends: "percentToPwm z = PWM_MAX_VALUE" if "fle (Fin 100) z" for z
    using that by (cases z) (auto simp: percentToPwm_def)
  have "fle x (Fin 0) \<or> fle (Fin 100) y \<or> (\<exists>p q. x = Fin p \<and> y = Fin q \<and> 0 < p \<and> p \<le> q \<and> q < 100)"
    using assms by (cases x; cases y) (auto simp: not_le)
  then consider "fle x (Fin 0)" | "fle (Fin 100) y" | p q where "x = Fin p" "y = Fin q" "0 < p" "p \<le> q" "q < 100"
    by blast
  then show ?thesis
  proof cases
    case 1
    then show ?thesis by (simp add: percentToPwm_def)
  next
    case 2
    then show ?thesis using ends percentToPwm_max [of x] assms by (cases x) auto
  next
    case 3
    obtain a b c where a: "roundF (p / 100) = Fin a" "0 \<le> a" "roundF (a * 4095) = Fin b" "0 \<le> b"
      "roundF (b + 1 / 2) = Fin c" "0 \<le> c" "c \<le> 8191 / 2" "percentToPwm x = of_int \<lfloor>c\<rfloor>"
      using pwm_steps [of p] 3 by auto
    obtain a' b' c' where a': "roundF (q / 100) = Fin a'" "0 \<le> a'" "roundF (a' * 4095) = Fin b'" "0 \<le> b'"
      "roundF (b' + 1 / 2) = Fin c'" "0 \<le> c'" "c' \<le> 8191 / 2" "percentToPwm y = of_int \<lfloor>c'\<rfloor>"
      using pwm_steps [of q] 3 by auto
    have "a \<le> a'" using roundF_mono [OF _ _ a(1) a'(1)] 3 by (simp add: divide_right_mono)
    then have "b \<le> b'" using roundF_mono [OF _ _ a(3) a'(3)] a(2) by simp
    then have "c \<le> c'" using roundF_mono [OF _ _ a(5) a'(5)] a(4) by simp
    then show ?thesis using a a' floor_duty [of c] floor_duty [of c'] by (simp add: word_le_def floor_mono)
  qed
qed

section \<open>An instance\<close>

text \<open>Pins as two functions, for concrete runs and for both pin tables.\<close>

definition simulatedGpio :: "((u8 \<Rightarrow> u32) \<times> (u8 \<Rightarrow> u32)) gpio_ops" where
  "simulatedGpio = \<lparr>gpioSetLevel = (\<lambda>p l (d, w). (True, (d, w(p := l)))), gpioPinModeOutput = (\<lambda>p g. g),
     gpioHoldEn = (\<lambda>p g. (True, g)), gpioHoldDis = (\<lambda>p g. (True, g)), ledcAttach = (\<lambda>p f b c (d, w). (True, (d(p := 0), w))),
     ledcWriteDuty = (\<lambda>p v (d, w). (True, (d(p := v), w))), ledcDetachPin = (\<lambda>p g. (True, g)),
     ledcStop = (\<lambda>m c l g. (True, g))\<rparr>"

interpretation simGpio: gpio_driver simulatedGpio fst snd
  by unfold_locales (auto simp: simulatedGpio_def)

interpretation aqma: lamp_pins simulatedGpio fst snd AQMA_PWM_PINS
  by unfold_locales (simp add: pinTable_def AQMA_PWM_PINS_def)

interpretation lolin32: lamp_pins simulatedGpio fst snd LOLIN32_PWM_PINS
  by unfold_locales (simp add: pinTable_def LOLIN32_PWM_PINS_def)

lemma pinTables: "pinTable AQMA_PWM_PINS" "pinTable LOLIN32_PWM_PINS"
  by (rule aqma.pin_table, rule lolin32.pin_table)

end
