(* ===== verification/LumaFirmware.thy ===== *)
theory LumaFirmware
  imports LumaCore LumaHardware StorageProperties WarsawTime NtpService
begin

text \<open>
  The application of LumaSense: its storage adapter over the dual-slot service (\<open>StorageService.cpp\<close> of
  aquaOneLuma), and \<open>FirmwareApp.cpp\<close>, which composes the storage, the local time service, the lamp
  outputs and \<open>LumaCore\<close>. As for HydroSense, the memory image of the configuration struct is a parameter.
\<close>

section \<open>Storage\<close>

record luma_image =
  li_size :: nat
  li_bytes :: "DeviceConfig \<Rightarrow> bytes"
  li_value :: "bytes \<Rightarrow> DeviceConfig"

definition luma_validatePayload :: "luma_image \<Rightarrow> payload_validator" where
  "luma_validatePayload img payload payloadSize =
    (if payloadSize \<noteq> li_size img then False
     else let config = li_value img payload
     in dc_schemaVersion config = DEVICE_CONFIG_SCHEMA_VERSION \<and> validateDeviceConfig config)"

definition LumaStorage_new :: "luma_image \<Rightarrow> 'b \<Rightarrow> nat \<Rightarrow> 'b storage_service" where
  "LumaStorage_new img b address =
     StorageService_new b (Some ''lumasense'') (Some ''cfg_a'') (Some ''cfg_b'') address
       (Some (replicate (HEADER_SIZE + li_size img) 0)) (HEADER_SIZE + li_size img)"

definition luma_storage_begin :: "luma_image \<Rightarrow> 'b backend_ops \<Rightarrow> 'b storage_service \<Rightarrow> bool \<times> 'b storage_service" where
  "luma_storage_begin img ops st =
     storage_begin ops st (li_size img) DEVICE_CONFIG_SCHEMA_VERSION (Some (luma_validatePayload img))"

definition luma_storage_load ::
  "luma_image \<Rightarrow> 'b backend_ops \<Rightarrow> DeviceConfig \<Rightarrow> 'b storage_service \<Rightarrow> bool \<times> DeviceConfig \<times> 'b storage_service" where
  "luma_storage_load img ops config st = (case storage_load ops st True of
     (True, Some payload, st) \<Rightarrow> (True, li_value img payload, st)
   | (_, _, st) \<Rightarrow> (False, config, st))"

definition luma_storage_save ::
  "luma_image \<Rightarrow> 'b backend_ops \<Rightarrow> nat \<Rightarrow> DeviceConfig \<Rightarrow> 'b storage_service \<Rightarrow> bool \<times> 'b storage_service" where
  "luma_storage_save img ops address config st = storage_save ops st (Some (address, li_bytes img config))"

section \<open>State\<close>

datatype ConfigSource = Defaults | Nvs

datatype FirmwareCommandResult = Applied | NoChange | Invalid | Rejected | StorageFailure

record FirmwareStatus =
  fs_hardwareOk :: bool
  fs_rtcOk :: bool
  fs_storageOk :: bool
  fs_configValid :: bool
  fs_coreOk :: bool
  fs_timeValid :: bool
  fs_running :: bool
  fs_configSource :: ConfigSource

definition FirmwareStatus_default :: FirmwareStatus where
  "FirmwareStatus_default = \<lparr>fs_hardwareOk = False, fs_rtcOk = False, fs_storageOk = False,
     fs_configValid = False, fs_coreOk = False, fs_timeValid = False, fs_running = False,
     fs_configSource = Defaults\<rparr>"

text \<open>What the application is linked with; \<open>en_candidateAddress\<close> is where \<open>setActiveProfileIndex\<close> keeps its candidate.\<close>

record ('h, 'b, 't) firmware_env =
  en_image :: luma_image
  en_backend :: "'b backend_ops"
  en_bus :: "'t rtc_bus"
  en_hardware :: "'h hardware_ops"
  en_powf :: "f32 \<Rightarrow> f32 \<Rightarrow> f32"
  en_candidateAddress :: nat

record ('h, 'b, 't) firmware_app =
  fw_hardware :: 'h
  fw_storage :: "'b storage_service"
  fw_time :: "'t warsaw_service"
  fw_config :: DeviceConfig
  fw_core :: luma_core
  fw_status :: FirmwareStatus
  fw_cachedLocalTime :: LocalTime
  fw_lastRtcReadMs :: u32
  fw_rtcReadScheduled :: bool

definition RTC_READ_INTERVAL_MS :: u32 where "RTC_READ_INTERVAL_MS = 1000"

section \<open>Helpers\<close>

definition validManualLevels :: "ChannelLevels \<Rightarrow> bool" where
  "validManualLevels levels \<longleftrightarrow> list_all (\<lambda>channel. isfinite (levels ! channel) \<and>
     \<not> flt (levels ! channel) LEVEL_MIN_PERCENT \<and> \<not> flt LEVEL_MAX_PERCENT (levels ! channel)) [0..<CHANNEL_COUNT]"

definition validManualTimeout :: "u16 \<Rightarrow> bool" where
  "validManualTimeout timeoutMinutes \<longleftrightarrow>
     timeoutMinutes = 0 \<or> timeoutMinutes = 15 \<or> timeoutMinutes = 30 \<or> timeoutMinutes = 60"

definition reflectsMode :: "RuntimeState \<Rightarrow> OperatingMode \<Rightarrow> bool" where
  "reflectsMode state requested =
     (if requested = ModeOff then ru_mode state = ModeOff
      else ru_mode state = requested \<or> ru_returnMode state = requested)"

definition enterHardwareFailSafe ::
  "('h, 'b, 't) firmware_env \<Rightarrow> ('h, 'b, 't) firmware_app \<Rightarrow> ('h, 'b, 't) firmware_app" where
  "enterHardwareFailSafe env s =
    (let s = s\<lparr>fw_status := (fw_status s)\<lparr>fs_hardwareOk := False, fs_running := False\<rparr>\<rparr>
     in s\<lparr>fw_hardware := snd (hwAllChannelsOff (en_hardware env) (fw_hardware s))\<rparr>)"

fun writeChannels :: "'h hardware_ops \<Rightarrow> ChannelLevels \<Rightarrow> nat list \<Rightarrow> 'h \<Rightarrow> bool \<times> 'h" where
  "writeChannels ops levels [] h = (True, h)"
| "writeChannels ops levels (channel # rest) h =
    (if \<not> hwIsChannelAvailable ops (of_nat channel) h then (False, h)
     else let (ok, h) = hwSetChannelPercent ops (of_nat channel) (levels ! channel) h
     in if \<not> ok then (False, h) else writeChannels ops levels rest h)"

definition writeOutputs :: "('h, 'b, 't) firmware_env \<Rightarrow> ('h, 'b, 't) firmware_app \<Rightarrow> bool \<times> ('h, 'b, 't) firmware_app" where
  "writeOutputs env s =
    (if \<not> hwIsReady (en_hardware env) (fw_hardware s) then (False, s)
     else let runtime = co_state (fw_core s);
              (ok, h) = (if \<not> ru_timeValid runtime \<or> ru_mode runtime = ModeOff
                then hwAllChannelsOff (en_hardware env) (fw_hardware s)
                else writeChannels (en_hardware env) (ru_actualLevels runtime) [0..<CHANNEL_COUNT] (fw_hardware s))
     in (ok, s\<lparr>fw_hardware := h\<rparr>))"

section \<open>Start and update\<close>

definition fw_loadConfig ::
  "('h, 'b, 't) firmware_env \<Rightarrow> ('h, 'b, 't) firmware_app \<Rightarrow> ('h, 'b, 't) firmware_app" where
  "fw_loadConfig env s =
    (let config = createDefaultConfig;
         (storageOk, st) = luma_storage_begin (en_image env) (en_backend env) (fw_storage s);
         (loadedFromNvs, config, st) = (if storageOk then luma_storage_load (en_image env) (en_backend env) config st
                                        else (False, config, st));
         (config, source) = (if loadedFromNvs \<and> validateDeviceConfig config then (config, Nvs)
                             else (createDefaultConfig, Defaults))
     in s\<lparr>fw_storage := st, fw_config := config,
          fw_status := (fw_status s)\<lparr>fs_storageOk := storageOk, fs_configSource := source,
            fs_configValid := validateDeviceConfig config\<rparr>\<rparr>)"

definition fw_begin ::
  "('h, 'b, 't) firmware_env \<Rightarrow> u32 \<Rightarrow> ('h, 'b, 't) firmware_app \<Rightarrow> bool \<times> ('h, 'b, 't) firmware_app" where
  "fw_begin env nowMs s =
    (let s = s\<lparr>fw_status := FirmwareStatus_default, fw_cachedLocalTime := emptyLocalTime,
               fw_lastRtcReadMs := nowMs, fw_rtcReadScheduled := False\<rparr>;
         s = fw_loadConfig env s
     in if \<not> fs_configValid (fw_status s) then (False, s)
     else let (hardwareOk, h) = hwBegin (en_hardware env) (Some (dc_channels (fw_config s))) (fw_hardware s);
              s = s\<lparr>fw_hardware := h, fw_status := (fw_status s)\<lparr>fs_hardwareOk := hardwareOk\<rparr>\<rparr>
     in if \<not> hardwareOk then (False, enterHardwareFailSafe env s)
     else let t = snd (warsaw_begin (en_bus env) (fw_time s));
              s = s\<lparr>fw_time := t, fw_cachedLocalTime := wts_current t, fw_rtcReadScheduled := True,
                    fw_status := (fw_status s)\<lparr>fs_rtcOk := warsaw_rtcInitialized t,
                      fs_timeValid := lt_valid (wts_current t)\<rparr>\<rparr>;
              (coreOk, core) = core_begin (fw_config s) (fw_core s);
              s = s\<lparr>fw_core := core, fw_status := (fw_status s)\<lparr>fs_coreOk := coreOk\<rparr>\<rparr>
     in if \<not> coreOk then (False, enterHardwareFailSafe env s)
     else (True, s\<lparr>fw_status := (fw_status s)\<lparr>fs_running := True\<rparr>\<rparr>))"

text \<open>The periodic read of the clock.\<close>

definition fw_readTime ::
  "('h, 'b, 't) firmware_env \<Rightarrow> u32 \<Rightarrow> ('h, 'b, 't) firmware_app \<Rightarrow> ('h, 'b, 't) firmware_app" where
  "fw_readTime env nowMs s =
    (if \<not> fw_rtcReadScheduled s \<or> nowMs - fw_lastRtcReadMs s \<ge> RTC_READ_INTERVAL_MS
     then let s = s\<lparr>fw_lastRtcReadMs := nowMs, fw_rtcReadScheduled := True\<rparr>;
              (local, t) = (if \<not> warsaw_rtcInitialized (fw_time s)
                then let t = snd (warsaw_begin (en_bus env) (fw_time s)) in (wts_current t, t)
                else warsaw_now (en_bus env) (fw_time s))
          in s\<lparr>fw_time := t, fw_cachedLocalTime := local,
               fw_status := (fw_status s)\<lparr>fs_rtcOk := warsaw_rtcInitialized t\<rparr>\<rparr>
     else s)"

definition fw_update ::
  "('h, 'b, 't) firmware_env \<Rightarrow> u32 \<Rightarrow> ('h, 'b, 't) firmware_app \<Rightarrow> bool \<times> ('h, 'b, 't) firmware_app" where
  "fw_update env nowMs s =
    (if \<not> fs_running (fw_status s) then (False, s)
     else if \<not> hwIsReady (en_hardware env) (fw_hardware s) then (False, enterHardwareFailSafe env s)
     else let s = fw_readTime env nowMs s;
              s = s\<lparr>fw_core := core_update (en_powf env) (fw_config s) (fw_cachedLocalTime s) nowMs (fw_core s)\<rparr>;
              s = s\<lparr>fw_status := (fw_status s)\<lparr>fs_timeValid := ru_timeValid (co_state (fw_core s))\<rparr>\<rparr>;
              (written, s) = writeOutputs env s
     in if \<not> written then (False, enterHardwareFailSafe env s) else (True, s))"

definition fw_rtcReadAgeMs :: "u32 \<Rightarrow> ('h, 'b, 't) firmware_app \<Rightarrow> u32" where
  "fw_rtcReadAgeMs nowMs s = (if fw_rtcReadScheduled s then nowMs - fw_lastRtcReadMs s else 0)"

section \<open>Commands\<close>

definition fw_setActiveProfileIndex ::
  "('h, 'b, 't) firmware_env \<Rightarrow> u8 \<Rightarrow> ('h, 'b, 't) firmware_app \<Rightarrow> FirmwareCommandResult \<times> ('h, 'b, 't) firmware_app" where
  "fw_setActiveProfileIndex env profileIndex s =
    (if unat profileIndex \<ge> PROFILE_COUNT then (Invalid, s)
     else if \<not> fs_running (fw_status s) then (Rejected, s)
     else if dc_activeProfileIndex (fw_config s) = profileIndex then (NoChange, s)
     else let candidate = (fw_config s)\<lparr>dc_activeProfileIndex := profileIndex\<rparr>
     in if \<not> validateDeviceConfig candidate then (Invalid, s)
     else if \<not> fs_storageOk (fw_status s) then (StorageFailure, s)
     else let (saved, st) = luma_storage_save (en_image env) (en_backend env) (en_candidateAddress env) candidate (fw_storage s);
              s = s\<lparr>fw_storage := st\<rparr>
     in if \<not> saved then (StorageFailure, s)
     else (Applied, s\<lparr>fw_config := candidate, fw_status := (fw_status s)\<lparr>fs_configSource := Nvs\<rparr>\<rparr>))"

definition fw_commandMode ::
  "OperatingMode \<Rightarrow> ('h, 'b, 't) firmware_app \<Rightarrow> FirmwareCommandResult \<times> ('h, 'b, 't) firmware_app" where
  "fw_commandMode requestedMode s =
    (if requestedMode \<noteq> ModeNormal \<and> requestedMode \<noteq> ModeService \<and> requestedMode \<noteq> ModeOff then (Invalid, s)
     else if \<not> fs_running (fw_status s) then (Rejected, s)
     else let before = co_state (fw_core s)
     in if reflectsMode before requestedMode then (NoChange, s)
     else let core = (case requestedMode of
            ModeNormal \<Rightarrow> (if ru_mode before = ModeOff then core_exitOff (fw_core s) else core_exitService (fw_core s))
          | ModeService \<Rightarrow> core_enterService (fw_core s)
          | _ \<Rightarrow> core_enterOff (fw_core s))
     in (if reflectsMode (co_state core) requestedMode then Applied else Rejected, s\<lparr>fw_core := core\<rparr>))"

definition fw_commandManual ::
  "ChannelLevels \<Rightarrow> u16 \<Rightarrow> u32 \<Rightarrow> ('h, 'b, 't) firmware_app \<Rightarrow> FirmwareCommandResult \<times> ('h, 'b, 't) firmware_app" where
  "fw_commandManual levels timeoutMinutes nowMs s =
    (if \<not> validManualLevels levels \<or> \<not> validManualTimeout timeoutMinutes then (Invalid, s)
     else if \<not> fs_running (fw_status s) then (Rejected, s)
     else if ru_mode (co_state (fw_core s)) = ModeManual
     then (Applied, s\<lparr>fw_core := core_setManualLevels levels (fw_core s)\<rparr>)
     else let s = s\<lparr>fw_core := core_enterManual levels timeoutMinutes nowMs (fw_core s)\<rparr>
     in (if ru_mode (co_state (fw_core s)) = ModeManual then Applied else Rejected, s))"

definition fw_exitManual ::
  "('h, 'b, 't) firmware_app \<Rightarrow> FirmwareCommandResult \<times> ('h, 'b, 't) firmware_app" where
  "fw_exitManual s =
    (if \<not> fs_running (fw_status s) then (Rejected, s)
     else if ru_mode (co_state (fw_core s)) \<noteq> ModeManual then (Rejected, s)
     else let s = s\<lparr>fw_core := core_exitManual (fw_core s)\<rparr>
     in (if ru_mode (co_state (fw_core s)) \<noteq> ModeManual then Applied else Rejected, s))"

section \<open>Scheduling of the network time\<close>

text \<open>
  \<open>NtpSyncCoordinator.cpp\<close>: one attempt when the Wi-Fi comes up, then the periodic ones. \<open>injected\<close> is what
  the monotonic clock of the service returns during the call.
\<close>

record ('b, 'n) ntp_coordinator =
  nsc_service :: "('b, 'n) ntp_service"
  nsc_wifiWasAvailable :: bool

definition nsc_begin :: "'n ntp_backend \<Rightarrow> u64 \<Rightarrow> u32 \<Rightarrow> ('b, 'n) ntp_coordinator \<Rightarrow> bool \<times> ('b, 'n) ntp_coordinator" where
  "nsc_begin ops injected nowMs s =
    (let (ok, service) = ntp_begin ops (nsc_service s) injected ntp_defaultConfig nowMs
     in (ok, s\<lparr>nsc_wifiWasAvailable := False, nsc_service := service\<rparr>))"

definition nsc_update ::
  "'b rtc_bus \<Rightarrow> 'n ntp_backend \<Rightarrow> u64 \<Rightarrow> bool \<Rightarrow> u32 \<Rightarrow> ('b, 'n) ntp_coordinator \<Rightarrow> ('b, 'n) ntp_coordinator" where
  "nsc_update bus ops injected wifiAvailable nowMs s =
    (let service = nsc_service s;
         service = (if wifiAvailable \<and> \<not> nsc_wifiWasAvailable s
                    then snd (ntp_requestSync_legacy ops service injected True nowMs) else service);
         service = ntp_update_legacy bus ops service injected wifiAvailable nowMs;
         service = (if wifiAvailable then snd (ntp_requestPeriodicSync_legacy ops service injected True nowMs) else service)
     in s\<lparr>nsc_service := service, nsc_wifiWasAvailable := wifiAvailable\<rparr>)"

end
