(* ===== verification/LumaRuns.thy ===== *)
theory LumaRuns
  imports LumaFirmware
begin

text \<open>
  What the operations of \<open>LumaCore\<close> and of the application keep: the published mode is the mode of the
  mode manager, a running application has a valid configuration, and the levels sent to the channels are
  within the limits of the configuration. The last section closes the application under its calls.
\<close>

section \<open>The core\<close>

definition coreOk :: "luma_core \<Rightarrow> bool" where
  "coreOk c \<longleftrightarrow> modesOk (co_modes c) \<and> ru_mode (co_state c) = mm_mode (co_modes c) \<and>
     ru_returnMode (co_state c) = mm_returnMode (co_modes c)"

datatype core_op = CoreEnterService | CoreExitService | CoreEnterManual ChannelLevels u16 u32 | CoreSetManualLevels ChannelLevels |
  CoreExitManual | CoreEnterChannelTest u8 f32 | CoreSetChannelTestLevel f32 | CoreExitChannelTest |
  CoreEnterPreview u8 u8 | CoreSetPreviewProfile u8 | CoreSetPreviewStage u8 | CoreExitPreview |
  CoreEnterSimulation u8 | CoreExitSimulation | CoreEnterOff | CoreExitOff

fun core_exec :: "core_op \<Rightarrow> core_step" where
  "core_exec CoreEnterService = core_enterService"
| "core_exec CoreExitService = core_exitService"
| "core_exec (CoreEnterManual levels timeoutMinutes nowMs) = core_enterManual levels timeoutMinutes nowMs"
| "core_exec (CoreSetManualLevels levels) = core_setManualLevels levels"
| "core_exec CoreExitManual = core_exitManual"
| "core_exec (CoreEnterChannelTest channel percent) = core_enterChannelTest channel percent"
| "core_exec (CoreSetChannelTestLevel percent) = core_setChannelTestLevel percent"
| "core_exec CoreExitChannelTest = core_exitChannelTest"
| "core_exec (CoreEnterPreview profileIndex stageIndex) = core_enterPreview profileIndex stageIndex"
| "core_exec (CoreSetPreviewProfile profileIndex) = core_setPreviewProfile profileIndex"
| "core_exec (CoreSetPreviewStage stageIndex) = core_setPreviewStage stageIndex"
| "core_exec CoreExitPreview = core_exitPreview"
| "core_exec (CoreEnterSimulation durationMinutes) = core_enterSimulation durationMinutes"
| "core_exec CoreExitSimulation = core_exitSimulation"
| "core_exec CoreEnterOff = core_enterOff"
| "core_exec CoreExitOff = core_exitOff"

lemma core_syncModeState_fields [simp]:
  "co_modes (core_syncModeState c) = co_modes c" "co_configured (core_syncModeState c) = co_configured c"
  "ru_mode (co_state (core_syncModeState c)) = mm_mode (co_modes c)"
  "ru_returnMode (co_state (core_syncModeState c)) = mm_returnMode (co_modes c)"
  "ru_actualLevels (co_state (core_syncModeState c)) = ru_actualLevels (co_state c)"
  "ru_timeValid (co_state (core_syncModeState c)) = ru_timeValid (co_state c)"
  by (simp_all add: core_syncModeState_def Let_def)

text \<open>A refused call of the mode manager changes nothing, and every call keeps its stack.\<close>

lemma mode_exec_refused: "mode_exec call m = (False, m') \<Longrightarrow> m' = m"
  by (cases call) (auto simp: mode_defs split: if_splits)

lemmas mode_calls = mode_exec_ok [of _ EnterService] mode_exec_ok [of _ ExitService] mode_exec_ok [of _ EnterManual]
  mode_exec_ok [of _ ExitManual] mode_exec_ok [of _ EnterChannelTest] mode_exec_ok [of _ ExitChannelTest]
  mode_exec_ok [of _ EnterPreview] mode_exec_ok [of _ ExitPreview] mode_exec_ok [of _ EnterSimulation]
  mode_exec_ok [of _ ExitSimulation] mode_exec_ok [of _ EnterOff] mode_exec_ok [of _ ExitOff]

lemmas mode_refused = mode_exec_refused [of EnterService] mode_exec_refused [of ExitService]
  mode_exec_refused [of EnterManual] mode_exec_refused [of ExitManual] mode_exec_refused [of EnterChannelTest]
  mode_exec_refused [of ExitChannelTest] mode_exec_refused [of EnterPreview] mode_exec_refused [of ExitPreview]
  mode_exec_refused [of EnterSimulation] mode_exec_refused [of ExitSimulation] mode_exec_refused [of EnterOff]
  mode_exec_refused [of ExitOff]

text \<open>The shape all mode commands of the core share.\<close>

definition modeCommand :: "mode_op \<Rightarrow> core_step \<Rightarrow> core_step" where
  "modeCommand call f c = (let (ok, m) = mode_exec call (co_modes c); c = c\<lparr>co_modes := m\<rparr>
     in if ok then core_syncModeState (f c) else c)"

definition plainStep :: "core_step \<Rightarrow> bool" where
  "plainStep f \<longleftrightarrow> (\<forall>c. co_modes (f c) = co_modes c \<and> co_state (f c) = co_state c \<and> co_configured (f c) = co_configured c)"

lemma modeCommand_keeps:
  assumes "coreOk c" and "plainStep f"
  shows "coreOk (modeCommand call f c)" "co_configured (modeCommand call f c) = co_configured c"
    "ru_actualLevels (co_state (modeCommand call f c)) = ru_actualLevels (co_state c)"
    "co_modes (modeCommand call f c) = snd (mode_exec call (co_modes c))"
proof -
  obtain ok m where e: "mode_exec call (co_modes c) = (ok, m)" by (metis surj_pair)
  have m: "modesOk m" using mode_exec_ok [of "co_modes c" call] assms(1) e by (simp add: coreOk_def)
  have f: "co_modes (f d) = co_modes d" "co_state (f d) = co_state d" "co_configured (f d) = co_configured d" for d
    using assms(2) by (simp_all add: plainStep_def)
  have "coreOk (modeCommand call f c) \<and> co_configured (modeCommand call f c) = co_configured c \<and>
    ru_actualLevels (co_state (modeCommand call f c)) = ru_actualLevels (co_state c) \<and>
    co_modes (modeCommand call f c) = snd (mode_exec call (co_modes c))"
  proof (cases ok)
    case True
    then show ?thesis by (simp add: modeCommand_def e coreOk_def f m)
  next
    case False
    then have "m = co_modes c" using mode_exec_refused [of call "co_modes c" m] e by simp
    then show ?thesis using assms(1) False by (simp add: modeCommand_def e coreOk_def)
  qed
  then show "coreOk (modeCommand call f c)" "co_configured (modeCommand call f c) = co_configured c"
    "ru_actualLevels (co_state (modeCommand call f c)) = ru_actualLevels (co_state c)"
    "co_modes (modeCommand call f c) = snd (mode_exec call (co_modes c))"
    by simp_all
qed

text \<open>The call of the mode manager a command makes, and what else the command does when it is accepted.\<close>

fun core_call :: "core_op \<Rightarrow> mode_op option" where
  "core_call CoreEnterService = Some EnterService"
| "core_call CoreExitService = Some ExitService"
| "core_call (CoreEnterManual levels timeoutMinutes nowMs) = Some EnterManual"
| "core_call (CoreSetManualLevels levels) = None"
| "core_call CoreExitManual = Some ExitManual"
| "core_call (CoreEnterChannelTest channel percent) = (if unat channel \<ge> CHANNEL_COUNT then None else Some EnterChannelTest)"
| "core_call (CoreSetChannelTestLevel percent) = None"
| "core_call CoreExitChannelTest = Some ExitChannelTest"
| "core_call (CoreEnterPreview profileIndex stageIndex) =
     (if unat profileIndex \<ge> PROFILE_COUNT \<or> unat stageIndex \<ge> DAY_STAGE_COUNT then None else Some EnterPreview)"
| "core_call (CoreSetPreviewProfile profileIndex) = None"
| "core_call (CoreSetPreviewStage stageIndex) = None"
| "core_call CoreExitPreview = Some ExitPreview"
| "core_call (CoreEnterSimulation durationMinutes) = Some EnterSimulation"
| "core_call CoreExitSimulation = Some ExitSimulation"
| "core_call CoreEnterOff = Some EnterOff"
| "core_call CoreExitOff = Some ExitOff"

lemma plain_setters:
  "plainStep (core_setManualLevels levels)" "plainStep (core_setChannelTestLevel percent)"
  "plainStep (core_setPreviewProfile index)" "plainStep (core_setPreviewStage index)"
  by (simp_all add: plainStep_def core_setManualLevels_def core_setChannelTestLevel_def core_setPreviewProfile_def
      core_setPreviewStage_def)

lemma core_exec_shape:
  "\<exists>f. plainStep f \<and> (case core_call call of None \<Rightarrow> core_exec call c = f c
     | Some mode \<Rightarrow> core_exec call c = modeCommand mode f c)"
proof -
  have id: "plainStep (\<lambda>c. c)" by (simp add: plainStep_def)
  show ?thesis
  proof (cases call)
    case CoreEnterService
    then show ?thesis by (intro exI [of _ "\<lambda>c. c"]) (simp add: id modeCommand_def core_enterService_def)
  next
    case CoreExitService
    then show ?thesis by (intro exI [of _ "\<lambda>c. c"]) (simp add: id modeCommand_def core_exitService_def)
  next
    case CoreExitPreview
    then show ?thesis by (intro exI [of _ "\<lambda>c. c"]) (simp add: id modeCommand_def core_exitPreview_def)
  next
    case (CoreEnterManual levels minutes nowMs)
    define t where "t = (if minutes \<noteq> 15 \<and> minutes \<noteq> 30 \<and> minutes \<noteq> 60 then 0 else minutes)"
    define f where "f = (\<lambda>c :: luma_core. let c = c\<lparr>co_manualLevels := levels, co_lastManualLevels := levels, co_manualStartedMs := nowMs\<rparr>
       in if t = 0 then c\<lparr>co_manualTimeoutMs := 0, co_manualTimerActive := False\<rparr>
          else c\<lparr>co_manualTimeoutMs := ucast t * 60 * 1000, co_manualTimerActive := True\<rparr>)"
    have "plainStep f" by (simp add: plainStep_def f_def Let_def)
    moreover have "core_exec call c = modeCommand EnterManual f c"
      unfolding CoreEnterManual core_exec.simps core_enterManual_def t_def [symmetric]
      by (cases "mm_enterManual (co_modes c)") (simp add: modeCommand_def f_def Let_def)
    ultimately show ?thesis using CoreEnterManual by auto
  next
    case CoreExitManual
    then show ?thesis by (intro exI [of _ "\<lambda>c. c\<lparr>co_manualTimerActive := False, co_manualTimeoutMs := 0\<rparr>"])
      (auto simp: plainStep_def modeCommand_def core_exitManual_def Let_def split: prod.split)
  next
    case (CoreEnterChannelTest channel percent)
    show ?thesis
      by (intro exI [of _ "if unat channel \<ge> CHANNEL_COUNT then (\<lambda>c. c) else
          (\<lambda>c. let c = c\<lparr>co_channelTestChannel := channel\<rparr>;
                 c = c\<lparr>co_channelTestLevels := zeroLevels[unat (co_channelTestChannel c) := boundPercent percent]\<rparr>
             in c\<lparr>co_lastChannelTestLevels := co_channelTestLevels c, co_channelTestTimerActive := False\<rparr>)"])
        (auto simp: CoreEnterChannelTest plainStep_def modeCommand_def core_enterChannelTest_def Let_def split: prod.split)
  next
    case CoreExitChannelTest
    then show ?thesis by (intro exI [of _ "\<lambda>c. c\<lparr>co_channelTestTimerActive := False\<rparr>"])
      (auto simp: plainStep_def modeCommand_def core_exitChannelTest_def Let_def split: prod.split)
  next
    case (CoreEnterPreview profileIndex stageIndex)
    show ?thesis
      by (intro exI [of _ "if unat profileIndex \<ge> PROFILE_COUNT \<or> unat stageIndex \<ge> DAY_STAGE_COUNT then (\<lambda>c. c) else
          (\<lambda>c. c\<lparr>co_previewProfileIndex := profileIndex, co_previewStageIndex := stageIndex,
               co_lastPreviewProfileIndex := profileIndex, co_lastPreviewStageIndex := stageIndex\<rparr>)"])
        (auto simp: CoreEnterPreview plainStep_def modeCommand_def core_enterPreview_def Let_def split: prod.split)
  next
    case (CoreEnterSimulation minutes)
    define d where "d = (let m = (if minutes < 1 then 1 else minutes) in if m > 15 then 15 else m)"
    have "core_exec call c = modeCommand EnterSimulation (\<lambda>c. c\<lparr>co_simulationStartedMs := 0,
               co_simulationDurationMs := ucast d * 60 * 1000, co_simulationActive := False,
               co_simulationEntryActive := True, co_simulationCompletionPending := False\<rparr>) c"
      by (cases "mm_enterSimulation (co_modes c)")
        (simp add: CoreEnterSimulation core_enterSimulation_def modeCommand_def d_def Let_def)
    moreover have "plainStep (\<lambda>c. c\<lparr>co_simulationStartedMs := 0,
               co_simulationDurationMs := ucast d * 60 * 1000, co_simulationActive := False,
               co_simulationEntryActive := True, co_simulationCompletionPending := False\<rparr>)" by (simp add: plainStep_def)
    ultimately show ?thesis using CoreEnterSimulation by auto
  next
    case CoreExitSimulation
    then show ?thesis by (intro exI [of _ "\<lambda>c. c\<lparr>co_simulationActive := False, co_simulationEntryActive := False,
               co_simulationCompletionPending := False\<rparr>"])
      (auto simp: plainStep_def modeCommand_def core_exitSimulation_def Let_def split: prod.split)
  next
    case CoreEnterOff
    then show ?thesis by (intro exI [of _ "\<lambda>c. c\<lparr>co_manualTimerActive := False, co_manualTimeoutMs := 0,
               co_channelTestTimerActive := False, co_simulationActive := False,
               co_simulationEntryActive := False, co_simulationCompletionPending := False\<rparr>"])
      (auto simp: plainStep_def modeCommand_def core_enterOff_def Let_def split: prod.split)
  next
    case CoreExitOff
    then show ?thesis by (intro exI [of _ "\<lambda>c. c\<lparr>co_initialized := False\<rparr>"])
      (auto simp: plainStep_def modeCommand_def core_exitOff_def Let_def split: prod.split)
  qed (intro exI [of _ "core_exec call"]; simp add: plain_setters)+
qed

lemma core_exec_keeps:
  assumes "coreOk c"
  shows "coreOk (core_exec call c)" "co_configured (core_exec call c) = co_configured c"
    "ru_actualLevels (co_state (core_exec call c)) = ru_actualLevels (co_state c)"
    "co_modes (core_exec call c) = (case core_call call of None \<Rightarrow> co_modes c | Some m \<Rightarrow> snd (mode_exec m (co_modes c)))"
proof -
  obtain f where f: "plainStep f" "case core_call call of None \<Rightarrow> core_exec call c = f c
     | Some mode \<Rightarrow> core_exec call c = modeCommand mode f c"
    using core_exec_shape [of call c] by blast
  have p: "co_modes (f c) = co_modes c" "co_state (f c) = co_state c" "co_configured (f c) = co_configured c"
    using f(1) by (simp_all add: plainStep_def)
  show "coreOk (core_exec call c)" "co_configured (core_exec call c) = co_configured c"
    "ru_actualLevels (co_state (core_exec call c)) = ru_actualLevels (co_state c)"
    "co_modes (core_exec call c) = (case core_call call of None \<Rightarrow> co_modes c | Some m \<Rightarrow> snd (mode_exec m (co_modes c)))"
    using f(2) p assms modeCommand_keeps [OF assms f(1)] by (simp_all add: coreOk_def split: option.splits)
qed

section \<open>The update of the core\<close>

text \<open>What the sections of \<open>update\<close> after the timeouts leave alone.\<close>

definition sameModes :: "luma_core \<Rightarrow> luma_core \<Rightarrow> bool" where
  "sameModes c d \<longleftrightarrow> co_modes d = co_modes c \<and> co_configured d = co_configured c \<and>
     ru_mode (co_state d) = ru_mode (co_state c) \<and> ru_returnMode (co_state d) = ru_returnMode (co_state c) \<and>
     ru_timeValid (co_state d) = ru_timeValid (co_state c)"

lemma sameModes_trans: "sameModes c d \<Longrightarrow> sameModes d e \<Longrightarrow> sameModes c e"
  by (simp add: sameModes_def)

lemma sameModes_ok: "sameModes c d \<Longrightarrow> coreOk c \<Longrightarrow> coreOk d"
  by (simp add: sameModes_def coreOk_def)

lemma same_observeTime: "sameModes c (snd (core_observeTime second nowMs c))"
  by (simp add: core_observeTime_def sameModes_def)

lemma same_observeProfiles: "sameModes c (snd (core_observeProfiles config c))"
  by (simp add: core_observeProfiles_def sameModes_def Let_def)

lemma same_calculation: "sameModes c (core_takeCalculation calculation c)"
  by (simp add: core_takeCalculation_def sameModes_def)

lemma same_request: "sameModes c (core_request config index second nowMs c)"
proof -
  have "sameModes c (core_simulate profile nowMs c)" for profile
    by (cases "simulatedSecond profile nowMs c") (simp_all add: core_simulate_def same_calculation, simp add: sameModes_def)
  then show ?thesis
    by (cases "ru_mode (co_state c)") (simp_all add: core_request_def Let_def same_calculation, simp_all add: sameModes_def)
qed

text \<open>No transition touches the published state.\<close>

definition sameState :: "luma_core \<Rightarrow> luma_core \<Rightarrow> bool" where
  "sameState c d \<longleftrightarrow> co_modes d = co_modes c \<and> co_configured d = co_configured c \<and> co_state d = co_state c"

lemma state_startFrom: "sameState c (core_startFrom previous target duration nowMs c)"
  by (simp add: core_startFrom_def sameState_def Let_def split_beta)

lemma state_firstStart: "sameState c (core_firstStart index nowMs c)"
  by (simp add: core_firstStart_def sameState_def Let_def)

lemma state_remember: "sameState c d \<Longrightarrow> sameState c (core_remember index d)"
  "sameState c d \<Longrightarrow> sameState c (core_rememberMode d)"
  by (simp_all add: core_remember_def core_rememberMode_def sameState_def)

lemma state_fields:
  "sameState c d \<Longrightarrow> sameState c (d\<lparr>co_lastPreviewProfileIndex := a, co_lastPreviewStageIndex := b\<rparr>)"
  "sameState c d \<Longrightarrow> sameState c (d\<lparr>co_lastChannelTestLevels := l\<rparr>)"
  "sameState c d \<Longrightarrow> sameState c (d\<lparr>co_lastManualLevels := l\<rparr>)"
  "sameState c d \<Longrightarrow> sameState c (d\<lparr>co_lastDayState := e, co_lastMode := m\<rparr>)"
  "sameState c d \<Longrightarrow> sameState c (d\<lparr>co_lastMode := m\<rparr>)"
  by (simp_all add: sameState_def)

lemma state_refl: "sameState c c"
  by (simp add: sameState_def)

lemmas sameStates = state_refl state_startFrom state_firstStart state_remember state_fields

lemma state_transitions: "sameState c (core_transitions index changed timeJump previous nowMs c)"
  unfolding core_transitions_def transition_branches Let_def by (simp add: sameStates)

lemma sameState_modes: "sameState c d \<Longrightarrow> sameModes c d"
  by (simp add: sameState_def sameModes_def)

lemma output_levels:
  "sameModes c (core_output powf config nowMs c)"
  "\<exists>source. ru_actualLevels (co_state (core_output powf config nowMs c)) = light_process powf source config"
proof -
  obtain source tr where s: "(if tr_active (co_transition c) then tr_updateTo nowMs (ru_requestedLevels (co_state c)) (co_transition c)
           else (ru_requestedLevels (co_state c), co_transition c)) = (source, tr)" by (metis surj_pair)
  show "sameModes c (core_output powf config nowMs c)"
    unfolding core_output_def s Let_def by (simp add: sameModes_def)
  have "ru_actualLevels (co_state (core_output powf config nowMs c)) = light_process powf source config"
    unfolding core_output_def s Let_def by simp
  then show "\<exists>source. ru_actualLevels (co_state (core_output powf config nowMs c)) = light_process powf source config" ..
qed

text \<open>The timeouts leave the mode in force, or the mode the return mode names.\<close>

lemma channelTestTimeout_keeps:
  assumes "coreOk c"
  shows "coreOk (core_channelTestTimeout nowMs c)" "co_configured (core_channelTestTimeout nowMs c) = co_configured c"
proof -
  have "core_channelTestTimeout nowMs c = modeCommand ExitChannelTest (\<lambda>c. c\<lparr>co_channelTestTimerActive := False\<rparr>) c \<or>
      (\<exists>b m. core_channelTestTimeout nowMs c = c\<lparr>co_channelTestStartedMs := m, co_channelTestTimerActive := b\<rparr>)"
  proof (cases "ru_mode (co_state c) = ModeChannelTest \<and> co_channelTestTimerActive c \<and>
      nowMs - co_channelTestStartedMs c \<ge> CHANNEL_TEST_TIMEOUT_MS")
    case True
    then show ?thesis by (simp add: core_channelTestTimeout_def modeCommand_def)
  next
    case False
    then have "core_channelTestTimeout nowMs c = c\<lparr>co_channelTestStartedMs := co_channelTestStartedMs (core_channelTestTimeout nowMs c),
      co_channelTestTimerActive := co_channelTestTimerActive (core_channelTestTimeout nowMs c)\<rparr>"
      by (auto simp: core_channelTestTimeout_def)
    then show ?thesis by blast
  qed
  then show "coreOk (core_channelTestTimeout nowMs c)" "co_configured (core_channelTestTimeout nowMs c) = co_configured c"
    using modeCommand_keeps(1,2) [OF assms, of "\<lambda>c. c\<lparr>co_channelTestTimerActive := False\<rparr>" ExitChannelTest] assms
    by (auto simp: plainStep_def coreOk_def)
qed

lemma manualTimeout_keeps:
  assumes "coreOk c"
  shows "coreOk (core_manualTimeout nowMs c)" "co_configured (core_manualTimeout nowMs c) = co_configured c"
proof -
  have "core_manualTimeout nowMs c = c \<or>
      core_manualTimeout nowMs c = modeCommand ExitManual (\<lambda>c. c\<lparr>co_manualTimerActive := False, co_manualTimeoutMs := 0\<rparr>) c"
    by (simp add: core_manualTimeout_def modeCommand_def)
  then show "coreOk (core_manualTimeout nowMs c)" "co_configured (core_manualTimeout nowMs c) = co_configured c"
    using modeCommand_keeps(1,2) [OF assms, of "\<lambda>c. c\<lparr>co_manualTimerActive := False, co_manualTimeoutMs := 0\<rparr>" ExitManual] assms
    by (auto simp: plainStep_def)
qed

lemma simulationCompletion_keeps:
  assumes "coreOk c"
  shows "coreOk (core_simulationCompletion c)" "co_configured (core_simulationCompletion c) = co_configured c"
proof -
  have "core_simulationCompletion c = c \<or> core_simulationCompletion c = modeCommand ExitSimulation
      (\<lambda>c. c\<lparr>co_simulationActive := False, co_simulationEntryActive := False, co_simulationCompletionPending := False\<rparr>) c"
    by (simp add: core_simulationCompletion_def modeCommand_def)
  then show "coreOk (core_simulationCompletion c)" "co_configured (core_simulationCompletion c) = co_configured c"
    using modeCommand_keeps(1,2) [OF assms, of "\<lambda>c. c\<lparr>co_simulationActive := False, co_simulationEntryActive := False,
      co_simulationCompletionPending := False\<rparr>" ExitSimulation] assms
    by (auto simp: plainStep_def)
qed

definition afterTimeouts :: "DeviceConfig \<Rightarrow> u32 \<Rightarrow> core_step" where
  "afterTimeouts config nowMs c = (let c = c\<lparr>co_state := (co_state c)\<lparr>ru_mode := mm_mode (co_modes c),
     ru_returnMode := mm_returnMode (co_modes c)\<rparr>\<rparr>
   in core_simulationCompletion (core_manualTimeout nowMs (core_channelTestTimeout nowMs (snd (core_observeProfiles config c)))))"

lemma afterTimeouts_keeps:
  assumes "coreOk c"
  shows "coreOk (afterTimeouts config nowMs c)" "co_configured (afterTimeouts config nowMs c) = co_configured c"
proof -
  define d where "d = c\<lparr>co_state := (co_state c)\<lparr>ru_mode := mm_mode (co_modes c), ru_returnMode := mm_returnMode (co_modes c)\<rparr>\<rparr>"
  have "sameModes c d" using assms by (simp add: d_def coreOk_def sameModes_def)
  from sameModes_trans [OF this same_observeProfiles [of d config]]
  have p: "coreOk (snd (core_observeProfiles config d))" "co_configured (snd (core_observeProfiles config d)) = co_configured c"
    using assms by (auto simp: sameModes_def intro: sameModes_ok)
  note t1 = channelTestTimeout_keeps [OF p(1), of nowMs]
  note t2 = manualTimeout_keeps [OF t1(1), of nowMs]
  note t3 = simulationCompletion_keeps [OF t2(1)]
  show "coreOk (afterTimeouts config nowMs c)" "co_configured (afterTimeouts config nowMs c) = co_configured c"
    using p t1 t2 t3 by (simp_all add: afterTimeouts_def d_def [symmetric])
qed

text \<open>The state \<open>update\<close> works on after the timeouts, and what it makes of it.\<close>

lemma core_update_shape:
  fixes c :: luma_core and config :: DeviceConfig and nowMs :: u32
  assumes "co_configured c"
  defines "d \<equiv> afterTimeouts config nowMs c"
  obtains (off) "ru_mode (co_state d) = ModeOff" "core_update powf config localTime nowMs c = core_dark ModeOff d"
  | (noTime) e where "ru_mode (co_state d) \<noteq> ModeOff" "\<not> lt_valid localTime" "co_modes e = co_modes d"
      "co_configured e = co_configured d" "ru_mode (co_state e) = ru_mode (co_state d)"
      "ru_returnMode (co_state e) = ru_returnMode (co_state d)" "\<not> ru_timeValid (co_state e)"
      "core_update powf config localTime nowMs c = core_dark (ru_mode (co_state d)) e"
  | (lit) e where "ru_mode (co_state d) \<noteq> ModeOff" "lt_valid localTime" "ru_timeValid (co_state e)"
      "co_modes e = co_modes d" "co_configured e = co_configured d" "ru_mode (co_state e) = ru_mode (co_state d)"
      "ru_returnMode (co_state e) = ru_returnMode (co_state d)"
      "core_update powf config localTime nowMs c = core_output powf config nowMs e"
proof -
  define b where "b = c\<lparr>co_state := (co_state c)\<lparr>ru_mode := mm_mode (co_modes c), ru_returnMode := mm_returnMode (co_modes c)\<rparr>\<rparr>"
  obtain changed p where p: "core_observeProfiles config b = (changed, p)" by (metis surj_pair)
  have d: "d = core_simulationCompletion (core_manualTimeout nowMs (core_channelTestTimeout nowMs p))"
    by (simp add: d_def afterTimeouts_def b_def [symmetric] p)
  consider "ru_mode (co_state d) = ModeOff" | "ru_mode (co_state d) \<noteq> ModeOff" "\<not> lt_valid localTime" |
    "ru_mode (co_state d) \<noteq> ModeOff" "lt_valid localTime" by blast
  then show thesis
  proof cases
    case 1
    then show thesis using assms(1) off unfolding core_update_def b_def [symmetric] Let_def p prod.case d [symmetric] by simp
  next
    case 2
    then show thesis using assms(1) noTime [of "d\<lparr>co_state := (co_state d)\<lparr>ru_timeValid := False, ru_currentMinuteOfDay := 0\<rparr>\<rparr>"]
      unfolding core_update_def b_def [symmetric] Let_def p prod.case d [symmetric] by simp
  next
    case 3
    define d1 where "d1 = d\<lparr>co_state := (co_state d)\<lparr>ru_timeValid := True, ru_currentMinuteOfDay := lt_minuteOfDay localTime\<rparr>\<rparr>"
    obtain jump o1 where o1: "core_observeTime (realSecond localTime) nowMs d1 = (jump, o1)" by (metis surj_pair)
    define r1 where "r1 = core_request config (core_profileIndex config o1) (realSecond localTime) nowMs o1"
    define e where "e = core_transitions (core_profileIndex config o1) changed jump (ru_requestedLevels (co_state d)) nowMs r1"
    have u: "core_update powf config localTime nowMs c = core_output powf config nowMs e"
      unfolding core_update_def b_def [symmetric] Let_def p prod.case d [symmetric]
      using 3 assms(1) o1 by (simp add: d1_def [symmetric] r1_def e_def)
    have "sameModes d1 o1" using same_observeTime [of d1 "realSecond localTime" nowMs] o1 by simp
    then have "sameModes d1 r1" using same_request sameModes_trans unfolding r1_def by blast
    then have "sameModes d1 e" using state_transitions sameState_modes sameModes_trans unfolding e_def by blast
    then show thesis using lit [of e] u 3 by (simp add: sameModes_def d1_def)
  qed
qed

lemma core_update_keeps:
  fixes c :: luma_core and config :: DeviceConfig and nowMs :: u32 and powf :: "f32 \<Rightarrow> f32 \<Rightarrow> f32" and localTime :: LocalTime
  assumes "coreOk c" and "co_configured c"
  defines "u \<equiv> core_update powf config localTime nowMs c"
  shows "coreOk u" "co_configured u"
    "ru_mode (co_state u) = ModeOff \<or> \<not> lt_valid localTime \<Longrightarrow>
      ru_actualLevels (co_state u) = zeroLevels \<and> ru_requestedLevels (co_state u) = zeroLevels"
    "ru_mode (co_state u) \<noteq> ModeOff \<Longrightarrow> ru_timeValid (co_state u) = lt_valid localTime"
    "ru_mode (co_state u) \<noteq> ModeOff \<Longrightarrow> lt_valid localTime \<Longrightarrow>
      \<exists>source. ru_actualLevels (co_state u) = light_process powf source config"
proof -
  note d = afterTimeouts_keeps [OF assms(1), of config nowMs]
  have "coreOk u \<and> co_configured u \<and>
    (ru_mode (co_state u) = ModeOff \<or> \<not> lt_valid localTime \<longrightarrow>
      ru_actualLevels (co_state u) = zeroLevels \<and> ru_requestedLevels (co_state u) = zeroLevels) \<and>
    (ru_mode (co_state u) \<noteq> ModeOff \<longrightarrow> ru_timeValid (co_state u) = lt_valid localTime) \<and>
    (ru_mode (co_state u) \<noteq> ModeOff \<and> lt_valid localTime \<longrightarrow>
      (\<exists>source. ru_actualLevels (co_state u) = light_process powf source config))"
  proof (cases rule: core_update_shape [OF assms(2), of config nowMs powf localTime, case_names off noTime lit])
    case off
    then show ?thesis using d assms(2) by (simp add: u_def core_dark_def coreOk_def)
  next
    case (noTime e)
    then show ?thesis using d assms(2) by (simp add: u_def core_dark_def coreOk_def)
  next
    case (lit e)
    have "sameModes e u" unfolding u_def lit(8) by (rule output_levels(1))
    then have "coreOk u \<and> co_configured u \<and> ru_timeValid (co_state u) \<and> ru_mode (co_state u) \<noteq> ModeOff"
      using lit d assms(2) by (simp add: sameModes_def coreOk_def)
    then show ?thesis using lit(2) output_levels(2) [of powf config nowMs e] by (simp add: u_def lit(8))
  qed
  then show "coreOk u" "co_configured u"
    "ru_mode (co_state u) = ModeOff \<or> \<not> lt_valid localTime \<Longrightarrow>
      ru_actualLevels (co_state u) = zeroLevels \<and> ru_requestedLevels (co_state u) = zeroLevels"
    "ru_mode (co_state u) \<noteq> ModeOff \<Longrightarrow> ru_timeValid (co_state u) = lt_valid localTime"
    "ru_mode (co_state u) \<noteq> ModeOff \<Longrightarrow> lt_valid localTime \<Longrightarrow>
      \<exists>source. ru_actualLevels (co_state u) = light_process powf source config"
    by blast+
qed

end
