(* ===== verification/LumaSafety.thy ===== *)
theory LumaSafety
  imports LumaRuns
begin

text \<open>
  The application under its calls: the invariant \<open>firmwareOk\<close> (what \<open>begin\<close> establishes and every call keeps),
  the states reachable from a start, and what an update writes to the lamp.
\<close>

section \<open>Levels within the limits\<close>

definition levelsWithin :: "DeviceConfig \<Rightarrow> ChannelLevels \<Rightarrow> bool" where
  "levelsWithin config levels \<longleftrightarrow> list_all (\<lambda>channel. \<exists>q. levels ! channel = Fin q \<and> 0 \<le> q \<and> q \<le> 100 \<and>
     fle (Fin q) (cc_hardMaxPercent (dc_channels config ! channel)) \<and>
     (cc_enabled (dc_channels config ! channel) \<or> q = 0)) [0..<CHANNEL_COUNT]"

lemma levelsWithin_at:
  "levelsWithin config levels \<Longrightarrow> channel < CHANNEL_COUNT \<Longrightarrow> \<exists>q. levels ! channel = Fin q \<and> 0 \<le> q \<and> q \<le> 100 \<and>
     fle (Fin q) (cc_hardMaxPercent (dc_channels config ! channel)) \<and>
     (cc_enabled (dc_channels config ! channel) \<or> q = 0)"
  by (simp add: levelsWithin_def list_all_iff del: upt_8)

lemma validConfig_hardMax:
  assumes "validateDeviceConfig config" and "channel < CHANNEL_COUNT"
  shows "isFinitePercent (cc_hardMaxPercent (dc_channels config ! channel))"
  using assms by (auto simp: validateDeviceConfig_def validateChannel_def isFinitePercent_def isFiniteInRange_def
      list_all_iff simp del: upt_8 upt_5 split: if_splits)

lemma process_within:
  assumes "validateDeviceConfig config"
  shows "levelsWithin config (light_process powf source config)"
proof -
  have "\<exists>q. processChannel powf r (dc_channels config ! channel) g = Fin q \<and> 0 \<le> q \<and> q \<le> 100 \<and>
      fle (Fin q) (cc_hardMaxPercent (dc_channels config ! channel)) \<and>
      (cc_enabled (dc_channels config ! channel) \<or> q = 0)" if c: "channel < CHANNEL_COUNT" for channel r g
  proof -
    note h = validConfig_hardMax [OF assms c]
    obtain q where q: "processChannel powf r (dc_channels config ! channel) g = Fin q" "0 \<le> q" "q \<le> 100"
      using processChannel_range by blast
    then show ?thesis
      using processChannel_limit [OF h, of powf r g] processChannel_off [of "dc_channels config ! channel" r g powf] by auto
  qed
  then show ?thesis by (simp add: levelsWithin_def light_process_def list_all_iff del: upt_8)
qed

lemma zero_within:
  assumes "validateDeviceConfig config"
  shows "levelsWithin config zeroLevels"
proof -
  have "fle (Fin 0) (cc_hardMaxPercent (dc_channels config ! channel))" if "channel < CHANNEL_COUNT" for channel
    using validConfig_hardMax [OF assms that] by (simp add: isFinitePercent_def LEVEL_MIN_PERCENT_def)
  then show ?thesis by (auto simp: levelsWithin_def list_all_iff simp del: upt_8 replicate_8)
qed

lemma levelsWithin_profile [simp]: "levelsWithin (config\<lparr>dc_activeProfileIndex := i\<rparr>) levels = levelsWithin config levels"
  by (simp add: levelsWithin_def)

section \<open>The invariant\<close>

definition firmwareOk :: "('h, 'b, 't) firmware_app \<Rightarrow> bool" where
  "firmwareOk s \<longleftrightarrow> (fs_running (fw_status s) \<longrightarrow> coreOk (fw_core s) \<and> co_configured (fw_core s) \<and>
     validateDeviceConfig (fw_config s) \<and> levelsWithin (fw_config s) (ru_actualLevels (co_state (fw_core s))))"

datatype fw_call = FwUpdate u32 | FwSetActiveProfileIndex u8 | FwCommandMode OperatingMode |
  FwCommandManual ChannelLevels u16 u32 | FwExitManual

fun fw_exec :: "('h, 'b, 't) firmware_env \<Rightarrow> fw_call \<Rightarrow> ('h, 'b, 't) firmware_app \<Rightarrow> ('h, 'b, 't) firmware_app" where
  "fw_exec env (FwUpdate nowMs) s = snd (fw_update env nowMs s)"
| "fw_exec env (FwSetActiveProfileIndex index) s = snd (fw_setActiveProfileIndex env index s)"
| "fw_exec env (FwCommandMode mode) s = snd (fw_commandMode mode s)"
| "fw_exec env (FwCommandManual levels timeoutMinutes nowMs) s = snd (fw_commandManual levels timeoutMinutes nowMs s)"
| "fw_exec env FwExitManual s = snd (fw_exitManual s)"

definition fw_run :: "('h, 'b, 't) firmware_env \<Rightarrow> fw_call list \<Rightarrow> ('h, 'b, 't) firmware_app \<Rightarrow> ('h, 'b, 't) firmware_app" where
  "fw_run env calls s = fold (fw_exec env) calls s"

text \<open>\<open>begin\<close> on any application object; \<open>core()\<close> also hands out the core to direct commands.\<close>

inductive fw_reach :: "('h, 'b, 't) firmware_env \<Rightarrow> ('h, 'b, 't) firmware_app \<Rightarrow> bool" for env where
  start: "fw_begin env nowMs s = (ok, t) \<Longrightarrow> fw_reach env t"
| call: "fw_reach env s \<Longrightarrow> fw_reach env (fw_exec env c s)"
| core: "fw_reach env s \<Longrightarrow> fw_reach env (s\<lparr>fw_core := core_exec c (fw_core s)\<rparr>)"

lemma failSafe_fields [simp]:
  "\<not> fs_running (fw_status (enterHardwareFailSafe env s))" "fw_core (enterHardwareFailSafe env s) = fw_core s"
  "fw_config (enterHardwareFailSafe env s) = fw_config s"
  by (simp_all add: enterHardwareFailSafe_def Let_def)

lemma core_begin_ok:
  assumes "validateDeviceConfig config"
  shows "fst (core_begin config c)" "coreOk (snd (core_begin config c))" "co_configured (snd (core_begin config c))"
    "ru_actualLevels (co_state (snd (core_begin config c))) = zeroLevels"
  using assms by (simp_all add: core_begin_def Let_def coreOk_def mm_resetToNormal_def modesOk_def activeModes_def
      RuntimeState_default_def)

lemma loadConfig_fields:
  "fs_configValid (fw_status (fw_loadConfig env s)) = validateDeviceConfig (fw_config (fw_loadConfig env s))"
  "fs_running (fw_status (fw_loadConfig env s)) = fs_running (fw_status s)"
  by (simp_all add: fw_loadConfig_def Let_def split_beta)

lemma fw_begin_ok:
  assumes "fw_begin env nowMs s = (ok, t)"
  shows "firmwareOk t" "fs_running (fw_status t) = ok"
proof -
  define s1 where "s1 = fw_loadConfig env (s\<lparr>fw_status := FirmwareStatus_default, fw_cachedLocalTime := emptyLocalTime,
               fw_lastRtcReadMs := nowMs, fw_rtcReadScheduled := False\<rparr>)"
  have s1: "fs_configValid (fw_status s1) = validateDeviceConfig (fw_config s1)" "\<not> fs_running (fw_status s1)"
    unfolding s1_def loadConfig_fields by (simp_all add: FirmwareStatus_default_def)
  have "firmwareOk t \<and> fs_running (fw_status t) = ok"
  proof (cases "validateDeviceConfig (fw_config s1)")
    case False
    then show ?thesis using assms s1 unfolding fw_begin_def Let_def s1_def [symmetric] by (auto simp: firmwareOk_def)
  next
    case True
    note core = core_begin_ok [OF True]
    obtain hok h where h: "hwBegin (en_hardware env) (Some (dc_channels (fw_config s1))) (fw_hardware s1) = (hok, h)"
      by (metis surj_pair)
    show ?thesis
    proof (cases hok)
      case False
      then show ?thesis using assms True s1 h unfolding fw_begin_def Let_def s1_def [symmetric] by (auto simp: firmwareOk_def)
    next
      case hw: True
      obtain c where c: "core_begin (fw_config s1) (fw_core s1) = (True, c)" using core(1) by (metis prod.collapse)
      show ?thesis using assms True s1 h hw c core [of "fw_core s1"] zero_within [OF True]
        unfolding fw_begin_def Let_def s1_def [symmetric] by (auto simp: firmwareOk_def)
    qed
  qed
  then show "firmwareOk t" "fs_running (fw_status t) = ok" by auto
qed

lemma readTime_fields [simp]:
  "fw_core (fw_readTime env nowMs s) = fw_core s" "fw_config (fw_readTime env nowMs s) = fw_config s"
  "fs_running (fw_status (fw_readTime env nowMs s)) = fs_running (fw_status s)"
  "fw_hardware (fw_readTime env nowMs s) = fw_hardware s"
  by (simp_all add: fw_readTime_def Let_def split_beta)

lemma writeOutputs_fields:
  "fw_core (snd (writeOutputs env s)) = fw_core s" "fw_config (snd (writeOutputs env s)) = fw_config s"
  "fw_status (snd (writeOutputs env s)) = fw_status s"
  by (simp_all add: writeOutputs_def Let_def split_beta)

text \<open>What an update does to a running application.\<close>

definition fw_updatedCore :: "('h, 'b, 't) firmware_env \<Rightarrow> u32 \<Rightarrow> ('h, 'b, 't) firmware_app \<Rightarrow> luma_core" where
  "fw_updatedCore env nowMs s =
     core_update (en_powf env) (fw_config s) (fw_cachedLocalTime (fw_readTime env nowMs s)) nowMs (fw_core s)"

lemma fw_update_shape:
  assumes "fs_running (fw_status s)" and "fw_update env nowMs s = (ok, t)"
  obtains (notReady) "\<not> ok" "t = enterHardwareFailSafe env s" "\<not> hwIsReady (en_hardware env) (fw_hardware s)"
  | (failed) u v where "\<not> ok" "t = enterHardwareFailSafe env u" "fw_core u = fw_updatedCore env nowMs s" "fw_config u = fw_config s"
      "writeOutputs env v = (False, u)" "fw_core v = fw_updatedCore env nowMs s" "fw_hardware v = fw_hardware s"
      "hwIsReady (en_hardware env) (fw_hardware s)"
  | (written) u where "ok" "writeOutputs env u = (True, t)" "fw_core u = fw_updatedCore env nowMs s" "fw_config u = fw_config s"
      "fs_running (fw_status u)" "fw_hardware u = fw_hardware s"
proof (cases "hwIsReady (en_hardware env) (fw_hardware s)")
  case False
  then show thesis using assms notReady by (auto simp: fw_update_def)
next
  case True
  define r where "r = fw_readTime env nowMs s"
  define v where "v = r\<lparr>fw_core := fw_updatedCore env nowMs s\<rparr>"
  define u where "u = v\<lparr>fw_status := (fw_status v)\<lparr>fs_timeValid := ru_timeValid (co_state (fw_core v))\<rparr>\<rparr>"
  obtain w x where w: "writeOutputs env u = (w, x)" by (metis surj_pair)
  have e: "fw_update env nowMs s = (if w then (True, x) else (False, enterHardwareFailSafe env x))"
    using assms(1) True w
    by (simp add: fw_update_def r_def [symmetric] fw_updatedCore_def v_def u_def Let_def)
      (simp add: r_def)
  have "fw_core x = fw_core u" "fw_config x = fw_config u" using writeOutputs_fields(1,2) [of env u] w by simp_all
  then show thesis using e assms failed [of x u] written [of u] w True
    by (cases w) (auto simp: u_def v_def r_def)
qed

lemma updatedCore_keeps:
  assumes "firmwareOk s" and "fs_running (fw_status s)"
  shows "coreOk (fw_updatedCore env nowMs s)" "co_configured (fw_updatedCore env nowMs s)"
    "levelsWithin (fw_config s) (ru_actualLevels (co_state (fw_updatedCore env nowMs s)))"
proof -
  have s: "coreOk (fw_core s)" "co_configured (fw_core s)" "validateDeviceConfig (fw_config s)"
    using assms by (simp_all add: firmwareOk_def)
  note u = core_update_keeps [OF s(1,2), of "en_powf env" "fw_config s" "fw_cachedLocalTime (fw_readTime env nowMs s)" nowMs,
      folded fw_updatedCore_def]
  show "coreOk (fw_updatedCore env nowMs s)" "co_configured (fw_updatedCore env nowMs s)" by (rule u(1), rule u(2))
  show "levelsWithin (fw_config s) (ru_actualLevels (co_state (fw_updatedCore env nowMs s)))"
    using u(3,5) zero_within [OF s(3)] process_within [OF s(3)]
    by (metis (no_types))
qed

lemma guard_chain: "(if a then False else if b then False else if c then False else True) \<longleftrightarrow> \<not> a \<and> \<not> b \<and> \<not> c"
  by simp

lemma validConfig_profile:
  "validateDeviceConfig config \<Longrightarrow> unat index < PROFILE_COUNT \<Longrightarrow> validateDeviceConfig (config\<lparr>dc_activeProfileIndex := index\<rparr>)"
  unfolding validateDeviceConfig_def guard_chain by simp

lemma firmwareOk_core:
  assumes "firmwareOk s"
  shows "firmwareOk (s\<lparr>fw_core := core_exec c (fw_core s)\<rparr>)"
  using assms core_exec_keeps [of "fw_core s" c] by (simp add: firmwareOk_def)

text \<open>Each command is a command of the core, or changes the profile.\<close>

lemma commandMode_core:
  "snd (fw_commandMode mode s) = s \<or> (\<exists>c. snd (fw_commandMode mode s) = s\<lparr>fw_core := core_exec c (fw_core s)\<rparr>)"
proof -
  define c where "c = (case mode of ModeNormal \<Rightarrow> if ru_mode (co_state (fw_core s)) = ModeOff then CoreExitOff else CoreExitService
    | ModeService \<Rightarrow> CoreEnterService | _ \<Rightarrow> CoreEnterOff)"
  have "snd (fw_commandMode mode s) = s \<or> snd (fw_commandMode mode s) = s\<lparr>fw_core := core_exec c (fw_core s)\<rparr>"
    by (cases mode) (simp_all add: fw_commandMode_def Let_def c_def)
  then show ?thesis by blast
qed

lemma firmwareOk_exec:
  assumes "firmwareOk s"
  shows "firmwareOk (fw_exec env c s)"
proof (cases c)
  case (FwUpdate nowMs)
  show ?thesis
  proof (cases "fs_running (fw_status s)")
    case False
    then show ?thesis using assms FwUpdate by (simp add: fw_update_def)
  next
    case True
    obtain ok t where t: "fw_update env nowMs s = (ok, t)" by (metis surj_pair)
    show ?thesis
    proof (cases rule: fw_update_shape [OF True t, case_names notReady failed written])
      case (written u)
      then have "fw_core t = fw_core u" "fw_config t = fw_config u"
        using writeOutputs_fields(1,2) [of env u] by simp_all
      then show ?thesis using updatedCore_keeps [OF assms True, of env nowMs] written assms True t FwUpdate
        by (simp add: firmwareOk_def)
    qed (use t FwUpdate in \<open>simp_all add: firmwareOk_def\<close>)
  qed
next
  case (FwSetActiveProfileIndex index)
  then show ?thesis using assms
    by (simp add: fw_setActiveProfileIndex_def firmwareOk_def Let_def split_beta)
next
  case (FwCommandMode mode)
  then show ?thesis using commandMode_core [of mode s] firmwareOk_core [OF assms] assms by auto
next
  case (FwCommandManual levels timeoutMinutes nowMs)
  then show ?thesis using firmwareOk_core [OF assms, of "CoreEnterManual levels timeoutMinutes nowMs"]
      firmwareOk_core [OF assms, of "CoreSetManualLevels levels"] assms
    by (simp add: fw_commandManual_def Let_def)
next
  case FwExitManual
  then show ?thesis using firmwareOk_core [OF assms, of CoreExitManual] assms by (simp add: fw_exitManual_def Let_def)
qed

lemma fw_reach_ok: "fw_reach env s \<Longrightarrow> firmwareOk s"
  by (induction rule: fw_reach.induct) (blast intro: fw_begin_ok(1) firmwareOk_exec firmwareOk_core)+

section \<open>Start\<close>

text \<open>The start depends on the lamp hardware only: storage and clock may fail.\<close>

lemma fw_begin_config:
  "fw_begin env nowMs s = (ok, t) \<Longrightarrow> validateDeviceConfig (fw_config t) \<and>
     (fs_configSource (fw_status t) = Defaults \<longrightarrow> fw_config t = createDefaultConfig) \<and>
     (ok \<longleftrightarrow> fst (hwBegin (en_hardware env) (Some (dc_channels (fw_config t))) (fw_hardware s))) \<and>
     (ok \<longrightarrow> fw_hardware t = snd (hwBegin (en_hardware env) (Some (dc_channels (fw_config t))) (fw_hardware s)))"
proof -
  assume started: "fw_begin env nowMs s = (ok, t)"
  define s0 where "s0 = s\<lparr>fw_status := FirmwareStatus_default, fw_cachedLocalTime := emptyLocalTime,
               fw_lastRtcReadMs := nowMs, fw_rtcReadScheduled := False\<rparr>"
  define s1 where "s1 = fw_loadConfig env s0"
  have v: "validateDeviceConfig (fw_config s1)" "fs_configSource (fw_status s1) = Defaults \<longrightarrow> fw_config s1 = createDefaultConfig"
    "fw_hardware s1 = fw_hardware s"
    by (simp_all add: s1_def fw_loadConfig_def Let_def split_beta default_validates s0_def)
  have c: "fs_configValid (fw_status s1)" using v(1) by (simp add: s1_def loadConfig_fields)
  obtain hok h where h: "hwBegin (en_hardware env) (Some (dc_channels (fw_config s1))) (fw_hardware s1) = (hok, h)"
    by (metis surj_pair)
  obtain k where k: "core_begin (fw_config s1) (fw_core s1) = (True, k)"
    using core_begin_ok(1) [OF v(1)] by (metis prod.collapse)
  show ?thesis
    using started c v h k unfolding fw_begin_def Let_def s0_def [symmetric] s1_def [symmetric]
    by (cases hok) (auto simp: enterHardwareFailSafe_def Let_def)
qed

lemma fw_begin_core:
  "fw_begin env nowMs s = (True, t) \<Longrightarrow> fw_core t = snd (core_begin (fw_config t) (fw_core s))"
proof -
  assume started: "fw_begin env nowMs s = (True, t)"
  define s0 where "s0 = s\<lparr>fw_status := FirmwareStatus_default, fw_cachedLocalTime := emptyLocalTime,
               fw_lastRtcReadMs := nowMs, fw_rtcReadScheduled := False\<rparr>"
  have core: "fw_core (fw_loadConfig env s0) = fw_core s" by (simp add: fw_loadConfig_def Let_def split_beta s0_def)
  show ?thesis
    using started unfolding fw_begin_def Let_def s0_def [symmetric]
    by (auto simp: core split_beta split: if_splits)
qed

section \<open>Writing the lamp\<close>

context lamp_output
begin

lemma writeChannels_shows:
  assumes "writeChannels ops levels cs h = (True, h')" and "distinct cs" and "set cs \<subseteq> {..<CHANNEL_COUNT}"
  shows "(\<forall>c\<in>set cs. shows_level h' c (levels ! c)) \<and>
    (\<forall>c level. c \<notin> set cs \<longrightarrow> c < CHANNEL_COUNT \<longrightarrow> shows_level h c level \<longrightarrow> shows_level h' c level)"
  using assms
proof (induction cs arbitrary: h)
  case (Cons channel rest)
  obtain h1 where h1: "hwSetChannelPercent ops (of_nat channel) (levels ! channel) h = (True, h1)"
    "writeChannels ops levels rest h1 = (True, h')"
    using Cons.prems(1) by (auto simp: Let_def split: prod.splits if_splits)
  have u: "unat (of_nat channel :: u8) = channel" "channel < CHANNEL_COUNT" "channel \<notin> set rest"
    "distinct rest" "set rest \<subseteq> {..<CHANNEL_COUNT}"
    using Cons.prems(2,3) by (auto simp: unat_of_nat)
  note s = set_shows [OF h1(1), unfolded u] and k = set_keeps [OF h1(1), unfolded u]
  note ih = Cons.IH [OF h1(2) u(4,5)]
  show ?case using s k ih u(2,3) by auto
qed simp

lemma writeOutputs_shows:
  assumes "writeOutputs env s = (True, t)" and "en_hardware env = ops"
  shows "if \<not> ru_timeValid (co_state (fw_core s)) \<or> ru_mode (co_state (fw_core s)) = ModeOff then dark (fw_hardware t)
    else (\<forall>c<CHANNEL_COUNT. shows_level (fw_hardware t) c (ru_actualLevels (co_state (fw_core s)) ! c))"
proof (cases "\<not> ru_timeValid (co_state (fw_core s)) \<or> ru_mode (co_state (fw_core s)) = ModeOff")
  case True
  then have "hwAllChannelsOff ops (fw_hardware s) = (True, fw_hardware t)"
    using assms by (auto simp: writeOutputs_def split: if_splits prod.splits)
  then show ?thesis using True off_dark by simp
next
  case False
  then have "writeChannels ops (ru_actualLevels (co_state (fw_core s))) [0..<CHANNEL_COUNT] (fw_hardware s) = (True, fw_hardware t)"
    using assms by (auto simp: writeOutputs_def simp del: upt_8 writeChannels.simps split: if_splits prod.splits)
  from writeChannels_shows [OF this] show ?thesis using False by (auto simp: atLeast0LessThan simp del: upt_8)
qed

end

context lamp_pins
begin

lemma lamp_contract: "lamp_output (lampHardware pins gpio) (lampDark duty latch pins) (showsLevel duty pins)"
  by unfold_locales

end

section \<open>Off\<close>

lemma off_timeouts:
  assumes "coreOk c" and "mm_mode (co_modes c) = ModeOff"
  shows "co_modes (afterTimeouts config nowMs c) = co_modes c"
  using assms by (simp add: afterTimeouts_def coreOk_def core_observeProfiles_def core_channelTestTimeout_def
      core_manualTimeout_def core_simulationCompletion_def Let_def)

lemma off_update:
  assumes "coreOk c" and "co_configured c" and "ru_mode (co_state c) = ModeOff"
  shows "ru_mode (co_state (core_update powf config localTime nowMs c)) = ModeOff"
proof -
  have m: "mm_mode (co_modes c) = ModeOff" using assms by (simp add: coreOk_def)
  have d: "ru_mode (co_state (afterTimeouts config nowMs c)) = ModeOff"
    using off_timeouts [OF assms(1) m] afterTimeouts_keeps(1) [OF assms(1)] m by (simp add: coreOk_def)
  show ?thesis
    by (cases rule: core_update_shape [OF assms(2), of config nowMs powf localTime]) (simp_all add: d core_dark_def)
qed

lemma off_return:
  assumes "coreOk c" and "ru_mode (co_state c) = ModeOff"
  shows "ru_returnMode (co_state c) = ModeNormal"
  using assms by (auto simp: coreOk_def modesOk_def activeModes_def)

text \<open>While the mode is off every call leaves it off.\<close>

definition offOk :: "('h, 'b, 't) firmware_app \<Rightarrow> bool" where
  "offOk s \<longleftrightarrow> firmwareOk s \<and> ru_mode (co_state (fw_core s)) = ModeOff"

lemma offOk_exec:
  assumes "offOk s"
  shows "offOk (fw_exec env c s)"
proof -
  have ok: "firmwareOk (fw_exec env c s)" using assms firmwareOk_exec by (auto simp: offOk_def)
  have off: "ru_mode (co_state (fw_core s)) = ModeOff" using assms by (simp add: offOk_def)
  have "ru_mode (co_state (fw_core (fw_exec env c s))) = ModeOff"
  proof (cases "fs_running (fw_status s)")
    case False
    then show ?thesis using off
      by (cases c) (simp_all add: fw_update_def fw_setActiveProfileIndex_def fw_commandMode_def fw_commandManual_def fw_exitManual_def)
  next
    case True
    then have core: "coreOk (fw_core s)" "co_configured (fw_core s)" using assms by (simp_all add: offOk_def firmwareOk_def)
    then have m: "mm_mode (co_modes (fw_core s)) = ModeOff" using off by (simp add: coreOk_def)
    show ?thesis
    proof (cases c)
      case (FwUpdate nowMs)
      obtain ok t where t: "fw_update env nowMs s = (ok, t)" by (metis surj_pair)
      have u: "ru_mode (co_state (fw_updatedCore env nowMs s)) = ModeOff"
        unfolding fw_updatedCore_def by (rule off_update [OF core off])
      show ?thesis
      proof (cases rule: fw_update_shape [OF True t, case_names notReady failed written])
        case (written v)
        then show ?thesis using FwUpdate t u writeOutputs_fields(1) [of env v] by simp
      qed (use FwUpdate t u off in simp_all)
    next
      case (FwCommandMode mode)
      have "mm_enterService (co_modes (fw_core s)) = (False, co_modes (fw_core s))" using m by (simp add: mm_enterService_def)
      then show ?thesis using FwCommandMode off off_return [OF core(1) off] True
        by (cases mode) (simp_all add: fw_commandMode_def reflectsMode_def core_enterService_def Let_def)
    next
      case (FwCommandManual levels timeoutMinutes nowMs)
      have "mm_enterManual (co_modes (fw_core s)) = (False, co_modes (fw_core s))"
        using m by (simp add: mm_enterManual_def canEnterOverride_def)
      then show ?thesis using FwCommandManual off True
        by (simp add: fw_commandManual_def core_enterManual_def Let_def)
    qed (use off in \<open>simp_all add: fw_setActiveProfileIndex_def fw_exitManual_def Let_def split_beta\<close>)
  qed
  with ok show ?thesis by (simp add: offOk_def)
qed

lemma offOk_run: "offOk s \<Longrightarrow> offOk (fw_run env calls s)"
  by (induction calls arbitrary: s) (simp_all add: fw_run_def offOk_exec)

end
