(* ===== verification/LumaTimers.thy ===== *)
theory LumaTimers
  imports LumaSafety
begin

text \<open>
  The time limits of the channel test and of the manual mode through a whole update: the sections that
  expire them, and that nothing after those sections touches the timers.
\<close>

definition timers :: "luma_core \<Rightarrow> bool \<times> u32 \<times> bool \<times> u32 \<times> u32" where
  "timers c = (co_channelTestTimerActive c, co_channelTestStartedMs c, co_manualTimerActive c,
     co_manualTimeoutMs c, co_manualStartedMs c)"

definition timersOk :: "u32 \<Rightarrow> luma_core \<Rightarrow> bool" where
  "timersOk nowMs c \<longleftrightarrow>
     (mm_mode (co_modes c) = ModeChannelTest \<longrightarrow> co_channelTestTimerActive c \<and>
        nowMs - co_channelTestStartedMs c < CHANNEL_TEST_TIMEOUT_MS) \<and>
     (mm_mode (co_modes c) = ModeManual \<longrightarrow> co_manualTimerActive c \<longrightarrow> co_manualTimeoutMs c > 0 \<longrightarrow>
        nowMs - co_manualStartedMs c < co_manualTimeoutMs c)"

lemma timersOk_frame: "timers d = timers c \<Longrightarrow> co_modes d = co_modes c \<Longrightarrow> timersOk nowMs c \<Longrightarrow> timersOk nowMs d"
  by (simp add: timers_def timersOk_def)

text \<open>Leaving a mode in force ends below it.\<close>

lemma exit_lower:
  assumes "coreOk c" and "exitOf call" and "fst (mode_exec call (co_modes c))"
  shows "priorityOf (mm_mode (snd (mode_exec call (co_modes c)))) < priorityOf (mm_mode (co_modes c))"
proof -
  have "mode_exec call (co_modes c) = (True, snd (mode_exec call (co_modes c)))" using assms(3) by (simp add: prod_eq_iff)
  then show ?thesis using exit_pops [OF _ assms(2)] assms(1) unfolding coreOk_def by blast
qed

lemma exit_in_force:
  assumes "coreOk c" and "ru_mode (co_state c) = m"
  shows "m = ModeChannelTest \<Longrightarrow> fst (mm_exitChannelTest (co_modes c))" "m = ModeManual \<Longrightarrow> fst (mm_exitManual (co_modes c))"
    "m = ModeSimulation \<Longrightarrow> fst (mm_exitSimulation (co_modes c))"
proof -
  have ok: "modesOk (co_modes c)" and mode: "mm_mode (co_modes c) = m" using assms by (simp_all add: coreOk_def)
  show "m = ModeChannelTest \<Longrightarrow> fst (mm_exitChannelTest (co_modes c))" "m = ModeManual \<Longrightarrow> fst (mm_exitManual (co_modes c))"
    "m = ModeSimulation \<Longrightarrow> fst (mm_exitSimulation (co_modes c))"
    using modesOk_fields(1,3) [OF ok] mode
    by (auto simp: mm_exitChannelTest_def mm_exitManual_def mm_exitSimulation_def topMode_def split: if_splits)
qed

lemma channelTest_expires:
  fixes nowMs :: u32 and c :: luma_core
  assumes "coreOk c"
  defines "d \<equiv> core_channelTestTimeout nowMs c"
  shows "mm_mode (co_modes d) = ModeChannelTest \<Longrightarrow> co_channelTestTimerActive d \<and>
    nowMs - co_channelTestStartedMs d < CHANNEL_TEST_TIMEOUT_MS"
proof -
  assume test: "mm_mode (co_modes d) = ModeChannelTest"
  have mode: "ru_mode (co_state c) = mm_mode (co_modes c)" using assms(1) by (simp add: coreOk_def)
  consider (out) "ru_mode (co_state c) = ModeChannelTest" "co_channelTestTimerActive c"
      "nowMs - co_channelTestStartedMs c \<ge> CHANNEL_TEST_TIMEOUT_MS"
    | (other) "ru_mode (co_state c) \<noteq> ModeChannelTest"
    | (fresh) "ru_mode (co_state c) = ModeChannelTest" "\<not> co_channelTestTimerActive c"
    | (running) "ru_mode (co_state c) = ModeChannelTest" "co_channelTestTimerActive c"
      "nowMs - co_channelTestStartedMs c < CHANNEL_TEST_TIMEOUT_MS" by fastforce
  then show ?thesis
  proof cases
    case out
    have ex: "fst (mode_exec ExitChannelTest (co_modes c))" using exit_in_force(1) [OF assms(1) out(1)] by simp
    then have "co_modes d = snd (mode_exec ExitChannelTest (co_modes c))"
      using out by (simp add: d_def core_channelTestTimeout_def Let_def split_beta)
    then show ?thesis using exit_lower [OF assms(1) _ ex] test out(1) mode by (simp add: exitOf_def)
  next
    case other
    then show ?thesis using test mode by (simp add: d_def core_channelTestTimeout_def)
  next
    case fresh
    then show ?thesis by (simp add: d_def core_channelTestTimeout_def CHANNEL_TEST_TIMEOUT_MS_def)
  next
    case running
    then show ?thesis by (simp add: d_def core_channelTestTimeout_def not_le [symmetric])
  qed
qed

lemma manual_expires:
  assumes "coreOk c" and "mm_mode (co_modes c) = ModeChannelTest \<Longrightarrow> co_channelTestTimerActive c \<and>
    nowMs - co_channelTestStartedMs c < CHANNEL_TEST_TIMEOUT_MS"
  shows "timersOk nowMs (core_manualTimeout nowMs c)"
proof -
  have mode: "ru_mode (co_state c) = mm_mode (co_modes c)" using assms(1) by (simp add: coreOk_def)
  show ?thesis
  proof (cases "ru_mode (co_state c) = ModeManual \<and> co_manualTimerActive c \<and> co_manualTimeoutMs c > 0 \<and>
      nowMs - co_manualStartedMs c \<ge> co_manualTimeoutMs c")
    case True
    have ex: "fst (mode_exec ExitManual (co_modes c))" using exit_in_force(2) [OF assms(1) refl] True by simp
    have "co_modes (core_manualTimeout nowMs c) = snd (mode_exec ExitManual (co_modes c))"
      using True ex by (simp add: core_manualTimeout_def Let_def split_beta)
    then have "priorityOf (mm_mode (co_modes (core_manualTimeout nowMs c))) < 5"
      using exit_lower [OF assms(1) _ ex] True mode by (simp add: exitOf_def)
    then show ?thesis by (auto simp: timersOk_def)
  next
    case False
    then have "core_manualTimeout nowMs c = c" by (simp only: core_manualTimeout_def False if_False)
    then show ?thesis using assms(2) False mode by (auto simp: timersOk_def not_le)
  qed
qed

lemma simulation_keeps_timers:
  assumes "coreOk c" and "timersOk nowMs c"
  shows "timersOk nowMs (core_simulationCompletion c)"
proof (cases "ru_mode (co_state c) = ModeSimulation \<and> co_simulationCompletionPending c")
  case True
  have mode: "ru_mode (co_state c) = mm_mode (co_modes c)" using assms(1) by (simp add: coreOk_def)
  have ex: "fst (mode_exec ExitSimulation (co_modes c))" using exit_in_force(3) [OF assms(1) refl] True by simp
  have "co_modes (core_simulationCompletion c) = snd (mode_exec ExitSimulation (co_modes c))"
    using True ex by (simp add: core_simulationCompletion_def Let_def split_beta)
  then have "priorityOf (mm_mode (co_modes (core_simulationCompletion c))) < 3"
    using exit_lower [OF assms(1) _ ex] True mode by (simp add: exitOf_def)
  then show ?thesis by (auto simp: timersOk_def)
next
  case False
  then have "core_simulationCompletion c = c" by (simp only: core_simulationCompletion_def False if_False)
  then show ?thesis using assms(2) by simp
qed

lemma afterTimeouts_timers:
  assumes "coreOk c"
  shows "timersOk nowMs (afterTimeouts config nowMs c)"
proof -
  define d where "d = c\<lparr>co_state := (co_state c)\<lparr>ru_mode := mm_mode (co_modes c), ru_returnMode := mm_returnMode (co_modes c)\<rparr>\<rparr>"
  have "sameModes c d" using assms by (simp add: d_def coreOk_def sameModes_def)
  then have p: "coreOk (snd (core_observeProfiles config d))"
    using sameModes_ok sameModes_trans [OF _ same_observeProfiles] assms by blast
  note t1 = channelTestTimeout_keeps(1) [OF p, of nowMs]
  note t2 = manual_expires [OF t1 channelTest_expires [OF p]]
  show ?thesis
    using simulation_keeps_timers [OF manualTimeout_keeps(1) [OF t1] t2]
    by (simp add: afterTimeouts_def d_def [symmetric])
qed

text \<open>The later sections.\<close>

lemma timers_output: "timers (core_output powf config nowMs c) = timers c"
  unfolding core_output_def Let_def by (simp add: timers_def split: prod.split)

lemma timers_dark: "timers (core_dark m c) = timers c"
  by (simp add: core_dark_def timers_def)

lemma timers_request: "timers (core_request config index second nowMs c) = timers c"
  by (cases "ru_mode (co_state c)")
    (simp_all add: core_request_def core_simulate_def core_takeCalculation_def timers_def Let_def split: option.split)

lemma timers_observeTime: "timers (snd (core_observeTime second nowMs c)) = timers c"
  by (simp add: core_observeTime_def timers_def)

lemma timers_startFrom [simp]: "timers (core_startFrom previous target duration nowMs c) = timers c"
  by (simp add: core_startFrom_def timers_def Let_def split_beta)

lemma timers_fields [simp]:
  "timers (c\<lparr>co_lastPreviewProfileIndex := a\<rparr>) = timers c" "timers (c\<lparr>co_lastPreviewStageIndex := a\<rparr>) = timers c"
  "timers (c\<lparr>co_lastChannelTestLevels := l\<rparr>) = timers c" "timers (c\<lparr>co_lastManualLevels := l\<rparr>) = timers c"
  "timers (c\<lparr>co_lastDayState := e\<rparr>) = timers c" "timers (c\<lparr>co_lastMode := m\<rparr>) = timers c"
  "timers (core_remember index c) = timers c" "timers (core_rememberMode c) = timers c"
  by (simp_all add: timers_def core_remember_def core_rememberMode_def)

lemma timers_firstStart [simp]: "timers (core_firstStart index nowMs c) = timers c"
  by (simp add: core_firstStart_def timers_def Let_def)

lemma timers_transitions: "timers (core_transitions index changed timeJump previous nowMs c) = timers c"
  unfolding core_transitions_def transition_branches Let_def by simp

lemma core_update_timers:
  assumes "coreOk c" and "co_configured c"
  shows "timersOk nowMs (core_update powf config localTime nowMs c)"
proof -
  define d where "d = afterTimeouts config nowMs c"
  have d: "timersOk nowMs d" unfolding d_def by (rule afterTimeouts_timers [OF assms(1)])
  define b where "b = c\<lparr>co_state := (co_state c)\<lparr>ru_mode := mm_mode (co_modes c), ru_returnMode := mm_returnMode (co_modes c)\<rparr>\<rparr>"
  obtain changed p where p: "core_observeProfiles config b = (changed, p)" by (metis surj_pair)
  have dp: "d = core_simulationCompletion (core_manualTimeout nowMs (core_channelTestTimeout nowMs p))"
    by (simp add: d_def afterTimeouts_def b_def [symmetric] p)
  have modes: "co_modes (core_update powf config localTime nowMs c) = co_modes d"
  proof (cases rule: core_update_shape [OF assms(2), of config nowMs powf localTime, case_names off noTime lit])
    case (lit e)
    then show ?thesis using output_levels(1) [of e powf config nowMs] by (simp add: sameModes_def d_def)
  qed (simp_all add: core_dark_def d_def)
  have "timers (core_update powf config localTime nowMs c) = timers d"
  proof -
    define d1 where "d1 = d\<lparr>co_state := (co_state d)\<lparr>ru_timeValid := True, ru_currentMinuteOfDay := lt_minuteOfDay localTime\<rparr>\<rparr>"
    obtain jump o1 where o1: "core_observeTime (realSecond localTime) nowMs d1 = (jump, o1)" by (metis surj_pair)
    have t1: "timers o1 = timers d" using timers_observeTime [of "realSecond localTime" nowMs d1] o1 by (simp add: d1_def timers_def)
    show ?thesis
      unfolding core_update_def b_def [symmetric] Let_def p prod.case dp [symmetric]
      using assms(2) o1 t1 by (simp add: d1_def timers_output timers_transitions timers_request timers_dark) (simp add: timers_def)
  qed
  from timersOk_frame [OF this modes d] show ?thesis .
qed

end
