(* ===== verification/Float64.thy ===== *)
theory Float64
  imports Float32
begin

text \<open>
  Double precision arithmetic (binary64) where the code uses \<open>double\<close>: the values of \<open>f32\<close> with a rounding to 53 bits.
\<close>

section \<open>Double arithmetic\<close>

text \<open>
  A \<open>double\<close> (binary64) has the same three kinds of values as a \<open>float\<close>: a finite one is a multiple of
  \<open>2^-1074\<close> with 53 significant bits, below \<open>2^1024\<close>.
\<close>

fun scaleBits53 :: "nat \<Rightarrow> rat \<Rightarrow> nat" where
  "scaleBits53 0 s = 0"
| "scaleBits53 (Suc n) s = (if s < 9007199254740992 then 0 else Suc (scaleBits53 n (s / 2)))"

definition roundD :: "rat \<Rightarrow> f32" where
  "roundD q = (let s = \<bar>q\<bar> * 2 ^ 1074; k = scaleBits53 2046 s;
       m = of_int (roundEven (s / 2 ^ k)) * 2 ^ k / 2 ^ 1074
     in if m < 2 ^ 1024 then Fin (if q < 0 then - m else m) else FInf (q < 0))"

fun dadd :: "f32 \<Rightarrow> f32 \<Rightarrow> f32" where
  "dadd (Fin x) (Fin y) = roundD (x + y)"
| "dadd (FInf s) (Fin y) = FInf s"
| "dadd (Fin x) (FInf t) = FInf t"
| "dadd (FInf s) (FInf t) = (if s = t then FInf s else FNaN)"
| "dadd _ _ = FNaN"

fun dmul :: "f32 \<Rightarrow> f32 \<Rightarrow> f32" where
  "dmul (Fin x) (Fin y) = roundD (x * y)"
| "dmul (FInf s) (Fin y) = (if y = 0 then FNaN else FInf (s \<noteq> (y < 0)))"
| "dmul (Fin x) (FInf t) = (if x = 0 then FNaN else FInf ((x < 0) \<noteq> t))"
| "dmul (FInf s) (FInf t) = FInf (s \<noteq> t)"
| "dmul _ _ = FNaN"

fun float_of_double :: "f32 \<Rightarrow> f32" where
  "float_of_double (Fin x) = roundF x"
| "float_of_double x = x"

text \<open>A quotient; zero has no sign here.\<close>

fun ddiv :: "f32 \<Rightarrow> f32 \<Rightarrow> f32" where
  "ddiv (Fin x) (Fin y) = (if y = 0 then (if x = 0 then FNaN else FInf (x < 0)) else roundD (x / y))"
| "ddiv (FInf s) (Fin y) = FInf (s \<noteq> (y < 0))"
| "ddiv (Fin x) (FInf t) = Fin 0"
| "ddiv _ _ = FNaN"

section \<open>Exact values\<close>

lemma scaleBits53_le: "s / 2 ^ j < 9007199254740992 \<Longrightarrow> scaleBits53 n s \<le> j"
proof (induction n arbitrary: s j)
  case (Suc n)
  show ?case
  proof (cases j)
    case 0
    then show ?thesis using Suc.prems by simp
  next
    case (Suc i)
    then have "s / 2 / 2 ^ i < 9007199254740992" using Suc.prems by (simp add: field_simps)
    then show ?thesis using Suc.IH [of "s / 2" i] Suc by simp
  qed
qed simp

lemma roundD_nat:
  assumes "n < 9007199254740992"
  shows "roundD (of_nat n) = Fin (of_nat n)"
proof -
  define s :: rat where "s = of_nat n * 2 ^ 1074"
  define k where "k = scaleBits53 2046 s"
  have nr: "(of_nat n :: rat) < 9007199254740992" using assms by (metis of_nat_less_iff of_nat_numeral)
  have "k \<le> 1074" unfolding k_def s_def by (rule scaleBits53_le) (use nr in simp)
  then have p: "(2 :: rat) ^ 1074 = 2 ^ (1074 - k) * 2 ^ k" by (simp flip: power_add)
  have s: "s = of_nat n * 2 ^ (1074 - k) * 2 ^ k" unfolding s_def p by (simp only: mult.assoc)
  then have "s / 2 ^ k = of_nat n * 2 ^ (1074 - k)" by (metis nonzero_mult_div_cancel_right power_not_zero zero_neq_numeral)
  then have sk: "s / 2 ^ k = of_int (int n * 2 ^ (1074 - k))" by simp
  have "of_int (roundEven (s / 2 ^ k)) * 2 ^ k = s"
    unfolding sk roundEven_of_int by (subst s) simp
  then have m: "of_int (roundEven (s / 2 ^ k)) * 2 ^ k / 2 ^ 1074 = (of_nat n :: rat)" by (simp add: s_def)
  have lt: "(of_nat n :: rat) < 2 ^ 1024" using nr by (rule less_le_trans) simp
  have abs: "\<bar>of_nat n :: rat\<bar> = of_nat n" by simp
  show ?thesis unfolding roundD_def Let_def abs s_def [symmetric] k_def [symmetric] m using lt by simp
qed

end
