(* ===== verification/LumaWeb.thy ===== *)
theory LumaWeb
  imports LumaSafety WebBridge Float64
begin

text \<open>
  The control requests of LumaSense (\<open>LumaApi.cpp\<close>, \<open>LumaNativeWeb.cpp\<close>): the cursor over a JSON body, the
  three parsers, their execution by the application and the HTTP handler between them over the
  application bridge. The cursor is the rest of the body; an operation that fails gives \<open>None\<close>, since every
  caller then gives up.
\<close>

section \<open>The cursor\<close>

definition isBlank :: "char \<Rightarrow> bool" where
  "isBlank c \<longleftrightarrow> of_char c \<in> {32, 9, 13, 10 :: nat}"

definition isDigit :: "char \<Rightarrow> bool" where
  "isDigit c \<longleftrightarrow> 48 \<le> (of_char c :: nat) \<and> (of_char c :: nat) \<le> 57"

definition digitValue :: "char \<Rightarrow> nat" where
  "digitValue c = of_char c - 48"

definition cu_skipWhitespace :: "string \<Rightarrow> string" where
  "cu_skipWhitespace cursor = dropWhile isBlank cursor"

fun cu_raw :: "char \<Rightarrow> string \<Rightarrow> string option" where
  "cu_raw value [] = None"
| "cu_raw value (c # cs) = (if c \<noteq> value then None else Some cs)"

definition cu_consume :: "char \<Rightarrow> string \<Rightarrow> string option" where
  "cu_consume value cursor = cu_raw value (cu_skipWhitespace cursor)"

definition cu_beginObject :: "string \<Rightarrow> string option" where "cu_beginObject = cu_consume CHR ''{''"
definition cu_comma :: "string \<Rightarrow> string option" where "cu_comma = cu_consume CHR '',''"
definition cu_beginArray :: "string \<Rightarrow> string option" where "cu_beginArray = cu_consume CHR ''[''"
definition cu_endArray :: "string \<Rightarrow> string option" where "cu_endArray = cu_consume CHR '']''"

definition cu_endObject :: "string \<Rightarrow> bool" where
  "cu_endObject cursor = (case cu_consume CHR ''}'' cursor of None \<Rightarrow> False
     | Some cursor \<Rightarrow> cu_skipWhitespace cursor = [])"

fun cu_expect :: "string \<Rightarrow> string \<Rightarrow> string option" where
  "cu_expect [] cursor = Some cursor"
| "cu_expect (e # es) cursor = (case cu_raw e cursor of None \<Rightarrow> None | Some cursor \<Rightarrow> cu_expect es cursor)"

definition cu_key :: "string \<Rightarrow> string \<Rightarrow> string option" where
  "cu_key expected cursor = Option.bind (cu_raw CHR 0x22 (cu_skipWhitespace cursor)) (\<lambda>cursor.
     Option.bind (cu_expect expected cursor) (\<lambda>cursor. Option.bind (cu_raw CHR 0x22 cursor) (cu_consume CHR '':'')))"

fun cu_textLoop :: "nat \<Rightarrow> string \<Rightarrow> string \<Rightarrow> (string \<times> string) option" where
  "cu_textLoop capacity output [] = None"
| "cu_textLoop capacity output (c # cs) =
    (if c = CHR 0x22 then Some (output, cs)
     else if c = CHR 0x5C \<or> (of_char c :: nat) < 0x20 \<or> length output + 1 \<ge> capacity then None
     else cu_textLoop capacity (output @ [c]) cs)"

definition cu_text :: "nat \<Rightarrow> string \<Rightarrow> (string \<times> string) option" where
  "cu_text capacity cursor = (if capacity = 0 then None
     else Option.bind (cu_raw CHR 0x22 (cu_skipWhitespace cursor)) (cu_textLoop capacity []))"

fun cu_unsignedLoop :: "u32 \<Rightarrow> string \<Rightarrow> (u32 \<times> string) option" where
  "cu_unsignedLoop value [] = Some (value, [])"
| "cu_unsignedLoop value (c # cs) =
    (if \<not> isDigit c then Some (value, c # cs)
     else let value = value * 10 + of_nat (digitValue c)
     in if value > 65535 then None else cu_unsignedLoop value cs)"

definition startsWithDigit :: "string \<Rightarrow> bool" where
  "startsWithDigit cursor \<longleftrightarrow> cursor \<noteq> [] \<and> isDigit (hd cursor)"

definition cu_unsignedInteger :: "string \<Rightarrow> (u16 \<times> string) option" where
  "cu_unsignedInteger cursor =
    (let cursor = cu_skipWhitespace cursor
     in if \<not> startsWithDigit cursor then None
     else map_option (\<lambda>(value, cursor). (ucast value, cursor)) (cu_unsignedLoop 0 cursor))"

fun cu_wholeLoop :: "f32 \<Rightarrow> string \<Rightarrow> f32 \<times> string" where
  "cu_wholeLoop value [] = (value, [])"
| "cu_wholeLoop value (c # cs) =
    (if \<not> isDigit c then (value, c # cs)
     else cu_wholeLoop (dadd (dmul value (Fin 10)) (Fin (of_nat (digitValue c)))) cs)"

fun cu_fractionLoop :: "f32 \<Rightarrow> f32 \<Rightarrow> string \<Rightarrow> f32 \<times> string" where
  "cu_fractionLoop factor value [] = (value, [])"
| "cu_fractionLoop factor value (c # cs) =
    (if \<not> isDigit c then (value, c # cs)
     else cu_fractionLoop (dmul factor (roundD (1 / 10)))
            (dadd value (dmul (Fin (of_nat (digitValue c))) factor)) cs)"

definition cu_fraction :: "f32 \<Rightarrow> string \<Rightarrow> (f32 \<times> string) option" where
  "cu_fraction value cursor = (case cu_raw CHR ''.'' cursor of None \<Rightarrow> Some (value, cursor)
     | Some cursor \<Rightarrow> if \<not> startsWithDigit cursor then None
         else Some (cu_fractionLoop (roundD (1 / 10)) value cursor))"

definition cu_number :: "string \<Rightarrow> (f32 \<times> string) option" where
  "cu_number cursor =
    (let cursor = cu_skipWhitespace cursor;
         (negative, cursor) = (case cu_raw CHR ''-'' cursor of None \<Rightarrow> (False, cursor) | Some cursor \<Rightarrow> (True, cursor))
     in if \<not> startsWithDigit cursor then None
     else let (value, cursor) = cu_wholeLoop (Fin 0) cursor
     in case cu_fraction value cursor of None \<Rightarrow> None
   | Some (value, cursor) \<Rightarrow>
       (let output = float_of_double (if negative then fneg value else value)
        in if isfinite output then Some (output, cursor) else None))"

section \<open>The requests\<close>

datatype LumaWebRequestKind = SetMode | WebExitManual | SetManual | SelectProfile

record LumaWebRequest =
  lw_kind :: LumaWebRequestKind
  lw_mode :: OperatingMode
  lw_levels :: ChannelLevels
  lw_timeoutMinutes :: u16
  lw_profileIndex :: u8

definition LumaWebRequest_default :: LumaWebRequest where
  "LumaWebRequest_default = \<lparr>lw_kind = SetMode, lw_mode = ModeNormal, lw_levels = zeroLevels,
     lw_timeoutMinutes = 0, lw_profileIndex = 0\<rparr>"

definition MAX_CONTROL_BODY :: nat where "MAX_CONTROL_BODY = 512"

definition validBody :: "string \<Rightarrow> bool" where
  "validBody body \<longleftrightarrow> length body > 0 \<and> length body \<le> MAX_CONTROL_BODY"

definition parseMode :: "string \<Rightarrow> string option" where
  "parseMode body = (if \<not> validBody body then None
     else Option.bind (cu_beginObject body) (\<lambda>c. Option.bind (cu_key ''mode'' c) (\<lambda>c.
       Option.bind (cu_text 16 c) (\<lambda>(mode, c). if cu_endObject c then Some mode else None))))"

definition parseProfile :: "string \<Rightarrow> u8 option" where
  "parseProfile body = (if \<not> validBody body then None
     else Option.bind (cu_beginObject body) (\<lambda>c. Option.bind (cu_key ''profile'' c) (\<lambda>c.
       Option.bind (cu_unsignedInteger c) (\<lambda>(profile, c).
         if \<not> cu_endObject c \<or> profile < 1 \<or> unat profile > PROFILE_COUNT then None
         else Some (ucast (profile - 1))))))"

text \<open>The loop over the levels of \<open>parseManual\<close>, from a channel on.\<close>

fun cu_levels :: "nat list \<Rightarrow> ChannelLevels \<Rightarrow> string \<Rightarrow> (ChannelLevels \<times> string) option" where
  "cu_levels [] levels c = Some (levels, c)"
| "cu_levels (channel # rest) levels c =
    (case cu_number c of None \<Rightarrow> None
     | Some (value, c) \<Rightarrow>
         if flt value LEVEL_MIN_PERCENT \<or> flt LEVEL_MAX_PERCENT value then None
         else if channel + 1 < CHANNEL_COUNT
         then (case cu_comma c of None \<Rightarrow> None | Some c \<Rightarrow> cu_levels rest (levels[channel := value]) c)
         else cu_levels rest (levels[channel := value]) c)"

definition parseManual :: "string \<Rightarrow> (ChannelLevels \<times> u16) option" where
  "parseManual body = (if \<not> validBody body then None
     else Option.bind (cu_beginObject body) (\<lambda>c. Option.bind (cu_key ''levels'' c) (\<lambda>c.
       Option.bind (cu_beginArray c) (\<lambda>c.
       Option.bind (cu_levels [0..<CHANNEL_COUNT] zeroLevels c) (\<lambda>(levels, c).
       Option.bind (cu_endArray c) (\<lambda>c. Option.bind (cu_comma c) (\<lambda>c.
       Option.bind (cu_key ''timeoutMinutes'' c) (\<lambda>c.
       Option.bind (cu_unsignedInteger c) (\<lambda>(timeoutMinutes, c).
         if validManualTimeout timeoutMinutes \<and> cu_endObject c then Some (levels, timeoutMinutes) else None)))))))))"

type_synonym luma_parser = "string \<Rightarrow> string + LumaWebRequest"

definition parseModeRequest :: luma_parser where
  "parseModeRequest body = (case parseMode body of
     None \<Rightarrow> Inl ''malformed request''
   | Some requested \<Rightarrow>
       if requested = ''EXIT_MANUAL'' then Inr (LumaWebRequest_default\<lparr>lw_kind := WebExitManual\<rparr>)
       else let request = LumaWebRequest_default\<lparr>lw_kind := SetMode\<rparr>
       in if requested = ''NORMAL'' then Inr (request\<lparr>lw_mode := ModeNormal\<rparr>)
       else if requested = ''SERVICE'' then Inr (request\<lparr>lw_mode := ModeService\<rparr>)
       else if requested = ''OFF'' then Inr (request\<lparr>lw_mode := ModeOff\<rparr>)
       else Inl ''invalid mode'')"

definition parseProfileRequest :: luma_parser where
  "parseProfileRequest body = (case parseProfile body of
     None \<Rightarrow> Inl ''invalid profile''
   | Some index \<Rightarrow> Inr (LumaWebRequest_default\<lparr>lw_kind := SelectProfile, lw_profileIndex := index\<rparr>))"

definition parseManualRequest :: luma_parser where
  "parseManualRequest body = (case parseManual body of
     None \<Rightarrow> Inl ''invalid manual levels''
   | Some (levels, timeoutMinutes) \<Rightarrow> Inr (LumaWebRequest_default
       \<lparr>lw_kind := SetManual, lw_levels := levels, lw_timeoutMinutes := timeoutMinutes\<rparr>))"

section \<open>Execution and the HTTP handler\<close>

definition luma_execute ::
  "('h, 'b, 't) firmware_env \<Rightarrow> u32 \<Rightarrow> LumaWebRequest \<Rightarrow> ('h, 'b, 't) firmware_app \<Rightarrow>
     FirmwareCommandResult \<times> ('h, 'b, 't) firmware_app" where
  "luma_execute env executionNowMs request app = (case lw_kind request of
     SetMode \<Rightarrow> fw_commandMode (lw_mode request) app
   | WebExitManual \<Rightarrow> fw_exitManual app
   | SetManual \<Rightarrow> fw_commandManual (lw_levels request) (lw_timeoutMinutes request) executionNowMs app
   | SelectProfile \<Rightarrow> fw_setActiveProfileIndex env (lw_profileIndex request) app)"

definition luma_processOne ::
  "('h, 'b, 't) firmware_env \<Rightarrow> bool \<Rightarrow> bool \<Rightarrow> bool \<Rightarrow> u32 \<Rightarrow> (LumaWebRequest, FirmwareCommandResult) bridge \<Rightarrow>
     ('h, 'b, 't) firmware_app \<Rightarrow>
     bool \<times> (LumaWebRequest, FirmwareCommandResult) bridge \<times> ('h, 'b, 't) firmware_app" where
  "luma_processOne env locked1 locked2 signaled nowMs bridge app =
     bridge_processOne locked1 locked2 signaled (Some (luma_execute env nowMs)) bridge app"

datatype luma_response = ErrorResponse u16 string | CommandResponse u16 bool string | OutcomeUnknown

definition commandResponse :: "FirmwareCommandResult \<Rightarrow> luma_response" where
  "commandResponse result = (case result of
     Applied \<Rightarrow> CommandResponse 200 True ''applied''
   | NoChange \<Rightarrow> CommandResponse 200 True ''no_change''
   | Invalid \<Rightarrow> ErrorResponse 400 ''invalid command''
   | Rejected \<Rightarrow> CommandResponse 409 False ''state conflict''
   | StorageFailure \<Rightarrow> CommandResponse 409 False ''storage unavailable'')"

text \<open>
  \<open>handleAction\<close>: \<open>sync\<close> holds the answers of the synchronizer during the call, in the order of the calls, and
  \<open>others\<close> what the other tasks do to the bridge before the wait and while waiting.
\<close>

record ('q, 'r) handler_run =
  hr_submitLocked :: bool
  hr_prepared :: bool
  hr_waitLocked :: bool
  hr_waitEndLocked :: bool
  hr_waitStatus :: ActionBridgeWaitStatus
  hr_abandonLocked :: bool
  hr_abandonAgainLocked :: bool
  hr_before :: "('q, 'r) bridge \<Rightarrow> ('q, 'r) bridge"
  hr_while :: "('q, 'r) bridge \<Rightarrow> ('q, 'r) bridge"

definition luma_wait ::
  "('q, 'r) handler_run \<Rightarrow> ActionBridgeToken \<Rightarrow> ('q, 'r) bridge \<Rightarrow> (WaitResult \<times> 'r option) \<times> ('q, 'r) bridge" where
  "luma_wait run token bridge =
    (let (answer, bridge) = bridge_waitBegin (hr_waitLocked run) token (hr_before run bridge)
     in case answer of Some r \<Rightarrow> (r, bridge)
      | None \<Rightarrow> applicationBridge_waitEnd (hr_waitEndLocked run) (hr_waitStatus run) token (hr_while run bridge))"

definition handleAction ::
  "(LumaWebRequest, FirmwareCommandResult) handler_run \<Rightarrow> nat \<Rightarrow> luma_parser \<Rightarrow> string \<Rightarrow>
     (LumaWebRequest, FirmwareCommandResult) bridge \<Rightarrow> luma_response \<times> (LumaWebRequest, FirmwareCommandResult) bridge" where
  "handleAction run completionSlots parser body bridge = (case parser body of
     Inl message \<Rightarrow> (ErrorResponse 400 message, bridge)
   | Inr typed \<Rightarrow>
      (case bridge_submit completionSlots (hr_submitLocked run) (hr_prepared run) typed bridge of
        (SubmitAccepted, Some token, bridge) \<Rightarrow>
          (let ((waited, result), bridge) = luma_wait run token bridge
           in if waited = WaitCompleted
              then (commandResponse (case result of Some r \<Rightarrow> r | None \<Rightarrow> Rejected), bridge)
              else if waited \<noteq> TimedOutAccepted
              then let (cleanup, bridge) = bridge_abandon (hr_abandonLocked run) token bridge
                   in (OutcomeUnknown, if cleanup = AbandonSyncFailure
                        then snd (bridge_abandon (hr_abandonAgainLocked run) token bridge) else bridge)
              else (OutcomeUnknown, bridge))
      | (_, _, bridge) \<Rightarrow> (ErrorResponse 503 ''service unavailable'', bridge)))"

end
