(* ===== verification/LumaRequests.thy ===== *)
theory LumaRequests
  imports LumaWeb
begin

text \<open>
  Correctness of the request parsers: the integer loop against the value of a digit string, the texts of the
  three requests (with any blanks between the tokens) and what a parsed request satisfies.
\<close>

section \<open>Numbers\<close>

definition decimalFrom :: "nat \<Rightarrow> string \<Rightarrow> nat" where
  "decimalFrom v ds = foldl (\<lambda>v d. v * 10 + digitValue d) v ds"

definition decimalValue :: "string \<Rightarrow> nat" where
  "decimalValue ds = decimalFrom 0 ds"

lemma decimalFrom_simps [simp]:
  "decimalFrom v [] = v" "decimalFrom v (d # ds) = decimalFrom (v * 10 + digitValue d) ds"
  "decimalFrom v (ds @ es) = decimalFrom (decimalFrom v ds) es"
  by (simp_all add: decimalFrom_def)

lemma decimalFrom_le: "v \<le> decimalFrom v ds"
proof (induction ds arbitrary: v)
  case (Cons d ds)
  show ?case using Cons.IH [of "v * 10 + digitValue d"] by simp
qed simp

fun decimalText :: "nat \<Rightarrow> string" where
  "decimalText n = (if n < 10 then [char_of (48 + n)] else decimalText (n div 10) @ [char_of (48 + n mod 10)])"

declare decimalText.simps [simp del]

lemma digit_char: "n < 10 \<Longrightarrow> isDigit (char_of (48 + n)) \<and> digitValue (char_of (48 + n)) = n"
  by (simp add: isDigit_def digitValue_def)

lemma decimalText_spec: "decimalText n \<noteq> [] \<and> list_all isDigit (decimalText n) \<and> decimalValue (decimalText n) = n"
proof (induction n rule: decimalText.induct)
  case (1 n)
  show ?case
  proof (cases "n < 10")
    case True
    then show ?thesis using digit_char [of n] by (simp add: decimalText.simps [of n] decimalValue_def)
  next
    case False
    then show ?thesis using 1 digit_char [of "n mod 10"]
      by (simp add: decimalText.simps [of n] decimalValue_def list_all_append)
  qed
qed

lemma unsignedLoop_reference:
  assumes "unat u \<le> 65535" and "list_all isDigit ds" and "\<not> startsWithDigit rest"
  shows "cu_unsignedLoop u (ds @ rest) = (if decimalFrom (unat u) ds \<le> 65535
    then Some (of_nat (decimalFrom (unat u) ds), rest) else None)"
  using assms(1,2)
proof (induction ds arbitrary: u)
  case Nil
  then show ?case using assms(3) by (cases rest) (auto simp: startsWithDigit_def)
next
  case (Cons d ds)
  define v where "v = u * 10 + of_nat (digitValue d)"
  have d: "isDigit d" "digitValue d \<le> 9" using Cons.prems(2) by (auto simp: isDigit_def digitValue_def)
  have v: "unat v = unat u * 10 + digitValue d"
    using Cons.prems(1) d(2) by (simp add: v_def unat_word_ariths unat_of_nat)
  show ?case
  proof (cases "v > 65535")
    case True
    then have "\<not> unat u * 10 + digitValue d \<le> 65535" using v by (simp add: word_less_nat_alt)
    then have "\<not> decimalFrom (unat u * 10 + digitValue d) ds \<le> 65535"
      using decimalFrom_le [of "unat u * 10 + digitValue d" ds] by linarith
    then show ?thesis using True d by (simp add: v_def [symmetric] Let_def)
  next
    case False
    then have "unat v \<le> 65535" by (simp add: word_less_nat_alt)
    from Cons.IH [OF this] Cons.prems(2) show ?thesis using False d v by (simp add: v_def [symmetric] Let_def)
  qed
qed

text \<open>Doubles hold the integers below \<open>2^53\<close>.\<close>

lemma wholeLoop_digits:
  assumes "list_all isDigit ds" and "decimalFrom v ds < 9007199254740992" and "\<not> startsWithDigit rest"
  shows "cu_wholeLoop (Fin (of_nat v)) (ds @ rest) = (Fin (of_nat (decimalFrom v ds)), rest)"
  using assms(1,2)
proof (induction ds arbitrary: v)
  case Nil
  then show ?case using assms(3) by (cases rest) (auto simp: startsWithDigit_def)
next
  case (Cons d ds)
  have le: "v * 10 + digitValue d < 9007199254740992"
    using Cons.prems(2) decimalFrom_le [of "v * 10 + digitValue d" ds] by simp
  have "dmul (Fin (of_nat v)) (Fin 10) = Fin (of_nat (v * 10))"
    using roundD_nat [of "v * 10"] le by simp
  then have "dadd (dmul (Fin (of_nat v)) (Fin 10)) (Fin (of_nat (digitValue d))) = Fin (of_nat (v * 10 + digitValue d))"
    using roundD_nat [OF le] by simp
  then show ?case using Cons.IH [of "v * 10 + digitValue d"] Cons.prems by (simp del: dadd.simps dmul.simps of_nat_add of_nat_mult)
qed

section \<open>Blanks and tokens\<close>

definition blanks :: "string \<Rightarrow> bool" where
  "blanks w \<longleftrightarrow> list_all isBlank w"

lemma skip_blanks: "blanks w \<Longrightarrow> cu_skipWhitespace (w @ x) = cu_skipWhitespace x"
  by (simp add: cu_skipWhitespace_def blanks_def list_all_iff)

lemma skip_token: "\<not> isBlank c \<Longrightarrow> cu_skipWhitespace (c # x) = c # x"
  by (simp add: cu_skipWhitespace_def)

lemma consume_token: "blanks w \<Longrightarrow> \<not> isBlank v \<Longrightarrow> cu_consume v (w @ v # x) = Some x"
  by (simp add: cu_consume_def skip_blanks skip_token)

lemma token_chars [simp]:
  "\<not> isBlank CHR ''{''" "\<not> isBlank CHR ''}''" "\<not> isBlank CHR ''[''" "\<not> isBlank CHR '']''" "\<not> isBlank CHR '',''"
  "\<not> isBlank CHR '':''" "\<not> isBlank CHR 0x22"
  by (simp_all add: isBlank_def)

lemma expect_append [simp]: "cu_expect k (k @ x) = Some x"
  by (induction k) simp_all

lemma key_token:
  "blanks w \<Longrightarrow> blanks v \<Longrightarrow> cu_key k (w @ CHR 0x22 # k @ CHR 0x22 # v @ CHR '':'' # x) = Some x"
  by (simp add: cu_key_def skip_blanks skip_token consume_token)

lemma textLoop_chars:
  assumes "list_all (\<lambda>c. c \<noteq> CHR 0x22 \<and> c \<noteq> CHR 0x5C \<and> (of_char c :: nat) \<ge> 0x20) t"
    and "length out + length t < capacity"
  shows "cu_textLoop capacity out (t @ CHR 0x22 # x) = Some (out @ t, x)"
  using assms by (induction t arbitrary: out) auto

lemma end_token: "blanks w \<Longrightarrow> blanks v \<Longrightarrow> cu_endObject (w @ CHR ''}'' # v)"
  using skip_blanks [of v "[]"] by (simp add: cu_endObject_def consume_token) (simp add: cu_skipWhitespace_def)

lemma digit_not_blank: "isDigit c \<Longrightarrow> \<not> isBlank c"
  by (auto simp: isDigit_def isBlank_def)

lemma digits_start:
  assumes "ds \<noteq> []" and "list_all isDigit ds" and "blanks w"
  shows "cu_skipWhitespace (w @ ds @ rest) = ds @ rest" "startsWithDigit (ds @ rest)"
  using assms by (cases ds; simp add: skip_blanks skip_token digit_not_blank startsWithDigit_def)+

lemma unsigned_digits:
  assumes "blanks w" and "ds \<noteq> []" and "list_all isDigit ds" and "\<not> startsWithDigit rest"
  shows "cu_unsignedInteger (w @ ds @ rest) = (if decimalValue ds \<le> 65535
    then Some (of_nat (decimalValue ds), rest) else None)"
proof -
  have "ucast (of_nat n :: u32) = (of_nat n :: u16)" if "n \<le> 65535" for n
    using that by (simp add: unsigned_of_nat take_bit_nat_eq_self)
  then show ?thesis using unsignedLoop_reference [of 0 ds rest] assms digits_start [OF assms(2,3,1)]
    by (simp add: cu_unsignedInteger_def decimalValue_def Let_def)
qed

lemma number_digits:
  assumes "blanks w" and "n \<le> 100" and "\<not> startsWithDigit rest" and "rest = [] \<or> hd rest \<noteq> CHR ''.''"
  shows "cu_number (w @ decimalText n @ rest) = Some (Fin (of_nat n), rest)"
proof -
  have ds: "decimalText n \<noteq> []" "list_all isDigit (decimalText n)" "decimalFrom 0 (decimalText n) = n"
    using decimalText_spec [of n] by (auto simp: decimalValue_def)
  have whole: "cu_wholeLoop (Fin 0) (decimalText n @ rest) = (Fin (of_nat n), rest)"
    using wholeLoop_digits [OF ds(2), of 0 rest] assms(2,3) ds(3) by simp
  have minus: "cu_raw CHR ''-'' (decimalText n @ rest) = None"
    using ds(1,2) by (cases "decimalText n") (auto simp: isDigit_def)
  have dot: "cu_fraction (Fin (of_nat n)) rest = Some (Fin (of_nat n), rest)"
    using assms(4) by (cases rest) (auto simp: cu_fraction_def)
  have "roundF (of_nat n) = Fin (of_nat n)" using roundF_int [of "int n"] assms(2) by simp
  then show ?thesis
    using digits_start [OF ds(1,2) assms(1), of rest] whole minus dot by (simp add: cu_number_def isfinite_def Let_def)
qed

section \<open>The texts of the requests\<close>

datatype control_request = ModeRequest OperatingMode | ExitManualRequest | ProfileRequest nat | ManualRequest "nat list" nat

fun modeText :: "OperatingMode \<Rightarrow> string" where
  "modeText ModeService = ''SERVICE''"
| "modeText ModeOff = ''OFF''"
| "modeText _ = ''NORMAL''"

fun levelsText :: "string \<Rightarrow> nat list \<Rightarrow> string \<Rightarrow> string" where
  "levelsText w [] x = x"
| "levelsText w [n] x = w @ decimalText n @ w @ x"
| "levelsText w (n # ns) x = w @ decimalText n @ w @ CHR '','' # levelsText w ns x"

definition keyText :: "string \<Rightarrow> string \<Rightarrow> string \<Rightarrow> string" where
  "keyText w k x = w @ CHR 0x22 # k @ CHR 0x22 # w @ CHR '':'' # x"

text \<open>The JSON text of a request, with the blanks \<open>w\<close> around every token.\<close>

definition controlText :: "string \<Rightarrow> control_request \<Rightarrow> string" where
  "controlText w r = w @ CHR ''{'' # (case r of
     ModeRequest m \<Rightarrow> keyText w ''mode'' (w @ CHR 0x22 # modeText m @ CHR 0x22 # w @ CHR ''}'' # w)
   | ExitManualRequest \<Rightarrow> keyText w ''mode'' (w @ CHR 0x22 # ''EXIT_MANUAL'' @ CHR 0x22 # w @ CHR ''}'' # w)
   | ProfileRequest n \<Rightarrow> keyText w ''profile'' (w @ decimalText n @ w @ CHR ''}'' # w)
   | ManualRequest levels minutes \<Rightarrow> keyText w ''levels'' (w @ CHR ''['' # levelsText w levels (CHR '']'' # w @ CHR '','' #
       keyText w ''timeoutMinutes'' (w @ decimalText minutes @ w @ CHR ''}'' # w))))"

definition controlParser :: "control_request \<Rightarrow> luma_parser" where
  "controlParser r = (case r of ProfileRequest n \<Rightarrow> parseProfileRequest
     | ManualRequest levels minutes \<Rightarrow> parseManualRequest | _ \<Rightarrow> parseModeRequest)"

definition controlValue :: "control_request \<Rightarrow> LumaWebRequest" where
  "controlValue r = (case r of
     ModeRequest m \<Rightarrow> LumaWebRequest_default\<lparr>lw_kind := SetMode, lw_mode := m\<rparr>
   | ExitManualRequest \<Rightarrow> LumaWebRequest_default\<lparr>lw_kind := WebExitManual\<rparr>
   | ProfileRequest n \<Rightarrow> LumaWebRequest_default\<lparr>lw_kind := SelectProfile, lw_profileIndex := of_nat (n - 1)\<rparr>
   | ManualRequest levels minutes \<Rightarrow> LumaWebRequest_default\<lparr>lw_kind := SetManual,
       lw_levels := map (\<lambda>n. Fin (of_nat n)) levels, lw_timeoutMinutes := of_nat minutes\<rparr>)"

definition controlOk :: "control_request \<Rightarrow> bool" where
  "controlOk r \<longleftrightarrow> (case r of
     ModeRequest m \<Rightarrow> m \<in> {ModeNormal, ModeService, ModeOff}
   | ExitManualRequest \<Rightarrow> True
   | ProfileRequest n \<Rightarrow> 1 \<le> n \<and> n \<le> PROFILE_COUNT
   | ManualRequest levels minutes \<Rightarrow> length levels = CHANNEL_COUNT \<and> list_all (\<lambda>n. n \<le> 100) levels \<and> minutes \<in> {0, 15, 30, 60})"

lemma blank_start:
  assumes "blanks w" and "\<not> isDigit c" and "c \<noteq> CHR ''.''"
  shows "\<not> startsWithDigit (w @ c # x)" "w @ c # x = [] \<or> hd (w @ c # x) \<noteq> CHR ''.''"
proof -
  have "\<not> isDigit b \<and> b \<noteq> CHR ''.''" if "isBlank b" for b using that by (auto simp: isDigit_def isBlank_def)
  then show "\<not> startsWithDigit (w @ c # x)" "w @ c # x = [] \<or> hd (w @ c # x) \<noteq> CHR ''.''"
    using assms by (cases w; auto simp: startsWithDigit_def blanks_def)+
qed

lemma no_digits [simp]: "\<not> isDigit CHR ''}''" "\<not> isDigit CHR '','' " "\<not> isDigit CHR '']''"
  by (simp_all add: isDigit_def)

lemma key_text: "blanks w \<Longrightarrow> cu_key k (keyText w k x) = Some x"
  by (simp add: keyText_def key_token)

lemma consume_append:
  "blanks w \<Longrightarrow> cu_beginObject (w @ CHR ''{'' # x) = Some x" "blanks w \<Longrightarrow> cu_beginArray (w @ CHR ''['' # x) = Some x"
  "blanks w \<Longrightarrow> cu_comma (w @ CHR '','' # x) = Some x" "blanks w \<Longrightarrow> cu_endArray (w @ CHR '']'' # x) = Some x"
  by (simp_all add: cu_beginObject_def cu_beginArray_def cu_comma_def cu_endArray_def consume_token)

lemma profile_roundtrip:
  assumes "blanks w" and "1 \<le> n" and "n \<le> PROFILE_COUNT" and "length (controlText w (ProfileRequest n)) \<le> MAX_CONTROL_BODY"
  shows "parseProfileRequest (controlText w (ProfileRequest n)) = Inr (controlValue (ProfileRequest n))"
proof -
  define body where "body = controlText w (ProfileRequest n)"
  have b: "body = w @ CHR ''{'' # keyText w ''profile'' (w @ decimalText n @ w @ CHR ''}'' # w)"
    by (simp add: body_def controlText_def)
  have n: "unat (of_nat n :: u16) = n" "(of_nat n :: u16) - 1 = of_nat (n - 1)"
    using assms(2,3) by (simp_all add: unat_of_nat of_nat_diff)
  have i: "cu_unsignedInteger (w @ decimalText n @ w @ CHR ''}'' # w) = Some (of_nat n, w @ CHR ''}'' # w)"
    using unsigned_digits [OF assms(1) _ _ blank_start(1) [OF assms(1), of "CHR ''}''" w]] decimalText_spec [of n] assms(3) by simp
  have "ucast (of_nat (n - 1) :: u16) = (of_nat (n - 1) :: u8)"
    using assms(3) by (simp add: unsigned_of_nat take_bit_nat_eq_self)
  then have index: "ucast ((of_nat n :: u16) - 1) = (of_nat (n - 1) :: u8)" by (simp only: n(2))
  have valid: "validBody body" using assms(4) by (simp add: validBody_def body_def [symmetric]) (simp add: b)
  have "\<not> (of_nat n :: u16) < 1" using n(1) assms(2) by (simp add: word_less_nat_alt)
  then have "parseProfile body = Some (of_nat (n - 1))"
    using valid assms(1,3) n(1) index unfolding parseProfile_def b consume_append(1) [OF assms(1)]
    by (simp add: key_text i end_token)
  then show ?thesis by (simp add: parseProfileRequest_def body_def controlValue_def)
qed

lemma mode_text_parsed:
  assumes "blanks w" and "list_all (\<lambda>c. c \<noteq> CHR 0x22 \<and> c \<noteq> CHR 0x5C \<and> (of_char c :: nat) \<ge> 0x20) m" and "length m < 16"
    and "body = w @ CHR ''{'' # keyText w ''mode'' (w @ CHR 0x22 # m @ CHR 0x22 # w @ CHR ''}'' # w)"
    and "length body \<le> MAX_CONTROL_BODY"
  shows "parseMode body = Some m"
proof -
  have "validBody body" using assms(5) by (simp add: validBody_def) (simp add: assms(4))
  moreover have "cu_text 16 (w @ CHR 0x22 # m @ CHR 0x22 # w @ CHR ''}'' # w) = Some (m, w @ CHR ''}'' # w)"
    using textLoop_chars [OF assms(2), of "[]" 16] assms(1,3) by (simp add: cu_text_def skip_blanks skip_token)
  ultimately show ?thesis using assms(1) by (simp add: parseMode_def assms(4) consume_append key_text end_token)
qed

lemma levels_parsed:
  assumes "blanks w" and "list_all (\<lambda>n. n \<le> 100) ns" and "ns \<noteq> []" and "cs = [CHANNEL_COUNT - length ns..<CHANNEL_COUNT]"
    and "length ns \<le> CHANNEL_COUNT" and "length levels = CHANNEL_COUNT"
  shows "cu_levels cs levels (levelsText w ns (CHR '']'' # x)) =
    Some (take (CHANNEL_COUNT - length ns) levels @ map (\<lambda>n. Fin (of_nat n)) ns, w @ CHR '']'' # x)"
  using assms(2-6)
proof (induction ns arbitrary: cs levels)
  case (Cons n ns)
  define k where "k = CHANNEL_COUNT - length (n # ns)"
  have k: "k < CHANNEL_COUNT" "length ns = CHANNEL_COUNT - Suc k" using Cons.prems by (simp_all add: k_def)
  have n: "n \<le> 100" "list_all (\<lambda>n. n \<le> 100) ns" using Cons.prems(1) by simp_all
  have cs: "cs = k # [Suc k..<CHANNEL_COUNT]"
    using Cons.prems(3) k(1) unfolding k_def [symmetric] by (simp only: upt_conv_Cons)
  have inRange: "\<not> flt (Fin (of_nat n)) LEVEL_MIN_PERCENT \<and> \<not> flt LEVEL_MAX_PERCENT (Fin (of_nat n))"
    using n(1) of_nat_mono [OF n(1), where 'a = rat] by (simp add: LEVEL_MIN_PERCENT_def LEVEL_MAX_PERCENT_def)
  show ?case
  proof (cases ns)
    case Nil
    then have "Suc k = CHANNEL_COUNT" using k by simp
    moreover from this have "CHANNEL_COUNT - Suc 0 = k" by linarith
    ultimately show ?thesis
      using number_digits [OF assms(1) n(1) blank_start [OF assms(1), of "CHR '']''" x]] inRange Nil Cons.prems(5)
      by (simp add: cs k_def [symmetric] upd_conv_take_nth_drop del: upt_8 count_defs)
  next
    case (Cons m ms)
    have nm: "cu_number (w @ decimalText n @ w @ CHR '','' # levelsText w ns (CHR '']'' # x)) =
        Some (Fin (of_nat n), w @ CHR '','' # levelsText w ns (CHR '']'' # x))"
      by (rule number_digits [OF assms(1) n(1) blank_start [OF assms(1)]]) simp_all
    have more: "k + 1 < CHANNEL_COUNT" using k Cons by simp
    have "cu_levels [Suc k..<CHANNEL_COUNT] (levels[k := Fin (of_nat n)]) (levelsText w ns (CHR '']'' # x)) =
      Some (take (CHANNEL_COUNT - length ns) (levels[k := Fin (of_nat n)]) @ map (\<lambda>n. Fin (of_nat n)) ns, w @ CHR '']'' # x)"
      by (rule Cons.IH) (use n k Cons Cons.prems in \<open>simp_all del: upt_8\<close>)
    moreover have "CHANNEL_COUNT - length ns = Suc k" using k by simp
    moreover have "CHANNEL_COUNT - Suc (Suc (length ms)) = k" using Cons by (simp add: k_def)
    moreover have "take (Suc k) (levels[k := Fin (of_nat n)]) = take k levels @ [Fin (of_nat n)]"
      using k(1) Cons.prems(5) by (simp add: take_Suc_conv_app_nth del: count_defs)
    ultimately show ?thesis using nm more inRange Cons
      by (simp add: cs k_def [symmetric] consume_append(3) [OF assms(1)] del: upt_8 count_defs)
  qed
qed simp

lemma manual_roundtrip:
  assumes "blanks w" and "controlOk (ManualRequest ns minutes)"
    and "length (controlText w (ManualRequest ns minutes)) \<le> MAX_CONTROL_BODY"
  shows "parseManualRequest (controlText w (ManualRequest ns minutes)) = Inr (controlValue (ManualRequest ns minutes))"
proof -
  define body where "body = controlText w (ManualRequest ns minutes)"
  define z where "z = w @ decimalText minutes @ w @ CHR ''}'' # w"
  define y where "y = w @ CHR '','' # keyText w ''timeoutMinutes'' z"
  have b: "body = w @ CHR ''{'' # keyText w ''levels'' (w @ CHR ''['' # levelsText w ns (CHR '']'' # y))"
    by (simp add: body_def controlText_def y_def z_def)
  have ns: "length ns = CHANNEL_COUNT" "list_all (\<lambda>n. n \<le> 100) ns" and minutes: "minutes \<in> {0, 15, 30, 60}"
    using assms(2) by (simp_all add: controlOk_def)
  have levels: "cu_levels [0..<CHANNEL_COUNT] zeroLevels (levelsText w ns (CHR '']'' # y)) =
      Some (map (\<lambda>n. Fin (of_nat n)) ns, w @ CHR '']'' # y)"
    using levels_parsed [OF assms(1) ns(2), of "[0..<CHANNEL_COUNT]" zeroLevels y] ns(1) by (cases ns) simp_all
  have i: "cu_unsignedInteger z = Some (of_nat minutes, w @ CHR ''}'' # w)"
    using unsigned_digits [OF assms(1) _ _ blank_start(1) [OF assms(1), of "CHR ''}''" w]] decimalText_spec [of minutes] minutes
    unfolding z_def by auto
  have t: "validManualTimeout (of_nat minutes)" using minutes by (auto simp: validManualTimeout_def)
  have valid: "validBody body" using assms(3) by (simp add: validBody_def body_def [symmetric]) (simp add: b)
  have "parseManual body = Some (map (\<lambda>n. Fin (of_nat n)) ns, of_nat minutes)"
    using valid unfolding parseManual_def b consume_append(1) [OF assms(1)]
    by (simp add: key_text [OF assms(1)] consume_append(2,4) [OF assms(1)] levels i t end_token [OF assms(1,1)] del: upt_8 replicate_8 count_defs)
      (simp add: y_def consume_append(3) [OF assms(1)] key_text [OF assms(1)] i t end_token [OF assms(1,1)])
  then show ?thesis by (simp add: parseManualRequest_def body_def controlValue_def)
qed

lemma control_text_parsed:
  assumes "blanks w" and "controlOk r" and "length (controlText w r) \<le> MAX_CONTROL_BODY"
  shows "controlParser r (controlText w r) = Inr (controlValue r)"
proof (cases r)
  case (ModeRequest m)
  have chars: "list_all (\<lambda>c. c \<noteq> CHR 0x22 \<and> c \<noteq> CHR 0x5C \<and> (of_char c :: nat) \<ge> 0x20) (modeText m)" "length (modeText m) < 16"
    by (cases m; simp)+
  have "parseMode (controlText w r) = Some (modeText m)"
    by (rule mode_text_parsed [OF assms(1) chars _ assms(3)]) (simp add: controlText_def ModeRequest)
  then show ?thesis using assms(2) by (auto simp: ModeRequest controlParser_def parseModeRequest_def controlValue_def
      controlOk_def Let_def LumaWebRequest_default_def)
next
  case ExitManualRequest
  have "parseMode (controlText w r) = Some ''EXIT_MANUAL''"
    by (rule mode_text_parsed [OF assms(1) _ _ _ assms(3)]) (simp_all add: controlText_def ExitManualRequest)
  then show ?thesis by (simp add: ExitManualRequest controlParser_def parseModeRequest_def controlValue_def)
next
  case (ProfileRequest n)
  then show ?thesis using profile_roundtrip [OF assms(1), of n] assms(2,3) by (simp add: controlParser_def controlOk_def)
next
  case (ManualRequest ns minutes)
  then show ?thesis using manual_roundtrip [OF assms(1), of ns minutes] assms(2,3) by (simp add: controlParser_def)
qed

section \<open>What a parsed request satisfies\<close>

lemma levels_valid:
  assumes "cu_levels cs levels c = Some (out, rest)" and "set cs \<subseteq> {..<length levels}" and "distinct cs"
  shows "length out = length levels \<and> (\<forall>i\<in>set cs. isfinite (out ! i) \<and> \<not> flt (out ! i) LEVEL_MIN_PERCENT \<and>
    \<not> flt LEVEL_MAX_PERCENT (out ! i)) \<and> (\<forall>i. i \<notin> set cs \<longrightarrow> out ! i = levels ! i)"
  using assms
proof (induction cs arbitrary: levels c)
  case (Cons k ks)
  obtain v c1 where v: "cu_number c = Some (v, c1)" "\<not> flt v LEVEL_MIN_PERCENT" "\<not> flt LEVEL_MAX_PERCENT v"
    using Cons.prems(1) by (auto split: option.splits if_splits)
  have fin: "isfinite v" using v(1) by (auto simp: cu_number_def Let_def split: option.splits prod.splits if_splits)
  obtain c2 where "cu_levels ks (levels[k := v]) c2 = Some (out, rest)"
    using Cons.prems(1) v by (auto split: option.splits if_splits)
  from Cons.IH [OF this] Cons.prems(2,3) fin v(2,3) show ?case by (auto simp: nth_list_update)
qed simp

lemma parseManual_valid:
  assumes "parseManual body = Some (levels, timeoutMinutes)"
  shows "validManualLevels levels \<and> validManualTimeout timeoutMinutes"
proof -
  obtain c c' where l: "cu_levels [0..<CHANNEL_COUNT] zeroLevels c = Some (levels, c')" and t: "validManualTimeout timeoutMinutes"
    using assms by (auto simp: parseManual_def bind_eq_Some_conv simp del: upt_8 replicate_8 cu_levels.simps split: if_splits)
  have z: "set [0..<CHANNEL_COUNT] \<subseteq> {..<length zeroLevels}" "distinct [0..<CHANNEL_COUNT]" by auto
  from levels_valid [OF l z] t show ?thesis
    by (simp add: validManualLevels_def list_all_iff del: upt_8 replicate_8)
qed

text \<open>The requests a parser can give.\<close>

definition requestValid :: "LumaWebRequest \<Rightarrow> bool" where
  "requestValid q \<longleftrightarrow> (case lw_kind q of
     SetMode \<Rightarrow> lw_mode q \<in> {ModeNormal, ModeService, ModeOff}
   | WebExitManual \<Rightarrow> True
   | SetManual \<Rightarrow> validManualLevels (lw_levels q) \<and> validManualTimeout (lw_timeoutMinutes q)
   | SelectProfile \<Rightarrow> unat (lw_profileIndex q) < PROFILE_COUNT)"

lemma parseProfile_valid:
  assumes "parseProfile body = Some index"
  shows "unat index < PROFILE_COUNT"
proof -
  obtain p :: u16 where p: "\<not> p < 1" "unat p \<le> PROFILE_COUNT" "index = ucast (p - 1)"
    using assms by (auto simp: parseProfile_def bind_eq_Some_conv split: if_splits)
  from p(1) have "unat p \<noteq> 0" unfolding word_less_nat_alt by simp
  then have "unat (p - 1) < 5" using p(2) by (simp add: unat_sub_if')
  moreover have "unat (ucast (p - 1) :: u8) \<le> unat (p - 1)" by (simp add: unsigned_ucast_eq)
  ultimately show ?thesis using p(3) by simp
qed

lemma parsed_valid:
  assumes "parser \<in> {parseModeRequest, parseProfileRequest, parseManualRequest}" and "parser body = Inr q"
  shows "requestValid q"
  using assms parseManual_valid [of body] parseProfile_valid [of body]
  by (auto simp: parseModeRequest_def parseProfileRequest_def parseManualRequest_def requestValid_def
      LumaWebRequest_default_def Let_def split: option.splits if_splits)

lemma valid_request_accepted:
  assumes "firmwareOk s" and "requestValid q"
  shows "fst (luma_execute env nowMs q s) \<noteq> Invalid"
proof (cases "lw_kind q")
  case SelectProfile
  have "validateDeviceConfig ((fw_config s)\<lparr>dc_activeProfileIndex := lw_profileIndex q\<rparr>)" if "fs_running (fw_status s)"
    using validConfig_profile assms SelectProfile that by (simp add: firmwareOk_def requestValid_def)
  then show ?thesis using assms SelectProfile
    by (simp add: luma_execute_def fw_setActiveProfileIndex_def requestValid_def Let_def split_beta)
qed (use assms(2) in \<open>auto simp: luma_execute_def fw_commandMode_def fw_exitManual_def fw_commandManual_def requestValid_def
      Let_def\<close>)

end
