(* ===== verification/LumaProperties.thy ===== *)
theory LumaProperties
  imports LumaTimers LumaRequests
begin

text \<open>
  The properties of LumaSense, from the HTTP request to the lamp outputs, with a concrete device (simulated
  pins, an empty flash memory and a clock chip in memory) for the witnesses.
\<close>

section \<open>A concrete device\<close>

lemma simulated_set [simp]: "gpioSetLevel simulatedGpio p l g = (True, (fst g, (snd g)(p := l)))"
  and simulated_write [simp]: "ledcWriteDuty simulatedGpio p v g = (True, ((fst g)(p := v), snd g))"
  and simulated_hold [simp]: "gpioHoldEn simulatedGpio p g = (True, g)" "gpioHoldDis simulatedGpio p g = (True, g)"
  and simulated_attach [simp]: "ledcAttach simulatedGpio p f b c g = (True, ((fst g)(p := 0), snd g))"
  by (simp_all add: simulatedGpio_def split_beta)

lemma simulated_safe: "fst (setPinToSafeGpioOff pins simulatedGpio channel h) = (channel < CHANNEL_COUNT)"
  "lh_attached (snd (setPinToSafeGpioOff pins simulatedGpio channel h)) = lh_attached h"
  by (simp_all add: setPinToSafeGpioOff_def onGpio_def Let_def)

lemma simulated_safePins:
  "set cs \<subseteq> {..<CHANNEL_COUNT} \<Longrightarrow> fst (safePins pins simulatedGpio cs h) \<and>
     lh_attached (snd (safePins pins simulatedGpio cs h)) = lh_attached h"
proof (induction cs arbitrary: h)
  case (Cons c cs)
  obtain h1 where h: "setPinToSafeGpioOff pins simulatedGpio c h = (True, h1)" "lh_attached h1 = lh_attached h"
    using simulated_safe [of pins c h] Cons.prems by (cases "setPinToSafeGpioOff pins simulatedGpio c h") auto
  then show ?case using Cons.IH [of h1] Cons.prems by simp
qed simp

lemma simulated_attachPin:
  assumes "c < CHANNEL_COUNT" and "length (lh_attached h) = CHANNEL_COUNT"
  shows "fst (attachPin pins simulatedGpio c h)" "length (lh_attached (snd (attachPin pins simulatedGpio c h))) = CHANNEL_COUNT"
  using assms by (simp_all add: attachPin_def onGpio_def writePhysicalPwm_def Let_def)

lemma simulated_attachPins:
  "set cs \<subseteq> {..<CHANNEL_COUNT} \<Longrightarrow> length (lh_attached h) = CHANNEL_COUNT \<Longrightarrow> fst (attachPins pins simulatedGpio cs h)"
proof (induction cs arbitrary: h)
  case (Cons c cs)
  obtain h1 where h: "attachPin pins simulatedGpio c h = (True, h1)" "length (lh_attached h1) = CHANNEL_COUNT"
    using simulated_attachPin [of c h pins] Cons.prems by (cases "attachPin pins simulatedGpio c h") auto
  then show ?case using Cons.IH [of h1] Cons.prems by simp
qed simp

lemma simulated_begin: "fst (lamp_begin pins simulatedGpio (Some cs) h)"
proof -
  define h0 where "h0 = h\<lparr>lh_ready := False, lh_pwmInverted := map (\<lambda>ch. cc_pwmInverted (cs ! ch)) [0..<CHANNEL_COUNT],
     lh_attached := replicate CHANNEL_COUNT False\<rparr>"
  have s: "set [0..<CHANNEL_COUNT] \<subseteq> {..<CHANNEL_COUNT}" by auto
  from simulated_safePins [OF s, of pins h0]
  obtain h1 where h1: "safePins pins simulatedGpio [0..<CHANNEL_COUNT] h0 = (True, h1)" "lh_attached h1 = lh_attached h0"
    by (cases "safePins pins simulatedGpio [0..<CHANNEL_COUNT] h0") simp
  have "length (lh_attached h1) = CHANNEL_COUNT" using h1(2) by (simp add: h0_def)
  from simulated_attachPins [OF s this, of pins]
  obtain h2 where "attachPins pins simulatedGpio [0..<CHANNEL_COUNT] h1 = (True, h2)"
    by (cases "attachPins pins simulatedGpio [0..<CHANNEL_COUNT] h1") simp
  then show ?thesis using h1 unfolding lamp_begin_def Let_def option.case h0_def [symmetric] by (simp del: safePins.simps attachPins.simps upt_8)
qed

definition demoEnv :: "(((u8 \<Rightarrow> u32) \<times> (u8 \<Rightarrow> u32)) lamp_hardware, cstr \<Rightarrow> bytes, u8 \<Rightarrow> u8) firmware_env" where
  "demoEnv = \<lparr>en_image = \<lparr>li_size = 4, li_bytes = (\<lambda>_. [0, 0, 0, 0]), li_value = (\<lambda>_. createDefaultConfig)\<rparr>,
     en_backend = preferencesStorageBackend kvPreferences, en_bus = memoryBus,
     en_hardware = lampHardware AQMA_PWM_PINS simulatedGpio, en_powf = (\<lambda>x g. x), en_candidateAddress = 0\<rparr>"

definition demoNew :: "(((u8 \<Rightarrow> u32) \<times> (u8 \<Rightarrow> u32)) lamp_hardware, cstr \<Rightarrow> bytes, u8 \<Rightarrow> u8) firmware_app" where
  "demoNew = \<lparr>fw_hardware = AqmaHardware_new (\<lambda>_. 0, \<lambda>_. 0), fw_storage = LumaStorage_new (en_image demoEnv) (\<lambda>_. []) 100,
     fw_time = EuropeWarsawTimeService_new (RtcService_new (\<lambda>_. 0) \<lparr>rc_sdaPin = 21, rc_sclPin = 22, rc_i2cAddress = 0x68\<rparr>), fw_config = createDefaultConfig,
     fw_core = LumaCore_new, fw_status = FirmwareStatus_default, fw_cachedLocalTime = emptyLocalTime,
     fw_lastRtcReadMs = 0, fw_rtcReadScheduled = False\<rparr>"

definition demoStarted :: "(((u8 \<Rightarrow> u32) \<times> (u8 \<Rightarrow> u32)) lamp_hardware, cstr \<Rightarrow> bytes, u8 \<Rightarrow> u8) firmware_app" where
  "demoStarted = snd (fw_begin demoEnv 0 demoNew)"

definition demoOff :: "(((u8 \<Rightarrow> u32) \<times> (u8 \<Rightarrow> u32)) lamp_hardware, cstr \<Rightarrow> bytes, u8 \<Rightarrow> u8) firmware_app" where
  "demoOff = fw_exec demoEnv (FwCommandMode ModeOff) demoStarted"

lemma simulated_channelOff:
  assumes "c < CHANNEL_COUNT"
  shows "fst (channelOff pins simulatedGpio c h)"
  using assms simulated_safe [of pins c h]
  by (simp add: channelOff_def writePhysicalPwm_def onGpio_def Let_def split_beta)

lemma simulated_channelsOff: "set cs \<subseteq> {..<CHANNEL_COUNT} \<Longrightarrow> fst (channelsOff pins simulatedGpio cs h)"
proof (induction cs arbitrary: h)
  case (Cons c cs)
  then show ?case using simulated_channelOff [of c pins h] by (simp add: Let_def split_beta)
qed simp

lemma simulated_off: "fst (allChannelsOff pins simulatedGpio h)"
proof -
  have "set [0..<CHANNEL_COUNT] \<subseteq> {..<CHANNEL_COUNT}" by auto
  from simulated_channelsOff [OF this, of pins h] show ?thesis unfolding allChannelsOff_def Let_def by (simp add: split_beta)
qed

lemma demo_running:
  "fw_begin demoEnv 0 demoNew = (True, demoStarted)" "fs_running (fw_status demoStarted)"
  "fw_reach demoEnv demoStarted" "firmwareOk demoStarted"
proof -
  obtain ok t where t: "fw_begin demoEnv 0 demoNew = (ok, t)" by (metis surj_pair)
  have ok
    using fw_begin_config [OF t] simulated_begin [of AQMA_PWM_PINS "dc_channels (fw_config t)" "fw_hardware demoNew"]
    by (simp add: demoEnv_def lampHardware_def)
  then show "fw_begin demoEnv 0 demoNew = (True, demoStarted)" using t by (simp add: demoStarted_def)
  from fw_begin_ok [OF this] show "fs_running (fw_status demoStarted)" "firmwareOk demoStarted" by simp_all
  show "fw_reach demoEnv demoStarted" by (rule fw_reach.start [OF \<open>fw_begin demoEnv 0 demoNew = (True, demoStarted)\<close>])
qed

lemma demo_off:
  "fw_reach demoEnv demoOff" "fs_running (fw_status demoOff)" "ru_mode (co_state (fw_core demoOff)) = ModeOff"
  "fw_hardware demoOff = fw_hardware demoStarted"
proof -
  show "fw_reach demoEnv demoOff" unfolding demoOff_def by (rule fw_reach.call [OF demo_running(3)])
  have core: "fw_core demoStarted = snd (core_begin (fw_config demoStarted) LumaCore_new)"
    using fw_begin_core [OF demo_running(1)] by (simp add: demoNew_def)
  have valid: "validateDeviceConfig (fw_config demoStarted)" using demo_running(2,4) by (simp add: firmwareOk_def)
  have m: "ru_mode (co_state (fw_core demoStarted)) = ModeNormal" "mm_mode (co_modes (fw_core demoStarted)) = ModeNormal"
    unfolding core by (simp_all add: core_begin_def Let_def mm_resetToNormal_def)
  have "core_enterOff (fw_core demoStarted) = core_exec CoreEnterOff (fw_core demoStarted)" by simp
  moreover have "ru_mode (co_state (core_enterOff (fw_core demoStarted))) = ModeOff"
    using m(2) by (simp add: core_enterOff_def mm_enterOff_def Let_def)
  ultimately show "fs_running (fw_status demoOff)" "ru_mode (co_state (fw_core demoOff)) = ModeOff"
    "fw_hardware demoOff = fw_hardware demoStarted"
    using demo_running(2) m(1) by (simp_all add: demoOff_def fw_commandMode_def reflectsMode_def Let_def)
qed

lemma demo_hardware:
  "en_hardware demoEnv = lampHardware AQMA_PWM_PINS simulatedGpio" "lh_ready (fw_hardware demoStarted)"
proof -
  show hw: "en_hardware demoEnv = lampHardware AQMA_PWM_PINS simulatedGpio" by (simp add: demoEnv_def)
  have "fw_hardware demoStarted = snd (lamp_begin AQMA_PWM_PINS simulatedGpio
      (Some (dc_channels (fw_config demoStarted))) (fw_hardware demoNew))"
    using fw_begin_config [OF demo_running(1)] by (simp add: hw lampHardware_def)
  then have "lamp_begin AQMA_PWM_PINS simulatedGpio (Some (dc_channels (fw_config demoStarted))) (fw_hardware demoNew) =
      (True, fw_hardware demoStarted)"
    by (simp add: prod_eq_iff simulated_begin)
  from aqma.lamp_begin_dark [OF this] show "lh_ready (fw_hardware demoStarted)" by blast
qed

lemma demo_update: "fst (fw_update demoEnv 5 demoOff)"
proof -
  obtain ok t where t: "fw_update demoEnv 5 demoOff = (ok, t)" by (metis surj_pair)
  note hw = demo_hardware(1)
  have ready: "lh_ready (fw_hardware demoOff)" using demo_hardware(2) demo_off(4) by simp
  have mode: "ru_mode (co_state (fw_updatedCore demoEnv 5 demoOff)) = ModeOff"
    using fw_reach_ok [OF demo_off(1)] demo_off(2,3) off_update by (simp add: fw_updatedCore_def firmwareOk_def)
  have ok
  proof (cases rule: fw_update_shape [OF demo_off(2) t, case_names notReady failed written])
    case notReady
    then show ?thesis using ready by (simp add: hw lampHardware_def)
  next
    case (failed u v)
    have "fst (hwAllChannelsOff (en_hardware demoEnv) (fw_hardware v))" by (simp add: hw lampHardware_def simulated_off)
    then show ?thesis using failed mode by (simp add: writeOutputs_def Let_def split_beta)
  qed
  then show ?thesis using t by simp
qed

lemma base_call_off:
  assumes "modesOk s" and "overrideOf call = None" and "\<not> exitOf call" and "mode_exec call s = (True, t)"
  shows "(mm_mode t = ModeOff) = (call = EnterOff)"
proof (cases call)
  case EnterOff
  then show ?thesis using assms(4) by (auto simp: mm_enterOff_def split: if_splits)
qed (use assms in \<open>auto simp: overrideOf_def exitOf_def mode_defs refresh_mode topMode_def modesOk_def split: if_splits\<close>)

section \<open>Properties\<close>

text \<open>
  C2: The lamp shows what the core computed, within the limits. In every reachable state of a running
  application over the AQma (or LOLIN32) outputs, an update that succeeds leaves the lamp dark when the mode is
  off or the time is invalid; otherwise every channel has the duty of a level between 0 and 100 percent, at most
  the limit of the channel, and 0 for a disabled channel. An update that fails has stopped the application
  and has asked the outputs for all channels off.
\<close>

theorem lamp_output_safe:
  assumes "lamp_pins gpio duty latch pins" and "en_hardware env = lampHardware pins gpio"
    and "fw_reach env s" and "fs_running (fw_status s)" and "fw_update env nowMs s = (ok, t)"
  shows "if \<not> ok then \<not> fs_running (fw_status t) \<and> (\<exists>h. fw_hardware t = snd (allChannelsOff pins gpio h))
    else fs_running (fw_status t) \<and>
      (if ru_mode (co_state (fw_core t)) = ModeOff \<or> \<not> ru_timeValid (co_state (fw_core t))
       then lampDark duty latch pins (fw_hardware t)
       else (\<forall>channel<CHANNEL_COUNT. \<exists>q. 0 \<le> q \<and> q \<le> 100 \<and> showsLevel duty pins (fw_hardware t) channel (Fin q) \<and>
         fle (Fin q) (cc_hardMaxPercent (dc_channels (fw_config t) ! channel)) \<and>
         (cc_enabled (dc_channels (fw_config t) ! channel) \<or> q = 0)))"
proof -
  have off: "hwAllChannelsOff (en_hardware env) = allChannelsOff pins gpio" by (simp add: assms(2) lampHardware_def)
  show ?thesis
  proof (cases rule: fw_update_shape [OF assms(4,5), case_names notReady failed written])
    case notReady
    then show ?thesis by (auto simp: enterHardwareFailSafe_def off Let_def)
  next
    case (failed u)
    then show ?thesis by (auto simp: enterHardwareFailSafe_def off Let_def)
  next
    case (written u)
    have f: "fw_core t = fw_core u" "fw_config t = fw_config u" "fw_status t = fw_status u"
      using writeOutputs_fields [of env u] written(2) by simp_all
    have "levelsWithin (fw_config t) (ru_actualLevels (co_state (fw_core t)))"
      using updatedCore_keeps(3) [OF fw_reach_ok [OF assms(3)] assms(4)] written f by simp
    note within = levelsWithin_at [OF this]
    note shown = lamp_output.writeOutputs_shows [OF lamp_pins.lamp_contract [OF assms(1)] written(2) assms(2), folded f]
    show ?thesis
    proof (cases "ru_mode (co_state (fw_core t)) = ModeOff \<or> \<not> ru_timeValid (co_state (fw_core t))")
      case True
      then show ?thesis using shown written(1,5) f by (simp split: if_splits)
    next
      case False
      then have all: "showsLevel duty pins (fw_hardware t) channel (ru_actualLevels (co_state (fw_core t)) ! channel)"
        if "channel < CHANNEL_COUNT" for channel using shown that by simp
      have "\<exists>q. 0 \<le> q \<and> q \<le> 100 \<and> showsLevel duty pins (fw_hardware t) channel (Fin q) \<and>
         fle (Fin q) (cc_hardMaxPercent (dc_channels (fw_config t) ! channel)) \<and>
         (cc_enabled (dc_channels (fw_config t) ! channel) \<or> q = 0)" if "channel < CHANNEL_COUNT" for channel
        using within [OF that] all [OF that] by auto
      then show ?thesis using False written(1,5) f by simp
    qed
  qed
qed

theorem lamp_output_safe_witness: "lampDark fst snd AQMA_PWM_PINS (fw_hardware (snd (fw_update demoEnv 5 demoOff)))"
proof -
  have mode: "ru_mode (co_state (fw_core (snd (fw_update demoEnv 5 demoOff)))) = ModeOff"
    using offOk_exec [of demoOff demoEnv "FwUpdate 5"] fw_reach_ok [OF demo_off(1)] demo_off(3) by (simp add: offOk_def)
  have "fw_update demoEnv 5 demoOff = (True, snd (fw_update demoEnv 5 demoOff))" by (simp add: prod_eq_iff demo_update)
  from lamp_output_safe [OF aqma.lamp_pins_axioms demo_hardware(1) demo_off(1,2) this] mode show ?thesis by simp
qed

text \<open>
  C18: A start depends on the lamp outputs only. Whatever the storage and the clock do, \<open>begin\<close> succeeds exactly
  when the outputs start, and leaves a valid configuration, the default one unless a record was loaded; after a
  success the application runs and every channel is attached and dark, after a failure it does not run.
\<close>

theorem lamp_starts:
  assumes "lamp_pins gpio duty latch pins" and "en_hardware env = lampHardware pins gpio"
    and "fw_begin env nowMs s = (ok, t)"
  shows "validateDeviceConfig (fw_config t) \<and> (fs_configSource (fw_status t) = Nvs \<or> fw_config t = createDefaultConfig) \<and>
    ok = fst (lamp_begin pins gpio (Some (dc_channels (fw_config t))) (fw_hardware s)) \<and>
    fs_running (fw_status t) = ok \<and>
    (if ok then lh_ready (fw_hardware t) \<and> lampDark duty latch pins (fw_hardware t) \<and>
       (\<forall>channel<CHANNEL_COUNT. lh_attached (fw_hardware t) ! channel) else True)"
proof -
  have hw: "hwBegin (en_hardware env) = lamp_begin pins gpio" by (simp add: assms(2) lampHardware_def)
  note c = fw_begin_config [OF assms(3), unfolded hw]
  have valid: "validateDeviceConfig (fw_config t)" "ok = fst (lamp_begin pins gpio (Some (dc_channels (fw_config t))) (fw_hardware s))"
    using c by blast+
  have source: "fs_configSource (fw_status t) = Nvs \<or> fw_config t = createDefaultConfig"
    using c by (cases "fs_configSource (fw_status t)") simp_all
  have dark: "if ok then lh_ready (fw_hardware t) \<and> lampDark duty latch pins (fw_hardware t) \<and>
      (\<forall>channel<CHANNEL_COUNT. lh_attached (fw_hardware t) ! channel) else True"
  proof (cases ok)
    case True
    then have "lamp_begin pins gpio (Some (dc_channels (fw_config t))) (fw_hardware s) = (True, fw_hardware t)"
      using c by (simp only: prod_eq_iff fst_conv snd_conv simp_thms)
    from lamp_pins.lamp_begin_dark [OF assms(1) this] show ?thesis unfolding if_P [OF True] by blast
  qed simp
  show ?thesis by (intro conjI valid source fw_begin_ok(2) [OF assms(3)] dark)
qed

theorem lamp_starts_witness: "lampDark fst snd AQMA_PWM_PINS (fw_hardware demoStarted) \<and> validateDeviceConfig (fw_config demoStarted)"
  using lamp_starts [OF aqma.lamp_pins_axioms demo_hardware(1) demo_running(1)] unfolding if_True by blast

text \<open>
  A defect of \<open>commandMode\<close>. Of the ways out of the off mode (\<open>begin\<close> of the application, \<open>exitOff\<close> of the core), the
  commands reach neither: none of the updates and of the profile, mode and manual commands leaves off, and the command
  for the normal mode is answered \<open>NoChange\<close>. Its branch for \<open>exitOff\<close> cannot be reached, since \<open>reflectsMode\<close>
  looks at the return mode, which in off is normal.
\<close>

theorem off_not_left_by_commands:
  assumes "fw_reach env s" and "fs_running (fw_status s)" and "ru_mode (co_state (fw_core s)) = ModeOff"
  shows "ru_mode (co_state (fw_core (fw_run env calls s))) = ModeOff \<and> fw_commandMode ModeNormal s = (NoChange, s)"
proof -
  have ok: "firmwareOk s" using assms(1) by (rule fw_reach_ok)
  then have "offOk (fw_run env calls s)" using offOk_run assms(3) by (auto simp: offOk_def)
  moreover have "ru_returnMode (co_state (fw_core s)) = ModeNormal"
    using ok assms(2,3) off_return by (simp add: firmwareOk_def)
  ultimately show ?thesis using assms(2) by (simp add: offOk_def fw_commandMode_def reflectsMode_def)
qed



text \<open>
  C16: Every control request is read back. The JSON text of a request (mode, profile 1 to 5, or eight integer levels up to
  100 with a time limit of 0, 15, 30 or 60 minutes), with the same blanks around every token and at most 512
  characters, is parsed to that request.
\<close>

theorem control_roundtrip:
  assumes "blanks w" and "controlOk r" and "length (controlText w r) \<le> MAX_CONTROL_BODY"
  shows "controlParser r (controlText w r) = Inr (controlValue r)"
  using assms by (rule control_text_parsed)

theorem control_roundtrip_witness:
  "parseProfileRequest (controlText '' '' (ProfileRequest 3)) =
     Inr (LumaWebRequest_default\<lparr>lw_kind := SelectProfile, lw_profileIndex := 2\<rparr>)"
proof -
  have "char_of (51 :: nat) = CHR ''3''" using char_of_char [of "CHR ''3''", where 'a = nat] by simp
  then have t: "decimalText 3 = ''3''" by (simp add: decimalText.simps)
  have "length (controlText '' '' (ProfileRequest 3)) \<le> MAX_CONTROL_BODY"
    by (simp add: controlText_def keyText_def MAX_CONTROL_BODY_def t)
  from control_roundtrip [OF _ _ this] show ?thesis
    by (simp add: blanks_def isBlank_def controlOk_def controlParser_def controlValue_def)
qed

text \<open>
  C20: What the parsers accept, the application does not call invalid. Whatever body one of the three parsers accepts,
  the command executed for it in a reachable state is applied, changes nothing, is rejected by the state or
  fails in the storage, but is never answered \<open>Invalid\<close>.
\<close>

theorem control_requests_accepted:
  assumes "fw_reach env s" and "parser \<in> {parseModeRequest, parseProfileRequest, parseManualRequest}"
    and "parser body = Inr request"
  shows "fst (luma_execute env nowMs request s) \<in> {Applied, NoChange, Rejected, StorageFailure}"
proof -
  have "fst (luma_execute env nowMs request s) \<noteq> Invalid"
    by (rule valid_request_accepted [OF fw_reach_ok [OF assms(1)] parsed_valid [OF assms(2,3)]])
  then show ?thesis by (cases "fst (luma_execute env nowMs request s)") simp_all
qed

theorem control_requests_accepted_witness:
  "fst (luma_execute demoEnv 7 (LumaWebRequest_default\<lparr>lw_kind := SetMode, lw_mode := ModeOff\<rparr>) demoStarted)
     \<in> {Applied, NoChange, Rejected, StorageFailure}"
proof -
  have "parseModeRequest (controlText '''' (ModeRequest ModeOff)) =
      Inr (LumaWebRequest_default\<lparr>lw_kind := SetMode, lw_mode := ModeOff\<rparr>)"
    using control_text_parsed [of "''''" "ModeRequest ModeOff"]
    by (simp add: blanks_def controlOk_def controlParser_def controlValue_def controlText_def keyText_def MAX_CONTROL_BODY_def)
  then show ?thesis using control_requests_accepted [OF demo_running(3), of parseModeRequest] by simp
qed

text \<open>
  C17: The mode manager is a stack. After any calls the mode is the first of the active modes in the order of
  priority (a base mode under the overrides) and the return mode the next one; an accepted override is pushed over a mode of
  lower priority, leaving the override in force pops it, only \<open>enterOff\<close> makes the mode off, and a refused call
  changes nothing.
\<close>

theorem mode_stack:
  "let s = modesAfter calls; (ok, t) = mode_exec call s in
     mm_mode s = hd (activeModes s) \<and> mm_returnMode s = hd (tl (activeModes s)) \<and>
     (if \<not> ok then t = s
      else if exitOf call then mm_mode t = mm_returnMode s \<and> priorityOf (mm_mode t) < priorityOf (mm_mode s)
      else (case overrideOf call of None \<Rightarrow> (mm_mode t = ModeOff) = (call = EnterOff) | Some m \<Rightarrow>
        mm_mode t = m \<and> mm_returnMode t = mm_mode s \<and> priorityOf (mm_mode s) < priorityOf m))"
proof -
  obtain ok t where e: "mode_exec call (modesAfter calls) = (ok, t)" by (metis surj_pair)
  have ok: "modesOk (modesAfter calls)" by (rule modesAfter_ok)
  have top: "mm_mode (modesAfter calls) = hd (activeModes (modesAfter calls))"
    "mm_returnMode (modesAfter calls) = hd (tl (activeModes (modesAfter calls)))" using ok by (simp_all add: modesOk_def)
  show ?thesis
  proof (cases ok)
    case False
    then show ?thesis using e top mode_exec_refused [of call "modesAfter calls" t] by (simp add: Let_def)
  next
    case True
    note e = e [unfolded eqTrueI [OF True]]
    show ?thesis
    proof (cases "exitOf call")
      case True
      from exit_pops [OF ok True e] show ?thesis
        unfolding Let_def e prod.case not_True_eq_False if_False if_P [OF True] using top by blast
    next
      case False
      show ?thesis
      proof (cases "overrideOf call")
        case None
        then show ?thesis using base_call_off [OF ok None False e] False e top by (simp add: Let_def)
      next
        case (Some m)
        then show ?thesis using enter_pushes [OF ok Some e] False e top by (simp add: Let_def)
      qed
    qed
  qed
qed

end
