(* ===== verification/Spec2Isabelle.thy ===== *)
theory Spec2Isabelle
  imports ConfigProperties TimeProperties SystemProperties HydroSettings NetworkProperties BridgeProperties LumaProperties
begin

text \<open>
  Verification of the core of aquaOne, a family of aquarium controllers for the ESP32.
\<close>

end
